(* ===== verification/Prelude.thy ===== *)
theory Prelude
  imports Main "HOL-Library.AList" "HOL-Library.Char_ord" "HOL-Library.List_Lexorder"
    "HOL-Library.Product_Lexorder"
begin

text \<open>
  Shared vocabulary of the development: Python exceptions as a datatype, results that are either
  an exception or a value, the string operations of Python's standard library that the modelled
  code calls, decimal numerals, and the generic lemmas on them.

  Text is a HOL \<open>string\<close>: a character stands for the code point of the same number, so the model
  covers texts over U+0000 to U+00FF. Lists of pairs updated with \<open>AList.update\<close> and
  \<open>AList.delete\<close> stand for Python dictionaries with string keys; the order of the list is the
  order in which the model iterates over the dictionary, which Python 2 leaves unspecified.
\<close>

section \<open>Collections of rewrite rules\<close>

named_theorems res_simps \<comment> \<open>results: binding, mapping, inversion\<close>
named_theorems str_simps \<comment> \<open>strings: searching, splitting, joining\<close>
named_theorems dict_simps \<comment> \<open>dictionaries: lookup after update\<close>

section \<open>Exceptions and results\<close>

datatype exc =
    KeyError string
  | IndexError
  | ValueError string
  | TypeError string
  | AttributeError string
  | NameError string
  | UnboundLocalError string
  | NotImplementedError
  | StopIteration
  | SystemExit int
  | IOError string
  | OperationalError string
  | IntegrityError string
  | HTTPError int
  | TweepError string
  | TweepStatus string int
  | TwitterError string
  | FileCacheError string
  | OAuthError string
  | MissingSignature string
  | PsutilError string
  | OSError string
  | AssertionError string
  | GraphAPIError string string
  | BinasciiError string
  | HttpLibError string
  | TwythonError string
  | APILimit string
  | AuthError string

type_synonym 'a res = "exc + 'a"

definition rbind :: "'a res \<Rightarrow> ('a \<Rightarrow> 'b res) \<Rightarrow> 'b res" where
  "rbind r f = (case r of Inl e \<Rightarrow> Inl e | Inr x \<Rightarrow> f x)"

lemma rbind_Inl [simp, res_simps]: "rbind (Inl e) f = Inl e"
  by (simp add: rbind_def)

lemma rbind_Inr [simp, res_simps]: "rbind (Inr x) f = f x"
  by (simp add: rbind_def)

lemma rbind_eq_Inr [res_simps]: "rbind r f = Inr y \<longleftrightarrow> (\<exists>x. r = Inr x \<and> f x = Inr y)"
  by (cases r) simp_all

lemma rbind_eq_Inl [res_simps]:
  "rbind r f = Inl e \<longleftrightarrow> r = Inl e \<or> (\<exists>x. r = Inr x \<and> f x = Inl e)"
  by (cases r) simp_all

lemma rbind_cong [fundef_cong]:
  "r = r' \<Longrightarrow> (\<And>x. r' = Inr x \<Longrightarrow> f x = g x) \<Longrightarrow> rbind r f = rbind r' g"
  by (cases r') simp_all

definition is_ok :: "'a res \<Rightarrow> bool" where
  "is_ok r = (case r of Inl _ \<Rightarrow> False | Inr _ \<Rightarrow> True)"

lemma is_ok_simps [simp, res_simps]: "is_ok (Inr x)" "\<not> is_ok (Inl e)"
  by (simp_all add: is_ok_def)

lemma is_ok_iff: "is_ok r \<longleftrightarrow> (\<exists>x. r = Inr x)"
  by (cases r) simp_all

text \<open>A list comprehension whose body may raise: the first exception wins.\<close>

fun rmap :: "('a \<Rightarrow> 'b res) \<Rightarrow> 'a list \<Rightarrow> 'b list res" where
  "rmap f [] = Inr []"
| "rmap f (x # xs) = rbind (f x) (\<lambda>y. rbind (rmap f xs) (\<lambda>ys. Inr (y # ys)))"

lemma rmap_cong [fundef_cong]:
  "xs = ys \<Longrightarrow> (\<And>x. x \<in> set ys \<Longrightarrow> f x = g x) \<Longrightarrow> rmap f xs = rmap g ys"
  by (induction ys arbitrary: xs) auto

lemma rmap_length: "rmap f xs = Inr ys \<Longrightarrow> length ys = length xs"
  by (induction xs arbitrary: ys) (auto simp: res_simps)

lemma rmap_all_ok: "(\<And>x. x \<in> set xs \<Longrightarrow> f x = Inr (g x)) \<Longrightarrow> rmap f xs = Inr (map g xs)"
  by (induction xs) simp_all

lemma rmap_list_all2: "rmap f xs = Inr ys \<longleftrightarrow> list_all2 (\<lambda>x y. f x = Inr y) xs ys"
  by (induction xs arbitrary: ys) (auto simp: res_simps list_all2_Cons1)

text \<open>\<open>xs[i]\<close>: a negative index counts from the end.\<close>

fun list_at :: "'a list \<Rightarrow> int \<Rightarrow> 'a res" where
  "list_at xs i =
     (if 0 \<le> i \<and> i < int (length xs) then Inr (xs ! nat i)
      else if i < 0 \<and> - i \<le> int (length xs) then Inr (xs ! nat (int (length xs) + i))
      else Inl IndexError)"

declare list_at.simps [simp del]

lemma list_at_nat: "i < length xs \<Longrightarrow> list_at xs (int i) = Inr (xs ! i)"
  by (simp add: list_at.simps)

section \<open>Dictionaries with string keys\<close>

lemma map_of_update [simp, dict_simps]:
  "map_of (AList.update k v d) k' = (if k = k' then Some v else map_of d k')"
  by (simp add: update_conv')

lemma map_of_delete [simp, dict_simps]:
  "map_of (AList.delete k d) k' = (if k = k' then None else map_of d k')"
  by (simp add: delete_conv')

lemma distinct_keys_update [simp, dict_simps]:
  "distinct (map fst d) \<Longrightarrow> distinct (map fst (AList.update k v d))"
  by (rule distinct_update)

lemma distinct_keys_delete [simp, dict_simps]:
  "distinct (map fst d) \<Longrightarrow> distinct (map fst (AList.delete k d))"
  by (rule distinct_delete)

definition dict_has :: "('k \<times> 'v) list \<Rightarrow> 'k \<Rightarrow> bool" where
  "dict_has d k \<longleftrightarrow> map_of d k \<noteq> None"

lemma dict_has_iff [dict_simps]: "dict_has d k \<longleftrightarrow> k \<in> fst ` set d"
  by (simp add: dict_has_def map_of_eq_None_iff)

lemma dict_has_update [simp, dict_simps]:
  "dict_has (AList.update k v d) k' \<longleftrightarrow> k = k' \<or> dict_has d k'"
  by (simp add: dict_has_def)

text \<open>\<open>d.update(e)\<close>: the entries of \<open>e\<close> in order, each overriding.\<close>

definition dict_update :: "('k \<times> 'v) list \<Rightarrow> ('k \<times> 'v) list \<Rightarrow> ('k \<times> 'v) list" where
  "dict_update d e = fold (\<lambda>(k, v). AList.update k v) e d"

lemma dict_update_Nil [simp]: "dict_update d [] = d"
  by (simp add: dict_update_def)

lemma dict_update_Cons [simp]: "dict_update d ((k, v) # e) = dict_update (AList.update k v d) e"
  by (simp add: dict_update_def)

lemma map_of_dict_update [dict_simps]:
  "distinct (map fst e) \<Longrightarrow>
     map_of (dict_update d e) k = (case map_of e k of Some v \<Rightarrow> Some v | None \<Rightarrow> map_of d k)"
proof (induction e arbitrary: d)
  case Nil
  then show ?case by simp
next
  case (Cons p e)
  obtain a b where p: "p = (a, b)" by force
  show ?case
  proof (cases "k = a")
    case True
    with Cons p have "map_of e k = None" by (simp add: map_of_eq_None_iff)
    with Cons p True show ?thesis by simp
  next
    case False
    with Cons p show ?thesis by (auto split: option.split)
  qed
qed

lemma distinct_keys_dict_update [simp]:
  "distinct (map fst d) \<Longrightarrow> distinct (map fst (dict_update d e))"
proof (induction e arbitrary: d)
  case (Cons p e)
  then show ?case by (cases p) simp
qed simp

section \<open>Strings\<close>

definition lower_char :: "char \<Rightarrow> char" where
  "lower_char c = (let n = of_char c :: nat in if 65 \<le> n \<and> n \<le> 90 then char_of (n + 32) else c)"

definition upper_char :: "char \<Rightarrow> char" where
  "upper_char c = (let n = of_char c :: nat in if 97 \<le> n \<and> n \<le> 122 then char_of (n - 32) else c)"

definition str_lower :: "string \<Rightarrow> string" where
  "str_lower s = map lower_char s"

definition str_upper :: "string \<Rightarrow> string" where
  "str_upper s = map upper_char s"

lemma lower_char_idem [simp]: "lower_char (lower_char c) = lower_char c"
  by (auto simp: lower_char_def Let_def)

lemma str_lower_idem [simp, str_simps]: "str_lower (str_lower s) = str_lower s"
  by (simp add: str_lower_def)

lemma str_lower_length [simp, str_simps]: "length (str_lower s) = length s"
  by (simp add: str_lower_def)

fun starts_with :: "string \<Rightarrow> string \<Rightarrow> bool" where
  "starts_with s [] = True"
| "starts_with [] (p # ps) = False"
| "starts_with (c # s) (p # ps) = (c = p \<and> starts_with s ps)"

lemma starts_with_iff [str_simps]: "starts_with s p \<longleftrightarrow> (\<exists>t. s = p @ t)"
  by (induction s p rule: starts_with.induct) auto

lemma starts_with_append [simp]: "starts_with (p @ s) p"
  by (auto simp: starts_with_iff)

definition ends_with :: "string \<Rightarrow> string \<Rightarrow> bool" where
  "ends_with s p = starts_with (rev s) (rev p)"

lemma ends_with_iff [str_simps]: "ends_with s p \<longleftrightarrow> (\<exists>t. s = t @ p)"
proof
  assume "ends_with s p"
  then obtain t where "rev s = rev p @ t" by (auto simp: ends_with_def starts_with_iff)
  then have "s = rev t @ p" by (metis rev_append rev_rev_ident)
  then show "\<exists>t. s = t @ p" ..
qed (auto simp: ends_with_def starts_with_iff)

text \<open>The characters of \<open>\\w\<close> in the regular expressions on byte strings.\<close>

definition word_char :: "char \<Rightarrow> bool" where
  "word_char c = (let n = of_char c :: nat in
     (48 \<le> n \<and> n \<le> 57) \<or> (65 \<le> n \<and> n \<le> 90) \<or> (97 \<le> n \<and> n \<le> 122) \<or> c = CHR ''_'')"

lemma word_char_plain [simp]: "\<not> word_char (CHR 0x7B)" "\<not> word_char (CHR 0x7D)"
  by code_simp+

text \<open>\<open>s.find(p)\<close> as an option (\<open>None\<close> is Python's \<open>-1\<close>) and the substring test \<open>p in s\<close>.\<close>

fun str_find :: "string \<Rightarrow> string \<Rightarrow> nat option" where
  "str_find [] p = (if p = [] then Some 0 else None)"
| "str_find (c # s) p =
     (if starts_with (c # s) p then Some 0 else map_option Suc (str_find s p))"

definition str_contains :: "string \<Rightarrow> string \<Rightarrow> bool" where
  "str_contains s p = (str_find s p \<noteq> None)"

lemma str_find_Some: "str_find s p = Some i \<Longrightarrow> \<exists>t. s = take i s @ p @ t \<and> i \<le> length s"
proof (induction s arbitrary: i)
  case Nil
  then show ?case by (auto split: if_splits)
next
  case (Cons c s)
  show ?case
  proof (cases "starts_with (c # s) p")
    case True
    with Cons.prems show ?thesis by (auto simp: starts_with_iff)
  next
    case False
    with Cons.prems obtain j where j: "str_find s p = Some j" "i = Suc j" by auto
    from Cons.IH [OF j(1)] j(2) show ?thesis by auto
  qed
qed

lemma str_find_None: "str_find s p = None \<Longrightarrow> s \<noteq> a @ p @ b"
proof (induction s arbitrary: a)
  case Nil
  then show ?case by (auto split: if_splits)
next
  case (Cons c s)
  from Cons.prems have "\<not> starts_with (c # s) p" and rest: "str_find s p = None"
    by (auto split: if_splits)
  then show ?case
    using Cons.IH [OF rest] by (cases a) (auto simp: starts_with_iff)
qed

lemma str_contains_iff [str_simps]: "str_contains s p \<longleftrightarrow> (\<exists>a b. s = a @ p @ b)"
proof
  assume "str_contains s p"
  then obtain i where "str_find s p = Some i" by (auto simp: str_contains_def)
  from str_find_Some [OF this] show "\<exists>a b. s = a @ p @ b" by blast
next
  assume "\<exists>a b. s = a @ p @ b"
  then show "str_contains s p" using str_find_None by (fastforce simp: str_contains_def)
qed

text \<open>\<open>s.split(c)\<close> for a one-character separator, and \<open>sep.join(parts)\<close>.\<close>

fun str_split :: "char \<Rightarrow> string \<Rightarrow> string list" where
  "str_split c [] = [[]]"
| "str_split c (x # s) =
     (if x = c then [] # str_split c s
      else case str_split c s of [] \<Rightarrow> [[x]] | w # ws \<Rightarrow> (x # w) # ws)"

fun str_join :: "string \<Rightarrow> string list \<Rightarrow> string" where
  "str_join sep [] = []"
| "str_join sep [w] = w"
| "str_join sep (w # v # ws) = w @ sep @ str_join sep (v # ws)"

lemma str_split_not_Nil [simp]: "str_split c s \<noteq> []"
  by (induction s) (auto split: list.split)

lemma str_split_no_sep: "c \<notin> set w \<Longrightarrow> str_split c w = [w]"
  by (induction w) auto

lemma str_split_append: "c \<notin> set w \<Longrightarrow> str_split c (w @ c # s) = w # str_split c s"
  by (induction w) auto

lemma str_split_join [str_simps]:
  "ws \<noteq> [] \<Longrightarrow> (\<And>w. w \<in> set ws \<Longrightarrow> c \<notin> set w) \<Longrightarrow> str_split c (str_join [c] ws) = ws"
proof (induction "[c]" ws rule: str_join.induct)
  case (3 w v ws)
  then show ?case by (simp add: str_split_append)
qed (auto simp: str_split_no_sep)

lemma str_join_split: "str_join [c] (str_split c s) = s"
proof (induction s)
  case (Cons x s)
  obtain w ws where "str_split c s = w # ws" by (cases "str_split c s") auto
  with Cons show ?case by (cases ws) auto
qed simp

lemma str_split_parts: "w \<in> set (str_split c s) \<Longrightarrow> c \<notin> set w"
proof (induction s arbitrary: w)
  case (Cons x s)
  obtain v vs where vs: "str_split c s = v # vs" by (cases "str_split c s") auto
  show ?case
  proof (cases "x = c")
    case True
    with Cons vs show ?thesis by auto
  next
    case False
    with Cons.prems vs consider "w = x # v" | "w \<in> set vs" by auto
    then show ?thesis
    proof cases
      case 1
      have "c \<notin> set v" by (rule Cons.IH) (simp add: vs)
      with 1 False show ?thesis by simp
    next
      case 2
      then show ?thesis using Cons.IH vs by simp
    qed
  qed
qed simp

text \<open>\<open>s.split(c, 1)\<close>: split at the first separator.\<close>

fun str_split1 :: "char \<Rightarrow> string \<Rightarrow> string \<times> string option" where
  "str_split1 c [] = ([], None)"
| "str_split1 c (x # s) =
     (if x = c then ([], Some s) else (case str_split1 c s of (a, b) \<Rightarrow> (x # a, b)))"

lemma str_split1_append [simp]: "c \<notin> set w \<Longrightarrow> str_split1 c (w @ c # s) = (w, Some s)"
  by (induction w) auto

lemma str_split1_none [simp]: "c \<notin> set w \<Longrightarrow> str_split1 c w = (w, None)"
  by (induction w) auto

definition is_space :: "char \<Rightarrow> bool" where
  "is_space c = (c \<in> {CHR '' '', CHR 0x09, CHR 0x0A, CHR 0x0B, CHR 0x0C, CHR 0x0D})"

definition strip_by :: "(char \<Rightarrow> bool) \<Rightarrow> string \<Rightarrow> string" where
  "strip_by p s = rev (dropWhile p (rev (dropWhile p s)))"

definition str_strip :: "string \<Rightarrow> string" where
  "str_strip s = strip_by is_space s"

lemma strip_by_id: "s = [] \<or> (\<not> p (hd s) \<and> \<not> p (last s)) \<Longrightarrow> strip_by p s = s"
proof (cases s)
  case (Cons c t)
  assume "s = [] \<or> (\<not> p (hd s) \<and> \<not> p (last s))"
  with Cons have h: "\<not> p c" and l: "\<not> p (last (c # t))" by auto
  from h Cons have a: "dropWhile p s = s" by simp
  from l have "\<not> p (hd (rev (c # t)))" by (metis hd_rev)
  then have "dropWhile p (rev (c # t)) = rev (c # t)"
    by (metis dropWhile_eq_self_iff)
  with a Cons show ?thesis by (simp add: strip_by_def)
qed (simp add: strip_by_def)

text \<open>\<open>s.replace(a, w)\<close> for a one-character pattern, and for a longer pattern.\<close>

definition replace_char :: "char \<Rightarrow> string \<Rightarrow> string \<Rightarrow> string" where
  "replace_char a w s = concat (map (\<lambda>c. if c = a then w else [c]) s)"

lemma replace_char_append [simp]: "replace_char a w (s @ t) = replace_char a w s @ replace_char a w t"
  by (simp add: replace_char_def)

lemma replace_char_Nil [simp]: "replace_char a w [] = []"
  by (simp add: replace_char_def)

lemma replace_char_Cons [simp]:
  "replace_char a w (c # s) = (if c = a then w else [c]) @ replace_char a w s"
  by (simp add: replace_char_def)

lemma replace_char_absent: "a \<notin> set s \<Longrightarrow> replace_char a w s = s"
  by (induction s) auto

function str_replace :: "string \<Rightarrow> string \<Rightarrow> string \<Rightarrow> string" where
  "str_replace a w [] = []"
| "str_replace a w (c # s) =
     (if a \<noteq> [] \<and> starts_with (c # s) a then w @ str_replace a w (drop (length a) (c # s))
      else c # str_replace a w s)"
  by pat_completeness auto
termination
  by (relation "measure (\<lambda>(a, w, s). length s)") auto

section \<open>Decimal numerals\<close>

definition digit_char :: "nat \<Rightarrow> char" where
  "digit_char d = char_of (48 + d)"

definition is_digit :: "char \<Rightarrow> bool" where
  "is_digit c = (48 \<le> (of_char c :: nat) \<and> (of_char c :: nat) \<le> 57)"

definition digit_val :: "char \<Rightarrow> nat" where
  "digit_val c = of_char c - 48"

lemma of_char_digit_char: "d < 10 \<Longrightarrow> (of_char (digit_char d) :: nat) = 48 + d"
  by (simp add: digit_char_def)

lemma digit_char_is_digit [simp]: "d < 10 \<Longrightarrow> is_digit (digit_char d)"
  by (simp add: is_digit_def of_char_digit_char)

lemma digit_val_digit_char [simp]: "d < 10 \<Longrightarrow> digit_val (digit_char d) = d"
  by (simp add: digit_val_def of_char_digit_char)

fun show_nat :: "nat \<Rightarrow> string" where
  "show_nat n = (if n < 10 then [digit_char n] else show_nat (n div 10) @ [digit_char (n mod 10)])"

declare show_nat.simps [simp del]

definition show_int :: "int \<Rightarrow> string" where
  "show_int i = (if i < 0 then CHR ''-'' # show_nat (nat (- i)) else show_nat (nat i))"

definition digits_val :: "string \<Rightarrow> nat" where
  "digits_val s = foldl (\<lambda>n c. 10 * n + digit_val c) 0 s"

lemma show_nat_digits: "list_all is_digit (show_nat n)"
proof (induction n rule: show_nat.induct)
  case (1 n)
  then show ?case by (subst show_nat.simps) (auto simp: list_all_iff)
qed

lemma show_nat_not_Nil [simp]: "show_nat n \<noteq> []"
  by (subst show_nat.simps) simp

lemma digits_val_show_nat [simp]: "digits_val (show_nat n) = n"
proof (induction n rule: show_nat.induct)
  case (1 n)
  show ?case
  proof (cases "n < 10")
    case True
    then show ?thesis by (subst show_nat.simps) (simp add: digits_val_def)
  next
    case False
    with 1 have "digits_val (show_nat (n div 10)) = n div 10" by simp
    with False show ?thesis by (subst show_nat.simps) (simp add: digits_val_def)
  qed
qed

lemma show_nat_inject [simp]: "show_nat m = show_nat n \<longleftrightarrow> m = n"
  by (metis digits_val_show_nat)

lemma is_digit_minus [simp]: "\<not> is_digit CHR ''-''"
  by (simp add: is_digit_def)

lemma show_nat_no_minus: "CHR ''-'' \<notin> set (show_nat n)"
  using show_nat_digits [of n] by (auto simp: list_all_iff)

lemma show_nat_hd_digit: "is_digit (hd (show_nat n))"
  using show_nat_digits [of n] by (cases "show_nat n") auto

lemma show_int_inject [simp]: "show_int i = show_int j \<longleftrightarrow> i = j"
proof
  assume eq: "show_int i = show_int j"
  have neq: "CHR ''-'' # s \<noteq> show_nat n" for s n
    using show_nat_no_minus [of n] by (metis list.set_intros(1))
  from eq show "i = j"
    using neq neq [symmetric] by (auto simp: show_int_def split: if_splits)
qed simp

text \<open>
  \<open>int(s)\<close> on a text: blanks around, an optional sign, at least one decimal digit; anything else
  raises \<open>ValueError\<close>.
\<close>

definition parse_nat :: "string \<Rightarrow> nat option" where
  "parse_nat s = (if s \<noteq> [] \<and> list_all is_digit s then Some (digits_val s) else None)"

definition parse_int :: "string \<Rightarrow> int res" where
  "parse_int t =
     (let s = str_strip t;
          bad = Inl (ValueError ''invalid literal for int()'')
      in case s of
           [] \<Rightarrow> bad
         | c # r \<Rightarrow>
             if c = CHR ''-'' then (case parse_nat r of Some n \<Rightarrow> Inr (- int n) | None \<Rightarrow> bad)
             else if c = CHR ''+'' then (case parse_nat r of Some n \<Rightarrow> Inr (int n) | None \<Rightarrow> bad)
             else (case parse_nat s of Some n \<Rightarrow> Inr (int n) | None \<Rightarrow> bad))"

lemma parse_nat_show_nat [simp]: "parse_nat (show_nat n) = Some n"
  by (simp add: parse_nat_def show_nat_digits)

lemma is_digit_not_space: "is_digit c \<Longrightarrow> \<not> is_space c"
  by (auto simp: is_digit_def is_space_def)

lemma strip_show_nat [simp]: "str_strip (show_nat n) = show_nat n"
  using show_nat_digits [of n] unfolding str_strip_def
  by (intro strip_by_id) (simp add: list_all_iff is_digit_not_space)

lemma strip_minus_show_nat [simp]:
  "str_strip (CHR ''-'' # show_nat n) = CHR ''-'' # show_nat n"
  using show_nat_digits [of n] unfolding str_strip_def
  by (intro strip_by_id) (simp add: list_all_iff is_digit_not_space, simp add: is_space_def)

lemma parse_int_show_int [simp, str_simps]: "parse_int (show_int i) = Inr i"
proof (cases "i < 0")
  case True
  then show ?thesis by (simp add: parse_int_def show_int_def)
next
  case False
  obtain c r where cr: "show_nat (nat i) = c # r" by (cases "show_nat (nat i)") auto
  then have "is_digit c" using show_nat_hd_digit [of "nat i"] by simp
  then have "c \<noteq> CHR ''-''" "c \<noteq> CHR ''+''" by (auto simp: is_digit_def)
  then have "parse_int (show_int i) =
      (case parse_nat (show_nat (nat i)) of Some n \<Rightarrow> Inr (int n)
       | None \<Rightarrow> Inl (ValueError ''invalid literal for int()''))"
    using False cr strip_show_nat [of "nat i"] by (simp add: parse_int_def show_int_def Let_def)
  with False show ?thesis by simp
qed

section \<open>State machines\<close>

text \<open>
  A component that handles events one at a time: its step function keeps an invariant, so every
  run does. In a refined machine the step also follows an abstract step through an abstraction
  function, so every run does. The components instantiate these interfaces with their handlers.
\<close>

locale machine =
  fixes step :: "'e \<Rightarrow> 's \<Rightarrow> 's"
    and inv :: "'s \<Rightarrow> bool"
  assumes step_inv: "inv s \<Longrightarrow> inv (step e s)"
begin

lemma run_inv: "inv s \<Longrightarrow> inv (fold step es s)"
  by (induction es arbitrary: s) (simp_all add: step_inv)

end

locale refined_machine = machine step inv
  for step :: "'e \<Rightarrow> 's \<Rightarrow> 's" and inv :: "'s \<Rightarrow> bool" +
  fixes abs :: "'s \<Rightarrow> 'a"
    and astep :: "'e \<Rightarrow> 'a \<Rightarrow> 'a"
  assumes step_abs: "inv s \<Longrightarrow> abs (step e s) = astep e (abs s)"
begin

lemma run_abs: "inv s \<Longrightarrow> abs (fold step es s) = fold astep es (abs s)"
  by (induction es arbitrary: s) (simp_all add: step_inv step_abs)

end

end
