(* ===== verification/Calendar.thy ===== *)
theory Calendar
  imports Prelude
begin

text \<open>
  The calendar functions of Python's \<open>time\<close>, \<open>datetime\<close> and \<open>calendar\<close> modules that
  \<open>socialnet/twitter.py\<close> uses: the ordinal of a date, the date of a clock reading as
  \<open>strftime('%Y-%m-%d')\<close> writes it, and the two \<open>strptime\<close> formats it reads.
\<close>

section \<open>Dates and ordinals\<close>

definition leap :: "int \<Rightarrow> bool" where
  "leap y \<longleftrightarrow> y mod 4 = 0 \<and> (y mod 100 \<noteq> 0 \<or> y mod 400 = 0)"

definition days_in_month :: "int \<Rightarrow> int \<Rightarrow> int" where
  "days_in_month y m =
     (if m = 2 then (if leap y then 29 else 28) else if m \<in> {4, 6, 9, 11} then 30 else 31)"

definition days_before_month :: "int \<Rightarrow> int \<Rightarrow> int" where
  "days_before_month y m =
     [0, 31, 59, 90, 120, 151, 181, 212, 243, 273, 304, 334] ! nat (m - 1) +
       (if 2 < m \<and> leap y then 1 else 0)"

definition days_before_year :: "int \<Rightarrow> int" where
  "days_before_year y = (let p = y - 1 in 365 * p + p div 4 - p div 100 + p div 400)"

definition to_ordinal :: "int \<Rightarrow> int \<Rightarrow> int \<Rightarrow> int" where
  "to_ordinal y m d = days_before_year y + days_before_month y m + d"

definition valid_date :: "int \<Rightarrow> int \<Rightarrow> int \<Rightarrow> bool" where
  "valid_date y m d \<longleftrightarrow> 1 \<le> y \<and> y \<le> 9999 \<and> 1 \<le> m \<and> m \<le> 12 \<and> 1 \<le> d \<and> d \<le> days_in_month y m"

text \<open>The epoch is 1970-01-01.\<close>

definition epoch_ordinal :: int where
  "epoch_ordinal = 719163"

definition timegm_date :: "int \<Rightarrow> int \<Rightarrow> int \<Rightarrow> int" where
  "timegm_date y m d = 86400 * (to_ordinal y m d - epoch_ordinal)"

text \<open>The inverse, by cycles of 400, 100, 4 and 1 years.\<close>

definition from_ordinal :: "int \<Rightarrow> int \<times> int \<times> int" where
  "from_ordinal n =
     (let a = n - 1; n400 = a div 146097; b = a mod 146097; n100 = b div 36524; c = b mod 36524;
          n4 = c div 1461; d = c mod 1461; n1 = d div 365; e = d mod 365;
          y = 400 * n400 + 100 * n100 + 4 * n4 + n1 + 1 in
      if n1 = 4 \<or> n100 = 4 then (y - 1, 12, 31)
      else let m0 = (e + 50) div 32;
               m = (if e < days_before_month y m0 then m0 - 1 else m0)
           in (y, m, e - days_before_month y m + 1))"

definition two_digits :: "int \<Rightarrow> string" where
  "two_digits n = (if n < 10 then ''0'' else []) @ show_int n"

text \<open>\<open>time.strftime('%Y-%m-%d', time.gmtime())\<close> at a clock reading.\<close>

definition strftime_day :: "int \<Rightarrow> string" where
  "strftime_day now = (case from_ordinal (now div 86400 + epoch_ordinal) of
     (y, m, d) \<Rightarrow> show_int y @ ''-'' @ two_digits m @ ''-'' @ two_digits d)"

section \<open>Reading dates\<close>

text \<open>A directive as the list of its matches, in the order of the regular expression: the first
  match of the whole format wins, and then nothing may be left of the text.\<close>

definition num_ok :: "string \<Rightarrow> nat \<Rightarrow> nat \<Rightarrow> bool" where
  "num_ok s lo hi \<longleftrightarrow> list_all is_digit s \<and> lo \<le> digits_val s \<and> digits_val s \<le> hi"

definition take_num :: "nat \<Rightarrow> nat \<Rightarrow> nat \<Rightarrow> string \<Rightarrow> (int \<times> string) list" where
  "take_num k lo hi s =
     (if k \<le> length s \<and> num_ok (take k s) lo hi then [(int (digits_val (take k s)), drop k s)] else [])"

definition p_year :: "string \<Rightarrow> (int \<times> string) list" where
  "p_year = take_num 4 0 9999"

definition p_month :: "string \<Rightarrow> (int \<times> string) list" where
  "p_month s = take_num 2 1 12 s @ take_num 1 1 9 s"

definition p_day :: "string \<Rightarrow> (int \<times> string) list" where
  "p_day s = take_num 2 1 31 s @ take_num 1 1 9 s @
     (case s of [] \<Rightarrow> [] | c # t \<Rightarrow> if c = CHR '' '' then take_num 1 1 9 t else [])"

definition p_hour :: "string \<Rightarrow> (int \<times> string) list" where
  "p_hour s = take_num 2 0 23 s @ take_num 1 0 9 s"

definition p_minute :: "string \<Rightarrow> (int \<times> string) list" where
  "p_minute s = take_num 2 0 59 s @ take_num 1 0 9 s"

fun p_lit :: "char \<Rightarrow> string \<Rightarrow> string list" where
  "p_lit c [] = []"
| "p_lit c (x # s) = (if x = c then [s] else [])"

text \<open>A blank of the format stands for one or more, as many as there are first.\<close>

fun p_blanks :: "string \<Rightarrow> string list" where
  "p_blanks [] = []"
| "p_blanks (c # s) = (if is_space c then p_blanks s @ [s] else [])"

definition p_ymd :: "string \<Rightarrow> ((int \<times> int \<times> int) \<times> string) list" where
  "p_ymd s = concat (map (\<lambda>(y, s1). concat (map (\<lambda>s2. concat (map (\<lambda>(m, s3).
     concat (map (\<lambda>s4. map (\<lambda>(d, s5). ((y, m, d), s5)) (p_day s4)) (p_lit CHR ''-'' s3)))
     (p_month s2))) (p_lit CHR ''-'' s1))) (p_year s))"

definition bad_date :: "'a res" where
  "bad_date = Inl (ValueError ''time data does not match format'')"

text \<open>\<open>calendar.timegm(time.strptime(s, '%Y-%m-%d'))\<close>.\<close>

definition strptime_day :: "string \<Rightarrow> int res" where
  "strptime_day s =
     (case p_ymd s of
        ((y, m, d), []) # _ \<Rightarrow> if valid_date y m d then Inr (timegm_date y m d) else bad_date
      | _ \<Rightarrow> bad_date)"

text \<open>The hour of \<open>time.strptime(s, '%Y-%m-%d %H:%M')\<close>.\<close>

definition p_date_time :: "string \<Rightarrow> ((int \<times> int \<times> int) \<times> int \<times> string) list" where
  "p_date_time s = concat (map (\<lambda>(ymd, s1). concat (map (\<lambda>s2. concat (map (\<lambda>(h, s3).
     concat (map (\<lambda>s4. map (\<lambda>(_, s5). (ymd, h, s5)) (p_minute s4)) (p_lit CHR '':'' s3)))
     (p_hour s2))) (p_blanks s1))) (p_ymd s))"

definition strptime_hour :: "string \<Rightarrow> nat res" where
  "strptime_hour s =
     (case p_date_time s of
        ((y, m, d), h, []) # _ \<Rightarrow> if valid_date y m d then Inr (nat h) else bad_date
      | _ \<Rightarrow> bad_date)"

lemma take_num_bounds: "(v, t) \<in> set (take_num k lo hi s) \<Longrightarrow> int lo \<le> v \<and> v \<le> int hi"
  by (auto simp: take_num_def num_ok_def split: if_splits)

lemma p_hour_bounds: "(h, t) \<in> set (p_hour s) \<Longrightarrow> 0 \<le> h \<and> h < 24"
  using take_num_bounds [of h t 2 0 23 s] take_num_bounds [of h t 1 0 9 s]
  by (auto simp: p_hour_def)

lemma p_date_time_hour: "(ymd, h, t) \<in> set (p_date_time s) \<Longrightarrow> 0 \<le> h \<and> h < 24"
  unfolding p_date_time_def by (auto dest!: p_hour_bounds)

text \<open>The hour read indexes the 24 entries of a daily report.\<close>

lemma strptime_hour_bound: "strptime_hour s = Inr h \<Longrightarrow> h < 24"
proof (cases "p_date_time s")
  case (Cons x xs)
  assume a: "strptime_hour s = Inr h"
  obtain ymd k t where x: "x = (ymd, k, t)" by (cases x)
  then have "(ymd, k, t) \<in> set (p_date_time s)" using Cons by simp
  from p_date_time_hour [OF this] a show "h < 24"
    by (auto simp: strptime_hour_def bad_date_def Cons x split: list.splits if_splits prod.splits)
qed (simp add: strptime_hour_def bad_date_def)

end
