(* ===== verification/Digest.thy ===== *)
theory Digest
  imports Prelude "HOL-Library.Word"
begin

text \<open>
  What the OAuth module uses of Python's \<open>hashlib\<close>, \<open>hmac\<close> and \<open>base64\<close>, on byte strings: SHA-1
  and MD5 on 32-bit words, HMAC with a block of 64 bytes, and the base-64 text of a byte string.
\<close>

unbundle bit_operations_syntax

type_synonym word32 = "32 word"

section \<open>SHA-1\<close>

definition be_bytes :: "nat \<Rightarrow> nat \<Rightarrow> string" where
  "be_bytes k n = map (\<lambda>i. char_of (n div 256 ^ i)) (rev [0..<k])"

definition sha_pad :: "string \<Rightarrow> string" where
  "sha_pad s = s @ [CHR 0x80] @ replicate ((119 - length s mod 64) mod 64) (CHR 0x00)
     @ be_bytes 8 (8 * length s)"

fun be_word :: "string \<Rightarrow> word32" where
  "be_word cs = foldl (\<lambda>w c. push_bit 8 w OR of_nat (of_char c)) 0 cs"

fun chunks :: "nat \<Rightarrow> 'a list \<Rightarrow> 'a list list" where
  "chunks n xs = (if xs = [] \<or> n = 0 then [] else take n xs # chunks n (drop n xs))"

declare chunks.simps [simp del]

definition rotl :: "nat \<Rightarrow> word32 \<Rightarrow> word32" where
  "rotl n w = push_bit n w OR drop_bit (32 - n) w"

text \<open>The message schedule, newest word first.\<close>

fun schedule :: "nat \<Rightarrow> word32 list \<Rightarrow> word32 list" where
  "schedule 0 ws = ws"
| "schedule (Suc n) ws =
     schedule n (rotl 1 (ws ! 2 XOR ws ! 7 XOR ws ! 13 XOR ws ! 15) # ws)"

type_synonym sha_state = "word32 \<times> word32 \<times> word32 \<times> word32 \<times> word32"

definition sha_f :: "nat \<Rightarrow> word32 \<Rightarrow> word32 \<Rightarrow> word32 \<Rightarrow> word32 \<times> word32" where
  "sha_f t b c d =
     (if t < 20 then ((b AND c) OR (NOT b AND d), 0x5A827999)
      else if t < 40 then (b XOR c XOR d, 0x6ED9EBA1)
      else if t < 60 then ((b AND c) OR (b AND d) OR (c AND d), 0x8F1BBCDC)
      else (b XOR c XOR d, 0xCA62C1D6))"

fun sha_rounds :: "nat \<Rightarrow> word32 list \<Rightarrow> sha_state \<Rightarrow> sha_state" where
  "sha_rounds t [] st = st"
| "sha_rounds t (w # ws) (a, b, c, d, e) =
     (case sha_f t b c d of (f, k) \<Rightarrow>
        sha_rounds (Suc t) ws (rotl 5 a + f + e + k + w, a, rotl 30 b, c, d))"

definition sha_block :: "sha_state \<Rightarrow> string \<Rightarrow> sha_state" where
  "sha_block st blk =
     (let ws = rev (schedule 64 (rev (map be_word (chunks 4 blk))))
      in case (st, sha_rounds 0 ws st) of
           ((a, b, c, d, e), (a', b', c', d', e')) \<Rightarrow> (a + a', b + b', c + c', d + d', e + e'))"

definition word_bytes :: "word32 \<Rightarrow> string" where
  "word_bytes w = be_bytes 4 (unat w)"

definition sha1 :: "string \<Rightarrow> string" where
  "sha1 s =
     (case foldl sha_block (0x67452301, 0xEFCDAB89, 0x98BADCFE, 0x10325476, 0xC3D2E1F0)
        (chunks 64 (sha_pad s)) of
        (a, b, c, d, e) \<Rightarrow> word_bytes a @ word_bytes b @ word_bytes c @ word_bytes d @ word_bytes e)"

section \<open>MD5\<close>

definition md5_table :: "word32 list" where
  "md5_table = [0xd76aa478, 0xe8c7b756, 0x242070db, 0xc1bdceee, 0xf57c0faf, 0x4787c62a, 0xa8304613,
     0xfd469501, 0x698098d8, 0x8b44f7af, 0xffff5bb1, 0x895cd7be, 0x6b901122, 0xfd987193,
     0xa679438e, 0x49b40821, 0xf61e2562, 0xc040b340, 0x265e5a51, 0xe9b6c7aa, 0xd62f105d,
     0x02441453, 0xd8a1e681, 0xe7d3fbc8, 0x21e1cde6, 0xc33707d6, 0xf4d50d87, 0x455a14ed,
     0xa9e3e905, 0xfcefa3f8, 0x676f02d9, 0x8d2a4c8a, 0xfffa3942, 0x8771f681, 0x6d9d6122,
     0xfde5380c, 0xa4beea44, 0x4bdecfa9, 0xf6bb4b60, 0xbebfbc70, 0x289b7ec6, 0xeaa127fa,
     0xd4ef3085, 0x04881d05, 0xd9d4d039, 0xe6db99e5, 0x1fa27cf8, 0xc4ac5665, 0xf4292244,
     0x432aff97, 0xab9423a7, 0xfc93a039, 0x655b59c3, 0x8f0ccc92, 0xffeff47d, 0x85845dd1,
     0x6fa87e4f, 0xfe2ce6e0, 0xa3014314, 0x4e0811a1, 0xf7537e82, 0xbd3af235, 0x2ad7d2bb,
     0xeb86d391]"

definition md5_shifts :: "nat list" where
  "md5_shifts = concat (replicate 4 [7, 12, 17, 22]) @ concat (replicate 4 [5, 9, 14, 20])
     @ concat (replicate 4 [4, 11, 16, 23]) @ concat (replicate 4 [6, 10, 15, 21])"

definition le_bytes :: "nat \<Rightarrow> nat \<Rightarrow> string" where
  "le_bytes k n = rev (be_bytes k n)"

definition le_word :: "string \<Rightarrow> word32" where
  "le_word cs = be_word (rev cs)"

definition md5_pad :: "string \<Rightarrow> string" where
  "md5_pad s = s @ [CHR 0x80] @ replicate ((119 - length s mod 64) mod 64) (CHR 0x00)
     @ le_bytes 8 (8 * length s)"

type_synonym md5_state = "word32 \<times> word32 \<times> word32 \<times> word32"

definition md5_f :: "nat \<Rightarrow> word32 \<Rightarrow> word32 \<Rightarrow> word32 \<Rightarrow> word32 \<times> nat" where
  "md5_f i b c d =
     (if i < 16 then ((b AND c) OR (NOT b AND d), i)
      else if i < 32 then ((d AND b) OR (NOT d AND c), (5 * i + 1) mod 16)
      else if i < 48 then (b XOR c XOR d, (3 * i + 5) mod 16)
      else (c XOR (b OR NOT d), (7 * i) mod 16))"

fun md5_rounds :: "word32 list \<Rightarrow> nat \<Rightarrow> (word32 \<times> nat) list \<Rightarrow> md5_state \<Rightarrow> md5_state" where
  "md5_rounds m i [] st = st"
| "md5_rounds m i ((t, r) # ks) (a, b, c, d) =
     (case md5_f i b c d of (f, g) \<Rightarrow>
        md5_rounds m (Suc i) ks (d, b + rotl r (a + f + t + m ! g), b, c))"

definition md5_block :: "md5_state \<Rightarrow> string \<Rightarrow> md5_state" where
  "md5_block st blk =
     (case (st, md5_rounds (map le_word (chunks 4 blk)) 0 (zip md5_table md5_shifts) st) of
        ((a, b, c, d), (a', b', c', d')) \<Rightarrow> (a + a', b + b', c + c', d + d'))"

definition md5 :: "string \<Rightarrow> string" where
  "md5 s =
     (case foldl md5_block (0x67452301, 0xefcdab89, 0x98badcfe, 0x10325476) (chunks 64 (md5_pad s)) of
        (a, b, c, d) \<Rightarrow> concat (map (\<lambda>w. le_bytes 4 (unat w)) [a, b, c, d]))"

definition hex_lower :: "nat \<Rightarrow> char" where
  "hex_lower d = (if d < 10 then char_of (48 + d) else char_of (87 + d))"

definition hexdigest :: "string \<Rightarrow> string" where
  "hexdigest bytes = concat (map (\<lambda>c. [hex_lower (of_char c div 16), hex_lower (of_char c mod 16)]) bytes)"

section \<open>HMAC\<close>

definition xor_char :: "nat \<Rightarrow> char \<Rightarrow> char" where
  "xor_char n c = char_of (n XOR of_char c)"

definition hmac_key :: "string \<Rightarrow> string" where
  "hmac_key k = (let k' = (if 64 < length k then sha1 k else k) in k' @ replicate (64 - length k') (CHR 0x00))"

definition hmac_sha1 :: "string \<Rightarrow> string \<Rightarrow> string" where
  "hmac_sha1 key msg =
     sha1 (map (xor_char 0x5C) (hmac_key key) @ sha1 (map (xor_char 0x36) (hmac_key key) @ msg))"

section \<open>Base 64\<close>

definition b64_char :: "nat \<Rightarrow> char" where
  "b64_char n =
     (if n < 26 then char_of (65 + n) else if n < 52 then char_of (71 + n)
      else if n < 62 then char_of (n - 4) else if n = 62 then CHR ''+'' else CHR ''/'')"

fun b64encode :: "string \<Rightarrow> string" where
  "b64encode [] = []"
| "b64encode [a] = (let n = 16 * (of_char a :: nat) in
     [b64_char (n div 64), b64_char (n mod 64), CHR ''='', CHR ''=''])"
| "b64encode [a, b] = (let n = 4 * (256 * (of_char a :: nat) + of_char b) in
     [b64_char (n div 4096), b64_char (n div 64 mod 64), b64_char (n mod 64), CHR ''=''])"
| "b64encode (a # b # c # s) = (let n = 65536 * (of_char a :: nat) + 256 * of_char b + of_char c in
     [b64_char (n div 262144), b64_char (n div 4096 mod 64), b64_char (n div 64 mod 64), b64_char (n mod 64)]
       @ b64encode s)"

section \<open>Lengths\<close>

lemma length_be_bytes [simp]: "length (be_bytes k n) = k"
  by (simp add: be_bytes_def)

lemma length_sha1 [simp]: "length (sha1 s) = 20"
  by (simp add: sha1_def word_bytes_def split: prod.split)

lemma sha_pad_blocks: "length (sha_pad s) mod 64 = 0"
proof -
  define m where "m = length s mod 64"
  have m: "m < 64" by (simp add: m_def)
  have "m + (1 + (119 - m) mod 64) + 8 \<in> {64, 128}"
  proof (cases "m \<le> 55")
    case True
    then have "119 - m = (55 - m) + 64" by simp
    then have "(119 - m) mod 64 = 55 - m" by (simp only: mod_add_self2) simp
    with True show ?thesis by simp
  next
    case False
    with m show ?thesis by simp
  qed
  then have "m + ((1 + (119 - m) mod 64) + 8) \<in> {64, 128}" by (simp only: add.assoc)
  then have "(m + ((1 + (119 - m) mod 64) + 8)) mod 64 = 0"
    by (metis insert_iff singletonD mod_self mod_mult_self1_is_0 mult_2_right numeral_Bit0 mult_numeral_1)
  then have "(length s + ((1 + (119 - m) mod 64) + 8)) mod 64 = 0"
    unfolding m_def by (metis mod_add_left_eq)
  then show ?thesis by (simp add: sha_pad_def m_def add.assoc)
qed

lemma length_hmac_key [simp]: "length (hmac_key k) = 64"
  by (simp add: hmac_key_def Let_def)

lemma length_b64encode: "length (b64encode s) = 4 * ((length s + 2) div 3)"
proof (induction s rule: b64encode.induct)
  case (4 a b c s)
  have "(length s + 5) div 3 = (length s + 2) div 3 + 1"
    using div_add_self2 [of 3 "length s + 2"] by simp
  with 4 show ?case by (simp add: Let_def add.commute)
qed (simp_all add: Let_def)

lemma length_md5 [simp]: "length (md5 s) = 16"
  by (simp add: md5_def le_bytes_def split: prod.split)

lemma length_hexdigest [simp]: "length (hexdigest b) = 2 * length b"
  by (induction b) (simp_all add: hexdigest_def)

lemma hex_lower_digit: "d < 16 \<Longrightarrow>
    (of_char (hex_lower d) :: nat) \<in> {48..57} \<union> {97..102}"
  by (simp add: hex_lower_def)

lemma hexdigest_chars:
  "x \<in> set (hexdigest b) \<Longrightarrow> (of_char x :: nat) \<in> {48..57} \<union> {97..102}"
proof -
  have h: "(of_char c :: nat) div 16 < 16 \<and> (of_char c :: nat) mod 16 < 16" for c
    using of_char_mod_256 [of c, where 'a = nat]
    by (metis less_mult_imp_div_less mod_less_divisor numeral_times_numeral num_double semiring_norm(13)
        zero_less_numeral mult_num_simps(1) mult_num_simps(2))
  assume "x \<in> set (hexdigest b)"
  then obtain c :: char where "x = hex_lower (of_char c div 16) \<or> x = hex_lower (of_char c mod 16)"
    by (auto simp: hexdigest_def)
  then show ?thesis using h [of c] hex_lower_digit by metis
qed

lemma length_hmac_sha1 [simp]: "length (hmac_sha1 k m) = 20"
  by (simp add: hmac_sha1_def)

end
