(* ===== verification/Url.thy ===== *)
theory Url
  imports Prelude
begin

text \<open>
  What the OAuth and Twitter modules use of Python's \<open>urllib\<close> and \<open>urlparse\<close>: UTF-8, percent
  encoding, query strings and the splitting of URLs. A text holds code points up to U+00FF, a byte
  string is a text read as bytes; decoding bytes that are not the encoding of such a text fails.
\<close>

section \<open>UTF-8\<close>

definition utf8_char :: "char \<Rightarrow> string" where
  "utf8_char c = (let n = of_char c :: nat in
     if n < 128 then [c] else [char_of (192 + n div 64), char_of (128 + n mod 64)])"

definition utf8 :: "string \<Rightarrow> string" where
  "utf8 s = concat (map utf8_char s)"

fun utf8_decode :: "string \<Rightarrow> string option" where
  "utf8_decode [] = Some []"
| "utf8_decode [c] = (if (of_char c :: nat) < 128 then Some [c] else None)"
| "utf8_decode (c # d # s) =
     (if (of_char c :: nat) < 128 then map_option (Cons c) (utf8_decode (d # s))
      else if (of_char c :: nat) \<in> {194, 195} \<and> 128 \<le> (of_char d :: nat) \<and> (of_char d :: nat) < 192
        then map_option (Cons (char_of (((of_char c :: nat) - 192) * 64 + ((of_char d :: nat) - 128))))
               (utf8_decode s)
      else None)"

definition is_ascii :: "string \<Rightarrow> bool" where
  "is_ascii s \<longleftrightarrow> list_all (\<lambda>c. (of_char c :: nat) < 128) s"

lemma of_char_bound [simp]: "(of_char c :: nat) < 256"
  using of_char_mod_256 [of c, where 'a = nat] by (metis mod_less_divisor zero_less_numeral)

lemma char_halves [simp]:
  "(of_char c :: nat) div 16 < 16" "(of_char c :: nat) mod 16 < 16" "(of_char c :: nat) div 64 < 4"
  using of_char_bound [of c] by (simp_all add: less_mult_imp_div_less del: of_char_bound)

lemma utf8_Nil [simp]: "utf8 [] = []"
  by (simp add: utf8_def)

lemma utf8_Cons [simp]: "utf8 (c # s) = utf8_char c @ utf8 s"
  by (simp add: utf8_def)

lemma utf8_append [simp]: "utf8 (s @ t) = utf8 s @ utf8 t"
  by (simp add: utf8_def)

lemma utf8_ascii: "is_ascii s \<Longrightarrow> utf8 s = s"
  by (induction s) (simp_all add: is_ascii_def utf8_char_def)

lemma utf8_decode_ascii_Cons:
  "(of_char c :: nat) < 128 \<Longrightarrow> utf8_decode (c # s) = map_option (Cons c) (utf8_decode s)"
  by (cases s) auto

lemma utf8_roundtrip [simp]: "utf8_decode (utf8 s) = Some s"
proof (induction s)
  case (Cons c s)
  show ?case
  proof (cases "(of_char c :: nat) < 128")
    case True
    then show ?thesis by (simp add: utf8_char_def utf8_decode_ascii_Cons Cons)
  next
    case False
    let ?n = "of_char c :: nat"
    have b: "?n < 256" by simp
    have "?n mod 64 < 64" by simp
    then have "192 + ?n div 64 < 256" "128 + ?n mod 64 < 256"
      using char_halves(3) [of c] by linarith+
    then have d: "(of_char (char_of (192 + ?n div 64) :: char) :: nat) = 192 + ?n div 64"
      "(of_char (char_of (128 + ?n mod 64) :: char) :: nat) = 128 + ?n mod 64" by simp_all
    have "2 \<le> ?n div 64" using False by (simp add: less_eq_div_iff_mult_less_eq)
    then have h: "?n div 64 = 2 \<or> ?n div 64 = 3" using char_halves(3) [of c] by linarith
    have "char_of (?n div 64 * 64 + ?n mod 64) = c" by simp
    then show ?thesis using False h d
      by (simp add: utf8_char_def Let_def Cons)
  qed
qed simp

lemma utf8_inject [simp]: "utf8 s = utf8 t \<longleftrightarrow> s = t"
  by (metis option.inject utf8_roundtrip)

section \<open>Percent encoding\<close>

definition hexU :: "nat \<Rightarrow> char" where
  "hexU d = (if d < 10 then char_of (48 + d) else char_of (55 + d))"

definition hex_value :: "char \<Rightarrow> nat option" where
  "hex_value c = (let n = of_char c :: nat in
     if 48 \<le> n \<and> n \<le> 57 then Some (n - 48)
     else if 65 \<le> n \<and> n \<le> 70 then Some (n - 55)
     else if 97 \<le> n \<and> n \<le> 102 then Some (n - 87)
     else None)"

definition always_safe :: "char \<Rightarrow> bool" where
  "always_safe c = (let n = of_char c :: nat in
     (48 \<le> n \<and> n \<le> 57) \<or> (65 \<le> n \<and> n \<le> 90) \<or> (97 \<le> n \<and> n \<le> 122) \<or> c \<in> {CHR ''_'', CHR ''.'', CHR ''-''})"

definition pct :: "char \<Rightarrow> string" where
  "pct c = [CHR ''%'', hexU (of_char c div 16), hexU (of_char c mod 16)]"

definition quote1 :: "char list \<Rightarrow> char \<Rightarrow> string" where
  "quote1 safe c = (if always_safe c \<or> c \<in> set safe then [c] else pct c)"

definition quote :: "char list \<Rightarrow> string \<Rightarrow> string" where
  "quote safe s = concat (map (quote1 safe) s)"

definition quote_plus :: "string \<Rightarrow> string" where
  "quote_plus s = replace_char (CHR '' '') ''+'' (quote '' '' s)"

fun unquote :: "string \<Rightarrow> string" where
  "unquote [] = []"
| "unquote (c # s) =
     (if c = CHR ''%'' then
        (case s of
           a # b # t \<Rightarrow>
             (case (hex_value a, hex_value b) of
                (Some x, Some y) \<Rightarrow> char_of (16 * x + y) # unquote t
              | _ \<Rightarrow> c # unquote s)
         | _ \<Rightarrow> c # unquote s)
      else c # unquote s)"

text \<open>\<open>escape(s)\<close> of the OAuth modules: \<open>urllib.quote(s.encode('utf-8'), safe='~')\<close>.\<close>

definition escape :: "string \<Rightarrow> string" where
  "escape s = quote ''~'' (utf8 s)"

lemma of_char_hexU: "d < 16 \<Longrightarrow> (of_char (hexU d) :: nat) = (if d < 10 then 48 + d else 55 + d)"
  by (simp add: hexU_def)

lemma hex_value_hexU [simp]: "d < 16 \<Longrightarrow> hex_value (hexU d) = Some d"
  by (simp add: hex_value_def of_char_hexU Let_def)

lemma hexU_safe [simp]: "d < 16 \<Longrightarrow> always_safe (hexU d)"
  by (simp add: always_safe_def of_char_hexU Let_def)

lemma always_safe_special [simp]:
  "\<not> always_safe (CHR ''%'')" "\<not> always_safe (CHR ''+'')" "\<not> always_safe (CHR '' '')"
  "\<not> always_safe (CHR ''&'')" "\<not> always_safe (CHR ''='')" "\<not> always_safe (CHR '';'')"
  "\<not> always_safe (CHR ''~'')" "\<not> always_safe (CHR '','')" "\<not> always_safe (CHR 0x22)"
  by (simp_all add: always_safe_def)

lemma quote_simps [simp]:
  "quote safe [] = []" "quote safe (c # s) = quote1 safe c @ quote safe s"
  "quote safe (s @ t) = quote safe s @ quote safe t"
  by (simp_all add: quote_def)

lemma unquote_pct [simp]: "unquote (pct c @ s) = c # unquote s"
proof -
  have "16 * (of_char c div 16) + of_char c mod 16 = (of_char c :: nat)"
    by (rule mult_div_mod_eq)
  then show ?thesis by (simp add: pct_def)
qed

lemma unquote_plain: "c \<noteq> CHR ''%'' \<Longrightarrow> unquote (c # s) = c # unquote s"
  by simp

declare unquote.simps(2) [simp del]
declare unquote_plain [simp]

lemma unquote_id: "CHR ''%'' \<notin> set s \<Longrightarrow> unquote s = s"
  by (induction s) auto

lemma unquote_quote1 [simp]: "CHR ''%'' \<notin> set safe \<Longrightarrow> unquote (quote1 safe c @ s) = c # unquote s"
  by (cases "c = CHR ''%''") (auto simp: quote1_def unquote_plain)

lemma unquote_quote [simp]: "CHR ''%'' \<notin> set safe \<Longrightarrow> unquote (quote safe s) = s"
  by (induction s) simp_all

lemma quote_inject [simp]: "CHR ''%'' \<notin> set safe \<Longrightarrow> quote safe s = quote safe t \<longleftrightarrow> s = t"
  by (metis unquote_quote)

lemma unquote_escape [simp]: "unquote (escape s) = utf8 s"
  by (simp add: escape_def)

lemma escape_inject [simp]: "escape s = escape t \<longleftrightarrow> s = t"
  by (simp add: escape_def)

lemma pct_chars: "x \<in> set (pct c) \<Longrightarrow> x = CHR ''%'' \<or> always_safe x"
  by (auto simp: pct_def)

lemma quote_chars: "x \<in> set (quote safe s) \<Longrightarrow> x = CHR ''%'' \<or> always_safe x \<or> x \<in> set safe"
  by (induction s) (auto simp: quote1_def dest: pct_chars split: if_splits)

lemma escape_chars: "x \<in> set (escape s) \<Longrightarrow> x = CHR ''%'' \<or> always_safe x \<or> x = CHR ''~''"
  using quote_chars [of x "''~''" "utf8 s"] by (auto simp: escape_def)

lemma escape_clean [simp]:
  "CHR ''&'' \<notin> set (escape s)" "CHR ''='' \<notin> set (escape s)" "CHR '','' \<notin> set (escape s)"
  "CHR 0x22 \<notin> set (escape s)" "CHR '' '' \<notin> set (escape s)" "CHR ''+'' \<notin> set (escape s)"
  by (auto dest: escape_chars)

section \<open>Query strings\<close>

text \<open>\<open>quote_plus\<close> on one character, and on a text.\<close>

definition plus1 :: "char \<Rightarrow> string" where
  "plus1 c = (if c = CHR '' '' then ''+'' else if always_safe c then [c] else pct c)"

lemma no_space_pct: "CHR '' '' \<notin> set (pct c)"
  by (auto dest: pct_chars)

lemma quote_plus_map: "quote_plus s = concat (map plus1 s)"
proof (induction s)
  case (Cons c s)
  have "replace_char (CHR '' '') ''+'' (quote1 '' '' c) = plus1 c"
    by (auto simp: quote1_def plus1_def replace_char_absent no_space_pct)
  with Cons show ?case by (simp add: quote_plus_def)
qed (simp add: quote_plus_def)

lemma quote_plus_simps [simp]:
  "quote_plus [] = []" "quote_plus (c # s) = plus1 c @ quote_plus s"
  by (simp_all add: quote_plus_map)

definition urlencode :: "(string \<times> string) list \<Rightarrow> string" where
  "urlencode ps = str_join ''&'' (map (\<lambda>(k, v). quote_plus k @ ''='' @ quote_plus v) ps)"

definition unquote_plus :: "string \<Rightarrow> string" where
  "unquote_plus s = unquote (replace_char (CHR ''+'') '' '' s)"

text \<open>\<open>parse_qsl(qs, keep_blank_values)\<close>: pairs are separated by \<open>&\<close> or \<open>;\<close>.\<close>

definition parse_pair :: "bool \<Rightarrow> string \<Rightarrow> (string \<times> string) list" where
  "parse_pair keep nv =
     (if nv = [] then []
      else case str_split1 (CHR ''='') nv of
        (a, None) \<Rightarrow> (if keep then [(unquote_plus a, [])] else [])
      | (a, Some b) \<Rightarrow> (if b \<noteq> [] \<or> keep then [(unquote_plus a, unquote_plus b)] else []))"

definition parse_qsl :: "bool \<Rightarrow> string \<Rightarrow> (string \<times> string) list" where
  "parse_qsl keep qs =
     concat (map (parse_pair keep) (concat (map (str_split (CHR '';'')) (str_split (CHR ''&'') qs))))"

text \<open>\<open>parse_qs\<close> collects the values of each name.\<close>

fun group_pairs :: "(string \<times> string) list \<Rightarrow> (string \<times> string list) list" where
  "group_pairs [] = []"
| "group_pairs ((k, v) # ps) =
     (k, v # map snd (filter (\<lambda>p. fst p = k) ps)) # AList.delete k (group_pairs ps)"

definition parse_qs :: "bool \<Rightarrow> string \<Rightarrow> (string \<times> string list) list" where
  "parse_qs keep qs = group_pairs (parse_qsl keep qs)"

lemma plus1_chars: "x \<in> set (plus1 c) \<Longrightarrow> x = CHR ''%'' \<or> x = CHR ''+'' \<or> always_safe x"
  by (auto simp: plus1_def dest: pct_chars split: if_splits)

lemma quote_plus_chars: "x \<in> set (quote_plus s) \<Longrightarrow> x = CHR ''%'' \<or> x = CHR ''+'' \<or> always_safe x"
  by (induction s) (auto dest: plus1_chars)

lemma quote_plus_clean [simp]:
  "CHR ''&'' \<notin> set (quote_plus s)" "CHR ''='' \<notin> set (quote_plus s)" "CHR '';'' \<notin> set (quote_plus s)"
  by (auto dest: quote_plus_chars)

lemma no_plus_pct: "CHR ''+'' \<notin> set (pct c)"
  by (auto dest: pct_chars)

lemma unquote_plus_quote_plus [simp]: "unquote_plus (quote_plus s) = s"
proof (induction s)
  case (Cons c s)
  have "c \<noteq> CHR ''%'' \<and> c \<noteq> CHR ''+''" if "always_safe c" using that by auto
  with Cons show ?case
    by (auto simp: unquote_plus_def plus1_def replace_char_absent no_plus_pct)
qed (simp add: unquote_plus_def)

lemma map_of_group_pairs:
  "map_of (group_pairs ps) k =
     (let vs = map snd (filter (\<lambda>p. fst p = k) ps) in if vs = [] then None else Some vs)"
  by (induction ps rule: group_pairs.induct) (auto simp: Let_def)

lemma distinct_group_pairs [simp]: "distinct (map fst (group_pairs ps))"
  by (induction ps rule: group_pairs.induct) (simp_all add: distinct_delete delete_notin_dom)

lemma parse_qsl_urlencode: "parse_qsl True (urlencode ps) = ps"
proof (cases "ps = []")
  case True
  then show ?thesis by (simp add: urlencode_def parse_qsl_def parse_pair_def)
next
  case False
  let ?w = "\<lambda>(k, v). quote_plus k @ ''='' @ quote_plus v"
  have clean: "CHR ''&'' \<notin> set (?w p) \<and> CHR '';'' \<notin> set (?w p)" for p by (cases p) simp
  have "str_split (CHR ''&'') (urlencode ps) = map ?w ps"
    unfolding urlencode_def using False clean by (intro str_split_join) auto
  moreover have "concat (map (str_split (CHR '';'')) (map ?w ps)) = map ?w ps"
    using clean by (induction ps) (simp_all add: str_split_no_sep)
  moreover have "parse_pair True (?w p) = [p]" for p
    by (cases p) (simp add: parse_pair_def)
  then have "concat (map (parse_pair True) (map ?w ps)) = ps" by (induction ps) simp_all
  ultimately show ?thesis by (simp add: parse_qsl_def)
qed

lemma parse_qsl_drop_blank: "parse_qsl False (urlencode ps) = filter (\<lambda>p. snd p \<noteq> []) ps"
proof -
  have "quote_plus v = [] \<longleftrightarrow> v = []" for v by (metis quote_plus_simps(1) unquote_plus_quote_plus)
  let ?w = "\<lambda>(k, v). quote_plus k @ ''='' @ quote_plus v"
  have "parse_pair False (?w p) = (if snd p = [] then [] else [p])" for p
    using \<open>\<And>v. (quote_plus v = []) = (v = [])\<close> by (cases p) (simp add: parse_pair_def)
  then have p: "concat (map (parse_pair False) (map ?w ps)) = filter (\<lambda>p. snd p \<noteq> []) ps"
    by (induction ps) simp_all
  have clean: "CHR ''&'' \<notin> set (?w p) \<and> CHR '';'' \<notin> set (?w p)" for p by (cases p) simp
  show ?thesis
  proof (cases "ps = []")
    case True
    then show ?thesis by (simp add: urlencode_def parse_qsl_def parse_pair_def)
  next
    case False
    have "str_split (CHR ''&'') (urlencode ps) = map ?w ps"
      unfolding urlencode_def using False clean by (intro str_split_join) auto
    moreover have "concat (map (str_split (CHR '';'')) (map ?w ps)) = map ?w ps"
      using clean by (induction ps) (simp_all add: str_split_no_sep)
    ultimately show ?thesis using p by (simp add: parse_qsl_def)
  qed
qed

lemma urlencode_inject [simp]: "urlencode ps = urlencode qs \<longleftrightarrow> ps = qs"
  by (metis parse_qsl_urlencode)

section \<open>URLs\<close>

record url_parts =
  scheme :: string
  netloc :: string
  path :: string
  params :: string
  query :: string
  fragment :: string

definition scheme_char :: "char \<Rightarrow> bool" where
  "scheme_char c = (let n = of_char c :: nat in
     (48 \<le> n \<and> n \<le> 57) \<or> (65 \<le> n \<and> n \<le> 90) \<or> (97 \<le> n \<and> n \<le> 122) \<or> c \<in> {CHR ''+'', CHR ''-'', CHR ''.''})"

definition uses_params :: "string list" where
  "uses_params = [[], ''ftp'', ''hdl'', ''prospero'', ''http'', ''https'', ''shttp'', ''rtsp'',
     ''rtspu'', ''sip'', ''sips'', ''mms'', ''sftp'', ''tel'']"

definition uses_netloc :: "string list" where
  "uses_netloc = [''ftp'', ''http'', ''gopher'', ''nntp'', ''telnet'', ''imap'', ''wais'', ''file'',
     ''mms'', ''https'', ''shttp'', ''snews'', ''prospero'', ''rtsp'', ''rtspu'', ''rsync'', [],
     ''svn'', ''svn+ssh'', ''sftp'', ''nfs'', ''git'', ''git+ssh'']"

text \<open>The scheme in front of the first colon, unless what follows is a port number.\<close>

definition split_scheme :: "string \<Rightarrow> string \<times> string" where
  "split_scheme u =
     (case str_split1 (CHR '':'') u of
        (a, Some b) \<Rightarrow>
          (if a = ''http'' then (a, b)
           else if a \<noteq> [] \<and> list_all scheme_char a \<and> (b = [] \<or> \<not> list_all is_digit b) then (str_lower a, b)
           else ([], u))
      | _ \<Rightarrow> ([], u))"

definition split_netloc :: "string \<Rightarrow> string \<times> string" where
  "split_netloc u =
     (if starts_with u ''//'' then
        (let p = (\<lambda>c. c \<notin> {CHR ''/'', CHR ''?'', CHR ''#''}) in (takeWhile p (drop 2 u), dropWhile p (drop 2 u)))
      else ([], u))"

definition split_tail :: "char \<Rightarrow> string \<Rightarrow> string \<times> string" where
  "split_tail c u = (case str_split1 c u of (a, None) \<Rightarrow> (a, []) | (a, Some b) \<Rightarrow> (a, b))"

text \<open>The parameters of the last path segment.\<close>

definition split_params :: "string \<Rightarrow> string \<times> string" where
  "split_params u =
     (let seg = rev (takeWhile (\<lambda>c. c \<noteq> CHR ''/'') (rev u));
          pre = take (length u - length seg) u
      in case str_split1 (CHR '';'') seg of
           (a, None) \<Rightarrow> (u, [])
         | (a, Some b) \<Rightarrow> (pre @ a, b))"

definition urlparse :: "string \<Rightarrow> url_parts res" where
  "urlparse u0 =
     (case split_scheme u0 of (sch, u1) \<Rightarrow>
      case split_netloc u1 of (nl, u2) \<Rightarrow>
        if (CHR ''['' \<in> set nl) \<noteq> (CHR '']'' \<in> set nl) then Inl (ValueError ''Invalid IPv6 URL'')
        else
          (case split_tail (CHR ''#'') u2 of (u3, fr) \<Rightarrow>
           case split_tail (CHR ''?'') u3 of (u4, q) \<Rightarrow>
           case (if sch \<in> set uses_params then split_params u4 else (u4, [])) of (p, ps) \<Rightarrow>
             Inr \<lparr>scheme = sch, netloc = nl, path = p, params = ps, query = q, fragment = fr\<rparr>))"

definition urlunparse :: "url_parts \<Rightarrow> string" where
  "urlunparse u =
     (let p = (if params u \<noteq> [] then path u @ '';'' @ params u else path u);
          p1 = (if netloc u \<noteq> [] \<or> (scheme u \<noteq> [] \<and> scheme u \<in> set uses_netloc \<and> \<not> starts_with p ''//'')
                then ''//'' @ netloc u @ (if p \<noteq> [] \<and> hd p \<noteq> CHR ''/'' then ''/'' @ p else p) else p);
          p2 = (if scheme u \<noteq> [] then scheme u @ '':'' @ p1 else p1);
          p3 = (if query u \<noteq> [] then p2 @ ''?'' @ query u else p2)
      in if fragment u \<noteq> [] then p3 @ ''#'' @ fragment u else p3)"

text \<open>\<open>urllib.splittype\<close> and \<open>urllib.splithost\<close>.\<close>

definition splittype :: "string \<Rightarrow> string option \<times> string" where
  "splittype u =
     (let a = takeWhile (\<lambda>c. c \<noteq> CHR ''/'' \<and> c \<noteq> CHR '':'') u; r = drop (length a) u in
      if a \<noteq> [] \<and> r \<noteq> [] \<and> hd r = CHR '':'' then (Some (str_lower a), tl r) else (None, u))"

definition splithost :: "string \<Rightarrow> string option \<times> string" where
  "splithost u =
     (if starts_with u ''//'' then
        (let p = (\<lambda>c. c \<notin> {CHR ''/'', CHR ''?''}) in
         (Some (takeWhile p (drop 2 u)), dropWhile p (drop 2 u)))
      else (None, u))"

text \<open>A parsed URL of the usual form is rebuilt and parsed again unchanged.\<close>

definition plain_url :: "url_parts \<Rightarrow> bool" where
  "plain_url u \<longleftrightarrow> scheme u \<in> {''http'', ''https''} \<and> params u = [] \<and> fragment u = [] \<and>
     netloc u \<noteq> [] \<and> CHR ''/'' \<notin> set (netloc u) \<and> CHR ''?'' \<notin> set (netloc u) \<and> CHR ''#'' \<notin> set (netloc u) \<and>
     CHR ''['' \<notin> set (netloc u) \<and> CHR '']'' \<notin> set (netloc u) \<and>
     (path u = [] \<or> hd (path u) = CHR ''/'') \<and>
     CHR '';'' \<notin> set (path u) \<and> CHR ''?'' \<notin> set (path u) \<and> CHR ''#'' \<notin> set (path u) \<and>
     CHR ''#'' \<notin> set (query u)"

lemma takeWhile_all_stop:
  "list_all p a \<Longrightarrow> b = [] \<or> \<not> p (hd b) \<Longrightarrow> takeWhile p (a @ b) = a \<and> dropWhile p (a @ b) = b"
  by (induction a) (auto simp: takeWhile_eq_Nil_iff dropWhile_eq_self_iff)

lemma split_params_none: "CHR '';'' \<notin> set u \<Longrightarrow> split_params u = (u, [])"
proof -
  assume "CHR '';'' \<notin> set u"
  then have "CHR '';'' \<notin> set (rev (takeWhile (\<lambda>c. c \<noteq> CHR ''/'') (rev u)))"
    by (auto dest: set_takeWhileD)
  then show ?thesis by (simp add: split_params_def Let_def)
qed

lemma split_tail_simps:
  "c \<notin> set a \<Longrightarrow> split_tail c (a @ c # b) = (a, b)"
  "c \<notin> set a \<Longrightarrow> split_tail c a = (a, [])"
  by (simp_all add: split_tail_def)

lemma split_scheme_http:
  "s \<in> {''http'', ''https''} \<Longrightarrow> split_scheme (s @ CHR '':'' # CHR ''/'' # t) = (s, CHR ''/'' # t)"
  by (auto simp: split_scheme_def is_digit_def scheme_char_def str_lower_def lower_char_def)

lemma split_netloc_plain:
  assumes "CHR ''/'' \<notin> set nl" "CHR ''?'' \<notin> set nl" "CHR ''#'' \<notin> set nl"
    and "r = [] \<or> hd r \<in> {CHR ''/'', CHR ''?'', CHR ''#''}"
  shows "split_netloc (''//'' @ nl @ r) = (nl, r)"
proof -
  let ?p = "\<lambda>c. c \<notin> {CHR ''/'', CHR ''?'', CHR ''#''}"
  have "list_all ?p nl" using assms(1-3) by (auto simp: list_all_iff)
  moreover have "r = [] \<or> \<not> ?p (hd r)" using assms(4) by simp
  ultimately have "takeWhile ?p (nl @ r) = nl \<and> dropWhile ?p (nl @ r) = r"
    by (rule takeWhile_all_stop)
  then show ?thesis by (simp add: split_netloc_def Let_def)
qed

text \<open>How a plain URL is written, and how each splitter takes its part off again.\<close>

lemma plain_url_splits:
  fixes u :: url_parts
  defines "q \<equiv> if query u \<noteq> [] then ''?'' @ query u else []"
  assumes "plain_url u"
  shows "split_scheme (urlunparse u) = (scheme u, ''//'' @ netloc u @ path u @ q)"
    and "split_netloc (''//'' @ netloc u @ path u @ q) = (netloc u, path u @ q)"
    and "split_tail (CHR ''#'') (path u @ q) = (path u @ q, [])"
    and "split_tail (CHR ''?'') (path u @ q) = (path u, query u)"
proof -
  note p = assms(2) [unfolded plain_url_def]
  have "urlunparse u = scheme u @ CHR '':'' # ''//'' @ netloc u @ path u @ q"
    using p by (auto simp: urlunparse_def Let_def q_def)
  then show "split_scheme (urlunparse u) = (scheme u, ''//'' @ netloc u @ path u @ q)"
    using p split_scheme_http [of "scheme u"] by simp
  show "split_netloc (''//'' @ netloc u @ path u @ q) = (netloc u, path u @ q)"
    unfolding q_def using p by (intro split_netloc_plain) (auto simp: hd_append)
  show "split_tail (CHR ''#'') (path u @ q) = (path u @ q, [])" "split_tail (CHR ''?'') (path u @ q) = (path u, query u)"
    unfolding q_def using p by (auto simp: split_tail_simps)
qed

lemma urlparse_urlunparse:
  assumes "plain_url u"
  shows "urlparse (urlunparse u) = Inr u"
proof -
  note p = assms [unfolded plain_url_def]
  have "scheme u \<in> set uses_params" using p by (auto simp: uses_params_def)
  moreover have "split_params (path u) = (path u, [])" using p by (intro split_params_none) simp
  ultimately show ?thesis
    unfolding urlparse_def plain_url_splits [OF assms] prod.case using p by simp
qed

end
