(* ===== verification/PyValue.thy ===== *)
theory PyValue
  imports Complex_Main Prelude
begin

text \<open>
  The dynamically typed Python values that flow through the modelled code (what \<open>json.loads\<close>
  returns, keyword arguments, attribute values): truth value, equality, \<open>in\<close>, subscripts,
  iteration, and dictionaries whose keys are compared by Python's \<open>==\<close>, under which
  \<open>True == 1 == 1.0\<close>. Floats are exact rationals; NaN and the infinities are not represented.
\<close>

datatype pyval =
    PNone
  | PBool bool
  | PInt int
  | PFloat rat
  | PStr string
  | PList "pyval list"
  | PDict "(pyval \<times> pyval) list"

type_synonym pydict = "(pyval \<times> pyval) list"

fun truthy :: "pyval \<Rightarrow> bool" where
  "truthy PNone = False"
| "truthy (PBool b) = b"
| "truthy (PInt i) = (i \<noteq> 0)"
| "truthy (PFloat r) = (r \<noteq> 0)"
| "truthy (PStr s) = (s \<noteq> [])"
| "truthy (PList xs) = (xs \<noteq> [])"
| "truthy (PDict d) = (d \<noteq> [])"

section \<open>Equality\<close>

fun num_of :: "pyval \<Rightarrow> rat option" where
  "num_of (PBool b) = Some (if b then 1 else 0)"
| "num_of (PInt i) = Some (of_int i)"
| "num_of (PFloat r) = Some r"
| "num_of _ = None"

function py_eq :: "pyval \<Rightarrow> pyval \<Rightarrow> bool"
  and py_eqs :: "pyval list \<Rightarrow> pyval list \<Rightarrow> bool"
  and py_sub :: "pydict \<Rightarrow> pydict \<Rightarrow> bool" where
  "py_eq PNone b = (b = PNone)"
| "py_eq (PStr s) b = (b = PStr s)"
| "py_eq (PList xs) b = (case b of PList ys \<Rightarrow> py_eqs xs ys | _ \<Rightarrow> False)"
| "py_eq (PDict d) b =
     (case b of PDict e \<Rightarrow> length d = length e \<and> py_sub d e | _ \<Rightarrow> False)"
| "py_eq (PBool x) b = (num_of b = num_of (PBool x))"
| "py_eq (PInt i) b = (num_of b = num_of (PInt i))"
| "py_eq (PFloat r) b = (num_of b = num_of (PFloat r))"
| "py_eqs [] ys = (ys = [])"
| "py_eqs (x # xs) ys = (case ys of [] \<Rightarrow> False | y # zs \<Rightarrow> py_eq x y \<and> py_eqs xs zs)"
| "py_sub [] e = True"
| "py_sub ((k, v) # d) e = (list_ex (\<lambda>(k', w). py_eq k k' \<and> py_eq v w) e \<and> py_sub d e)"
  by pat_completeness auto
termination
  by (relation "measure (case_sum (\<lambda>(a, b). size a) (case_sum (\<lambda>(xs, ys). size_list size xs)
        (\<lambda>(d, e). size_list (size_prod size size) d)))") auto

lemma py_eqs_iff: "py_eqs xs ys \<longleftrightarrow> list_all2 py_eq xs ys"
  by (induction xs arbitrary: ys) (auto split: list.splits simp: list_all2_Cons1)

lemma py_sub_iff: "py_sub d e \<longleftrightarrow> (\<forall>(k, v) \<in> set d. \<exists>(k', w) \<in> set e. py_eq k k' \<and> py_eq v w)"
proof (induction d)
  case (Cons p d)
  then show ?case by (cases p) (simp add: list_ex_iff)
qed simp

lemma py_eq_num: "num_of a \<noteq> None \<Longrightarrow> py_eq a b \<longleftrightarrow> num_of b = num_of a"
  by (cases a) auto

lemma py_eq_refl [simp]: "py_eq a a"
proof (induction a)
  case (PList xs)
  then show ?case by (simp add: py_eqs_iff list_all2_same)
next
  case (PDict d)
  have "py_eq k k \<and> py_eq v v" if "(k, v) \<in> set d" for k v
    using PDict that by (fastforce simp: fsts.simps snds.simps)
  then show ?case by (fastforce simp: py_sub_iff)
qed auto

lemma num_of_None_iff:
  "num_of b = None \<longleftrightarrow> (case b of PBool _ \<Rightarrow> False | PInt _ \<Rightarrow> False | PFloat _ \<Rightarrow> False | _ \<Rightarrow> True)"
  by (cases b) auto

lemma py_eq_trans: "py_eq a b \<Longrightarrow> py_eq b c \<Longrightarrow> py_eq a c"
proof (induction a arbitrary: b c)
  case (PList xs)
  from PList.prems(1) obtain ys where b: "b = PList ys" and xy: "list_all2 py_eq xs ys"
    by (auto simp: py_eqs_iff split: pyval.splits)
  from PList.prems(2) b obtain zs where c: "c = PList zs" and yz: "list_all2 py_eq ys zs"
    by (auto simp: py_eqs_iff split: pyval.splits)
  have "list_all2 py_eq xs zs"
    unfolding list_all2_conv_all_nth
  proof (intro conjI allI impI)
    show "length xs = length zs" using xy yz by (simp add: list_all2_lengthD)
    fix i assume i: "i < length xs"
    then have "py_eq (xs ! i) (ys ! i)" "py_eq (ys ! i) (zs ! i)"
      using xy yz by (auto simp: list_all2_conv_all_nth)
    then show "py_eq (xs ! i) (zs ! i)" using PList.IH i nth_mem by blast
  qed
  with c show ?case by (simp add: py_eqs_iff)
next
  case (PDict d)
  from PDict.prems(1) obtain e where b: "b = PDict e" and de: "length d = length e" "py_sub d e"
    by (auto split: pyval.splits)
  from PDict.prems(2) b obtain f where c: "c = PDict f" and ef: "length e = length f" "py_sub e f"
    by (auto split: pyval.splits)
  have "py_sub d f"
    unfolding py_sub_iff
  proof (clarify)
    fix k v assume kv: "(k, v) \<in> set d"
    with de obtain k1 v1 where 1: "(k1, v1) \<in> set e" "py_eq k k1" "py_eq v v1"
      by (fastforce simp: py_sub_iff)
    with ef obtain k2 v2 where 2: "(k2, v2) \<in> set f" "py_eq k1 k2" "py_eq v1 v2"
      by (fastforce simp: py_sub_iff)
    have "py_eq k k2" "py_eq v v2"
      using PDict.IH(1) [OF kv, of k] PDict.IH(2) [OF kv, of v] 1 2
      by (auto simp: fsts.simps snds.simps)
    with 2 show "\<exists>(k', w) \<in> set f. py_eq k k' \<and> py_eq v w" by blast
  qed
  with de ef c show ?case by simp
qed (auto simp: py_eq_num split: pyval.splits)

text \<open>On the hashable values (no lists, no dictionaries) equality is symmetric too.\<close>

fun hashable :: "pyval \<Rightarrow> bool" where
  "hashable (PList _) = False"
| "hashable (PDict _) = False"
| "hashable _ = True"

lemma py_eq_sym: "hashable a \<Longrightarrow> py_eq a b \<Longrightarrow> py_eq b a"
  by (cases a) (auto simp: py_eq_num)

lemma py_eq_hashable: "py_eq a b \<Longrightarrow> hashable a = hashable b"
proof (cases a)
  case (PBool x)
  then show "py_eq a b \<Longrightarrow> ?thesis" by (cases b) auto
next
  case (PInt x)
  then show "py_eq a b \<Longrightarrow> ?thesis" by (cases b) auto
next
  case (PFloat x)
  then show "py_eq a b \<Longrightarrow> ?thesis" by (cases b) auto
qed (auto split: pyval.splits)

lemma py_eq_PStr [simp]: "py_eq a (PStr s) \<longleftrightarrow> a = PStr s"
  by (cases a) auto

section \<open>Dictionaries keyed by Python equality\<close>

fun pd_get :: "(pyval \<times> 'v) list \<Rightarrow> pyval \<Rightarrow> 'v option" where
  "pd_get [] k = None"
| "pd_get ((k', v) # d) k = (if py_eq k' k then Some v else pd_get d k)"

text \<open>An assignment \<open>d[k] = v\<close> keeps the key object that is already there.\<close>

fun pd_set :: "(pyval \<times> 'v) list \<Rightarrow> pyval \<Rightarrow> 'v \<Rightarrow> (pyval \<times> 'v) list" where
  "pd_set [] k v = [(k, v)]"
| "pd_set ((k', w) # d) k v = (if py_eq k' k then (k', v) # d else (k', w) # pd_set d k v)"

fun pd_del :: "(pyval \<times> 'v) list \<Rightarrow> pyval \<Rightarrow> (pyval \<times> 'v) list" where
  "pd_del [] k = []"
| "pd_del ((k', w) # d) k = (if py_eq k' k then d else (k', w) # pd_del d k)"

definition pd_has :: "(pyval \<times> 'v) list \<Rightarrow> pyval \<Rightarrow> bool" where
  "pd_has d k = (pd_get d k \<noteq> None)"

fun pd_wf :: "(pyval \<times> 'v) list \<Rightarrow> bool" where
  "pd_wf [] = True"
| "pd_wf ((k, v) # d) = (hashable k \<and> pd_get d k = None \<and> pd_wf d)"

lemma py_eq_cong_left: "hashable a \<Longrightarrow> py_eq a b \<Longrightarrow> py_eq a c \<longleftrightarrow> py_eq b c"
  using py_eq_sym py_eq_trans by blast

lemma py_eq_cong_right: "hashable b \<Longrightarrow> py_eq b c \<Longrightarrow> py_eq a b \<longleftrightarrow> py_eq a c"
  using py_eq_sym py_eq_trans by blast

lemma pd_get_eq_key:
  "hashable k \<Longrightarrow> py_eq k k' \<Longrightarrow> pd_get d k = pd_get d k'"
  by (induction d) (auto simp: py_eq_cong_right [of k k'])

lemma pd_get_set [simp, dict_simps]:
  "pd_wf d \<Longrightarrow> hashable k \<Longrightarrow>
     pd_get (pd_set d k v) k' = (if py_eq k k' then Some v else pd_get d k')"
proof (induction d)
  case (Cons p d)
  obtain a b where p: "p = (a, b)" by force
  with Cons.prems have ha: "hashable a" by simp
  show ?case
  proof (cases "py_eq a k")
    case True
    then have "py_eq a k' \<longleftrightarrow> py_eq k k'" by (rule py_eq_cong_left [OF ha])
    with Cons p True show ?thesis by simp
  next
    case False
    then have "\<not> (py_eq a k' \<and> py_eq k k')"
      using py_eq_cong_right [OF Cons.prems(2), of k' a] by blast
    with Cons p False show ?thesis by auto
  qed
qed simp

lemma pd_wf_set [simp, dict_simps]: "pd_wf d \<Longrightarrow> hashable k \<Longrightarrow> pd_wf (pd_set d k v)"
proof (induction d)
  case (Cons p d)
  then show ?case by (cases p) (auto dest: py_eq_sym)
qed simp

lemma pd_get_del [simp, dict_simps]:
  "pd_wf d \<Longrightarrow> hashable k \<Longrightarrow> pd_get (pd_del d k) k' = (if py_eq k k' then None else pd_get d k')"
proof (induction d)
  case (Cons p d)
  obtain a b where p: "p = (a, b)" by force
  from Cons p have ha: "hashable a" and wf: "pd_wf d" and na: "pd_get d a = None" by auto
  show ?case
  proof (cases "py_eq a k")
    case True
    have "pd_get d k' = None" if "py_eq k k'"
      using pd_get_eq_key [OF ha, of k' d] na py_eq_trans [OF True that] by simp
    moreover have "py_eq a k' \<Longrightarrow> py_eq k k'"
      using True ha py_eq_sym py_eq_trans by blast
    ultimately show ?thesis using True p py_eq_trans by auto
  next
    case False
    then have "\<not> (py_eq a k' \<and> py_eq k k')"
      using ha py_eq_sym py_eq_trans Cons.prems(2) by blast
    with False Cons p show ?thesis by auto
  qed
qed simp

lemma pd_get_del_None: "pd_get d k' = None \<Longrightarrow> pd_get (pd_del d k) k' = None"
  by (induction d) (auto split: if_splits)

lemma pd_wf_del [simp, dict_simps]: "pd_wf d \<Longrightarrow> pd_wf (pd_del d k)"
  by (induction d k rule: pd_del.induct) (auto simp: pd_get_del_None)

lemma pd_has_set [simp, dict_simps]:
  "pd_wf d \<Longrightarrow> hashable k \<Longrightarrow> pd_has (pd_set d k v) k' \<longleftrightarrow> py_eq k k' \<or> pd_has d k'"
  by (simp add: pd_has_def)

section \<open>The operators of Python on dynamic values\<close>

text \<open>\<open>k in v\<close> for a text \<open>k\<close>: key of a dictionary, element of a list, substring of a text.\<close>

fun py_in :: "string \<Rightarrow> pyval \<Rightarrow> bool res" where
  "py_in k (PDict d) = Inr (pd_has d (PStr k))"
| "py_in k (PList xs) = Inr (list_ex (\<lambda>x. py_eq x (PStr k)) xs)"
| "py_in k (PStr s) = Inr (str_contains s k)"
| "py_in k _ = Inl (TypeError ''argument is not iterable'')"

text \<open>\<open>v[k]\<close> for a text \<open>k\<close>.\<close>

fun py_item :: "pyval \<Rightarrow> string \<Rightarrow> pyval res" where
  "py_item (PDict d) k = (case pd_get d (PStr k) of None \<Rightarrow> Inl (KeyError k) | Some v \<Rightarrow> Inr v)"
| "py_item _ k = Inl (TypeError ''object is not subscriptable by a text'')"

text \<open>\<open>v.get(k, None)\<close>.\<close>

fun py_get :: "pyval \<Rightarrow> string \<Rightarrow> pyval res" where
  "py_get (PDict d) k = Inr (case pd_get d (PStr k) of None \<Rightarrow> PNone | Some v \<Rightarrow> v)"
| "py_get _ k = Inl (AttributeError ''get'')"

text \<open>\<open>for x in v\<close>: the elements in iteration order.\<close>

fun py_iter :: "pyval \<Rightarrow> pyval list res" where
  "py_iter (PList xs) = Inr xs"
| "py_iter (PStr s) = Inr (map (\<lambda>c. PStr [c]) s)"
| "py_iter (PDict d) = Inr (map fst d)"
| "py_iter _ = Inl (TypeError ''object is not iterable'')"

fun py_len :: "pyval \<Rightarrow> nat res" where
  "py_len (PList xs) = Inr (length xs)"
| "py_len (PStr s) = Inr (length s)"
| "py_len (PDict d) = Inr (length d)"
| "py_len _ = Inl (TypeError ''object has no len()'')"

fun is_dict :: "pyval \<Rightarrow> bool" where
  "is_dict (PDict _) = True"
| "is_dict _ = False"

fun is_list :: "pyval \<Rightarrow> bool" where
  "is_list (PList _) = True"
| "is_list _ = False"

text \<open>The conversion \<open>%d\<close> of string formatting wants a number.\<close>

definition fmt_d :: "pyval \<Rightarrow> unit res" where
  "fmt_d v = (if num_of v = None then Inl (TypeError ''%d format: a number is required'') else Inr ())"

lemma fmt_d_ok [simp]: "fmt_d v = Inr u \<longleftrightarrow> num_of v \<noteq> None"
  by (simp add: fmt_d_def)

lemma fmt_d_num [simp]: "fmt_d (PBool b) = Inr ()" "fmt_d (PInt i) = Inr ()" "fmt_d (PFloat r) = Inr ()"
  by (simp_all add: fmt_d_def)

lemma num_hashable: "num_of v \<noteq> None \<Longrightarrow> hashable v"
  by (cases v) auto

lemma size_pd_get: "pd_get d k = Some v \<Longrightarrow> size v < size (PDict d)"
proof (induction d)
  case (Cons p d)
  then show ?case by (cases p) (fastforce split: if_splits)
qed simp

lemma size_py_item: "py_item d k = Inr v \<Longrightarrow> size v < size d"
  by (cases d) (auto simp del: pyval.size split: option.splits dest: size_pd_get)

lemma size_py_iter_list: "py_iter d = Inr xs \<Longrightarrow> is_list d \<Longrightarrow> x \<in> set xs \<Longrightarrow> size x < size d"
  by (cases d) (auto simp: less_Suc_eq_le dest: size_list_estimation' [OF _ order_refl])

lemma size_py_iter: "py_iter d = Inr xs \<Longrightarrow> x \<in> set xs \<Longrightarrow> size x \<le> size d"
proof (cases d)
  case (PDict e)
  have "(x, v) \<in> set e \<Longrightarrow> size x \<le> size (PDict e)" for v by (induction e) auto
  then show "py_iter d = Inr xs \<Longrightarrow> x \<in> set xs \<Longrightarrow> ?thesis" using PDict by auto
next
  case (PList ys)
  then show "py_iter d = Inr xs \<Longrightarrow> x \<in> set xs \<Longrightarrow> ?thesis"
    using size_py_iter_list [of d xs x] by (simp del: pyval.size)
qed auto

lemma PStr_dict_keys: "pd_get (map (\<lambda>(k, v). (PStr k, v)) al) (PStr k) = map_of al k"
  by (induction al) auto

end
