(* ===== verification/Json.thy ===== *)
theory Json
  imports PyValue
begin

text \<open>
  Python's \<open>json\<close> module as the code uses it: \<open>dumps\<close> with the default separators and ASCII
  escapes, and \<open>loads\<close>. The shortest decimal form of a float is a parameter of \<open>dumps\<close>. A text
  whose \<open>\\u\<close> escape names a code point above U+00FF is outside the model and raises, as do
  \<open>NaN\<close> and \<open>Infinity\<close>. The lemmas show that \<open>loads\<close> undoes \<open>dumps\<close> on every value without
  floats whose dictionaries have distinct text keys, and that the reader always advances.
\<close>

section \<open>Writing\<close>

definition hex_digit :: "nat \<Rightarrow> char" where
  "hex_digit d = (if d < 10 then char_of (48 + d) else char_of (87 + d))"

definition json_esc :: "char \<Rightarrow> string" where
  "json_esc c =
     (if c = CHR 0x22 then [CHR 0x5C, CHR 0x22]
      else if c = CHR 0x5C then [CHR 0x5C, CHR 0x5C]
      else if c = CHR 0x0A then [CHR 0x5C, CHR ''n'']
      else if c = CHR 0x0D then [CHR 0x5C, CHR ''r'']
      else if c = CHR 0x09 then [CHR 0x5C, CHR ''t'']
      else if c = CHR 0x0C then [CHR 0x5C, CHR ''f'']
      else if c = CHR 0x08 then [CHR 0x5C, CHR ''b'']
      else if of_char c < (32 :: nat) \<or> (126 :: nat) < of_char c
        then [CHR 0x5C, CHR ''u'', CHR ''0'', CHR ''0'',
              hex_digit (of_char c div 16), hex_digit (of_char c mod 16)]
      else [c])"

definition json_str :: "string \<Rightarrow> string" where
  "json_str s = CHR 0x22 # concat (map json_esc s) @ [CHR 0x22]"

fun json_key :: "(rat \<Rightarrow> string) \<Rightarrow> pyval \<Rightarrow> string res" where
  "json_key fr (PStr s) = Inr s"
| "json_key fr (PFloat r) = Inr (fr r)"
| "json_key fr (PBool b) = Inr (if b then ''true'' else ''false'')"
| "json_key fr PNone = Inr ''null''"
| "json_key fr (PInt i) = Inr (show_int i)"
| "json_key fr _ = Inl (TypeError ''keys must be a string'')"

fun json_dumps :: "(rat \<Rightarrow> string) \<Rightarrow> pyval \<Rightarrow> string res" where
  "json_dumps fr PNone = Inr ''null''"
| "json_dumps fr (PBool b) = Inr (if b then ''true'' else ''false'')"
| "json_dumps fr (PInt i) = Inr (show_int i)"
| "json_dumps fr (PFloat r) = Inr (fr r)"
| "json_dumps fr (PStr s) = Inr (json_str s)"
| "json_dumps fr (PList xs) =
     rbind (rmap (json_dumps fr) xs) (\<lambda>ts. Inr (''['' @ str_join '', '' ts @ '']''))"
| "json_dumps fr (PDict d) =
     rbind (rmap (\<lambda>(k, v). rbind (json_key fr k) (\<lambda>kt. rbind (json_dumps fr v)
              (\<lambda>t. Inr (json_str kt @ '': '' @ t)))) d)
       (\<lambda>ts. Inr (''{'' @ str_join '', '' ts @ ''}''))"

section \<open>Reading\<close>

definition json_bad :: "'a res" where
  "json_bad = Inl (ValueError ''No JSON object could be decoded'')"

definition is_ws :: "char \<Rightarrow> bool" where
  "is_ws c = (c \<in> {CHR '' '', CHR 0x09, CHR 0x0A, CHR 0x0D})"

definition skip_ws :: "string \<Rightarrow> string" where
  "skip_ws s = dropWhile is_ws s"

definition hex_val :: "char \<Rightarrow> nat option" where
  "hex_val c =
     (let n = of_char c :: nat in
      if 48 \<le> n \<and> n \<le> 57 then Some (n - 48)
      else if 97 \<le> n \<and> n \<le> 102 then Some (n - 87)
      else if 65 \<le> n \<and> n \<le> 70 then Some (n - 55)
      else None)"

fun hex_digits :: "nat \<Rightarrow> string \<Rightarrow> nat option" where
  "hex_digits n [] = Some n"
| "hex_digits n (c # s) = (case hex_val c of None \<Rightarrow> None | Some d \<Rightarrow> hex_digits (16 * n + d) s)"

definition simple_escape :: "char \<Rightarrow> char option" where
  "simple_escape e =
     (if e = CHR 0x22 \<or> e = CHR 0x5C \<or> e = CHR 0x2F then Some e
      else if e = CHR ''n'' then Some (CHR 0x0A)
      else if e = CHR ''r'' then Some (CHR 0x0D)
      else if e = CHR ''t'' then Some (CHR 0x09)
      else if e = CHR ''f'' then Some (CHR 0x0C)
      else if e = CHR ''b'' then Some (CHR 0x08)
      else None)"

text \<open>The text after an opening quote.\<close>

fun p_string :: "string \<Rightarrow> (string \<times> string) res" where
  "p_string [] = json_bad"
| "p_string (c # r) =
     (if c = CHR 0x22 then Inr ([], r)
      else if c = CHR 0x5C then
        (case r of
           [] \<Rightarrow> json_bad
         | e # r1 \<Rightarrow>
             if e = CHR ''u'' then
               (case r1 of
                  a # b # x # y # r2 \<Rightarrow>
                    (case (hex_val a, hex_val b, hex_val x, hex_val y) of
                       (Some 0, Some 0, Some h, Some l) \<Rightarrow>
                         rbind (p_string r2) (\<lambda>(t, r3). Inr (char_of (16 * h + l) # t, r3))
                     | _ \<Rightarrow> json_bad)
                | _ \<Rightarrow> json_bad)
             else (case simple_escape e of
                     Some d \<Rightarrow> rbind (p_string r1) (\<lambda>(t, r3). Inr (d # t, r3))
                   | None \<Rightarrow> json_bad))
      else if (of_char c :: nat) < 32 then json_bad
      else rbind (p_string r) (\<lambda>(t, r3). Inr (c # t, r3)))"

text \<open>Numbers: the longest match of \<open>-?(0|[1-9][0-9]*)(.[0-9]+)?([eE][-+]?[0-9]+)?\<close>.\<close>

definition int_digits :: "string \<Rightarrow> string" where
  "int_digits s = (case s of [] \<Rightarrow> [] | c # r \<Rightarrow> if c = CHR ''0'' then [c] else takeWhile is_digit s)"

definition frac_part :: "string \<Rightarrow> string" where
  "frac_part s =
     (case s of [] \<Rightarrow> [] | c # r \<Rightarrow> if c = CHR ''.'' then takeWhile is_digit r else [])"

definition exp_part :: "string \<Rightarrow> string \<times> string" where
  "exp_part s =
     (case s of
        [] \<Rightarrow> ([], [])
      | c # r \<Rightarrow>
          if c = CHR ''e'' \<or> c = CHR ''E'' then
            (let sg = (case r of [] \<Rightarrow> [] | d # _ \<Rightarrow> if d = CHR ''-'' \<or> d = CHR ''+'' then [d] else []);
                 ds = takeWhile is_digit (drop (length sg) r)
             in if ds = [] then ([], []) else (sg, ds))
          else ([], []))"

definition ten_power :: "string \<Rightarrow> nat \<Rightarrow> rat" where
  "ten_power sg n = (if sg = ''-'' then 1 / 10 ^ n else 10 ^ n)"

definition p_number :: "string \<Rightarrow> (pyval \<times> string) res" where
  "p_number s =
     (let neg = starts_with s ''-'';
          s1 = (if neg then drop 1 s else s);
          ds = int_digits s1
      in if ds = [] then json_bad
         else
           let s2 = drop (length ds) s1;
               fs = frac_part s2;
               s3 = (if fs = [] then s2 else drop (Suc (length fs)) s2);
               (sg, es) = exp_part s3;
               s4 = (if es = [] then s3 else drop (Suc (length sg + length es)) s3)
           in if fs = [] \<and> es = []
              then Inr (PInt (if neg then - int (digits_val ds) else int (digits_val ds)), s2)
              else Inr (PFloat ((if neg then -1 else 1)
                     * (of_nat (digits_val (ds @ fs)) / 10 ^ length fs)
                     * ten_power sg (digits_val es)), s4))"

text \<open>
  Values, list elements and object members. A reader continues on what the value before it left;
  the length tests are there for HOL's termination proof and always succeed, because a value
  consumes at least one character (\<open>p_value_advances\<close>).
\<close>

function p_value :: "string \<Rightarrow> (pyval \<times> string) res"
  and p_elems :: "pyval list \<Rightarrow> string \<Rightarrow> (pyval \<times> string) res"
  and p_members :: "pydict \<Rightarrow> string \<Rightarrow> (pyval \<times> string) res" where
  "p_value [] = json_bad"
| "p_value (c # r) =
     (if c = CHR 0x22 then rbind (p_string r) (\<lambda>(t, r1). Inr (PStr t, r1))
      else if c = CHR 0x7B then
        (case skip_ws r of
           [] \<Rightarrow> json_bad
         | e # r1 \<Rightarrow> if e = CHR 0x7D then Inr (PDict [], r1)
                     else if length (e # r1) \<le> length r then p_members [] (e # r1) else json_bad)
      else if c = CHR ''['' then
        (case skip_ws r of
           [] \<Rightarrow> json_bad
         | e # r1 \<Rightarrow> if e = CHR '']'' then Inr (PList [], r1)
                     else if length (e # r1) \<le> length r then p_elems [] (e # r1) else json_bad)
      else if starts_with (c # r) ''null'' then Inr (PNone, drop 4 (c # r))
      else if starts_with (c # r) ''true'' then Inr (PBool True, drop 4 (c # r))
      else if starts_with (c # r) ''false'' then Inr (PBool False, drop 5 (c # r))
      else p_number (c # r))"
| "p_elems acc s =
     rbind (p_value s) (\<lambda>(v, r).
       case skip_ws r of
         [] \<Rightarrow> json_bad
       | e # r1 \<Rightarrow>
           if e = CHR '']'' then Inr (PList (acc @ [v]), r1)
           else if e = CHR '','' then
             (if length (skip_ws r1) < length s then p_elems (acc @ [v]) (skip_ws r1) else json_bad)
           else json_bad)"
| "p_members d s =
     (case s of
        [] \<Rightarrow> json_bad
      | c # r \<Rightarrow>
          if c \<noteq> CHR 0x22 then json_bad
          else rbind (p_string r) (\<lambda>(k, r1).
            case skip_ws r1 of
              [] \<Rightarrow> json_bad
            | e # r2 \<Rightarrow>
                if e \<noteq> CHR '':'' then json_bad
                else if length (skip_ws r2) < length s then
                  rbind (p_value (skip_ws r2)) (\<lambda>(v, r3).
                    let d' = pd_set d (PStr k) v in
                    case skip_ws r3 of
                      [] \<Rightarrow> json_bad
                    | e' # r4 \<Rightarrow>
                        if e' = CHR 0x7D then Inr (PDict d', r4)
                        else if e' = CHR '','' then
                          (if length (skip_ws r4) < length s then p_members d' (skip_ws r4)
                           else json_bad)
                        else json_bad)
                else json_bad))"
  by pat_completeness auto
termination
  by (relation "measure (case_sum (\<lambda>s. 2 * length s)
        (case_sum (\<lambda>(acc, s). 2 * length s + 1) (\<lambda>(d, s). 2 * length s + 1)))") auto

declare p_value.simps [simp del] p_elems.simps [simp del] p_members.simps [simp del]

definition json_loads :: "string \<Rightarrow> pyval res" where
  "json_loads s =
     rbind (p_value (skip_ws s)) (\<lambda>(v, r).
       if skip_ws r = [] then Inr v else Inl (ValueError ''Extra data''))"

section \<open>The reader undoes the writer\<close>

lemma hex_val_hex_digit [simp]: "d < 16 \<Longrightarrow> hex_val (hex_digit d) = Some d"
  by (auto simp: hex_val_def hex_digit_def Let_def)

lemma of_char_less_256: "(of_char c :: nat) < 256"
proof -
  have "of_char (char_of (of_char c :: nat)) = (of_char c :: nat) mod 256" by (rule of_char_of)
  then show ?thesis by (simp add: mod_eq_self_iff_div_eq_0 div_eq_0_iff)
qed

lemma p_string_esc:
  "p_string (json_esc c @ t) = rbind (p_string t) (\<lambda>(u, r). Inr (c # u, r))"
proof (cases "c \<in> {CHR 0x22, CHR 0x5C, CHR 0x0A, CHR 0x0D, CHR 0x09, CHR 0x0C, CHR 0x08}")
  case True
  then show ?thesis by (auto simp: json_esc_def simple_escape_def)
next
  case False
  define n where "n = (of_char c :: nat)"
  have c: "char_of n = c" by (simp add: n_def)
  show ?thesis
  proof (cases "n < 32 \<or> 126 < n")
    case True
    have "n div 16 < 16" "n mod 16 < 16" "16 * (n div 16) + n mod 16 = n"
      using of_char_less_256 [of c] by (auto simp: n_def div_less_iff_less_mult)
    moreover have "json_esc c =
        [CHR 0x5C, CHR ''u'', CHR ''0'', CHR ''0'', hex_digit (n div 16), hex_digit (n mod 16)]"
      using False True by (simp add: json_esc_def n_def [symmetric])
    moreover have "hex_val CHR ''0'' = Some 0" by (simp add: hex_val_def)
    ultimately show ?thesis by (simp add: c)
  next
    case small: False
    then have "json_esc c = [c]" using False by (simp add: json_esc_def n_def [symmetric])
    moreover have "c \<noteq> CHR 0x22" "c \<noteq> CHR 0x5C" using False by auto
    ultimately show ?thesis using small by (simp add: n_def [symmetric])
  qed
qed

lemma p_string_json_str:
  "p_string (concat (map json_esc s) @ CHR 0x22 # r) = Inr (s, r)"
  by (induction s) (simp_all add: p_string_esc)

lemma digit_char_zero: "d < 10 \<Longrightarrow> digit_char d = CHR ''0'' \<longleftrightarrow> d = 0"
proof -
  assume "d < 10"
  then have "(of_char (digit_char d) :: nat) = of_char CHR ''0'' \<longleftrightarrow> d = 0"
    by (simp add: of_char_digit_char)
  then show ?thesis by (simp only: of_char_eq_iff)
qed

lemma hd_show_nat_zero: "hd (show_nat n) = CHR ''0'' \<Longrightarrow> n = 0"
proof (induction n rule: show_nat.induct)
  case (1 n)
  show ?case
  proof (cases "n < 10")
    case True
    then have s: "show_nat n = [digit_char n]" by (subst show_nat.simps) simp
    with 1 True show ?thesis by (simp add: digit_char_zero)
  next
    case False
    then have s: "show_nat n = show_nat (n div 10) @ [digit_char (n mod 10)]"
      by (subst show_nat.simps) simp
    with 1 have "hd (show_nat (n div 10)) = CHR ''0''" by simp
    with 1 False have "n div 10 = 0" by simp
    with False show ?thesis by simp
  qed
qed

text \<open>What may follow a value inside a document.\<close>

definition json_ends :: "string \<Rightarrow> bool" where
  "json_ends r = (r = [] \<or> hd r \<in> {CHR '','', CHR '']'', CHR 0x7D})"

lemma json_ends_simps [simp]:
  "json_ends []" "json_ends (CHR '','' # r)" "json_ends (CHR '']'' # r)" "json_ends (CHR 0x7D # r)"
  by (simp_all add: json_ends_def)

lemma json_ends_no_number:
  "json_ends r \<Longrightarrow> takeWhile is_digit r = [] \<and> frac_part r = [] \<and> exp_part r = ([], [])"
  by (cases r) (auto simp: json_ends_def frac_part_def exp_part_def is_digit_def)

lemma int_digits_show_nat:
  assumes "json_ends r"
  shows "int_digits (show_nat n @ r) = show_nat n"
proof -
  obtain c w where cw: "show_nat n = c # w" by (cases "show_nat n") auto
  show ?thesis
  proof (cases "c = CHR ''0''")
    case True
    then have "n = 0" using hd_show_nat_zero [of n] cw by simp
    then have "show_nat n = ''0''" by (subst show_nat.simps) (simp add: digit_char_zero)
    then show ?thesis by (simp add: int_digits_def)
  next
    case False
    have "\<forall>x \<in> set (show_nat n). is_digit x" using show_nat_digits by (simp add: list_all_iff)
    then have "takeWhile is_digit (show_nat n @ r) = show_nat n"
      using json_ends_no_number [OF assms] by (simp add: takeWhile_append)
    with False cw show ?thesis by (simp add: int_digits_def)
  qed
qed

lemma p_number_show_int: "json_ends r \<Longrightarrow> p_number (show_int i @ r) = Inr (PInt i, r)"
proof (cases "i < 0")
  case True
  moreover assume "json_ends r"
  ultimately show ?thesis
    by (simp add: p_number_def show_int_def int_digits_show_nat json_ends_no_number Let_def)
next
  case False
  moreover assume r: "json_ends r"
  moreover have "\<not> starts_with (show_nat (nat i) @ r) ''-''"
    using show_nat_hd_digit [of "nat i"] by (cases "show_nat (nat i)") auto
  ultimately show ?thesis
    by (simp add: p_number_def show_int_def int_digits_show_nat json_ends_no_number Let_def)
qed

text \<open>A text that the reader reads back to a value, wherever it stands in a document.\<close>

definition reads_as :: "string \<Rightarrow> pyval \<Rightarrow> bool" where
  "reads_as t v \<longleftrightarrow> t \<noteq> [] \<and> \<not> is_ws (hd t) \<and> hd t \<noteq> CHR '']'' \<and>
     (\<forall>r. json_ends r \<longrightarrow> p_value (t @ r) = Inr (v, r))"

lemma reads_asD: "reads_as t v \<Longrightarrow> json_ends r \<Longrightarrow> p_value (t @ r) = Inr (v, r)"
  by (simp add: reads_as_def)

lemma skip_ws_id: "s = [] \<or> \<not> is_ws (hd s) \<Longrightarrow> skip_ws s = s"
  by (cases s) (auto simp: skip_ws_def)

lemma skip_ws_reads_as [simp]: "reads_as t v \<Longrightarrow> skip_ws (t @ r) = t @ r"
  by (rule skip_ws_id) (cases t, auto simp: reads_as_def)

lemma skip_ws_punct [simp]:
  "skip_ws (CHR '' '' # s) = skip_ws s" "skip_ws (CHR '','' # s) = CHR '','' # s"
  "skip_ws (CHR '':'' # s) = CHR '':'' # s" "skip_ws (CHR '']'' # s) = CHR '']'' # s"
  "skip_ws (CHR 0x7D # s) = CHR 0x7D # s" "skip_ws (CHR 0x22 # s) = CHR 0x22 # s"
  by (auto simp: skip_ws_def is_ws_def)

lemma p_elems_reads:
  "list_all2 reads_as ts vs \<Longrightarrow> ts \<noteq> [] \<Longrightarrow>
     p_elems acc (str_join '', '' ts @ CHR '']'' # r) = Inr (PList (acc @ vs), r)"
proof (induction ts arbitrary: acc vs)
  case (Cons t ts)
  from Cons.prems obtain v vs' where vs: "vs = v # vs'" and t: "reads_as t v"
    and rest: "list_all2 reads_as ts vs'" by (auto simp: list_all2_Cons1)
  show ?case
  proof (cases ts)
    case Nil
    with rest vs reads_asD [OF t, of "CHR '']'' # r"] show ?thesis
      by (subst p_elems.simps) simp
  next
    case (Cons t2 ts2)
    then obtain v2 where t2: "reads_as t2 v2" using rest by (auto simp: list_all2_Cons1)
    let ?tail = "str_join '', '' ts @ CHR '']'' # r"
    have ws: "skip_ws ?tail = ?tail"
      using t2 Cons by (cases ts2) (simp_all add: skip_ws_reads_as)
    have "p_value (t @ CHR '','' # CHR '' '' # ?tail) = Inr (v, CHR '','' # CHR '' '' # ?tail)"
      by (rule reads_asD [OF t]) simp
    moreover have "p_elems (acc @ [v]) ?tail = Inr (PList ((acc @ [v]) @ vs'), r)"
      using Cons.IH [OF rest] Cons by simp
    ultimately show ?thesis
      using ws Cons vs by (subst p_elems.simps) simp
  qed
qed simp

definition member_text :: "string \<Rightarrow> string \<Rightarrow> string" where
  "member_text k t = json_str k @ '': '' @ t"

lemma p_members_reads:
  "list_all2 (\<lambda>m (k, v). \<exists>s t. m = member_text s t \<and> k = PStr s \<and> reads_as t v) ms kvs \<Longrightarrow>
   ms \<noteq> [] \<Longrightarrow> distinct (map fst kvs) \<Longrightarrow> (\<forall>(k, v) \<in> set kvs. pd_get d k = None) \<Longrightarrow>
     p_members d (str_join '', '' ms @ CHR 0x7D # r) = Inr (PDict (d @ kvs), r)"
proof (induction ms arbitrary: d kvs)
  case (Cons m ms)
  from Cons.prems(1) obtain s v t kvs' where kvs: "kvs = (PStr s, v) # kvs'"
    and m: "m = member_text s t" and t: "reads_as t v"
    and rest: "list_all2 (\<lambda>m (k, v). \<exists>s t. m = member_text s t \<and> k = PStr s \<and> reads_as t v) ms kvs'"
    by (auto simp: list_all2_Cons1)
  have new: "pd_get d (PStr s) = None" using Cons.prems(4) kvs by simp
  have set_app: "pd_get e (PStr s) = None \<Longrightarrow> pd_set e (PStr s) v = e @ [(PStr s, v)]" for e
    by (induction e) (auto split: if_splits)
  have key: "p_string (concat (map json_esc s) @ CHR 0x22 # w) = Inr (s, w)" for w
    by (rule p_string_json_str)
  show ?case
  proof (cases ms)
    case Nil
    then have "kvs' = []" using rest by simp
    then show ?thesis using Nil kvs m key set_app [OF new] reads_asD [OF t, of "CHR 0x7D # r"] t
      by (subst p_members.simps) (simp add: member_text_def json_str_def)
  next
    case (Cons m2 ms2)
    let ?tail = "str_join '', '' ms @ CHR 0x7D # r"
    have ws: "skip_ws ?tail = ?tail"
      using rest Cons
      by (cases ms2) (auto simp: list_all2_Cons1 member_text_def json_str_def)
    have val: "p_value (t @ CHR '','' # CHR '' '' # ?tail) = Inr (v, CHR '','' # CHR '' '' # ?tail)"
      by (rule reads_asD [OF t]) simp
    have fresh: "\<forall>(k, w) \<in> set kvs'. pd_get (d @ [(PStr s, v)]) k = None"
    proof (clarify)
      fix k w assume kw: "(k, w) \<in> set kvs'"
      then have "pd_get d k = None" "k \<noteq> PStr s"
        using Cons.prems(3,4) Cons.prems kvs by (auto simp: rev_image_eqI)
      moreover have "pd_get (e @ [(PStr s, v)]) k = pd_get e k" if "k \<noteq> PStr s" for e
        using that by (induction e) auto
      ultimately show "pd_get (d @ [(PStr s, v)]) k = None" by simp
    qed
    have "p_members (d @ [(PStr s, v)]) ?tail = Inr (PDict ((d @ [(PStr s, v)]) @ kvs'), r)"
      by (rule Cons.IH [OF rest]) (use Cons Cons.prems kvs fresh in auto)
    then show ?thesis
      using ws Cons kvs m key set_app [OF new] val t
      by (subst p_members.simps) (simp add: member_text_def json_str_def)
  qed
qed simp

fun json_wf :: "pyval \<Rightarrow> bool" where
  "json_wf (PFloat r) = False"
| "json_wf (PList xs) = list_all json_wf xs"
| "json_wf (PDict d) =
     (distinct (map fst d) \<and> list_all (\<lambda>(k, v). (\<exists>s. k = PStr s) \<and> json_wf v) d)"
| "json_wf _ = True"

lemma reads_as_word:
  assumes "t \<noteq> []" "\<not> is_ws (hd t)" "hd t \<notin> {CHR '']'', CHR ''['', CHR 0x7B, CHR 0x22}"
    and "\<And>r. json_ends r \<Longrightarrow> p_value (t @ r) = Inr (v, r)"
  shows "reads_as t v"
  using assms by (simp add: reads_as_def)

lemma reads_as_int: "reads_as (show_int i) (PInt i)"
proof -
  obtain c w where cw: "show_int i = c # w" and c: "is_digit c \<or> c = CHR ''-''"
  proof (cases "i < 0")
    case True
    then show ?thesis using that by (simp add: show_int_def)
  next
    case False
    obtain c w where "show_nat (nat i) = c # w" by (cases "show_nat (nat i)") auto
    with False show ?thesis using that show_nat_hd_digit [of "nat i"] by (simp add: show_int_def)
  qed
  have "c \<notin> {CHR 0x22, CHR 0x7B, CHR ''['', CHR '']'', CHR ''n'', CHR ''t'', CHR ''f''}" "\<not> is_ws c"
    using c by (auto simp: is_digit_def is_ws_def)
  then show ?thesis
    unfolding reads_as_def
    using cw p_number_show_int [of _ i] by (simp add: p_value.simps)
qed

lemma json_dumps_reads:
  "json_wf v \<Longrightarrow> \<exists>t. json_dumps fr v = Inr t \<and> reads_as t v"
proof (induction v)
  case PNone
  show ?case by (simp add: reads_as_def is_ws_def p_value.simps)
next
  case (PBool b)
  show ?case by (cases b) (simp_all add: reads_as_def is_ws_def p_value.simps)
next
  case (PInt i)
  show ?case by (simp add: reads_as_int)
next
  case (PStr s)
  show ?case
    by (simp add: reads_as_def json_str_def is_ws_def p_value.simps p_string_json_str)
next
  case (PList xs)
  have "\<forall>x \<in> set xs. \<exists>t. json_dumps fr x = Inr t \<and> reads_as t x"
    using PList by (auto simp: list_all_iff)
  then obtain f where f: "\<And>x. x \<in> set xs \<Longrightarrow> json_dumps fr x = Inr (f x) \<and> reads_as (f x) x"
    by metis
  then have d: "rmap (json_dumps fr) xs = Inr (map f xs)" by (intro rmap_all_ok) simp
  have all: "list_all2 reads_as (map f xs) xs"
    using f by (simp add: list_all2_map1 list.rel_refl_strong)
  have "p_value (CHR ''['' # str_join '', '' (map f xs) @ CHR '']'' # r) = Inr (PList xs, r)" for r
  proof (cases xs)
    case Nil
    then show ?thesis by (simp add: p_value.simps)
  next
    case (Cons y ys)
    let ?s = "str_join '', '' (map f xs) @ CHR '']'' # r"
    have fy: "reads_as (f y) y" using f Cons by simp
    obtain c w where cw: "f y = c # w" "c \<noteq> CHR '']''" "\<not> is_ws c"
      using fy by (cases "f y") (auto simp: reads_as_def)
    obtain w' where s: "?s = c # w'" using cw Cons by (cases ys) auto
    have ws: "skip_ws ?s = c # w'" unfolding s using cw by (simp add: skip_ws_def)
    have "p_elems [] ?s = Inr (PList xs, r)" using p_elems_reads [OF all, of "[]" r] Cons by simp
    then show ?thesis using ws s cw by (simp add: p_value.simps)
  qed
  with d show ?case by (simp add: reads_as_def is_ws_def)
next
  case (PDict d)
  let ?g = "\<lambda>(k, v). rbind (json_key fr k) (\<lambda>kt. rbind (json_dumps fr v)
      (\<lambda>t. Inr (member_text kt t)))"
  have "\<exists>m. ?g (k, v) = Inr m \<and> (\<exists>s t. m = member_text s t \<and> k = PStr s \<and> reads_as t v)"
    if "(k, v) \<in> set d" for k v
  proof -
    have "case (k, v) of (k, v) \<Rightarrow> (\<exists>s. k = PStr s) \<and> json_wf v"
      using PDict.prems that unfolding json_wf.simps list_all_iff by blast
    then obtain s where s: "k = PStr s" and wf: "json_wf v" by auto
    have "\<exists>t. json_dumps fr v = Inr t \<and> reads_as t v"
      by (rule PDict.IH(2) [OF that _ wf]) (simp add: snds.simps)
    with s show ?thesis by auto
  qed
  then have "\<forall>kv \<in> set d. \<exists>m. ?g kv = Inr m \<and>
      (\<exists>s t. m = member_text s t \<and> fst kv = PStr s \<and> reads_as t (snd kv))"
    by fastforce
  then obtain f where "\<forall>kv \<in> set d. ?g kv = Inr (f kv) \<and>
      (\<exists>s t. f kv = member_text s t \<and> fst kv = PStr s \<and> reads_as t (snd kv))"
    by (rule bchoice [THEN exE])
  then have f: "?g kv = Inr (f kv) \<and>
      (\<exists>s t. f kv = member_text s t \<and> fst kv = PStr s \<and> reads_as t (snd kv))"
    if "kv \<in> set d" for kv using that by blast
  have "rmap ?g d = Inr (map f d)" by (rule rmap_all_ok) (simp only: f)
  then have dd: "json_dumps fr (PDict d) = Inr (CHR 0x7B # str_join '', '' (map f d) @ [CHR 0x7D])"
    by (simp add: member_text_def)
  have all: "list_all2 (\<lambda>m (k, v). \<exists>s t. m = member_text s t \<and> k = PStr s \<and> reads_as t v) (map f d) d"
    using f by (simp add: list_all2_map1 list.rel_refl_strong split_beta)
  have "p_value (CHR 0x7B # str_join '', '' (map f d) @ CHR 0x7D # r) = Inr (PDict d, r)" for r
  proof (cases d)
    case Nil
    then show ?thesis by (simp add: p_value.simps)
  next
    case (Cons y ys)
    let ?s = "str_join '', '' (map f d) @ CHR 0x7D # r"
    obtain s t where "f y = member_text s t" using f [of y] Cons by auto
    then obtain w where w: "?s = CHR 0x22 # w"
      using Cons by (cases ys) (auto simp: member_text_def json_str_def)
    have "p_members [] ?s = Inr (PDict ([] @ d), r)"
      by (rule p_members_reads [OF all]) (use Cons PDict.prems in auto)
    then show ?thesis using w by (simp add: p_value.simps)
  qed
  with dd show ?case by (simp add: reads_as_def is_ws_def)
qed simp

lemma json_roundtrip:
  assumes "json_wf v"
  shows "\<exists>t. json_dumps fr v = Inr t \<and> json_loads t = Inr v"
proof -
  obtain t where t: "json_dumps fr v = Inr t" "reads_as t v"
    using json_dumps_reads [OF assms] by blast
  have "skip_ws t = t" using skip_ws_reads_as [OF t(2), of "[]"] by simp
  moreover have "p_value t = Inr (v, [])" using reads_asD [OF t(2), of "[]"] by simp
  ultimately show ?thesis using t(1) by (auto simp: json_loads_def skip_ws_def)
qed

section \<open>The reader advances\<close>

lemma json_bad_neq [simp]: "json_bad \<noteq> Inr x" "json_bad = Inr x \<longleftrightarrow> False"
  by (simp_all add: json_bad_def)

lemma skip_ws_length: "length (skip_ws s) \<le> length s"
  by (simp add: skip_ws_def length_dropWhile_le)

lemma p_string_advances: "p_string s = Inr (t, r) \<Longrightarrow> length r < length s"
proof (induction s arbitrary: t r rule: p_string.induct)
  case (2 c s)
  then show ?case
    by (fastforce simp: res_simps simp del: p_string.simps
        simp add: p_string.simps(2) split: if_splits list.splits option.splits nat.splits)
qed simp

lemma p_number_advances:
  assumes "p_number s = Inr (v, r)"
  shows "length r < length s"
proof -
  define s1 where "s1 = (if starts_with s ''-'' then drop 1 s else s)"
  have "int_digits s1 \<noteq> []" using assms by (auto simp: p_number_def s1_def Let_def split: if_splits)
  moreover have "length (int_digits s1) \<le> length s1"
    by (auto simp: int_digits_def length_takeWhile_le split: list.split)
  moreover have "length s1 \<le> length s" by (simp add: s1_def)
  moreover have "length r \<le> length (drop (length (int_digits s1)) s1)"
    using assms by (auto simp: p_number_def s1_def [symmetric] Let_def split: if_splits prod.splits)
  ultimately show ?thesis by (cases "int_digits s1") auto
qed

lemma p_value_advances:
  "p_value s = Inr (v, r) \<Longrightarrow> length r < length s"
  "p_elems acc s = Inr (v, r) \<Longrightarrow> length r < length s"
  "p_members d s = Inr (v, r) \<Longrightarrow> length r < length s"
proof (induction s and acc s and d s arbitrary: v r and v r and v r
    rule: p_value_p_elems_p_members.induct)
  case 1
  then show ?case by (simp add: p_value.simps)
next
  case (2 c s)
  have ws: "skip_ws s = e # w \<Longrightarrow> length w < length s" for e w
    using skip_ws_length [of s] by simp
  from "2.prems" show ?case
    using "2.IH" ws p_number_advances [of "c # s"]
    by (auto simp: p_value.simps res_simps dest!: p_string_advances split: if_splits list.splits)
      (meson less_SucI less_trans_Suc less_Suc_eq_le order.strict_trans2 le_less_trans)+
next
  case (3 acc s)
  from "3.prems" obtain x w where x: "p_value s = Inr (x, w)"
    and rest: "(case skip_ws w of [] \<Rightarrow> json_bad | e # r1 \<Rightarrow>
           if e = CHR '']'' then Inr (PList (acc @ [x]), r1)
           else if e = CHR '','' then
             (if length (skip_ws r1) < length s then p_elems (acc @ [x]) (skip_ws r1) else json_bad)
           else json_bad) = Inr (v, r)"
    by (auto simp: p_elems.simps [of acc s] res_simps)
  have lw: "length w < length s" by (rule "3.IH"(1) [OF x])
  obtain e r1 where e: "skip_ws w = e # r1" using rest by (cases "skip_ws w") auto
  have "length r1 < length s" using skip_ws_length [of w] e lw by simp
  show ?case
  proof (cases "e = CHR '','' ")
    case True
    then have l: "length (skip_ws r1) < length s"
      and p: "p_elems (acc @ [x]) (skip_ws r1) = Inr (v, r)"
      using rest e by (auto split: if_splits)
    have "length r < length (skip_ws r1)"
      by (rule "3.IH"(2) [OF x refl e _ True l p]) (simp add: True)
    with l show ?thesis by simp
  next
    case False
    with rest e \<open>length r1 < length s\<close> show ?thesis by (auto split: if_splits)
  qed
next
  case (4 d s)
  note pm = p_members.simps [of d]
  from "4.prems" obtain q where s: "s = CHR 0x22 # q"
    by (auto simp: pm split: if_splits list.splits)
  from "4.prems" s obtain k r1 where k: "p_string q = Inr (k, r1)" by (auto simp: pm res_simps)
  then have l1: "length r1 < length q" by (rule p_string_advances)
  from "4.prems" s k obtain r2 where r2: "skip_ws r1 = CHR '':'' # r2"
    by (auto simp: pm split: list.splits if_splits)
  from "4.prems" s k r2 have l2: "length (skip_ws r2) < length s"
    by (auto simp: pm split: if_splits)
  from "4.prems" s k r2 l2 obtain x r3 where x: "p_value (skip_ws r2) = Inr (x, r3)"
    by (auto simp: pm res_simps)
  have l3: "length r3 < length (skip_ws r2)"
    by (rule "4.IH"(1) [OF s _ k refl r2 _ l2 x]) simp_all
  from "4.prems" s k r2 l2 x obtain e r4 where r4: "skip_ws r3 = e # r4"
    by (auto simp: pm Let_def split: list.splits)
  have l4: "length r4 < length s" using skip_ws_length [of r3] r4 l3 l2 by simp
  show ?case
  proof (cases "e = CHR 0x7D")
    case True
    with "4.prems" s k r2 l2 x r4 l4 show ?thesis by (auto simp: pm Let_def)
  next
    case False
    with "4.prems" s k r2 l2 x r4 have ec: "e = CHR '','' " and l5: "length (skip_ws r4) < length s"
      and p: "p_members (pd_set d (PStr k) x) (skip_ws r4) = Inr (v, r)"
      by (auto simp: pm Let_def split: if_splits)
    have "length r < length (skip_ws r4)"
      by (rule "4.IH"(2) [OF s _ k refl r2 _ l2 x refl refl r4 False ec l5 p]) simp_all
    with l5 show ?thesis by simp
  qed
qed

section \<open>The errors of the reader\<close>

text \<open>Whatever the text, the reader returns a value or raises \<open>ValueError\<close>.\<close>

definition only_value_errors :: "'a res \<Rightarrow> bool" where
  "only_value_errors r \<longleftrightarrow> (\<forall>x. r = Inl x \<longrightarrow> (\<exists>m. x = ValueError m))"

lemma ove_Inr [simp, intro]: "only_value_errors (Inr x)"
  and ove_bad [simp, intro]: "only_value_errors json_bad"
  by (simp_all add: only_value_errors_def json_bad_def)

lemma ove_bind [intro]:
  "only_value_errors r \<Longrightarrow> (\<And>x. r = Inr x \<Longrightarrow> only_value_errors (f x)) \<Longrightarrow> only_value_errors (rbind r f)"
  by (cases r) (auto simp: only_value_errors_def)

lemma ove_if [intro]:
  "(b \<Longrightarrow> only_value_errors r) \<Longrightarrow> (\<not> b \<Longrightarrow> only_value_errors s) \<Longrightarrow> only_value_errors (if b then r else s)"
  by simp

lemma ove_list_case [intro]:
  "(xs = [] \<Longrightarrow> only_value_errors r) \<Longrightarrow> (\<And>y ys. xs = y # ys \<Longrightarrow> only_value_errors (f y ys)) \<Longrightarrow>
   only_value_errors (case xs of [] \<Rightarrow> r | y # ys \<Rightarrow> f y ys)"
  by (cases xs) auto

lemma ove_option_case [intro]:
  "(xs = None \<Longrightarrow> only_value_errors r) \<Longrightarrow> (\<And>y. xs = Some y \<Longrightarrow> only_value_errors (f y)) \<Longrightarrow>
   only_value_errors (case xs of None \<Rightarrow> r | Some y \<Rightarrow> f y)"
  by (cases xs) auto

lemma ove_prod_case [intro]:
  "(\<And>x y. p = (x, y) \<Longrightarrow> only_value_errors (f x y)) \<Longrightarrow> only_value_errors (case p of (x, y) \<Rightarrow> f x y)"
  by (cases p) auto

lemma ove_simp: "r = s \<Longrightarrow> only_value_errors s \<Longrightarrow> only_value_errors r"
  by simp

lemma p_string_errors: "only_value_errors (p_string s)"
proof (induction s rule: p_string.induct)
  case (2 c r)
  consider "c = CHR 0x22" | "c = CHR 0x5C" | "c \<noteq> CHR 0x22" "c \<noteq> CHR 0x5C" by blast
  then show ?case
  proof cases
    case 1
    then show ?thesis unfolding p_string.simps(2) by (simp del: p_string.simps)
  next
    case 3
    then show ?thesis using "2.IH"(3)
      unfolding p_string.simps(2) by (auto simp del: p_string.simps intro!: ove_bind)
  next
    case c: 2
    show ?thesis
    proof (cases r)
      case Nil
      then show ?thesis using c unfolding p_string.simps(2) by (simp del: p_string.simps)
    next
      case (Cons e r1)
      show ?thesis
      proof (cases "e = CHR ''u''")
        case False
        then show ?thesis using c Cons "2.IH"(2)
          unfolding p_string.simps(2) by (auto simp del: p_string.simps intro!: ove_bind split: option.split)
      next
        case True
        note u = "2.IH"(1) [OF _ c Cons True]
        show ?thesis unfolding p_string.simps(2)
          using c Cons True u
          by (auto simp del: p_string.simps intro!: ove_bind split: list.splits option.splits nat.splits)
      qed
    qed
  qed
qed simp

lemma p_value_errors:
  "only_value_errors (p_value s)" "only_value_errors (p_elems acc s)" "only_value_errors (p_members d s)"
proof (induction s and acc s and d s rule: p_value_p_elems_p_members.induct)
  case 1
  then show ?case by (simp add: p_value.simps)
next
  case (2 c r)
  show ?case unfolding p_value.simps
    by (intro ove_if ove_Inr ove_bad ove_bind ove_prod_case ove_list_case p_string_errors 2; (assumption | (simp add: p_number_def Let_def split: prod.splits)?))
next
  case (3 acc s)
  show ?case unfolding p_elems.simps [of acc]
    by (intro ove_if ove_Inr ove_bad ove_bind ove_prod_case ove_list_case 3; simp?)
next
  case (4 d s)
  show ?case unfolding p_members.simps [of d] Let_def
    by (intro ove_if ove_Inr ove_bad ove_bind ove_prod_case ove_list_case p_string_errors 4; simp?)
qed

lemma json_loads_errors: "only_value_errors (json_loads s)"
  unfolding json_loads_def
  by (intro ove_bind ove_prod_case ove_if p_value_errors ove_Inr) (simp add: only_value_errors_def)

end
