(* ===== verification/Facebook.thy ===== *)
theory Facebook
  imports Url Digest Json
begin

text \<open>
  The Facebook client (\<open>socialnet/python-sdk/src/facebook.py\<close>): the requests of \<open>GraphAPI\<close> and the
  reading of the cookie that Facebook's JavaScript sets. \<open>urllib.urlopen\<close> is a parameter: from the URL
  and the posted text it gives the text of the answer or an error.
\<close>

section \<open>Requests\<close>

type_synonym graph_args = "(string \<times> string) list"

type_synonym urlopen = "string \<Rightarrow> string option \<Rightarrow> string res"

record graph_api =
  ga_token :: "string option"

definition new_graph_api :: "string option \<Rightarrow> graph_api" where
  "new_graph_api access_token = \<lparr>ga_token = access_token\<rparr>"

definition has_token :: "graph_api \<Rightarrow> bool" where
  "has_token g \<longleftrightarrow> (case ga_token g of None \<Rightarrow> False | Some t \<Rightarrow> t \<noteq> [])"

text \<open>Where the access token goes: into what is posted, if something is, else into the query.\<close>

definition with_token :: "graph_api \<Rightarrow> graph_args \<Rightarrow> graph_args option \<Rightarrow> graph_args \<times> graph_args option" where
  "with_token g args post =
     (if has_token g then
        (case post of
           Some ps \<Rightarrow> (args, Some (AList.update ''access_token'' (the (ga_token g)) ps))
         | None \<Rightarrow> (AList.update ''access_token'' (the (ga_token g)) args, None))
      else (args, post))"

definition graph_url :: "string \<Rightarrow> graph_args \<Rightarrow> string" where
  "graph_url pth args = ''https://graph.facebook.com/'' @ pth @ ''?'' @ urlencode args"

definition graph_answer :: "string \<Rightarrow> pyval res" where
  "graph_answer body =
     rbind (json_loads body) (\<lambda>response. rbind (py_get response ''error'') (\<lambda>e.
       if truthy e then
         rbind (py_item e ''type'') (\<lambda>t. rbind (py_item e ''message'') (\<lambda>m.
           Inl (GraphAPIError (case t of PStr s \<Rightarrow> s | _ \<Rightarrow> []) (case m of PStr s \<Rightarrow> s | _ \<Rightarrow> []))))
       else Inr response))"

definition graph_request :: "urlopen \<Rightarrow> graph_api \<Rightarrow> string \<Rightarrow> graph_args \<Rightarrow> graph_args option \<Rightarrow> pyval res" where
  "graph_request fetch g pth args post =
     (case with_token g args post of
        (args1, post1) \<Rightarrow> rbind (fetch (graph_url pth args1) (map_option urlencode post1)) graph_answer)"

definition get_object :: "urlopen \<Rightarrow> graph_api \<Rightarrow> string \<Rightarrow> graph_args \<Rightarrow> pyval res" where
  "get_object fetch g i args = graph_request fetch g i args None"

definition get_objects :: "urlopen \<Rightarrow> graph_api \<Rightarrow> string list \<Rightarrow> graph_args \<Rightarrow> pyval res" where
  "get_objects fetch g ids args = graph_request fetch g [] (AList.update ''ids'' (str_join '','' ids) args) None"

definition get_connections :: "urlopen \<Rightarrow> graph_api \<Rightarrow> string \<Rightarrow> string \<Rightarrow> graph_args \<Rightarrow> pyval res" where
  "get_connections fetch g i connection_name args = graph_request fetch g (i @ ''/'' @ connection_name) args None"

definition put_object :: "urlopen \<Rightarrow> graph_api \<Rightarrow> string \<Rightarrow> string \<Rightarrow> graph_args \<Rightarrow> pyval res" where
  "put_object fetch g parent_object connection_name data =
     (if \<not> has_token g then Inl (AssertionError ''Write operations require an access token'')
      else graph_request fetch g (parent_object @ ''/'' @ connection_name) [] (Some data))"

text \<open>A keyword of the attachment that is already given is refused.\<close>

definition put_wall_post :: "urlopen \<Rightarrow> graph_api \<Rightarrow> string \<Rightarrow> graph_args \<Rightarrow> string \<Rightarrow> pyval res" where
  "put_wall_post fetch g message attachment profile_id =
     (if list_ex (dict_has attachment) [''message'', ''parent_object'', ''connection_name'', ''self'']
      then Inl (TypeError ''put_object() got multiple values for keyword argument'')
      else put_object fetch g profile_id ''feed'' ((''message'', message) # attachment))"

definition put_comment :: "urlopen \<Rightarrow> graph_api \<Rightarrow> string \<Rightarrow> string \<Rightarrow> pyval res" where
  "put_comment fetch g object_id message = put_object fetch g object_id ''comments'' [(''message'', message)]"

definition put_like :: "urlopen \<Rightarrow> graph_api \<Rightarrow> string \<Rightarrow> pyval res" where
  "put_like fetch g object_id = put_object fetch g object_id ''likes'' []"

definition delete_object :: "urlopen \<Rightarrow> graph_api \<Rightarrow> string \<Rightarrow> unit res" where
  "delete_object fetch g i = rbind (graph_request fetch g i [] (Some [(''method'', ''delete'')])) (\<lambda>r. Inr ())"

section \<open>The cookie\<close>

definition cookie_args :: "string \<Rightarrow> (string \<times> string) list" where
  "cookie_args cookie =
     map (\<lambda>(k, vs). (k, last vs)) (parse_qs False (strip_by (\<lambda>c. c = CHR 0x22) cookie))"

definition cookie_payload :: "(string \<times> string) list \<Rightarrow> string" where
  "cookie_payload args =
     concat (map (\<lambda>k. k @ ''='' @ the (map_of args k)) (filter (\<lambda>k. k \<noteq> ''sig'') (sort (map fst args))))"

definition cookie_sig :: "string \<Rightarrow> (string \<times> string) list \<Rightarrow> string" where
  "cookie_sig app_secret args = hexdigest (md5 (cookie_payload args @ app_secret))"

definition get_user_from_cookie ::
    "int \<Rightarrow> (string \<times> string) list \<Rightarrow> string \<Rightarrow> string \<Rightarrow> (string \<times> string) list option res" where
  "get_user_from_cookie now cookies app_id app_secret =
     (case map_of cookies (''fbs_'' @ app_id) of
        None \<Rightarrow> Inr None
      | Some cookie \<Rightarrow>
          if cookie = [] then Inr None
          else
            let args = cookie_args cookie in
            (case map_of args ''expires'' of
               None \<Rightarrow> Inl (KeyError ''expires'')
             | Some e \<Rightarrow>
                 rbind (parse_int e) (\<lambda>expires.
                   if map_of args ''sig'' = Some (cookie_sig app_secret args) \<and> (expires = 0 \<or> now < expires)
                   then Inr (Some args) else Inr None)))"

section \<open>Properties of the cookie\<close>

text \<open>A cookie as the server makes it.\<close>

definition make_cookie :: "string \<Rightarrow> (string \<times> string) list \<Rightarrow> string" where
  "make_cookie app_secret args =
     CHR 0x22 # urlencode (args @ [(''sig'', cookie_sig app_secret args)]) @ [CHR 0x22]"

lemma group_pairs_distinct: "distinct (map fst ps) \<Longrightarrow> group_pairs ps = map (\<lambda>(k, v). (k, [v])) ps"
proof (induction ps rule: group_pairs.induct)
  case (2 k v ps)
  then have "filter (\<lambda>p. fst p = k) ps = []" by (auto simp: filter_empty_conv)
  moreover have "AList.delete k (map (\<lambda>(k, v). (k, [v])) ps) = map (\<lambda>(k, v). (k, [v])) ps"
    using 2(2) by (intro delete_id) (auto simp: image_iff)
  ultimately show ?case using 2 by simp
qed simp

lemma no_quote_urlencode: "CHR 0x22 \<notin> set (urlencode ps)"
proof -
  have unsafe: "\<not> always_safe CHR 0x22" by code_simp
  have q: "CHR 0x22 \<notin> set (quote_plus s)" for s
    using quote_plus_chars [of "CHR 0x22" s] unsafe by auto
  have j: "CHR 0x22 \<notin> set (str_join ''&'' ws)" if "\<forall>w \<in> set ws. CHR 0x22 \<notin> set w" for ws
    using that by (induction "''&''" ws rule: str_join.induct) auto
  show ?thesis unfolding urlencode_def by (rule j) (auto simp: q)
qed

lemma strip_cookie_quotes: "CHR 0x22 \<notin> set s \<Longrightarrow> strip_by (\<lambda>c. c = CHR 0x22) (CHR 0x22 # s @ [CHR 0x22]) = s"
proof -
  assume s: "CHR 0x22 \<notin> set s"
  have d: "dropWhile (\<lambda>c. c = CHR 0x22) t = t" if "CHR 0x22 \<notin> set t" for t
    using that by (cases t) auto
  show ?thesis
  proof (cases "s = []")
    case False
    then obtain c t where "s = c # t" by (cases s) auto
    with s have "dropWhile (\<lambda>c. c = CHR 0x22) (s @ [CHR 0x22]) = s @ [CHR 0x22]" by auto
    with s d [of "rev s"] show ?thesis by (simp add: strip_by_def)
  qed (simp add: strip_by_def)
qed

lemma cookie_args_urlencode:
  assumes "distinct (map fst ps)" "\<And>k v. (k, v) \<in> set ps \<Longrightarrow> v \<noteq> []"
  shows "cookie_args (CHR 0x22 # urlencode ps @ [CHR 0x22]) = ps"
proof -
  have "filter (\<lambda>p. snd p \<noteq> []) ps = ps" using assms(2) by (auto simp: filter_id_conv)
  then have "parse_qs False (urlencode ps) = map (\<lambda>(k, v). (k, [v])) ps"
    using assms(1) by (simp add: parse_qs_def parse_qsl_drop_blank group_pairs_distinct)
  then show ?thesis
    by (simp add: cookie_args_def strip_cookie_quotes no_quote_urlencode case_prod_beta' comp_def)
qed

lemma sort_without: "x \<notin> set xs \<Longrightarrow> filter (\<lambda>k. k \<noteq> x) (sort (xs @ [x])) = sort xs" for x :: string
proof -
  assume "x \<notin> set xs"
  then have "filter (\<lambda>k. k \<noteq> x) (xs @ [x]) = xs" by (auto simp: filter_id_conv)
  then show ?thesis by (simp only: filter_sort)
qed

lemma payload_with_sig:
  assumes "''sig'' \<notin> fst ` set args"
  shows "cookie_payload (args @ [(''sig'', s)]) = cookie_payload args"
proof -
  have m: "map_of (args @ [(''sig'', s)]) k = map_of args k" if "k \<in> fst ` set args" for k
  proof -
    have "map_of args k \<noteq> None" using that by (simp add: map_of_eq_None_iff)
    then obtain v where "map_of args k = Some v" by blast
    then show ?thesis by (simp add: map_add_def)
  qed
  have f: "filter (\<lambda>k. k \<noteq> ''sig'') (sort (map fst args)) = sort (map fst args)"
    using assms by (force simp: filter_id_conv)
  have g: "filter (\<lambda>k. k \<noteq> ''sig'') (sort (map fst args @ [''sig''])) = sort (map fst args)"
    using assms by (intro sort_without) simp
  have "map (\<lambda>k. k @ ''='' @ the (map_of (args @ [(''sig'', s)]) k)) (sort (map fst args)) =
      map (\<lambda>k. k @ ''='' @ the (map_of args k)) (sort (map fst args))"
    using m by (intro map_cong) auto
  then show ?thesis unfolding cookie_payload_def map_append list.map fst_conv f g by (rule arg_cong)
qed

text \<open>C40: A cookie made with the secret is accepted while it is valid and read as it was made: for arguments
  with distinct names and values that are not empty, the cookie that joins them with their signature
  yields exactly these arguments with the signature, up to the moment of expiry, which zero puts off
  for ever, and nothing after it.\<close>

theorem cookie_accepted:
  assumes "distinct (map fst args)" "''sig'' \<notin> fst ` set args" "\<And>k v. (k, v) \<in> set args \<Longrightarrow> v \<noteq> []"
    and "map_of args ''expires'' = Some (show_int e)"
  shows "get_user_from_cookie now [(''fbs_'' @ app_id, make_cookie secret args)] app_id secret =
    Inr (if e = 0 \<or> now < e then Some (args @ [(''sig'', cookie_sig secret args)]) else None)"
proof -
  let ?s = "cookie_sig secret args"
  have len: "length ?s = 32" by (simp add: cookie_sig_def)
  then have "?s \<noteq> []" by auto
  then have args: "cookie_args (make_cookie secret args) = args @ [(''sig'', ?s)]"
    unfolding make_cookie_def using assms(1-3) by (intro cookie_args_urlencode) auto
  have "map_of (args @ [(''sig'', ?s)]) ''sig'' = Some ?s"
  proof -
    have "map_of args ''sig'' = None" using assms(2) by (simp add: map_of_eq_None_iff)
    then show ?thesis by (simp add: map_add_def)
  qed
  moreover have "map_of (args @ [(''sig'', ?s)]) ''expires'' = Some (show_int e)"
    using assms(4) by (simp add: map_add_def)
  moreover have "cookie_sig secret (args @ [(''sig'', ?s)]) = ?s"
    unfolding cookie_sig_def by (simp add: payload_with_sig [OF assms(2)])
  moreover have "make_cookie secret args \<noteq> []" by (simp add: make_cookie_def)
  ultimately show ?thesis by (simp add: get_user_from_cookie_def args Let_def)
qed

theorem cookie_accepted_witness:
  "get_user_from_cookie 10 [(''fbs_1'', make_cookie ''s'' [(''expires'', ''20''), (''uid'', ''7'')])] ''1'' ''s'' =
     Inr (Some [(''expires'', ''20''), (''uid'', ''7''), (''sig'', cookie_sig ''s'' [(''expires'', ''20''), (''uid'', ''7'')])]) \<and>
   get_user_from_cookie 20 [(''fbs_1'', make_cookie ''s'' [(''expires'', ''20''), (''uid'', ''7'')])] ''1'' ''s'' = Inr None"
proof -
  have "show_int 20 = ''20''" by code_simp
  then have "get_user_from_cookie now [(''fbs_'' @ ''1'', make_cookie ''s'' [(''expires'', ''20''), (''uid'', ''7'')])] ''1'' ''s'' =
      Inr (if (20::int) = 0 \<or> now < 20 then Some ([(''expires'', ''20''), (''uid'', ''7'')] @
        [(''sig'', cookie_sig ''s'' [(''expires'', ''20''), (''uid'', ''7'')])]) else None)" for now
    by (intro cookie_accepted) auto
  from this [of 10] this [of 20] show ?thesis by simp
qed

text \<open>The signature does not say where a value ends: moving the boundary between two arguments keeps it.\<close>

lemma payload_ambiguous:
  "cookie_sig secret [(''expires'', ''0''), (''uid'', ''5''), (''x'', ''y'')] =
   cookie_sig secret [(''expires'', ''0''), (''uid'', ''5x=y'')]"
proof -
  have "cookie_payload [(''expires'', ''0''), (''uid'', ''5''), (''x'', ''y'')] =
      cookie_payload [(''expires'', ''0''), (''uid'', ''5x=y'')]" by code_simp
  then show ?thesis by (simp add: cookie_sig_def)
qed

end
