(* ===== verification/FileCache.thy ===== *)
theory FileCache
  imports Digest
begin

text \<open>
  The file cache of \<open>socialnet/twitter.py\<close> (class \<open>_FileCache\<close>) on a model of the file system, and
  the caching step of \<open>Api._FetchUrl\<close> over any store with that interface. A directory or file has
  its modification time; writing a temporary file and renaming it is one update. Keys are byte
  strings. The temporary directory, the absolute form of a path and the login name are arguments.
\<close>

section \<open>Paths and the file system\<close>

record file_system =
  dirs :: "(string \<times> int) list"
  files :: "(string \<times> string \<times> int) list"

definition path_exists :: "file_system \<Rightarrow> string \<Rightarrow> bool" where
  "path_exists f p \<longleftrightarrow> dict_has (dirs f) p \<or> dict_has (files f) p"

definition path_join :: "string \<Rightarrow> string \<Rightarrow> string" where
  "path_join a b =
     (if starts_with b ''/'' then b else if a = [] \<or> last a = CHR ''/'' then a @ b else a @ ''/'' @ b)"

definition dirname :: "string \<Rightarrow> string" where
  "dirname p =
     (let h = rev (dropWhile (\<lambda>c. c \<noteq> CHR ''/'') (rev p)) in
      if list_all (\<lambda>c. c = CHR ''/'') h then h else rev (dropWhile (\<lambda>c. c = CHR ''/'') (rev h)))"

definition mkdir :: "int \<Rightarrow> string \<Rightarrow> file_system \<Rightarrow> file_system \<times> unit res" where
  "mkdir now d f =
     (if path_exists f d then (f, Inl (OSError ''File exists''))
      else if \<not> dict_has (dirs f) (dirname d) then (f, Inl (OSError ''No such file or directory''))
      else (f\<lparr>dirs := AList.update d now (dirs f)\<rparr>, Inr ()))"

text \<open>\<open>os.makedirs\<close> goes up while the parent is missing; the parent is a shorter path except for
  the root, which exists.\<close>

function makedirs :: "int \<Rightarrow> string \<Rightarrow> file_system \<Rightarrow> file_system \<times> unit res" where
  "makedirs now d f =
     (if dirname d \<noteq> [] \<and> length (dirname d) < length d \<and> \<not> path_exists f (dirname d) then
        (case makedirs now (dirname d) f of
           (f1, Inl e) \<Rightarrow> (f1, Inl e)
         | (f1, Inr _) \<Rightarrow> mkdir now d f1)
      else mkdir now d f)"
  by pat_completeness auto
termination by (relation "measure (\<lambda>(now, d, f). length d)") auto

declare makedirs.simps [simp del]

section \<open>The cache\<close>

record file_cache =
  root_directory :: string
  fsys :: file_system

definition DEPTH :: nat where
  "DEPTH = 3"

definition get_prefix :: "string \<Rightarrow> string" where
  "get_prefix h = str_join ''/'' (map (\<lambda>c. [c]) (take DEPTH h))"

definition get_path :: "file_cache \<Rightarrow> string \<Rightarrow> string" where
  "get_path c key =
     (let h = hexdigest (md5 key) in path_join (path_join (root_directory c) (get_prefix h)) h)"

definition fc_get :: "file_cache \<Rightarrow> string \<Rightarrow> string option res" where
  "fc_get c key =
     (let p = get_path c key in
      if path_exists (fsys c) p then
        (case map_of (files (fsys c)) p of
           Some (d, t) \<Rightarrow> Inr (Some d) | None \<Rightarrow> Inl (IOError ''Is a directory''))
      else Inr None)"

definition fc_set :: "int \<Rightarrow> string \<Rightarrow> string \<Rightarrow> file_cache \<Rightarrow> file_cache \<times> unit res" where
  "fc_set now key data c =
     (let p = get_path c key; d = dirname p in
      case (if path_exists (fsys c) d then (fsys c, Inr ()) else makedirs now d (fsys c)) of
        (f1, Inl e) \<Rightarrow> (c\<lparr>fsys := f1\<rparr>, Inl e)
      | (f1, Inr _) \<Rightarrow>
          if \<not> dict_has (dirs f1) d
            then (c\<lparr>fsys := f1\<rparr>, Inl (FileCacheError (d @ '' exists but is not a directory'')))
          else if \<not> starts_with p (root_directory c)
            then (c\<lparr>fsys := f1\<rparr>, Inl (FileCacheError (p @ '' does not appear to live under ''
                   @ root_directory c)))
          else if dict_has (dirs f1) p then (c\<lparr>fsys := f1\<rparr>, Inl (OSError ''Is a directory''))
          else (c\<lparr>fsys := f1\<lparr>files := AList.update p (data, now) (files f1)\<rparr>\<rparr>, Inr ()))"

definition fc_remove :: "string \<Rightarrow> file_cache \<Rightarrow> file_cache \<times> unit res" where
  "fc_remove key c =
     (let p = get_path c key; f = fsys c in
      if \<not> starts_with p (root_directory c)
        then (c, Inl (FileCacheError (p @ '' does not appear to live under '' @ root_directory c)))
      else if dict_has (dirs f) p then (c, Inl (OSError ''Is a directory''))
      else (c\<lparr>fsys := f\<lparr>files := AList.delete p (files f)\<rparr>\<rparr>, Inr ()))"

definition fc_cached_time :: "file_cache \<Rightarrow> string \<Rightarrow> int option" where
  "fc_cached_time c key =
     (let p = get_path c key in
      case map_of (files (fsys c)) p of Some (d, t) \<Rightarrow> Some t | None \<Rightarrow> map_of (dirs (fsys c)) p)"

definition get_username :: "string option list \<Rightarrow> string res \<Rightarrow> string" where
  "get_username env_vars login =
     (case filter (\<lambda>v. v \<noteq> None \<and> v \<noteq> Some []) env_vars of
        Some u # _ \<Rightarrow> u
      | _ \<Rightarrow> (case login of Inr u \<Rightarrow> if u \<noteq> [] then u else ''nobody'' | Inl _ \<Rightarrow> ''nobody''))"

definition get_tmp_cache_path :: "string \<Rightarrow> string \<Rightarrow> string" where
  "get_tmp_cache_path tempdir username = path_join tempdir (''python.cache_'' @ username)"

definition new_file_cache ::
    "int \<Rightarrow> (string \<Rightarrow> string) \<Rightarrow> string \<Rightarrow> string \<Rightarrow> string option \<Rightarrow> file_system \<Rightarrow> file_cache res" where
  "new_file_cache now abspath tempdir username root f =
     (let r = abspath (if root = None \<or> root = Some [] then get_tmp_cache_path tempdir username
                       else the root)
      in case (if path_exists f r then (f, Inr ()) else mkdir now r f) of
           (f1, Inl e) \<Rightarrow> Inl e
         | (f1, Inr _) \<Rightarrow>
             if \<not> dict_has (dirs f1) r then Inl (FileCacheError (r @ '' exists but is not a directory''))
             else Inr \<lparr>root_directory = r, fsys = f1\<rparr>)"

section \<open>Fetching through a store\<close>

text \<open>
  The caching branch of \<open>_FetchUrl\<close>, over the three operations of the cache it calls. An
  \<open>HTTPError\<close> is printed and swallowed, after which the result variable is unbound. The flag tells
  whether the network was used; time zero counts as no time.
\<close>

definition cached_fetch ::
    "('s \<Rightarrow> string \<Rightarrow> int option) \<Rightarrow> ('s \<Rightarrow> string \<Rightarrow> string option res) \<Rightarrow>
     (int \<Rightarrow> string \<Rightarrow> string \<Rightarrow> 's \<Rightarrow> 's \<times> unit res) \<Rightarrow>
     int \<Rightarrow> int \<Rightarrow> string \<Rightarrow> string res \<Rightarrow> 's \<Rightarrow> 's \<times> bool \<times> string option res" where
  "cached_fetch time get put now timeout key response s =
     (case (case time s key of None \<Rightarrow> None | Some t \<Rightarrow> if t = 0 \<or> now \<ge> t + timeout then None else Some t) of
        None \<Rightarrow>
          (case response of
             Inl (HTTPError code) \<Rightarrow> (s, True, Inl (UnboundLocalError ''url_data''))
           | Inl e \<Rightarrow> (s, True, Inl e)
           | Inr body \<Rightarrow>
               (case put now key body s of
                  (s1, Inl e) \<Rightarrow> (s1, True, Inl e)
                | (s1, Inr _) \<Rightarrow> (s1, True, Inr (Some body))))
      | Some t \<Rightarrow> (s, False, get s key))"

text \<open>What the caching step relies on: a store that keeps what was put, with the time of the put,
  and leaves the slots of other keys alone.\<close>

locale kv_store =
  fixes time :: "'s \<Rightarrow> string \<Rightarrow> int option"
    and get :: "'s \<Rightarrow> string \<Rightarrow> string option res"
    and put :: "int \<Rightarrow> string \<Rightarrow> string \<Rightarrow> 's \<Rightarrow> 's \<times> unit res"
    and inv :: "'s \<Rightarrow> bool"
    and slot :: "'s \<Rightarrow> string \<Rightarrow> string"
  assumes put_ok: "inv s \<Longrightarrow> \<exists>s'. put now k d s = (s', Inr ()) \<and> inv s' \<and>
      get s' k = Inr (Some d) \<and> time s' k = Some now \<and>
      (\<forall>k'. slot s k' \<noteq> slot s k \<longrightarrow> get s' k' = get s k' \<and> time s' k' = time s k')"
begin

lemma fetch_inv: "inv s \<Longrightarrow> inv (fst (cached_fetch time get put now to k r s))"
  using put_ok [of s now k]
  by (auto simp: cached_fetch_def split: option.splits sum.splits exc.splits prod.splits)
    (metis fst_conv snd_conv)+

lemma fresh_is_served:
  "time s k = Some t \<Longrightarrow> t \<noteq> 0 \<Longrightarrow> now < t + to \<Longrightarrow>
     cached_fetch time get put now to k r s = (s, False, get s k)"
  by (simp add: cached_fetch_def)

lemma fetched_is_stored:
  assumes "inv s" and "time s k = None \<or> (\<exists>t. time s k = Some t \<and> (t = 0 \<or> t + to \<le> now))"
  shows "\<exists>s'. cached_fetch time get put now to k (Inr body) s = (s', True, Inr (Some body)) \<and> inv s' \<and>
    get s' k = Inr (Some body) \<and> time s' k = Some now \<and>
    (\<forall>k'. slot s k' \<noteq> slot s k \<longrightarrow> get s' k' = get s k' \<and> time s' k' = time s k')"
  using put_ok [OF assms(1), of now k body] assms(2)
  by (auto simp: cached_fetch_def)

lemma refetch_within_timeout:
  assumes "inv s" and "time s k = None" and "now \<noteq> 0" and "now' < now + to"
  shows "\<exists>s'. cached_fetch time get put now to k (Inr body) s = (s', True, Inr (Some body)) \<and>
    cached_fetch time get put now' to k r s' = (s', False, Inr (Some body))"
  using fetched_is_stored [OF assms(1), of k to now body] assms(2-4) fresh_is_served by fastforce

end

section \<open>The file cache is such a store\<close>

definition clean_root :: "string \<Rightarrow> bool" where
  "clean_root r \<longleftrightarrow> r \<noteq> [] \<and> last r \<noteq> CHR ''/''"

text \<open>Below the root, files sit at the depth of entries and directories above it.\<close>

definition fc_inv :: "file_cache \<Rightarrow> bool" where
  "fc_inv c \<longleftrightarrow> clean_root (root_directory c) \<and> dict_has (dirs (fsys c)) (root_directory c) \<and>
     (\<forall>p. dict_has (files (fsys c)) p \<longrightarrow> starts_with p (root_directory c) \<longrightarrow>
        length p = length (root_directory c) + 39) \<and>
     (\<forall>p. dict_has (dirs (fsys c)) p \<longrightarrow> starts_with p (root_directory c) \<longrightarrow>
        length p \<noteq> length (root_directory c) + 39)"

lemma dirname_app:
  assumes "clean_root p" and "CHR ''/'' \<notin> set s"
  shows "dirname (p @ CHR ''/'' # s) = p"
proof -
  have "dropWhile (\<lambda>c. c \<noteq> CHR ''/'') (rev s @ CHR ''/'' # rev p) = CHR ''/'' # rev p"
    using assms(2) by (induction s rule: rev_induct) auto
  moreover have "dropWhile (\<lambda>c. c = CHR ''/'') (rev p) = rev p"
    using assms(1) by (cases p rule: rev_cases) (auto simp: clean_root_def)
  moreover have "\<not> list_all (\<lambda>c. c = CHR ''/'') p"
    using assms(1) unfolding clean_root_def list_all_iff by (metis last_in_set)
  ultimately show ?thesis by (simp add: dirname_def Let_def)
qed

lemma clean_root_app: "s \<noteq> [] \<Longrightarrow> last s \<noteq> CHR ''/'' \<Longrightarrow> clean_root (p @ CHR ''/'' # s)"
  by (simp add: clean_root_def)

lemma mkdir_ok:
  "\<not> path_exists f (p @ CHR ''/'' # s) \<Longrightarrow> dict_has (dirs f) p \<Longrightarrow> clean_root p \<Longrightarrow> CHR ''/'' \<notin> set s \<Longrightarrow>
     mkdir now (p @ CHR ''/'' # s) f = (f\<lparr>dirs := AList.update (p @ CHR ''/'' # s) now (dirs f)\<rparr>, Inr ())"
  by (simp add: mkdir_def dirname_app)

lemma makedirs_step:
  assumes "clean_root p" and "CHR ''/'' \<notin> set s" and "\<not> path_exists f (p @ CHR ''/'' # s)"
    and "path_exists f p \<Longrightarrow> dict_has (dirs f) p"
    and "\<not> path_exists f p \<Longrightarrow> \<exists>f1. makedirs now p f = (f1, Inr ()) \<and> files f1 = files f \<and>
      dict_has (dirs f1) p \<and> (\<forall>x. dict_has (dirs f1) x \<longrightarrow> dict_has (dirs f) x \<or> length x \<le> length p) \<and>
      (\<forall>x. dict_has (dirs f) x \<longrightarrow> dict_has (dirs f1) x)"
  shows "\<exists>f2. makedirs now (p @ CHR ''/'' # s) f = (f2, Inr ()) \<and> files f2 = files f \<and>
    dict_has (dirs f2) (p @ CHR ''/'' # s) \<and>
    (\<forall>x. dict_has (dirs f2) x \<longrightarrow> dict_has (dirs f) x \<or> length x \<le> length (p @ CHR ''/'' # s)) \<and>
    (\<forall>x. dict_has (dirs f) x \<longrightarrow> dict_has (dirs f2) x)"
proof (cases "path_exists f p")
  case True
  then have "makedirs now (p @ CHR ''/'' # s) f = mkdir now (p @ CHR ''/'' # s) f"
    using assms(1,2) by (subst makedirs.simps) (simp add: dirname_app)
  with mkdir_ok [OF assms(3) assms(4) assms(1,2)] True show ?thesis by auto
next
  case False
  then obtain f1 where f1: "makedirs now p f = (f1, Inr ())" "files f1 = files f" "dict_has (dirs f1) p"
      "\<And>x. dict_has (dirs f1) x \<Longrightarrow> dict_has (dirs f) x \<or> length x \<le> length p"
      "\<And>x. dict_has (dirs f) x \<Longrightarrow> dict_has (dirs f1) x"
    using assms(5) by blast
  have ne: "\<not> path_exists f1 (p @ CHR ''/'' # s)"
    using assms(3) f1(2) f1(4) [of "p @ CHR ''/'' # s"] by (auto simp: path_exists_def)
  have "makedirs now (p @ CHR ''/'' # s) f = mkdir now (p @ CHR ''/'' # s) f1"
    using assms(1,2) False f1(1) by (subst makedirs.simps) (simp add: dirname_app clean_root_def)
  with mkdir_ok [OF ne f1(3) assms(1,2)] f1 show ?thesis by fastforce
qed

text \<open>The four levels of a path.\<close>

lemma three_chars:
  assumes "3 \<le> length h"
  obtains a b c t where "h = a # b # c # t"
  using assms by (cases h; cases "tl h"; cases "tl (tl h)") auto

lemma get_path_levels:
  obtains a b c where "\<forall>r. clean_root r \<longrightarrow> path_join (path_join r (get_prefix (hexdigest (md5 key)))) (hexdigest (md5 key)) =
      ((((r @ CHR ''/'' # [a]) @ CHR ''/'' # [b]) @ CHR ''/'' # [c]) @ CHR ''/'' # hexdigest (md5 key))"
    and "a \<noteq> CHR ''/''" and "b \<noteq> CHR ''/''" and "c \<noteq> CHR ''/''" and "CHR ''/'' \<notin> set (hexdigest (md5 key))"
proof -
  let ?h = "hexdigest (md5 key)"
  have len: "length ?h = 32" by simp
  then have "3 \<le> length ?h" by simp
  then obtain a b c t where h: "?h = a # b # c # t" by (rule three_chars)
  have ns: "CHR ''/'' \<notin> set ?h"
    using hexdigest_chars [of "CHR ''/''" "md5 key"] by auto
  then have abc: "a \<noteq> CHR ''/''" "b \<noteq> CHR ''/''" "c \<noteq> CHR ''/''" by (auto simp: h)
  have pre: "get_prefix ?h = [a, CHR ''/'', b, CHR ''/'', c]"
    by (simp add: h get_prefix_def DEPTH_def)
  have j: "path_join r (get_prefix ?h) = r @ CHR ''/'' # get_prefix ?h" if "clean_root r" for r
    using that abc(1) by (simp add: path_join_def pre clean_root_def)
  have j2: "path_join (r @ CHR ''/'' # get_prefix ?h) ?h = (r @ CHR ''/'' # get_prefix ?h) @ CHR ''/'' # ?h" for r
    using abc by (simp only: pre) (simp add: path_join_def h)
  show thesis
  proof (rule that [of a b c])
    show "\<forall>r. clean_root r \<longrightarrow> path_join (path_join r (get_prefix ?h)) ?h =
        ((((r @ CHR ''/'' # [a]) @ CHR ''/'' # [b]) @ CHR ''/'' # [c]) @ CHR ''/'' # ?h)"
      using j j2 by (simp add: pre)
  qed (fact abc ns)+
qed

lemma get_path_fsys [simp]: "get_path (c\<lparr>fsys := f\<rparr>) k = get_path c k"
  by (simp add: get_path_def)

lemma fc_set_ok:
  assumes "fc_inv c"
  shows "\<exists>f1. fc_set now key data c =
      (c\<lparr>fsys := f1\<lparr>files := AList.update (get_path c key) (data, now) (files f1)\<rparr>\<rparr>, Inr ()) \<and>
    files f1 = files (fsys c) \<and> \<not> dict_has (dirs f1) (get_path c key) \<and>
    starts_with (get_path c key) (root_directory c) \<and>
    length (get_path c key) = length (root_directory c) + 39 \<and>
    (\<forall>x. dict_has (dirs (fsys c)) x \<longrightarrow> dict_has (dirs f1) x) \<and>
    (\<forall>x. dict_has (dirs f1) x \<longrightarrow> dict_has (dirs (fsys c)) x \<or> length x \<le> length (root_directory c) + 6)"
proof -
  let ?r = "root_directory c" and ?f = "fsys c"
  obtain a b e where
    path: "\<forall>r. clean_root r \<longrightarrow> path_join (path_join r (get_prefix (hexdigest (md5 key)))) (hexdigest (md5 key)) =
      ((((r @ CHR ''/'' # [a]) @ CHR ''/'' # [b]) @ CHR ''/'' # [e]) @ CHR ''/'' # hexdigest (md5 key))"
    and abe: "a \<noteq> CHR ''/''" "b \<noteq> CHR ''/''" "e \<noteq> CHR ''/''"
      "CHR ''/'' \<notin> set (hexdigest (md5 key))"
    by (rule get_path_levels [of key])
  define p1 where "p1 = ?r @ CHR ''/'' # [a]"
  define p2 where "p2 = p1 @ CHR ''/'' # [b]"
  define p3 where "p3 = p2 @ CHR ''/'' # [e]"
  have r: "clean_root ?r" "dict_has (dirs ?f) ?r" using assms by (simp_all add: fc_inv_def)
  have cr: "clean_root p1" "clean_root p2" "clean_root p3"
    using abe by (simp_all add: p1_def p2_def p3_def clean_root_def)
  have gp: "get_path c key = p3 @ CHR ''/'' # hexdigest (md5 key)"
    using path r(1) by (simp add: get_path_def Let_def p1_def p2_def p3_def)
  have len: "length p1 = length ?r + 2" "length p2 = length ?r + 4" "length p3 = length ?r + 6"
    by (simp_all add: p1_def p2_def p3_def)
  have sw: "starts_with p ?r" if "p \<in> {p1, p2, p3, get_path c key}" for p
    using that by (auto simp: gp p1_def p2_def p3_def)
  have nofile: "\<not> dict_has (files ?f) p" if "p \<in> {p1, p2, p3}" for p
    using assms sw [of p] len that by (auto simp: fc_inv_def)
  have isdir: "path_exists ?f p \<Longrightarrow> dict_has (dirs ?f) p" if "p \<in> {p1, p2, p3}" for p
    using nofile [OF that] by (simp add: path_exists_def)
  let ?ok = "\<lambda>p. \<exists>f1. makedirs now p ?f = (f1, Inr ()) \<and> files f1 = files ?f \<and> dict_has (dirs f1) p \<and>
      (\<forall>x. dict_has (dirs f1) x \<longrightarrow> dict_has (dirs ?f) x \<or> length x \<le> length p) \<and>
      (\<forall>x. dict_has (dirs ?f) x \<longrightarrow> dict_has (dirs f1) x)"
  have m1: "\<not> path_exists ?f p1 \<Longrightarrow> ?ok p1"
    unfolding p1_def
    by (rule makedirs_step [OF r(1)]) (use r(2) abe in \<open>auto simp: path_exists_def\<close>)
  have m2: "\<not> path_exists ?f p2 \<Longrightarrow> ?ok p2"
    unfolding p2_def
    by (rule makedirs_step [OF cr(1)]) (use m1 isdir abe in auto)
  have m3: "\<not> path_exists ?f p3 \<Longrightarrow> ?ok p3"
    unfolding p3_def
    by (rule makedirs_step [OF cr(2)]) (use m2 isdir abe in auto)
  obtain f1 where f1: "(if path_exists ?f p3 then (?f, Inr ()) else makedirs now p3 ?f) = (f1, Inr ())"
      "files f1 = files ?f" "dict_has (dirs f1) p3"
      "\<And>x. dict_has (dirs f1) x \<Longrightarrow> dict_has (dirs ?f) x \<or> length x \<le> length p3"
      "\<And>x. dict_has (dirs ?f) x \<Longrightarrow> dict_has (dirs f1) x"
    using m3 isdir [of p3] by (cases "path_exists ?f p3") auto
  have lp: "length (get_path c key) = length ?r + 39" by (simp add: gp len)
  have nd: "\<not> dict_has (dirs f1) (get_path c key)"
    using f1(4) [of "get_path c key"] assms sw [of "get_path c key"] lp len by (auto simp: fc_inv_def)
  have dn: "dirname (get_path c key) = p3" using dirname_app [OF cr(3) abe(4)] by (simp add: gp)
  show ?thesis
    using f1 nd sw [of "get_path c key"] lp len
    by (intro exI [of _ f1]) (auto simp: fc_set_def Let_def dn)
qed

interpretation file_store: kv_store fc_cached_time fc_get fc_set fc_inv get_path
proof
  fix c now k d assume inv: "fc_inv c"
  from fc_set_ok [OF this, of now k d] obtain f1 where
    f1: "fc_set now k d c = (c\<lparr>fsys := f1\<lparr>files := AList.update (get_path c k) (d, now) (files f1)\<rparr>\<rparr>, Inr ())"
      "files f1 = files (fsys c)" "\<not> dict_has (dirs f1) (get_path c k)"
      "length (get_path c k) = length (root_directory c) + 39"
      "\<And>x. dict_has (dirs (fsys c)) x \<Longrightarrow> dict_has (dirs f1) x"
      "\<And>x. dict_has (dirs f1) x \<Longrightarrow> dict_has (dirs (fsys c)) x \<or> length x \<le> length (root_directory c) + 6"
    by blast
  let ?c = "c\<lparr>fsys := f1\<lparr>files := AList.update (get_path c k) (d, now) (files f1)\<rparr>\<rparr>"
  have "fc_inv ?c"
    unfolding fc_inv_def
  proof (intro conjI allI impI)
    fix p assume p: "starts_with p (root_directory ?c)"
    show "length p = length (root_directory ?c) + 39" if "dict_has (files (fsys ?c)) p"
    proof (cases "p = get_path c k")
      case False
      with that p f1(2) inv show ?thesis by (simp add: fc_inv_def)
    qed (simp add: f1(4))
    show "length p \<noteq> length (root_directory ?c) + 39" if "dict_has (dirs (fsys ?c)) p"
      using f1(6) [of p] that p inv by (auto simp: fc_inv_def)
  qed (use inv f1(5) in \<open>simp_all add: fc_inv_def\<close>)
  moreover have nd: "map_of (dirs f1) (get_path c k') = None \<and> map_of (dirs (fsys c)) (get_path c k') = None" for k'
  proof -
    from fc_set_ok [OF inv, of now k' d] have l: "length (get_path c k') = length (root_directory c) + 39"
        "starts_with (get_path c k') (root_directory c)" by blast+
    then have "\<not> dict_has (dirs (fsys c)) (get_path c k')" using inv by (auto simp: fc_inv_def)
    moreover from this have "\<not> dict_has (dirs f1) (get_path c k')" using f1(6) l by fastforce
    ultimately show ?thesis by (simp add: dict_has_def)
  qed
  have time: "fc_cached_time ?c k' =
      (if get_path c k' = get_path c k then Some now else fc_cached_time c k')" for k'
    using nd [of k'] by (cases "map_of (files (fsys c)) (get_path c k')")
      (auto simp: fc_cached_time_def f1(2) Let_def)
  have get: "fc_get ?c k' = (if get_path c k' = get_path c k then Inr (Some d) else fc_get c k')" for k'
    using nd [of k'] by (cases "map_of (files (fsys c)) (get_path c k')")
      (auto simp: fc_get_def path_exists_def dict_has_def f1(2) Let_def)
  from \<open>fc_inv ?c\<close> show "\<exists>s'. fc_set now k d c = (s', Inr ()) \<and> fc_inv s' \<and> fc_get s' k = Inr (Some d) \<and>
      fc_cached_time s' k = Some now \<and>
      (\<forall>k'. get_path c k' \<noteq> get_path c k \<longrightarrow> fc_get s' k' = fc_get c k' \<and> fc_cached_time s' k' = fc_cached_time c k')"
    by (intro exI [of _ ?c]) (simp add: f1(1) time get del: get_path_fsys)
qed

section \<open>Properties\<close>

text \<open>What the file cache stores it returns, with the time it was stored, and it disturbs no
  other entry: on any cache directory in good order, setting a key succeeds, the directory stays in
  good order, and every key whose hash names another file keeps its content and time.\<close>

theorem file_cache_set_get:
  assumes "fc_inv c"
  shows "\<exists>c'. fc_set now key data c = (c', Inr ()) \<and> fc_inv c' \<and> fc_get c' key = Inr (Some data) \<and>
    fc_cached_time c' key = Some now \<and>
    (\<forall>k. get_path c k \<noteq> get_path c key \<longrightarrow>
       fc_get c' k = fc_get c k \<and> fc_cached_time c' k = fc_cached_time c k)"
  using file_store.put_ok [OF assms] by blast

definition tmp_cache :: file_cache where
  "tmp_cache = \<lparr>root_directory = ''/tmp/c'', fsys = \<lparr>dirs = [(''/'', 1), (''/tmp'', 1), (''/tmp/c'', 1)],
     files = []\<rparr>\<rparr>"

lemma tmp_cache_inv: "fc_inv tmp_cache"
  by (auto simp: fc_inv_def tmp_cache_def clean_root_def dict_has_def split: if_splits)

lemma tmp_cache_empty: "fc_cached_time tmp_cache k = None"
proof -
  have "starts_with (get_path tmp_cache k) (root_directory tmp_cache)"
    "length (get_path tmp_cache k) = length (root_directory tmp_cache) + 39"
    using fc_set_ok [OF tmp_cache_inv] by blast+
  then have "get_path tmp_cache k \<notin> {''/'', ''/tmp'', ''/tmp/c''}"
    by (auto simp: tmp_cache_def)
  then show ?thesis by (simp add: fc_cached_time_def tmp_cache_def Let_def)
qed

theorem file_cache_set_get_witness:
  "\<exists>c'. fc_set 1000 ''k'' ''body'' tmp_cache = (c', Inr ()) \<and> fc_get c' ''k'' = Inr (Some ''body'')"
  using file_cache_set_get [OF tmp_cache_inv, of 1000 "''k''" "''body''"] by blast

text \<open>Caching works: after a fetch that found no entry, a second fetch of the same key before the
  timeout has passed returns the first answer without using the network; an HTTP error of the first
  fetch instead surfaces as \<open>UnboundLocalError\<close>, stores nothing and changes nothing.\<close>

theorem cached_fetch_twice:
  assumes "fc_inv c" and "fc_cached_time c key = None" and "now \<noteq> 0" and "now' < now + timeout"
  shows "(\<exists>c'. cached_fetch fc_cached_time fc_get fc_set now timeout key (Inr body) c = (c', True, Inr (Some body)) \<and>
      cached_fetch fc_cached_time fc_get fc_set now' timeout key response' c' = (c', False, Inr (Some body))) \<and>
    cached_fetch fc_cached_time fc_get fc_set now timeout key (Inl (HTTPError code)) c =
      (c, True, Inl (UnboundLocalError ''url_data''))"
  using file_store.refetch_within_timeout [OF assms] assms(2) by (simp add: cached_fetch_def)

theorem cached_fetch_twice_witness:
  "\<exists>c'. cached_fetch fc_cached_time fc_get fc_set 1000 60 ''k'' (Inr ''body'') tmp_cache =
     (c', True, Inr (Some ''body'')) \<and>
     cached_fetch fc_cached_time fc_get fc_set 1059 60 ''k'' (Inl (HTTPError 500)) c' =
     (c', False, Inr (Some ''body''))"
  using cached_fetch_twice [OF tmp_cache_inv tmp_cache_empty [of "''k''"], of 1000 1059 60 "''body''" "Inl (HTTPError 500)"]
  by simp

end
