(* ===== verification/HttpLib2.thy ===== *)
theory HttpLib2
  imports Url Digest
begin

text \<open>
  The HTTP library \<open>socialnet/httplib2-0.7.1/python2/httplib2/__init__.py\<close>, its helpers and its cache:
  URIs, file names, headers, cache control and freshness, what is written to the cache, the cache of
  files, the credentials and the check of host names. The mail library (dates, messages) and the IDNA
  codec are parameters.
\<close>

type_synonym headers = "(string \<times> string) list"

section \<open>URIs\<close>

text \<open>The groups of the regular expression of RFC 3986: scheme, authority, path, query, fragment.\<close>

record uri_parts =
  up_scheme :: "string option"
  up_authority :: "string option"
  up_path :: string
  up_query :: "string option"
  up_fragment :: "string option"

definition uri_scheme :: "string \<Rightarrow> string option \<times> string" where
  "uri_scheme u =
     (let s = takeWhile (\<lambda>c. c \<notin> {CHR '':'', CHR ''/'', CHR ''?'', CHR ''#''}) u; r = drop (length s) u
      in if s \<noteq> [] \<and> starts_with r '':'' then (Some s, drop 1 r) else (None, u))"

definition uri_authority :: "string \<Rightarrow> string option \<times> string" where
  "uri_authority u =
     (let p = (\<lambda>c. c \<notin> {CHR ''/'', CHR ''?'', CHR ''#''})
      in if starts_with u ''//'' then (Some (takeWhile p (drop 2 u)), dropWhile p (drop 2 u)) else (None, u))"

definition uri_query :: "string \<Rightarrow> string option \<times> string" where
  "uri_query u =
     (if starts_with u ''?'' then (Some (takeWhile (\<lambda>c. c \<noteq> CHR ''#'') (drop 1 u)), dropWhile (\<lambda>c. c \<noteq> CHR ''#'') (drop 1 u))
      else (None, u))"

definition uri_fragment :: "string \<Rightarrow> string option" where
  "uri_fragment u = (if starts_with u ''#'' then Some (takeWhile (\<lambda>c. c \<noteq> CHR 0x0A) (drop 1 u)) else None)"

definition parse_uri :: "string \<Rightarrow> uri_parts" where
  "parse_uri u =
     (case uri_scheme u of (sch, u1) \<Rightarrow>
      case uri_authority u1 of (au, u2) \<Rightarrow>
      let p = (\<lambda>c. c \<noteq> CHR ''?'' \<and> c \<noteq> CHR ''#'') in
      case uri_query (dropWhile p u2) of (q, u3) \<Rightarrow>
        \<lparr>up_scheme = sch, up_authority = au, up_path = takeWhile p u2, up_query = q, up_fragment = uri_fragment u3\<rparr>)"

definition some_text :: "string option \<Rightarrow> bool" where
  "some_text s \<longleftrightarrow> (case s of None \<Rightarrow> False | Some t \<Rightarrow> t \<noteq> [])"

text \<open>\<open>urlnorm\<close>: scheme, authority, request URI and the URI without its fragment.\<close>

definition urlnorm :: "string \<Rightarrow> (string \<times> string \<times> string \<times> string) res" where
  "urlnorm uri =
     (let u = parse_uri uri in
      if \<not> some_text (up_scheme u) \<or> \<not> some_text (up_authority u) then Inl (HttpLibError ''RelativeURIError'')
      else
        let authority = str_lower (the (up_authority u)); sch = str_lower (the (up_scheme u));
            pth = (if up_path u = [] then ''/'' else up_path u);
            request_uri = (if some_text (up_query u) then pth @ ''?'' @ the (up_query u) else pth)
        in Inr (sch, authority, request_uri, sch @ ''://'' @ authority @ request_uri))"

section \<open>File names for the cache\<close>

text \<open>\<open>^\w+://\<close> at the beginning.\<close>

definition url_scheme_length :: "string \<Rightarrow> nat option" where
  "url_scheme_length s =
     (let w = takeWhile word_char s in
      if w \<noteq> [] \<and> starts_with (drop (length w) s) ''://'' then Some (length w + 3) else None)"

function squeeze :: "(char \<Rightarrow> bool) \<Rightarrow> string \<Rightarrow> string" where
  "squeeze p [] = []"
| "squeeze p (c # s) = (if p c then CHR '','' # squeeze p (dropWhile p s) else c # squeeze p s)"
  by pat_completeness auto
termination
  by (relation "measure (\<lambda>(p, s). length s)") (auto simp: less_Suc_eq_le length_dropWhile_le)

definition slash_char :: "char \<Rightarrow> bool" where
  "slash_char c \<longleftrightarrow> c \<in> {CHR ''?'', CHR ''/'', CHR '':'', CHR ''|''}"

text \<open>\<open>idna\<close> gives nothing where the codecs raise \<open>UnicodeError\<close>.\<close>

definition safename :: "(string \<Rightarrow> string option) \<Rightarrow> string \<Rightarrow> string" where
  "safename idna filename =
     (let f = (if url_scheme_length filename \<noteq> None
               then (case idna filename of Some g \<Rightarrow> g | None \<Rightarrow> filename) else filename);
          filemd5 = hexdigest (md5 f);
          f1 = (case url_scheme_length f of Some n \<Rightarrow> drop n f | None \<Rightarrow> f)
      in take 200 (squeeze slash_char f1) @ '','' @ filemd5)"

section \<open>Headers\<close>

text \<open>The call \<open>NORMALIZE_SPACE.sub(value, ' ')\<close> has its arguments the wrong way round: it replaces the blank in
  \<open>' '\<close> by the value, so the white space inside the value stays. A backslash in the value would be read
  as an escape of the replacement; such values are left out.\<close>

definition norm_headers :: "headers \<Rightarrow> headers" where
  "norm_headers hs = dict_update [] (map (\<lambda>(k, v). (str_lower k, str_strip v)) hs)"

datatype cc_value = CcArg string | CcFlag

definition parse_cache_control :: "headers \<Rightarrow> (string \<times> cc_value) list" where
  "parse_cache_control hs =
     (case map_of hs ''cache-control'' of
        None \<Rightarrow> []
      | Some v \<Rightarrow>
          let parts = str_split CHR '','' v;
              with_args = concat (map (\<lambda>p. case str_split1 CHR ''='' p of
                (a, Some b) \<Rightarrow> [(str_lower (str_strip a), CcArg (str_lower (str_strip b)))] | (a, None) \<Rightarrow> []) parts);
              wo_args = concat (map (\<lambda>p. case str_split1 CHR ''='' p of
                (a, None) \<Rightarrow> [(str_lower (str_strip a), CcFlag)] | (a, Some b) \<Rightarrow> []) parts)
          in dict_update [] (with_args @ wo_args))"

text \<open>\<open>int()\<close> of an argument, of the 1 that stands for no argument, and 0 where it raises \<open>ValueError\<close>.\<close>

definition cc_int :: "cc_value \<Rightarrow> int" where
  "cc_int v = (case v of CcFlag \<Rightarrow> 1 | CcArg s \<Rightarrow> (case parse_int s of Inr i \<Rightarrow> i | Inl e \<Rightarrow> 0))"

definition hop_by_hop :: "string list" where
  "hop_by_hop = [''connection'', ''keep-alive'', ''proxy-authenticate'', ''proxy-authorization'', ''te'', ''trailers'',
     ''transfer-encoding'', ''upgrade'']"

definition get_end2end_headers :: "headers \<Rightarrow> string list" where
  "get_end2end_headers hs =
     (let hop = hop_by_hop @ map str_strip (str_split CHR '','' (case map_of hs ''connection'' of None \<Rightarrow> [] | Some v \<Rightarrow> v))
      in filter (\<lambda>k. k \<notin> set hop) (map fst hs))"

section \<open>Freshness\<close>

datatype disposition = FRESH | STALE | TRANSPARENT

text \<open>\<open>mail_date\<close> is \<open>calendar.timegm(parsedate_tz(s))\<close>, nothing where the date cannot be read; for the header
  \<open>date\<close> that raises.\<close>

definition freshness_lifetime ::
    "(string \<Rightarrow> int option) \<Rightarrow> int \<Rightarrow> headers \<Rightarrow> headers \<Rightarrow> int" where
  "freshness_lifetime mail_date date response_headers request_headers =
     (let cc = parse_cache_control request_headers; cc_response = parse_cache_control response_headers in
      case map_of cc ''max-age'' of
        Some v \<Rightarrow> cc_int v
      | None \<Rightarrow>
          (case map_of cc_response ''max-age'' of
             Some v \<Rightarrow> cc_int v
           | None \<Rightarrow>
               (case map_of response_headers ''expires'' of
                  Some e \<Rightarrow> (case mail_date e of None \<Rightarrow> 0 | Some t \<Rightarrow> max 0 (t - date))
                | None \<Rightarrow> 0)))"

definition entry_disposition ::
    "(string \<Rightarrow> int option) \<Rightarrow> int \<Rightarrow> headers \<Rightarrow> headers \<Rightarrow> (headers \<times> disposition) res" where
  "entry_disposition mail_date now response_headers request_headers =
     (let cc = parse_cache_control request_headers; cc_response = parse_cache_control response_headers in
      if (case map_of request_headers ''pragma'' of None \<Rightarrow> False | Some v \<Rightarrow> str_contains (str_lower v) ''no-cache'') then
        Inr (if dict_has request_headers ''cache-control'' then request_headers
             else AList.update ''cache-control'' ''no-cache'' request_headers, TRANSPARENT)
      else if dict_has cc ''no-cache'' then Inr (request_headers, TRANSPARENT)
      else if dict_has cc_response ''no-cache'' then Inr (request_headers, STALE)
      else if dict_has cc ''only-if-cached'' then Inr (request_headers, FRESH)
      else
        (case map_of response_headers ''date'' of
           None \<Rightarrow> Inr (request_headers, STALE)
         | Some d \<Rightarrow>
             (case mail_date d of
                None \<Rightarrow> Inl (TypeError ''timegm of None'')
              | Some date \<Rightarrow>
                  let min_fresh = (case map_of cc ''min-fresh'' of None \<Rightarrow> 0 | Some v \<Rightarrow> cc_int v);
                      current_age = max 0 (now - date) + min_fresh
                  in Inr (request_headers,
                       if freshness_lifetime mail_date date response_headers request_headers > current_age
                       then FRESH else STALE))))"

section \<open>Writing to the cache\<close>

record response =
  r_headers :: headers
  r_status :: int
  r_fromcache :: bool

text \<open>\<open>re.sub("\r(?!\n)|(?<!\r)\n", "\r\n", s)\<close>.\<close>

fun fix_crlf :: "string \<Rightarrow> string" where
  "fix_crlf [] = []"
| "fix_crlf (c # s) =
     (if c = CHR 0x0D then
        (case s of
           d # t \<Rightarrow> if d = CHR 0x0A then CHR 0x0D # CHR 0x0A # fix_crlf t else CHR 0x0D # CHR 0x0A # fix_crlf s
         | [] \<Rightarrow> [CHR 0x0D, CHR 0x0A])
      else if c = CHR 0x0A then CHR 0x0D # CHR 0x0A # fix_crlf s
      else c # fix_crlf s)"

definition without_space :: "string \<Rightarrow> string" where
  "without_space s = filter (\<lambda>c. c \<noteq> CHR '' '') s"

definition vary_headers :: "string \<Rightarrow> string list" where
  "vary_headers v = str_split CHR '','' (without_space (str_lower v))"

text \<open>The headers that are kept, and for each header the answer varies with its value in the request.\<close>

definition cache_info :: "headers \<Rightarrow> headers \<Rightarrow> headers" where
  "cache_info request_headers response_headers =
     filter (\<lambda>(k, v). k \<notin> {''status'', ''content-encoding'', ''transfer-encoding''}) response_headers @
     (case map_of response_headers ''vary'' of
        None \<Rightarrow> []
      | Some v \<Rightarrow>
          if v = [] then []
          else concat (map (\<lambda>h. case map_of request_headers h of
            None \<Rightarrow> [] | Some x \<Rightarrow> [(''-varied-'' @ h, x)]) (vary_headers v)))"

definition status_header :: "int \<Rightarrow> string" where
  "status_header status = ''status: '' @ show_int (if status = 304 then 200 else status) @ [CHR 0x0D, CHR 0x0A]"

definition cache_text :: "(headers \<Rightarrow> string) \<Rightarrow> headers \<Rightarrow> response \<Rightarrow> string \<Rightarrow> string" where
  "cache_text as_string request_headers r content =
     status_header (r_status r) @ fix_crlf (as_string (cache_info request_headers (r_headers r))) @ content"

definition no_store :: "headers \<Rightarrow> headers \<Rightarrow> bool" where
  "no_store request_headers response_headers \<longleftrightarrow>
     dict_has (parse_cache_control request_headers) ''no-store'' \<or>
     dict_has (parse_cache_control response_headers) ''no-store''"

text \<open>\<open>_updateCache\<close> with the operations of the cache it is given; without a key it does nothing.\<close>

definition update_cache ::
    "(string \<Rightarrow> 'c \<Rightarrow> 'c) \<Rightarrow> (string \<Rightarrow> string \<Rightarrow> 'c \<Rightarrow> 'c) \<Rightarrow> (headers \<Rightarrow> string) \<Rightarrow>
     headers \<Rightarrow> response \<Rightarrow> string \<Rightarrow> string option \<Rightarrow> 'c \<Rightarrow> 'c" where
  "update_cache remove put as_string request_headers r content key c =
     (case key of
        None \<Rightarrow> c
      | Some k \<Rightarrow>
          if k = [] then c
          else if no_store request_headers (r_headers r) then remove k c
          else put k (cache_text as_string request_headers r content) c)"

section \<open>The cache of files\<close>

type_synonym file_dir = "(string \<times> string) list"

definition hc_get :: "(string \<Rightarrow> string option) \<Rightarrow> string \<Rightarrow> file_dir \<Rightarrow> string option" where
  "hc_get idna key d = map_of d (safename idna key)"

definition hc_set :: "(string \<Rightarrow> string option) \<Rightarrow> string \<Rightarrow> string \<Rightarrow> file_dir \<Rightarrow> file_dir" where
  "hc_set idna key v d = AList.update (safename idna key) v d"

definition hc_delete :: "(string \<Rightarrow> string option) \<Rightarrow> string \<Rightarrow> file_dir \<Rightarrow> file_dir" where
  "hc_delete idna key d = AList.delete (safename idna key) d"

section \<open>Credentials and host names\<close>

type_synonym credentials = "(string \<times> string \<times> string) list"

definition add_credential :: "string \<Rightarrow> string \<Rightarrow> string \<Rightarrow> credentials \<Rightarrow> credentials" where
  "add_credential name password domain cs = cs @ [(str_lower domain, name, password)]"

definition iter_credentials :: "string \<Rightarrow> credentials \<Rightarrow> (string \<times> string) list" where
  "iter_credentials domain cs =
     map snd (filter (\<lambda>(d, np). d = [] \<or> domain = d) cs)"

text \<open>\<open>_GetValidHostsForCert\<close>: the certificate by its alternative names, if any, and its common names.\<close>

record certificate =
  ct_alt_names :: "(string \<times> string) list option"
  ct_subject :: "(string \<times> string) list"

definition valid_hosts :: "certificate \<Rightarrow> string list" where
  "valid_hosts c =
     (case ct_alt_names c of
        Some ns \<Rightarrow> map snd (filter (\<lambda>(k, v). str_lower k = ''dns'') ns)
      | None \<Rightarrow> map snd (filter (\<lambda>(k, v). str_lower k = ''commonname'') (ct_subject c)))"

text \<open>A name against a pattern whose star stands for any characters but dots, without regard to case.\<close>

fun glob_match :: "string \<Rightarrow> string \<Rightarrow> bool" where
  "glob_match [] s = (s = [])"
| "glob_match (c # p) s =
     (if c = CHR ''*'' then
        list_ex (\<lambda>n. list_all (\<lambda>x. x \<noteq> CHR ''.'') (take n s) \<and> glob_match p (drop n s)) [0..<Suc (length s)]
      else (case s of [] \<Rightarrow> False | d # t \<Rightarrow> lower_char c = lower_char d \<and> glob_match p t))"

text \<open>\<open>_ValidateCertificateHostname\<close>: the \<open>return False\<close> stands inside the loop, so only the first name is tried;
  a certificate without names gives \<open>None\<close>.\<close>

definition validate_hostname :: "certificate \<Rightarrow> string \<Rightarrow> bool option" where
  "validate_hostname c hostname = (case valid_hosts c of [] \<Rightarrow> None | h # hs \<Rightarrow> Some (glob_match h hostname))"

section \<open>Properties of URIs\<close>

definition opt_part :: "string \<Rightarrow> string option \<Rightarrow> string \<Rightarrow> string" where
  "opt_part a s b = (case s of None \<Rightarrow> [] | Some t \<Rightarrow> a @ t @ b)"

definition unparse_uri :: "uri_parts \<Rightarrow> string" where
  "unparse_uri u = opt_part [] (up_scheme u) '':'' @ opt_part ''//'' (up_authority u) [] @ up_path u @
     opt_part ''?'' (up_query u) [] @ opt_part ''#'' (up_fragment u) []"

lemma starts_with_drop: "starts_with s p \<Longrightarrow> s = p @ drop (length p) s"
  by (auto simp: starts_with_iff)

lemma scheme_rejoin: "uri_scheme u = (s, r) \<Longrightarrow> u = opt_part [] s '':'' @ r"
proof -
  let ?p = "\<lambda>c. c \<notin> {CHR '':'', CHR ''/'', CHR ''?'', CHR ''#''}"
  let ?t = "takeWhile ?p u"
  have u: "u = ?t @ drop (length ?t) u" by (metis append_take_drop_id takeWhile_eq_take)
  assume "uri_scheme u = (s, r)"
  then show ?thesis
    using u starts_with_drop [of "drop (length ?t) u" "'':''"]
    by (auto simp: uri_scheme_def opt_part_def Let_def split: if_splits)
qed

lemma authority_rejoin: "uri_authority u = (a, r) \<Longrightarrow> u = opt_part ''//'' a [] @ r"
  using starts_with_drop [of u "''//''"]
  by (auto simp: uri_authority_def opt_part_def Let_def numeral_2_eq_2 split: if_splits)

lemma query_rejoin: "uri_query u = (q, r) \<Longrightarrow> u = opt_part ''?'' q [] @ r"
  using starts_with_drop [of u "''?''"]
  by (auto simp: uri_query_def opt_part_def split: if_splits)

text \<open>Taking a URI apart loses nothing: for a URI without a line end, joining scheme, authority, path,
  query and fragment with their delimiters gives the URI again.\<close>

theorem parse_uri_rejoins:
  assumes "CHR 0x0A \<notin> set u"
  shows "unparse_uri (parse_uri u) = u"
proof -
  obtain s u1 where 1: "uri_scheme u = (s, u1)" by force
  obtain a u2 where 2: "uri_authority u1 = (a, u2)" by force
  let ?p = "\<lambda>c. c \<noteq> CHR ''?'' \<and> c \<noteq> CHR ''#''"
  obtain q u3 where 3: "uri_query (dropWhile ?p u2) = (q, u3)" by force
  have "u2 = takeWhile ?p u2 @ opt_part ''?'' q [] @ u3"
    using takeWhile_dropWhile_id [of ?p u2] unfolding query_rejoin [OF 3, symmetric] by (rule sym)
  then have u: "u = opt_part [] s '':'' @ opt_part ''//'' a [] @ takeWhile ?p u2 @ opt_part ''?'' q [] @ u3"
    using scheme_rejoin [OF 1] authority_rejoin [OF 2] by argo
  from assms have nl: "CHR 0x0A \<notin> set u3" by (subst (asm) u) simp
  have end3: "u3 = [] \<or> starts_with u3 ''#''"
  proof (cases "starts_with (dropWhile ?p u2) ''?''")
    case True
    then have "u3 = dropWhile (\<lambda>c. c \<noteq> CHR ''#'') (drop 1 (dropWhile ?p u2))" using 3 by (simp add: uri_query_def)
    moreover have "dropWhile (\<lambda>c. c \<noteq> CHR ''#'') v = [] \<or> starts_with (dropWhile (\<lambda>c. c \<noteq> CHR ''#'') v) ''#''" for v
      by (induction v) auto
    ultimately show ?thesis by metis
  next
    case False
    then have w: "u3 = dropWhile ?p u2" using 3 by (simp add: uri_query_def)
    show ?thesis
    proof (cases u3)
      case (Cons c t)
      then have "\<not> ?p c" using hd_dropWhile [of ?p u2] w by (metis list.distinct(1) list.sel(1))
      moreover have "c \<noteq> CHR ''?''" using False unfolding w [symmetric] Cons by simp
      ultimately show ?thesis using Cons by simp
    qed simp
  qed
  have frag: "opt_part ''#'' (uri_fragment u3) [] = u3"
  proof (cases "u3 = []")
    case False
    then have h: "starts_with u3 ''#''" using end3 by simp
    have t: "takeWhile (\<lambda>c. c \<noteq> CHR 0x0A) (drop 1 u3) = drop 1 u3"
      using nl by (auto simp: takeWhile_eq_all_conv dest: in_set_dropD)
    have d: "''#'' @ drop 1 u3 @ [] = u3" using starts_with_drop [OF h] by simp
    show ?thesis unfolding uri_fragment_def opt_part_def using h by (simp only: if_True t d option.case)
  qed (simp add: uri_fragment_def opt_part_def)
  have "unparse_uri (parse_uri u) = opt_part [] s '':'' @ opt_part ''//'' a [] @ takeWhile ?p u2 @ opt_part ''?'' q [] @ u3"
    by (simp add: unparse_uri_def parse_uri_def 1 2 3 Let_def frag)
  also note u [symmetric]
  finally show ?thesis .
qed

theorem parse_uri_rejoins_witness:
  "unparse_uri (parse_uri ''http://a.b/c?d=e#f'') = ''http://a.b/c?d=e#f''"
  by (rule parse_uri_rejoins) simp

section \<open>Properties of file names\<close>

lemma squeeze_clean: "p (CHR '','') = False \<Longrightarrow> c \<in> set (squeeze p s) \<Longrightarrow> \<not> p c"
  by (induction p s rule: squeeze.induct) (auto split: if_splits)

text \<open>Every name the cache makes for a key is a plain file name: it is at most 233 characters long and has
  no slash, colon, question mark or bar, so no key can name a file outside the directory.\<close>

theorem safename_clean:
  "length (safename idna key) \<le> 233 \<and> (\<forall>c \<in> set (safename idna key). \<not> slash_char c)"
proof -
  have h: "\<not> slash_char c" if "c \<in> set (hexdigest b)" for c b
    using hexdigest_chars [OF that] by (auto simp: slash_char_def)
  have s: "\<not> slash_char c" if "c \<in> set (squeeze slash_char t)" for c t
    using squeeze_clean [OF _ that] by (simp add: slash_char_def)
  show ?thesis
    using h s by (auto simp: safename_def Let_def slash_char_def dest!: in_set_takeD split: option.splits)
qed

theorem safename_clean_witness:
  "length (safename (\<lambda>f. None) ''http://a/../b'') \<le> 233 \<and> CHR ''/'' \<notin> set (safename (\<lambda>f. None) ''http://a/../b'')"
  using safename_clean [of "\<lambda>f. None" "''http://a/../b''"] by (auto simp: slash_char_def)

section \<open>Properties of freshness\<close>

definition only_max_age :: "int \<Rightarrow> string" where
  "only_max_age n = ''max-age='' @ show_int n"

lemma show_int_plain: "c \<in> set (show_int n) \<Longrightarrow> is_digit c \<or> c = CHR ''-''"
  using show_nat_digits [of "nat n"] show_nat_digits [of "nat (- n)"]
  by (auto simp: show_int_def list_all_iff split: if_splits)

lemma strip_show_int: "str_strip (show_int n) = show_int n"
  by (simp add: show_int_def)

lemma parse_only_max_age:
  "map_of hs ''cache-control'' = Some (only_max_age n) \<Longrightarrow>
    parse_cache_control hs = [(''max-age'', CcArg (show_int n))]"
proof -
  assume a: "map_of hs ''cache-control'' = Some (only_max_age n)"
  have "str_split CHR '','' (only_max_age n) = [only_max_age n]"
    using show_int_plain [of "CHR '',''" n] by (intro str_split_no_sep) (auto simp: only_max_age_def is_digit_def)
  moreover have "str_split1 CHR ''='' (only_max_age n) = (''max-age'', Some (show_int n))"
    using str_split1_append [of "CHR ''=''" "''max-age''" "show_int n"] by (simp add: only_max_age_def)
  moreover have "str_lower (str_strip ''max-age'') = ''max-age''" by code_simp
  moreover have "lower_char c = c" if "c \<in> set (show_int n)" for c
    using show_int_plain [OF that] by (auto simp: lower_char_def is_digit_def)
  then have "str_lower (str_strip (show_int n)) = show_int n"
    by (simp add: strip_show_int str_lower_def map_idI)
  ultimately show ?thesis using a by (simp add: parse_cache_control_def Let_def)
qed

text \<open>An entry with a maximum age is served for exactly that long: an answer dated at some moment with
  \<open>Cache-Control: max-age=n\<close> is fresh for a request without conditions exactly as long as less than \<open>n\<close>
  seconds have passed, and stale from then on.\<close>

theorem max_age_exact:
  assumes "map_of response_headers ''cache-control'' = Some (only_max_age n)"
    and "map_of response_headers ''date'' = Some d" "mail_date d = Some date"
    and "map_of request_headers ''cache-control'' = None" "map_of request_headers ''pragma'' = None"
  shows "entry_disposition mail_date now response_headers request_headers =
    Inr (request_headers, if max 0 (now - date) < n then FRESH else STALE)"
proof -
  have "parse_cache_control request_headers = []" using assms(4) by (simp add: parse_cache_control_def)
  then show ?thesis using assms parse_only_max_age [OF assms(1)]
    by (simp add: entry_disposition_def freshness_lifetime_def dict_has_def cc_int_def)
qed

theorem max_age_exact_witness:
  "entry_disposition (\<lambda>d. Some 100) 109 [(''cache-control'', ''max-age=10''), (''date'', ''x'')] [] = Inr ([], FRESH) \<and>
   entry_disposition (\<lambda>d. Some 100) 110 [(''cache-control'', ''max-age=10''), (''date'', ''x'')] [] = Inr ([], STALE)"
proof -
  have "only_max_age 10 = ''max-age=10''" by code_simp
  then show ?thesis
    using max_age_exact [of "[(''cache-control'', ''max-age=10''), (''date'', ''x'')]" 10 "''x''" "\<lambda>d. Some 100" 100 "[]" 109]
      max_age_exact [of "[(''cache-control'', ''max-age=10''), (''date'', ''x'')]" 10 "''x''" "\<lambda>d. Some 100" 100 "[]" 110]
    by simp
qed

text \<open>A cached answer is never used against the wish of the request or of its server.\<close>

lemma fresh_allowed:
  assumes "entry_disposition mail_date now response_headers request_headers = Inr (hs, FRESH)"
  shows "\<not> dict_has (parse_cache_control request_headers) ''no-cache'' \<and>
    \<not> dict_has (parse_cache_control response_headers) ''no-cache'' \<and> hs = request_headers"
  using assms by (auto simp: entry_disposition_def Let_def split: if_splits option.splits)

section \<open>Host names\<close>

lemma glob_exact: "CHR ''*'' \<notin> set p \<Longrightarrow> glob_match p s \<longleftrightarrow> str_lower p = str_lower s"
proof (induction p arbitrary: s)
  case (Cons c p)
  then show ?case by (cases s) (auto simp: str_lower_def)
qed (auto simp: str_lower_def)

lemma glob_starI:
  "list_all (\<lambda>x. x \<noteq> CHR ''.'') (take n s) \<Longrightarrow> glob_match q (drop n s) \<Longrightarrow> n \<le> length s \<Longrightarrow> glob_match (CHR ''*'' # q) s"
  by (simp add: list_ex_iff del: upt_Suc) (use atLeastLessThan_iff less_Suc_eq_le in blast)

lemma glob_star: "CHR ''*'' \<notin> set p \<Longrightarrow>
    glob_match (CHR ''*'' # CHR ''.'' # p) s \<longleftrightarrow> (\<exists>l r. s = l @ CHR ''.'' # r \<and> CHR ''.'' \<notin> set l \<and> str_lower p = str_lower r)"
proof
  assume p: "CHR ''*'' \<notin> set p" and g: "glob_match (CHR ''*'' # CHR ''.'' # p) s"
  then obtain n where n: "list_all (\<lambda>x. x \<noteq> CHR ''.'') (take n s)" "glob_match (CHR ''.'' # p) (drop n s)"
    by (auto simp: list_ex_iff)
  then obtain d r where d: "drop n s = d # r" "lower_char CHR ''.'' = lower_char d" "glob_match p r"
    by (cases "drop n s") auto
  have "d = CHR ''.''"
  proof -
    have "lower_char d = CHR ''.''" using d(2) by (simp add: lower_char_def)
    moreover have "lower_char d = (let n = of_char d :: nat in if 65 \<le> n \<and> n \<le> 90 then char_of (n + 32) else d)"
      by (rule lower_char_def)
    moreover have "char_of (n + 32) \<noteq> CHR ''.''" if "65 \<le> n" "n \<le> 90" for n :: nat
    proof
      assume "char_of (n + 32) = CHR ''.''"
      then have "(of_char (char_of (n + 32) :: char) :: nat) = 46" by simp
      then show False using that by (simp add: of_char_of)
    qed
    ultimately show ?thesis by (auto simp: Let_def split: if_splits)
  qed
  then have "s = take n s @ CHR ''.'' # r" using d(1) by (metis append_take_drop_id)
  moreover have "CHR ''.'' \<notin> set (take n s)" using n(1) by (auto simp: list_all_iff)
  ultimately show "\<exists>l r. s = l @ CHR ''.'' # r \<and> CHR ''.'' \<notin> set l \<and> str_lower p = str_lower r"
    using d(3) glob_exact [OF p] by blast
next
  assume p: "CHR ''*'' \<notin> set p" and "\<exists>l r. s = l @ CHR ''.'' # r \<and> CHR ''.'' \<notin> set l \<and> str_lower p = str_lower r"
  then obtain l r where s: "s = l @ CHR ''.'' # r" "CHR ''.'' \<notin> set l" "str_lower p = str_lower r" by blast
  have "glob_match (CHR ''.'' # p) (drop (length l) s)"
    using s glob_exact [OF p, of r] by simp
  moreover have "list_all (\<lambda>x. x \<noteq> CHR ''.'') (take (length l) s)" using s by (auto simp: list_all_iff)
  moreover have "length l \<le> length s" using s by simp
  ultimately show "glob_match (CHR ''*'' # CHR ''.'' # p) s" using glob_starI by blast
qed

text \<open>A certificate is accepted for a host only by its first name, and only if that name covers the host:
  a name without a star covers exactly the names equal to it without regard to case, and \<open>*.d\<close> exactly
  those that put one label, without dots, in front of \<open>d\<close>. Further names of the certificate are never
  tried.\<close>

theorem hostname_first_name:
  assumes "valid_hosts c = h # hs"
  shows "validate_hostname c hostname = Some (glob_match h hostname) \<and>
    (CHR ''*'' \<notin> set h \<longrightarrow> glob_match h hostname = (str_lower h = str_lower hostname)) \<and>
    (\<forall>d. h = CHR ''*'' # CHR ''.'' # d \<and> CHR ''*'' \<notin> set d \<longrightarrow> glob_match h hostname =
       (\<exists>l r. hostname = l @ CHR ''.'' # r \<and> CHR ''.'' \<notin> set l \<and> str_lower d = str_lower r))"
  using assms glob_exact [of h hostname] glob_star by (auto simp: validate_hostname_def simp del: glob_match.simps)

theorem hostname_first_name_witness:
  "validate_hostname \<lparr>ct_alt_names = Some [(''DNS'', ''a.org''), (''DNS'', ''b.org'')], ct_subject = []\<rparr> ''B.org'' = Some False \<and>
   validate_hostname \<lparr>ct_alt_names = Some [(''DNS'', ''a.org''), (''DNS'', ''b.org'')], ct_subject = []\<rparr> ''A.org'' = Some True"
proof -
  let ?c = "\<lparr>ct_alt_names = Some [(''DNS'', ''a.org''), (''DNS'', ''b.org'')], ct_subject = []\<rparr>"
  have v: "valid_hosts ?c = ''a.org'' # [''b.org'']" by code_simp
  have l: "str_lower ''a.org'' \<noteq> str_lower ''B.org''" "str_lower ''a.org'' = str_lower ''A.org''" by code_simp+
  from hostname_first_name [OF v, of "''B.org''"] hostname_first_name [OF v, of "''A.org''"] l show ?thesis by simp
qed

end
