(* ===== verification/HttpChallenge.thy ===== *)
theory HttpChallenge
  imports HttpLib2
begin

text \<open>
  The reader of challenges in \<open>socialnet/httplib2-0.7.1/python2/httplib2/__init__.py\<close>
  (\<open>_parse_www_authenticate\<close> with the relaxed expression): the parameters of a challenge, the loop over the challenges
  of a header, when that loop ends, and that it reads what is written in quoted form.
\<close>

section \<open>Challenges\<close>

text \<open>The groups of the relaxed expression for one parameter. Blanks are those of \<open>str.isspace\<close>; form feed and
  vertical tab, which the expression reads both as blanks and as parts of a key, are read as blanks.\<close>

definition key_char :: "char \<Rightarrow> bool" where
  "key_char c \<longleftrightarrow> c \<notin> {CHR '' '', CHR 0x09, CHR 0x0D, CHR 0x0A, CHR ''=''}"

definition token_char :: "char \<Rightarrow> bool" where
  "token_char c \<longleftrightarrow> c \<notin> {CHR '' '', CHR 0x09, CHR 0x0D, CHR 0x0A, CHR '',''}"

abbreviation skip_blanks :: "string \<Rightarrow> string" where
  "skip_blanks \<equiv> dropWhile is_space"

text \<open>The inside of a quoted string, up to but without its closing quote.\<close>

fun quoted :: "string \<Rightarrow> (string \<times> string) option" where
  "quoted [] = None"
| "quoted (c # s) =
     (if c = CHR 0x22 then Some ([], c # s)
      else if c = CHR 0x5C then
        (case s of
           [] \<Rightarrow> None
         | d # t \<Rightarrow> if d = CHR 0x0A then None else map_option (\<lambda>(v, r). (c # d # v, r)) (quoted t))
      else map_option (\<lambda>(v, r). (c # v, r)) (quoted s))"

definition auth_key :: "string \<Rightarrow> (string \<times> string) option" where
  "auth_key s =
     (let k = takeWhile key_char s; r = skip_blanks (dropWhile key_char s) in
      if k \<noteq> [] \<and> starts_with r ''='' then Some (k, skip_blanks (drop 1 r)) else None)"

definition auth_token :: "string \<Rightarrow> (string \<times> string) option" where
  "auth_token s = (let t = takeWhile token_char s in if t = [] then None else Some (t, dropWhile token_char s))"

definition auth_value :: "string \<Rightarrow> (string \<times> string) option" where
  "auth_value s =
     (if starts_with s [CHR 0x22] then
        (case quoted (drop 1 s) of Some (v, r) \<Rightarrow> Some (v, drop 1 r) | None \<Rightarrow> auth_token s)
      else auth_token s)"

text \<open>\<open>(.*)$\<close>: the rest of the line, which must be the last one.\<close>

definition rest_group :: "string \<Rightarrow> string option" where
  "rest_group r =
     (let l = takeWhile (\<lambda>c. c \<noteq> CHR 0x0A) r in
      if drop (length l) r \<in> {[], [CHR 0x0A]} then Some l else None)"

definition auth_pair :: "string \<Rightarrow> (string \<times> string \<times> string) option" where
  "auth_pair s =
     (case auth_key s of
        None \<Rightarrow> None
      | Some (k, v) \<Rightarrow>
          (case auth_value v of
             None \<Rightarrow> None
           | Some (x, r) \<Rightarrow> map_option (\<lambda>t. (k, x, t)) (rest_group r)))"

text \<open>A comma in front is skipped, unless the match succeeds only with the comma as part of the key.\<close>

definition auth_match :: "string \<Rightarrow> (string \<times> string \<times> string) option" where
  "auth_match s =
     (let s0 = skip_blanks s in
      case (if starts_with s0 '','' then auth_pair (skip_blanks (drop 1 s0)) else None) of
        Some m \<Rightarrow> Some m
      | None \<Rightarrow> auth_pair s0)"

fun unquote_pairs :: "string \<Rightarrow> string" where
  "unquote_pairs [] = []"
| "unquote_pairs (c # s) =
     (if c = CHR 0x5C then
        (case s of
           [] \<Rightarrow> [c]
         | d # t \<Rightarrow> if d = CHR 0x0A then c # unquote_pairs s else d # unquote_pairs t)
      else c # unquote_pairs s)"

lemma quoted_length: "quoted s = Some (v, r) \<Longrightarrow> length r \<le> length s \<and> r \<noteq> []"
proof (induction s arbitrary: v r rule: quoted.induct)
  case (2 c s)
  consider "c = CHR 0x22" | "c = CHR 0x5C" | "c \<noteq> CHR 0x22" "c \<noteq> CHR 0x5C" by blast
  then show ?case
  proof cases
    case 2
    with "2.prems" obtain d t v' where "s = d # t" "d \<noteq> CHR 0x0A" "quoted t = Some (v', r)"
      by (auto split: list.splits if_splits)
    with 2 "2.IH"(1) [of d t v' r] show ?thesis by simp
  next
    case 3
    with "2.prems" obtain v' where "quoted s = Some (v', r)" by auto
    with 3 "2.IH"(2) [of v' r] show ?thesis by simp
  qed (use "2.prems" in auto)
qed simp

lemma auth_token_length: "auth_token s = Some (v, r) \<Longrightarrow> length r < length s"
  by (cases s) (auto simp: auth_token_def Let_def less_Suc_eq_le length_dropWhile_le split: if_splits)

lemma auth_value_length: "auth_value s = Some (v, r) \<Longrightarrow> length r < length s"
proof -
  assume a: "auth_value s = Some (v, r)"
  show ?thesis
  proof (cases "auth_token s = Some (v, r)")
    case False
    with a obtain q where "starts_with s [CHR 0x22]" "quoted (drop 1 s) = Some (v, q)" "r = drop 1 q"
      by (auto simp: auth_value_def split: if_splits option.splits)
    then show ?thesis using quoted_length [of "drop 1 s" v q] by (cases s) auto
  qed (rule auth_token_length)
qed

lemma length_skip: "length (skip_blanks (drop 1 (dropWhile p s))) \<le> length s"
  using length_dropWhile_le [of is_space "drop 1 (dropWhile p s)"] length_dropWhile_le [of p s] by simp

lemma auth_key_length: "auth_key s = Some (k, r) \<Longrightarrow> length r \<le> length s"
proof -
  assume "auth_key s = Some (k, r)"
  then have "r = skip_blanks (drop 1 (skip_blanks (dropWhile key_char s)))"
    by (auto simp: auth_key_def Let_def split: if_splits)
  then show ?thesis using length_skip [of is_space "dropWhile key_char s"] length_dropWhile_le [of key_char s] by simp
qed

lemma rest_group_length: "rest_group r = Some t \<Longrightarrow> length t \<le> length r"
  by (auto simp: rest_group_def Let_def length_takeWhile_le split: if_splits)

lemma auth_pair_length: "auth_pair s = Some (k, v, r) \<Longrightarrow> length r < length s"
  by (auto simp: auth_pair_def split: option.splits
      dest!: auth_key_length auth_value_length rest_group_length)

lemma auth_match_length: "auth_match s = Some (k, v, r) \<Longrightarrow> length r < length s"
  using length_skip [of is_space s] length_dropWhile_le [of is_space s]
  by (auto simp: auth_match_def Let_def split: option.splits if_splits dest!: auth_pair_length)

text \<open>The inner loop: the parameters of one challenge, and what is left of the header.\<close>

function auth_params :: "string \<Rightarrow> headers \<Rightarrow> headers \<times> string" where
  "auth_params s ps =
     (case auth_match s of
        None \<Rightarrow> (ps, s)
      | Some (k, v, r) \<Rightarrow> auth_params r (AList.update (str_lower k) (unquote_pairs v) ps))"
  by pat_completeness auto
termination
  by (relation "measure (\<lambda>(s, ps). length s)") (auto dest: auth_match_length)

declare auth_params.simps [simp del]

text \<open>The outer loop. With \<open>info\<close> (the header \<open>authentication-info\<close>) nothing is split off, so it need not end.\<close>

partial_function (option) challenges ::
    "bool \<Rightarrow> string \<Rightarrow> (string \<times> headers) list \<Rightarrow> (string \<times> headers) list res option" where
  "challenges info s acc =
     (if s = [] then Some (Inr acc)
      else
        (case (if info then (''digest'', Some s) else str_split1 CHR '' '' s) of
           (sch, None) \<Rightarrow> Some (Inl (HttpLibError ''MalformedHeader''))
         | (sch, Some r) \<Rightarrow>
             (case auth_params r [] of (ps, rest) \<Rightarrow>
                challenges info (str_strip rest) (AList.update (str_lower sch) ps acc))))"

definition parse_www_authenticate :: "headers \<Rightarrow> string \<Rightarrow> (string \<times> headers) list res option" where
  "parse_www_authenticate hs headername =
     (case map_of hs headername of
        None \<Rightarrow> Some (Inr [])
      | Some v \<Rightarrow> challenges (headername = ''authentication-info'') (str_strip v) [])"

subsection \<open>When the reader returns\<close>

lemma auth_params_stop: "auth_match s = None \<Longrightarrow> auth_params s ps = (ps, s)"
  by (subst auth_params.simps) simp

lemma auth_params_step:
  "auth_match s = Some (k, v, r) \<Longrightarrow>
     auth_params s ps = auth_params r (AList.update (str_lower k) (unquote_pairs v) ps)"
  by (subst auth_params.simps) simp

lemma auth_params_induct [case_names stop step]:
  assumes "\<And>s ps. auth_match s = None \<Longrightarrow> P s ps"
    and "\<And>s ps k v r. auth_match s = Some (k, v, r) \<Longrightarrow>
      P r (AList.update (str_lower k) (unquote_pairs v) ps) \<Longrightarrow> P s ps"
  shows "P s ps"
proof (induction s arbitrary: ps rule: length_induct)
  case (1 s)
  show ?case
  proof (cases "auth_match s")
    case (Some m)
    obtain k v r where m: "m = (k, v, r)" by (cases m)
    show ?thesis using 1 auth_match_length assms(2) Some unfolding m by blast
  qed (rule assms(1))
qed

lemma auth_params_length: "length (snd (auth_params s ps)) \<le> length s"
  by (induction s ps rule: auth_params_induct)
    (auto simp: auth_params_stop auth_params_step dest: auth_match_length)

lemma strip_length: "length (str_strip s) \<le> length s"
  unfolding str_strip_def strip_by_def
  using length_dropWhile_le [of is_space "rev (dropWhile is_space s)"] length_dropWhile_le [of is_space s] by simp

lemma split1_length: "str_split1 c s = (a, Some b) \<Longrightarrow> length b < length s"
  by (induction s arbitrary: a) (auto split: if_splits prod.splits)

lemma challenges_return: "\<exists>r. challenges False s acc = Some r"
proof (induction s arbitrary: acc rule: length_induct)
  case (1 s)
  show ?case
  proof (cases "s = []")
    case False
    obtain sch r where sp: "str_split1 CHR '' '' s = (sch, r)" by force
    obtain ps t where t: "auth_params (the r) [] = (ps, t)" by force
    have "length (str_strip t) < length s" if "r \<noteq> None"
      using that sp t strip_length [of t] auth_params_length [of "the r" "[]"] split1_length [of "CHR '' ''" s sch "the r"]
      by auto
    then show ?thesis using 1 False sp t by (subst challenges.simps) (auto split: option.splits)
  qed (simp add: challenges.simps)
qed

lemma challenges_stuck:
  assumes "s \<noteq> []" "str_strip s = s" "auth_match s = None"
  shows "challenges True s acc = None"
proof (rule ccontr)
  assume "challenges True s acc \<noteq> None"
  then obtain r where ret: "challenges True s acc = Some r" by blast
  have "info \<longrightarrow> t \<noteq> s" if "challenges info t a = Some r" for info t a
  proof (rule challenges.raw_induct [where P = "\<lambda>info t a r. info \<longrightarrow> t \<noteq> s", OF _ that])
    fix f info t a r
    assume IH: "\<And>info t a r. f info t a = Some r \<Longrightarrow> info \<longrightarrow> t \<noteq> s"
      and eq: "(if t = [] then Some (Inr a)
        else case if info then (''digest'', Some t) else str_split1 CHR '' '' t of
          (sch, None) \<Rightarrow> Some (Inl (HttpLibError ''MalformedHeader''))
        | (sch, Some u) \<Rightarrow> (case auth_params u [] of (ps, rest) \<Rightarrow>
            f info (str_strip rest) (AList.update (str_lower sch) ps a))) = Some r"
    show "info \<longrightarrow> t \<noteq> s"
    proof (intro impI notI)
      assume t: "info" "t = s"
      then have "f True s (AList.update (str_lower ''digest'') [] a) = Some r"
        using eq assms by (simp add: auth_params_stop)
      with IH show False by blast
    qed
  qed
  with ret show False by blast
qed

lemma skip_append: "(\<exists>c \<in> set s. \<not> p c) \<Longrightarrow> dropWhile p (s @ b) = dropWhile p s @ b"
  by (induction s) auto

lemma take_append: "(\<exists>c \<in> set s. \<not> p c) \<Longrightarrow> takeWhile p (s @ b) = takeWhile p s"
  by (induction s) auto

lemma dropWhile_not_all: "dropWhile p s \<noteq> [] \<Longrightarrow> \<exists>c \<in> set s. \<not> p c"
  by auto

lemma quoted_more: "quoted s = Some (v, r) \<Longrightarrow> quoted (s @ b) = Some (v, r @ b) \<and> set r \<subseteq> set s"
proof (induction s arbitrary: v r rule: quoted.induct)
  case (2 c s)
  consider "c = CHR 0x22" | "c = CHR 0x5C" | "c \<noteq> CHR 0x22" "c \<noteq> CHR 0x5C" by blast
  then show ?case
  proof cases
    case 2
    with "2.prems" obtain d t v' where "s = d # t" "d \<noteq> CHR 0x0A" "quoted t = Some (v', r)" "v = c # d # v'"
      by (auto split: list.splits if_splits)
    with 2 "2.IH"(1) [of d t v' r] show ?thesis by auto
  next
    case 3
    with "2.prems" obtain v' where "quoted s = Some (v', r)" "v = c # v'" by auto
    with 3 "2.IH"(2) [of v' r] show ?thesis by auto
  qed (use "2.prems" in auto)
qed simp

lemma set_skip: "set (dropWhile p s) \<subseteq> set s"
  by (meson set_dropWhileD subsetI)

lemma auth_token_more: "auth_token s = Some (v, r) \<Longrightarrow> (\<exists>m. auth_token (s @ b) = Some m) \<and> set r \<subseteq> set s"
  by (cases s) (auto simp: auth_token_def Let_def dest: set_dropWhileD split: if_splits)

lemma auth_token_set: "auth_token s = Some (v, r) \<Longrightarrow> set r \<subseteq> set s"
  using auth_token_more by blast

lemma auth_value_set: "auth_value s = Some (v, r) \<Longrightarrow> set r \<subseteq> set s"
proof (cases "auth_token s = Some (v, r)")
  case False
  assume "auth_value s = Some (v, r)"
  with False obtain q where "quoted (drop 1 s) = Some (v, q)" "r = drop 1 q"
    by (auto simp: auth_value_def split: if_splits option.splits)
  then show ?thesis using quoted_more [of "drop 1 s" v q] by (auto dest!: in_set_dropD)
qed (simp add: auth_token_set)

lemma auth_value_more: "auth_value s = Some m \<Longrightarrow> \<exists>m'. auth_value (s @ b) = Some m'"
proof -
  assume a: "auth_value s = Some m"
  then obtain c t where s: "s = c # t" by (cases s) (auto simp: auth_value_def auth_token_def)
  show ?thesis
  proof (cases "auth_token s")
    case None
    with a obtain v r where "c = CHR 0x22" "quoted t = Some (v, r)"
      by (auto simp: auth_value_def s split: if_splits option.splits)
    then show ?thesis using quoted_more [of t v r b] by (simp add: auth_value_def s)
  next
    case (Some w)
    obtain v r where "w = (v, r)" by force
    with Some obtain m' where "auth_token (s @ b) = Some m'" using auth_token_more by blast
    then show ?thesis by (auto simp: auth_value_def split: option.splits)
  qed
qed

lemma rest_group_line: "CHR 0x0A \<notin> set r \<Longrightarrow> rest_group r = Some r"
proof -
  assume "CHR 0x0A \<notin> set r"
  then have "takeWhile (\<lambda>c. c \<noteq> CHR 0x0A) r = r" by (subst takeWhile_eq_all_conv) auto
  then show ?thesis unfolding rest_group_def Let_def by (simp only: drop_all order_refl insertI1 if_True)
qed

lemma auth_key_Nil [simp]: "auth_key [] = None"
  by (simp add: auth_key_def)

lemma auth_pair_Nil [simp]: "auth_pair [] = None"
  by (simp add: auth_pair_def)

lemma auth_key_more:
  "auth_key s = Some (k, v) \<Longrightarrow> set v \<subseteq> set s \<and> (v \<noteq> [] \<longrightarrow> auth_key (s @ b) = Some (k, v @ b))"
proof -
  assume a: "auth_key s = Some (k, v)"
  define r where "r = skip_blanks (dropWhile key_char s)"
  from a have k: "k = takeWhile key_char s" "k \<noteq> []" and v: "v = skip_blanks (drop 1 r)" and e: "starts_with r ''=''"
    by (auto simp: auth_key_def Let_def r_def split: if_splits)
  from e have r: "r \<noteq> []" by auto
  have "dropWhile key_char s \<noteq> []" using r unfolding r_def by (metis dropWhile.simps(1))
  then have k': "\<exists>c \<in> set s. \<not> key_char c" by (rule dropWhile_not_all)
  have "\<exists>c \<in> set (dropWhile key_char s). \<not> is_space c" using r unfolding r_def by (rule dropWhile_not_all)
  then have r': "skip_blanks (dropWhile key_char (s @ b)) = r @ b"
    unfolding r_def skip_append [OF k'] by (rule skip_append)
  have "set r \<subseteq> set s"
    using set_skip [of is_space "dropWhile key_char s"] set_skip [of key_char s] unfolding r_def by (rule subset_trans)
  then have "set v \<subseteq> set s" using set_skip [of is_space "drop 1 r"] set_drop_subset [of 1 r] unfolding v by blast
  moreover have "auth_key (s @ b) = Some (k, v @ b)" if "v \<noteq> []"
  proof -
    have "drop 1 (r @ b) = drop 1 r @ b" "starts_with (r @ b) ''=''" using r e by (cases r; simp)+
    moreover have "skip_blanks (drop 1 r @ b) = v @ b"
      using that unfolding v by (intro skip_append dropWhile_not_all)
    ultimately show ?thesis using k take_append [OF k', of b] by (simp add: auth_key_def Let_def r')
  qed
  ultimately show ?thesis by blast
qed

lemma auth_pair_more:
  assumes "auth_pair s = Some m" "CHR 0x0A \<notin> set (s @ b)"
  shows "\<exists>m'. auth_pair (s @ b) = Some m'"
proof -
  from assms(1) obtain k v x r where k: "auth_key s = Some (k, v)" and v: "auth_value v = Some (x, r)"
    by (auto simp: auth_pair_def split: option.splits)
  then have "v \<noteq> []" by (auto simp: auth_value_def auth_token_def)
  with k have k': "auth_key (s @ b) = Some (k, v @ b)" and "set v \<subseteq> set s" using auth_key_more by blast+
  moreover obtain x' r' where v': "auth_value (v @ b) = Some (x', r')" using auth_value_more [OF v] by (metis surj_pair)
  ultimately have "rest_group r' = Some r'" using assms(2) auth_value_set [OF v'] by (intro rest_group_line) auto
  with k' v' show ?thesis by (simp add: auth_pair_def)
qed

lemma auth_match_more:
  assumes "auth_match s = Some m" "CHR 0x0A \<notin> set (a @ s @ b)" "list_all is_space a"
  shows "\<exists>m'. auth_match (a @ s @ b) = Some m'"
proof -
  have a: "skip_blanks (a @ s @ b) = skip_blanks (s @ b)"
    using assms(3) by (simp add: list_all_iff)
  let ?s = "skip_blanks s"
  have "auth_match s = None" if "?s = []" by (simp add: auth_match_def that auth_pair_def auth_key_def)
  with assms(1) have ne: "?s \<noteq> []" by auto
  then have s: "skip_blanks (s @ b) = ?s @ b" using skip_append [OF dropWhile_not_all] by blast
  have nl: "CHR 0x0A \<notin> set (?s @ b)" using assms(2) set_skip [of is_space s] by auto
  show ?thesis
  proof (cases "auth_pair ?s")
    case None
    with assms(1) have c: "starts_with ?s '',''" and p: "auth_pair (skip_blanks (drop 1 ?s)) = Some m"
      by (auto simp: auth_match_def Let_def split: option.splits if_splits)
    have "skip_blanks (drop 1 ?s) \<noteq> []" using p by (metis auth_pair_Nil option.distinct(1))
    then have "skip_blanks (drop 1 ?s @ b) = skip_blanks (drop 1 ?s) @ b" by (intro skip_append dropWhile_not_all)
    moreover have "drop 1 (?s @ b) = drop 1 ?s @ b" using ne by (cases ?s) auto
    ultimately have d: "skip_blanks (drop 1 (?s @ b)) = skip_blanks (drop 1 ?s) @ b" by simp
    have "CHR 0x0A \<notin> set (skip_blanks (drop 1 ?s) @ b)"
      using nl set_skip [of is_space "drop 1 ?s"] by (auto dest: in_set_dropD)
    then obtain k v t where "auth_pair (skip_blanks (drop 1 (?s @ b))) = Some (k, v, t)"
      using auth_pair_more [OF p] d by (metis prod_cases3)
    moreover have "starts_with (?s @ b) '',''" using c ne by (cases ?s) auto
    ultimately show ?thesis unfolding auth_match_def a s Let_def by auto
  next
    case (Some m)
    then obtain k v t where "auth_pair (?s @ b) = Some (k, v, t)" using auth_pair_more nl by (metis prod_cases3)
    then show ?thesis by (auto simp: auth_match_def a s Let_def split: option.splits)
  qed
qed

lemma strip_parts: "\<exists>a b. s = a @ str_strip s @ b \<and> list_all is_space a \<and> list_all is_space b"
proof -
  let ?m = "dropWhile is_space s"
  have "s = takeWhile is_space s @ ?m" by simp
  moreover have "rev ?m = takeWhile is_space (rev ?m) @ dropWhile is_space (rev ?m)" by simp
  then have "?m = str_strip s @ rev (takeWhile is_space (rev ?m))"
    unfolding str_strip_def strip_by_def by (metis rev_append rev_rev_ident)
  ultimately have "s = takeWhile is_space s @ str_strip s @ rev (takeWhile is_space (rev ?m))" by simp
  moreover have "list_all is_space (takeWhile is_space s)" "list_all is_space (rev (takeWhile is_space (rev ?m)))"
    by (auto simp: list_all_iff dest: set_takeWhileD)
  ultimately show ?thesis by blast
qed

lemma strip_idem: "str_strip (str_strip s) = str_strip s"
  unfolding str_strip_def
proof (rule strip_by_id)
  let ?m = "dropWhile is_space s" and ?t = "strip_by is_space s"
  have r: "?t = rev (dropWhile is_space (rev ?m))" by (simp add: strip_by_def)
  show "?t = [] \<or> \<not> is_space (hd ?t) \<and> \<not> is_space (last ?t)"
  proof (cases "?t = []")
    case False
    then have l: "\<not> is_space (last ?t)" using hd_dropWhile [of is_space "rev ?m"] by (simp add: r last_rev)
    obtain b where "?m = ?t @ b" using r by (metis append_take_drop_id rev_append rev_rev_ident takeWhile_dropWhile_id)
    then have "hd ?t = hd ?m" "?m \<noteq> []" using False by (metis hd_append2, auto)
    then have "\<not> is_space (hd ?t)" using hd_dropWhile [of is_space s] by simp
    with l show ?thesis by simp
  qed simp
qed

lemma not_in_takeWhile: "x \<notin> set (takeWhile (\<lambda>c. c \<noteq> x) s)"
  using set_takeWhileD by metis

lemma auth_pair_line: "auth_pair s = Some (k, v, r) \<Longrightarrow> CHR 0x0A \<notin> set r"
  by (auto simp: auth_pair_def rest_group_def Let_def not_in_takeWhile split: option.splits if_splits)

lemma auth_match_line: "auth_match s = Some (k, v, r) \<Longrightarrow> CHR 0x0A \<notin> set r"
  by (auto simp: auth_match_def Let_def dest: auth_pair_line split: option.splits if_splits)

lemma auth_params_rest:
  "auth_match (snd (auth_params s ps)) = None \<and>
     (snd (auth_params s ps) = s \<or> CHR 0x0A \<notin> set (snd (auth_params s ps)))"
  by (induction s ps rule: auth_params_induct)
    (auto simp: auth_params_stop auth_params_step dest: auth_match_line)

lemma info_returns: "(\<exists>r. challenges True s acc = Some r) \<longleftrightarrow> str_strip (snd (auth_params s [])) = []"
  if "str_strip s = s"
proof -
  obtain ps t where t: "auth_params s [] = (ps, t)" by force
  have step: "challenges True s acc = (if s = [] then Some (Inr acc) else challenges True (str_strip t) (AList.update ''digest'' ps acc))"
    by (subst challenges.simps) (simp add: t str_lower_def lower_char_def)
  have "auth_match (str_strip t) = None"
  proof (cases "t = s")
    case False
    then have nl: "CHR 0x0A \<notin> set t" and "auth_match t = None" using auth_params_rest [of s "[]"] t by auto
    moreover obtain a b where "t = a @ str_strip t @ b" "list_all is_space a" using strip_parts by blast
    ultimately show ?thesis using auth_match_more by (metis option.exhaust option.simps(3))
  qed (use auth_params_rest [of s "[]"] t that in auto)
  then have stuck: "challenges True (str_strip t) a = None" if "str_strip t \<noteq> []" for a
    using that challenges_stuck strip_idem by blast
  show ?thesis
  proof (cases "str_strip t = []")
    case True
    then show ?thesis using t by (simp add: step challenges.simps [of True "[]"])
  next
    case False
    then have "s \<noteq> []" using t strip_length [of t] auth_params_length [of s "[]"] by auto
    with False show ?thesis using t by (simp add: step stuck)
  qed
qed

text \<open>C33: When the reader of challenges returns. It always returns for every header but
  \<open>authentication-info\<close>; for that one it returns exactly when nothing but blanks is left after the
  parameters at the beginning, since the loop reads the same text again and again otherwise.\<close>

theorem challenge_reader_returns:
  assumes "map_of hs name = Some v"
  shows "(\<exists>r. parse_www_authenticate hs name = Some r) \<longleftrightarrow>
    name \<noteq> ''authentication-info'' \<or> str_strip (snd (auth_params (str_strip v) [])) = []"
  using assms info_returns [OF strip_idem [of v], of "[]"] challenges_return [of "str_strip v" "[]"]
  by (cases "name = ''authentication-info''") (simp_all add: parse_www_authenticate_def)

theorem challenge_reader_returns_witness:
  "parse_www_authenticate [(''authentication-info'', ''garbage'')] ''authentication-info'' = None \<and>
   (\<exists>r. parse_www_authenticate [(''authentication-info'', ''nextnonce=5'')] ''authentication-info'' = Some r)"
proof -
  have "str_strip (snd (auth_params (str_strip ''garbage'') [])) \<noteq> []" by code_simp
  moreover have "str_strip (snd (auth_params (str_strip ''nextnonce=5'') [])) = []" by code_simp
  ultimately show ?thesis
    using challenge_reader_returns [of "[(''authentication-info'', ''garbage'')]" "''authentication-info''" "''garbage''"]
      challenge_reader_returns [of "[(''authentication-info'', ''nextnonce=5'')]" "''authentication-info''" "''nextnonce=5''"]
    by auto
qed

subsection \<open>Reading what is written\<close>

definition escape_pairs :: "string \<Rightarrow> string" where
  "escape_pairs v = concat (map (\<lambda>c. if c \<in> {CHR 0x22, CHR 0x5C} then [CHR 0x5C, c] else [c]) v)"

definition param_text :: "string \<times> string \<Rightarrow> string" where
  "param_text p = (case p of (k, v) \<Rightarrow> k @ ''='' @ [CHR 0x22] @ escape_pairs v @ [CHR 0x22])"

definition challenge_text :: "string \<Rightarrow> headers \<Rightarrow> string" where
  "challenge_text sch ps = sch @ '' '' @ str_join '', '' (map param_text ps)"

definition good_key :: "string \<Rightarrow> bool" where
  "good_key k \<longleftrightarrow> k \<noteq> [] \<and> hd k \<noteq> CHR '','' \<and> list_all (\<lambda>c. key_char c \<and> \<not> is_space c) k"

definition more_params :: "headers \<Rightarrow> string" where
  "more_params ps = concat (map (\<lambda>p. '', '' @ param_text p) ps)"

lemma escape_pairs_Cons:
  "escape_pairs (c # v) = (if c \<in> {CHR 0x22, CHR 0x5C} then [CHR 0x5C, c] else [c]) @ escape_pairs v"
  by (simp add: escape_pairs_def)

lemma unquote_escape_pairs: "unquote_pairs (escape_pairs v) = v"
  by (induction v) (auto simp: escape_pairs_Cons, simp add: escape_pairs_def)

lemma quoted_escape: "quoted (escape_pairs v @ CHR 0x22 # r) = Some (escape_pairs v, CHR 0x22 # r)"
  by (induction v) (auto simp: escape_pairs_Cons, simp add: escape_pairs_def)

lemma escape_pairs_line: "CHR 0x0A \<notin> set v \<Longrightarrow> CHR 0x0A \<notin> set (escape_pairs v)"
  by (auto simp: escape_pairs_def split: if_splits)

lemma auth_pair_param:
  assumes "good_key k" "CHR 0x0A \<notin> set r"
  shows "auth_pair (param_text (k, v) @ r) = Some (k, escape_pairs v, r)"
proof -
  have k: "\<forall>c \<in> set k. key_char c" "k \<noteq> []" using assms(1) by (auto simp: good_key_def list_all_iff)
  then have "auth_key (param_text (k, v) @ r) = Some (k, CHR 0x22 # escape_pairs v @ CHR 0x22 # r)"
    by (simp add: auth_key_def param_text_def takeWhile_append2 dropWhile_append2 key_char_def is_space_def)
  moreover have "auth_value (CHR 0x22 # escape_pairs v @ CHR 0x22 # r) = Some (escape_pairs v, r)"
    by (simp add: auth_value_def quoted_escape)
  ultimately show ?thesis using rest_group_line [OF assms(2)] by (simp add: auth_pair_def)
qed

lemma skip_param: "good_key k \<Longrightarrow> skip_blanks (param_text (k, v) @ r) = param_text (k, v) @ r"
  by (cases k) (auto simp: good_key_def param_text_def)

lemma auth_match_param:
  assumes "good_key k" "CHR 0x0A \<notin> set r" "sep \<in> {[], '', ''}"
  shows "auth_match (sep @ param_text (k, v) @ r) = Some (k, escape_pairs v, r)"
proof -
  have "\<not> starts_with (param_text (k, v) @ r) '',''"
    using assms(1) by (cases k) (auto simp: good_key_def param_text_def)
  moreover have "skip_blanks ('', '' @ param_text (k, v) @ r) = '', '' @ param_text (k, v) @ r"
    "skip_blanks ('' '' @ param_text (k, v) @ r) = param_text (k, v) @ r"
    using skip_param [OF assms(1)] by (simp_all add: is_space_def)
  ultimately show ?thesis
    using assms(3) skip_param [OF assms(1), of v r] auth_pair_param [OF assms(1,2), of v]
    by (auto simp: auth_match_def Let_def)
qed

lemma param_text_line: "good_key k \<Longrightarrow> CHR 0x0A \<notin> set v \<Longrightarrow> CHR 0x0A \<notin> set (param_text (k, v))"
  using escape_pairs_line [of v] by (auto simp: param_text_def good_key_def list_all_iff key_char_def)

lemma auth_params_more:
  "\<forall>(k, v) \<in> set ps. good_key k \<and> CHR 0x0A \<notin> set v \<Longrightarrow>
     CHR 0x0A \<notin> set (more_params ps) \<and>
     auth_params (more_params ps) acc = (dict_update acc (map (\<lambda>(k, v). (str_lower k, v)) ps), [])"
proof (induction ps arbitrary: acc)
  case Nil
  then show ?case by (simp add: more_params_def auth_params_stop auth_match_def)
next
  case (Cons p ps)
  obtain k v where p: "p = (k, v)" by force
  have k: "good_key k" "CHR 0x0A \<notin> set v" using Cons.prems p by auto
  have t: "more_params ((k, v) # ps) = '', '' @ param_text (k, v) @ more_params ps" by (simp add: more_params_def)
  have IH: "CHR 0x0A \<notin> set (more_params ps)"
    "auth_params (more_params ps) acc' = (dict_update acc' (map (\<lambda>(k, v). (str_lower k, v)) ps), [])" for acc'
    using Cons by auto
  show ?case using auth_match_param [OF k(1) IH(1), of "'', ''" v] param_text_line [OF k] IH
    by (simp add: t auth_params_step unquote_escape_pairs p)
qed

lemma join_params: "str_join '', '' (map param_text (p # ps)) = param_text p @ more_params ps"
proof (induction ps arbitrary: p)
  case (Cons q ps)
  from Cons [of q] show ?case by (simp add: more_params_def)
qed (simp add: more_params_def)

text \<open>A challenge is read as it was written: a header with one challenge, its scheme and its parameters as
  quoted strings, in which quotes and backslashes are escaped, is read as this scheme with these
  parameters, whatever characters but line ends the values have. Scheme and names are read in lower
  case, and a name that occurs twice has its last value.\<close>

theorem challenge_read:
  assumes "ps \<noteq> []" "sch \<noteq> []" "list_all (\<lambda>c. \<not> is_space c) sch"
    and "\<forall>(k, v) \<in> set ps. good_key k \<and> CHR 0x0A \<notin> set v"
    and "name \<noteq> ''authentication-info''"
  shows "parse_www_authenticate [(name, challenge_text sch ps)] name =
    Some (Inr [(str_lower sch, dict_update [] (map (\<lambda>(k, v). (str_lower k, v)) ps))])"
proof -
  obtain k v qs where ps: "ps = (k, v) # qs" using assms(1) by (metis neq_Nil_conv surj_pair)
  have k: "good_key k" "CHR 0x0A \<notin> set v" and qs: "\<forall>(k, v) \<in> set qs. good_key k \<and> CHR 0x0A \<notin> set v"
    using assms(4) ps by auto
  have t: "challenge_text sch ps = sch @ CHR '' '' # param_text (k, v) @ more_params qs"
    unfolding challenge_text_def ps join_params by simp
  have last: "last (param_text q) = CHR 0x22" "param_text q \<noteq> []" for q by (auto simp: param_text_def split: prod.split)
  have "last (param_text (k, v) @ more_params qs) = CHR 0x22"
  proof (cases qs rule: rev_cases)
    case (snoc rs q)
    then show ?thesis using last [of q] by (simp add: more_params_def)
  qed (use last in \<open>simp add: more_params_def\<close>)
  moreover have "\<not> is_space (hd sch)" using assms(2,3) by (cases sch) auto
  ultimately have strip: "str_strip (challenge_text sch ps) = challenge_text sch ps"
    unfolding str_strip_def t using assms(2) last(2) [of "(k, v)"]
    by (intro strip_by_id) (auto simp: is_space_def)
  have sp: "str_split1 CHR '' '' (challenge_text sch ps) = (sch, Some (param_text (k, v) @ more_params qs))"
    unfolding t using assms(3) by (intro str_split1_append) (auto simp: list_all_iff is_space_def)
  have "auth_params (param_text (k, v) @ more_params qs) [] = (dict_update [] (map (\<lambda>(k, v). (str_lower k, v)) ps), [])"
    using auth_match_param [OF k(1) conjunct1 [OF auth_params_more [OF qs]], of "[]" v] auth_params_more [OF qs]
    by (simp add: auth_params_step unquote_escape_pairs ps)
  moreover have "challenge_text sch ps \<noteq> []" using assms(2) by (simp add: challenge_text_def)
  moreover have "str_strip [] = []" by (simp add: str_strip_def strip_by_def)
  ultimately show ?thesis using assms(5)
    by (simp add: parse_www_authenticate_def strip challenges.simps [of False "challenge_text sch ps"]
        challenges.simps [of False "[]"] sp)
qed

theorem challenge_read_witness:
  "parse_www_authenticate [(''www-authenticate'', challenge_text ''Digest'' [(''realm'', ''a, b=c''), (''Qop'', ''auth'')])]
     ''www-authenticate'' = Some (Inr [(''digest'', [(''realm'', ''a, b=c''), (''qop'', ''auth'')])])"
proof -
  have "str_lower ''Digest'' = ''digest''" "str_lower ''realm'' = ''realm''" "str_lower ''Qop'' = ''qop''"
    by code_simp+
  then show ?thesis
    using challenge_read [of "[(''realm'', ''a, b=c''), (''Qop'', ''auth'')]" "''Digest''" "''www-authenticate''"]
    by (simp add: good_key_def key_char_def is_space_def)
qed

end
