(* ===== verification/HttpAuth.thy ===== *)
theory HttpAuth
  imports HttpChallenge
begin

text \<open>
  The classes of \<open>socialnet/httplib2-0.7.1/python2/httplib2/__init__.py\<close> that answer a challenge: Basic, Digest,
  WSSE and Google login, and the constructor of HMAC Digest, which always raises. The clock and the random
  numbers are arguments.
\<close>

section \<open>What all have\<close>

record auth_base =
  ab_path :: string
  ab_host :: string
  ab_credentials :: "string \<times> string"

definition new_authentication :: "string \<times> string \<Rightarrow> string \<Rightarrow> string \<Rightarrow> auth_base" where
  "new_authentication credentials host request_uri =
     \<lparr>ab_path = up_path (parse_uri request_uri), ab_host = host, ab_credentials = credentials\<rparr>"

definition depth :: "auth_base \<Rightarrow> string \<Rightarrow> nat" where
  "depth a request_uri = length (filter (\<lambda>c. c = CHR ''/'') (drop (length (ab_path a)) request_uri))"

definition inscope :: "auth_base \<Rightarrow> string \<Rightarrow> string \<Rightarrow> bool" where
  "inscope a host request_uri \<longleftrightarrow> host = ab_host a \<and> starts_with (up_path (parse_uri request_uri)) (ab_path a)"

section \<open>Basic\<close>

definition basic_request :: "auth_base \<Rightarrow> headers \<Rightarrow> headers" where
  "basic_request a hs =
     AList.update ''authorization''
       (''Basic '' @ str_strip (b64encode (fst (ab_credentials a) @ '':'' @ snd (ab_credentials a)))) hs"

section \<open>Digest\<close>

record digest_auth =
  da_base :: auth_base
  da_challenge :: headers
  da_nc :: nat
  da_A1 :: string

text \<open>\<open>s.split()\<close>.\<close>

function split_blanks :: "string \<Rightarrow> string list" where
  "split_blanks s =
     (case skip_blanks s of
        [] \<Rightarrow> []
      | c # t \<Rightarrow> takeWhile (\<lambda>d. \<not> is_space d) (c # t) # split_blanks (dropWhile (\<lambda>d. \<not> is_space d) (c # t)))"
  by pat_completeness auto
termination
proof (relation "measure length")
  fix s :: string and c t
  assume s: "skip_blanks s = c # t"
  then have "\<not> is_space c" by (metis hd_dropWhile list.distinct(1) list.sel(1))
  then have "length (dropWhile (\<lambda>d. \<not> is_space d) (c # t)) \<le> length t" by (simp add: length_dropWhile_le)
  also have "length t < length s" using s length_dropWhile_le [of is_space s] by simp
  finally show "(dropWhile (\<lambda>d. \<not> is_space d) (c # t), s) \<in> measure length" by simp
qed simp

declare split_blanks.simps [simp del]

definition get_or :: "headers \<Rightarrow> string \<Rightarrow> string \<Rightarrow> string" where
  "get_or d k v = (case map_of d k of Some x \<Rightarrow> x | None \<Rightarrow> v)"

text \<open>The classes of unsupported options need three arguments and are given one.\<close>

definition unimplemented :: exc where
  "unimplemented = TypeError ''__init__() takes exactly 4 arguments (2 given)''"

definition digest_init :: "auth_base \<Rightarrow> headers \<Rightarrow> digest_auth res" where
  "digest_init a challenge =
     (let c1 = AList.update ''qop'' ''auth'' challenge;
          alg = str_upper (get_or challenge ''algorithm'' ''MD5'');
          c2 = AList.update ''algorithm'' alg c1
      in if ''auth'' \<notin> set (map str_strip (split_blanks (get_or challenge ''qop'' ''auth''))) then Inl unimplemented
         else if alg \<noteq> ''MD5'' then Inl unimplemented
         else case map_of challenge ''realm'' of
           None \<Rightarrow> Inl (KeyError ''realm'')
         | Some realm \<Rightarrow> Inr \<lparr>da_base = a, da_challenge = c2, da_nc = 1,
             da_A1 = fst (ab_credentials a) @ '':'' @ realm @ '':'' @ snd (ab_credentials a)\<rparr>)"

fun show_hex :: "nat \<Rightarrow> string" where
  "show_hex n = (if n < 16 then [hex_lower n] else show_hex (n div 16) @ [hex_lower (n mod 16)])"

declare show_hex.simps [simp del]

definition hex8 :: "nat \<Rightarrow> string" where
  "hex8 n = replicate (8 - length (show_hex n)) CHR ''0'' @ show_hex n"

definition digest_H :: "string \<Rightarrow> string" where
  "digest_H x = hexdigest (md5 x)"

definition digest_KD :: "string \<Rightarrow> string \<Rightarrow> string" where
  "digest_KD s d = digest_H (s @ '':'' @ d)"

definition in_quotes :: "string \<Rightarrow> string" where
  "in_quotes s = [CHR 0x22] @ s @ [CHR 0x22]"

text \<open>\<open>_cnonce\<close>: the moment as text and twenty random digits, written as a Python list.\<close>

definition make_cnonce :: "string \<Rightarrow> string list \<Rightarrow> string" where
  "make_cnonce ctime digits =
     take 16 (digest_H (ctime @ '':['' @ str_join '', '' (map (\<lambda>d. [CHR 0x27] @ d @ [CHR 0x27]) digits) @ '']''))"

definition digest_value :: "string \<Rightarrow> string \<Rightarrow> string \<Rightarrow> string \<Rightarrow> string \<Rightarrow> string \<Rightarrow> string" where
  "digest_value a1 nonce nc cnonce qop a2 =
     digest_KD (digest_H a1) (str_join '':'' [nonce, nc, cnonce, qop, digest_H a2])"

text \<open>The values the header carries: each is the text of one of its directives.\<close>

type_synonym header_value = string

definition digest_header ::
    "header_value \<Rightarrow> header_value \<Rightarrow> header_value \<Rightarrow> header_value \<Rightarrow> header_value \<Rightarrow> header_value \<Rightarrow> header_value \<Rightarrow> header_value \<Rightarrow> header_value \<Rightarrow> string" where
  "digest_header username realm nonce uri algorithm response qop nc cnonce =
     ''Digest username='' @ in_quotes username @ '', realm='' @ in_quotes realm @ '', nonce='' @ in_quotes nonce @
     '', uri='' @ in_quotes uri @ '', algorithm='' @ algorithm @ '', response='' @ in_quotes response @
     '', qop='' @ qop @ '', nc='' @ nc @ '', cnonce='' @ in_quotes cnonce"

definition digest_request ::
    "string \<Rightarrow> string \<Rightarrow> string \<Rightarrow> headers \<Rightarrow> digest_auth \<Rightarrow> digest_auth \<times> headers res" where
  "digest_request cnonce meth request_uri hs d =
     (let d1 = d\<lparr>da_challenge := AList.update ''cnonce'' cnonce (da_challenge d)\<rparr>; c = da_challenge d1 in
      case map_of c ''nonce'' of
        None \<Rightarrow> (d1, Inl (KeyError ''nonce''))
      | Some nonce \<Rightarrow>
          let nc = hex8 (da_nc d); qop = get_or c ''qop'' [];
              response = digest_value (da_A1 d) nonce nc cnonce qop (meth @ '':'' @ request_uri)
          in (d1\<lparr>da_nc := da_nc d + 1\<rparr>,
              Inr (AList.update ''authorization''
                (digest_header (fst (ab_credentials (da_base d))) (get_or c ''realm'' []) nonce request_uri
                  (get_or c ''algorithm'' []) response qop nc cnonce) hs)))"

text \<open>\<open>response\<close>: nothing (\<open>None\<close>) where the reader of challenges does not return.\<close>

definition set_nonce :: "string \<Rightarrow> digest_auth \<Rightarrow> digest_auth" where
  "set_nonce n d = d\<lparr>da_challenge := AList.update ''nonce'' n (da_challenge d), da_nc := 1\<rparr>"

definition digest_part :: "(string \<times> headers) list \<Rightarrow> headers" where
  "digest_part cs = (case map_of cs ''digest'' of Some c \<Rightarrow> c | None \<Rightarrow> [])"

definition after_challenge :: "headers \<Rightarrow> digest_auth \<Rightarrow> digest_auth \<times> bool res" where
  "after_challenge c d =
     (if map_of c ''stale'' = Some ''true'' then
        (case map_of c ''nonce'' of None \<Rightarrow> (d, Inl (KeyError ''nonce'')) | Some n \<Rightarrow> (set_nonce n d, Inr True))
      else (d, Inr False))"

definition after_info :: "headers \<Rightarrow> digest_auth \<Rightarrow> digest_auth \<times> bool res" where
  "after_info c d = (case map_of c ''nextnonce'' of None \<Rightarrow> (d, Inr False) | Some n \<Rightarrow> (set_nonce n d, Inr False))"

definition digest_response :: "headers \<Rightarrow> digest_auth \<Rightarrow> (digest_auth \<times> bool res) option" where
  "digest_response hs d =
     (let info = dict_has hs ''authentication-info'' in
      map_option (\<lambda>r. case r of
          Inl e \<Rightarrow> (d, Inl e)
        | Inr cs \<Rightarrow> (if info then after_info else after_challenge) (digest_part cs) d)
        (parse_www_authenticate hs (if info then ''authentication-info'' else ''www-authenticate'')))"

section \<open>HMAC Digest\<close>

text \<open>With \<open>hashlib\<close> the hash functions have no attribute \<open>new\<close>, so a challenge that passes all checks ends there.\<close>

definition hmac_init :: "headers \<Rightarrow> exc" where
  "hmac_init challenge =
     (if get_or challenge ''snonce'' [] = [] then unimplemented
      else if get_or challenge ''algorithm'' ''HMAC-SHA-1'' \<notin> {''HMAC-SHA-1'', ''HMAC-MD5''} then unimplemented
      else if get_or challenge ''pw-algorithm'' ''SHA-1'' \<notin> {''SHA-1'', ''MD5''} then unimplemented
      else AttributeError ''new'')"

section \<open>WSSE\<close>

definition wsse_username_token :: "string \<Rightarrow> string \<Rightarrow> string \<Rightarrow> string" where
  "wsse_username_token cnonce iso_now password = str_strip (b64encode (sha1 (cnonce @ iso_now @ password)))"

definition wsse_request :: "string \<Rightarrow> string \<Rightarrow> auth_base \<Rightarrow> headers \<Rightarrow> headers" where
  "wsse_request cnonce iso_now a hs =
     AList.update ''X-WSSE''
       (''UsernameToken Username='' @ in_quotes (fst (ab_credentials a)) @ '', PasswordDigest='' @
        in_quotes (wsse_username_token cnonce iso_now (snd (ab_credentials a))) @ '', Nonce='' @ in_quotes cnonce @
        '', Created='' @ in_quotes iso_now)
       (AList.update ''authorization'' (''WSSE profile='' @ in_quotes ''UsernameToken'') hs)"

section \<open>Google login\<close>

definition google_service :: "headers \<Rightarrow> string \<Rightarrow> string" where
  "google_service challenge request_uri =
     (let s = get_or challenge ''service'' ''xapi'' in
      if s = ''xapi'' \<and> (case str_find request_uri ''calendar'' of Some n \<Rightarrow> n > 0 | None \<Rightarrow> False) then ''cl'' else s)"

definition google_body :: "string \<times> string \<Rightarrow> string \<Rightarrow> string \<Rightarrow> string" where
  "google_body credentials service source =
     urlencode [(''Email'', fst credentials), (''Passwd'', snd credentials), (''service'', service), (''source'', source)]"

text \<open>The token out of the answer: every line but empty ones must have an equals sign.\<close>

definition google_token :: "int \<Rightarrow> string \<Rightarrow> string res" where
  "google_token status content =
     (let pairs = map (str_split1 CHR ''='') (filter (\<lambda>l. l \<noteq> []) (str_split CHR 0x0A content)) in
      if list_ex (\<lambda>(k, v). v = None) pairs then Inl (ValueError ''dictionary update sequence element'')
      else if status = 403 then Inr []
      else case map_of (dict_update [] (map (\<lambda>(k, v). (k, the v)) pairs)) ''Auth'' of
        None \<Rightarrow> Inl (KeyError ''Auth'')
      | Some a \<Rightarrow> Inr a)"

definition google_request :: "string \<Rightarrow> headers \<Rightarrow> headers" where
  "google_request token hs = AList.update ''authorization'' (''GoogleLogin Auth='' @ token) hs"

section \<open>An authorization\<close>

datatype authorization =
    Basic auth_base
  | Digest digest_auth
  | Wsse auth_base
  | Google auth_base string

fun base_of :: "authorization \<Rightarrow> auth_base" where
  "base_of (Basic a) = a"
| "base_of (Digest d) = da_base d"
| "base_of (Wsse a) = a"
| "base_of (Google a t) = a"

text \<open>What a call takes from the clock and the random numbers: a client nonce and the moment.\<close>

type_synonym moment = "string \<times> string"

fun auth_request :: "moment \<Rightarrow> string \<Rightarrow> string \<Rightarrow> headers \<Rightarrow> authorization \<Rightarrow> authorization \<times> headers res" where
  "auth_request m meth uri hs (Basic a) = (Basic a, Inr (basic_request a hs))"
| "auth_request m meth uri hs (Digest d) =
     (case digest_request (fst m) meth uri hs d of (d', r) \<Rightarrow> (Digest d', r))"
| "auth_request m meth uri hs (Wsse a) = (Wsse a, Inr (wsse_request (fst m) (snd m) a hs))"
| "auth_request m meth uri hs (Google a t) = (Google a t, Inr (google_request t hs))"

fun auth_response :: "headers \<Rightarrow> authorization \<Rightarrow> (authorization \<times> bool res) option" where
  "auth_response hs (Digest d) = map_option (\<lambda>(d', r). (Digest d', r)) (digest_response hs d)"
| "auth_response hs a = Some (a, Inr False)"

text \<open>\<open>_auth_from_challenge\<close>: the credentials and schemes that are tried, in order.\<close>

definition auth_scheme_order :: "string list" where
  "auth_scheme_order = [''hmacdigest'', ''googlelogin'', ''digest'', ''wsse'', ''basic'']"

definition auth_attempts :: "(string \<times> headers) list \<Rightarrow> (string \<times> string) list \<Rightarrow> ((string \<times> string) \<times> string) list" where
  "auth_attempts cs creds =
     concat (map (\<lambda>c. map (\<lambda>s. (c, s)) (filter (dict_has cs) auth_scheme_order)) creds)"

section \<open>The counter of a digest\<close>

datatype digest_event = Sign string string string headers | Answered headers

text \<open>What is sent: the nonce and the counter of each request, until one raises or does not return.\<close>

fun digest_sent :: "digest_event list \<Rightarrow> digest_auth \<Rightarrow> (string \<times> nat) list" where
  "digest_sent [] d = []"
| "digest_sent (Sign c m u hs # es) d =
     (case digest_request c m u hs d of
        (d', Inl e) \<Rightarrow> []
      | (d', Inr h) \<Rightarrow> (get_or (da_challenge d) ''nonce'' [], da_nc d) # digest_sent es d')"
| "digest_sent (Answered hs # es) d =
     (case digest_response hs d of Some (d', Inr b) \<Rightarrow> digest_sent es d' | _ \<Rightarrow> [])"

text \<open>The nonces the answers bring.\<close>

fun new_nonces :: "digest_event list \<Rightarrow> digest_auth \<Rightarrow> string list" where
  "new_nonces [] d = []"
| "new_nonces (Sign c m u hs # es) d =
     (case digest_request c m u hs d of (d', Inl e) \<Rightarrow> [] | (d', Inr h) \<Rightarrow> new_nonces es d')"
| "new_nonces (Answered hs # es) d =
     (case digest_response hs d of
        Some (d', Inr b) \<Rightarrow> (if d' = d then [] else [get_or (da_challenge d') ''nonce'' []]) @ new_nonces es d'
      | _ \<Rightarrow> [])"

lemma digest_request_nonce:
  assumes "digest_request c m u hs d = (d', Inr h)"
  shows "get_or (da_challenge d') ''nonce'' [] = get_or (da_challenge d) ''nonce'' [] \<and> da_nc d' = Suc (da_nc d)"
  using assms by (auto simp: digest_request_def get_or_def Let_def split: option.splits)

lemma digest_response_nonce:
  assumes "digest_response hs d = Some (d', r)"
  shows "d' = d \<or> (\<exists>n. d' = set_nonce n d)"
proof -
  from assms obtain p where "(d', r) = (case p of Inl e \<Rightarrow> (d, Inl e)
      | Inr cs \<Rightarrow> (if dict_has hs ''authentication-info'' then after_info else after_challenge) (digest_part cs) d)"
    unfolding digest_response_def Let_def map_option_case by (metis (no_types, lifting) option.case_eq_if option.distinct(1) option.sel)
  then show ?thesis by (cases p) (auto simp: after_info_def after_challenge_def split: if_splits option.splits)
qed

lemma digest_sent_bound:
  "(n, c) \<in> set (digest_sent es d) \<Longrightarrow>
     n = get_or (da_challenge d) ''nonce'' [] \<and> da_nc d \<le> c \<or> n \<in> set (new_nonces es d)"
proof (induction es arbitrary: d)
  case (Cons e es)
  show ?case
  proof (cases e)
    case (Sign k m u hs)
    obtain d' r where q: "digest_request k m u hs d = (d', r)" by force
    then show ?thesis using Cons Sign digest_request_nonce [of k m u hs d d'] by (cases r) fastforce+
  next
    case (Answered hs)
    have "\<exists>d' b. digest_response hs d = Some (d', Inr b)"
    proof (cases "digest_response hs d")
      case (Some p)
      then show ?thesis using Cons.prems Answered by (cases p; cases "snd p") auto
    qed (use Cons.prems Answered in simp)
    then obtain d' b where q: "digest_response hs d = Some (d', Inr b)" by blast
    then have m: "(n, c) \<in> set (digest_sent es d')" using Cons.prems Answered by simp
    show ?thesis using Cons.IH [OF m] Answered q by (auto split: if_splits)
  qed
qed simp

lemma digest_sent_distinct:
  "distinct (get_or (da_challenge d) ''nonce'' [] # new_nonces es d) \<Longrightarrow> distinct (digest_sent es d)"
proof (induction es arbitrary: d)
  case (Cons e es)
  show ?case
  proof (cases e)
    case (Sign k m u hs)
    obtain d' r where q: "digest_request k m u hs d = (d', r)" by force
    show ?thesis
    proof (cases r)
      case (Inr h)
      note n = digest_request_nonce [OF q [unfolded Inr]]
      with Cons.prems Sign q Inr have d: "distinct (get_or (da_challenge d') ''nonce'' [] # new_nonces es d')" by simp
      moreover have "(get_or (da_challenge d) ''nonce'' [], da_nc d) \<notin> set (digest_sent es d')"
        using digest_sent_bound [of _ _ es d'] n d by fastforce
      ultimately show ?thesis using Cons.IH Sign q Inr by simp
    qed (use Sign q in simp)
  next
    case (Answered hs)
    show ?thesis
    proof (cases "digest_sent (e # es) d = []")
      case False
      then obtain d' b where q: "digest_response hs d = Some (d', Inr b)"
        using Answered by (auto split: option.splits sum.splits prod.splits)
      have "distinct (get_or (da_challenge d') ''nonce'' [] # new_nonces es d')"
        using Cons.prems Answered q by (cases "d' = d") auto
      then show ?thesis using Cons.IH Answered q by simp
    qed simp
  qed
qed simp

text \<open>C32: No answer of a digest can be replayed: over any sequence of requests that are signed and answers that are
  taken in, the pairs of nonce and counter that are sent are all different, provided that the server
  never announces a nonce it has announced before.\<close>

theorem digest_counter_fresh:
  assumes "digest_init a challenge = Inr d" "map_of challenge ''nonce'' = Some n"
    and "distinct (n # new_nonces es d)"
  shows "distinct (digest_sent es d)"
proof -
  have "get_or (da_challenge d) ''nonce'' [] = n"
    using assms(1,2) by (auto simp: digest_init_def get_or_def Let_def split: if_splits option.splits)
  with assms(3) show ?thesis by (intro digest_sent_distinct) simp
qed

definition example_challenge :: headers where
  "example_challenge = [(''realm'', ''r''), (''nonce'', ''n'')]"

definition example_digest :: digest_auth where
  "example_digest = \<lparr>da_base = new_authentication (''joe'', ''pw'') ''h'' ''/'',
     da_challenge = [(''realm'', ''r''), (''nonce'', ''n''), (''qop'', ''auth''), (''algorithm'', ''MD5'')],
     da_nc = 1, da_A1 = ''joe:r:pw''\<rparr>"

lemma example_digest_init:
  "digest_init (new_authentication (''joe'', ''pw'') ''h'' ''/'') example_challenge = Inr example_digest"
  by code_simp

theorem digest_counter_fresh_witness:
  "distinct (digest_sent [Sign ''a'' ''GET'' ''/'' [], Sign ''a'' ''GET'' ''/'' []] example_digest)"
proof (rule digest_counter_fresh [OF example_digest_init])
  show "map_of example_challenge ''nonce'' = Some ''n''" by code_simp
  show "distinct (''n'' # new_nonces [Sign ''a'' ''GET'' ''/'' [], Sign ''a'' ''GET'' ''/'' []] example_digest)"
    by (simp split: prod.split sum.split)
qed

section \<open>What a server makes of the header\<close>










text \<open>What a digest holds between its requests.\<close>

definition digest_inv :: "string \<Rightarrow> string \<Rightarrow> string \<Rightarrow> string \<Rightarrow> digest_auth \<Rightarrow> bool" where
  "digest_inv user password realm nonce d \<longleftrightarrow>
     ab_credentials (da_base d) = (user, password) \<and> map_of (da_challenge d) ''nonce'' = Some nonce \<and>
     map_of (da_challenge d) ''realm'' = Some realm \<and> map_of (da_challenge d) ''qop'' = Some ''auth'' \<and>
     map_of (da_challenge d) ''algorithm'' = Some ''MD5'' \<and> da_A1 d = user @ '':'' @ realm @ '':'' @ password"

lemma digest_init_inv:
  "digest_init a challenge = Inr d \<Longrightarrow> ab_credentials a = (user, password) \<Longrightarrow>
     map_of challenge ''nonce'' = Some nonce \<Longrightarrow> map_of challenge ''realm'' = Some realm \<Longrightarrow>
     digest_inv user password realm nonce d"
  by (auto simp: digest_init_def digest_inv_def Let_def split: if_splits)

lemma digest_request_inv:
  "digest_request c m u hs d = (d', r) \<Longrightarrow> digest_inv user password realm nonce d \<Longrightarrow>
     digest_inv user password realm nonce d'"
  by (auto simp: digest_request_def digest_inv_def Let_def split: option.splits)

lemma set_nonce_inv:
  "digest_inv user password realm nonce d \<Longrightarrow> digest_inv user password realm n (set_nonce n d)"
  by (simp add: digest_inv_def set_nonce_def)










end
