(* ===== verification/HttpClient.thy ===== *)
theory HttpClient
  imports HttpAuth
begin

text \<open>
  The client of \<open>socialnet/httplib2-0.7.1/python2/httplib2/__init__.py\<close> (class \<open>Http\<close>): the two attempts of
  \<open>_conn_request\<close>, authorization, redirects and caching in \<open>_request\<close>, and \<open>request\<close> with its cache lookup
  and its exceptions turned into answers. URIs are byte strings, which \<open>iri2uri\<close> leaves as they are. The
  sockets, the clock, the mail library and the decompressors are arguments. \<open>request\<close> calls itself for
  redirects: the model counts these levels, and gives nothing when they are used up.
\<close>

section \<open>Joining URLs\<close>

text \<open>\<open>urlparse.urljoin\<close> of the standard library: the relative URL is parsed with the scheme of the base.\<close>

definition urlparse_in :: "string \<Rightarrow> string \<Rightarrow> url_parts res" where
  "urlparse_in sch0 u0 =
     (case split_scheme u0 of (sch1, u1) \<Rightarrow>
      case split_netloc u1 of (nl, u2) \<Rightarrow>
        let sch = (if sch1 = [] then sch0 else sch1) in
        if (CHR ''['' \<in> set nl) \<noteq> (CHR '']'' \<in> set nl) then Inl (ValueError ''Invalid IPv6 URL'')
        else
          (case split_tail (CHR ''#'') u2 of (u3, fr) \<Rightarrow>
           case split_tail (CHR ''?'') u3 of (u4, q) \<Rightarrow>
           case (if sch \<in> set uses_params then split_params u4 else (u4, [])) of (p, ps) \<Rightarrow>
             Inr \<lparr>scheme = sch, netloc = nl, path = p, params = ps, query = q, fragment = fr\<rparr>))"

text \<open>One pair of a segment and \<open>..\<close> is removed, from the left, until there is none.\<close>

fun drop_pair :: "string list \<Rightarrow> string list option" where
  "drop_pair (a # b # c # ss) =
     (if b = ''..'' \<and> a \<notin> {[], ''..''} then Some (c # ss) else map_option (Cons a) (drop_pair (b # c # ss)))"
| "drop_pair _ = None"

lemma drop_pair_length: "drop_pair ss = Some ts \<Longrightarrow> length ts < length ss"
  by (induction ss arbitrary: ts rule: drop_pair.induct) (fastforce split: if_splits)+

function drop_pairs :: "string list \<Rightarrow> string list" where
  "drop_pairs ss = (case drop_pair ss of None \<Rightarrow> ss | Some ts \<Rightarrow> drop_pairs ts)"
  by pat_completeness auto
termination by (relation "measure length") (simp_all add: drop_pair_length)

declare drop_pairs.simps [simp del]

definition join_segments :: "string \<Rightarrow> string \<Rightarrow> string" where
  "join_segments bpath p =
     (let ss = butlast (str_split CHR ''/'' bpath) @ str_split CHR ''/'' p;
          s1 = (if last ss = ''.'' then butlast ss @ [[]] else ss);
          s2 = drop_pairs (filter (\<lambda>s. s \<noteq> ''.'') s1);
          s3 = (if s2 = [[], ''..''] then [[], []]
                else if length s2 \<ge> 2 \<and> last s2 = ''..'' then take (length s2 - 2) s2 @ [[]] else s2)
      in str_join ''/'' s3)"

definition uses_relative :: "string list" where
  "uses_relative = [''ftp'', ''http'', ''gopher'', ''nntp'', ''imap'', ''wais'', ''file'', ''https'', ''shttp'', ''mms'',
     ''prospero'', ''rtsp'', ''rtspu'', [], ''sftp'']"

definition urljoin :: "string \<Rightarrow> string \<Rightarrow> string res" where
  "urljoin base url =
     (if base = [] then Inr url else if url = [] then Inr base
      else rbind (urlparse base) (\<lambda>b. rbind (urlparse_in (scheme b) url) (\<lambda>u.
        if scheme u \<noteq> scheme b \<or> scheme u \<notin> set uses_relative then Inr url
        else if scheme u \<in> set uses_netloc \<and> netloc u \<noteq> [] then Inr (urlunparse u)
        else
          let u1 = (if scheme u \<in> set uses_netloc then u\<lparr>netloc := netloc b\<rparr> else u) in
          if starts_with (path u) ''/'' then Inr (urlunparse u1)
          else if path u = [] \<and> params u = [] then
            Inr (urlunparse (u1\<lparr>path := path b, params := params b,
              query := (if query u = [] then query b else query u)\<rparr>))
          else Inr (urlunparse (u1\<lparr>path := join_segments (path b) (path u)\<rparr>)))))"

section \<open>Connections and errors\<close>

text \<open>What the sockets and \<open>httplib\<close> raise; \<open>Library\<close> stands for the errors of the library itself, such as a
  failed check of the certificate.\<close>

datatype conn_exc = SocketTimeout | GaiError | SslError | Refused | SocketError | HttpException | Library string

record http_response = response +
  r_reason :: string
  r_stale :: bool
  r_previous :: "response option"

datatype http_error =
    Conn conn_exc
  | Raised exc
  | WithResponse string "http_response option" string

record 'w wire =
  w_open :: "'w \<Rightarrow> bool"
  w_connect :: "'w \<Rightarrow> 'w \<times> conn_exc option"
  w_close :: "'w \<Rightarrow> 'w"
  w_send :: "string \<Rightarrow> string \<Rightarrow> string option \<Rightarrow> headers \<Rightarrow> 'w \<Rightarrow> 'w \<times> conn_exc option"
  w_receive :: "'w \<Rightarrow> 'w \<times> (conn_exc + int \<times> string \<times> headers)"
  w_read :: "'w \<Rightarrow> 'w \<times> (conn_exc + string)"

record 'w http_env =
  he_wire :: "string \<Rightarrow> 'w wire"
  he_now :: "'w \<Rightarrow> int"
  he_moment :: "'w \<Rightarrow> moment"
  he_mail_date :: "string \<Rightarrow> int option"
  he_as_string :: "headers \<Rightarrow> string"
  he_message :: "string \<Rightarrow> headers"
  he_idna :: "string \<Rightarrow> string option"
  he_gunzip :: "string \<Rightarrow> string res"
  he_inflate :: "string \<Rightarrow> string res"
  he_text :: "http_error \<Rightarrow> string"

section \<open>Responses\<close>

definition new_response :: "headers \<Rightarrow> int \<Rightarrow> string \<Rightarrow> http_response" where
  "new_response hs status reason =
     \<lparr>r_headers = hs, r_status = status, r_fromcache = False, r_reason = reason, r_stale = False, r_previous = None\<rparr>"

definition response_of_http :: "int \<times> string \<times> headers \<Rightarrow> http_response" where
  "response_of_http x = (case x of (status, reason, hs) \<Rightarrow>
     new_response (AList.update ''status'' (show_int status) (dict_update [] (map (\<lambda>(k, v). (str_lower k, v)) hs))) status reason)"

text \<open>Of a message: the last of several headers of a name counts.\<close>

definition response_of_message :: "headers \<Rightarrow> http_response res" where
  "response_of_message info =
     (let hs = dict_update [] info in
      case map_of hs ''status'' of
        None \<Rightarrow> Inl (KeyError ''status'')
      | Some s \<Rightarrow> rbind (parse_int s) (\<lambda>n. Inr (new_response hs n ''Ok'')))"

definition set_header :: "string \<Rightarrow> string \<Rightarrow> http_response \<Rightarrow> http_response" where
  "set_header k v r = r\<lparr>r_headers := AList.update k v (r_headers r)\<rparr>"

definition decompress_content :: "'w http_env \<Rightarrow> http_response \<Rightarrow> string \<Rightarrow> http_error + http_response \<times> string" where
  "decompress_content env r body =
     (case map_of (r_headers r) ''content-encoding'' of
        None \<Rightarrow> Inr (r, body)
      | Some enc \<Rightarrow>
          if enc \<notin> {''gzip'', ''deflate''} then Inr (r, body)
          else
            (case (if enc = ''gzip'' then he_gunzip env body else he_inflate env body) of
               Inl (IOError m) \<Rightarrow> Inl (WithResponse ''FailedToDecompressContent'' (Some r) [])
             | Inl e \<Rightarrow> Inl (Raised e)
             | Inr content \<Rightarrow>
                 let r1 = set_header ''-content-encoding'' enc (set_header ''content-length'' (show_nat (length content)) r)
                 in Inr (r1\<lparr>r_headers := AList.delete ''content-encoding'' (r_headers r1)\<rparr>, content)))"

section \<open>One request on a connection\<close>

definition reconnect :: "'w wire \<Rightarrow> 'w \<Rightarrow> 'w \<times> (http_error + bool)" where
  "reconnect W w =
     (case w_connect W (w_close W w) of
        (w1, None) \<Rightarrow> (w1, Inr False)
      | (w1, Some e) \<Rightarrow> (w1, Inl (Conn e)))"

text \<open>The handlers around sending: \<open>True\<close> goes on to the answer, \<open>False\<close> begins the second attempt.\<close>

fun send_failed :: "'w wire \<Rightarrow> bool \<Rightarrow> conn_exc \<Rightarrow> 'w \<Rightarrow> 'w \<times> (http_error + bool)" where
  "send_failed W first SocketTimeout w = (w, Inl (Conn SocketTimeout))"
| "send_failed W first GaiError w = (w_close W w, Inl (Raised (HttpLibError ''ServerNotFoundError'')))"
| "send_failed W first SslError w = (w_close W w, Inl (Conn SslError))"
| "send_failed W first Refused w = (w, Inl (Conn Refused))"
| "send_failed W first SocketError w = (w, Inr True)"
| "send_failed W first HttpException w =
     (if first then reconnect W w
      else if w_open W w then (w, Inr True) else (w_close W w, Inl (Conn HttpException)))"
| "send_failed W first (Library m) w = (w, Inl (Conn (Library m)))"

definition conn_send ::
    "'w wire \<Rightarrow> bool \<Rightarrow> string \<Rightarrow> string \<Rightarrow> string option \<Rightarrow> headers \<Rightarrow> 'w \<Rightarrow> 'w \<times> (http_error + bool)" where
  "conn_send W first meth uri body hs w =
     (case (if w_open W w then (w, None) else w_connect W w) of
        (w1, Some e) \<Rightarrow> send_failed W first e w1
      | (w1, None) \<Rightarrow>
          (case w_send W meth uri body hs w1 of
             (w2, Some e) \<Rightarrow> send_failed W first e w2
           | (w2, None) \<Rightarrow> (w2, Inr True)))"

text \<open>What the handler around \<open>getresponse\<close> catches: \<open>socket.error\<close> with its subclasses, and \<open>HTTPException\<close>.\<close>

fun caught :: "conn_exc \<Rightarrow> bool" where
  "caught (Library m) = False"
| "caught _ = True"

definition conn_receive ::
    "'w http_env \<Rightarrow> 'w wire \<Rightarrow> bool \<Rightarrow> string \<Rightarrow> 'w \<Rightarrow> 'w \<times> (http_error + (http_response \<times> string) option)" where
  "conn_receive env W first meth w =
     (case w_receive W w of
        (w1, Inl e) \<Rightarrow>
          if first \<and> caught e then (case reconnect W w1 of (w2, Inl e') \<Rightarrow> (w2, Inl e') | (w2, Inr _) \<Rightarrow> (w2, Inr None))
          else (w1, Inl (Conn e))
      | (w1, Inr x) \<Rightarrow>
          if meth = ''HEAD'' then (w1, Inr (Some (response_of_http x, [])))
          else
            (case w_read W w1 of
               (w2, Inl e) \<Rightarrow> (w2, Inl (Conn e))
             | (w2, Inr body) \<Rightarrow>
                 (case decompress_content env (response_of_http x) body of
                    Inl e \<Rightarrow> (w2, Inl e)
                  | Inr rc \<Rightarrow> (w2, Inr (Some rc)))))"

definition conn_attempt ::
    "'w http_env \<Rightarrow> 'w wire \<Rightarrow> bool \<Rightarrow> string \<Rightarrow> string \<Rightarrow> string option \<Rightarrow> headers \<Rightarrow> 'w \<Rightarrow>
     'w \<times> (http_error + (http_response \<times> string) option)" where
  "conn_attempt env W first meth uri body hs w =
     (case conn_send W first meth uri body hs w of
        (w1, Inl e) \<Rightarrow> (w1, Inl e)
      | (w1, Inr False) \<Rightarrow> (w1, Inr None)
      | (w1, Inr True) \<Rightarrow> conn_receive env W first meth w1)"

definition conn_request ::
    "'w http_env \<Rightarrow> string \<Rightarrow> string \<Rightarrow> string \<Rightarrow> string option \<Rightarrow> headers \<Rightarrow> 'w \<Rightarrow>
     'w \<times> (http_error + http_response \<times> string)" where
  "conn_request env key meth uri body hs w =
     (case conn_attempt env (he_wire env key) True meth uri body hs w of
        (w1, Inl e) \<Rightarrow> (w1, Inl e)
      | (w1, Inr (Some rc)) \<Rightarrow> (w1, Inr rc)
      | (w1, Inr None) \<Rightarrow>
          (case conn_attempt env (he_wire env key) False meth uri body hs w1 of
             (w2, Inl e) \<Rightarrow> (w2, Inl e)
           | (w2, Inr (Some rc)) \<Rightarrow> (w2, Inr rc)
           | (w2, Inr None) \<Rightarrow> (w2, Inl (Raised (UnboundLocalError ''response'')))))"

section \<open>The client\<close>

record http =
  h_cache :: "file_dir option"
  h_credentials :: credentials
  h_certificates :: credentials
  h_connections :: "(string \<times> (string \<times> string) option) list"
  h_auths :: "authorization list"
  h_follow_redirects :: bool
  h_optimistic :: "string list"
  h_follow_all :: bool
  h_ignore_etag :: bool
  h_force_status :: bool

definition new_http :: "file_dir option \<Rightarrow> http" where
  "new_http cache = \<lparr>h_cache = cache, h_credentials = [], h_certificates = [], h_connections = [], h_auths = [],
     h_follow_redirects = True, h_optimistic = [''PUT'', ''PATCH''], h_follow_all = False, h_ignore_etag = False,
     h_force_status = False\<rparr>"

definition add_credentials :: "string \<Rightarrow> string \<Rightarrow> string \<Rightarrow> http \<Rightarrow> http" where
  "add_credentials name password domain h = h\<lparr>h_credentials := add_credential name password domain (h_credentials h)\<rparr>"

definition add_certificate :: "string \<Rightarrow> string \<Rightarrow> string \<Rightarrow> http \<Rightarrow> http" where
  "add_certificate k cert domain h = h\<lparr>h_certificates := add_credential k cert domain (h_certificates h)\<rparr>"

definition clear_credentials :: "http \<Rightarrow> http" where
  "clear_credentials h = h\<lparr>h_credentials := [], h_auths := []\<rparr>"

section \<open>Calls of the client\<close>

text \<open>A call works on the world and the client; nothing stands for a call that does not return.\<close>

type_synonym ('w, 'a) call = "'w \<times> http \<Rightarrow> (('w \<times> http) \<times> (http_error + 'a)) option"

definition give :: "'a \<Rightarrow> ('w, 'a) call" where
  "give x st = Some (st, Inr x)"

definition fail :: "http_error \<Rightarrow> ('w, 'a) call" where
  "fail e st = Some (st, Inl e)"

definition andthen :: "('w, 'a) call \<Rightarrow> ('a \<Rightarrow> ('w, 'b) call) \<Rightarrow> ('w, 'b) call" where
  "andthen c f st =
     (case c st of
        None \<Rightarrow> None
      | Some (st1, Inl e) \<Rightarrow> Some (st1, Inl e)
      | Some (st1, Inr x) \<Rightarrow> f x st1)"

definition of_res :: "'a res \<Rightarrow> ('w, 'a) call" where
  "of_res r = (case r of Inl e \<Rightarrow> fail (Raised e) | Inr x \<Rightarrow> give x)"

definition get_http :: "('w, http) call" where
  "get_http st = Some (st, Inr (snd st))"

definition modify :: "(http \<Rightarrow> http) \<Rightarrow> ('w, unit) call" where
  "modify f st = Some ((fst st, f (snd st)), Inr ())"

definition get_world :: "('w, 'w) call" where
  "get_world st = Some (st, Inr (fst st))"

definition exchange ::
    "'w http_env \<Rightarrow> string \<Rightarrow> string \<Rightarrow> string \<Rightarrow> string option \<Rightarrow> headers \<Rightarrow> ('w, http_response \<times> string) call" where
  "exchange env key meth uri body hs st =
     (case conn_request env key meth uri body hs (fst st) of (w, r) \<Rightarrow> Some ((w, snd st), r))"

text \<open>\<open>_updateCache\<close> on the cache of the client.\<close>

definition store_entry ::
    "'w http_env \<Rightarrow> headers \<Rightarrow> http_response \<Rightarrow> string \<Rightarrow> string option \<Rightarrow> http \<Rightarrow> http" where
  "store_entry env hs r content key h =
     h\<lparr>h_cache := map_option (update_cache (hc_delete (he_idna env)) (hc_set (he_idna env)) (he_as_string env)
         hs (response.truncate r) content key) (h_cache h)\<rparr>"

definition drop_entry :: "'w http_env \<Rightarrow> string option \<Rightarrow> http \<Rightarrow> http" where
  "drop_entry env key h =
     (case key of
        None \<Rightarrow> h
      | Some k \<Rightarrow> h\<lparr>h_cache := map_option (hc_delete (he_idna env) k) (h_cache h)\<rparr>)"

section \<open>Authorization\<close>

text \<open>The nearest authorization in scope. The source compares equally near ones by their addresses; the model takes
  the earliest.\<close>

definition nearest_auth :: "string \<Rightarrow> string \<Rightarrow> authorization list \<Rightarrow> nat option" where
  "nearest_auth host uri as =
     (let d = (\<lambda>i. depth (base_of (as ! i)) uri) in
      case filter (\<lambda>i. inscope (base_of (as ! i)) host uri) [0..<length as] of
        [] \<Rightarrow> None
      | i # is \<Rightarrow> Some (fold (\<lambda>j b. if d j < d b then j else b) is i))"

definition set_auth :: "nat \<Rightarrow> authorization \<Rightarrow> http \<Rightarrow> http" where
  "set_auth i a h = h\<lparr>h_auths := (h_auths h)[i := a]\<rparr>"

text \<open>\<open>auth.request\<close> and \<open>auth.response\<close> of the authorization with this number.\<close>

definition sign :: "'w http_env \<Rightarrow> nat \<Rightarrow> string \<Rightarrow> string \<Rightarrow> headers \<Rightarrow> ('w, headers) call" where
  "sign env i meth uri hs st =
     (case auth_request (he_moment env (fst st)) meth uri hs (h_auths (snd st) ! i) of
        (a, r) \<Rightarrow> of_res r (fst st, set_auth i a (snd st)))"

definition answered :: "nat \<Rightarrow> headers \<Rightarrow> ('w, bool) call" where
  "answered i hs st =
     (case auth_response hs (h_auths (snd st) ! i) of
        None \<Rightarrow> None
      | Some (a, r) \<Rightarrow> of_res r (fst st, set_auth i a (snd st)))"

definition when_auth :: "nat option \<Rightarrow> (nat \<Rightarrow> ('w, 'a) call) \<Rightarrow> ('w, 'a) call \<Rightarrow> ('w, 'a) call" where
  "when_auth a f c = (case a of None \<Rightarrow> c | Some i \<Rightarrow> f i)"

text \<open>A request to a URL: method, body, headers, redirections left.\<close>

type_synonym 'w requester =
  "string \<Rightarrow> string \<Rightarrow> string option \<Rightarrow> headers \<Rightarrow> int \<Rightarrow> ('w, http_response \<times> string) call"

definition google_url :: string where
  "google_url = ''https://www.google.com/accounts/ClientLogin''"

definition google_login ::
    "'w requester \<Rightarrow> auth_base \<Rightarrow> headers \<Rightarrow> string \<Rightarrow> headers \<Rightarrow> ('w, authorization) call" where
  "google_login rec a challenge uri hs =
     andthen (rec google_url ''POST''
         (Some (google_body (ab_credentials a) (google_service challenge uri) (get_or hs ''user-agent'' [])))
         [(''Content-Type'', ''application/x-www-form-urlencoded'')] 5)
       (\<lambda>(r, content). andthen (of_res (google_token (r_status r) content)) (\<lambda>t. give (Google a t)))"

definition make_auth ::
    "'w requester \<Rightarrow> string \<Rightarrow> string \<Rightarrow> headers \<Rightarrow> (string \<times> headers) list \<Rightarrow> (string \<times> string) \<times> string \<Rightarrow>
     ('w, authorization) call" where
  "make_auth rec host uri hs cs x =
     (case x of (cred, sch) \<Rightarrow>
      let a = new_authentication cred host uri; c = (case map_of cs sch of Some c \<Rightarrow> c | None \<Rightarrow> []) in
      if sch = ''hmacdigest'' then fail (Raised (hmac_init c))
      else if sch = ''googlelogin'' then google_login rec a c uri hs
      else if sch = ''digest'' then andthen (of_res (digest_init a c)) (\<lambda>d. give (Digest d))
      else if sch = ''wsse'' then give (Wsse a)
      else give (Basic a))"

text \<open>The loop over the authorizations that answer a challenge: the first that is not refused is kept.\<close>

fun try_auths ::
    "'w http_env \<Rightarrow> 'w requester \<Rightarrow> string \<Rightarrow> string \<Rightarrow> string \<Rightarrow> string \<Rightarrow> string option \<Rightarrow> (string \<times> headers) list \<Rightarrow>
     ((string \<times> string) \<times> string) list \<Rightarrow> headers \<Rightarrow> http_response \<times> string \<Rightarrow>
     ('w, headers \<times> http_response \<times> string) call" where
  "try_auths env rec key host meth uri body cs [] hs rc = give (hs, rc)"
| "try_auths env rec key host meth uri body cs (x # xs) hs rc =
     andthen (make_auth rec host uri hs cs x) (\<lambda>a.
     andthen get_world (\<lambda>w.
     case auth_request (he_moment env w) meth uri hs a of (a1, r) \<Rightarrow>
     andthen (of_res r) (\<lambda>hs1.
     andthen (exchange env key meth uri body hs1) (\<lambda>(resp, content).
       if r_status resp = 401 then try_auths env rec key host meth uri body cs xs hs1 (resp, content)
       else
         andthen (modify (\<lambda>h. h\<lparr>h_auths := h_auths h @ [a1]\<rparr>)) (\<lambda>_.
         andthen get_http (\<lambda>h.
         andthen (answered (length (h_auths h) - 1) (r_headers resp)) (\<lambda>_.
         give (hs1, resp, content))))))))"

definition challenged ::
    "'w http_env \<Rightarrow> 'w requester \<Rightarrow> string \<Rightarrow> string \<Rightarrow> string \<Rightarrow> string \<Rightarrow> string option \<Rightarrow> headers \<Rightarrow>
     http_response \<times> string \<Rightarrow> ('w, headers \<times> http_response \<times> string) call" where
  "challenged env rec key host meth uri body hs rc =
     (if r_status (fst rc) \<noteq> 401 then give (hs, rc)
      else
        (case parse_www_authenticate (r_headers (fst rc)) ''www-authenticate'' of
           None \<Rightarrow> (\<lambda>st. None)
         | Some (Inl e) \<Rightarrow> fail (Raised e)
         | Some (Inr cs) \<Rightarrow>
             andthen get_http (\<lambda>h.
               try_auths env rec key host meth uri body cs
                 (auth_attempts cs (iter_credentials host (h_credentials h))) hs rc)))"

text \<open>The request with the authorization known for it, and again when the digest was stale.\<close>

definition authorized ::
    "'w http_env \<Rightarrow> string \<Rightarrow> string \<Rightarrow> string \<Rightarrow> string \<Rightarrow> string option \<Rightarrow> headers \<Rightarrow>
     ('w, headers \<times> http_response \<times> string) call" where
  "authorized env key host meth uri body hs =
     andthen get_http (\<lambda>h.
     let a = nearest_auth host uri (h_auths h) in
     andthen (when_auth a (\<lambda>i. sign env i meth uri hs) (give hs)) (\<lambda>hs1.
     andthen (exchange env key meth uri body hs1) (\<lambda>(resp, content).
     andthen (when_auth a (\<lambda>i. answered i (r_headers resp)) (give False)) (\<lambda>again.
       if again then
         andthen (when_auth a (\<lambda>i. sign env i meth uri hs1) (give hs1)) (\<lambda>hs2.
         andthen (exchange env key meth uri body hs2) (\<lambda>(resp2, content2).
         give (hs2, resp2\<lparr>r_stale := True\<rparr>, content2)))
       else give (hs1, resp, content)))))"

section \<open>Redirects\<close>

definition redirect_status :: "int \<Rightarrow> bool" where
  "redirect_status n \<longleftrightarrow> n \<in> {300, 301, 302, 303, 307}"

definition header_default :: "string \<Rightarrow> string \<Rightarrow> http_response \<Rightarrow> http_response" where
  "header_default k v r = (if dict_has (r_headers r) k then r else set_header k v r)"

text \<open>A relative location is made absolute.\<close>

definition fix_location :: "string \<Rightarrow> http_response \<Rightarrow> http_response res" where
  "fix_location absolute_uri r =
     (case map_of (r_headers r) ''location'' of
        None \<Rightarrow> Inr r
      | Some l \<Rightarrow>
          if up_authority (parse_uri l) = None
          then rbind (urljoin absolute_uri l) (\<lambda>u. Inr (set_header ''location'' u r)) else Inr r)"

definition redirected_headers :: "headers \<Rightarrow> headers" where
  "redirected_headers hs = AList.delete ''if-modified-since'' (AList.delete ''if-none-match'' hs)"

text \<open>The response and body to use when a redirect is followed, or left alone without a location.\<close>

definition follow ::
    "'w http_env \<Rightarrow> 'w requester \<Rightarrow> string \<Rightarrow> string \<Rightarrow> string option \<Rightarrow> headers \<Rightarrow> int \<Rightarrow> string option \<Rightarrow>
     http_response \<Rightarrow> string \<Rightarrow> ('w, headers \<times> http_response \<times> string) call" where
  "follow env rec absolute_uri meth body hs redirections cachekey resp content =
     andthen (of_res (fix_location absolute_uri resp)) (\<lambda>r1.
     let permanent = (r_status r1 = 301 \<and> meth \<in> {''GET'', ''HEAD''});
         r2 = (if permanent
               then header_default ''content-location'' absolute_uri
                      (set_header ''-x-permanent-redirect-url'' (get_or (r_headers r1) ''location'' []) r1)
               else r1);
         hs1 = redirected_headers hs
     in andthen (modify (if permanent then store_entry env hs r2 content cachekey else id)) (\<lambda>_.
        case map_of (r_headers r2) ''location'' of
          None \<Rightarrow> give (hs1, r2, content)
        | Some location \<Rightarrow>
            let old = header_default ''content-location'' absolute_uri r2;
                to_get = r_status r2 \<in> {302, 303}
            in andthen (rec location (if to_get then ''GET'' else meth) (if to_get then None else body) hs1 (redirections - 1))
                 (\<lambda>(resp', content'). give (hs1, resp'\<lparr>r_previous := Some (response.truncate old)\<rparr>, content'))))"

text \<open>\<open>_request\<close>. The headers are returned because they are changed on the way.\<close>

definition request_on ::
    "'w http_env \<Rightarrow> 'w requester \<Rightarrow> string \<Rightarrow> string \<Rightarrow> string \<Rightarrow> string \<Rightarrow> string \<Rightarrow> string option \<Rightarrow> headers \<Rightarrow> int \<Rightarrow>
     string option \<Rightarrow> ('w, headers \<times> http_response \<times> string) call" where
  "request_on env rec key host absolute_uri uri meth body hs redirections cachekey =
     andthen (authorized env key host meth uri body hs) (\<lambda>(hs1, rc1).
     andthen (challenged env rec key host meth uri body hs1 rc1) (\<lambda>(hs2, resp, content).
     andthen get_http (\<lambda>h.
       if h_follow_all h \<or> meth \<in> {''GET'', ''HEAD''} \<or> r_status resp = 303 then
         if h_follow_redirects h \<and> redirect_status (r_status resp) then
           if redirections = 0 then fail (WithResponse ''RedirectLimit'' (Some resp) content)
           else if \<not> dict_has (r_headers resp) ''location'' \<and> r_status resp \<noteq> 300 then
             fail (WithResponse ''RedirectMissingLocation'' (Some resp) content)
           else follow env rec absolute_uri meth body hs2 redirections cachekey resp content
         else if r_status resp \<in> {200, 203} \<and> meth \<in> {''GET'', ''HEAD''} then
           let r1 = header_default ''content-location'' absolute_uri resp in
           andthen (modify (store_entry env hs2 r1 content cachekey)) (\<lambda>_. give (hs2, r1, content))
         else give (hs2, resp, content)
       else give (hs2, resp, content))))"

section \<open>The cache in a request\<close>

text \<open>The entry of a key: the message in front of the first empty line and the content behind it. An entry without
  an empty line raises \<open>ValueError\<close>, which is not the exception that is waited for.\<close>

definition blank_line :: string where
  "blank_line = [CHR 0x0D, CHR 0x0A, CHR 0x0D, CHR 0x0A]"

definition read_entry :: "'w http_env \<Rightarrow> string option \<Rightarrow> http \<Rightarrow> (headers \<times> string option) res" where
  "read_entry env key h =
     (case (key, h_cache h) of
        (Some k, Some c) \<Rightarrow>
          (case hc_get (he_idna env) k c of
             None \<Rightarrow> Inr ([], None)
           | Some v \<Rightarrow>
               if v = [] then Inr ([], None)
               else (case str_find v blank_line of
                   None \<Rightarrow> Inl (ValueError ''need more than 1 value to unpack'')
                 | Some n \<Rightarrow> Inr (he_message env (take n v), Some (drop (n + 4) v))))
      | _ \<Rightarrow> Inr ([], None))"

text \<open>The entry does not serve a request whose headers differ from those it varies with.\<close>

definition vary_matches :: "headers \<Rightarrow> headers \<Rightarrow> bool" where
  "vary_matches info hs \<longleftrightarrow>
     (case map_of info ''vary'' of
        None \<Rightarrow> True
      | Some v \<Rightarrow> list_all (\<lambda>k. map_of hs k = map_of info (''-varied-'' @ k)) (vary_headers v))"

definition if_match :: "http \<Rightarrow> string \<Rightarrow> headers \<Rightarrow> headers \<Rightarrow> headers" where
  "if_match h meth info hs =
     (case map_of info ''etag'' of
        Some e \<Rightarrow>
          if meth \<in> set (h_optimistic h) \<and> h_cache h \<noteq> None \<and> \<not> h_ignore_etag h \<and> \<not> dict_has hs ''if-match''
          then AList.update ''if-match'' e hs else hs
      | None \<Rightarrow> hs)"

definition add_validators :: "http \<Rightarrow> headers \<Rightarrow> headers \<Rightarrow> headers" where
  "add_validators h info hs =
     (let hs1 = (case map_of info ''etag'' of
            Some e \<Rightarrow> if \<not> h_ignore_etag h \<and> \<not> dict_has hs ''if-none-match'' then AList.update ''if-none-match'' e hs else hs
          | None \<Rightarrow> hs)
      in case map_of info ''last-modified'' of
           Some t \<Rightarrow> if \<not> dict_has hs1 ''last-modified'' then AList.update ''if-modified-since'' t hs1 else hs1
         | None \<Rightarrow> hs1)"

text \<open>A 304 answer: its end-to-end headers are added to the stored ones, and the entry is written anew.\<close>

definition merge_info :: "headers \<Rightarrow> headers \<Rightarrow> headers" where
  "merge_info info hs = info @ map (\<lambda>k. (k, get_or hs k [])) (get_end2end_headers hs)"

definition not_modified ::
    "'w http_env \<Rightarrow> headers \<Rightarrow> headers \<Rightarrow> string \<Rightarrow> string option \<Rightarrow> http_response \<Rightarrow>
     ('w, http_response \<times> string) call" where
  "not_modified env info hs content cachekey resp =
     andthen (of_res (response_of_message (merge_info info (r_headers resp)))) (\<lambda>m.
     let merged = m\<lparr>r_stale := r_stale resp\<rparr> in
     andthen (modify (store_entry env hs merged content cachekey)) (\<lambda>_.
     give (merged\<lparr>r_status := 200, r_fromcache := True\<rparr>, content)))"

definition after_validation ::
    "'w http_env \<Rightarrow> string \<Rightarrow> headers \<Rightarrow> headers \<Rightarrow> string \<Rightarrow> string option \<Rightarrow> http_response \<times> string \<Rightarrow>
     ('w, http_response \<times> string) call" where
  "after_validation env meth info hs content cachekey rc =
     (case rc of (resp, new_content) \<Rightarrow>
      if r_status resp = 304 \<and> meth = ''GET'' then not_modified env info hs content cachekey resp
      else if r_status resp = 200 then give (resp, new_content)
      else andthen (modify (drop_entry env cachekey)) (\<lambda>_. give (resp, new_content)))"

text \<open>A request for which there is an entry.\<close>

definition with_entry ::
    "'w http_env \<Rightarrow> 'w requester \<Rightarrow> string \<Rightarrow> string \<Rightarrow> string \<Rightarrow> string \<Rightarrow> string \<Rightarrow> string option \<Rightarrow> headers \<Rightarrow> int \<Rightarrow>
     string option \<Rightarrow> headers \<Rightarrow> string \<Rightarrow> ('w, http_response \<times> string) call" where
  "with_entry env rec key host absolute_uri uri meth body hs redirections cachekey info content =
     (case map_of info ''-x-permanent-redirect-url'' of
        Some url \<Rightarrow>
          if redirections \<le> 0 then fail (WithResponse ''RedirectLimit'' None [])
          else
            andthen (rec url ''GET'' None hs (redirections - 1)) (\<lambda>(resp, new_content).
            andthen (of_res (response_of_message info)) (\<lambda>p.
            after_validation env meth info hs content cachekey
              (resp\<lparr>r_previous := Some (response.truncate (p\<lparr>r_fromcache := True\<rparr>))\<rparr>, new_content)))
      | None \<Rightarrow>
          andthen get_world (\<lambda>w. andthen get_http (\<lambda>h.
          andthen (of_res (entry_disposition (he_mail_date env) (he_now env w) info hs)) (\<lambda>(hs1, disp).
          if disp = FRESH then
            andthen (of_res (response_of_message info)) (\<lambda>r. give (r\<lparr>r_fromcache := True\<rparr>, content))
          else
            andthen (request_on env rec key host absolute_uri uri meth body
                (if disp = STALE then add_validators h info hs1 else hs1) redirections cachekey)
              (\<lambda>(hs2, rc). after_validation env meth info hs2 content cachekey rc)))))"

definition without_entry ::
    "'w http_env \<Rightarrow> 'w requester \<Rightarrow> string \<Rightarrow> string \<Rightarrow> string \<Rightarrow> string \<Rightarrow> string \<Rightarrow> string option \<Rightarrow> headers \<Rightarrow> int \<Rightarrow>
     string option \<Rightarrow> headers \<Rightarrow> ('w, http_response \<times> string) call" where
  "without_entry env rec key host absolute_uri uri meth body hs redirections cachekey info =
     (if dict_has (parse_cache_control hs) ''only-if-cached'' then
        andthen (of_res (response_of_message (info @ [(''status'', ''504'')]))) (\<lambda>r. give (r, []))
      else
        andthen (request_on env rec key host absolute_uri uri meth body hs redirections cachekey)
          (\<lambda>(hs1, rc). give rc))"

section \<open>Requests\<close>

definition default_agent :: string where
  "default_agent = ''Python-httplib2/0.7.0 (gzip)''"

definition prepare_headers :: "headers \<Rightarrow> headers" where
  "prepare_headers hs =
     (let hs1 = norm_headers hs in
      if dict_has hs1 ''user-agent'' then hs1 else AList.update ''user-agent'' default_agent hs1)"

definition accept_encoding :: "headers \<Rightarrow> headers" where
  "accept_encoding hs =
     (if dict_has hs ''range'' \<or> dict_has hs ''accept-encoding'' then hs
      else AList.update ''accept-encoding'' ''gzip, deflate'' hs)"

text \<open>Port 443 means HTTPS.\<close>

definition secure_port :: "string \<Rightarrow> string \<Rightarrow> string \<times> string" where
  "secure_port sch authority =
     (case take 2 (str_split CHR '':'' authority) of
        [host, port] \<Rightarrow> if port = ''443'' \<and> sch = ''http'' then (''https'', host) else (sch, authority)
      | _ \<Rightarrow> (sch, authority))"

text \<open>The connection of scheme and authority, made with the first certificate for it when there is none yet.\<close>

definition use_connection :: "string \<Rightarrow> string \<Rightarrow> ('w, unit) call" where
  "use_connection sch authority =
     andthen get_http (\<lambda>h.
       let key = sch @ '':'' @ authority in
       if dict_has (h_connections h) key then give ()
       else if sch \<notin> {''http'', ''https''} then fail (Raised (KeyError sch))
       else
         let cert = (if sch = ''https''
               then (case iter_credentials authority (h_certificates h) of [] \<Rightarrow> None | c # cs \<Rightarrow> Some c) else None)
         in modify (\<lambda>h. h\<lparr>h_connections := AList.update key cert (h_connections h)\<rparr>))"

definition request_body ::
    "'w http_env \<Rightarrow> 'w requester \<Rightarrow> 'w requester" where
  "request_body env rec uri meth body headers redirections =
     (let hs0 = prepare_headers headers in
      andthen (of_res (urlnorm uri)) (\<lambda>(sch0, authority0, request_uri, defrag_uri).
      case secure_port sch0 authority0 of (sch, authority) \<Rightarrow>
      let key = sch @ '':'' @ authority in
      andthen (use_connection sch authority) (\<lambda>_.
      andthen get_http (\<lambda>h.
      let hs1 = accept_encoding hs0;
          cachekey = (if h_cache h = None then None else Some defrag_uri)
      in andthen (of_res (read_entry env cachekey h)) (\<lambda>(info, cached).
      let hs2 = if_match h meth info hs1; get = meth \<in> {''GET'', ''HEAD''} in
      andthen (modify (if get then id else drop_entry env cachekey)) (\<lambda>_.
      case (if get \<and> \<not> vary_matches info hs2 then None else cached) of
        Some content \<Rightarrow>
          if get \<and> \<not> dict_has hs2 ''range''
          then with_entry env rec key authority uri request_uri meth body hs2 redirections cachekey info content
          else without_entry env rec key authority uri request_uri meth body hs2 redirections cachekey info
      | None \<Rightarrow> without_entry env rec key authority uri request_uri meth body hs2 redirections cachekey info))))))"

text \<open>The exceptions turned into answers when \<open>force_exception_to_status_code\<close> is set (the content length is a number there).\<close>

definition made_up :: "string \<Rightarrow> string \<Rightarrow> string \<Rightarrow> http_response \<times> string" where
  "made_up status reason content =
     (new_response [(''content-type'', ''text/plain''), (''status'', status), (''content-length'', show_nat (length content))]
        (case parse_int status of Inr n \<Rightarrow> n | Inl e \<Rightarrow> 0) reason, content)"

definition as_answer :: "'w http_env \<Rightarrow> http_error \<Rightarrow> ('w, http_response \<times> string) call" where
  "as_answer env e =
     (case e of
        WithResponse k (Some r) content \<Rightarrow> give (r\<lparr>r_status := 500, r_reason := he_text env e\<rparr>, content)
      | WithResponse k None content \<Rightarrow> fail (Raised (AttributeError ''status''))
      | Conn SocketTimeout \<Rightarrow> give (made_up ''408'' ''Request Timeout'' ''Request Timeout'')
      | _ \<Rightarrow> give (made_up ''400'' ''Bad Request'' (he_text env e)))"

definition request_step :: "'w http_env \<Rightarrow> 'w requester \<Rightarrow> 'w requester" where
  "request_step env rec uri meth body headers redirections st =
     (case request_body env rec uri meth body headers redirections st of
        None \<Rightarrow> None
      | Some (st1, Inl e) \<Rightarrow> if h_force_status (snd st1) then as_answer env e st1 else Some (st1, Inl e)
      | Some (st1, Inr rc) \<Rightarrow> Some (st1, Inr rc))"

text \<open>\<open>request\<close>, with this many calls of itself inside each other.\<close>

fun request :: "nat \<Rightarrow> 'w http_env \<Rightarrow> 'w requester" where
  "request 0 env = (\<lambda>uri meth body headers redirections st. None)"
| "request (Suc n) env = request_step env (request n env)"

definition DEFAULT_MAX_REDIRECTS :: int where
  "DEFAULT_MAX_REDIRECTS = 5"

end
