(* ===== verification/HttpReturn.thy ===== *)
theory HttpReturn
  imports HttpClient
begin

text \<open>
  What the client of \<open>httplib2\<close> guarantees: how often it sends, that it returns, and what it serves from its cache.
\<close>

section \<open>How often a request is sent\<close>

text \<open>A count of what is sent that only sending changes, and by at most one.\<close>

definition counts_sends :: "('w \<Rightarrow> nat) \<Rightarrow> 'w wire \<Rightarrow> bool" where
  "counts_sends c W \<longleftrightarrow>
     (\<forall>w. c (fst (w_connect W w)) = c w) \<and> (\<forall>w. c (w_close W w) = c w) \<and>
     (\<forall>m u b hs w. c (fst (w_send W m u b hs w)) \<le> Suc (c w)) \<and>
     (\<forall>w. c (fst (w_receive W w)) = c w) \<and> (\<forall>w. c (fst (w_read W w)) = c w)"

lemma counts_sendsD:
  assumes "counts_sends c W"
  shows "w_connect W w = (w', e) \<Longrightarrow> c w' = c w" "c (w_close W w) = c w"
    "w_send W m u b hs w = (w', e) \<Longrightarrow> c w' \<le> Suc (c w)"
    "w_receive W w = (w', x) \<Longrightarrow> c w' = c w" "w_read W w = (w', y) \<Longrightarrow> c w' = c w"
  using assms unfolding counts_sends_def by (metis fst_conv)+

lemma reconnect_count: "counts_sends c W \<Longrightarrow> c (fst (reconnect W w)) = c w"
  by (auto simp: reconnect_def counts_sendsD split: prod.split option.split)

lemma send_failed_count: "counts_sends c W \<Longrightarrow> c (fst (send_failed W first e w)) = c w"
  by (cases e) (auto simp: reconnect_count counts_sendsD)

lemma conn_send_count:
  assumes "counts_sends c W"
  shows "c (fst (conn_send W first m u b hs w)) \<le> Suc (c w)"
proof -
  obtain w1 e1 where 1: "(if w_open W w then (w, None) else w_connect W w) = (w1, e1)" by force
  then have c1: "c w1 = c w" using counts_sendsD(1) [OF assms] by (auto split: if_splits)
  obtain w2 e2 where 2: "w_send W m u b hs w1 = (w2, e2)" by force
  show ?thesis
    using counts_sendsD(3) [OF assms 2] c1 send_failed_count [OF assms]
    by (auto simp: conn_send_def 1 2 split: option.split)
qed

lemma conn_receive_count: "counts_sends c W \<Longrightarrow> c (fst (conn_receive env W first m w)) = c w"
proof -
  assume c: "counts_sends c W"
  obtain w1 x where 1: "w_receive W w = (w1, x)" by force
  obtain w2 e where 2: "reconnect W w1 = (w2, e)" by force
  obtain w3 y where 3: "w_read W w1 = (w3, y)" by force
  show ?thesis
    using counts_sendsD(4) [OF c 1] reconnect_count [OF c, of w1] counts_sendsD(5) [OF c 3]
    by (auto simp: conn_receive_def 1 2 3 split: sum.split)
qed

lemma conn_attempt_count: "counts_sends c W \<Longrightarrow> c (fst (conn_attempt env W first m u b hs w)) \<le> Suc (c w)"
proof -
  assume c: "counts_sends c W"
  obtain w1 r where 1: "conn_send W first m u b hs w = (w1, r)" by force
  show ?thesis
    using conn_send_count [OF c, of first m u b hs w] conn_receive_count [OF c]
    by (auto simp: conn_attempt_def 1 split: sum.split bool.split)
qed

lemma second_attempt_ends: "snd (conn_attempt env W False m u b hs w) \<noteq> Inr None"
proof -
  have f: "snd (send_failed W False e w') \<noteq> Inr False" for e w' by (cases e) simp_all
  have s: "snd (conn_send W False m u b hs w) \<noteq> Inr False"
    using f by (auto simp: conn_send_def split: prod.split option.split)
  have r: "snd (conn_receive env W False m w') \<noteq> Inr None" for w'
    by (auto simp: conn_receive_def split: prod.split sum.split)
  show ?thesis using s r by (auto simp: conn_attempt_def split: prod.splits sum.splits bool.split)
qed

text \<open>A request is sent at most twice on its connection, whatever the connection does, and the call ends with
  what one of the attempts ended with: an answer, or the error it met. A second attempt never asks for a
  third one, so the variable for the answer is never unbound.\<close>

theorem sent_at_most_twice:
  assumes "counts_sends c (he_wire env key)"
  shows "c (fst (conn_request env key meth uri body hs w)) \<le> c w + 2 \<and>
    (\<exists>first w1 r. conn_attempt env (he_wire env key) first meth uri body hs w1 = (fst (conn_request env key meth uri body hs w), r) \<and>
       r \<noteq> Inr None \<and> snd (conn_request env key meth uri body hs w) = (case r of Inl e \<Rightarrow> Inl e | Inr x \<Rightarrow> Inr (the x)))"
proof -
  let ?a = "\<lambda>first. conn_attempt env (he_wire env key) first meth uri body hs"
  obtain w1 r1 where 1: "?a True w = (w1, r1)" by force
  obtain w2 r2 where 2: "?a False w1 = (w2, r2)" by force
  have "c w1 \<le> Suc (c w)" "c w2 \<le> Suc (c w1)" "r2 \<noteq> Inr None"
    using conn_attempt_count [OF assms, of env True meth uri body hs w] conn_attempt_count [OF assms, of env False meth uri body hs w1]
      second_attempt_ends [of env "he_wire env key" meth uri body hs w1] 1 2 by auto
  moreover have "conn_request env key meth uri body hs w =
      (if r1 = Inr None then (w2, case r2 of Inl e \<Rightarrow> Inl e | Inr x \<Rightarrow> Inr (the x))
       else (w1, case r1 of Inl e \<Rightarrow> Inl e | Inr x \<Rightarrow> Inr (the x)))"
    using \<open>r2 \<noteq> Inr None\<close> by (auto simp: conn_request_def 1 2 split: sum.split option.split)
  ultimately show ?thesis using 1 2 by (cases "r1 = Inr None") (simp_all, blast+)
qed

text \<open>A connection that counts, and answers the second time only.\<close>

definition shaky :: "nat wire" where
  "shaky = \<lparr>w_open = (\<lambda>w. True), w_connect = (\<lambda>w. (w, None)), w_close = (\<lambda>w. w),
     w_send = (\<lambda>m u b hs w. (Suc w, if w = 0 then Some HttpException else None)),
     w_receive = (\<lambda>w. (w, Inr (200, ''OK'', []))), w_read = (\<lambda>w. (w, Inr ''hi''))\<rparr>"

definition shaky_env :: "nat http_env" where
  "shaky_env = \<lparr>he_wire = (\<lambda>k. shaky), he_now = (\<lambda>w. 0), he_moment = (\<lambda>w. ([], [])), he_mail_date = (\<lambda>s. None),
     he_as_string = (\<lambda>h. []), he_message = (\<lambda>s. []), he_idna = (\<lambda>s. None), he_gunzip = Inr, he_inflate = Inr, he_text = (\<lambda>e. [])\<rparr>"

theorem sent_at_most_twice_witness:
  "fst (conn_request shaky_env ''http:a'' ''GET'' ''/'' None [] 0) \<le> 2 \<and>
   fst (conn_request shaky_env ''http:a'' ''GET'' ''/'' None [] 0) = 2"
proof -
  have "counts_sends (\<lambda>w. w) (he_wire shaky_env ''http:a'')"
    by (simp add: counts_sends_def shaky_def shaky_env_def)
  from sent_at_most_twice [OF this, of "''GET''" "''/''" None "[]" 0]
  have "fst (conn_request shaky_env ''http:a'' ''GET'' ''/'' None [] 0) \<le> 2" by simp
  moreover have "fst (conn_request shaky_env ''http:a'' ''GET'' ''/'' None [] 0) = 2" by code_simp
  ultimately show ?thesis by simp
qed

section \<open>That it returns\<close>

text \<open>A call that returns from every state, with a value of this kind or an error.\<close>

definition total :: "('a \<Rightarrow> bool) \<Rightarrow> ('w, 'a) call \<Rightarrow> bool" where
  "total P c \<longleftrightarrow> (\<forall>st. \<exists>st' r. c st = Some (st', r) \<and> (\<forall>x. r = Inr x \<longrightarrow> P x))"

named_theorems total_intros \<comment> \<open>calls that return\<close>

lemma total_give [total_intros]: "P x \<Longrightarrow> total P (give x)"
  by (auto simp: total_def give_def)

lemma total_fail [total_intros]: "total P (fail e)"
  by (auto simp: total_def fail_def)

lemma total_andthen:
  "total P c \<Longrightarrow> (\<And>x. P x \<Longrightarrow> total Q (f x)) \<Longrightarrow> total Q (andthen c f)"
  unfolding total_def andthen_def
  by (rule allI, erule_tac x = st in allE) (auto split: sum.split)

lemma total_any: "total P c \<Longrightarrow> total (\<lambda>_. True) c"
  unfolding total_def by meson

lemma total_of_res: "(\<And>x. r = Inr x \<Longrightarrow> P x) \<Longrightarrow> total P (of_res r)"
  by (cases r) (auto simp: of_res_def intro: total_intros)

lemma total_state [total_intros]:
  "total (\<lambda>_. True) get_http" "total (\<lambda>_. True) get_world" "total (\<lambda>_. True) (modify f)"
  by (auto simp: total_def get_http_def get_world_def modify_def)

lemma total_then [total_intros]:
  "(\<And>x. total Q (f x)) \<Longrightarrow> total Q (andthen (of_res r) f)"
  "(\<And>x. total Q (g x)) \<Longrightarrow> total Q (andthen get_http g)"
  "(\<And>x. total Q (h x)) \<Longrightarrow> total Q (andthen get_world h)"
  "(\<And>x. total Q (k x)) \<Longrightarrow> total Q (andthen (modify m) k)"
  by (rule total_andthen [OF total_of_res [where P = "\<lambda>_. True"]]; simp)
    (rule total_andthen [OF total_state(1)], simp, rule total_andthen [OF total_state(2)], simp,
     rule total_andthen [OF total_state(3)], simp)

lemma total_when: "(\<And>i. total P (f i)) \<Longrightarrow> total P c \<Longrightarrow> total P (when_auth a f c)"
  by (cases a) (simp_all add: when_auth_def)

lemma total_sign: "total (\<lambda>_. True) (sign env i meth uri hs)"
proof -
  have "\<exists>st' r'. of_res r st = Some (st', r')" for r :: "headers res" and st :: "'a \<times> http"
    by (cases r) (auto simp: of_res_def give_def fail_def)
  then show ?thesis by (auto simp: total_def sign_def split: prod.split)
qed

text \<open>Answers that hold nobody up: no \<open>authentication-info\<close>, which may stop the reader of challenges, and no challenge of
  Google's, which begins a request of its own.\<close>

definition quiet :: "headers \<Rightarrow> bool" where
  "quiet h \<longleftrightarrow> \<not> dict_has h ''authentication-info'' \<and>
     (\<forall>cs. parse_www_authenticate h ''www-authenticate'' = Some (Inr cs) \<longrightarrow> \<not> dict_has cs ''googlelogin'')"

definition quiet_env :: "'w http_env \<Rightarrow> bool" where
  "quiet_env env \<longleftrightarrow> (\<forall>k w w' x. w_receive (he_wire env k) w = (w', Inr x) \<longrightarrow> quiet (r_headers (response_of_http x)))"

lemma quiet_cong:
  "map_of h ''authentication-info'' = map_of g ''authentication-info'' \<Longrightarrow>
     map_of h ''www-authenticate'' = map_of g ''www-authenticate'' \<Longrightarrow> quiet h = quiet g"
  by (simp add: quiet_def dict_has_def parse_www_authenticate_def)

lemma parse_returns: "\<exists>r. parse_www_authenticate h ''www-authenticate'' = Some r"
  using challenges_return by (auto simp: parse_www_authenticate_def split: option.split)

lemma quiet_decompress:
  assumes "quiet (r_headers r)" "decompress_content env r body = Inr (r', c)"
  shows "quiet (r_headers r')"
proof -
  have "map_of (r_headers r') k = map_of (r_headers r) k" if "k \<in> {''authentication-info'', ''www-authenticate''}" for k
    using assms(2) that
    by (auto simp: decompress_content_def set_header_def Let_def split: option.splits if_splits sum.splits exc.splits)
  with assms(1) show ?thesis using quiet_cong [of "r_headers r'" "r_headers r"] by simp
qed

lemma quiet_receive:
  assumes "quiet_env env" "conn_receive env (he_wire env k) first m w = (w', Inr (Some (r, c)))"
  shows "quiet (r_headers r)"
  using assms(2) quiet_decompress assms(1)
  by (fastforce simp: conn_receive_def quiet_env_def split: prod.splits sum.splits if_splits)

lemma quiet_attempt:
  "quiet_env env \<Longrightarrow> conn_attempt env (he_wire env k) first m u b hs w = (w', Inr (Some (r, c))) \<Longrightarrow> quiet (r_headers r)"
  by (auto simp: conn_attempt_def dest: quiet_receive split: prod.splits sum.splits bool.splits)

lemma quiet_request:
  assumes "quiet_env env" "conn_request env k m u b hs w = (w', Inr (r, c))"
  shows "quiet (r_headers r)"
  using assms(2) by (auto simp: conn_request_def dest: quiet_attempt [OF assms(1)] split: prod.splits sum.splits option.splits)

lemma total_exchange: "quiet_env env \<Longrightarrow> total (\<lambda>(r, c). quiet (r_headers r)) (exchange env k m u b hs)"
  by (auto simp: total_def exchange_def dest: quiet_request split: prod.split)

lemma auth_response_returns: "quiet hs \<Longrightarrow> auth_response hs a \<noteq> None"
  using parse_returns [of hs] by (cases a) (auto simp: quiet_def digest_response_def Let_def)

lemma total_answered: "quiet hs \<Longrightarrow> total (\<lambda>_. True) (answered i hs)"
proof -
  assume q: "quiet hs"
  have "\<exists>st' r'. of_res r st = Some (st', r')" for r :: "bool res" and st :: "'a \<times> http"
    by (cases r) (auto simp: of_res_def give_def fail_def)
  with auth_response_returns [OF q] show ?thesis
    by (auto simp: total_def answered_def split: option.split)
qed

lemma total_make_auth: "sch \<noteq> ''googlelogin'' \<Longrightarrow> total (\<lambda>_. True) (make_auth rec host uri hs cs (cred, sch))"
  by (auto simp: make_auth_def Let_def intro!: total_intros total_andthen [where P = "\<lambda>_. True"] total_of_res)

abbreviation quiet_triple :: "headers \<times> http_response \<times> string \<Rightarrow> bool" where
  "quiet_triple x \<equiv> quiet (r_headers (fst (snd x)))"

lemma total_try_auths:
  assumes "quiet_env env"
  shows "quiet (r_headers (fst rc)) \<Longrightarrow> ''googlelogin'' \<notin> snd ` set xs \<Longrightarrow>
    total quiet_triple (try_auths env rec key host meth uri body cs xs hs rc)"
proof (induction xs arbitrary: hs rc)
  case Nil
  then show ?case by (auto intro: total_intros)
next
  case (Cons x xs)
  obtain cred sch where x: "x = (cred, sch)" by (cases x)
  have g: "sch \<noteq> ''googlelogin''" using Cons.prems(2) x by auto
  have step: "total quiet_triple (if r_status (fst rc) = 401 then try_auths env rec key host meth uri body cs xs hs1 rc
      else andthen (modify f) (\<lambda>_. andthen get_http (\<lambda>h.
        andthen (answered (length (h_auths h) - 1) (r_headers (fst rc))) (\<lambda>_. give (hs1, rc)))))"
    if "quiet (r_headers (fst rc))" for f hs1 rc
    using Cons that by (auto intro!: total_intros total_andthen [OF total_answered [OF that]])
  have "total quiet_triple (case auth_request (he_moment env w) meth uri hs a of (a1, r) \<Rightarrow>
      andthen (of_res r) (\<lambda>hs1. andthen (exchange env key meth uri body hs1) (\<lambda>(resp, content).
        if r_status resp = 401 then try_auths env rec key host meth uri body cs xs hs1 (resp, content)
        else andthen (modify (\<lambda>h. h\<lparr>h_auths := h_auths h @ [a1]\<rparr>)) (\<lambda>_. andthen get_http (\<lambda>h.
          andthen (answered (length (h_auths h) - 1) (r_headers resp)) (\<lambda>_. give (hs1, resp, content)))))))" for a w
  proof -
    obtain a1 r where a: "auth_request (he_moment env w) meth uri hs a = (a1, r)" by force
    show ?thesis unfolding a prod.case
    proof (rule total_then(1), rule total_andthen [OF total_exchange [OF assms]])
      fix hs1 and rc :: "http_response \<times> string"
      obtain resp content where rc: "rc = (resp, content)" by force
      assume "case rc of (r, c) \<Rightarrow> quiet (r_headers r)"
      then have q: "quiet (r_headers (fst (resp, content)))" by (simp add: rc)
      from step [OF q, of hs1 "\<lambda>h. h\<lparr>h_auths := h_auths h @ [a1]\<rparr>"]
      show "total quiet_triple (case rc of (resp, content) \<Rightarrow>
        if r_status resp = 401 then try_auths env rec key host meth uri body cs xs hs1 (resp, content)
        else andthen (modify (\<lambda>h. h\<lparr>h_auths := h_auths h @ [a1]\<rparr>)) (\<lambda>_. andthen get_http (\<lambda>h.
          andthen (answered (length (h_auths h) - 1) (r_headers resp)) (\<lambda>_. give (hs1, resp, content)))))"
        by (simp only: rc prod.case fst_conv)
    qed
  qed
  then show ?case unfolding try_auths.simps x
    by (intro total_andthen [OF total_make_auth [OF g]] total_then(3))
qed

lemma total_challenged:
  assumes "quiet_env env" "quiet (r_headers (fst rc))"
  shows "total quiet_triple (challenged env rec key host meth uri body hs rc)"
proof -
  obtain p where p: "parse_www_authenticate (r_headers (fst rc)) ''www-authenticate'' = Some p" using parse_returns by blast
  have "''googlelogin'' \<notin> snd ` set (auth_attempts cs creds)" if "p = Inr cs" for cs creds
    using assms(2) p that by (auto simp: quiet_def auth_attempts_def)
  with assms p show ?thesis
    by (auto simp: challenged_def intro!: total_intros total_andthen [OF total_state(1)] total_try_auths split: sum.split)
qed

lemma total_authorized:
  assumes "quiet_env env"
  shows "total quiet_triple (authorized env key host meth uri body hs)"
  unfolding authorized_def Let_def
  by (intro total_andthen [OF total_state(1)] total_andthen [OF total_when [OF total_sign total_give]] TrueI
      total_andthen [OF total_exchange [OF assms]])
    (auto intro!: total_andthen [OF total_when [OF total_answered total_give]] total_intros
      total_andthen [OF total_when [OF total_sign total_give]] total_andthen [OF total_exchange [OF assms]])

text \<open>A requester that returns while it has this many redirections left.\<close>

definition returns_within :: "'w requester \<Rightarrow> int \<Rightarrow> bool" where
  "returns_within rec n \<longleftrightarrow>
     (\<forall>uri meth body hs k. 0 \<le> k \<and> k \<le> n \<longrightarrow> total (\<lambda>_. True) (rec uri meth body hs k))"

lemma total_rec: "returns_within rec (n - 1) \<Longrightarrow> 0 < n \<Longrightarrow> total (\<lambda>_. True) (rec uri meth body hs (n - 1))"
  by (simp add: returns_within_def)

lemma total_follow:
  assumes "returns_within rec (n - 1)" "0 < n"
  shows "total (\<lambda>_. True) (follow env rec absolute_uri meth body hs n cachekey resp content)"
  unfolding follow_def Let_def
  by (intro total_andthen [OF total_of_res [where P = "\<lambda>_. True"]] TrueI total_andthen [OF total_state(3)])
    (auto split: option.split intro!: total_intros total_andthen [OF total_rec [OF assms]])

lemma total_request_on:
  assumes "quiet_env env" "returns_within rec (n - 1)" "0 \<le> n"
  shows "total (\<lambda>_. True) (request_on env rec key host absolute_uri uri meth body hs n cachekey)"
  unfolding request_on_def
  by (intro total_andthen [OF total_authorized [OF assms(1)]], clarify,
      rule total_andthen [OF total_challenged [OF assms(1)]], simp, clarify)
    (use assms(3) in \<open>auto simp: Let_def intro!: total_intros total_andthen [OF total_state(1)] total_andthen [OF total_state(3)]
      total_follow [OF assms(2)]\<close>)

lemma total_after: "total (\<lambda>_. True) (after_validation env meth info hs content cachekey rc)"
  by (auto simp: after_validation_def not_modified_def Let_def split: prod.split
      intro!: total_intros total_andthen [OF total_state(3)] total_andthen [OF total_of_res [where P = "\<lambda>_. True"]])

lemma total_with_entry:
  assumes "quiet_env env" "returns_within rec (n - 1)" "0 \<le> n"
  shows "total (\<lambda>_. True) (with_entry env rec key host absolute_uri uri meth body hs n cachekey info content)"
proof (cases "map_of info ''-x-permanent-redirect-url''")
  case None
  then show ?thesis unfolding with_entry_def
    by (auto intro!: total_intros total_after total_andthen [OF total_state(1)] total_andthen [OF total_state(2)]
        total_andthen [OF total_of_res [where P = "\<lambda>_. True"]] total_andthen [OF total_request_on [OF assms]])
next
  case (Some url)
  then show ?thesis unfolding with_entry_def
    by (auto intro!: total_intros total_after total_andthen [OF total_rec [OF assms(2)]]
        total_andthen [OF total_of_res [where P = "\<lambda>_. True"]])
qed

lemma total_without_entry:
  assumes "quiet_env env" "returns_within rec (n - 1)" "0 \<le> n"
  shows "total (\<lambda>_. True) (without_entry env rec key host absolute_uri uri meth body hs n cachekey info)"
  unfolding without_entry_def
  by (auto intro!: total_intros total_andthen [OF total_of_res [where P = "\<lambda>_. True"]] total_andthen [OF total_request_on [OF assms]])

lemma total_use_connection: "total (\<lambda>_. True) (use_connection sch authority)"
  unfolding use_connection_def Let_def
  by (intro total_andthen [OF total_state(1)]) (auto intro: total_intros)

lemma total_request_body:
  assumes "quiet_env env" "returns_within rec (n - 1)" "0 \<le> n"
  shows "total (\<lambda>_. True) (request_body env rec uri meth body hs n)"
proof -
  have "total (\<lambda>_. True) (case x of (sch0, authority0, request_uri, defrag_uri) \<Rightarrow>
      case secure_port sch0 authority0 of (sch, authority) \<Rightarrow> andthen (use_connection sch authority) (F sch authority request_uri defrag_uri))"
    if "\<And>a b c d u. total (\<lambda>_. True) (F a b c d u)" for x F
    using that by (auto split: prod.split intro!: total_andthen [OF total_use_connection])
  note start = this
  show ?thesis unfolding request_body_def Let_def
    by (rule total_then(1), rule start)
      (auto split: option.split intro!: total_intros total_with_entry [OF assms] total_without_entry [OF assms])
qed

lemma total_request_step:
  assumes "quiet_env env" "returns_within rec (n - 1)" "0 \<le> n"
  shows "total (\<lambda>_. True) (request_step env rec uri meth body hs n)"
  unfolding total_def
proof
  fix st
  obtain st1 r where 1: "request_body env rec uri meth body hs n st = Some (st1, r)"
    using total_request_body [OF assms, of uri meth body hs] unfolding total_def by blast
  have "\<exists>st' r. as_answer env e st1 = Some (st', r)" for e
    by (auto simp: as_answer_def give_def fail_def split: http_error.split option.split conn_exc.split)
  then show "\<exists>st' r. request_step env rec uri meth body hs n st = Some (st', r) \<and> (\<forall>x. r = Inr x \<longrightarrow> True)"
    by (auto simp: request_step_def 1 split: sum.split)
qed

lemma request_returns_within: "quiet_env env \<Longrightarrow> returns_within (request (Suc n) env) (int n)"
proof (induction n)
  case 0
  have "returns_within (request 0 env) (-1)" 
    unfolding returns_within_def by (intro allI impI) linarith
  then have "total (\<lambda>_. True) (request_step env (request 0 env) uri meth body hs 0)" for uri meth body hs
    using total_request_step [OF 0, of "request 0 env" 0] by simp
  moreover have "k = 0" if "0 \<le> k" "k \<le> int 0" for k using that by simp
  ultimately show ?case unfolding returns_within_def by (metis request.simps(2))
next
  case (Suc n)
  note IH = Suc.IH [OF Suc.prems]
  have "total (\<lambda>_. True) (request_step env (request (Suc n) env) uri meth body hs k)" if "0 \<le> k" "k \<le> int (Suc n)" for uri meth body hs k
    using that IH by (intro total_request_step [OF Suc.prems]) (auto simp: returns_within_def)
  then show ?case by (simp add: returns_within_def)
qed

text \<open>C29: A request returns, with an answer or an error, as soon as the model is given as many levels of calls as
  the request has redirections to follow and one more, whatever the connections and servers do, if the
  answers hold nobody up and the number of redirections is not negative.\<close>

theorem request_returns:
  assumes "quiet_env env" "0 \<le> redirections" "nat redirections < fuel"
  shows "\<exists>st' r. request fuel env uri meth body hs redirections st = Some (st', r)"
proof -
  obtain n where n: "fuel = Suc n" "redirections \<le> int n" using assms(2,3) by (cases fuel) auto
  then show ?thesis using request_returns_within [OF assms(1), of n] assms(2)
    unfolding returns_within_def total_def by blast
qed

theorem request_returns_witness:
  "\<exists>st' r. request 6 shaky_env ''http://a/'' ''GET'' None [] DEFAULT_MAX_REDIRECTS (0, new_http None) = Some (st', r)"
proof (rule request_returns)
  show "quiet_env shaky_env"
    by (auto simp: quiet_env_def shaky_env_def shaky_def quiet_def response_of_http_def new_response_def dict_has_def
        parse_www_authenticate_def)
qed (simp_all add: DEFAULT_MAX_REDIRECTS_def)

end
