(* ===== verification/HttpCaching.thy ===== *)
theory HttpCaching
  imports HttpReturn
begin

text \<open>
  The client of \<open>httplib2\<close> with its cache: what an answer leaves there is what later requests are given, without a
  connection being used, for as long as it is fresh.
\<close>

section \<open>Reading what was stored\<close>

lemma andthen_simps [simp]:
  "andthen (give x) f st = f x st"
  "andthen (of_res (Inr x)) f st = f x st"
  "andthen (of_res (Inl e)) f st = Some (st, Inl (Raised e))"
  "andthen get_http g st = g (snd st) st"
  "andthen get_world h st = h (fst st) st"
  "andthen (modify m) k st = k () (fst st, m (snd st))"
  by (simp_all add: andthen_def give_def of_res_def fail_def get_http_def get_world_def modify_def)

lemma give_apply [simp]: "give x st = Some (st, Inr x)"
  by (simp add: give_def)

text \<open>What the mail library is relied on for: an entry begins with its headers and an empty line, the first in it, and
  the headers are read back.\<close>

definition mail_reads :: "'w http_env \<Rightarrow> headers \<Rightarrow> int \<Rightarrow> bool" where
  "mail_reads env info status \<longleftrightarrow>
     (\<exists>m. status_header status @ fix_crlf (he_as_string env info) = m @ blank_line \<and>
        (\<forall>t. str_find (m @ blank_line @ t) blank_line = Some (length m)) \<and>
        he_message env m = (''status'', show_int status) # info)"

lemma read_stored:
  assumes "h_cache h0 = Some c" "key \<noteq> []" "\<not> no_store q (r_headers r)" "r_status r \<noteq> 304"
    and "mail_reads env (cache_info q (r_headers r)) (r_status r)"
  shows "read_entry env (Some key) (store_entry env q r content (Some key) h0) =
    Inr ((''status'', show_int (r_status r)) # cache_info q (r_headers r), Some content)"
proof -
  let ?i = "cache_info q (r_headers r)"
  from assms(5) obtain m where m: "status_header (r_status r) @ fix_crlf (he_as_string env ?i) = m @ blank_line"
    "\<And>t. str_find (m @ blank_line @ t) blank_line = Some (length m)"
    "he_message env m = (''status'', show_int (r_status r)) # ?i"
    by (auto simp: mail_reads_def)
  have entry: "cache_text (he_as_string env) q (response.truncate r) content = m @ blank_line @ content"
    using m(1) by (simp add: cache_text_def response.defs)
  have rh: "r_headers (response.truncate r) = r_headers r" by (simp add: response.defs)
  have "hc_get (he_idna env) key (hc_set (he_idna env) key v c) = Some v" for v
    by (simp add: hc_get_def hc_set_def)
  moreover have "drop (length m + 4) (m @ blank_line @ content) = content" by (simp add: blank_line_def)
  ultimately show ?thesis
    using assms(1-3) m(2) [of content] m(3)
    by (simp add: read_entry_def store_entry_def update_cache_def entry rh) (simp add: blank_line_def)
qed

lemma use_connection_keeps:
  assumes "sch \<in> {''http'', ''https''}"
  shows "\<exists>h'. use_connection sch authority (w, h) = Some ((w, h'), Inr ()) \<and> h_cache h' = h_cache h \<and>
    h_optimistic h' = h_optimistic h"
  using assms by (auto simp: use_connection_def Let_def modify_def)

lemma info_no_status: "''status'' \<notin> fst ` set (cache_info q hs)"
  by (auto simp: cache_info_def split: option.splits if_splits)

lemma dict_update_other: "k \<notin> fst ` set e \<Longrightarrow> map_of (dict_update d e) k = map_of d k"
  by (induction e arbitrary: d) auto

lemma secure_port_scheme: "sch \<in> {''http'', ''https''} \<Longrightarrow> fst (secure_port sch a) \<in> {''http'', ''https''}"
  by (auto simp: secure_port_def split: list.split)

text \<open>C30: What was stored is served while it is fresh: when the client has taken an answer into its cache, a later
  GET for the same URL whose headers agree with those the answer varies with is given the stored headers
  and the stored content, marked as coming from the cache, and no connection is used, provided the entry
  is fresh for the request by the rules of freshness and is no permanent redirect.\<close>

theorem stored_answer_served:
  assumes url: "urlnorm uri = Inr (sch, authority, request_uri, key)" "sch \<in> {''http'', ''https''}"
    and stored: "h_cache h0 = Some c" "\<not> no_store q (r_headers r)" "r_status r \<noteq> 304"
      "mail_reads env (cache_info q (r_headers r)) (r_status r)" "''GET'' \<notin> set (h_optimistic h0)"
    and info: "info = (''status'', show_int (r_status r)) # cache_info q (r_headers r)"
      "hs1 = accept_encoding (prepare_headers hs)"
    and request: "\<not> dict_has hs1 ''range''" "vary_matches info hs1" "map_of info ''-x-permanent-redirect-url'' = None"
      "entry_disposition (he_mail_date env) (he_now env w) info hs1 = Inr (hs2, FRESH)"
  shows "\<exists>h1. request (Suc n) env uri ''GET'' body hs redirections (w, store_entry env q r content (Some key) h0) =
      Some ((w, h1), Inr (new_response (dict_update [] info) (r_status r) ''Ok''\<lparr>r_fromcache := True\<rparr>, content)) \<and>
    h_cache h1 = h_cache (store_entry env q r content (Some key) h0)"
proof -
  let ?h = "store_entry env q r content (Some key) h0"
  have key: "key \<noteq> []" using url by (auto simp: urlnorm_def Let_def split: if_splits)
  note read = read_stored [OF stored(1) key stored(2,3,4), of content]
  have c: "h_cache ?h \<noteq> None" using stored(1) by (simp add: store_entry_def)
  obtain s a where s: "secure_port sch authority = (s, a)" by force
  then have sch: "s \<in> {''http'', ''https''}" using secure_port_scheme [OF url(2), of authority] by simp
  have opt: "''GET'' \<notin> set (h_optimistic ?h)" using stored(5) by (simp add: store_entry_def)
  have resp: "response_of_message info = Inr (new_response (dict_update [] info) (r_status r) ''Ok'')"
    by (simp add: response_of_message_def info(1) dict_update_other [OF info_no_status])
  have match: "if_match h ''GET'' info hs1 = hs1" if "h_optimistic h = h_optimistic ?h" for h
    using opt that by (simp add: if_match_def split: option.split)
  obtain h1 where h1: "use_connection s a (w, ?h) = Some ((w, h1), Inr ())" "h_cache h1 = h_cache ?h" "h_optimistic h1 = h_optimistic ?h"
    using use_connection_keeps [OF sch, of a w ?h] by (elim exE conjE)
  have read1: "read_entry env (Some key) h1 = Inr (info, Some content)"
    using read h1(2) by (simp add: read_entry_def info(1))
  have "request_body env (request n env) uri ''GET'' body hs redirections (w, ?h) =
      with_entry env (request n env) (s @ '':'' @ a) a uri request_uri ''GET'' body hs1 redirections (Some key) info content (w, h1)"
  proof -
    have g: "andthen (use_connection s a) f (w, ?h) = f () (w, h1)" for f :: "unit \<Rightarrow> ('a, http_response \<times> string) call"
      by (simp add: andthen_def h1(1))
    obtain c1 where c1: "h_cache h1 = Some c1" using c h1(2) by auto
    show ?thesis
      unfolding request_body_def Let_def url(1) andthen_simps prod.case s g info(2) [symmetric]
      using c1 read1 request(1,2) match [OF h1(3)]
      by (simp add: andthen_def of_res_def get_http_def give_def modify_def)
  qed
  also have "\<dots> = Some ((w, h1), Inr (new_response (dict_update [] info) (r_status r) ''Ok''\<lparr>r_fromcache := True\<rparr>, content))"
    by (simp add: with_entry_def request(3,4) resp andthen_def get_world_def get_http_def of_res_def give_def)
  finally show ?thesis by (simp add: request_step_def h1(2))
qed

text \<open>An answer that is fresh for ten seconds, with a client that asks after five.\<close>

definition kept :: headers where
  "kept = [(''cache-control'', ''max-age=10''), (''date'', ''d'')]"

definition kept_response :: http_response where
  "kept_response = new_response kept 200 ''OK''"

definition kept_text :: string where
  "kept_text = ''cache-control: max-age=10'' @ [CHR 0x0A] @ ''date: d''"

definition silent :: "'w wire" where
  "silent = \<lparr>w_open = (\<lambda>w. False), w_connect = (\<lambda>w. (w, Some Refused)), w_close = (\<lambda>w. w),
     w_send = (\<lambda>m u b hs w. (w, Some Refused)), w_receive = (\<lambda>w. (w, Inl Refused)), w_read = (\<lambda>w. (w, Inl Refused))\<rparr>"

definition clock_env :: "int http_env" where
  "clock_env = \<lparr>he_wire = (\<lambda>k. silent), he_now = (\<lambda>w. w), he_moment = (\<lambda>w. ([], [])), he_mail_date = (\<lambda>s. Some 100),
     he_as_string = (\<lambda>h. kept_text @ [CHR 0x0A, CHR 0x0A]), he_message = (\<lambda>s. (''status'', ''200'') # kept),
     he_idna = (\<lambda>s. None), he_gunzip = Inr, he_inflate = Inr, he_text = (\<lambda>e. [])\<rparr>"

lemma clock_env_reads: "mail_reads clock_env (cache_info [] kept) 200"
proof -
  let ?m = "''status: 200'' @ [CHR 0x0D, CHR 0x0A] @ fix_crlf kept_text"
  have "status_header 200 @ fix_crlf (he_as_string clock_env (cache_info [] kept)) = ?m @ blank_line" by code_simp
  moreover have "?m = ''status: 200'' @ [CHR 0x0D, CHR 0x0A] @ ''cache-control: max-age=10'' @ [CHR 0x0D, CHR 0x0A] @ ''date: d''"
    by code_simp
  then have "str_find (?m @ blank_line @ t) blank_line = Some (length ?m)" for t by (simp add: blank_line_def)
  moreover have "he_message clock_env ?m = (''status'', show_int 200) # cache_info [] kept" by code_simp
  ultimately show ?thesis unfolding mail_reads_def by blast
qed

theorem stored_answer_served_witness:
  "\<exists>h1. request 1 clock_env ''http://a/'' ''GET'' None [] 5
      (105, store_entry clock_env [] kept_response ''hello'' (Some ''http://a/'') (new_http (Some []))) =
    Some ((105, h1), Inr (new_response ((''status'', ''200'') # kept) 200 ''Ok''\<lparr>r_fromcache := True\<rparr>, ''hello''))"
proof -
  let ?info = "(''status'', ''200'') # kept" and ?hs = "accept_encoding (prepare_headers [])"
  have 1: "urlnorm ''http://a/'' = Inr (''http'', ''a'', ''/'', ''http://a/'')" by code_simp
  have 2: "h_cache (new_http (Some [])) = Some []" "''GET'' \<notin> set (h_optimistic (new_http (Some [])))" by code_simp+
  have 3: "\<not> no_store [] (r_headers kept_response)" "r_status kept_response \<noteq> 304" by code_simp+
  have 4: "mail_reads clock_env (cache_info [] (r_headers kept_response)) (r_status kept_response)"
    using clock_env_reads by (simp add: kept_response_def new_response_def)
  have 5: "?info = (''status'', show_int (r_status kept_response)) # cache_info [] (r_headers kept_response)" by code_simp
  have 6: "\<not> dict_has ?hs ''range''" "vary_matches ?info ?hs" "map_of ?info ''-x-permanent-redirect-url'' = None" by code_simp+
  have 7: "entry_disposition (he_mail_date clock_env) (he_now clock_env 105) ?info ?hs = Inr (?hs, FRESH)" by code_simp
  have 8: "dict_update [] ?info = ?info" "r_status kept_response = 200" by code_simp+
  from stored_answer_served [OF 1 _ 2(1) 3 4 2(2) 5 refl 6 7, of 0 None 5 "''hello''"] 8 show ?thesis by auto
qed

section \<open>What does not end, and what is passed on\<close>

text \<open>A server that answers every request by sending the client to the same place.\<close>

definition circle :: "unit wire" where
  "circle = \<lparr>w_open = (\<lambda>w. True), w_connect = (\<lambda>w. (w, None)), w_close = (\<lambda>w. w), w_send = (\<lambda>m u b hs w. (w, None)),
     w_receive = (\<lambda>w. (w, Inr (302, ''Found'', [(''location'', ''http://a/'')]))), w_read = (\<lambda>w. (w, Inr []))\<rparr>"

definition circle_env :: "unit http_env" where
  "circle_env = \<lparr>he_wire = (\<lambda>k. circle), he_now = (\<lambda>w. 0), he_moment = (\<lambda>w. ([], [])), he_mail_date = (\<lambda>s. None),
     he_as_string = (\<lambda>h. []), he_message = (\<lambda>s. []), he_idna = (\<lambda>s. None), he_gunzip = Inr, he_inflate = Inr, he_text = (\<lambda>e. [])\<rparr>"

definition circle_answer :: http_response where
  "circle_answer = new_response [(''location'', ''http://a/''), (''status'', ''302'')] 302 ''Found''"

definition sent_headers :: headers where
  "sent_headers = [(''user-agent'', default_agent), (''accept-encoding'', ''gzip, deflate'')]"

definition fresh_client :: "http \<Rightarrow> bool" where
  "fresh_client h \<longleftrightarrow> h_cache h = None \<and> h_auths h = [] \<and> h_follow_redirects h \<and> \<not> h_force_status h"

lemma circle_exchange: "exchange circle_env key ''GET'' uri body hs st = Some (st, Inr (circle_answer, []))"
proof -
  have "response_of_http (302, ''Found'', [(''location'', ''http://a/'')]) = circle_answer" by code_simp
  then have "conn_request circle_env key ''GET'' uri body hs () = ((), Inr (circle_answer, []))"
    by (simp add: conn_request_def conn_attempt_def conn_send_def conn_receive_def circle_env_def circle_def
        decompress_content_def) (simp add: circle_answer_def new_response_def)
  then show ?thesis by (cases st) (simp add: exchange_def)
qed

lemma circle_step:
  assumes "fresh_client h" "redirections \<noteq> 0" "hs \<in> {[], sent_headers}"
  shows "\<exists>h'. fresh_client h' \<and> (rec ''http://a/'' ''GET'' None sent_headers (redirections - 1) ((), h') = None \<longrightarrow>
    request_step circle_env rec ''http://a/'' ''GET'' None hs redirections ((), h) = None)"
proof -
  have url: "urlnorm ''http://a/'' = Inr (''http'', ''a'', ''/'', ''http://a/'')" "secure_port ''http'' ''a'' = (''http'', ''a'')"
    by code_simp+
  have "accept_encoding (prepare_headers []) = sent_headers" "accept_encoding (prepare_headers sent_headers) = sent_headers"
    by code_simp+
  with assms(3) have hs: "accept_encoding (prepare_headers hs) = sent_headers" by auto
  have cc: "\<not> dict_has (parse_cache_control sent_headers) ''only-if-cached''" "redirected_headers sent_headers = sent_headers"
    by code_simp+
  have au: "up_authority (parse_uri ''http://a/'') = Some ''a''" by code_simp
  have loc: "fix_location uri circle_answer = Inr circle_answer" for uri
    using au by (simp add: fix_location_def circle_answer_def new_response_def)
  have ans: "r_status circle_answer = 302" "map_of (r_headers circle_answer) ''location'' = Some ''http://a/''"
    by (simp_all add: circle_answer_def new_response_def)
  define h' where "h' = (if dict_has (h_connections h) ''http:a'' then h
    else h\<lparr>h_connections := AList.update ''http:a'' None (h_connections h)\<rparr>)"
  have h': "fresh_client h'" "h_cache h' = None" "h_auths h' = []" "h_follow_redirects h'" "\<not> h_force_status h'"
    using assms(1) by (auto simp: fresh_client_def h'_def)
  have u: "use_connection ''http'' ''a'' ((), h) = Some (((), h'), Inr ())"
    by (simp add: use_connection_def andthen_def get_http_def give_def modify_def h'_def)
  have na: "nearest_auth host uri [] = None" for host uri
    by (simp add: nearest_auth_def)
  have 1: "andthen (authorized circle_env ''http:a'' ''a'' ''GET'' uri b sent_headers) f ((), h') =
      f (sent_headers, circle_answer, []) ((), h')" for uri b f
    unfolding authorized_def Let_def
    by (simp add: andthen_def get_http_def h'(3) na when_auth_def give_def circle_exchange)
  have 2: "challenged circle_env rec ''http:a'' ''a'' ''GET'' ''/'' b sent_headers (circle_answer, []) = give (sent_headers, circle_answer, [])" for b
    by (simp add: challenged_def ans)
  have 3: "follow circle_env rec ''http://a/'' ''GET'' None sent_headers redirections None circle_answer [] ((), h') = None"
    if "rec ''http://a/'' ''GET'' None sent_headers (redirections - 1) ((), h') = None"
    unfolding follow_def Let_def loc
    by (simp add: andthen_def of_res_def give_def modify_def ans cc that)
  have "request_on circle_env rec ''http:a'' ''a'' ''http://a/'' ''/'' ''GET'' None sent_headers redirections None ((), h') = None"
    if "rec ''http://a/'' ''GET'' None sent_headers (redirections - 1) ((), h') = None"
    unfolding request_on_def 1 prod.case 2
    by (simp add: andthen_def give_def get_http_def ans h' redirect_status_def assms(2) dict_has_def 3 [OF that])
  then have "request_body circle_env rec ''http://a/'' ''GET'' None hs redirections ((), h) = None"
    if "rec ''http://a/'' ''GET'' None sent_headers (redirections - 1) ((), h') = None"
    using that h'(2) unfolding request_body_def Let_def url(1) prod.case url(2) hs
    by (simp add: andthen_def of_res_def give_def url u get_http_def modify_def read_entry_def if_match_def vary_matches_def
        without_entry_def cc)
  with h'(1) show ?thesis by (auto simp: request_step_def)
qed

text \<open>With a negative number of redirections the number never becomes zero, and the client follows the circle for ever.\<close>

lemma negative_redirections_never_end:
  "redirections < 0 \<Longrightarrow> fresh_client h \<Longrightarrow> hs \<in> {[], sent_headers} \<Longrightarrow>
     request fuel circle_env ''http://a/'' ''GET'' None hs redirections ((), h) = None"
proof (induction fuel arbitrary: redirections h hs)
  case (Suc fuel)
  then obtain h' where "fresh_client h'" "request fuel circle_env ''http://a/'' ''GET'' None sent_headers (redirections - 1) ((), h') = None \<longrightarrow>
    request_step circle_env (request fuel circle_env) ''http://a/'' ''GET'' None hs redirections ((), h) = None"
    using circle_step [of h redirections hs "request fuel circle_env"] by auto
  with Suc show ?case by simp
qed simp

text \<open>The headers of a redirected request are those of the first, with its authorization, whatever the new host is.\<close>

lemma redirect_keeps_authorization:
  "map_of (redirected_headers hs) ''authorization'' = map_of hs ''authorization''"
  by (simp add: redirected_headers_def)

end
