(* ===== verification/Socks.thy ===== *)
theory Socks
  imports HttpLib2
begin

text \<open>
  The proxies of \<open>socialnet/httplib2-0.7.1/python2/httplib2/socks.py\<close>: the negotiation with SOCKS4, SOCKS5 and
  HTTP proxies that \<open>socksocket.connect\<close> runs. The socket, the resolver and \<open>inet_aton\<close> are arguments; what is
  received comes in pieces of any size. Byte strings are Python 2 strings, so that \<open>encode\<close> of a character above
  127 raises.
\<close>

section \<open>Sockets\<close>

datatype socks_error =
    GeneralProxyError int string
  | Socks5AuthError int string
  | Socks5Error int string
  | Socks4Error int string
  | ProxyHTTPError int string
  | SocksRaised exc

type_synonym 'a sres = "socks_error + 'a"

text \<open>\<open>recv(n)\<close> gives at most \<open>n\<close> bytes, none at the end; \<open>aton\<close> reads the text of an IPv4 address.\<close>

record 'w sock_env =
  ke_recv :: "nat \<Rightarrow> 'w \<Rightarrow> 'w \<times> (exc + string)"
  ke_send :: "string \<Rightarrow> 'w \<Rightarrow> 'w \<times> unit res"
  ke_close :: "'w \<Rightarrow> 'w"
  ke_connect :: "string \<Rightarrow> int \<Rightarrow> 'w \<Rightarrow> 'w \<times> unit res"
  ke_resolve :: "string \<Rightarrow> 'w \<Rightarrow> 'w \<times> (exc + string)"
  ke_aton :: "string \<Rightarrow> string option"
  ke_ntoa :: "string \<Rightarrow> string"

datatype proxy_type = SOCKS4 | SOCKS5 | HTTP_PROXY | OtherProxy int

record proxy =
  px_type :: "proxy_type option"
  px_addr :: string
  px_port :: "int option"
  px_rdns :: bool
  px_user :: "string option"
  px_pass :: "string option"

record socksocket =
  sk_proxy :: proxy
  sk_sockname :: "(string \<times> nat) option"
  sk_peername :: "(string \<times> int) option"

definition no_proxy :: proxy where
  "no_proxy = \<lparr>px_type = None, px_addr = [], px_port = None, px_rdns = False, px_user = None, px_pass = None\<rparr>"

text \<open>A new socket takes the default proxy, if there is one.\<close>

definition new_socksocket :: "proxy option \<Rightarrow> socksocket" where
  "new_socksocket dp = \<lparr>sk_proxy = (case dp of None \<Rightarrow> no_proxy | Some p \<Rightarrow> p), sk_sockname = None, sk_peername = None\<rparr>"

definition setproxy :: "proxy \<Rightarrow> socksocket \<Rightarrow> socksocket" where
  "setproxy p s = s\<lparr>sk_proxy := p\<rparr>"

section \<open>Steps of a negotiation\<close>

type_synonym ('w, 'a) sstep = "'w \<Rightarrow> 'w \<times> 'a sres"

definition sreturn :: "'a \<Rightarrow> ('w, 'a) sstep" where
  "sreturn x w = (w, Inr x)"

definition sraise :: "socks_error \<Rightarrow> ('w, 'a) sstep" where
  "sraise e w = (w, Inl e)"

definition sbind :: "('w, 'a) sstep \<Rightarrow> ('a \<Rightarrow> ('w, 'b) sstep) \<Rightarrow> ('w, 'b) sstep" where
  "sbind f g w = (case f w of (w1, Inl e) \<Rightarrow> (w1, Inl e) | (w1, Inr x) \<Rightarrow> g x w1)"

definition slift :: "('w \<Rightarrow> 'w \<times> (exc + 'a)) \<Rightarrow> ('w, 'a) sstep" where
  "slift f w = (case f w of (w1, Inl e) \<Rightarrow> (w1, Inl (SocksRaised e)) | (w1, Inr x) \<Rightarrow> (w1, Inr x))"

definition of_exc :: "'a res \<Rightarrow> ('w, 'a) sstep" where
  "of_exc r w = (w, case r of Inl e \<Rightarrow> Inl (SocksRaised e) | Inr x \<Rightarrow> Inr x)"

text \<open>\<open>self.close()\<close> and the exception.\<close>

definition close_raise :: "'w sock_env \<Rightarrow> socks_error \<Rightarrow> ('w, 'a) sstep" where
  "close_raise env e w = (ke_close env w, Inl e)"

definition general_errors :: "string list" where
  "general_errors = [''success'', ''invalid data'', ''not connected'', ''not available'', ''bad proxy type'', ''bad input'']"

definition general_error :: "nat \<Rightarrow> socks_error" where
  "general_error n = GeneralProxyError (int n) (general_errors ! n)"

definition closed_early :: socks_error where
  "closed_early = GeneralProxyError 0 ''connection closed unexpectedly''"

text \<open>\<open>__recvall\<close>, once something was received.\<close>

function recv_more :: "'w sock_env \<Rightarrow> nat \<Rightarrow> string \<Rightarrow> ('w, string) sstep" where
  "recv_more env n data w =
     (if n \<le> length data then (w, Inr data)
      else
        (case ke_recv env (n - length data) w of
           (w1, Inl e) \<Rightarrow> (w1, Inl (SocksRaised e))
         | (w1, Inr d) \<Rightarrow> if d = [] then (w1, Inl closed_early) else recv_more env n (data @ d) w1))"
  by pat_completeness auto
termination by (relation "measure (\<lambda>(env, n, data, w). n - length data)") (auto intro: diff_less_mono2)

declare recv_more.simps [simp del]

definition recvall :: "'w sock_env \<Rightarrow> nat \<Rightarrow> ('w, string) sstep" where
  "recvall env n = sbind (slift (ke_recv env n)) (\<lambda>data. recv_more env n data)"

definition send_all :: "'w sock_env \<Rightarrow> string \<Rightarrow> ('w, unit) sstep" where
  "send_all env s = slift (ke_send env s)"

definition byte :: "nat \<Rightarrow> char" where
  "byte n = char_of n"

text \<open>\<open>chr(n)\<close> raises above 255; \<open>chr(n).encode()\<close> above 127.\<close>

definition chr_byte :: "nat \<Rightarrow> string res" where
  "chr_byte n = (if n < 256 then Inr [byte n] else Inl (ValueError ''chr() arg not in range(256)''))"

definition chr_encode :: "nat \<Rightarrow> string res" where
  "chr_encode n = rbind (chr_byte n) (\<lambda>c. if n < 128 then Inr c else Inl (ValueError ''ascii codec cannot decode byte''))"

text \<open>\<open>struct.pack('>H', port)\<close> and back.\<close>

definition pack_port :: "int \<Rightarrow> string res" where
  "pack_port p = (if 0 \<le> p \<and> p < 65536 then Inr [byte (nat p div 256), byte (nat p mod 256)] else Inl (ValueError ''struct.error''))"

definition unpack_port :: "string \<Rightarrow> nat" where
  "unpack_port s = of_char (s ! 0) * 256 + of_char (s ! 1)"

definition opt_len :: "string option \<Rightarrow> string res" where
  "opt_len s = (case s of None \<Rightarrow> Inl (TypeError ''object of type NoneType has no len()'') | Some x \<Rightarrow> rbind (chr_byte (length x)) (\<lambda>c. Inr (c @ x)))"

section \<open>SOCKS5\<close>

definition socks5_errors :: "string list" where
  "socks5_errors = [''succeeded'', ''general SOCKS server failure'', ''connection not allowed by ruleset'', ''Network unreachable'',
     ''Host unreachable'', ''Connection refused'', ''TTL expired'', ''Command not supported'', ''Address type not supported'', ''Unknown error'']"

definition socks5_auth_errors :: "string list" where
  "socks5_auth_errors = [''succeeded'', ''authentication is required'', ''all offered authentication methods were rejected'',
     ''unknown username or invalid password'', ''unknown error'']"

definition greeting :: "proxy \<Rightarrow> string" where
  "greeting p = (if px_user p \<noteq> None \<and> px_pass p \<noteq> None then [byte 5, byte 2, byte 0, byte 2] else [byte 5, byte 1, byte 0])"

text \<open>The authentication with user name and password.\<close>

definition credentials_text :: "proxy \<Rightarrow> string res" where
  "credentials_text p = rbind (opt_len (px_user p)) (\<lambda>u. rbind (opt_len (px_pass p)) (\<lambda>s. Inr ([byte 1] @ u @ s)))"

definition authenticate5 :: "'w sock_env \<Rightarrow> proxy \<Rightarrow> string \<Rightarrow> ('w, unit) sstep" where
  "authenticate5 env p chosen =
     (if take 1 (drop 1 chosen) = [byte 0] then sreturn ()
      else if take 1 (drop 1 chosen) = [byte 2] then
        sbind (of_exc (credentials_text p)) (\<lambda>msg.
        sbind (send_all env msg) (\<lambda>_.
        sbind (recvall env 2) (\<lambda>stat.
          if take 1 stat \<noteq> [byte 1] then close_raise env (general_error 1)
          else if take 1 (drop 1 stat) \<noteq> [byte 0] then close_raise env (Socks5AuthError 3 (socks5_auth_errors ! 3))
          else sreturn ())))
      else close_raise env (SocksRaised (ValueError ''ascii codec cannot decode byte'')))"

text \<open>The address in the request: four bytes, or the name when the proxy is to resolve it.\<close>

definition target5 :: "'w sock_env \<Rightarrow> proxy \<Rightarrow> string \<Rightarrow> ('w, string option \<times> string) sstep" where
  "target5 env p destaddr =
     (case ke_aton env destaddr of
        Some ip \<Rightarrow> sreturn (Some ip, [byte 1] @ ip)
      | None \<Rightarrow>
          if px_rdns p then
            sbind (of_exc (chr_encode (length destaddr))) (\<lambda>n. sreturn (None, [byte 3] @ n @ destaddr))
          else
            sbind (slift (ke_resolve env destaddr)) (\<lambda>a.
              case ke_aton env a of
                Some ip \<Rightarrow> sreturn (Some ip, [byte 1] @ ip)
              | None \<Rightarrow> sraise (SocksRaised (IOError ''illegal IP address string''))))"

definition bound_address5 :: "'w sock_env \<Rightarrow> string \<Rightarrow> ('w, string) sstep" where
  "bound_address5 env resp =
     (if take 1 resp \<noteq> [byte 5] then close_raise env (general_error 1)
      else if take 1 (drop 1 resp) \<noteq> [byte 0] then
        (let n = of_char (resp ! 1) in
         close_raise env (if n \<le> 8 then Socks5Error (int n) (socks5_errors ! n) else Socks5Error 9 (socks5_errors ! 9)))
      else if take 1 (drop 3 resp) = [byte 1] then recvall env 4
      else if take 1 (drop 3 resp) = [byte 3] then
        sbind (slift (ke_recv env 1)) (\<lambda>n.
          if n = [] then sraise (SocksRaised (TypeError ''ord() expected a character'')) else recvall env (of_char (n ! 0)))
      else close_raise env (general_error 1))"

definition negotiate5 :: "'w sock_env \<Rightarrow> string \<Rightarrow> int \<Rightarrow> socksocket \<Rightarrow> ('w, socksocket) sstep" where
  "negotiate5 env destaddr destport s =
     (let p = sk_proxy s in
      sbind (send_all env (greeting p)) (\<lambda>_.
      sbind (recvall env 2) (\<lambda>chosen.
      if take 1 chosen \<noteq> [byte 5] then close_raise env (general_error 1)
      else
        sbind (authenticate5 env p chosen) (\<lambda>_.
        sbind (target5 env p destaddr) (\<lambda>(ip, target).
        sbind (of_exc (pack_port destport)) (\<lambda>port.
        sbind (send_all env ([byte 5, byte 1, byte 0] @ target @ port)) (\<lambda>_.
        sbind (recvall env 4) (\<lambda>resp.
        sbind (bound_address5 env resp) (\<lambda>bound.
        sbind (recvall env 2) (\<lambda>bport.
        sreturn (s\<lparr>sk_sockname := Some (bound, unpack_port bport),
          sk_peername := Some (case ip of Some a \<Rightarrow> ke_ntoa env a | None \<Rightarrow> destaddr, destport)\<rparr>)))))))))))"

section \<open>SOCKS4\<close>

definition socks4_errors :: "string list" where
  "socks4_errors = [''request granted'', ''request rejected or failed'',
     ''request rejected because SOCKS server cannot connect to identd on the client'',
     ''request rejected because the client program and identd report different user-ids'', ''unknown error'']"

definition target4 :: "'w sock_env \<Rightarrow> proxy \<Rightarrow> string \<Rightarrow> ('w, string \<times> bool) sstep" where
  "target4 env p destaddr =
     (case ke_aton env destaddr of
        Some ip \<Rightarrow> sreturn (ip, False)
      | None \<Rightarrow>
          if px_rdns p then sreturn ([byte 0, byte 0, byte 0, byte 1], True)
          else
            sbind (slift (ke_resolve env destaddr)) (\<lambda>a.
              case ke_aton env a of
                Some ip \<Rightarrow> sreturn (ip, False)
              | None \<Rightarrow> sraise (SocksRaised (IOError ''illegal IP address string''))))"

definition request4 :: "proxy \<Rightarrow> string \<Rightarrow> string \<Rightarrow> string \<Rightarrow> bool \<Rightarrow> string" where
  "request4 p port ip destaddr remote =
     [byte 4, byte 1] @ port @ ip @ (case px_user p of None \<Rightarrow> [] | Some u \<Rightarrow> u) @ [byte 0] @
     (if remote then destaddr @ [byte 0] else [])"

text \<open>The peer is always named by the address: the test that should tell the cases apart is always true.\<close>

definition negotiate4 :: "'w sock_env \<Rightarrow> string \<Rightarrow> int \<Rightarrow> socksocket \<Rightarrow> ('w, socksocket) sstep" where
  "negotiate4 env destaddr destport s =
     sbind (target4 env (sk_proxy s) destaddr) (\<lambda>(ip, remote).
     sbind (of_exc (pack_port destport)) (\<lambda>port.
     sbind (send_all env (request4 (sk_proxy s) port ip destaddr remote)) (\<lambda>_.
     sbind (recvall env 8) (\<lambda>resp.
       if take 1 resp \<noteq> [byte 0] then close_raise env (general_error 1)
       else if take 1 (drop 1 resp) \<noteq> [byte 90] then
         (let n = of_char (resp ! 1) in
          (\<lambda>w. let w1 = ke_close env w in
             if n \<in> {91, 92, 93} then (ke_close env w1, Inl (Socks4Error (int n) (socks4_errors ! (n - 90))))
             else (w1, Inl (Socks4Error 94 (socks4_errors ! 4)))))
       else sreturn (s\<lparr>sk_sockname := Some (ke_ntoa env (drop 4 resp), unpack_port (take 2 (drop 2 resp))),
         sk_peername := Some (ke_ntoa env ip, destport)\<rparr>)))))"

section \<open>HTTP proxies\<close>

definition crlf :: string where
  "crlf = [byte 13, byte 10]"

text \<open>The answer, byte by byte, until its empty line; it is waited for even when nothing comes any more.\<close>

partial_function (option) read_answer :: "'w sock_env \<Rightarrow> string \<Rightarrow> 'w \<Rightarrow> ('w \<times> string sres) option" where
  "read_answer env resp w =
     (if str_contains resp (crlf @ crlf) then Some (w, Inr resp)
      else
        (case ke_recv env 1 w of
           (w1, Inl e) \<Rightarrow> Some (w1, Inl (SocksRaised e))
         | (w1, Inr d) \<Rightarrow> read_answer env (resp @ d) w1))"

text \<open>The first line of \<open>splitlines\<close>, split at its first two blanks.\<close>

definition first_line :: "string \<Rightarrow> string" where
  "first_line s = takeWhile (\<lambda>c. c \<notin> {byte 10, byte 13}) s"

definition split_status :: "string \<Rightarrow> string list" where
  "split_status l =
     (case str_split1 (CHR '' '') l of
        (a, None) \<Rightarrow> [a]
      | (a, Some r) \<Rightarrow> (case str_split1 (CHR '' '') r of (b, None) \<Rightarrow> [a, b] | (b, Some c) \<Rightarrow> [a, b, c]))"

definition status_answer :: "'w sock_env \<Rightarrow> string \<Rightarrow> ('w, unit) sstep" where
  "status_answer env resp =
     (let st = split_status (first_line resp) in
      if hd st \<notin> {''HTTP/1.0'', ''HTTP/1.1''} then close_raise env (general_error 1)
      else
        (case st of
           a # b # r \<Rightarrow>
             (case parse_int b of
                Inl e \<Rightarrow> close_raise env (general_error 1)
              | Inr n \<Rightarrow>
                  if n \<noteq> 200 then
                    (\<lambda>w. (ke_close env w, case r of [] \<Rightarrow> Inl (SocksRaised IndexError) | c # cs \<Rightarrow> Inl (ProxyHTTPError n c)))
                  else sreturn ())
         | _ \<Rightarrow> sraise (SocksRaised IndexError)))"

definition connect_text :: "string \<Rightarrow> string \<Rightarrow> int \<Rightarrow> string" where
  "connect_text addr destaddr destport =
     ''CONNECT '' @ addr @ '':'' @ show_int destport @ '' HTTP/1.1'' @ crlf @ ''Host: '' @ destaddr @ crlf @ crlf"

definition negotiate_http :: "'w sock_env \<Rightarrow> string \<Rightarrow> int \<Rightarrow> socksocket \<Rightarrow> 'w \<Rightarrow> ('w \<times> socksocket sres) option" where
  "negotiate_http env destaddr destport s w =
     (case (if px_rdns (sk_proxy s) then sreturn destaddr else slift (ke_resolve env destaddr)) w of
        (w1, Inl e) \<Rightarrow> Some (w1, Inl e)
      | (w1, Inr addr) \<Rightarrow>
          (case send_all env (connect_text addr destaddr destport) w1 of
             (w2, Inl e) \<Rightarrow> Some (w2, Inl e)
           | (w2, Inr _) \<Rightarrow>
               map_option (\<lambda>(w3, r). case r of
                   Inl e \<Rightarrow> (w3, Inl e)
                 | Inr resp \<Rightarrow> sbind (status_answer env resp) (\<lambda>_. sreturn
                     (s\<lparr>sk_sockname := Some (''0.0.0.0'', 0), sk_peername := Some (addr, destport)\<rparr>)) w3)
                 (read_answer env [] w2)))"

section \<open>Connecting\<close>

definition port_or :: "int \<Rightarrow> proxy \<Rightarrow> int" where
  "port_or d p = (case px_port p of None \<Rightarrow> d | Some n \<Rightarrow> n)"

definition to_proxy :: "'w sock_env \<Rightarrow> int \<Rightarrow> proxy \<Rightarrow> ('w, unit) sstep" where
  "to_proxy env d p = slift (ke_connect env (px_addr p) (port_or d p))"

text \<open>\<open>connect\<close> to a pair of a name and a number.\<close>

definition socks_connect :: "'w sock_env \<Rightarrow> string \<Rightarrow> int \<Rightarrow> socksocket \<Rightarrow> 'w \<Rightarrow> ('w \<times> socksocket sres) option" where
  "socks_connect env destaddr destport s w =
     (let p = sk_proxy s in
      case px_type p of
        Some SOCKS5 \<Rightarrow> Some (sbind (to_proxy env 1080 p) (\<lambda>_. negotiate5 env destaddr destport s) w)
      | Some SOCKS4 \<Rightarrow> Some (sbind (to_proxy env 1080 p) (\<lambda>_. negotiate4 env destaddr destport s) w)
      | Some HTTP_PROXY \<Rightarrow>
          (case to_proxy env 8080 p w of
             (w1, Inl e) \<Rightarrow> Some (w1, Inl e)
           | (w1, Inr _) \<Rightarrow> negotiate_http env destaddr destport s w1)
      | None \<Rightarrow> Some (sbind (slift (ke_connect env destaddr destport)) (\<lambda>_. sreturn s) w)
      | Some (OtherProxy n) \<Rightarrow> Some (sraise (general_error 4) w))"

section \<open>What a SOCKS5 proxy is told\<close>

text \<open>A connection on which a text arrives, in pieces of the size \<open>pick\<close> says, and which keeps what is sent.\<close>

definition fair :: "(nat \<Rightarrow> string \<Rightarrow> nat) \<Rightarrow> bool" where
  "fair pick \<longleftrightarrow> (\<forall>n t. 0 < n \<longrightarrow> 0 < pick n t)"

definition script_env :: "(nat \<Rightarrow> string \<Rightarrow> nat) \<Rightarrow> (string \<Rightarrow> string option) \<Rightarrow> (string \<times> string) sock_env" where
  "script_env pick aton =
     \<lparr>ke_recv = (\<lambda>n (t, sent). let k = min n (pick n t) in ((drop k t, sent), Inr (take k t))),
      ke_send = (\<lambda>m (t, sent). ((t, sent @ m), Inr ())), ke_close = id, ke_connect = (\<lambda>a p w. (w, Inr ())),
      ke_resolve = (\<lambda>a w. (w, Inl (IOError a))), ke_aton = aton, ke_ntoa = id\<rparr>"

lemma script_simps [simp]:
  "ke_recv (script_env pick aton) n (t, sent) = ((drop (min n (pick n t)) t, sent), Inr (take (min n (pick n t)) t))"
  "send_all (script_env pick aton) m (t, sent) = ((t, sent @ m), Inr ())"
  "ke_aton (script_env pick aton) = aton" "ke_ntoa (script_env pick aton) = id"
  by (simp_all add: script_env_def Let_def send_all_def slift_def)

lemma recv_more_script:
  assumes "fair pick" "n = length data + length a"
  shows "recv_more (script_env pick aton) n data (a @ t, sent) = ((t, sent), Inr (data @ a))"
  using assms(2)
proof (induction "length a" arbitrary: data a rule: less_induct)
  case less
  show ?case
  proof (cases "a = []")
    case True
    then show ?thesis using less.prems by (subst recv_more.simps) simp
  next
    case False
    define k where "k = min (length a) (pick (length a) (a @ t))"
    have k: "0 < k" "k \<le> length a" using assms(1) False by (auto simp: fair_def k_def)
    then have "drop k (a @ t) = drop k a @ t" "take k (a @ t) = take k a" "take k a \<noteq> []" using False by auto
    moreover have "n - length data = length a" using less.prems by simp
    ultimately have "recv_more (script_env pick aton) n data (a @ t, sent) =
        recv_more (script_env pick aton) n (data @ take k a) (drop k a @ t, sent)"
      using False less.prems k(1) by (subst recv_more.simps) (auto simp: k_def min_def split: if_splits)
    also have "\<dots> = ((t, sent), Inr ((data @ take k a) @ drop k a))"
      using k less.prems by (intro less.hyps) auto
    finally show ?thesis by simp
  qed
qed

lemma recvall_script:
  assumes "fair pick" "n = length a"
  shows "recvall (script_env pick aton) n (a @ t, sent) = ((t, sent), Inr a)"
proof -
  let ?k = "min n (pick n (a @ t))"
  have "drop ?k (a @ t) = drop ?k a @ t" "take ?k (a @ t) = take ?k a" using assms(2) by auto
  then show ?thesis
    using recv_more_script [OF assms(1), of n "take ?k a" "drop ?k a" aton t sent] assms(2)
    by (simp add: recvall_def sbind_def slift_def)
qed

lemma of_char_byte [simp]: "n < 256 \<Longrightarrow> (of_char (byte n) :: nat) = n"
  by (simp add: byte_def)

lemma byte_inject: "m < 256 \<Longrightarrow> n < 256 \<Longrightarrow> byte m = byte n \<longleftrightarrow> m = n"
  by (metis of_char_byte)

text \<open>How a proxy reads what the client sends (RFC 1928 and 1929), when it picks method \<open>m\<close>: the credentials, the
  type of the address, the address and the port.\<close>

definition counted :: "string \<Rightarrow> (string \<times> string) option" where
  "counted s = (case s of [] \<Rightarrow> None | n # r \<Rightarrow>
     if of_char n \<le> length r then Some (take (of_char n) r, drop (of_char n) r) else None)"

definition read_credentials :: "string \<Rightarrow> ((string \<times> string) \<times> string) option" where
  "read_credentials s =
     (case s of
        v # r \<Rightarrow> if v = byte 1 then
          (case counted r of
             Some (u, r1) \<Rightarrow> map_option (\<lambda>(pw, r2). ((u, pw), r2)) (counted r1)
           | None \<Rightarrow> None) else None
      | [] \<Rightarrow> None)"

definition read_target :: "string \<Rightarrow> (nat \<times> string \<times> nat) option" where
  "read_target s =
     (case s of
        v # c # z # t # r \<Rightarrow>
          if v = byte 5 \<and> c = byte 1 \<and> z = byte 0 then
            (case (if t = byte 1 then Some (take 4 r, drop 4 r) else if t = byte 3 then counted r else None) of
               Some (a, [h, l]) \<Rightarrow> Some (of_char t, a, of_char h * 256 + of_char l)
             | _ \<Rightarrow> None)
          else None
      | _ \<Rightarrow> None)"

definition proxy_reads :: "nat \<Rightarrow> string \<Rightarrow> ((string \<times> string) option \<times> nat \<times> string \<times> nat) option" where
  "proxy_reads m s =
     (case s of
        v # r \<Rightarrow>
          (case counted r of
             Some (ms, r1) \<Rightarrow>
               if v \<noteq> byte 5 \<or> byte m \<notin> set ms then None
               else if m = 2 then
                 (case read_credentials r1 of
                    Some (c, r2) \<Rightarrow> map_option (Pair (Some c)) (read_target r2)
                  | None \<Rightarrow> None)
               else map_option (Pair None) (read_target r1)
           | None \<Rightarrow> None)
      | [] \<Rightarrow> None)"

lemma counted_byte: "length s < 256 \<Longrightarrow> counted (byte (length s) # s @ r) = Some (s, r)"
  by (simp add: counted_def)

lemma read_port: "0 \<le> p \<Longrightarrow> p < 65536 \<Longrightarrow> \<exists>h l. pack_port p = Inr [h, l] \<and> of_char h * 256 + of_char l = nat p"
proof -
  assume "0 \<le> p" "p < 65536"
  moreover then have "nat p div 256 < 256" by (simp add: less_mult_imp_div_less)
  ultimately show ?thesis by (simp add: pack_port_def)
qed

text \<open>The exchange up to the request, with the method that the proxy picks.\<close>

definition auth_script :: "nat \<Rightarrow> string" where
  "auth_script m = (if m = 2 then [byte 1, byte 0] else [])"

lemma authenticate_script:
  assumes "fair pick" "m \<in> {0, 2}"
    and "m = 2 \<Longrightarrow> px_user p = Some u \<and> px_pass p = Some pw \<and> length u < 256 \<and> length pw < 256"
  shows "authenticate5 (script_env pick aton) p [byte 5, byte m] (auth_script m @ t, sent) =
    ((t, sent @ (if m = 2 then [byte 1, byte (length u)] @ u @ [byte (length pw)] @ pw else [])), Inr ())"
proof (cases "m = 2")
  case True
  have "credentials_text p = Inr ([byte 1, byte (length u)] @ u @ [byte (length pw)] @ pw)"
    using assms(3) True by (simp add: credentials_text_def opt_len_def chr_byte_def)
  moreover have "byte 2 \<noteq> byte 0" by (simp add: byte_inject)
  moreover note recvall_script [OF assms(1), of 2 "[byte 1, byte 0]"]
  ultimately show ?thesis
    using True by (simp add: authenticate5_def auth_script_def sbind_def of_exc_def sreturn_def)
next
  case False
  then have "m = 0" using assms(2) by simp
  then show ?thesis by (simp add: authenticate5_def auth_script_def sreturn_def)
qed

lemma sbind_simps [simp]:
  "sbind (sreturn x) g w = g x w" "sbind (of_exc (Inr y)) h w = h y w" "sbind (sraise e) k w = (w, Inl e)"
  by (simp_all add: sbind_def sreturn_def of_exc_def sraise_def)

lemma sbind_known: "f w = (w1, Inr x) \<Longrightarrow> sbind f g w = g x w1"
  by (simp add: sbind_def)

lemma sbind_send [simp]: "sbind (send_all (script_env pick aton) m) g (t, sent) = g () (t, sent @ m)"
  by (rule sbind_known) simp

lemma sbind_recvall:
  "fair pick \<Longrightarrow> n = length a \<Longrightarrow> sbind (recvall (script_env pick aton) n) g (a @ t, sent) = g a (t, sent)"
  by (rule sbind_known) (rule recvall_script)

definition sent_credentials :: "nat \<Rightarrow> string \<Rightarrow> string \<Rightarrow> string" where
  "sent_credentials m u pw = (if m = 2 then [byte 1, byte (length u)] @ u @ [byte (length pw)] @ pw else [])"

text \<open>The client's part until the proxy's reply to its request.\<close>

lemma negotiate5_until_reply:
  assumes "fair pick" "m \<in> {0, 2}" "px_rdns (sk_proxy s)" "aton destaddr = None" "length destaddr < 128"
    and "m = 2 \<Longrightarrow> px_user (sk_proxy s) = Some u \<and> px_pass (sk_proxy s) = Some pw \<and> length u < 256 \<and> length pw < 256"
    and "pack_port port = Inr pt" "length reply = 4"
  defines "env \<equiv> script_env pick aton"
    and "sent \<equiv> greeting (sk_proxy s) @ sent_credentials m u pw @ [byte 5, byte 1, byte 0, byte 3, byte (length destaddr)] @ destaddr @ pt"
  shows "negotiate5 env destaddr port s ([byte 5, byte m] @ auth_script m @ reply @ t, []) =
    sbind (bound_address5 env reply) (\<lambda>bound. sbind (recvall env 2) (\<lambda>bport.
      sreturn (s\<lparr>sk_sockname := Some (bound, unpack_port bport), sk_peername := Some (destaddr, port)\<rparr>))) (t, sent)"
proof -
  let ?p = "sk_proxy s"
  have 1: "sbind (recvall env 2) g ([byte 5, byte m] @ auth_script m @ reply @ t, z) = g [byte 5, byte m] (auth_script m @ reply @ t, z)" for z and g :: "string \<Rightarrow> (string \<times> string, socksocket) sstep"
    unfolding env_def by (rule sbind_recvall [OF assms(1)]) simp
  have 2: "sbind (authenticate5 env ?p [byte 5, byte m]) g (auth_script m @ reply @ t, z) =
      g () (reply @ t, z @ sent_credentials m u pw)" for z and g :: "unit \<Rightarrow> (string \<times> string, socksocket) sstep"
    unfolding env_def sent_credentials_def
    by (rule sbind_known [where f = "authenticate5 (script_env pick aton) ?p [byte 5, byte m]"], rule authenticate_script)
      (use assms(1,2,6) in simp_all)
  have 3: "target5 env ?p destaddr = sreturn (None, [byte 3, byte (length destaddr)] @ destaddr)"
    using assms(3-5) by (auto simp: target5_def env_def chr_encode_def chr_byte_def)
  have 4: "sbind (recvall env 4) g (reply @ t, z) = g reply (t, z)" for z and g :: "string \<Rightarrow> (string \<times> string, socksocket) sstep"
    unfolding env_def by (rule sbind_recvall [OF assms(1)]) (simp add: assms(8))
  have sa: "sbind (send_all env x) g (y, z) = g () (y, z @ x)" for x y z and g :: "unit \<Rightarrow> (string \<times> string, socksocket) sstep"
    by (simp add: env_def)
  show ?thesis
    unfolding negotiate5_def Let_def sa 1
    by (simp add: 2 3 4 sa assms(7) sent_def del: append.simps append_assoc) simp
qed

lemma bound_granted: "bound_address5 env [byte 5, byte 0, byte 0, byte 1] = recvall env 4"
  by (simp add: bound_address5_def)

lemma counted_greeting: "counted (byte 2 # byte 0 # byte 2 # r) = Some ([byte 0, byte 2], r)"
  using counted_byte [of "[byte 0, byte 2]" r] by (simp add: numeral_2_eq_2 [symmetric])

lemma target_read:
  "length d < 256 \<Longrightarrow> of_char h * 256 + of_char l = n \<Longrightarrow>
   read_target (byte 5 # byte 1 # byte 0 # byte 3 # byte (length d) # d @ [h, l]) = Some (3, d, n)"
  by (simp add: read_target_def counted_byte byte_inject del: One_nat_def)

lemma credentials_read:
  "length u < 256 \<Longrightarrow> length pw < 256 \<Longrightarrow>
   read_credentials (byte 1 # byte (length u) # u @ byte (length pw) # pw @ r) = Some ((u, pw), r)"
  by (simp add: read_credentials_def counted_byte del: One_nat_def)

lemma proxy_reads_sent:
  assumes "px_user p = Some u" "px_pass p = Some pw" "length u < 256" "length pw < 256" "length d < 256" "m \<in> {0, 2}"
    "of_char h * 256 + of_char l = n"
  shows "proxy_reads m (greeting p @ sent_credentials m u pw @ [byte 5, byte 1, byte 0, byte 3, byte (length d)] @ d @ [h, l]) =
    Some (if m = 2 then Some (u, pw) else None, 3, d, n)"
  using assms by (auto simp: proxy_reads_def greeting_def sent_credentials_def counted_greeting credentials_read target_read
      simp del: One_nat_def)

text \<open>C23: negotiating with a SOCKS5 proxy that resolves names, whose answers arrive in pieces of any size, succeeds and
  leaves what follows them unread; the names of both ends are set, and a proxy that reads what was sent by the protocol
  finds the credentials when it asked for them, the name and the port.\<close>

theorem socks5_connects:
  assumes "fair pick" "m \<in> {0, 2}" "px_rdns (sk_proxy s)" "aton destaddr = None" "length destaddr < 128"
    and "px_user (sk_proxy s) = Some u" "px_pass (sk_proxy s) = Some pw" "length u < 256" "length pw < 256"
    and "0 \<le> port" "port < 65536" "length bound = 4" "length bport = 2"
  shows "\<exists>s1 sent. negotiate5 (script_env pick aton) destaddr port s
        ([byte 5, byte m] @ auth_script m @ [byte 5, byte 0, byte 0, byte 1] @ bound @ bport @ rest, []) = ((rest, sent), Inr s1)
      \<and> sk_peername s1 = Some (destaddr, port) \<and> sk_sockname s1 = Some (bound, unpack_port bport)
      \<and> proxy_reads m sent = Some (if m = 2 then Some (u, pw) else None, 3, destaddr, nat port)"
proof -
  let ?env = "script_env pick aton" and ?reply = "[byte 5, byte 0, byte 0, byte 1]"
  obtain h l where hl: "pack_port port = Inr [h, l]" "of_char h * 256 + of_char l = nat port"
    using read_port [OF assms(10,11)] by blast
  define sent where "sent = greeting (sk_proxy s) @ sent_credentials m u pw @
    [byte 5, byte 1, byte 0, byte 3, byte (length destaddr)] @ destaddr @ [h, l]"
  have "negotiate5 ?env destaddr port s ([byte 5, byte m] @ auth_script m @ ?reply @ (bound @ bport @ rest), []) =
      sbind (bound_address5 ?env ?reply) (\<lambda>a. sbind (recvall ?env 2) (\<lambda>b.
        sreturn (s\<lparr>sk_sockname := Some (a, unpack_port b), sk_peername := Some (destaddr, port)\<rparr>))) (bound @ bport @ rest, sent)"
    unfolding sent_def by (rule negotiate5_until_reply) (use assms hl(1) in simp_all)
  also have "\<dots> = ((rest, sent), Inr (s\<lparr>sk_sockname := Some (bound, unpack_port bport), sk_peername := Some (destaddr, port)\<rparr>))"
    unfolding bound_granted using assms(1,12,13) by (simp add: sbind_recvall sreturn_def)
  finally have run: "negotiate5 ?env destaddr port s ([byte 5, byte m] @ auth_script m @ ?reply @ (bound @ bport @ rest), []) =
      ((rest, sent), Inr (s\<lparr>sk_sockname := Some (bound, unpack_port bport), sk_peername := Some (destaddr, port)\<rparr>))" .
  have "proxy_reads m sent = Some (if m = 2 then Some (u, pw) else None, 3, destaddr, nat port)"
    unfolding sent_def using assms(2,5-9) hl(2) by (intro proxy_reads_sent) auto
  then show ?thesis using run by auto
qed

definition a_socks5 :: socksocket where
  "a_socks5 = setproxy \<lparr>px_type = Some SOCKS5, px_addr = ''localhost'', px_port = None, px_rdns = True,
     px_user = Some ''bob'', px_pass = Some ''pw''\<rparr> (new_socksocket None)"

theorem socks5_connects_witness:
  "\<exists>s1 sent. negotiate5 (script_env (\<lambda>n t. 1) (\<lambda>a. None)) ''signpo.st'' 443 a_socks5
        ([byte 5, byte 2] @ auth_script 2 @ [byte 5, byte 0, byte 0, byte 1] @ ''abcd'' @ ''ef'' @ ''hello'', []) = ((''hello'', sent), Inr s1)
      \<and> sk_peername s1 = Some (''signpo.st'', 443) \<and> sk_sockname s1 = Some (''abcd'', unpack_port ''ef'')
      \<and> proxy_reads 2 sent = Some (if (2::nat) = 2 then Some (''bob'', ''pw'') else None, 3, ''signpo.st'', nat 443)"
  by (rule socks5_connects) (simp add: fair_def a_socks5_def setproxy_def new_socksocket_def | code_simp)+

lemma bound_refused:
  "0 < n \<Longrightarrow> n < 256 \<Longrightarrow> bound_address5 env (byte 5 # byte n # r) =
   close_raise env (Socks5Error (int (min n 9)) (socks5_errors ! min n 9))"
  by (auto simp: bound_address5_def byte_inject Let_def min_def le_eq_less_or_eq)

text \<open>a SOCKS5 proxy that refuses the request with a code makes the negotiation close the socket and raise the error
  of that code, and \<open>Unknown error\<close> for every code the protocol does not name.\<close>

theorem socks5_refused:
  assumes "fair pick" "m \<in> {0, 2}" "px_rdns (sk_proxy s)" "aton destaddr = None" "length destaddr < 128"
    and "px_user (sk_proxy s) = Some u" "px_pass (sk_proxy s) = Some pw" "length u < 256" "length pw < 256"
    and "0 \<le> port" "port < 65536" "0 < code" "code < 256"
  shows "\<exists>w. negotiate5 (script_env pick aton) destaddr port s
        ([byte 5, byte m] @ auth_script m @ [byte 5, byte code, a, b] @ rest, []) =
      (w, Inl (Socks5Error (int (min code 9)) (socks5_errors ! min code 9)))"
proof -
  obtain pt where "pack_port port = Inr pt" using read_port [OF assms(10,11)] by blast
  then show ?thesis
    using assms negotiate5_until_reply [of pick m s aton destaddr u pw port pt "[byte 5, byte code, a, b]" rest]
    by (simp add: bound_refused close_raise_def sbind_def)
qed

theorem socks5_refused_witness:
  "\<exists>w. negotiate5 (script_env (\<lambda>n t. 1) (\<lambda>a. None)) ''signpo.st'' 443 a_socks5
        ([byte 5, byte 0] @ auth_script 0 @ [byte 5, byte 4, byte 0, byte 1] @ [], []) =
      (w, Inl (Socks5Error (int (min 4 9)) (socks5_errors ! min 4 9)))"
  by (rule socks5_refused) (simp add: fair_def a_socks5_def setproxy_def new_socksocket_def | code_simp)+

section \<open>HTTP proxies\<close>

lemma str_contains_append: "str_contains s p \<Longrightarrow> str_contains (s @ t) p"
  unfolding str_contains_iff by (metis append_assoc)

lemma read_answer_exact:
  assumes "fair pick" "str_contains (resp @ a) (crlf @ crlf)" "a \<noteq> [] \<longrightarrow> \<not> str_contains (resp @ butlast a) (crlf @ crlf)"
  shows "read_answer (script_env pick aton) resp (a @ t, sent) = Some ((t, sent), Inr (resp @ a))"
  using assms(2,3)
proof (induction a arbitrary: resp)
  case Nil
  then show ?case by (subst read_answer.simps) simp
next
  case (Cons x a)
  have "\<not> str_contains resp (crlf @ crlf)" using Cons.prems(2) str_contains_append by blast
  moreover have "min 1 (pick 1 t) = 1" for t using assms(1) by (simp add: fair_def Suc_le_eq)
  moreover have "read_answer (script_env pick aton) (resp @ [x]) (a @ t, sent) = Some ((t, sent), Inr ((resp @ [x]) @ a))"
    using Cons.prems by (intro Cons.IH) (auto simp: butlast_append split: if_splits)
  ultimately show ?case by (subst read_answer.simps) simp
qed

text \<open>The status line of an answer.\<close>

lemma takeWhile_stops: "(\<And>c. c \<in> set l \<Longrightarrow> P c) \<Longrightarrow> hs = [] \<or> \<not> P (hd hs) \<Longrightarrow> takeWhile P (l @ hs) = l"
  by (cases hs) (simp_all add: takeWhile_tail)

lemma status_line_read:
  assumes "v \<in> {''HTTP/1.0'', ''HTTP/1.1''}" "set reason \<inter> {byte 10, byte 13} = {}" "hs = [] \<or> hd hs \<in> {byte 10, byte 13}"
  shows "split_status (first_line (v @ '' '' @ show_int n @ '' '' @ reason @ hs)) = [v, show_int n, reason]"
proof -
  have d: "c \<notin> set (show_int n)" if "\<not> is_digit c" "c \<noteq> CHR ''-''" for c using show_int_plain that by blast
  have n: "CHR '' '' \<notin> set (show_int n)" "byte 10 \<notin> set (show_int n)" "byte 13 \<notin> set (show_int n)"
    by (rule d; code_simp)+
  have v: "CHR '' '' \<notin> set v" "byte 10 \<notin> set v" "byte 13 \<notin> set v" "CHR '' '' \<notin> {byte 10, byte 13}"
    using assms(1) by (elim insertE emptyE; simp; code_simp)+
  have "first_line ((v @ '' '' @ show_int n @ '' '' @ reason) @ hs) = v @ '' '' @ show_int n @ '' '' @ reason"
    unfolding first_line_def by (rule takeWhile_stops) (use assms(2,3) n v in auto)
  then show ?thesis using n(1) v(1) by (simp add: split_status_def)
qed

text \<open>what an HTTP proxy is asked for, and what its answer means: after an answer with status 200 the connection is
  made, and what follows the empty line of the answer is left unread; any other status closes the socket and is raised
  with its reason.\<close>

theorem http_proxy_answered:
  assumes "fair pick" "px_rdns (sk_proxy s)" "v \<in> {''HTTP/1.0'', ''HTTP/1.1''}"
    and "set reason \<inter> {byte 10, byte 13} = {}" "hd hs = byte 13" "hs \<noteq> []"
    and "answer = v @ '' '' @ show_int n @ '' '' @ reason @ hs"
    and "str_contains answer (crlf @ crlf)" "\<not> str_contains (butlast answer) (crlf @ crlf)"
  shows "negotiate_http (script_env pick aton) destaddr port s (answer @ rest, []) =
    Some ((rest, connect_text destaddr destaddr port),
      if n = 200 then Inr (s\<lparr>sk_sockname := Some (''0.0.0.0'', 0), sk_peername := Some (destaddr, port)\<rparr>)
      else Inl (ProxyHTTPError n reason))"
proof -
  have "read_answer (script_env pick aton) [] (answer @ rest, connect_text destaddr destaddr port) =
      Some ((rest, connect_text destaddr destaddr port), Inr ([] @ answer))"
    using assms(1,8,9) by (intro read_answer_exact) auto
  moreover have "split_status (first_line answer) = [v, show_int n, reason]"
    unfolding assms(7) using assms(3-5) by (intro status_line_read) auto
  moreover have "ke_close (script_env pick aton) w = w" for w by (simp add: script_env_def)
  ultimately show ?thesis
    using assms(2,3) by (auto simp: negotiate_http_def status_answer_def sbind_def sreturn_def)
qed

definition granted_answer :: string where
  "granted_answer = ''HTTP/1.1 200 Connection established'' @ crlf @ crlf"

theorem http_proxy_answered_witness:
  "negotiate_http (script_env (\<lambda>n t. 1) (\<lambda>a. None)) ''signpo.st'' 443 a_socks5 (granted_answer @ ''hello'', []) =
    Some ((''hello'', connect_text ''signpo.st'' ''signpo.st'' 443),
      if (200 :: int) = 200 then Inr (a_socks5\<lparr>sk_sockname := Some (''0.0.0.0'', 0), sk_peername := Some (''signpo.st'', 443)\<rparr>)
      else Inl (ProxyHTTPError 200 ''Connection established''))"
  by (rule http_proxy_answered [where v = "''HTTP/1.1''" and hs = "crlf @ crlf"])
    (simp add: fair_def a_socks5_def setproxy_def new_socksocket_def | code_simp)+

section \<open>What the negotiations do not do\<close>

text \<open>An HTTP proxy that ends the connection before the empty line is waited for without end.\<close>

lemma read_answer_found:
  assumes "read_answer (script_env pick aton) resp (t, sent) = Some y"
  shows "str_contains (resp @ t) (crlf @ crlf)"
proof -
  let ?R = "\<lambda>env resp (w :: string \<times> string). env = script_env pick aton \<longrightarrow> str_contains (resp @ fst w) (crlf @ crlf)"
  have "?R env resp w" if "read_answer env resp w = Some y" for env :: "(string \<times> string) sock_env" and resp w
  proof (rule read_answer.raw_induct [where P = "\<lambda>env resp w y. ?R env resp w", OF _ that])
    fix f :: "(string \<times> string) sock_env \<Rightarrow> string \<Rightarrow> string \<times> string \<Rightarrow> ((string \<times> string) \<times> string sres) option"
      and env resp y and w :: "string \<times> string"
    assume IH: "\<And>env resp w y. f env resp w = Some y \<Longrightarrow> ?R env resp w"
      and eq: "(if str_contains resp (crlf @ crlf) then Some (w, Inr resp)
        else (case ke_recv env 1 w of (w1, Inl e) \<Rightarrow> Some (w1, Inl (SocksRaised e)) | (w1, Inr d) \<Rightarrow> f env (resp @ d) w1)) = Some y"
    show "?R env resp w"
    proof
      assume env: "env = script_env pick aton"
      show "str_contains (resp @ fst w) (crlf @ crlf)"
      proof (cases "str_contains resp (crlf @ crlf)")
        case True
        then show ?thesis by (rule str_contains_append)
      next
        case False
        obtain t z where w: "w = (t, z)" by (cases w)
        define k where "k = min 1 (pick 1 t)"
        have "f env (resp @ take k t) (drop k t, z) = Some y" using False eq env by (simp add: w k_def del: One_nat_def)
        from IH [OF this] env show ?thesis by (simp add: w)
      qed
    qed
  qed
  then show ?thesis using assms by fastforce
qed

lemma http_answer_awaited:
  "\<not> str_contains t (crlf @ crlf) \<Longrightarrow> read_answer (script_env pick aton) [] (t, sent) = None"
  using read_answer_found [of pick aton "[]" t sent] by (cases "read_answer (script_env pick aton) [] (t, sent)") auto

text \<open>The other end of a SOCKS4 connection is named by the invalid address that asks the proxy to resolve the name.\<close>

lemma socks4_peer_unnamed:
  assumes "fair pick" "px_rdns (sk_proxy s)" "aton destaddr = None" "pack_port port = Inr pt" "length b = 6"
  shows "\<exists>w s1. negotiate4 (script_env pick aton) destaddr port s ([byte 0, byte 90] @ b, []) = (w, Inr s1)
    \<and> sk_peername s1 = Some ([byte 0, byte 0, byte 0, byte 1], port)"
proof -
  have "sbind (recvall (script_env pick aton) 8) g (byte 0 # byte 90 # b, z) = g (byte 0 # byte 90 # b) ([], z)"
    for z and g :: "string \<Rightarrow> (string \<times> string, socksocket) sstep"
    using sbind_recvall [OF assms(1), of 8 "byte 0 # byte 90 # b" aton g "[]" z] assms(5) by simp
  then show ?thesis using assms(2-4) by (simp add: negotiate4_def target4_def sreturn_def)
qed

text \<open>A name of 128 characters or more is never sent to a SOCKS5 proxy.\<close>

lemma long_name_raises:
  "aton d = None \<Longrightarrow> px_rdns p \<Longrightarrow> 128 \<le> length d \<Longrightarrow> \<exists>e. target5 (script_env pick aton) p d w = (w, Inl (SocksRaised (ValueError e)))"
  by (auto simp: target5_def chr_encode_def chr_byte_def sbind_def of_exc_def)

text \<open>The answer that no method is acceptable raises the error of the decoder, not \<open>Socks5AuthError\<close>.\<close>

lemma no_method_raises:
  "authenticate5 (script_env pick aton) p [byte 5, byte 255] w = (w, Inl (SocksRaised (ValueError ''ascii codec cannot decode byte'')))"
  by (simp add: authenticate5_def byte_inject close_raise_def script_env_def)

end
