(* ===== verification/HttpConnect.thy ===== *)
theory HttpConnect
  imports HttpClient Socks
begin

text \<open>
  How the connections of \<open>socialnet/httplib2-0.7.1/python2/httplib2/__init__.py\<close> are opened: \<open>connect\<close> of
  \<open>HTTPConnectionWithTimeout\<close> and \<open>HTTPSConnectionWithTimeout\<close>, which try the addresses of the host one after the
  other, and the check of the certificate. The sockets, the resolver and TLS are arguments. The last part puts these
  connections under \<open>_conn_request\<close>.
\<close>

section \<open>Proxies\<close>

record proxy_info =
  pi_type :: "proxy_type option"
  pi_host :: "string option"
  pi_port :: "int option"
  pi_rdns :: "bool option"
  pi_user :: "string option"
  pi_pass :: "string option"

definition isgood :: "proxy_info \<Rightarrow> bool" where
  "isgood p \<longleftrightarrow> pi_host p \<noteq> None \<and> pi_port p \<noteq> None"

text \<open>What \<open>setproxy\<close> stores of the tuple; without \<open>rdns\<close> names are resolved here.\<close>

definition astuple :: "proxy_info \<Rightarrow> proxy" where
  "astuple p = \<lparr>px_type = pi_type p, px_addr = (case pi_host p of None \<Rightarrow> [] | Some h \<Rightarrow> h), px_port = pi_port p,
     px_rdns = (pi_rdns p = Some True), px_user = pi_user p, px_pass = pi_pass p\<rparr>"

section \<open>Sockets\<close>

text \<open>An error of TLS with the number of a failed handshake, or any other error.\<close>

datatype tls_exc = Handshake | Plain conn_exc

type_synonym sock_addr = "nat \<times> string \<times> int"

record 's conn =
  cn_host :: string
  cn_port :: int
  cn_timeout :: "int option"
  cn_proxy :: "proxy_info option"
  cn_sock :: "'s option"
  cn_key_file :: "string option"
  cn_cert_file :: "string option"
  cn_ca_certs :: string
  cn_unchecked :: bool

definition new_conn :: "string \<Rightarrow> int \<Rightarrow> int option \<Rightarrow> proxy_info option \<Rightarrow> 's conn" where
  "new_conn host port t p = \<lparr>cn_host = host, cn_port = port, cn_timeout = t, cn_proxy = p, cn_sock = None,
     cn_key_file = None, cn_cert_file = None, cn_ca_certs = [], cn_unchecked = False\<rparr>"


record ('w, 's) net =
  nt_resolve :: "string \<Rightarrow> int \<Rightarrow> 'w \<Rightarrow> 'w \<times> (conn_exc + sock_addr list)"
  nt_socket :: "nat \<Rightarrow> 'w \<Rightarrow> 'w \<times> (conn_exc + 's)"
  nt_setproxy :: "'s \<Rightarrow> proxy \<Rightarrow> 'w \<Rightarrow> 'w"
  nt_nodelay :: "'s \<Rightarrow> 'w \<Rightarrow> 'w \<times> conn_exc option"
  nt_timeout :: "'s \<Rightarrow> int \<Rightarrow> 'w \<Rightarrow> 'w \<times> conn_exc option"
  nt_connect :: "'s \<Rightarrow> string \<times> int \<Rightarrow> 'w \<Rightarrow> 'w \<times> conn_exc option"
  nt_close :: "'s \<Rightarrow> 'w \<Rightarrow> 'w"
  nt_wrap :: "'s \<Rightarrow> 's conn \<Rightarrow> 'w \<Rightarrow> 'w \<times> (tls_exc + 's)"
  nt_cert :: "'s \<Rightarrow> certificate"

definition close_opt :: "('w, 's) net \<Rightarrow> 's option \<Rightarrow> 'w \<Rightarrow> 'w" where
  "close_opt net s w = (case s of None \<Rightarrow> w | Some x \<Rightarrow> nt_close net x w)"

text \<open>\<open>socket.error\<close> with its subclasses.\<close>

fun is_socket_error :: "conn_exc \<Rightarrow> bool" where
  "is_socket_error HttpException = False"
| "is_socket_error (Library m) = False"
| "is_socket_error e = True"

text \<open>The proxy or \<open>TCP_NODELAY\<close>, and the timeout.\<close>

definition prepare_socket :: "('w, 's) net \<Rightarrow> 's conn \<Rightarrow> 's \<Rightarrow> 'w \<Rightarrow> 'w \<times> conn_exc option" where
  "prepare_socket net c s w =
     (case (case cn_proxy c of
              Some p \<Rightarrow> if isgood p then (nt_setproxy net s (astuple p) w, None) else nt_nodelay net s w
            | None \<Rightarrow> nt_nodelay net s w) of
        (w1, Some e) \<Rightarrow> (w1, Some e)
      | (w1, None) \<Rightarrow> (case cn_timeout c of None \<Rightarrow> (w1, None) | Some t \<Rightarrow> nt_timeout net s t w1))"

section \<open>Plain connections\<close>

definition http_try :: "('w, 's) net \<Rightarrow> 's conn \<Rightarrow> sock_addr \<Rightarrow> 'w \<Rightarrow> 'w \<times> 's conn \<times> conn_exc option" where
  "http_try net c a w =
     (case nt_socket net (fst a) w of
        (w1, Inl e) \<Rightarrow> (w1, c, Some e)
      | (w1, Inr s) \<Rightarrow>
          (let c1 = c\<lparr>cn_sock := Some s\<rparr> in
           case prepare_socket net c s w1 of
             (w2, Some e) \<Rightarrow> (w2, c1, Some e)
           | (w2, None) \<Rightarrow> (case nt_connect net s (snd a) w2 of (w3, r) \<Rightarrow> (w3, c1, r))))"

text \<open>The loop over the addresses; \<open>msg\<close> is the error to raise when none could be used.\<close>

fun http_loop :: "('w, 's) net \<Rightarrow> 's conn \<Rightarrow> conn_exc \<Rightarrow> sock_addr list \<Rightarrow> 'w \<Rightarrow> 'w \<times> 's conn \<times> conn_exc option" where
  "http_loop net c msg [] w = (w, c, if cn_sock c = None then Some msg else None)"
| "http_loop net c msg (a # as) w =
     (case http_try net c a w of
        (w1, c1, None) \<Rightarrow> (w1, c1, None)
      | (w1, c1, Some e) \<Rightarrow>
          if is_socket_error e then http_loop net (c1\<lparr>cn_sock := None\<rparr>) e as (close_opt net (cn_sock c1) w1)
          else (w1, c1, Some e))"

definition http_connect :: "('w, 's) net \<Rightarrow> 's conn \<Rightarrow> 'w \<Rightarrow> 'w \<times> 's conn \<times> conn_exc option" where
  "http_connect net c w =
     (case nt_resolve net (cn_host c) (cn_port c) w of
        (w1, Inl e) \<Rightarrow> (w1, c, Some e)
      | (w1, Inr as) \<Rightarrow> http_loop net c SocketError as w1)"

section \<open>Secure connections\<close>








section \<open>App Engine\<close>

text \<open>The connection that fetches through App Engine; \<open>fetch\<close> is its service.\<close>

datatype fetch_error = InvalidUrl | DownloadFailed | ResponseTooLarge | BadCertificate | OtherFetch conn_exc

record ae_conn =
  ae_host :: string
  ae_port :: "int option"
  ae_timeout :: "int option"
  ae_scheme :: string
  ae_validate :: bool
  ae_response :: "(int \<times> headers \<times> string) option"

definition new_ae_conn ::
    "string \<Rightarrow> int option \<Rightarrow> string option \<Rightarrow> string option \<Rightarrow> int option \<Rightarrow> proxy_info option \<Rightarrow> string option \<Rightarrow> bool \<Rightarrow> ae_conn res" where
  "new_ae_conn host port key cert t p cas unchecked =
     (if (key \<noteq> None \<and> key \<noteq> Some []) \<or> (cert \<noteq> None \<and> cert \<noteq> Some []) \<or> p \<noteq> None \<or> (cas \<noteq> None \<and> cas \<noteq> Some [])
      then Inl (NameError ''NotSupportedOnThisPlatform'')
      else Inr \<lparr>ae_host = host, ae_port = port, ae_timeout = t, ae_scheme = ''http'', ae_validate = \<not> unchecked, ae_response = None\<rparr>)"

definition new_secure_ae_conn ::
    "string \<Rightarrow> int option \<Rightarrow> string option \<Rightarrow> string option \<Rightarrow> int option \<Rightarrow> proxy_info option \<Rightarrow> ae_conn res" where
  "new_secure_ae_conn host port key cert t p =
     rbind (new_ae_conn host port key cert t p None False) (\<lambda>c. Inr (c\<lparr>ae_scheme := ''https''\<rparr>))"

definition absolute_uri :: "ae_conn \<Rightarrow> string \<Rightarrow> string" where
  "absolute_uri c url =
     ae_scheme c @ ''://'' @ ae_host c @ (case ae_port c of None \<Rightarrow> [] | Some p \<Rightarrow> if p = 0 then [] else '':'' @ show_int p) @ url"

definition ae_request ::
    "(string \<Rightarrow> string option \<Rightarrow> string \<Rightarrow> headers \<Rightarrow> int option \<Rightarrow> bool \<Rightarrow> 'w \<Rightarrow> 'w \<times> (fetch_error + int \<times> headers \<times> string)) \<Rightarrow>
     string \<Rightarrow> string \<Rightarrow> string option \<Rightarrow> headers \<Rightarrow> ae_conn \<Rightarrow> 'w \<Rightarrow> 'w \<times> ae_conn \<times> conn_exc option" where
  "ae_request fetch meth url body hs c w =
     (case fetch (absolute_uri c url) body meth hs (ae_timeout c) (ae_validate c) w of
        (w1, Inl InvalidUrl) \<Rightarrow> (w1, c, Some GaiError)
      | (w1, Inl (OtherFetch e)) \<Rightarrow> (w1, c, Some e)
      | (w1, Inl e) \<Rightarrow> (w1, c, Some HttpException)
      | (w1, Inr (status, rhs, content)) \<Rightarrow>
          (w1, c\<lparr>ae_response := Some (status, AList.update ''status'' (show_int status) rhs, content)\<rparr>, None))"

section \<open>No socket is lost\<close>

text \<open>What the sockets promise, with \<open>opn\<close> for the open ones: a new socket is open and was not before, closing closes it,
  and nothing else opens or closes one.\<close>

definition tidy :: "('w, 's) net \<Rightarrow> ('w \<Rightarrow> 's set) \<Rightarrow> bool" where
  "tidy net opn \<longleftrightarrow>
     (\<forall>h p w. opn (fst (nt_resolve net h p w)) = opn w) \<and>
     (\<forall>f w. case nt_socket net f w of (w1, Inl e) \<Rightarrow> opn w1 = opn w | (w1, Inr s) \<Rightarrow> s \<notin> opn w \<and> opn w1 = insert s (opn w)) \<and>
     (\<forall>s p w. opn (nt_setproxy net s p w) = opn w) \<and> (\<forall>s w. opn (fst (nt_nodelay net s w)) = opn w) \<and>
     (\<forall>s t w. opn (fst (nt_timeout net s t w)) = opn w) \<and> (\<forall>s a w. opn (fst (nt_connect net s a w)) = opn w) \<and>
     (\<forall>s w. opn (nt_close net s w) = opn w - {s})"

lemma tidy_fst:
  assumes "tidy net opn"
  shows "opn (fst (nt_resolve net h p w)) = opn w" "opn (nt_setproxy net s px w) = opn w" "opn (fst (nt_nodelay net s w)) = opn w"
    "opn (fst (nt_timeout net s t w)) = opn w" "opn (fst (nt_connect net s a w)) = opn w" "opn (nt_close net s w) = opn w - {s}"
    "case nt_socket net f w of (w1, Inl e) \<Rightarrow> opn w1 = opn w | (w1, Inr s) \<Rightarrow> s \<notin> opn w \<and> opn w1 = insert s (opn w)"
  using assms by (simp_all add: tidy_def del: split_paired_All)

lemma tidy_steps:
  assumes "tidy net opn"
  shows "nt_resolve net h p w = (w1, y) \<Longrightarrow> opn w1 = opn w" "nt_nodelay net s w = (w1, x) \<Longrightarrow> opn w1 = opn w"
    "nt_timeout net s t w = (w1, x) \<Longrightarrow> opn w1 = opn w" "nt_connect net s a w = (w1, x) \<Longrightarrow> opn w1 = opn w"
    "nt_socket net f w = (w1, Inl e) \<Longrightarrow> opn w1 = opn w"
    "nt_socket net f w = (w1, Inr s) \<Longrightarrow> s \<notin> opn w \<and> opn w1 = insert s (opn w)"
  using tidy_fst(1) [OF assms, of h p w] tidy_fst(3) [OF assms, of s w] tidy_fst(4) [OF assms, of s t w]
    tidy_fst(5) [OF assms, of s a w] tidy_fst(7) [OF assms, where f = f and w = w] by simp_all

lemma prepare_tidy:
  assumes "tidy net opn" "prepare_socket net c s w = (w1, r)"
  shows "opn w1 = opn w"
proof -
  have "opn (fst (prepare_socket net c s w)) = opn w"
    unfolding prepare_socket_def split_beta
    by (simp add: tidy_fst [OF assms(1)] split: option.split)
  with assms(2) show ?thesis by simp
qed

lemma http_try_tidy:
  assumes "tidy net opn" "cn_sock c = None" "http_try net c a w = (w1, c1, r)"
  shows "(case cn_sock c1 of None \<Rightarrow> r \<noteq> None \<and> opn w1 = opn w | Some s \<Rightarrow> s \<notin> opn w \<and> opn w1 = insert s (opn w))"
proof -
  obtain w2 x where s: "nt_socket net (fst a) w = (w2, x)" by (metis prod.exhaust)
  show ?thesis
  proof (cases x)
    case (Inl e)
    then show ?thesis using assms(2,3) s tidy_steps(5) [OF assms(1)] by (auto simp: http_try_def)
  next
    case (Inr t)
    obtain w3 y where p: "prepare_socket net c t w2 = (w3, y)" by (metis prod.exhaust)
    obtain w4 z where k: "nt_connect net t (snd a) w3 = (w4, z)" by (metis prod.exhaust)
    have "t \<notin> opn w" "opn w2 = insert t (opn w)" "opn w3 = opn w2" "opn w4 = opn w3"
      using tidy_steps(6) [OF assms(1) s [unfolded Inr]] prepare_tidy [OF assms(1) p] tidy_steps(4) [OF assms(1) k] by auto
    moreover have "cn_sock c1 = Some t" "w1 = (case y of None \<Rightarrow> w4 | Some e \<Rightarrow> w3)"
      using assms(3) s p k Inr by (auto simp: http_try_def Let_def split: option.splits)
    ultimately show ?thesis by (simp split: option.split)
  qed
qed

lemma http_loop_tidy:
  assumes "tidy net opn"
  shows "cn_sock c = None \<Longrightarrow> is_socket_error msg \<Longrightarrow> http_loop net c msg as w = (w1, c1, r) \<Longrightarrow>
    (case cn_sock c1 of None \<Rightarrow> r \<noteq> None \<and> opn w1 = opn w
     | Some s \<Rightarrow> s \<notin> opn w \<and> opn w1 = insert s (opn w) \<and> (\<forall>e. r = Some e \<longrightarrow> \<not> is_socket_error e))"
proof (induction as arbitrary: c msg w)
  case (Cons a as)
  obtain w2 c2 r2 where t: "http_try net c a w = (w2, c2, r2)" by (metis prod_cases3)
  note tt = http_try_tidy [OF assms Cons.prems(1) t]
  show ?case
  proof (cases r2)
    case None
    then show ?thesis using tt t Cons.prems(3) by (auto split: option.splits)
  next
    case (Some e)
    show ?thesis
    proof (cases "is_socket_error e")
      case True
      have "opn (close_opt net (cn_sock c2) w2) = opn w"
        using tt tidy_fst(6) [OF assms] by (auto simp: close_opt_def split: option.splits)
      moreover have "http_loop net (c2\<lparr>cn_sock := None\<rparr>) e as (close_opt net (cn_sock c2) w2) = (w1, c1, r)"
        using Cons.prems(3) t Some True by simp
      ultimately show ?thesis using Cons.IH [of "c2\<lparr>cn_sock := None\<rparr>" e "close_opt net (cn_sock c2) w2"] True
        by (simp split: option.splits)
    next
      case False
      then show ?thesis using tt t Some Cons.prems(3) by (auto split: option.splits)
    qed
  qed
qed auto

text \<open>C22: opening a plain connection leaves exactly one more socket open, that of the connection, when it succeeds, and
  none when it raises a socket error, whichever addresses were tried before.\<close>

theorem connect_loses_no_socket:
  assumes "tidy net opn" "cn_sock c = None" "http_connect net c w = (w1, c1, r)"
  shows "(r = None \<longrightarrow> (\<exists>s. cn_sock c1 = Some s \<and> s \<notin> opn w \<and> opn w1 = insert s (opn w)))
    \<and> (\<forall>e. r = Some e \<and> is_socket_error e \<longrightarrow> cn_sock c1 = None \<and> opn w1 = opn w)"
proof -
  obtain w2 x where x: "nt_resolve net (cn_host c) (cn_port c) w = (w2, x)" by (metis prod.exhaust)
  have w2: "opn w2 = opn w" using tidy_steps(1) [OF assms(1) x] .
  show ?thesis
  proof (cases x)
    case (Inl e)
    then show ?thesis using assms(2,3) x w2 by (auto simp: http_connect_def)
  next
    case (Inr as)
    then have l: "http_loop net c SocketError as w2 = (w1, c1, r)" using assms(3) x by (simp add: http_connect_def)
    show ?thesis
      using http_loop_tidy [OF assms(1,2) _ l] w2 by (auto split: option.splits)
  qed
qed

text \<open>Sockets that are numbers; the world lists the open ones, and a port refuses.\<close>

definition port_net :: "int \<Rightarrow> (nat list, nat) net" where
  "port_net bad = \<lparr>nt_resolve = (\<lambda>h p w. (w, Inr [(2, h, bad), (2, h, p)])), nt_socket = (\<lambda>f w. (Suc (sum_list w) # w, Inr (Suc (sum_list w)))),
     nt_setproxy = (\<lambda>s p w. w), nt_nodelay = (\<lambda>s w. (w, None)), nt_timeout = (\<lambda>s t w. (w, None)),
     nt_connect = (\<lambda>s a w. (w, if snd a = bad then Some Refused else None)), nt_close = (\<lambda>s w. removeAll s w),
     nt_wrap = (\<lambda>s c w. (w, Inr s)), nt_cert = (\<lambda>s. \<lparr>ct_alt_names = Some [(''DNS'', ''signpo.st'')], ct_subject = []\<rparr>)\<rparr>"

lemma port_net_tidy: "tidy (port_net bad) set"
proof -
  have "Suc (sum_list w) \<notin> set w" for w :: "nat list"
  proof
    assume "Suc (sum_list w) \<in> set w"
    then have "Suc (sum_list w) \<le> sum_list w" by (rule member_le_sum_list) simp
    then show False by simp
  qed
  then show ?thesis by (auto simp: tidy_def port_net_def)
qed

theorem connect_loses_no_socket_witness:
  "\<exists>w1 c1. http_connect (port_net 1) (new_conn ''signpo.st'' 80 None None) [] = (w1, c1, None) \<and>
     (\<exists>s. cn_sock c1 = Some s \<and> set w1 = {s})"
proof -
  obtain w1 c1 where r: "http_connect (port_net 1) (new_conn ''signpo.st'' 80 None None) [] = (w1, c1, None)"
    by (simp add: http_connect_def port_net_def http_try_def prepare_socket_def new_conn_def close_opt_def Let_def)
  have "cn_sock (new_conn ''signpo.st'' 80 None None) = None" by (simp add: new_conn_def)
  from connect_loses_no_socket [OF port_net_tidy this r] r show ?thesis by auto
qed

section \<open>Certificates\<close>








section \<open>Secure connections under the client\<close>






end
