(* ===== verification/Iri.thy ===== *)
theory Iri
  imports Url
begin

text \<open>
  \<open>socialnet/httplib2-0.7.1/python2/httplib2/iri2uri.py\<close>: the conversion that the HTTP client applies to a
  URI that is a unicode text. Python 2 has two kinds of text, byte strings and unicode strings, and joining
  them decodes the byte strings as ASCII: both are kept apart here. The IDNA codec is a parameter.
\<close>

section \<open>The two kinds of text\<close>

datatype py_text = Bytes string | Uni string

fun raw :: "py_text \<Rightarrow> string" where
  "raw (Bytes s) = s"
| "raw (Uni s) = s"

fun is_bytes :: "py_text \<Rightarrow> bool" where
  "is_bytes (Bytes s) = True"
| "is_bytes (Uni s) = False"

text \<open>Concatenating: one unicode part makes the result unicode, and the byte strings have to be ASCII then.\<close>

definition joined :: "py_text list \<Rightarrow> py_text res" where
  "joined ps =
     (if list_all is_bytes ps then Inr (Bytes (concat (map raw ps)))
      else if list_all (\<lambda>p. is_bytes p \<longrightarrow> is_ascii (raw p)) ps then Inr (Uni (concat (map raw ps)))
      else Inl (ValueError ''ascii codec cannot decode''))"

lemma joined_bytes [simp]: "joined (map Bytes ss) = Inr (Bytes (concat ss))"
  by (simp add: joined_def list_all_iff comp_def)

lemma joined_raw: "joined ps = Inr t \<Longrightarrow> raw t = concat (map raw ps)"
  by (auto simp: joined_def split: if_splits)

lemma joined_ascii: "list_all (\<lambda>p. is_ascii (raw p)) ps \<Longrightarrow> \<exists>t. joined ps = Inr t \<and> raw t = concat (map raw ps)"
  by (auto simp: joined_def list_all_iff)

text \<open>\<open>unicode2utf8\<close> and the like: the bytes of a text.\<close>

fun text_bytes :: "py_text \<Rightarrow> string" where
  "text_bytes (Bytes s) = s"
| "text_bytes (Uni s) = utf8 s"

section \<open>Escaping characters\<close>

definition escape_range :: "(nat \<times> nat) list" where
  "escape_range =
     [(0xA0, 0xD7FF), (0xE000, 0xF8FF), (0xF900, 0xFDCF), (0xFDF0, 0xFFEF), (0x10000, 0x1FFFD), (0x20000, 0x2FFFD),
      (0x30000, 0x3FFFD), (0x40000, 0x4FFFD), (0x50000, 0x5FFFD), (0x60000, 0x6FFFD), (0x70000, 0x7FFFD),
      (0x80000, 0x8FFFD), (0x90000, 0x9FFFD), (0xA0000, 0xAFFFD), (0xB0000, 0xBFFFD), (0xC0000, 0xCFFFD),
      (0xD0000, 0xDFFFD), (0xE1000, 0xEFFFD), (0xF0000, 0xFFFFD), (0x100000, 0x10FFFD)]"

text \<open>The loop of \<open>encode\<close> over the ranges. The octets it writes are all above 15 and take two digits.\<close>

fun encode_in :: "(nat \<times> nat) list \<Rightarrow> char \<Rightarrow> string" where
  "encode_in [] c = [c]"
| "encode_in ((low, high) # rs) c =
     (if of_char c < low then [c]
      else if low \<le> of_char c \<and> of_char c \<le> high then concat (map pct (utf8 [c]))
      else encode_in rs c)"

definition iri_char :: "char \<Rightarrow> string" where
  "iri_char c = encode_in escape_range c"

lemma iri_char_cases:
  "iri_char c = (if (of_char c :: nat) < 0xA0 then [c] else concat (map pct (utf8 [c])))"
proof -
  have "(of_char c :: nat) \<le> 0xD7FF" using of_char_bound [of c] by linarith
  then show ?thesis by (simp add: iri_char_def escape_range_def)
qed

section \<open>The conversion\<close>

text \<open>\<open>urlsplit\<close> leaves the parameters of the last segment in the path; \<open>urlunsplit\<close> is \<open>urlunparse\<close> without them.\<close>

definition urlsplit :: "string \<Rightarrow> url_parts res" where
  "urlsplit u0 =
     (case split_scheme u0 of (sch, u1) \<Rightarrow>
      case split_netloc u1 of (nl, u2) \<Rightarrow>
        if (CHR ''['' \<in> set nl) \<noteq> (CHR '']'' \<in> set nl) then Inl (ValueError ''Invalid IPv6 URL'')
        else
          (case split_tail (CHR ''#'') u2 of (u3, fr) \<Rightarrow>
           case split_tail (CHR ''?'') u3 of (p, q) \<Rightarrow>
             Inr \<lparr>scheme = sch, netloc = nl, path = p, params = [], query = q, fragment = fr\<rparr>))"

definition iri2uri :: "(string \<Rightarrow> string res) \<Rightarrow> py_text \<Rightarrow> py_text res" where
  "iri2uri idna uri =
     (case uri of
        Bytes b \<Rightarrow> Inr uri
      | Uni s \<Rightarrow> rbind (urlsplit s) (\<lambda>u. rbind (idna (netloc u)) (\<lambda>a.
          Inr (Uni (concat (map iri_char (urlunparse (u\<lparr>netloc := a\<rparr>))))))))"

section \<open>Lemmas\<close>

lemma iri_chars_plain: "list_all (\<lambda>c. (of_char c :: nat) < 0xA0) s \<Longrightarrow> concat (map iri_char s) = s"
  by (induction s) (simp_all add: iri_char_cases)

lemma pct_low: "x \<in> set (pct c) \<Longrightarrow> (of_char x :: nat) < 0xA0"
proof -
  assume "x \<in> set (pct c)"
  then have "x = CHR ''%'' \<or> always_safe x" by (rule pct_chars)
  then show ?thesis by (auto simp: always_safe_def Let_def)
qed

lemma iri_chars_low: "list_all (\<lambda>c. (of_char c :: nat) < 0xA0) (concat (map iri_char s))"
  by (auto simp: list_all_iff iri_char_cases dest: pct_low split: if_splits)

text \<open>Converting twice changes nothing more.\<close>

lemma iri_chars_again: "concat (map iri_char (concat (map iri_char s))) = concat (map iri_char s)"
  by (rule iri_chars_plain [OF iri_chars_low])

text \<open>Unquoting gives the UTF-8 bytes back, when there were no percent signs and no control characters.\<close>

lemma unquote_octets: "unquote (concat (map pct bs) @ t) = bs @ unquote t"
  by (induction bs) simp_all

lemma iri_chars_unquoted:
  assumes "list_all (\<lambda>c. c \<noteq> CHR ''%'' \<and> ((of_char c :: nat) < 0x80 \<or> 0xA0 \<le> (of_char c :: nat))) s"
  shows "unquote (concat (map iri_char s)) = utf8 s"
  using assms
proof (induction s)
  case (Cons c s)
  show ?case
  proof (cases "(of_char c :: nat) < 0xA0")
    case True
    with Cons show ?thesis by (simp add: iri_char_cases utf8_char_def)
  next
    case False
    with Cons show ?thesis by (simp add: iri_char_cases unquote_octets)
  qed
qed simp

text \<open>An absolute ASCII URL is left as it is.\<close>

lemma iri2uri_plain:
  assumes "plain_url u" "list_all (\<lambda>c. (of_char c :: nat) < 0xA0) (urlunparse u)" "idna (netloc u) = Inr (netloc u)"
  shows "iri2uri idna (Uni (urlunparse u)) = Inr (Uni (urlunparse u))"
proof -
  have "urlsplit (urlunparse u) = Inr u"
    unfolding urlsplit_def plain_url_splits [OF assms(1)] prod.case using assms(1) by (simp add: plain_url_def)
  with assms(2,3) show ?thesis by (simp add: iri2uri_def iri_chars_plain)
qed

end
