(* ===== verification/MailDate.thy ===== *)
theory MailDate
  imports Calendar PyValue
begin

text \<open>
  The dates of messages as \<open>socialnet/twitter.py\<close> reads them: \<open>rfc822.parsedate\<close> of Python 2 word by word, with the
  forms it tolerates, and \<open>calendar.timegm\<close>. A date that is none of these forms is nothing; empty parts raise.
\<close>

section \<open>Words\<close>

text \<open>\<open>s.split()\<close>.\<close>

fun str_words :: "string \<Rightarrow> string list" where
  "str_words [] = []"
| "str_words (c # s) =
     (if is_space c then str_words s
      else case s of
        [] \<Rightarrow> [[c]]
      | d # _ \<Rightarrow> if is_space d then [c] # str_words s
          else (case str_words s of [] \<Rightarrow> [[c]] | w # ws \<Rightarrow> (c # w) # ws))"

lemma str_words_word: "w \<noteq> [] \<Longrightarrow> \<forall>c\<in>set w. \<not> is_space c \<Longrightarrow> str_words w = [w]"
proof (induction w)
  case (Cons c w)
  then show ?case by (cases w) auto
qed simp

lemma str_words_append:
  "w \<noteq> [] \<Longrightarrow> \<forall>c\<in>set w. \<not> is_space c \<Longrightarrow> str_words (w @ CHR '' '' # s) = w # str_words s"
proof (induction w)
  case (Cons c w)
  then show ?case by (cases w) (auto simp: is_space_def)
qed simp

text \<open>\<open>s[-1]\<close> and \<open>s[0]\<close>; the text without a comma at its end.\<close>

definition last_char :: "string \<Rightarrow> char res" where
  "last_char s = (if s = [] then Inl IndexError else Inr (last s))"

definition first_char :: "string \<Rightarrow> char res" where
  "first_char s = (if s = [] then Inl IndexError else Inr (hd s))"

definition drop_comma :: "string \<Rightarrow> string res" where
  "drop_comma s = rbind (last_char s) (\<lambda>c. Inr (if c = CHR '','' then butlast s else s))"

definition after_comma :: "string \<Rightarrow> string" where
  "after_comma s = rev (takeWhile (\<lambda>c. c \<noteq> CHR '','') (rev s))"

section \<open>The parts of a date\<close>

definition month_names :: "string list" where
  "month_names = [''jan'', ''feb'', ''mar'', ''apr'', ''may'', ''jun'', ''jul'', ''aug'', ''sep'', ''oct'', ''nov'', ''dec'',
     ''january'', ''february'', ''march'', ''april'', ''may'', ''june'', ''july'', ''august'', ''september'', ''october'',
     ''november'', ''december'']"

definition day_names :: "string list" where
  "day_names = [''mon'', ''tue'', ''wed'', ''thu'', ''fri'', ''sat'', ''sun'']"

fun position :: "'a \<Rightarrow> 'a list \<Rightarrow> nat option" where
  "position x [] = None"
| "position x (y # ys) = (if x = y then Some 0 else map_option Suc (position x ys))"

text \<open>The number of a month.\<close>

definition month_number :: "string \<Rightarrow> int option" where
  "month_number s = map_option (\<lambda>i. if 12 \<le> i then int i - 11 else int i + 1) (position s month_names)"

text \<open>The name of the day is left out.\<close>

definition skip_day :: "string list \<Rightarrow> string list res" where
  "skip_day ws =
     (case ws of
        [] \<Rightarrow> Inl IndexError
      | w # r \<Rightarrow> rbind (last_char w) (\<lambda>c.
          Inr (if c = CHR '','' \<or> c = CHR ''.'' \<or> str_lower w \<in> set day_names then r else after_comma w # r)))"

text \<open>The old form \<open>27-Jan-07\<close>, and a zone glued to the time.\<close>

definition rfc850_parts :: "string list \<Rightarrow> string list" where
  "rfc850_parts ws =
     (case ws of
        [a, b, c] \<Rightarrow> (case str_split (CHR ''-'') a of [x, y, z] \<Rightarrow> [x, y, z, b, c] | _ \<Rightarrow> ws)
      | _ \<Rightarrow> ws)"

definition split_zone :: "string list \<Rightarrow> string list" where
  "split_zone ws =
     (case ws of
        [a, b, c, s] \<Rightarrow>
          (case str_find s ''+'' of
             Some i \<Rightarrow> if 0 < i then [a, b, c, take i s, drop (Suc i) s] else [a, b, c, s, []]
           | None \<Rightarrow> [a, b, c, s, []])
      | _ \<Rightarrow> ws)"

text \<open>The day and the month, in either order.\<close>

definition day_month :: "string \<Rightarrow> string \<Rightarrow> (string \<times> int) option" where
  "day_month dd mm0 =
     (let mm = str_lower mm0 in
      case month_number mm of
        Some m \<Rightarrow> Some (dd, m)
      | None \<Rightarrow> map_option (Pair mm) (month_number (str_lower dd)))"

definition has_colon :: "string \<Rightarrow> bool" where
  "has_colon s \<longleftrightarrow> (case str_find s '':'' of Some i \<Rightarrow> 0 < i | None \<Rightarrow> False)"

type_synonym date_parts = "int \<times> int \<times> int \<times> int \<times> int \<times> int"

definition whole_numbers :: "string list \<Rightarrow> int list option" where
  "whole_numbers ss = (case rmap parse_int ss of Inl e \<Rightarrow> None | Inr ns \<Rightarrow> Some ns)"

text \<open>The hours, minutes and seconds of a time.\<close>

definition clock_parts :: "string \<Rightarrow> string list option" where
  "clock_parts tm =
     (case str_split (CHR '':'') tm of
        [h, m] \<Rightarrow> Some [h, m, ''0'']
      | [h, m, s] \<Rightarrow> Some [h, m, s]
      | _ \<Rightarrow> None)"

definition read_parts :: "string \<Rightarrow> int \<Rightarrow> string \<Rightarrow> string \<Rightarrow> string \<Rightarrow> date_parts option res" where
  "read_parts dd0 m yy0 tm0 tz =
     rbind (drop_comma dd0) (\<lambda>dd.
     let (yy1, tm1) = (if has_colon yy0 then (tm0, yy0) else (yy0, tm0)) in
     rbind (drop_comma yy1) (\<lambda>yy2.
     rbind (first_char yy2) (\<lambda>c.
     let yy = (if is_digit c then yy2 else tz) in
     rbind (drop_comma tm1) (\<lambda>tm.
     Inr (case clock_parts tm of
        None \<Rightarrow> None
      | Some hms \<Rightarrow>
          (case whole_numbers ([yy, dd] @ hms) of
             Some [y, d, h, mi, s] \<Rightarrow> Some (y, m, d, h, mi, s)
           | _ \<Rightarrow> None))))))"

definition parsedate :: "string \<Rightarrow> date_parts option res" where
  "parsedate data =
     (if data = [] then Inr None
      else
        rbind (skip_day (str_words data)) (\<lambda>ws.
        case take 5 (split_zone (rfc850_parts ws)) of
          [dd, mm, yy, tm, tz] \<Rightarrow>
            (case day_month dd mm of
               None \<Rightarrow> Inr None
             | Some (d, m) \<Rightarrow> read_parts d m yy tm tz)
        | _ \<Rightarrow> Inr None))"

text \<open>\<open>calendar.timegm\<close>.\<close>

definition timegm :: "date_parts option \<Rightarrow> int res" where
  "timegm t =
     (case t of
        None \<Rightarrow> Inl (TypeError ''NoneType object has no attribute __getitem__'')
      | Some (y, m, d, h, mi, s) \<Rightarrow>
          if 1 \<le> y \<and> y \<le> 9999 then Inr ((((to_ordinal y m 1 - epoch_ordinal + d - 1) * 24 + h) * 60 + mi) * 60 + s)
          else Inl (ValueError ''year is out of range''))"

definition date_seconds :: "pyval \<Rightarrow> int res" where
  "date_seconds v =
     (if \<not> truthy v then timegm None
      else (case v of PStr s \<Rightarrow> rbind (parsedate s) timegm | _ \<Rightarrow> Inl (AttributeError ''split'')))"

section \<open>The dates that Twitter writes\<close>

definition short_month :: "int \<Rightarrow> string" where
  "short_month m = (case month_names ! nat (m - 1) of c # s \<Rightarrow> upper_char c # s | [] \<Rightarrow> [])"

definition clock_text :: "int \<Rightarrow> int \<Rightarrow> int \<Rightarrow> string" where
  "clock_text h mi s = two_digits h @ '':'' @ two_digits mi @ '':'' @ two_digits s"

definition twitter_date :: "string \<Rightarrow> date_parts \<Rightarrow> string" where
  "twitter_date day t = (case t of (y, m, d, h, mi, s) \<Rightarrow>
     day @ '' '' @ short_month m @ '' '' @ two_digits d @ '' '' @ clock_text h mi s @ '' +0000 '' @ show_int y)"

lemma month_cases: "1 \<le> m \<Longrightarrow> m \<le> 12 \<Longrightarrow> m \<in> {1, 2, 3, 4, 5, 6, 7, 8, 9, 10, 11, 12 :: int}"
  unfolding insert_iff empty_iff by presburger

lemma short_month_read:
  assumes "1 \<le> m" "m \<le> 12"
  shows "month_number (str_lower (short_month m)) = Some m" "short_month m \<noteq> []" "\<forall>c\<in>set (short_month m). \<not> is_space c"
    "CHR ''-'' \<notin> set (short_month m)"
proof -
  have "list_all (\<lambda>m. month_number (str_lower (short_month m)) = Some m \<and> short_month m \<noteq> [] \<and> list_all (\<lambda>c. \<not> is_space c) (short_month m)
      \<and> CHR ''-'' \<notin> set (short_month m)) [1, 2, 3, 4, 5, 6, 7, 8, 9, 10, 11, 12]"
    by code_simp
  then show "month_number (str_lower (short_month m)) = Some m" "short_month m \<noteq> []" "\<forall>c\<in>set (short_month m). \<not> is_space c"
    "CHR ''-'' \<notin> set (short_month m)"
    using month_cases [OF assms] by (auto simp: list_all_iff)
qed

lemma parse_int_digits:
  assumes "s \<noteq> []" "list_all is_digit s"
  shows "parse_int s = Inr (int (digits_val s))"
proof -
  obtain c r where s: "s = c # r" using assms(1) by (cases s) auto
  have "\<not> is_space (hd s)" "\<not> is_space (last s)"
    using assms by (auto simp: list_all_iff is_digit_not_space)
  then have "str_strip s = s" unfolding str_strip_def by (intro strip_by_id) simp
  moreover have "c \<noteq> CHR ''-''" "c \<noteq> CHR ''+''" using assms(2) by (auto simp: s is_digit_def)
  ultimately show ?thesis using assms by (simp add: parse_int_def s parse_nat_def)
qed

lemma digits_show_int: "0 \<le> n \<Longrightarrow> list_all is_digit (show_int n) \<and> show_int n \<noteq> []"
  by (simp add: show_int_def show_nat_digits)

lemma two_digits:
  assumes "0 \<le> n"
  shows "list_all is_digit (two_digits n)" "two_digits n \<noteq> []" "parse_int (two_digits n) = Inr n"
proof -
  have z: "is_digit CHR ''0''" "digit_val CHR ''0'' = 0" by code_simp+
  show d: "list_all is_digit (two_digits n)" "two_digits n \<noteq> []"
    using digits_show_int [OF assms] z(1) by (auto simp: two_digits_def)
  have "digits_val (CHR ''0'' # s) = digits_val s" for s by (simp add: digits_val_def z)
  then have "digits_val (two_digits n) = nat n"
    using assms by (simp add: two_digits_def show_int_def)
  then show "parse_int (two_digits n) = Inr n" using parse_int_digits [OF d(2,1)] assms by simp
qed

lemma digit_plain:
  "list_all is_digit s \<Longrightarrow> c \<in> set s \<Longrightarrow> \<not> is_space c \<and> c \<notin> {CHR '':'', CHR ''+'', CHR '','', CHR ''-''}"
  by (auto simp: list_all_iff is_digit_not_space is_digit_def)

lemma str_find_absent: "c \<notin> set s \<Longrightarrow> str_find s [c] = None"
  by (induction s) auto

lemma has_colon_plain: "CHR '':'' \<notin> set s \<Longrightarrow> \<not> has_colon s"
  by (simp add: has_colon_def str_find_absent)

lemma has_colon_clock: "w \<noteq> [] \<Longrightarrow> CHR '':'' \<notin> set w \<Longrightarrow> has_colon (w @ CHR '':'' # s)"
proof -
  have "str_find (w @ CHR '':'' # s) '':'' = Some (length w)" if "CHR '':'' \<notin> set w"
    using that by (induction w) auto
  then show "w \<noteq> [] \<Longrightarrow> CHR '':'' \<notin> set w \<Longrightarrow> ?thesis" by (simp add: has_colon_def)
qed

text \<open>The clock of a date, read back.\<close>

lemma clock_text_read:
  assumes "0 \<le> h" "0 \<le> mi" "0 \<le> s"
  shows "clock_parts (clock_text h mi s) = Some [two_digits h, two_digits mi, two_digits s]"
    and "has_colon (clock_text h mi s)" and "\<forall>c\<in>set (clock_text h mi s). \<not> is_space c \<and> c \<noteq> CHR '',''"
    and "clock_text h mi s \<noteq> []"
proof -
  note d = two_digits(1) [OF assms(1)] two_digits(1) [OF assms(2)] two_digits(1) [OF assms(3)]
  have p: "CHR '':'' \<notin> set (two_digits h)" "CHR '':'' \<notin> set (two_digits mi)" "CHR '':'' \<notin> set (two_digits s)"
    using digit_plain [OF d(1)] digit_plain [OF d(2)] digit_plain [OF d(3)] by auto
  show "clock_parts (clock_text h mi s) = Some [two_digits h, two_digits mi, two_digits s]"
    using p by (simp add: clock_parts_def clock_text_def str_split_append str_split_no_sep)
  show "has_colon (clock_text h mi s)"
    using p two_digits(2) [OF assms(1)] has_colon_clock [of "two_digits h"] by (simp add: clock_text_def)
  show "\<forall>c\<in>set (clock_text h mi s). \<not> is_space c \<and> c \<noteq> CHR '',''"
    using digit_plain [OF d(1)] digit_plain [OF d(2)] digit_plain [OF d(3)] by (auto simp: clock_text_def is_space_def)
  show "clock_text h mi s \<noteq> []" by (simp add: clock_text_def)
qed

lemma drop_comma_plain: "s \<noteq> [] \<Longrightarrow> \<forall>c\<in>set s. c \<noteq> CHR '','' \<Longrightarrow> drop_comma s = Inr s"
  by (simp add: drop_comma_def last_char_def)

lemma str_words_twitter:
  assumes "str_lower day \<in> set day_names" "1 \<le> m" "m \<le> 12" "0 \<le> d" "0 \<le> h" "0 \<le> mi" "0 \<le> s" "0 \<le> y"
  shows "str_words (twitter_date day (y, m, d, h, mi, s)) =
    [day, short_month m, two_digits d, clock_text h mi s, ''+0000'', show_int y]"
proof -
  have day: "day \<noteq> []" "\<forall>c\<in>set day. \<not> is_space c"
  proof -
    show "day \<noteq> []" using assms(1) by (auto simp: day_names_def str_lower_def)
    have "list_all (\<lambda>w. list_all (\<lambda>c. \<not> is_space c) w) day_names" by code_simp
    moreover have "is_space (lower_char c)" if "is_space c" for c
      using that by (auto simp: is_space_def lower_char_def)
    ultimately show "\<forall>c\<in>set day. \<not> is_space c" using assms(1) by (fastforce simp: list_all_iff str_lower_def)
  qed
  have d: "two_digits d \<noteq> []" "\<forall>c\<in>set (two_digits d). \<not> is_space c"
    using two_digits [OF assms(4)] digit_plain by blast+
  have y: "show_int y \<noteq> []" "\<forall>c\<in>set (show_int y). \<not> is_space c"
    using digits_show_int [OF assms(8)] digit_plain by blast+
  note c = clock_text_read(3,4) [OF assms(5,6,7)]
  have z: "\<forall>c\<in>set ''+0000''. \<not> is_space c" by code_simp
  show ?thesis
    using short_month_read [OF assms(2,3)] day d y c
      str_words_append [OF _ z, of "show_int y"] by (simp add: twitter_date_def str_words_append str_words_word)
qed

lemma digits_lower: "list_all is_digit s \<Longrightarrow> str_lower s = s"
  by (auto simp: str_lower_def list_all_iff is_digit_def lower_char_def intro!: map_idI)

lemma position_None: "x \<notin> set ys \<Longrightarrow> position x ys = None"
  by (induction ys) auto

lemma digits_no_month: "list_all is_digit s \<Longrightarrow> s \<noteq> [] \<Longrightarrow> month_number s = None"
proof -
  assume "list_all is_digit s" "s \<noteq> []"
  moreover have "list_all (\<lambda>w. \<not> list_all is_digit w) month_names" by code_simp
  ultimately have "s \<notin> set month_names" by (auto simp: list_all_iff)
  then show ?thesis by (simp add: month_number_def position_None)
qed

lemma twitter_date_read:
  assumes "str_lower day \<in> set day_names" "1 \<le> m" "m \<le> 12" "0 \<le> d" "0 \<le> h" "0 \<le> mi" "0 \<le> s" "0 \<le> y"
  shows "parsedate (twitter_date day (y, m, d, h, mi, s)) = Inr (Some (y, m, d, h, mi, s))"
proof -
  let ?m = "short_month m" and ?d = "two_digits d" and ?t = "clock_text h mi s" and ?y = "show_int y"
  have 1: "skip_day [day, ?m, ?d, ?t, ''+0000'', ?y] = Inr [?m, ?d, ?t, ''+0000'', ?y]"
    using assms(1) by (auto simp: skip_day_def last_char_def day_names_def str_lower_def)
  have low: "str_lower ?d = ?d" using two_digits(1) [OF assms(4)] by (rule digits_lower)
  have nm: "month_number ?d = None"
    using two_digits [OF assms(4)] by (simp add: digits_no_month)
  have 2: "day_month ?m ?d = Some (?d, m)"
    using short_month_read [OF assms(2,3)] nm low by (simp add: day_month_def)
  have comma: "drop_comma ?d = Inr ?d" "drop_comma ?t = Inr ?t" "drop_comma ''+0000'' = Inr ''+0000''"
    using two_digits [OF assms(4)] digit_plain clock_text_read(3,4) [OF assms(5,6,7)]
    by (auto intro!: drop_comma_plain)
  have "first_char ''+0000'' = Inr CHR ''+''" "\<not> is_digit CHR ''+''" by code_simp+
  then have "read_parts ?d m ?t ''+0000'' ?y = Inr (Some (y, m, d, h, mi, s))"
    using clock_text_read(1,2) [OF assms(5,6,7)] comma two_digits(3) assms(4-8)
    by (simp add: read_parts_def whole_numbers_def)
  then show ?thesis
    unfolding parsedate_def str_words_twitter [OF assms]
    using 1 2 by (simp add: rfc850_parts_def split_zone_def twitter_date_def)
qed

end
