(* ===== verification/Mdns.thy ===== *)
theory Mdns
  imports Complex_Main PyValue
begin

text \<open>
  The multicast-DNS client, \<open>psp_python/mdns.py\<close>: the table of the signposts seen on the local
  network, the join and leave callbacks, and the reactions to the events of the service browser.
  Calls that leave the client (callbacks, bus calls, log lines) are recorded as actions in the
  order the code makes them; the flag and state constants of the \<open>avahi\<close> package are arguments.
\<close>

section \<open>State\<close>

record avahi =
  PROTO_INET :: int
  IF_UNSPEC :: int
  GROUP_ESTABLISHED :: int
  GROUP_COLLISION :: int
  GROUP_FAILURE :: int

record service_info =
  sport :: int
  saddress :: string

text \<open>The outer keys are service names, the inner keys interface numbers.\<close>

type_synonym psp_table = "(pyval \<times> (pyval \<times> service_info) list) list"

record 'cb mdns =
  mtype :: string
  has_server :: bool
  local_psp :: psp_table
  mname :: string
  mdomain :: string
  mport :: int
  join_cb :: "'cb list"
  leave_cb :: "'cb list"
  has_group :: bool

datatype 'cb action =
    LogInfo string
  | LogError string
  | CallJoin 'cb string int
  | CallLeave 'cb string int
  | ResolveService int int string string string int
  | GetServer
  | ServiceBrowserNew int int string string
  | ConnectSignal string
  | EntryGroupNew
  | AddService int int string string int string
  | CommitGroup

definition mdns_init :: "string \<Rightarrow> string \<Rightarrow> int \<Rightarrow> 'cb mdns" where
  "mdns_init nm dmn port = \<lparr>mtype = ''_signpost._tcp'', has_server = False, local_psp = [],
     mname = nm, mdomain = dmn, mport = port, join_cb = [], leave_cb = [], has_group = False\<rparr>"

section \<open>Operations\<close>

type_synonym 'cb outcome = "'cb mdns \<times> 'cb action list \<times> unit res"

definition register_callback :: "string \<Rightarrow> 'cb \<Rightarrow> 'cb mdns \<Rightarrow> 'cb outcome" where
  "register_callback typ cb s =
     (if str_lower typ = ''join'' then (s\<lparr>join_cb := join_cb s @ [cb]\<rparr>, [], Inr ())
      else if str_lower typ = ''leave'' then (s\<lparr>leave_cb := leave_cb s @ [cb]\<rparr>, [], Inr ())
      else (s, [LogError (''mdns:register callback '' @ typ @ '' failed'')], Inr ()))"

text \<open>\<open>args[0]\<close> is the interface, \<open>args[2]\<close> the name, \<open>args[7]\<close> the address and \<open>args[8]\<close> the
  port of the resolved service. The second test looks the interface up among the names.\<close>

definition ensure_name :: "string \<Rightarrow> psp_table \<Rightarrow> psp_table" where
  "ensure_name nm t = (if pd_has t (PStr nm) then t else pd_set t (PStr nm) [])"

definition psp_at :: "psp_table \<Rightarrow> string \<Rightarrow> (pyval \<times> service_info) list" where
  "psp_at t nm = (case pd_get t (PStr nm) of None \<Rightarrow> [] | Some d \<Rightarrow> d)"

definition service_resolved ::
    "int \<Rightarrow> string \<Rightarrow> string \<Rightarrow> int \<Rightarrow> 'cb mdns \<Rightarrow> 'cb outcome" where
  "service_resolved interface nm addr port s =
     (let t = ensure_name nm (local_psp s) in
      if \<not> pd_has t (PInt interface) then
        (s\<lparr>local_psp := pd_set t (PStr nm)
             (pd_set (psp_at t nm) (PInt interface) \<lparr>sport = port, saddress = addr\<rparr>)\<rparr>,
         LogInfo (''mdns:adding service '' @ nm @ '' ['' @ addr @ ''-'' @ show_int port @ '']'')
           # map (\<lambda>cb. CallJoin cb nm interface) (join_cb s),
         Inr ())
      else (s\<lparr>local_psp := t\<rparr>, [], Inr ()))"

text \<open>The attribute is spelled \<open>_loger\<close> here; the class only has \<open>_logger\<close>.\<close>

definition print_error :: "string \<Rightarrow> 'cb mdns \<Rightarrow> 'cb outcome" where
  "print_error msg s = (s, [], Inl (AttributeError ''_loger''))"

definition add_signpost ::
    "avahi \<Rightarrow> int \<Rightarrow> int \<Rightarrow> string \<Rightarrow> string \<Rightarrow> string \<Rightarrow> int \<Rightarrow> 'cb mdns \<Rightarrow> 'cb outcome" where
  "add_signpost av interface protocol nm stype domain flags s =
     (let log = LogInfo (''mdns: add '' @ nm @ '' [intf '' @ show_int interface @ '', domain '' @ domain @ '']'')
      in if has_server s
         then (s, [log, ResolveService interface protocol nm stype domain (PROTO_INET av)], Inr ())
         else (s, [log], Inl (AttributeError ''ResolveService'')))"

definition remove_signpost ::
    "int \<Rightarrow> int \<Rightarrow> string \<Rightarrow> string \<Rightarrow> string \<Rightarrow> int \<Rightarrow> 'cb mdns \<Rightarrow> 'cb outcome" where
  "remove_signpost interface protocol nm stype domain flags s =
     (let t = local_psp s;
          calls = map (\<lambda>cb. CallLeave cb nm interface) (leave_cb s)
      in if pd_has t (PStr nm) \<and> pd_has (psp_at t nm) (PInt interface) then
           (s\<lparr>local_psp := pd_set t (PStr nm) (pd_del (psp_at t nm) (PInt interface))\<rparr>,
            LogInfo (''mdns: rem '' @ nm @ '' [domain '' @ domain @ '', intf '' @ show_int interface @ '']'')
              # calls,
            Inr ())
         else (s, calls, Inr ()))"

definition entry_group_state_changed :: "avahi \<Rightarrow> int \<Rightarrow> string \<Rightarrow> 'cb mdns \<Rightarrow> 'cb outcome" where
  "entry_group_state_changed av state err s =
     (let log = LogInfo (''mdns: published state change: '' @ show_int state) in
      if state = GROUP_ESTABLISHED av then (s, [log, LogInfo ''mdns: Service established.''], Inr ())
      else if state = GROUP_COLLISION av then
        (s, [log, LogError ''mdns: Service name collision, aborting''], Inl (AttributeError ''exit''))
      else if state = GROUP_FAILURE av then
        (s, [log, LogError (''mdns: Error in group state changed '' @ err)], Inl (SystemExit 1))
      else (s, [log], Inr ()))"

definition setup_mdns :: "avahi \<Rightarrow> 'cb mdns \<Rightarrow> 'cb outcome" where
  "setup_mdns av s =
     (s\<lparr>has_server := True, has_group := True\<rparr>,
      [LogInfo ''mdns: Starting the avahi browsing service...'', GetServer,
       ServiceBrowserNew (IF_UNSPEC av) (PROTO_INET av) (mtype s) ''local'',
       ConnectSignal ''ItemNew'', ConnectSignal ''ItemRemove'']
      @ (if has_group s then [] else [EntryGroupNew, ConnectSignal ''StateChanged''])
      @ [AddService (IF_UNSPEC av) (PROTO_INET av) (mname s) (mtype s) (mport s)
           (''signpost for service '' @ mname s @ ''.'' @ mdomain s),
         CommitGroup],
      Inr ())"

section \<open>The client as a step relation\<close>

datatype 'cb event =
    Register string 'cb
  | Setup
  | ItemNew int int string string string int
  | ItemRemove int int string string string int
  | Resolved int string string int
  | LookupFailed string
  | GroupState int string

fun handle :: "avahi \<Rightarrow> 'cb event \<Rightarrow> 'cb mdns \<Rightarrow> 'cb outcome" where
  "handle av (Register typ cb) s = register_callback typ cb s"
| "handle av Setup s = setup_mdns av s"
| "handle av (ItemNew i p nm st dmn fl) s = add_signpost av i p nm st dmn fl s"
| "handle av (ItemRemove i p nm st dmn fl) s = remove_signpost i p nm st dmn fl s"
| "handle av (Resolved i nm addr port) s = service_resolved i nm addr port s"
| "handle av (LookupFailed msg) s = print_error msg s"
| "handle av (GroupState st err) s = entry_group_state_changed av st err s"

definition mdns_next :: "avahi \<Rightarrow> 'cb event \<Rightarrow> 'cb mdns \<Rightarrow> 'cb mdns" where
  "mdns_next av e s = fst (handle av e s)"

text \<open>A run of the client: the states it passes through and the actions it has performed.\<close>

inductive mdns_run :: "avahi \<Rightarrow> 'cb mdns \<Rightarrow> 'cb action list \<Rightarrow> 'cb mdns \<Rightarrow> bool" for av where
  run_start: "mdns_run av s [] s"
| run_step: "mdns_run av s out s1 \<Longrightarrow> handle av e s1 = (s2, out2, r) \<Longrightarrow> mdns_run av s (out @ out2) s2"

inductive_cases run_emptyE: "mdns_run av s [] t"

section \<open>Invariant and abstraction\<close>

text \<open>Keys of the outer dictionary are texts and keys of the inner ones are numbers.\<close>

fun is_text :: "pyval \<Rightarrow> bool" where
  "is_text (PStr _) = True"
| "is_text _ = False"

definition table_inv :: "psp_table \<Rightarrow> bool" where
  "table_inv t \<longleftrightarrow> pd_wf t \<and> list_all (\<lambda>(k, d). is_text k \<and> pd_wf d) t"

definition mdns_inv :: "'cb mdns \<Rightarrow> bool" where
  "mdns_inv s \<longleftrightarrow> table_inv (local_psp s) \<and> (has_group s \<longrightarrow> has_server s)"

text \<open>What the table promises: which address and port a name has on an interface.\<close>

definition seen :: "'cb mdns \<Rightarrow> string \<Rightarrow> int \<Rightarrow> (string \<times> int) option" where
  "seen s nm i =
     map_option (\<lambda>x. (saddress x, sport x)) (pd_get (psp_at (local_psp s) nm) (PInt i))"

type_synonym psp_view = "string \<Rightarrow> int \<Rightarrow> (string \<times> int) option"

fun view_step :: "'cb event \<Rightarrow> psp_view \<Rightarrow> psp_view" where
  "view_step (Resolved i nm addr port) v = v(nm := (v nm)(i \<mapsto> (addr, port)))"
| "view_step (ItemRemove i p nm st dmn fl) v = v(nm := (v nm)(i := None))"
| "view_step _ v = v"

lemma table_inv_wf: "table_inv t \<Longrightarrow> pd_wf t"
  by (simp add: table_inv_def)

lemma table_inv_at: "table_inv t \<Longrightarrow> pd_wf (psp_at t nm)"
proof -
  have "pd_get t k = Some d \<Longrightarrow> list_all (\<lambda>(k, d). is_text k \<and> pd_wf d) t \<Longrightarrow> pd_wf d" for k d
    by (induction t k rule: pd_get.induct) (auto split: if_splits)
  then show "table_inv t \<Longrightarrow> pd_wf (psp_at t nm)"
    by (auto simp: table_inv_def psp_at_def split: option.split)
qed

lemma table_inv_no_int: "table_inv t \<Longrightarrow> \<not> pd_has t (PInt i)"
proof -
  have "list_all (\<lambda>(k, d). is_text k \<and> pd_wf d) t \<Longrightarrow> pd_get t (PInt i) = None"
  proof (induction t)
    case (Cons p t)
    then show ?case by (cases p; cases "fst p") auto
  qed simp
  then show "table_inv t \<Longrightarrow> \<not> pd_has t (PInt i)" by (simp add: table_inv_def pd_has_def)
qed

lemma table_inv_set: "table_inv t \<Longrightarrow> pd_wf d \<Longrightarrow> table_inv (pd_set t (PStr nm) d)"
proof -
  have "list_all (\<lambda>(k, d). is_text k \<and> pd_wf d) t \<Longrightarrow> pd_wf d \<Longrightarrow>
      list_all (\<lambda>(k, d). is_text k \<and> pd_wf d) (pd_set t (PStr nm) d)"
    by (induction t "PStr nm" d rule: pd_set.induct) auto
  then show "table_inv t \<Longrightarrow> pd_wf d \<Longrightarrow> table_inv (pd_set t (PStr nm) d)"
    by (simp add: table_inv_def)
qed

lemma table_inv_ensure [simp]: "table_inv t \<Longrightarrow> table_inv (ensure_name nm t)"
  by (simp add: ensure_name_def table_inv_set)

lemma psp_at_set [simp]:
  "pd_wf t \<Longrightarrow> psp_at (pd_set t (PStr nm) d) nm' = (if nm = nm' then d else psp_at t nm')"
  by (simp add: psp_at_def)

lemma psp_at_ensure [simp]: "pd_wf t \<Longrightarrow> psp_at (ensure_name nm t) nm' = psp_at t nm'"
  by (auto simp: ensure_name_def psp_at_def pd_has_def split: option.split)

lemmas mdns_ops = register_callback_def print_error_def add_signpost_def
  entry_group_state_changed_def setup_mdns_def Let_def

lemma mdns_next_inv: "mdns_inv s \<Longrightarrow> mdns_inv (mdns_next av e s)"
proof (cases e)
  case (Resolved i nm addr port)
  then show "mdns_inv s \<Longrightarrow> ?thesis"
    by (simp add: mdns_next_def service_resolved_def mdns_inv_def Let_def table_inv_no_int
        table_inv_set table_inv_wf table_inv_at)
next
  case (ItemRemove i p nm st dmn fl)
  then show "mdns_inv s \<Longrightarrow> ?thesis"
    by (simp add: mdns_next_def remove_signpost_def mdns_inv_def Let_def table_inv_set
        table_inv_wf table_inv_at)
qed (auto simp: mdns_next_def mdns_inv_def mdns_ops)

lemma mdns_next_seen: "mdns_inv s \<Longrightarrow> seen (mdns_next av e s) = view_step e (seen s)"
proof (cases e)
  case (Resolved i nm addr port)
  then show "mdns_inv s \<Longrightarrow> ?thesis"
    by (intro ext) (simp add: mdns_next_def service_resolved_def mdns_inv_def Let_def seen_def
        table_inv_no_int table_inv_wf table_inv_at)
next
  case (ItemRemove i p nm st dmn fl)
  have "pd_get (psp_at t nm) (PInt i) = None"
    if "\<not> (pd_has t (PStr nm) \<and> pd_has (psp_at t nm) (PInt i))" for t
    using that by (auto simp: psp_at_def pd_has_def)
  with ItemRemove show "mdns_inv s \<Longrightarrow> ?thesis"
    by (intro ext) (auto simp: mdns_next_def remove_signpost_def mdns_inv_def Let_def seen_def
        table_inv_wf table_inv_at)
qed (auto simp: mdns_next_def seen_def fun_eq_iff mdns_ops)

lemma mdns_init_inv [simp]: "mdns_inv (mdns_init nm dmn port)"
  by (simp add: mdns_inv_def mdns_init_def table_inv_def)

interpretation browser: refined_machine "mdns_next av" mdns_inv seen view_step for av
  by unfold_locales (simp_all add: mdns_next_inv mdns_next_seen)

lemma handle_next: "handle av e s = (s', out, r) \<Longrightarrow> s' = mdns_next av e s"
  by (simp add: mdns_next_def)

lemma mdns_run_inv: "mdns_run av s out t \<Longrightarrow> mdns_inv s \<Longrightarrow> mdns_inv t"
  by (induction rule: mdns_run.induct) (auto dest: handle_next simp: mdns_next_inv)

section \<open>Properties\<close>

text \<open>C5: The table of signposts refines a map from name and interface to address and port: after
  any sequence of events it answers what the map obtained by overwriting on every resolution and
  erasing on every removal answers.\<close>

theorem mdns_refines_view:
  fixes es :: "'cb event list"
  shows "seen (fold (mdns_next av) es (mdns_init nm dmn port)) = fold view_step es (\<lambda>_ _. None)"
proof -
  have "seen (mdns_init nm dmn port :: 'cb mdns) = (\<lambda>_ _. None)"
    by (simp add: seen_def mdns_init_def psp_at_def fun_eq_iff)
  then show ?thesis using browser.run_abs [of "mdns_init nm dmn port" av es] by simp
qed

text \<open>In every reachable state a resolved service is recorded and announced to each join
  callback in the order of registration, even when the very same service is in the table already:
  the test meant to skip known services never succeeds.\<close>

theorem resolved_always_announced:
  assumes "mdns_run av (mdns_init me dmn p) out s"
  shows "\<exists>s' log. service_resolved i nm addr port s =
      (s', LogInfo log # map (\<lambda>cb. CallJoin cb nm i) (join_cb s), Inr ()) \<and>
    seen s' nm i = Some (addr, port)"
proof -
  have inv: "mdns_inv s" using assms mdns_init_inv by (rule mdns_run_inv)
  then have "seen (mdns_next av (Resolved i nm addr port) s) nm i = Some (addr, port)"
    by (simp add: mdns_next_seen)
  with inv show ?thesis
    by (auto simp: mdns_next_def service_resolved_def mdns_inv_def Let_def table_inv_no_int)
qed

theorem resolved_always_announced_witness:
  "\<exists>av s out log. mdns_run av (mdns_init ''laptop'' ''haris.sp'' 8080) out s \<and>
     fst (snd (service_resolved 2 ''phone'' ''10.0.0.4'' 8080 s)) =
       [LogInfo log, CallJoin (7 :: nat) ''phone'' 2]"
proof -
  let ?av = "\<lparr>PROTO_INET = 0, IF_UNSPEC = -1, GROUP_ESTABLISHED = 2, GROUP_COLLISION = 3,
    GROUP_FAILURE = 4\<rparr>"
  let ?s = "(mdns_init ''laptop'' ''haris.sp'' 8080)\<lparr>join_cb := [7 :: nat]\<rparr>"
  have "mdns_run ?av (mdns_init ''laptop'' ''haris.sp'' 8080) ([] @ []) ?s"
    by (rule run_step [OF run_start, of _ "Register ''join'' 7" _ _ _ "Inr ()"])
      (simp add: register_callback_def mdns_init_def str_lower_def lower_char_def)
  from resolved_always_announced [OF this, of 2 "''phone''" "''10.0.0.4''" 8080] this
  show ?thesis by fastforce
qed

text \<open>A removed service is forgotten on its interface only, every leave callback is called even
  when the service was never known, and the handler does not raise.\<close>

theorem remove_signpost_forgets:
  assumes "mdns_inv s"
  shows "\<exists>s' out. remove_signpost i p nm st dmn fl s = (s', out, Inr ()) \<and>
    seen s' = (seen s)(nm := (seen s nm)(i := None)) \<and>
    filter (\<lambda>a. case a of LogInfo _ \<Rightarrow> False | _ \<Rightarrow> True) out =
      map (\<lambda>cb. CallLeave cb nm i) (leave_cb s)"
proof -
  have "seen (mdns_next undefined (ItemRemove i p nm st dmn fl) s) =
      (seen s)(nm := (seen s nm)(i := None))"
    using mdns_next_seen [OF assms, of undefined "ItemRemove i p nm st dmn fl"] by simp
  then show ?thesis
    by (auto simp: mdns_next_def remove_signpost_def Let_def filter_empty_conv filter_id_conv)
qed

theorem remove_signpost_forgets_witness:
  "\<exists>s' out. remove_signpost 2 0 ''phone'' [] ''local'' 0
     ((mdns_init ''laptop'' ''haris.sp'' 8080)\<lparr>leave_cb := [7 :: nat]\<rparr>) = (s', out, Inr ()) \<and>
     seen s' ''phone'' 2 = None"
proof -
  have "mdns_inv ((mdns_init ''laptop'' ''haris.sp'' 8080)\<lparr>leave_cb := [7 :: nat]\<rparr>)"
    by (simp add: mdns_inv_def mdns_init_def table_inv_def)
  from remove_signpost_forgets [OF this, of 2 0 "''phone''" "[]" "''local''" 0] show ?thesis
    by fastforce
qed

text \<open>Of the events of the browser only three end in an exception: a failed lookup (through the
  misspelled logger), a name collision (through a method the class does not have) and a group
  failure, which alone asks the process to exit, as the code intends for collisions too; a new
  item raises only before the client is set up.\<close>

theorem mdns_exceptions:
  "snd (snd (handle av e s)) = Inl x \<longleftrightarrow>
     (\<exists>m. e = LookupFailed m \<and> x = AttributeError ''_loger'') \<or>
     (\<exists>err. e = GroupState (GROUP_COLLISION av) err \<and> GROUP_COLLISION av \<noteq> GROUP_ESTABLISHED av \<and>
        x = AttributeError ''exit'') \<or>
     (\<exists>err. e = GroupState (GROUP_FAILURE av) err \<and>
        GROUP_FAILURE av \<notin> {GROUP_ESTABLISHED av, GROUP_COLLISION av} \<and> x = SystemExit 1) \<or>
     (\<exists>i p nm st dmn fl. e = ItemNew i p nm st dmn fl \<and> \<not> has_server s \<and>
        x = AttributeError ''ResolveService'')"
  by (cases e) (auto simp: mdns_ops service_resolved_def remove_signpost_def)

end
