(* ===== verification/OAuth2.thy ===== *)
theory OAuth2
  imports Complex_Main Url Digest
begin

text \<open>
  The OAuth 1.0 library, \<open>socialnet/python-oauth2/oauth2/__init__.py\<close>: consumers, tokens, requests
  (construction, normalisation, signing, serialisation and parsing), the two signature methods, the
  client's preparation of a request and the server's checks. Keys, secrets and parameters are texts
  (Python's unicode objects); what arrives over the network is a byte string and is decoded where
  the code decodes it. The clock and the random nonce are arguments.
\<close>

section \<open>Text conversions\<close>

definition to_unicode :: "string \<Rightarrow> string res" where
  "to_unicode bytes =
     (case utf8_decode bytes of
        None \<Rightarrow> Inl (TypeError ''You are required to pass either a unicode object or a utf-8 string here'')
      | Some t \<Rightarrow> Inr t)"

lemma to_unicode_utf8 [simp]: "to_unicode (utf8 t) = Inr t"
  by (simp add: to_unicode_def)

text \<open>\<open>str()\<close> of a text: only ASCII can be converted.\<close>

definition py_str :: "string \<Rightarrow> string res" where
  "py_str t = (if is_ascii t then Inr t else Inl (ValueError ''ascii codec cannot encode''))"

text \<open>A parameter value is a text or a sequence of texts.\<close>

datatype pval = One string | Many "string list"

type_synonym pdict = "(string \<times> pval) list"

text \<open>\<open>to_unicode_optional_iterator\<close> and \<open>to_utf8_optional_iterator\<close>.\<close>

fun to_unicode_val :: "pval \<Rightarrow> pval res" where
  "to_unicode_val (One v) = rbind (to_unicode v) (\<lambda>t. Inr (One t))"
| "to_unicode_val (Many vs) = rbind (rmap to_unicode vs) (\<lambda>ts. Inr (Many ts))"

fun to_utf8_val :: "pval \<Rightarrow> pval" where
  "to_utf8_val (One v) = One (utf8 v)"
| "to_utf8_val (Many vs) = Many (map utf8 vs)"

definition to_unicode_params :: "pdict \<Rightarrow> pdict res" where
  "to_unicode_params ps = rmap (\<lambda>(k, v). rbind (to_unicode k) (\<lambda>k'.
     rbind (to_unicode_val v) (\<lambda>v'. Inr (k', v')))) ps"

text \<open>\<open>str()\<close> of a value; a list shows the representations of its texts.\<close>

definition hexL :: "nat \<Rightarrow> char" where
  "hexL d = (if d < 10 then char_of (48 + d) else char_of (87 + d))"

definition repr_char :: "char \<Rightarrow> char \<Rightarrow> string" where
  "repr_char q c = (let n = of_char c :: nat in
     if c = q \<or> n = 92 then [CHR 0x5C, c]
     else if n = 9 then [CHR 0x5C, CHR ''t''] else if n = 10 then [CHR 0x5C, CHR ''n'']
     else if n = 13 then [CHR 0x5C, CHR ''r'']
     else if n < 32 \<or> 127 \<le> n then [CHR 0x5C, CHR ''x'', hexL (n div 16), hexL (n mod 16)]
     else [c])"

definition py_repr :: "string \<Rightarrow> string" where
  "py_repr s = (let q = (if CHR 0x27 \<in> set s \<and> CHR 0x22 \<notin> set s then CHR 0x22 else CHR 0x27) in
     CHR ''u'' # q # concat (map (repr_char q) s) @ [q])"

fun str_of :: "pval \<Rightarrow> string res" where
  "str_of (One s) = py_str s"
| "str_of (Many xs) = Inr (''['' @ str_join '', '' (map py_repr xs) @ '']'')"

section \<open>Consumers and tokens\<close>

record consumer =
  ckey :: string
  csecret :: string

definition new_consumer :: "string option \<Rightarrow> string option \<Rightarrow> consumer res" where
  "new_consumer k s =
     (case (k, s) of
        (Some key, Some secret) \<Rightarrow> Inr \<lparr>ckey = key, csecret = secret\<rparr>
      | _ \<Rightarrow> Inl (ValueError ''Key and secret must be set.''))"

definition str_pair :: "string \<times> string \<Rightarrow> (string \<times> string) res" where
  "str_pair p = rbind (py_str (fst p)) (\<lambda>k. rbind (py_str (snd p)) (\<lambda>v. Inr (k, v)))"

definition consumer_str :: "consumer \<Rightarrow> string res" where
  "consumer_str c =
     rbind (rmap str_pair [(''oauth_consumer_key'', ckey c), (''oauth_consumer_secret'', csecret c)])
       (\<lambda>ps. Inr (urlencode ps))"

record token =
  tkey :: string
  tsecret :: string
  callback :: "string option"
  callback_confirmed :: "string option"
  verifier :: "string option"

definition new_token :: "string option \<Rightarrow> string option \<Rightarrow> token res" where
  "new_token k s =
     (case (k, s) of
        (Some key, Some secret) \<Rightarrow> Inr \<lparr>tkey = key, tsecret = secret, callback = None,
          callback_confirmed = None, verifier = None\<rparr>
      | _ \<Rightarrow> Inl (ValueError ''Key and secret must be set.''))"

definition set_callback :: "string option \<Rightarrow> token \<Rightarrow> token" where
  "set_callback cb t = t\<lparr>callback := cb, callback_confirmed := Some ''true''\<rparr>"

text \<open>The random digits of \<open>generate_nonce\<close> and \<open>generate_verifier\<close> are an argument.\<close>

definition generate_verifier :: "nat list \<Rightarrow> string" where
  "generate_verifier digits = concat (map show_nat digits)"

definition set_verifier :: "nat list \<Rightarrow> string option \<Rightarrow> token \<Rightarrow> token" where
  "set_verifier digits v t =
     t\<lparr>verifier := Some (case v of Some x \<Rightarrow> x | None \<Rightarrow> generate_verifier digits)\<rparr>"

definition truthy_text :: "string option \<Rightarrow> bool" where
  "truthy_text t \<longleftrightarrow> t \<noteq> None \<and> t \<noteq> Some []"

definition get_callback_url :: "token \<Rightarrow> string option res" where
  "get_callback_url t =
     (if truthy_text (callback t) \<and> truthy_text (verifier t) then
        rbind (urlparse (the (callback t))) (\<lambda>u.
          let q = (if query u \<noteq> [] then query u @ ''&oauth_verifier='' @ the (verifier t)
                   else ''oauth_verifier='' @ the (verifier t))
          in Inr (Some (urlunparse (u\<lparr>query := q\<rparr>))))
      else Inr (callback t))"

definition token_to_string :: "token \<Rightarrow> string res" where
  "token_to_string t =
     rbind (rmap str_pair ([(''oauth_token'', tkey t), (''oauth_token_secret'', tsecret t)]
         @ (case callback_confirmed t of None \<Rightarrow> [] | Some c \<Rightarrow> [(''oauth_callback_confirmed'', c)])))
       (\<lambda>ps. Inr (urlencode ps))"

definition first_value :: "(string \<times> string list) list \<Rightarrow> string \<Rightarrow> string option" where
  "first_value d k = (case map_of d k of Some (v # _) \<Rightarrow> Some v | _ \<Rightarrow> None)"

definition token_from_string :: "string \<Rightarrow> token res" where
  "token_from_string s =
     (if s = [] then Inl (ValueError ''Invalid parameter string.'')
      else let ps = parse_qs False s in
        if ps = [] then Inl (ValueError ''Invalid parameter string.'')
        else case first_value ps ''oauth_token'' of
          None \<Rightarrow> Inl (ValueError ''oauth_token not found in OAuth request.'')
        | Some key \<Rightarrow>
            (case first_value ps ''oauth_token_secret'' of
               None \<Rightarrow> Inl (ValueError ''oauth_token_secret not found in OAuth request.'')
             | Some secret \<Rightarrow>
                 rbind (new_token (Some key) (Some secret)) (\<lambda>t.
                   Inr (t\<lparr>callback_confirmed := first_value ps ''oauth_callback_confirmed''\<rparr>))))"

section \<open>Requests\<close>

record request =
  rmethod :: string
  rurl :: "string option"
  rnorm :: "string option"
  rparams :: pdict
  rbody :: string
  rform :: bool

text \<open>The \<open>url\<close> property: drops default ports and everything after the path.\<close>

definition normalize_url :: "string \<Rightarrow> string res" where
  "normalize_url v =
     rbind (urlparse v) (\<lambda>u.
       let nl = netloc u; n = length nl;
           nl' = (if scheme u = ''http'' \<and> ends_with nl '':80'' then take (n - 3) nl
                  else if scheme u = ''https'' \<and> ends_with nl '':443'' then take (n - 4) nl else nl)
       in if scheme u \<notin> {''http'', ''https''} then Inl (ValueError ''Unsupported URL'')
          else Inr (urlunparse \<lparr>scheme = scheme u, netloc = nl', path = path u, params = [],
                 query = [], fragment = []\<rparr>))"

definition new_request ::
    "string \<Rightarrow> string option \<Rightarrow> pdict \<Rightarrow> string \<Rightarrow> bool \<Rightarrow> request res" where
  "new_request meth url ps body form =
     rbind (case url of None \<Rightarrow> Inr None | Some u \<Rightarrow> rbind (normalize_url u) (\<lambda>n. Inr (Some n)))
       (\<lambda>n. Inr \<lparr>rmethod = str_upper meth, rurl = url, rnorm = n, rparams = ps, rbody = body,
              rform = form\<rparr>)"

definition request_url :: "request \<Rightarrow> string res" where
  "request_url r = (case rurl r of None \<Rightarrow> Inl (AttributeError ''url'') | Some u \<Rightarrow> Inr u)"

definition get_timestamp_nonce :: "request \<Rightarrow> (pval \<times> pval) res" where
  "get_timestamp_nonce r =
     (case map_of (rparams r) ''oauth_timestamp'' of
        None \<Rightarrow> Inl (KeyError ''oauth_timestamp'')
      | Some t \<Rightarrow> (case map_of (rparams r) ''oauth_nonce'' of
          None \<Rightarrow> Inl (KeyError ''oauth_nonce'')
        | Some n \<Rightarrow> Inr (t, n)))"

definition is_oauth_key :: "string \<Rightarrow> bool" where
  "is_oauth_key k = starts_with k ''oauth_''"

definition get_nonoauth_parameters :: "request \<Rightarrow> pdict" where
  "get_nonoauth_parameters r = filter (\<lambda>(k, v). \<not> is_oauth_key k) (rparams r)"

definition header_param :: "string \<times> pval \<Rightarrow> string res" where
  "header_param p =
     rbind (str_of (snd p)) (\<lambda>t. Inr (fst p @ [CHR ''='', CHR 0x22] @ escape t @ [CHR 0x22]))"

definition to_header :: "string \<Rightarrow> request \<Rightarrow> string res" where
  "to_header realm r =
     rbind (rmap header_param (filter (\<lambda>(k, v). is_oauth_key k) (rparams r))) (\<lambda>hs.
       let h = str_join '', '' hs; a = ''OAuth realm='' @ [CHR 0x22] @ realm @ [CHR 0x22]
       in Inr (if h \<noteq> [] then a @ '', '' @ h else a))"

definition spread :: "string \<times> pval \<Rightarrow> (string \<times> string) list" where
  "spread p = (case snd p of One v \<Rightarrow> [(fst p, v)] | Many vs \<Rightarrow> map (Pair (fst p)) vs)"

definition utf8_pair :: "string \<times> string \<Rightarrow> string \<times> string" where
  "utf8_pair p = (utf8 (fst p), utf8 (snd p))"

definition to_postdata :: "request \<Rightarrow> string" where
  "to_postdata r =
     replace_char (CHR ''+'') ''%20''
       (urlencode (concat (map (\<lambda>(k, v). spread (utf8 k, to_utf8_val v)) (rparams r))))"

text \<open>\<open>to_url\<close> appends each value to the list of its name and converts every list element.\<close>

definition add_to_query :: "string \<times> pval \<Rightarrow> (string \<times> pval list) list \<Rightarrow> (string \<times> pval list) list" where
  "add_to_query p q = (let vs = (case map_of q (fst p) of None \<Rightarrow> [] | Some l \<Rightarrow> l)
     in AList.update (fst p) (vs @ [snd p]) q)"

definition to_url :: "request \<Rightarrow> string res" where
  "to_url r =
     rbind (request_url r) (\<lambda>url. rbind (urlparse url) (\<lambda>base.
       let q0 = map (\<lambda>(k, vs). (k, map One vs)) (parse_qs False (query base));
           q = fold add_to_query (rparams r) q0
       in rbind (rmap (\<lambda>(k, vs). rbind (py_str k) (\<lambda>k'. rbind (rmap str_of vs) (\<lambda>ts. Inr (map (Pair k') ts)))) q)
            (\<lambda>pss. Inr (urlunparse (base\<lparr>query := urlencode (concat pss)\<rparr>)))))"

definition get_parameter :: "string \<Rightarrow> request \<Rightarrow> pval res" where
  "get_parameter p r =
     (case map_of (rparams r) p of None \<Rightarrow> Inl (OAuthError (''Parameter not found: '' @ p)) | Some v \<Rightarrow> Inr v)"

text \<open>\<open>_split_url_string\<close> unquotes values that \<open>parse_qs\<close> has unquoted already.\<close>

definition split_url_string :: "string \<Rightarrow> (string \<times> string) list" where
  "split_url_string s = map (\<lambda>(k, vs). (k, unquote (hd vs))) (parse_qs True (utf8 s))"

definition own_items :: "request \<Rightarrow> (string \<times> string) list" where
  "own_items r = map utf8_pair (concat (map spread (filter (\<lambda>(k, v). k \<noteq> ''oauth_signature'') (rparams r))))"

definition url_items :: "string \<Rightarrow> (string \<times> string) list res" where
  "url_items q =
     rmap (\<lambda>(k, v). rbind (to_unicode k) (\<lambda>k'. rbind (to_unicode v) (\<lambda>v'. Inr (utf8 k', utf8 v'))))
       (filter (\<lambda>(k, v). k \<noteq> ''oauth_signature'') (split_url_string q))"

definition signed_items :: "request \<Rightarrow> (string \<times> string) list res" where
  "signed_items r =
     rbind (request_url r) (\<lambda>url. rbind (urlparse url) (\<lambda>u. rbind (url_items (query u)) (\<lambda>us.
       Inr (sort (own_items r @ us)))))"

definition encode_items :: "(string \<times> string) list \<Rightarrow> string" where
  "encode_items ps = str_replace ''%7E'' ''~'' (replace_char (CHR ''+'') ''%20'' (urlencode ps))"

definition get_normalized_parameters :: "request \<Rightarrow> string res" where
  "get_normalized_parameters r = rbind (signed_items r) (\<lambda>ps. Inr (encode_items ps))"

section \<open>Signature methods\<close>

datatype sigmeth = HMAC_SHA1 | PLAINTEXT

fun sig_name :: "sigmeth \<Rightarrow> string" where
  "sig_name HMAC_SHA1 = ''HMAC-SHA1''"
| "sig_name PLAINTEXT = ''PLAINTEXT''"

definition hmac_signing_base :: "request \<Rightarrow> consumer \<Rightarrow> token option \<Rightarrow> (string \<times> string) res" where
  "hmac_signing_base r c t =
     (case rnorm r of
        None \<Rightarrow> Inl (ValueError ''Base URL for request is not set.'')
      | Some n \<Rightarrow> rbind (get_normalized_parameters r) (\<lambda>np.
          Inr (escape (csecret c) @ ''&'' @ (case t of None \<Rightarrow> [] | Some tok \<Rightarrow> escape (tsecret tok)),
               str_join ''&'' [escape (rmethod r), escape n, escape np])))"

definition hmac_sign :: "request \<Rightarrow> consumer \<Rightarrow> token option \<Rightarrow> string res" where
  "hmac_sign r c t = rbind (hmac_signing_base r c t) (\<lambda>(key, raw). Inr (b64encode (hmac_sha1 key raw)))"

definition plaintext_signing_base :: "request \<Rightarrow> consumer \<Rightarrow> token option \<Rightarrow> (string \<times> string) res" where
  "plaintext_signing_base r c t =
     (let s = escape (csecret c) @ ''&'' @ (case t of None \<Rightarrow> [] | Some tok \<Rightarrow> escape (tsecret tok))
      in Inr (s, s))"

definition plaintext_sign :: "request \<Rightarrow> consumer \<Rightarrow> token option \<Rightarrow> string res" where
  "plaintext_sign r c t = rbind (plaintext_signing_base r c t) (\<lambda>(key, raw). Inr raw)"

fun signing_base :: "sigmeth \<Rightarrow> request \<Rightarrow> consumer \<Rightarrow> token option \<Rightarrow> (string \<times> string) res" where
  "signing_base HMAC_SHA1 = hmac_signing_base"
| "signing_base PLAINTEXT = plaintext_signing_base"

fun sign :: "sigmeth \<Rightarrow> request \<Rightarrow> consumer \<Rightarrow> token option \<Rightarrow> string res" where
  "sign HMAC_SHA1 = hmac_sign"
| "sign PLAINTEXT = plaintext_sign"

text \<open>\<open>check\<close> of the base class, over the \<open>sign\<close> of the subclass.\<close>

definition check_with ::
    "(request \<Rightarrow> consumer \<Rightarrow> token option \<Rightarrow> string res) \<Rightarrow>
     request \<Rightarrow> consumer \<Rightarrow> token option \<Rightarrow> pval \<Rightarrow> bool res" where
  "check_with sg r c t signature = rbind (sg r c t) (\<lambda>built. Inr (One built = signature))"

definition set_param :: "string \<Rightarrow> pval \<Rightarrow> request \<Rightarrow> request" where
  "set_param k v r = r\<lparr>rparams := AList.update k v (rparams r)\<rparr>"

definition default_param :: "string \<Rightarrow> pval \<Rightarrow> request \<Rightarrow> request" where
  "default_param k v r = (if map_of (rparams r) k = None then set_param k v r else r)"

definition prepare_signing :: "sigmeth \<Rightarrow> consumer \<Rightarrow> token option \<Rightarrow> request \<Rightarrow> request" where
  "prepare_signing m c t r =
     (let r1 = (if rform r then r else set_param ''oauth_body_hash'' (One (b64encode (sha1 (rbody r)))) r);
          r2 = default_param ''oauth_consumer_key'' (One (ckey c)) r1;
          r3 = (case t of None \<Rightarrow> r2 | Some tok \<Rightarrow> default_param ''oauth_token'' (One (tkey tok)) r2)
      in set_param ''oauth_signature_method'' (One (sig_name m)) r3)"

definition sign_request :: "sigmeth \<Rightarrow> consumer \<Rightarrow> token option \<Rightarrow> request \<Rightarrow> request res" where
  "sign_request m c t r =
     (let r' = prepare_signing m c t r
      in rbind (sign m r' c t) (\<lambda>s. Inr (set_param ''oauth_signature'' (One s) r')))"

section \<open>Building requests\<close>

fun param_parts :: "string \<Rightarrow> (string \<times> string) option" where
  "param_parts p =
     (case str_split1 (CHR ''='') (str_strip p) of
        (k, Some v) \<Rightarrow> Some (k, unquote (strip_by (\<lambda>c. c = CHR 0x22) v))
      | _ \<Rightarrow> None)"

text \<open>\<open>_split_header\<close>: \<open>None\<close> when a part has no equals sign (an \<open>IndexError\<close> the caller catches).\<close>

fun split_parts :: "string list \<Rightarrow> (string \<times> string) list \<Rightarrow> (string \<times> string) list option" where
  "split_parts [] d = Some d"
| "split_parts (p # ps) d =
     (if str_contains p ''realm'' then split_parts ps d
      else case param_parts p of None \<Rightarrow> None | Some (k, v) \<Rightarrow> split_parts ps (AList.update k v d))"

definition split_header :: "string \<Rightarrow> (string \<times> string) list option" where
  "split_header h = split_parts (str_split (CHR '','') h) []"

definition one_params :: "(string \<times> string) list \<Rightarrow> pdict" where
  "one_params ps = map (\<lambda>(k, v). (k, One v)) ps"

definition from_request ::
    "string \<Rightarrow> string \<Rightarrow> (string \<times> string) list \<Rightarrow> pdict \<Rightarrow> string \<Rightarrow> request option res" where
  "from_request meth url headers ps query_string =
     rbind (case map_of headers ''Authorization'' of
              Some a \<Rightarrow>
                if take 6 a = ''OAuth '' then
                  (case split_header (drop 6 a) of
                     None \<Rightarrow> Inl (OAuthError ''Unable to parse OAuth parameters from Authorization header.'')
                   | Some hp \<Rightarrow> Inr (dict_update ps (one_params hp)))
                else Inr ps
            | None \<Rightarrow> Inr ps) (\<lambda>p1.
     let p2 = (if query_string \<noteq> [] then dict_update p1 (one_params (split_url_string query_string)) else p1)
     in rbind (urlparse url) (\<lambda>u.
        let p3 = dict_update p2 (one_params (split_url_string (query u)))
        in if p3 = [] then Inr None
           else rbind (to_unicode_params p3) (\<lambda>p4.
                  rbind (new_request meth (Some url) p4 [] False) (\<lambda>r. Inr (Some r)))))"

definition from_consumer_and_token ::
    "int \<Rightarrow> nat \<Rightarrow> consumer \<Rightarrow> token option \<Rightarrow> string \<Rightarrow> string option \<Rightarrow> pdict \<Rightarrow> string \<Rightarrow> bool \<Rightarrow> request res" where
  "from_consumer_and_token now nonce c t meth url ps body form =
     (let defaults = [(''oauth_consumer_key'', One (ckey c)), (''oauth_timestamp'', One (show_int now)),
            (''oauth_nonce'', One (show_nat nonce)), (''oauth_version'', One ''1.0'')];
          p1 = dict_update defaults ps;
          p2 = (case t of None \<Rightarrow> p1 | Some tok \<Rightarrow>
                  (let p = AList.update ''oauth_token'' (One (tkey tok)) p1 in
                   if truthy_text (verifier tok) then AList.update ''oauth_verifier'' (One (the (verifier tok))) p
                   else p))
      in new_request meth url p2 body form)"

definition from_token_and_callback ::
    "token \<Rightarrow> string option \<Rightarrow> string \<Rightarrow> string option \<Rightarrow> pdict \<Rightarrow> request res" where
  "from_token_and_callback tok cb meth url ps =
     (let p1 = AList.update ''oauth_token'' (One (tkey tok)) ps;
          p2 = (if truthy_text cb then AList.update ''oauth_callback'' (One (the cb)) p1 else p1)
      in new_request meth url p2 [] False)"

definition build_authenticate_header :: "string \<Rightarrow> string \<times> string" where
  "build_authenticate_header realm =
     (''WWW-Authenticate'', ''OAuth realm='' @ [CHR 0x22] @ realm @ [CHR 0x22])"

definition xoauth_param :: "string \<times> pval \<Rightarrow> string res" where
  "xoauth_param p = (case snd p of
     One v \<Rightarrow> Inr (fst p @ [CHR ''='', CHR 0x22] @ escape v @ [CHR 0x22])
   | Many _ \<Rightarrow> Inl (AttributeError ''encode''))"

definition build_xoauth_string ::
    "int \<Rightarrow> nat \<Rightarrow> string \<Rightarrow> consumer \<Rightarrow> token option \<Rightarrow> string res" where
  "build_xoauth_string now nonce url c t =
     rbind (from_consumer_and_token now nonce c t ''GET'' (Some url) [] [] False) (\<lambda>r0.
     rbind (sign_request HMAC_SHA1 c t r0) (\<lambda>r.
     rbind (rmap xoauth_param (sort_key fst (rparams r))) (\<lambda>ps.
       Inr (''GET '' @ url @ '' '' @ str_join '','' ps))))"

section \<open>The client\<close>

record http_call =
  h_uri :: string
  h_method :: string
  h_body :: string
  h_headers :: "(string \<times> string) list"

definition FORM_TYPE :: string where
  "FORM_TYPE = ''application/x-www-form-urlencoded''"

definition many_params :: "(string \<times> string list) list \<Rightarrow> pdict" where
  "many_params ps = map (\<lambda>(k, vs). (k, Many vs)) ps"

text \<open>\<open>schema + ':' + hierpart + host\<close>: adding \<open>None\<close> to a text is a type error.\<close>

definition request_realm :: "string \<Rightarrow> string res" where
  "request_realm uri =
     (case splittype uri of (schema, rest) \<Rightarrow>
      case splithost rest of (host, _) \<Rightarrow>
        (case (schema, host) of
           (Some s, Some h) \<Rightarrow> Inr (s @ '':'' @ (if starts_with rest ''//'' then ''//'' else []) @ h)
         | _ \<Rightarrow> Inl (TypeError ''cannot concatenate'')))"

definition client_request ::
    "int \<Rightarrow> nat \<Rightarrow> sigmeth \<Rightarrow> consumer \<Rightarrow> token option \<Rightarrow> string \<Rightarrow> string \<Rightarrow> string \<Rightarrow>
     (string \<times> string) list \<Rightarrow> http_call res" where
  "client_request now nonce m c t uri meth body headers0 =
     (let headers = (if meth = ''POST'' then
            AList.update ''Content-Type''
              (case map_of headers0 ''Content-Type'' of None \<Rightarrow> FORM_TYPE | Some ct \<Rightarrow> ct) headers0
          else headers0);
          form = (map_of headers ''Content-Type'' = Some FORM_TYPE)
      in rbind (if form \<and> body \<noteq> [] then to_unicode_params (many_params (parse_qs False body)) else Inr []) (\<lambda>ps.
         rbind (from_consumer_and_token now nonce c t meth (Some uri) ps body form) (\<lambda>r0.
         rbind (sign_request m c t r0) (\<lambda>r.
         rbind (request_realm uri) (\<lambda>realm.
           if form then Inr \<lparr>h_uri = uri, h_method = meth, h_body = to_postdata r, h_headers = headers\<rparr>
           else if meth = ''GET'' then
             rbind (to_url r) (\<lambda>u. Inr \<lparr>h_uri = u, h_method = meth, h_body = body, h_headers = headers\<rparr>)
           else rbind (to_header realm r) (\<lambda>h.
             Inr \<lparr>h_uri = uri, h_method = meth, h_body = body,
                  h_headers = AList.update ''Authorization'' h headers\<rparr>))))))"

section \<open>The server\<close>

record server =
  signature_methods :: "(string \<times> sigmeth) list"

definition add_signature_method :: "sigmeth \<Rightarrow> server \<Rightarrow> server" where
  "add_signature_method m s = s\<lparr>signature_methods := AList.update (sig_name m) m (signature_methods s)\<rparr>"

definition get_version :: "request \<Rightarrow> pval" where
  "get_version r = (case get_parameter ''oauth_version'' r of Inl _ \<Rightarrow> One ''1.0'' | Inr v \<Rightarrow> v)"

definition check_version :: "request \<Rightarrow> unit res" where
  "check_version r =
     (let v = get_version r in
      if v \<noteq> One [] \<and> v \<noteq> Many [] \<and> v \<noteq> One ''1.0'' then Inl (OAuthError ''OAuth version not supported.'')
      else Inr ())"

definition get_signature_method :: "server \<Rightarrow> request \<Rightarrow> sigmeth res" where
  "get_signature_method s r =
     (case (case get_parameter ''oauth_signature_method'' r of Inl _ \<Rightarrow> One ''PLAINTEXT'' | Inr v \<Rightarrow> v) of
        One n \<Rightarrow> (case map_of (signature_methods s) n of
                   None \<Rightarrow> Inl (OAuthError ''Signature method not supported'') | Some m \<Rightarrow> Inr m)
      | Many _ \<Rightarrow> Inl (OAuthError ''Signature method not supported''))"

definition check_timestamp :: "int \<Rightarrow> pval \<Rightarrow> unit res" where
  "check_timestamp now t =
     rbind (case t of One s \<Rightarrow> parse_int s | Many _ \<Rightarrow> Inl (TypeError ''int() argument''))
       (\<lambda>ts. if now - ts > 300 then Inl (OAuthError ''Expired timestamp'') else Inr ())"

definition check_signature :: "int \<Rightarrow> server \<Rightarrow> request \<Rightarrow> consumer \<Rightarrow> token option \<Rightarrow> unit res" where
  "check_signature now s r c t =
     rbind (get_timestamp_nonce r) (\<lambda>(ts, nonce).
     rbind (check_timestamp now ts) (\<lambda>_.
     rbind (get_signature_method s r) (\<lambda>m.
     rbind (case get_parameter ''oauth_signature'' r of
              Inl _ \<Rightarrow> Inl (MissingSignature ''Missing oauth_signature.'') | Inr v \<Rightarrow> Inr v) (\<lambda>sg.
     rbind (check_with (sign m) r c t sg) (\<lambda>valid.
       if valid then Inr ()
       else rbind (signing_base m r c t) (\<lambda>_. Inl (OAuthError ''Invalid signature.'')))))))"

definition verify_request :: "int \<Rightarrow> server \<Rightarrow> request \<Rightarrow> consumer \<Rightarrow> token option \<Rightarrow> pdict res" where
  "verify_request now s r c t =
     rbind (check_version r) (\<lambda>_. rbind (check_signature now s r c t) (\<lambda>_.
       Inr (get_nonoauth_parameters r)))"

section \<open>The encoded parameters\<close>

lemma replace_plus_plus1: "replace_char (CHR ''+'') ''%20'' (plus1 c) = quote1 [] c"
proof -
  have "pct (CHR '' '') = ''%20''" by code_simp
  then show ?thesis by (auto simp: plus1_def quote1_def replace_char_absent no_plus_pct)
qed

lemma replace_plus_quote_plus: "replace_char (CHR ''+'') ''%20'' (quote_plus s) = quote [] s"
  by (induction s) (simp_all add: replace_plus_plus1)

lemma pct_inject [simp]: "pct c = pct d \<longleftrightarrow> c = d"
  by (metis list.inject unquote_pct)

lemma tilde_plain: "c \<noteq> CHR ''%'' \<Longrightarrow> str_replace ''%7E'' w (c # t) = c # str_replace ''%7E'' w t"
  by simp

lemma tilde_hit: "str_replace ''%7E'' w (''%7E'' @ t) = w @ str_replace ''%7E'' w t"
  by simp

lemma tilde_miss:
  "\<not> (a = CHR ''7'' \<and> b = CHR ''E'') \<Longrightarrow> a \<noteq> CHR ''%'' \<Longrightarrow> b \<noteq> CHR ''%'' \<Longrightarrow>
     str_replace ''%7E'' w (CHR ''%'' # a # b # t) = CHR ''%'' # a # b # str_replace ''%7E'' w t"
  by auto

declare str_replace.simps(2) [simp del]

lemma tilde_pct:
  "str_replace ''%7E'' ''~'' (pct c @ t) = quote1 ''~'' c @ str_replace ''%7E'' ''~'' t"
  if "\<not> always_safe c"
proof (cases "c = CHR ''~''")
  case True
  have "pct (CHR ''~'') = ''%7E''" by code_simp
  with True show ?thesis by (simp only: tilde_hit) (simp add: quote1_def)
next
  case False
  obtain a b where ab: "pct c = [CHR ''%'', a, b]" by (simp add: pct_def)
  have "pct (CHR ''~'') = ''%7E''" by code_simp
  with False ab have ne: "\<not> (a = CHR ''7'' \<and> b = CHR ''E'')" by (metis pct_inject)
  have "always_safe a" "always_safe b" using ab by (auto simp: pct_def)
  then have "a \<noteq> CHR ''%''" "b \<noteq> CHR ''%''" by auto
  with ab ne that False show ?thesis by (simp add: quote1_def tilde_miss)
qed

lemma tilde_quote:
  "str_replace ''%7E'' ''~'' (quote [] s @ t) = quote ''~'' s @ str_replace ''%7E'' ''~'' t"
proof (induction s)
  case (Cons c s)
  show ?case
  proof (cases "always_safe c")
    case True
    then have "c \<noteq> CHR ''%''" by auto
    with True Cons show ?thesis by (simp add: quote1_def tilde_plain)
  next
    case False
    then have "quote1 [] c = pct c" by (simp add: quote1_def)
    with False Cons show ?thesis by (simp add: tilde_pct)
  qed
qed simp

definition rfc_pair :: "string \<times> string \<Rightarrow> string" where
  "rfc_pair p = quote ''~'' (fst p) @ ''='' @ quote ''~'' (snd p)"

lemma encode_items_rfc: "encode_items ps = str_join ''&'' (map rfc_pair ps)"
proof -
  let ?w = "\<lambda>(k, v). quote_plus k @ ''='' @ quote_plus v"
  let ?r = "\<lambda>(k, v). quote [] k @ ''='' @ quote [] v"
  have "replace_char (CHR ''+'') ''%20'' (str_join ''&'' (map ?w ps)) = str_join ''&'' (map ?r ps)"
  proof (induction ps)
    case (Cons p ps)
    then show ?case by (cases p; cases ps) (simp_all add: replace_plus_quote_plus)
  qed simp
  moreover have "str_replace ''%7E'' ''~'' (str_join ''&'' (map ?r ps)) = str_join ''&'' (map rfc_pair ps)"
  proof (induction ps)
    case (Cons p ps)
    obtain k v where p: "p = (k, v)" by force
    have one: "str_replace ''%7E'' ''~'' (quote [] v) = quote ''~'' v" for v
      using tilde_quote [of v "[]"] by simp
    have "str_replace ''%7E'' ''~'' (quote [] k @ CHR ''='' # quote [] v @ t) =
        rfc_pair p @ str_replace ''%7E'' ''~'' t" for t
      by (simp add: tilde_quote tilde_plain rfc_pair_def p)
    from this [of "[]"] this [of "CHR ''&'' # str_join ''&'' (map ?r ps)"] Cons one show ?case
      by (cases ps) (simp_all add: p tilde_plain)
  qed simp
  ultimately show ?thesis by (simp add: encode_items_def urlencode_def)
qed

lemma quote_tilde_clean [simp]:
  "CHR ''&'' \<notin> set (quote ''~'' s)" "CHR ''='' \<notin> set (quote ''~'' s)"
  "CHR '';'' \<notin> set (quote ''~'' s)" "CHR ''+'' \<notin> set (quote ''~'' s)"
  by (auto dest: quote_chars)

lemma parse_encode_items: "parse_qsl True (encode_items ps) = ps"
proof (cases "ps = []")
  case True
  then show ?thesis by (simp add: encode_items_rfc parse_qsl_def parse_pair_def)
next
  case False
  have clean: "CHR ''&'' \<notin> set (rfc_pair p)" "CHR '';'' \<notin> set (rfc_pair p)" for p
    by (simp_all add: rfc_pair_def)
  have "str_split (CHR ''&'') (encode_items ps) = map rfc_pair ps"
    unfolding encode_items_rfc using False clean by (intro str_split_join) auto
  moreover have "concat (map (str_split (CHR '';'')) (map rfc_pair ps)) = map rfc_pair ps"
    using clean by (induction ps) (simp_all add: str_split_no_sep)
  moreover have "parse_pair True (rfc_pair p) = [p]" for p
    by (simp add: parse_pair_def rfc_pair_def unquote_plus_def replace_char_absent)
  then have "concat (map (parse_pair True) (map rfc_pair ps)) = ps" by (induction ps) simp_all
  ultimately show ?thesis by (simp add: parse_qsl_def)
qed

lemma encode_items_inject [simp]: "encode_items ps = encode_items qs \<longleftrightarrow> ps = qs"
  by (metis parse_encode_items)

section \<open>What a signature depends on\<close>

lemma filter_update_other:
  "(\<And>w. \<not> P (k, w)) \<Longrightarrow> filter P (AList.update k v d) = filter P d"
  by (induction d) auto

lemma own_items_signature [simp]:
  "own_items (set_param ''oauth_signature'' v r) = own_items r"
  by (simp add: own_items_def set_param_def filter_update_other)

lemma set_param_simps [simp]:
  "rmethod (set_param k v r) = rmethod r" "rurl (set_param k v r) = rurl r"
  "rnorm (set_param k v r) = rnorm r" "rform (set_param k v r) = rform r"
  "rbody (set_param k v r) = rbody r" "rparams (set_param k v r) = AList.update k v (rparams r)"
  by (simp_all add: set_param_def)

lemma signed_items_signature [simp]:
  "signed_items (set_param ''oauth_signature'' v r) = signed_items r"
  by (simp add: signed_items_def request_url_def)

locale signing =
  fixes sg :: "request \<Rightarrow> consumer \<Rightarrow> token option \<Rightarrow> string res"
  assumes sg_signature: "sg (set_param ''oauth_signature'' v r) c t = sg r c t"
begin

lemma signed_checks:
  "sg r c t = Inr s \<Longrightarrow> check_with sg (set_param ''oauth_signature'' (One s) r) c t (One s) = Inr True"
  by (simp add: check_with_def sg_signature)

lemma check_unique: "check_with sg r c t v = Inr True \<longleftrightarrow> (\<exists>s. sg r c t = Inr s \<and> v = One s)"
  by (auto simp: check_with_def res_simps)

end

lemma hmac_signing_base_signature [simp]:
  "hmac_signing_base (set_param ''oauth_signature'' v r) c t = hmac_signing_base r c t"
  by (cases "rnorm r") (simp_all add: hmac_signing_base_def get_normalized_parameters_def)

interpretation hmac_method: signing hmac_sign
  by unfold_locales (simp add: hmac_sign_def)

interpretation plaintext_method: signing plaintext_sign
  by unfold_locales (simp add: plaintext_sign_def plaintext_signing_base_def)

interpretation any_method: signing "sign m" for m
  by unfold_locales (cases m; simp add: hmac_method.sg_signature plaintext_method.sg_signature)

lemma filter_oauth_set [simp]:
  "is_oauth_key k \<Longrightarrow> get_nonoauth_parameters (set_param k v r) = get_nonoauth_parameters r"
  by (simp add: get_nonoauth_parameters_def filter_update_other)

lemma oauth_keys [simp]:
  "is_oauth_key ''oauth_body_hash''" "is_oauth_key ''oauth_consumer_key''" "is_oauth_key ''oauth_token''"
  "is_oauth_key ''oauth_signature_method''" "is_oauth_key ''oauth_signature''"
  by (simp_all add: is_oauth_key_def)

lemma nonoauth_prepare [simp]:
  "get_nonoauth_parameters (prepare_signing m c t r) = get_nonoauth_parameters r"
  by (simp add: prepare_signing_def default_param_def Let_def split: option.split)

lemma lookup_set_other: "k \<noteq> k' \<Longrightarrow> map_of (rparams (set_param k' v r)) k = map_of (rparams r) k"
  by simp

lemma lookup_default_other:
  "k \<noteq> k' \<Longrightarrow> map_of (rparams (default_param k' v r)) k = map_of (rparams r) k"
  by (simp add: default_param_def)

lemma lookup_prepare:
  assumes "k \<noteq> ''oauth_body_hash''" "k \<noteq> ''oauth_consumer_key''" "k \<noteq> ''oauth_token''"
    "k \<noteq> ''oauth_signature_method''"
  shows "map_of (rparams (prepare_signing m c t r)) k = map_of (rparams r) k"
  unfolding prepare_signing_def Let_def
  by (cases t; cases "rform r")
    (simp_all only: assms lookup_set_other lookup_default_other option.case if_True if_False not_False_eq_True)

lemma prepare_method:
  "map_of (rparams (prepare_signing m c t r)) ''oauth_signature_method'' = Some (One (sig_name m))"
  by (simp add: prepare_signing_def Let_def)

section \<open>Properties\<close>


text \<open>C19: The HMAC signature base string is unambiguous: two requests with the same base string have
  the same method, the same normalised URL and the same signed parameters.\<close>

theorem signing_base_injective:
  assumes "hmac_signing_base r1 c1 t1 = Inr (k1, raw)" and "hmac_signing_base r2 c2 t2 = Inr (k2, raw)"
  shows "rmethod r1 = rmethod r2 \<and> rnorm r1 = rnorm r2 \<and> signed_items r1 = signed_items r2"
proof -
  have split: "str_split (CHR ''&'') (str_join ''&'' [escape a, escape b, escape c]) = [escape a, escape b, escape c]"
    for a b c
    by (rule str_split_join) auto
  obtain n1 ps1 where 1: "rnorm r1 = Some n1" "signed_items r1 = Inr ps1"
      "raw = str_join ''&'' [escape (rmethod r1), escape n1, escape (encode_items ps1)]"
    using assms(1) by (auto simp: hmac_signing_base_def get_normalized_parameters_def res_simps
        split: option.splits)
  obtain n2 ps2 where 2: "rnorm r2 = Some n2" "signed_items r2 = Inr ps2"
      "raw = str_join ''&'' [escape (rmethod r2), escape n2, escape (encode_items ps2)]"
    using assms(2) by (auto simp: hmac_signing_base_def get_normalized_parameters_def res_simps
        split: option.splits)
  from 1(3) 2(3) have "[escape (rmethod r1), escape n1, escape (encode_items ps1)] =
      [escape (rmethod r2), escape n2, escape (encode_items ps2)]"
    using split by metis
  with 1 2 show ?thesis by simp
qed

definition example_consumer :: consumer where
  "example_consumer = \<lparr>ckey = ''key'', csecret = ''s&t''\<rparr>"

definition example_request :: request where
  "example_request = \<lparr>rmethod = ''GET'', rurl = Some ''http://h:80/p?b=2'',
     rnorm = Some ''http://h/p'', rparams = [(''oauth_timestamp'', One ''100''), (''oauth_nonce'', One ''7''),
       (''a'', Many [''2'', ''1''])], rbody = [], rform = True\<rparr>"

lemma example_signed_items:
  "signed_items example_request = Inr [(''a'', ''1''), (''a'', ''2''), (''b'', ''2''),
     (''oauth_nonce'', ''7''), (''oauth_timestamp'', ''100'')]"
  by code_simp

theorem signing_base_injective_witness:
  "signed_items example_request = signed_items (set_param ''oauth_signature'' (One ''x'') example_request)"
proof -
  have "rnorm example_request = Some ''http://h/p''" by (simp add: example_request_def)
  then obtain k raw where "hmac_signing_base example_request example_consumer None = Inr (k, raw)"
    by (simp add: hmac_signing_base_def get_normalized_parameters_def example_signed_items)
  moreover from this have "hmac_signing_base (set_param ''oauth_signature'' (One ''x'') example_request)
      example_consumer None = Inr (k, raw)" by simp
  ultimately show ?thesis using signing_base_injective by blast
qed

text \<open>C6: A server accepts what a client signed: if the server knows the signature method and the
  request carries a nonce, a readable timestamp at most 300 seconds old and a supported version,
  then verification with the same consumer and token succeeds and returns exactly the parameters
  that are not OAuth parameters.\<close>

theorem verify_accepts_signed:
  assumes "sign_request m c t r = Inr r'"
    and "map_of (rparams r) ''oauth_timestamp'' = Some (One ts)" and "parse_int ts = Inr n"
    and "now - n \<le> 300" and "map_of (rparams r) ''oauth_nonce'' \<noteq> None"
    and "check_version r = Inr ()" and "map_of (signature_methods s) (sig_name m) = Some m"
  shows "verify_request now s r' c t = Inr (get_nonoauth_parameters r)"
proof -
  let ?p = "prepare_signing m c t r"
  obtain sg where sg: "sign m ?p c t = Inr sg" and r': "r' = set_param ''oauth_signature'' (One sg) ?p"
    using assms(1) by (auto simp: sign_request_def Let_def res_simps)
  have ver: "check_version r' = Inr ()"
    using assms(6) by (simp add: r' check_version_def get_version_def get_parameter_def lookup_prepare)
  have look: "get_timestamp_nonce r' = Inr (One ts, the (map_of (rparams r) ''oauth_nonce''))"
    using assms(2,5) by (auto simp: r' get_timestamp_nonce_def lookup_prepare)
  have meth: "get_signature_method s r' = Inr m"
    using assms(7) by (simp add: r' get_signature_method_def get_parameter_def prepare_method)
  have sig: "get_parameter ''oauth_signature'' r' = Inr (One sg)" by (simp add: r' get_parameter_def)
  have "check_signature now s r' c t = Inr ()"
    unfolding check_signature_def look meth sig
    using assms(3,4) any_method.signed_checks [OF sg]
    by (simp add: check_timestamp_def r')
  with ver show ?thesis by (simp add: verify_request_def r')
qed

theorem verify_accepts_signed_witness:
  "\<exists>r'. sign_request PLAINTEXT example_consumer None example_request = Inr r' \<and>
     verify_request 200 \<lparr>signature_methods = [(''PLAINTEXT'', PLAINTEXT)]\<rparr> r' example_consumer None =
       Inr [(''a'', Many [''2'', ''1''])]"
proof -
  obtain r' where r': "sign_request PLAINTEXT example_consumer None example_request = Inr r'"
    by (simp add: sign_request_def plaintext_sign_def plaintext_signing_base_def Let_def)
  have n: "parse_int ''100'' = Inr 100" by code_simp
  have "get_nonoauth_parameters example_request = [(''a'', Many [''2'', ''1''])]" by code_simp
  moreover have "check_version example_request = Inr ()" by code_simp
  ultimately show ?thesis
    using verify_accepts_signed [OF r' _ n, of 200 "\<lparr>signature_methods = [(''PLAINTEXT'', PLAINTEXT)]\<rparr>"] r'
    by (simp add: example_request_def)
qed

text \<open>C7: Nothing else is accepted: if verification succeeds then the timestamp is a number at most
  300 seconds behind the clock (it may lie in the future), the nonce is present but arbitrary, the
  version is supported, and the signature parameter is the signature the server itself computes
  from the request and the two secrets.\<close>

theorem verify_sound:
  assumes "verify_request now s r c t = Inr ps"
  shows "ps = get_nonoauth_parameters r \<and>
    (\<exists>ts n. map_of (rparams r) ''oauth_timestamp'' = Some (One ts) \<and> parse_int ts = Inr n \<and> now - n \<le> 300) \<and>
    map_of (rparams r) ''oauth_nonce'' \<noteq> None \<and>
    get_version r \<in> {One ''1.0'', One [], Many []} \<and>
    (\<exists>m sg. get_signature_method s r = Inr m \<and> sign m r c t = Inr sg \<and>
       map_of (rparams r) ''oauth_signature'' = Some (One sg))"
proof -
  from assms have v: "check_version r = Inr ()" and ps: "ps = get_nonoauth_parameters r"
    and cs: "check_signature now s r c t = Inr ()"
    by (auto simp: verify_request_def res_simps)
  from cs obtain tsn nonce m sgv valid where
    tn: "get_timestamp_nonce r = Inr (tsn, nonce)" and ct: "check_timestamp now tsn = Inr ()"
    and m: "get_signature_method s r = Inr m" and sv: "get_parameter ''oauth_signature'' r = Inr sgv"
    and cw: "check_with (sign m) r c t sgv = Inr valid" and valid
    by (auto simp: check_signature_def res_simps split: prod.splits sum.splits if_splits)
  from cw \<open>valid\<close> obtain sg where sg: "sign m r c t = Inr sg" "sgv = One sg"
    using any_method.check_unique [of m r c t sgv] by auto
  from ct obtain ts n where "tsn = One ts" "parse_int ts = Inr n" "now - n \<le> 300"
    by (auto simp: check_timestamp_def res_simps split: pval.splits if_splits)
  moreover have "map_of (rparams r) ''oauth_timestamp'' = Some tsn \<and> map_of (rparams r) ''oauth_nonce'' \<noteq> None"
    using tn by (auto simp: get_timestamp_nonce_def split: option.splits)
  moreover have "get_version r \<in> {One ''1.0'', One [], Many []}"
    using v by (auto simp: check_version_def Let_def split: if_splits)
  moreover have "map_of (rparams r) ''oauth_signature'' = Some (One sg)"
    using sv sg(2) by (auto simp: get_parameter_def split: option.splits)
  ultimately show ?thesis using ps m sg(1) by blast
qed

definition signed_example :: request where
  "signed_example = set_param ''oauth_signature'' (One ''s%26t&'') example_request"

theorem verify_sound_witness:
  "map_of (rparams signed_example) ''oauth_nonce'' \<noteq> None \<and>
   (\<exists>m. get_signature_method \<lparr>signature_methods = [(''PLAINTEXT'', PLAINTEXT)]\<rparr> signed_example = Inr m)"
proof -
  have "verify_request 200 \<lparr>signature_methods = [(''PLAINTEXT'', PLAINTEXT)]\<rparr> signed_example
      example_consumer None = Inr [(''a'', Many [''2'', ''1''])]" by code_simp
  from verify_sound [OF this] show ?thesis by blast
qed

section \<open>Reading back what was written\<close>

lemma to_unicode_inverse: "to_unicode b = Inr t \<Longrightarrow> utf8 t = b"
proof -
  have "utf8_decode b = Some t \<Longrightarrow> utf8 t = b"
  proof (induction b arbitrary: t rule: utf8_decode.induct)
    case (2 c)
    then show ?case by (auto simp: utf8_char_def split: if_splits)
  next
    case (3 c d s)
    show ?case
    proof (cases "(of_char c :: nat) < 128")
      case True
      with 3 show ?thesis by (auto simp: utf8_char_def)
    next
      case False
      let ?c = "of_char c :: nat" and ?d = "of_char d :: nat"
      from False "3.prems" have cd: "?c = 194 \<or> ?c = 195" "128 \<le> ?d" "?d < 192"
        and "\<exists>t'. utf8_decode s = Some t' \<and> t = char_of ((?c - 192) * 64 + (?d - 128)) # t'"
        by (auto split: if_splits)
      then obtain t' where t': "utf8_decode s = Some t'" "t = char_of ((?c - 192) * 64 + (?d - 128)) # t'"
        by blast
      define n where "n = (?c - 192) * 64 + (?d - 128)"
      obtain e where "?d = 128 + e" using cd(2) le_Suc_ex by blast
      then have dm: "128 + ?d mod 64 = ?d" using cd(3) by (simp add: mod_add_left_eq [of 128, symmetric])
      have n: "n < 256" "128 \<le> n" "192 + n div 64 = ?c" "128 + n mod 64 = ?d"
        using cd dm by (auto simp: n_def)
      then have "utf8_char (char_of n) = [c, d]" by (simp add: utf8_char_def Let_def)
      with t' "3.IH"(2) [OF False _ t'(1)] cd show ?thesis by (auto simp: n_def)
    qed
  qed simp
  then show "to_unicode b = Inr t \<Longrightarrow> ?thesis"
    by (simp add: to_unicode_def split: option.splits)
qed

lemma dict_update_fresh:
  "distinct (map fst e) \<Longrightarrow> fst ` set d \<inter> fst ` set e = {} \<Longrightarrow> dict_update d e = d @ e"
proof (induction e arbitrary: d)
  case (Cons p e)
  obtain k v where p: "p = (k, v)" by force
  have "AList.update k v d = d @ [(k, v)]"
    using Cons.prems p by (induction d) auto
  with Cons p show ?case by auto
qed simp

lemma strip_quotes: "CHR 0x22 \<notin> set e \<Longrightarrow> strip_by (\<lambda>c. c = CHR 0x22) (CHR 0x22 # e @ [CHR 0x22]) = e"
proof -
  assume e: "CHR 0x22 \<notin> set e"
  have "dropWhile (\<lambda>c. c = CHR 0x22) (e @ [CHR 0x22]) = (if e = [] then [] else e @ [CHR 0x22])"
    using e by (cases e) auto
  moreover have "dropWhile (\<lambda>c. c = CHR 0x22) (rev (e @ [CHR 0x22])) = rev e"
    using e by (cases "rev e") auto
  ultimately show ?thesis by (simp add: strip_by_def)
qed

definition clean_key :: "string \<Rightarrow> bool" where
  "clean_key k \<longleftrightarrow> list_all always_safe k"

lemma clean_key_chars: "clean_key k \<Longrightarrow> \<not> always_safe c \<Longrightarrow> c \<notin> set k"
  by (auto simp: clean_key_def list_all_iff)

text \<open>A parameter in a header: a name and a quoted value.\<close>

definition quoted_item :: "string \<times> string \<Rightarrow> string" where
  "quoted_item p = fst p @ [CHR ''='', CHR 0x22] @ snd p @ [CHR 0x22]"

definition header_text :: "string \<times> string \<Rightarrow> string" where
  "header_text p = quoted_item (fst p, escape (snd p))"

lemma strip_quoted_item:
  assumes "clean_key (fst p)"
  shows "str_strip (CHR '' '' # quoted_item p) = quoted_item p"
proof -
  obtain k v where p: "p = (k, v)" by force
  have ns: "\<not> is_space (hd (quoted_item p))"
  proof (cases k)
    case (Cons c k')
    then have "always_safe c" using assms p by (simp add: clean_key_def)
    then show ?thesis using Cons p by (auto simp: quoted_item_def is_space_def always_safe_def)
  qed (simp add: quoted_item_def p is_space_def)
  have ne: "quoted_item p \<noteq> []" and la: "\<not> is_space (last (quoted_item p))"
    by (simp_all add: quoted_item_def is_space_def)
  have "strip_by is_space (CHR '' '' # quoted_item p) = strip_by is_space (quoted_item p)"
    by (simp add: strip_by_def is_space_def)
  also have "\<dots> = quoted_item p" using ns la by (intro strip_by_id) simp
  finally show ?thesis by (simp add: str_strip_def)
qed

lemma param_parts_quoted:
  assumes "clean_key (fst p)" "CHR 0x22 \<notin> set (snd p)"
  shows "param_parts (CHR '' '' # quoted_item p) = Some (fst p, unquote (snd p))"
proof -
  have "str_split1 (CHR ''='') (quoted_item p) = (fst p, Some (CHR 0x22 # snd p @ [CHR 0x22]))"
    using assms(1) by (simp add: quoted_item_def clean_key_chars)
  then show ?thesis using assms by (simp add: strip_quoted_item strip_quotes)
qed

text \<open>Parameters that a header can carry: names of unreserved characters, values without quotes and commas, and the
  word realm nowhere.\<close>

definition header_safe :: "string \<times> string \<Rightarrow> bool" where
  "header_safe p \<longleftrightarrow> clean_key (fst p) \<and> CHR 0x22 \<notin> set (snd p) \<and> CHR '','' \<notin> set (snd p) \<and>
     \<not> str_contains (CHR '' '' # quoted_item p) ''realm''"

lemma split_parts_quoted:
  assumes "list_all header_safe ps" "distinct (map fst ps)" "fst ` set d \<inter> fst ` set ps = {}"
  shows "split_parts (map (\<lambda>p. CHR '' '' # quoted_item p) ps) d = Some (d @ map (\<lambda>(k, v). (k, unquote v)) ps)"
  using assms
proof (induction ps arbitrary: d)
  case (Cons p ps)
  have "AList.update (fst p) (unquote (snd p)) d = d @ [(fst p, unquote (snd p))]"
    using Cons.prems(3) by (induction d) auto
  with Cons.prems have "split_parts (map (\<lambda>p. CHR '' '' # quoted_item p) (p # ps)) d =
      split_parts (map (\<lambda>p. CHR '' '' # quoted_item p) ps) (d @ [(fst p, unquote (snd p))])"
    using param_parts_quoted [of p] by (simp add: header_safe_def del: param_parts.simps)
  also have "\<dots> = Some ((d @ [(fst p, unquote (snd p))]) @ map (\<lambda>(k, v). (k, unquote v)) ps)"
    using Cons.prems by (intro Cons.IH) auto
  finally show ?case by (simp add: case_prod_beta)
qed simp

lemma join_shift: "str_join '','' (a # map (Cons (CHR '' '')) hs) =
    a @ (if hs = [] then [] else '', '' @ str_join '', '' hs)"
proof (induction hs arbitrary: a)
  case (Cons h hs)
  then show ?case by (cases hs) simp_all
qed simp

text \<open>Splitting a header with a realm in front of safe parameters.\<close>

lemma split_quoted_header:
  assumes "list_all header_safe ps" "distinct (map fst ps)" "CHR '','' \<notin> set realm"
  shows "split_parts (str_split (CHR '','') ((''realm='' @ [CHR 0x22] @ realm @ [CHR 0x22]) @
      (if ps = [] then [] else '', '' @ str_join '', '' (map quoted_item ps)))) [] =
    Some (map (\<lambda>(k, v). (k, unquote v)) ps)"
proof -
  let ?R = "''realm='' @ [CHR 0x22] @ realm @ [CHR 0x22]"
  have "str_split (CHR '','') (str_join '','' (?R # map (Cons (CHR '' '')) (map quoted_item ps))) =
      ?R # map (Cons (CHR '' '')) (map quoted_item ps)"
    using assms(1,3)
    by (intro str_split_join) (auto simp: header_safe_def quoted_item_def list_all_iff clean_key_chars)
  moreover have "str_contains ?R ''realm''" unfolding str_contains_iff by (metis append_Nil append_assoc append_Cons)
  moreover note split_parts_quoted [OF assms(1,2), of "[]"]
  ultimately show ?thesis using join_shift [of ?R "map quoted_item ps"] by (simp add: o_def)
qed

text \<open>The texts of OAuth parameters that the header carries.\<close>

definition header_pairs :: "request \<Rightarrow> pdict" where
  "header_pairs r = filter (\<lambda>(k, v). is_oauth_key k) (rparams r)"

text \<open>What \<open>to_header\<close> writes, \<open>_split_header\<close> reads: if every OAuth parameter is an ASCII text
  under a name of unreserved characters, the realm has no comma and no serialised parameter contains
  the word realm, then splitting the header gives back exactly the OAuth parameters.\<close>

theorem header_roundtrip:
  assumes "header_pairs r = one_params ps" and "distinct (map fst ps)"
    and "list_all (\<lambda>p. clean_key (fst p) \<and> is_ascii (snd p) \<and>
      \<not> str_contains (CHR '' '' # header_text p) ''realm'') ps"
    and "CHR '','' \<notin> set realm"
  shows "\<exists>h. to_header realm r = Inr h \<and> take 6 h = ''OAuth '' \<and> split_header (drop 6 h) = Some ps"
proof -
  let ?R = "''realm='' @ [CHR 0x22] @ realm @ [CHR 0x22]" and ?es = "map (\<lambda>(k, v). (k, escape v)) ps"
  have conv: "list_all (\<lambda>p. is_ascii (snd p)) qs \<Longrightarrow>
      rmap header_param (one_params qs) = Inr (map header_text qs)" for qs
    by (induction qs) (auto simp: one_params_def header_param_def py_str_def header_text_def quoted_item_def)
  have asc: "list_all (\<lambda>p. is_ascii (snd p)) ps" using assms(3) by (simp add: list_all_iff)
  have texts: "map header_text ps = map quoted_item ?es" by (simp add: header_text_def case_prod_beta)
  define h where "h = ''OAuth '' @ ?R @ (if ?es = [] then [] else '', '' @ str_join '', '' (map quoted_item ?es))"
  have h: "h = ''OAuth '' @ ?R @ (if ps = [] then [] else '', '' @ str_join '', '' (map header_text ps))"
    unfolding h_def texts by simp
  have ne: "str_join '', '' (map header_text ps) \<noteq> [] \<longleftrightarrow> ps \<noteq> []"
    by (cases ps rule: list.exhaust; cases "tl ps") (auto simp: header_text_def quoted_item_def)
  have "to_header realm r = Inr h"
    using conv [OF asc] assms(1) ne h by (simp add: to_header_def header_pairs_def Let_def)
  moreover have "list_all header_safe ?es" "distinct (map fst ?es)"
    using assms(2,3) by (auto simp: list_all_iff header_safe_def header_text_def case_prod_beta o_def)
  then have "split_header (drop 6 h) = Some (map (\<lambda>(k, v). (k, unquote v)) ?es)"
    using split_quoted_header [of ?es realm] assms(4) by (simp add: split_header_def h_def)
  moreover have "map (\<lambda>(k, v). (k, unquote v)) ?es = ps"
    using asc by (induction ps) (auto simp: utf8_ascii)
  ultimately show ?thesis by (intro exI [of _ h]) (simp add: h_def)
qed

theorem header_roundtrip_witness:
  "\<exists>h. to_header ''http://h'' \<lparr>rmethod = ''GET'', rurl = None, rnorm = None,
       rparams = [(''a'', One ''1''), (''oauth_token'', One ''x y'')], rbody = [], rform = False\<rparr> = Inr h \<and>
     split_header (drop 6 h) = Some [(''oauth_token'', ''x y'')]"
proof -
  let ?r = "\<lparr>rmethod = ''GET'', rurl = None, rnorm = None,
       rparams = [(''a'', One ''1''), (''oauth_token'', One ''x y'')], rbody = [], rform = False\<rparr>"
  have "header_pairs ?r = one_params [(''oauth_token'', ''x y'')]" by code_simp
  moreover have "list_all (\<lambda>p. clean_key (fst p) \<and> is_ascii (snd p) \<and>
      \<not> str_contains (CHR '' '' # header_text p) ''realm'') [(''oauth_token'', ''x y'')]" by code_simp
  ultimately show ?thesis
    using header_roundtrip [of ?r "[(''oauth_token'', ''x y'')]" "''http://h''"] by auto
qed

text \<open>The parser drops every parameter whose serialised form contains the word realm, not only
  the realm itself: a header with such a parameter parses as if the parameter were not there.\<close>

theorem header_drops_realm:
  assumes "str_contains (CHR '' '' # header_text p) ''realm''" and "clean_key (fst p)"
    and "CHR '','' \<notin> set before"
  shows "split_header (before @ CHR '','' # CHR '' '' # header_text p) = split_header before"
proof -
  have "CHR '','' \<notin> set (CHR '' '' # header_text p)"
    using assms(2) by (simp add: header_text_def quoted_item_def clean_key_chars)
  then have "str_split (CHR '','') (before @ CHR '','' # CHR '' '' # header_text p) =
      [before, CHR '' '' # header_text p]"
    using assms(3) by (simp add: str_split_append str_split_no_sep del: str_split.simps)
  moreover have "split_parts [before, CHR '' '' # header_text p] d = split_parts [before] d" for d
    using assms(1) by (auto simp del: param_parts.simps split: option.split)
  ultimately show ?thesis using assms(3) by (simp add: split_header_def str_split_no_sep)
qed

theorem header_drops_realm_witness:
  "split_header (''oauth_nonce=7'' @ CHR '','' # CHR '' '' # header_text (''oauth_token'', ''realm42'')) =
     split_header ''oauth_nonce=7''"
proof -
  have "str_contains (CHR '' '' # header_text (''oauth_token'', ''realm42'')) ''realm''"
    "clean_key (fst (''oauth_token'', ''realm42''))" by code_simp+
  then show ?thesis by (rule header_drops_realm) simp
qed

text \<open>A stored token is read back: \<open>from_string\<close> inverts \<open>to_string\<close> on tokens with non-empty
  ASCII fields; callback and verifier are not stored.\<close>

theorem token_roundtrip:
  assumes "is_ascii (tkey t)" and "is_ascii (tsecret t)" and "tkey t \<noteq> []" and "tsecret t \<noteq> []"
    and "case callback_confirmed t of None \<Rightarrow> True | Some c \<Rightarrow> is_ascii c \<and> c \<noteq> []"
  shows "rbind (token_to_string t) token_from_string = Inr (t\<lparr>callback := None, verifier := None\<rparr>)"
proof -
  let ?ps = "[(''oauth_token'', tkey t), (''oauth_token_secret'', tsecret t)]
    @ (case callback_confirmed t of None \<Rightarrow> [] | Some c \<Rightarrow> [(''oauth_callback_confirmed'', c)])"
  have names: "is_ascii ''oauth_token''" "is_ascii ''oauth_token_secret''"
    "is_ascii ''oauth_callback_confirmed''" by code_simp+
  have "rmap str_pair ?ps = Inr ?ps"
    using assms names by (auto simp: str_pair_def py_str_def split: option.splits)
  then have w: "token_to_string t = Inr (urlencode ?ps)" by (simp add: token_to_string_def)
  have "parse_qsl False (urlencode ?ps) = ?ps"
    using assms by (auto simp: parse_qsl_drop_blank split: option.splits)
  then have g: "parse_qs False (urlencode ?ps) = group_pairs ?ps" by (simp add: parse_qs_def)
  have ne: "urlencode ?ps \<noteq> []"
    using urlencode_inject [of ?ps "[]"] by (simp add: urlencode_def)
  have look: "first_value (group_pairs ?ps) ''oauth_token'' = Some (tkey t)"
    "first_value (group_pairs ?ps) ''oauth_token_secret'' = Some (tsecret t)"
    "first_value (group_pairs ?ps) ''oauth_callback_confirmed'' = callback_confirmed t"
    by (auto simp: first_value_def map_of_group_pairs split: option.splits)
  have "group_pairs ?ps \<noteq> []" by simp
  then have "token_from_string (urlencode ?ps) = Inr (t\<lparr>callback := None, verifier := None\<rparr>)"
    unfolding token_from_string_def g Let_def look using ne by (simp add: new_token_def)
  with w show ?thesis by simp
qed

theorem token_roundtrip_witness:
  "rbind (token_to_string \<lparr>tkey = ''k 1'', tsecret = ''s&'', callback = Some ''oob'',
       callback_confirmed = Some ''true'', verifier = None\<rparr>) token_from_string =
     Inr \<lparr>tkey = ''k 1'', tsecret = ''s&'', callback = None, callback_confirmed = Some ''true'',
       verifier = None\<rparr>"
  by (subst token_roundtrip) (simp_all add: is_ascii_def)

lemma own_items_params:
  assumes "to_unicode_params (one_params qs) = Inr ps"
  shows "map utf8_pair (concat (map spread (filter (\<lambda>(k, v). k \<noteq> ''oauth_signature'') ps))) =
    filter (\<lambda>(k, v). k \<noteq> ''oauth_signature'') qs"
  using assms
proof (induction qs arbitrary: ps)
  case Nil
  then show ?case by (simp add: to_unicode_params_def one_params_def)
next
  case (Cons q qs)
  obtain k v where q: "q = (k, v)" by force
  with Cons.prems obtain k' v' ps' where k: "to_unicode k = Inr k'" "to_unicode v = Inr v'"
      "to_unicode_params (one_params qs) = Inr ps'" and ps: "ps = (k', One v') # ps'"
    by (auto simp: to_unicode_params_def one_params_def res_simps)
  have kv: "utf8 k' = k" "utf8 v' = v" using k(1,2) by (simp_all add: to_unicode_inverse)
  have "is_ascii ''oauth_signature''" by code_simp
  then have "utf8 ''oauth_signature'' = ''oauth_signature''" by (rule utf8_ascii)
  then have "k' = ''oauth_signature'' \<longleftrightarrow> k = ''oauth_signature''"
    using kv(1) by (metis utf8_inject)
  with Cons.IH [OF k(3)] kv show ?case by (simp add: q ps spread_def utf8_pair_def)
qed

lemma url_items_same: "url_items q = Inr us \<Longrightarrow> us = filter (\<lambda>(k, v). k \<noteq> ''oauth_signature'') (split_url_string q)"
proof -
  have "rmap (\<lambda>(k, v). rbind (to_unicode k) (\<lambda>k'. rbind (to_unicode v) (\<lambda>v'. Inr (utf8 k', utf8 v')))) qs = Inr us
      \<Longrightarrow> us = qs" for qs us
    by (induction qs arbitrary: us) (auto simp: res_simps to_unicode_inverse)
  then show "url_items q = Inr us \<Longrightarrow> ?thesis" by (simp add: url_items_def)
qed

text \<open>A request rebuilt from its URL counts the query parameters twice: they become parameters
  of the request and are read from its URL once more when the signed parameters are collected, so
  the server's parameter list is the doubled list of what the URL carries.\<close>

theorem from_request_doubles_query:
  assumes "from_request meth url [] [] [] = Inr (Some r)" and "signed_items r = Inr ps"
    and "urlparse url = Inr u"
  shows "ps = sort (let qs = filter (\<lambda>(k, v). k \<noteq> ''oauth_signature'') (split_url_string (query u))
    in qs @ qs)"
proof -
  have d: "distinct (map fst (split_url_string q))" for q
    by (simp add: split_url_string_def parse_qs_def o_def case_prod_beta)
  have du: "dict_update [] (one_params (split_url_string q)) = one_params (split_url_string q)" for q
    using d [of q] by (subst dict_update_fresh) (auto simp: one_params_def o_def case_prod_beta)
  from assms(1,3) du obtain p4 where p4: "to_unicode_params (one_params (split_url_string (query u))) = Inr p4"
      and r: "new_request meth (Some url) p4 [] False = Inr r"
    by (auto simp: from_request_def Let_def res_simps split: if_splits)
  have rp: "rparams r = p4" "rurl r = Some url"
    using r by (auto simp: new_request_def res_simps)
  from assms(2,3) rp obtain us where us: "url_items (query u) = Inr us" "ps = sort (own_items r @ us)"
    by (auto simp: signed_items_def request_url_def res_simps)
  show ?thesis
    unfolding us(2) url_items_same [OF us(1)]
    by (simp add: own_items_def rp(1) own_items_params [OF p4] Let_def)
qed

theorem from_request_doubles_query_witness:
  "\<exists>r. from_request ''GET'' ''http://h/p?a=1'' [] [] [] = Inr (Some r) \<and>
     signed_items r = Inr [(''a'', ''1''), (''a'', ''1'')]"
proof -
  obtain r where r: "from_request ''GET'' ''http://h/p?a=1'' [] [] [] = Inr (Some r)"
    "signed_items r = Inr [(''a'', ''1''), (''a'', ''1'')]"
  proof -
    have "from_request ''GET'' ''http://h/p?a=1'' [] [] [] = Inr (Some \<lparr>rmethod = ''GET'',
        rurl = Some ''http://h/p?a=1'', rnorm = Some ''http://h/p'', rparams = [(''a'', One ''1'')],
        rbody = [], rform = False\<rparr>)" by code_simp
    moreover have "signed_items \<lparr>rmethod = ''GET'',
        rurl = Some ''http://h/p?a=1'', rnorm = Some ''http://h/p'', rparams = [(''a'', One ''1'')],
        rbody = [], rform = False\<rparr> = Inr [(''a'', ''1''), (''a'', ''1'')]" by code_simp
    ultimately show thesis by (rule that)
  qed
  obtain u where u: "urlparse ''http://h/p?a=1'' = Inr u" "query u = ''a=1''"
  proof -
    have "urlparse ''http://h/p?a=1'' = Inr \<lparr>scheme = ''http'', netloc = ''h'', path = ''/p'',
      params = [], query = ''a=1'', fragment = []\<rparr>" by code_simp
    then show thesis by (rule that) simp
  qed
  note from_request_doubles_query [OF r u(1)]
  with r show ?thesis by blast
qed

end
