(* ===== verification/SqliteController.thy ===== *)
theory SqliteController
  imports Prelude
begin

text \<open>
  The address book of the personal signpost, \<open>socialnet/sqliteController.py\<close>: its four SQL tables
  as lists of rows and one operation per method. SQL statements are modelled by what SQLite does
  with them on this schema: NULL equals nothing, a UNIQUE or PRIMARY KEY text column admits one row
  per text and any number of NULLs, text columns turn numbers into their decimal text, an INTEGER
  PRIMARY KEY filled with NULL takes one more than the largest key. A connection dropped without
  \<open>commit\<close> loses its pending changes. Method results are paired with the database afterwards.
\<close>

section \<open>Tables\<close>

datatype dbval = Null | IntV int | TextV string

text \<open>What a column of text affinity stores for, or compares against, a value.\<close>

fun text_aff :: "dbval \<Rightarrow> dbval" where
  "text_aff (IntV i) = TextV (show_int i)"
| "text_aff v = v"

definition sql_eq :: "dbval \<Rightarrow> dbval \<Rightarrow> bool" where
  "sql_eq a b \<longleftrightarrow> a \<noteq> Null \<and> a = b"

record user_row =
  userId :: int
  name :: dbval
  twitterApiId :: dbval

record id_row =
  owner :: "int option"
  signpostname :: dbval
  publickey :: dbval
  timestamp :: string

record policy_row =
  policyId :: int
  policyData :: dbval

record db =
  userIds :: "id_row list"
  users :: "user_row list"
  policies :: "policy_row list"
  userpolicies :: "(int \<times> int) list"

text \<open>The database file is missing, present without tables (connecting creates it), or complete.\<close>

datatype disk = NoFile | NoTables | Tables db

definition empty_db :: db where
  "empty_db = \<lparr>userIds = [], users = [], policies = [], userpolicies = []\<rparr>"

definition connect :: "disk \<Rightarrow> disk" where
  "connect d = (if d = NoFile then NoTables else d)"

definition on_tables :: "string \<Rightarrow> (db \<Rightarrow> disk \<times> 'a res) \<Rightarrow> disk \<Rightarrow> disk \<times> 'a res" where
  "on_tables table f d =
     (case connect d of
        Tables t \<Rightarrow> f t
      | d' \<Rightarrow> (d', Inl (OperationalError (''no such table: '' @ table))))"

section \<open>Operations\<close>

text \<open>
  \<open>createDb\<close>: creating a table commits, the default policy is inserted but not committed, and the
  first trigger is rejected by the SQL parser (\<open>DELETE userIds\<close> lacks its \<open>FROM\<close>), so the
  statements after it are not reached and the pending insert is lost with the connection.
\<close>

definition createDb :: "disk \<Rightarrow> disk \<times> string res" where
  "createDb d =
     (if d = NoFile
      then (Tables empty_db, Inl (OperationalError ''near userIds: syntax error''))
      else (d, Inr ''Tables already created''))"

definition checkIfUserExists :: "dbval \<Rightarrow> disk \<Rightarrow> disk \<times> int res" where
  "checkIfUserExists uid d = on_tables ''users'' (\<lambda>t.
     (Tables t, Inr (if list_ex (\<lambda>r. sql_eq (twitterApiId r) (text_aff uid)) (users t) then 1 else 0))) d"

definition next_rowid :: "user_row list \<Rightarrow> int" where
  "next_rowid rs = (if rs = [] then 1 else foldr (\<lambda>r. max (userId r)) rs (userId (hd rs)) + 1)"

definition insert_user :: "dbval \<Rightarrow> dbval \<Rightarrow> db \<Rightarrow> db res" where
  "insert_user nm tid t =
     (if list_ex (\<lambda>r. sql_eq (name r) (text_aff nm)) (users t)
        then Inl (IntegrityError ''column name is not unique'')
      else if list_ex (\<lambda>r. sql_eq (twitterApiId r) (text_aff tid)) (users t)
        then Inl (IntegrityError ''column twitterApiId is not unique'')
      else Inr (t\<lparr>users := users t @
        [\<lparr>userId = next_rowid (users t), name = text_aff nm, twitterApiId = text_aff tid\<rparr>]\<rparr>))"

definition insert_id :: "int option \<Rightarrow> dbval \<Rightarrow> string \<Rightarrow> db \<Rightarrow> db res" where
  "insert_id uid sp now t =
     (if list_ex (\<lambda>r. sql_eq (signpostname r) (text_aff sp)) (userIds t)
        then Inl (IntegrityError ''column signpostname is not unique'')
      else Inr (t\<lparr>userIds := userIds t @
        [\<lparr>owner = uid, signpostname = text_aff sp, publickey = Null, timestamp = now\<rparr>]\<rparr>))"

definition select_user :: "dbval \<Rightarrow> db \<Rightarrow> user_row option" where
  "select_user nm t = List.find (\<lambda>r. sql_eq (name r) (text_aff nm)) (users t)"

text \<open>\<open>createUser\<close> commits the first insert before it makes the second.\<close>

definition createUser :: "string \<Rightarrow> dbval \<Rightarrow> dbval \<Rightarrow> dbval \<Rightarrow> disk \<Rightarrow> disk \<times> unit res" where
  "createUser now username signpost tid d = on_tables ''users'' (\<lambda>t.
     (case insert_user username tid t of
        Inl e \<Rightarrow> (Tables t, Inl e)
      | Inr t1 \<Rightarrow>
          (case insert_id (map_option userId (select_user username t1)) signpost now t1 of
             Inl e \<Rightarrow> (Tables t1, Inl e)
           | Inr t2 \<Rightarrow> (Tables t2, Inr ())))) d"

text \<open>\<open>removeUser\<close>: the table has no column \<open>username\<close>.\<close>

definition removeUser :: "dbval \<Rightarrow> disk \<Rightarrow> disk \<times> unit res" where
  "removeUser username d = on_tables ''users'' (\<lambda>t.
     (Tables t, Inl (OperationalError ''no such column: username''))) d"

text \<open>\<open>addPolicy\<close> and \<open>removePolicy\<close>: the first log line has no conversion for its text.\<close>

definition addPolicy :: "string \<Rightarrow> disk \<Rightarrow> disk \<times> int res" where
  "addPolicy policy d =
     (d, Inl (TypeError ''not all arguments converted during string formatting''))"

definition removePolicy :: "string \<Rightarrow> disk \<Rightarrow> disk \<times> int res" where
  "removePolicy policy d =
     (d, Inl (TypeError ''not all arguments converted during string formatting''))"

definition addUserKey :: "string \<Rightarrow> dbval \<Rightarrow> dbval \<Rightarrow> disk \<Rightarrow> disk \<times> unit res" where
  "addUserKey now signpost key d = on_tables ''userIds'' (\<lambda>t.
     (Tables (t\<lparr>userIds := map (\<lambda>r. if sql_eq (signpostname r) (text_aff signpost)
          then r\<lparr>publickey := text_aff key, timestamp := now\<rparr> else r) (userIds t)\<rparr>), Inr ())) d"

definition cleanUserPublicKey :: "dbval \<Rightarrow> disk \<Rightarrow> disk \<times> unit res" where
  "cleanUserPublicKey signpost d = (d, Inl (AttributeError ''linkKeyToUser''))"

text \<open>The queries return the first row, a tuple of one column, or \<open>None\<close>.\<close>

definition select_id :: "dbval \<Rightarrow> db \<Rightarrow> id_row option" where
  "select_id sp t = List.find (\<lambda>r. sql_eq (signpostname r) (text_aff sp)) (userIds t)"

definition getKeyFromUser :: "dbval \<Rightarrow> disk \<Rightarrow> disk \<times> dbval option res" where
  "getKeyFromUser signpost d = on_tables ''userIds'' (\<lambda>t.
     (Tables t, Inr (map_option publickey (select_id signpost t)))) d"

definition getPolicyId :: "dbval \<Rightarrow> disk \<Rightarrow> disk \<times> int option res" where
  "getPolicyId policy d = on_tables ''policies'' (\<lambda>t.
     (Tables t, Inr (map_option policyId
        (List.find (\<lambda>r. sql_eq (policyData r) (text_aff policy)) (policies t))))) d"

definition getPolicy :: "int \<Rightarrow> disk \<Rightarrow> disk \<times> dbval option res" where
  "getPolicy pid d = on_tables ''policies'' (\<lambda>t.
     (Tables t, Inr (map_option policyData (List.find (\<lambda>r. policyId r = pid) (policies t))))) d"

text \<open>The next four methods call \<open>getUserIdFromSignpostName\<close> as a global function right after
  they have connected; there is only a method of that name.\<close>

definition getUserPolicyIds :: "dbval \<Rightarrow> disk \<Rightarrow> disk \<times> int list res" where
  "getUserPolicyIds username d = (connect d, Inl (NameError ''getUserIdFromSignpostName''))"

definition linkPolicyToUser :: "dbval \<Rightarrow> int \<Rightarrow> disk \<Rightarrow> disk \<times> unit res" where
  "linkPolicyToUser username pid d = (connect d, Inl (NameError ''getUserIdFromSignpostName''))"

definition removePolicyToUser :: "dbval \<Rightarrow> int \<Rightarrow> disk \<Rightarrow> disk \<times> unit res" where
  "removePolicyToUser username pid d = (connect d, Inl (NameError ''getUserIdFromSignpostName''))"

definition cleanAllUserPolicies :: "dbval \<Rightarrow> disk \<Rightarrow> disk \<times> unit res" where
  "cleanAllUserPolicies username d = (connect d, Inl (NameError ''getUserIdFromSignpostName''))"

text \<open>Of the two methods called \<open>getUserIdFromSignpostName\<close> the class keeps the second.\<close>

definition getUserIdFromSignpostName :: "dbval \<Rightarrow> disk \<Rightarrow> disk \<times> int option option res" where
  "getUserIdFromSignpostName signpost d = on_tables ''userIds'' (\<lambda>t.
     (Tables t, Inr (map_option owner (select_id signpost t)))) d"

definition printContacts :: "disk \<Rightarrow> disk \<times> user_row list res" where
  "printContacts d = on_tables ''users'' (\<lambda>t. (Tables t, Inr (users t))) d"

definition printSignpostNames :: "disk \<Rightarrow> disk \<times> id_row list res" where
  "printSignpostNames d = on_tables ''userIds'' (\<lambda>t. (Tables t, Inr (userIds t))) d"

section \<open>The controller as a machine over calls\<close>

datatype db_call =
    CreateDb
  | CreateUser string dbval dbval dbval
  | RemoveUser dbval
  | AddPolicy string
  | RemovePolicy string
  | AddUserKey string dbval dbval
  | CleanKey dbval
  | LinkPolicy dbval int
  | UnlinkPolicy dbval int
  | CleanPolicies dbval
  | UserPolicyIds dbval
  | ExistsQuery dbval
  | KeyQuery dbval
  | PolicyIdQuery dbval
  | PolicyQuery int
  | UserIdQuery dbval
  | Contacts
  | SignpostNames

fun db_step :: "db_call \<Rightarrow> disk \<Rightarrow> disk" where
  "db_step CreateDb d = fst (createDb d)"
| "db_step (CreateUser now u sp i) d = fst (createUser now u sp i d)"
| "db_step (RemoveUser u) d = fst (removeUser u d)"
| "db_step (AddPolicy p) d = fst (addPolicy p d)"
| "db_step (RemovePolicy p) d = fst (removePolicy p d)"
| "db_step (AddUserKey now sp k) d = fst (addUserKey now sp k d)"
| "db_step (CleanKey sp) d = fst (cleanUserPublicKey sp d)"
| "db_step (LinkPolicy u p) d = fst (linkPolicyToUser u p d)"
| "db_step (UnlinkPolicy u p) d = fst (removePolicyToUser u p d)"
| "db_step (CleanPolicies u) d = fst (cleanAllUserPolicies u d)"
| "db_step (UserPolicyIds u) d = fst (getUserPolicyIds u d)"
| "db_step (ExistsQuery i) d = fst (checkIfUserExists i d)"
| "db_step (KeyQuery sp) d = fst (getKeyFromUser sp d)"
| "db_step (PolicyIdQuery p) d = fst (getPolicyId p d)"
| "db_step (PolicyQuery p) d = fst (getPolicy p d)"
| "db_step (UserIdQuery sp) d = fst (getUserIdFromSignpostName sp d)"
| "db_step Contacts d = fst (printContacts d)"
| "db_step SignpostNames d = fst (printSignpostNames d)"

section \<open>Invariant\<close>

definition keys_of :: "('r \<Rightarrow> dbval) \<Rightarrow> 'r list \<Rightarrow> dbval list" where
  "keys_of f rs = filter (\<lambda>v. v \<noteq> Null) (map f rs)"

text \<open>Unique columns are unique, every signpost entry with an owner points to a user, and the
  policy tables are empty.\<close>

definition db_inv :: "db \<Rightarrow> bool" where
  "db_inv t \<longleftrightarrow> distinct (map userId (users t)) \<and> distinct (keys_of name (users t)) \<and>
     distinct (keys_of twitterApiId (users t)) \<and> distinct (keys_of signpostname (userIds t)) \<and>
     (\<forall>r \<in> set (userIds t). \<forall>i. owner r = Some i \<longrightarrow> i \<in> userId ` set (users t)) \<and>
     policies t = [] \<and> userpolicies t = []"

definition disk_inv :: "disk \<Rightarrow> bool" where
  "disk_inv d \<longleftrightarrow> (case d of Tables t \<Rightarrow> db_inv t | _ \<Rightarrow> True)"

lemma disk_inv_simps [simp]: "disk_inv NoFile" "disk_inv NoTables" "disk_inv (Tables t) = db_inv t"
  by (simp_all add: disk_inv_def)

lemma db_inv_empty [simp]: "db_inv empty_db"
  by (simp add: db_inv_def empty_db_def keys_of_def)

lemma keys_of_append [simp]: "keys_of f (rs @ ss) = keys_of f rs @ keys_of f ss"
  by (simp add: keys_of_def)

lemma keys_of_single [simp]: "keys_of f [r] = (if f r = Null then [] else [f r])"
  by (simp add: keys_of_def)





lemma insert_user_users:
  "insert_user nm tid t = Inr t' \<Longrightarrow> users t' = users t @
     [\<lparr>userId = next_rowid (users t), name = text_aff nm, twitterApiId = text_aff tid\<rparr>] \<and>
     userIds t' = userIds t"
  by (auto simp: insert_user_def split: if_splits)









section \<open>Lookups after updates\<close>

lemma find_map_keep:
  "(\<And>r. P (g r) = P r) \<Longrightarrow> List.find P (map g rs) = map_option g (List.find P rs)"
  by (induction rs) simp_all

lemma find_append_new: "\<not> list_ex P rs \<Longrightarrow> List.find P (rs @ [r]) = (if P r then Some r else None)"
  by (induction rs) auto

definition stored :: "disk \<Rightarrow> dbval \<Rightarrow> bool" where
  "stored d uid \<longleftrightarrow> (case d of Tables t \<Rightarrow> list_ex (\<lambda>r. sql_eq (twitterApiId r) (text_aff uid)) (users t)
     | _ \<Rightarrow> False)"

lemma check_stored:
  "checkIfUserExists uid (Tables t) = (Tables t, Inr (if stored (Tables t) uid then 1 else 0))"
  by (simp add: checkIfUserExists_def stored_def on_tables_def connect_def)

lemma text_aff_Null [simp]: "text_aff v = Null \<longleftrightarrow> v = Null"
  by (cases v) simp_all

lemma text_aff_idem [simp]: "text_aff (text_aff v) = text_aff v"
  by (cases v) simp_all

text \<open>The three outcomes of \<open>createUser\<close>.\<close>

lemma createUser_cases:
  fixes t :: db and nm tid :: dbval
  defines "t1 \<equiv> t\<lparr>users := users t @
      [\<lparr>userId = next_rowid (users t), name = text_aff nm, twitterApiId = text_aff tid\<rparr>]\<rparr>"
  shows "createUser now nm sp tid (Tables t) =
    (if list_ex (\<lambda>r. sql_eq (name r) (text_aff nm)) (users t)
       then (Tables t, Inl (IntegrityError ''column name is not unique''))
     else if stored (Tables t) tid
       then (Tables t, Inl (IntegrityError ''column twitterApiId is not unique''))
     else if list_ex (\<lambda>r. sql_eq (signpostname r) (text_aff sp)) (userIds t)
       then (Tables t1, Inl (IntegrityError ''column signpostname is not unique''))
     else (Tables (t1\<lparr>userIds := userIds t @
         [\<lparr>owner = (if nm = Null then None else Some (next_rowid (users t))),
            signpostname = text_aff sp, publickey = Null, timestamp = now\<rparr>]\<rparr>), Inr ()))"
proof (cases "list_ex (\<lambda>r. sql_eq (name r) (text_aff nm)) (users t) \<or> stored (Tables t) tid")
  case True
  then show ?thesis
    by (auto simp: createUser_def on_tables_def connect_def insert_user_def stored_def)
next
  case False
  then have ins: "insert_user nm tid t = Inr t1"
    by (simp add: insert_user_def stored_def t1_def)
  have sel: "map_option userId (select_user nm t1) =
      (if nm = Null then None else Some (next_rowid (users t)))"
    using False by (simp add: select_user_def t1_def find_append_new sql_eq_def)
  have ids: "userIds t1 = userIds t" by (simp add: t1_def)
  show ?thesis
    unfolding createUser_def on_tables_def connect_def
    using False ins sel ids by (simp add: insert_id_def)
qed

section \<open>Properties\<close>


text \<open>Creating the database on a missing file raises, and what it leaves behind are the four
  tables without the default policy; a second call only reports that the tables exist, and looking
  up the default policy then finds nothing.\<close>

theorem createDb_loses_default_policy:
  "\<exists>e. createDb NoFile = (Tables empty_db, Inl (OperationalError e)) \<and>
     createDb (fst (createDb NoFile)) = (Tables empty_db, Inr ''Tables already created'') \<and>
     snd (getPolicy 0 (fst (createDb NoFile))) = Inr None"
  by (simp add: createDb_def getPolicy_def on_tables_def connect_def empty_db_def)

text \<open>Listing the contacts while the database file is missing raises and leaves a file without
  tables; from then on no sequence of calls, \<open>createDb\<close> included, ever creates the tables, and every
  user query raises.\<close>

theorem tables_never_created_after_connect:
  "snd (printContacts NoFile) = Inl (OperationalError ''no such table: users'') \<and>
   fold db_step calls (fst (printContacts NoFile)) = NoTables \<and>
   snd (checkIfUserExists uid (fold db_step calls (fst (printContacts NoFile)))) =
     Inl (OperationalError ''no such table: users'')"
proof -
  have "db_step c NoTables = NoTables" for c
    by (cases c) (simp_all add: on_tables_def connect_def createDb_def createUser_def addUserKey_def
      removeUser_def addPolicy_def removePolicy_def cleanUserPublicKey_def linkPolicyToUser_def
      removePolicyToUser_def cleanAllUserPolicies_def getUserPolicyIds_def checkIfUserExists_def
      getKeyFromUser_def getPolicyId_def getPolicy_def getUserIdFromSignpostName_def
      printContacts_def printSignpostNames_def)
  then have "fold db_step calls NoTables = NoTables" by (induction calls) simp_all
  then show ?thesis by (simp add: checkIfUserExists_def printContacts_def on_tables_def connect_def)
qed

text \<open>\<open>createUser\<close> with a new name, Twitter identifier and signpost name succeeds; then the user
  exists, the signpost name belongs to it and has no key, and all other users and keys stay.\<close>

theorem createUser_success:
  assumes "\<not> list_ex (\<lambda>r. sql_eq (name r) (text_aff nm)) (users t)" and "\<not> stored (Tables t) tid"
    and "\<not> list_ex (\<lambda>r. sql_eq (signpostname r) (text_aff sp)) (userIds t)"
    and "nm \<noteq> Null" and "tid \<noteq> Null" and "sp \<noteq> Null"
    and "createUser now nm sp tid (Tables t) = (d, r)"
  shows "r = Inr () \<and> (\<forall>u. stored d u \<longleftrightarrow> stored (Tables t) u \<or> text_aff u = text_aff tid) \<and>
    snd (getKeyFromUser sp d) = Inr (Some Null) \<and>
    snd (getUserIdFromSignpostName sp d) = Inr (Some (Some (next_rowid (users t)))) \<and>
    (text_aff sp' \<noteq> text_aff sp \<longrightarrow> snd (getKeyFromUser sp' d) = snd (getKeyFromUser sp' (Tables t)))"
proof -
  have find_other: "List.find P (rs @ [x]) = List.find P rs" if "\<not> P x" for P rs and x :: id_row
    using that by (induction rs) auto
  show ?thesis
    using assms unfolding createUser_cases
    by (auto simp: stored_def sql_eq_def getKeyFromUser_def getUserIdFromSignpostName_def
        on_tables_def connect_def select_id_def find_append_new find_other)
qed

theorem createUser_success_witness:
  "\<exists>d. createUser ''now'' (TextV ''Ann'') (TextV ''ann_sp'') (IntV 12) (Tables empty_db) = (d, Inr ()) \<and>
     stored d (IntV 12)"
proof -
  obtain d r where dr: "createUser ''now'' (TextV ''Ann'') (TextV ''ann_sp'') (IntV 12) (Tables empty_db)
      = (d, r)" by force
  have "\<not> list_ex (\<lambda>r. sql_eq (name r) (text_aff (TextV ''Ann''))) (users empty_db)"
    "\<not> stored (Tables empty_db) (IntV 12)"
    "\<not> list_ex (\<lambda>r. sql_eq (signpostname r) (text_aff (TextV ''ann_sp''))) (userIds empty_db)"
    by (simp_all add: empty_db_def stored_def)
  from createUser_success [OF this _ _ _ dr] dr show ?thesis by auto
qed

text \<open>C38: \<open>createUser\<close> is not atomic: with a signpost name that is already taken it raises
  \<open>IntegrityError\<close> after the user was committed, so the user exists from then on although no
  signpost entry was added, and repeating the call fails on the user's name.\<close>

theorem createUser_not_atomic:
  assumes "\<not> list_ex (\<lambda>r. sql_eq (name r) (text_aff nm)) (users t)" and "\<not> stored (Tables t) tid"
    and "list_ex (\<lambda>r. sql_eq (signpostname r) (text_aff sp)) (userIds t)"
    and "nm \<noteq> Null" and "tid \<noteq> Null"
  shows "\<exists>t1. createUser now nm sp tid (Tables t) =
      (Tables t1, Inl (IntegrityError ''column signpostname is not unique'')) \<and>
    userIds t1 = userIds t \<and> checkIfUserExists tid (Tables t1) = (Tables t1, Inr 1) \<and>
    createUser now nm sp' tid (Tables t1) =
      (Tables t1, Inl (IntegrityError ''column name is not unique''))"
proof -
  let ?t1 = "t\<lparr>users := users t @
      [\<lparr>userId = next_rowid (users t), name = text_aff nm, twitterApiId = text_aff tid\<rparr>]\<rparr>"
  have "createUser now nm sp tid (Tables t) =
      (Tables ?t1, Inl (IntegrityError ''column signpostname is not unique''))"
    using assms by (simp add: createUser_cases)
  moreover have "stored (Tables ?t1) tid" using assms(5) by (simp add: stored_def sql_eq_def)
  then have "checkIfUserExists tid (Tables ?t1) = (Tables ?t1, Inr 1)" by (simp add: check_stored)
  moreover have "createUser now nm sp' tid (Tables ?t1) =
      (Tables ?t1, Inl (IntegrityError ''column name is not unique''))"
    using assms(4) by (simp add: createUser_cases sql_eq_def)
  ultimately show ?thesis by (intro exI [of _ ?t1]) simp
qed

definition one_entry_db :: db where
  "one_entry_db = empty_db\<lparr>userIds := [\<lparr>owner = None, signpostname = TextV ''sp'', publickey = Null,
     timestamp = []\<rparr>]\<rparr>"

theorem createUser_not_atomic_witness:
  "\<exists>t1. createUser [] (TextV ''Ann'') (TextV ''sp'') (IntV 12) (Tables one_entry_db) =
     (Tables t1, Inl (IntegrityError ''column signpostname is not unique'')) \<and>
     checkIfUserExists (IntV 12) (Tables t1) = (Tables t1, Inr 1)"
proof -
  have "\<not> list_ex (\<lambda>r. sql_eq (name r) (text_aff (TextV ''Ann''))) (users one_entry_db)"
    "\<not> stored (Tables one_entry_db) (IntV 12)"
    "list_ex (\<lambda>r. sql_eq (signpostname r) (text_aff (TextV ''sp''))) (userIds one_entry_db)"
    by (simp_all add: one_entry_db_def empty_db_def stored_def sql_eq_def)
  from createUser_not_atomic [OF this, of "[]"] show ?thesis by fastforce
qed

text \<open>A key stored with \<open>addUserKey\<close> is the key \<open>getKeyFromUser\<close> returns for that signpost name
  (as the text of the column), provided the name is known; for an unknown name the update succeeds
  silently and the query finds nothing. The keys of other names are unchanged.\<close>

theorem addUserKey_lookup:
  "\<exists>t'. addUserKey now sp key (Tables t) = (Tables t', Inr ()) \<and>
     snd (getKeyFromUser sp' (Tables t')) =
       Inr (if text_aff sp' = text_aff sp
            then map_option (\<lambda>_. text_aff key) (select_id sp t)
            else map_option publickey (select_id sp' t))"
proof -
  let ?g = "\<lambda>r. if sql_eq (signpostname r) (text_aff sp)
    then r\<lparr>publickey := text_aff key, timestamp := now\<rparr> else r"
  have f: "List.find (\<lambda>r. sql_eq (signpostname r) (text_aff sp')) (map ?g rs) =
      map_option ?g (List.find (\<lambda>r. sql_eq (signpostname r) (text_aff sp')) rs)" for rs
    by (rule find_map_keep) simp
  have "map_option publickey (map_option ?g (select_id sp' t)) =
      (if text_aff sp' = text_aff sp then map_option (\<lambda>_. text_aff key) (select_id sp t)
       else map_option publickey (select_id sp' t))"
  proof (cases "select_id sp' t")
    case None
    then have "text_aff sp' = text_aff sp \<Longrightarrow> select_id sp t = None" by (simp add: select_id_def)
    with None show ?thesis by simp
  next
    case (Some r)
    then have "sql_eq (signpostname r) (text_aff sp')" by (auto simp: select_id_def find_Some_iff)
    with Some show ?thesis by (auto simp: select_id_def sql_eq_def)
  qed
  then show ?thesis
    by (simp add: addUserKey_def getKeyFromUser_def on_tables_def connect_def select_id_def f)
qed

end
