(* ===== verification/PersonalSignpost.thy ===== *)
theory PersonalSignpost
  imports Complex_Main PyValue SqliteController
begin

text \<open>
  The personal signpost, \<open>socialnet/personalSignpost.py\<close>: authentication through a key file, the update of the address book
  from the user's Twitter contacts, and the exchange of public keys in direct messages. Calls to
  the Twitter libraries are arguments; the address book is the model of \<open>SqliteController\<close>.
\<close>

section \<open>The loop over the contacts\<close>

text \<open>
  The loop of \<open>updateSocialNetTweepy\<close>, over the two operations of the address book it calls. The
  check is outside the \<open>try\<close>, the lookup and the creation of the user are inside it.
\<close>

fun sync_users ::
    "('i \<Rightarrow> 'd \<Rightarrow> 'd \<times> int res) \<Rightarrow> ('u \<Rightarrow> 'i \<Rightarrow> 'd \<Rightarrow> 'd \<times> unit res) \<Rightarrow> ('i \<Rightarrow> 'u res) \<Rightarrow>
     'i list \<Rightarrow> 'd \<Rightarrow> 'd \<times> unit res" where
  "sync_users check create get_user [] d = (d, Inr ())"
| "sync_users check create get_user (i # is) d =
     (case check i d of
        (d1, Inl e) \<Rightarrow> (d1, Inl e)
      | (d1, Inr n) \<Rightarrow>
          if n = 0 then
            (case get_user i of
               Inl _ \<Rightarrow> sync_users check create get_user is d1
             | Inr u \<Rightarrow> sync_users check create get_user is (fst (create u i d1)))
          else sync_users check create get_user is d1)"

text \<open>What the loop relies on: a directory of users in which creating a user adds that user only,
  and succeeds when the user's data clash with nothing stored.\<close>

locale user_directory =
  fixes check :: "'i \<Rightarrow> 'd \<Rightarrow> 'd \<times> int res"
    and create :: "'u \<Rightarrow> 'i \<Rightarrow> 'd \<Rightarrow> 'd \<times> unit res"
    and ok :: "'d \<Rightarrow> bool"
    and knows :: "'d \<Rightarrow> 'i \<Rightarrow> bool"
    and free :: "'d \<Rightarrow> 'u \<Rightarrow> bool"
    and indep :: "'u \<Rightarrow> 'u \<Rightarrow> bool"
  assumes check_knows: "ok d \<Longrightarrow> check i d = (d, Inr (if knows d i then 1 else 0))"
    and create_ok: "ok d \<Longrightarrow> ok (fst (create u i d))"
    and create_keeps: "ok d \<Longrightarrow> knows d j \<Longrightarrow> knows (fst (create u i d)) j"
    and create_only: "ok d \<Longrightarrow> knows (fst (create u i d)) j \<Longrightarrow> knows d j \<or> j = i"
    and create_free: "ok d \<Longrightarrow> free d u \<Longrightarrow> knows (fst (create u i d)) i"
    and create_indep: "ok d \<Longrightarrow> free d v \<Longrightarrow> indep u v \<Longrightarrow> free (fst (create u i d)) v"
begin

lemma sync_ok:
  "ok d \<Longrightarrow> ok (fst (sync_users check create g is d)) \<and> snd (sync_users check create g is d) = Inr ()"
  by (induction "is" arbitrary: d) (auto simp: check_knows create_ok split: sum.split)

lemma sync_keeps: "ok d \<Longrightarrow> knows d j \<Longrightarrow> knows (fst (sync_users check create g is d)) j"
  by (induction "is" arbitrary: d) (auto simp: check_knows create_ok create_keeps split: sum.split)

lemma sync_step:
  assumes "ok d"
  obtains d' where "sync_users check create g (i # is) d = sync_users check create g is d'" and "ok d'"
    and "\<And>j. knows d' j \<Longrightarrow> knows d j \<or> (j = i \<and> (\<exists>u. g i = Inr u))"
proof (cases "knows d i")
  case True
  with assms that [of d] show ?thesis by (simp add: check_knows)
next
  case new: False
  show ?thesis
  proof (cases "g i")
    case (Inl e)
    with new assms that [of d] show ?thesis by (simp add: check_knows)
  next
    case (Inr u)
    with new assms that [of "fst (create u i d)"] show ?thesis
      by (auto simp: check_knows create_ok dest: create_only)
  qed
qed

lemma sync_only:
  "ok d \<Longrightarrow> knows (fst (sync_users check create g is d)) j \<Longrightarrow>
     knows d j \<or> (j \<in> set is \<and> (\<exists>u. g j = Inr u))"
proof (induction "is" arbitrary: d)
  case (Cons i "is")
  obtain d' where d': "sync_users check create g (i # is) d = sync_users check create g is d'" "ok d'"
    "\<And>j. knows d' j \<Longrightarrow> knows d j \<or> (j = i \<and> (\<exists>u. g i = Inr u))"
    using sync_step [OF Cons.prems(1), of g i "is"] by blast
  from Cons.IH [OF d'(2)] Cons.prems(2) d'(1,3) show ?case by auto
qed simp

lemma sync_complete:
  assumes "ok d" and "\<And>i. i \<in> set is \<Longrightarrow> g i = Inr (u i)" and "\<And>i. i \<in> set is \<Longrightarrow> free d (u i)"
    and "distinct is" and "\<And>i j. i \<in> set is \<Longrightarrow> j \<in> set is \<Longrightarrow> i \<noteq> j \<Longrightarrow> indep (u i) (u j)"
    and "j \<in> set is"
  shows "knows (fst (sync_users check create g is d)) j"
  using assms
proof (induction "is" arbitrary: d)
  case (Cons i "is")
  define d' where "d' = (if knows d i then d else fst (create (u i) i d))"
  have step: "sync_users check create g (i # is) d = sync_users check create g is d'"
    using Cons.prems(1,2) by (simp add: check_knows d'_def)
  have ok': "ok d'" and known: "knows d' i"
    using Cons.prems(1,3) by (auto simp: d'_def create_ok create_free)
  have free': "free d' (u k)" if "k \<in> set is" for k
    using Cons.prems that by (auto simp: d'_def intro!: create_indep)
  show ?case
  proof (cases "j = i")
    case True
    with known step ok' show ?thesis by (simp add: sync_keeps)
  next
    case False
    then have "knows (fst (sync_users check create g is d')) j"
      using ok' free' Cons.prems by (intro Cons.IH) auto
    with step show ?thesis by simp
  qed
qed simp

end

section \<open>The address book as a user directory\<close>

record contact =
  screen_name :: string
  cname :: string

definition create_contact :: "string \<Rightarrow> contact \<Rightarrow> int \<Rightarrow> disk \<Rightarrow> disk \<times> unit res" where
  "create_contact now u i d = createUser now (TextV (cname u)) (TextV (screen_name u)) (IntV i) d"

definition check_id :: "int \<Rightarrow> disk \<Rightarrow> disk \<times> int res" where
  "check_id i d = checkIfUserExists (IntV i) d"

definition has_tables :: "disk \<Rightarrow> bool" where
  "has_tables d \<longleftrightarrow> (\<exists>t. d = Tables t)"

definition contact_free :: "disk \<Rightarrow> contact \<Rightarrow> bool" where
  "contact_free d u \<longleftrightarrow> (case d of
     Tables t \<Rightarrow> \<not> list_ex (\<lambda>r. sql_eq (name r) (TextV (cname u))) (users t) \<and>
       \<not> list_ex (\<lambda>r. sql_eq (signpostname r) (TextV (screen_name u))) (userIds t)
   | _ \<Rightarrow> False)"

definition contacts_differ :: "contact \<Rightarrow> contact \<Rightarrow> bool" where
  "contacts_differ u v \<longleftrightarrow> cname u \<noteq> cname v \<and> screen_name u \<noteq> screen_name v"

lemma create_contact_cases:
  obtains (same) "fst (create_contact now u i (Tables t)) = Tables t"
      "stored (Tables t) (IntV i) \<or> \<not> contact_free (Tables t) u"
  | (added) t' where "fst (create_contact now u i (Tables t)) = Tables t'"
      "users t' = users t @ [\<lparr>userId = next_rowid (users t), name = TextV (cname u),
         twitterApiId = TextV (show_int i)\<rparr>]"
      "userIds t' = userIds t \<or> (\<exists>o' n. userIds t' = userIds t @ [\<lparr>owner = o',
         signpostname = TextV (screen_name u), publickey = Null, timestamp = n\<rparr>])"
proof -
  let ?c = "create_contact now u i (Tables t)"
  let ?n = "list_ex (\<lambda>r. sql_eq (name r) (TextV (cname u))) (users t)"
  let ?s = "list_ex (\<lambda>r. sql_eq (signpostname r) (TextV (screen_name u))) (userIds t)"
  note c = create_contact_def createUser_cases
  show thesis
  proof (cases "?n \<or> stored (Tables t) (IntV i)")
    case True
    then show thesis by (intro same) (auto simp: c contact_free_def)
  next
    case False
    show thesis
    proof (cases ?s)
      case True
      with False show thesis by (intro added) (simp add: c, simp_all)
    next
      case new: False
      with False show thesis by (intro added) (simp add: c, simp_all)
    qed
  qed
qed

interpretation address_book: user_directory check_id "create_contact now" has_tables
    "\<lambda>d i. stored d (IntV i)" contact_free contacts_differ for now
proof unfold_locales
  fix d :: disk and i j :: int and u v :: contact
  assume "has_tables d"
  then obtain t where d: "d = Tables t" by (auto simp: has_tables_def)
  show "check_id i d = (d, Inr (if stored d (IntV i) then 1 else 0))"
    by (simp add: d check_id_def check_stored)
  show "has_tables (fst (create_contact now u i d))"
    by (rule create_contact_cases [of now u i t]) (simp_all add: d has_tables_def)
  show "stored (fst (create_contact now u i d)) (IntV j)" if "stored d (IntV j)"
    by (rule create_contact_cases [of now u i t]) (use that in \<open>auto simp: d stored_def\<close>)
  show "stored d (IntV j) \<or> j = i" if "stored (fst (create_contact now u i d)) (IntV j)"
    by (rule create_contact_cases [of now u i t])
      (use that in \<open>auto simp: d stored_def sql_eq_def\<close>)
  show "stored (fst (create_contact now u i d)) (IntV i)" if "contact_free d u"
    by (rule create_contact_cases [of now u i t])
      (use that in \<open>auto simp: d stored_def sql_eq_def\<close>)
  show "contact_free (fst (create_contact now u i d)) v"
    if "contact_free d v" "contacts_differ u v"
    by (rule create_contact_cases [of now u i t])
      (use that in \<open>auto simp: d contact_free_def contacts_differ_def sql_eq_def\<close>)
qed

section \<open>Updating the social net\<close>

text \<open>
  \<open>updateSocialNetTweepy\<close>. The contacts are listed before the test that recreates a missing
  database. \<open>iter\<close> is the order in which Python iterates over a set.
\<close>

definition updateSocialNetTweepy ::
    "(int set \<Rightarrow> int list) \<Rightarrow> string \<Rightarrow> int list res \<Rightarrow> int list res \<Rightarrow> (int \<Rightarrow> contact res) \<Rightarrow>
     disk \<Rightarrow> disk \<times> unit res" where
  "updateSocialNetTweepy iter now friends_ids followers_ids get_user d =
     (case printContacts d of
        (d1, Inl e) \<Rightarrow> (d1, Inl e)
      | (d1, Inr _) \<Rightarrow>
          (case (if d1 = NoFile then createDb d1 else (d1, Inr [])) of
             (d2, Inl e) \<Rightarrow> (d2, Inl e)
           | (d2, Inr _) \<Rightarrow>
               (case friends_ids of
                  Inl e \<Rightarrow> (d2, Inl e)
                | Inr friends \<Rightarrow>
                    (case followers_ids of
                       Inl e \<Rightarrow> (d2, Inl e)
                     | Inr followers \<Rightarrow>
                         sync_users check_id (create_contact now) get_user
                           (iter (set followers \<inter> set friends)) d2))))"

lemma updateSocialNetTweepy_tables:
  "updateSocialNetTweepy iter now (Inr friends) (Inr followers) get_user (Tables t) =
     sync_users check_id (create_contact now) get_user (iter (set followers \<inter> set friends)) (Tables t)"
  by (simp add: updateSocialNetTweepy_def printContacts_def on_tables_def connect_def)

section \<open>Keys in direct messages\<close>

record message =
  msg_id :: int
  msg_text :: string
  sender :: string

definition TWITTER_KEY_MSG_HEADER :: string where
  "TWITTER_KEY_MSG_HEADER = ''sp_pkey''"

definition sendKeyToUser :: "string \<Rightarrow> string \<Rightarrow> string \<times> string" where
  "sendKeyToUser user key = (user, TWITTER_KEY_MSG_HEADER @ key)"

text \<open>The controller has no method of this name.\<close>

definition addKeyToUser :: "string \<Rightarrow> string \<Rightarrow> disk \<Rightarrow> disk \<times> unit res" where
  "addKeyToUser user key d = (d, Inl (AttributeError ''addKeyToUser''))"

text \<open>The loop's state: the address book, the keys found and the messages destroyed so far.\<close>

fun key_loop ::
    "(int \<Rightarrow> unit res) \<Rightarrow> message list \<Rightarrow> disk \<times> (string \<times> string) list \<times> int list \<Rightarrow>
     (disk \<times> (string \<times> string) list \<times> int list) \<times> unit res" where
  "key_loop destroy [] s = (s, Inr ())"
| "key_loop destroy (m # ms) (d, found, gone) =
     (if starts_with (msg_text m) TWITTER_KEY_MSG_HEADER then
        (let key = drop 7 (msg_text m);
             found' = found @ [(sender m, key)]
         in case addKeyToUser (sender m) key d of
              (d1, Inl e) \<Rightarrow> ((d1, found', gone), Inl e)
            | (d1, Inr _) \<Rightarrow>
                (case destroy (msg_id m) of
                   Inl e \<Rightarrow> ((d1, found', gone), Inl e)
                 | Inr _ \<Rightarrow> key_loop destroy ms (d1, found', gone @ [msg_id m])))
      else key_loop destroy ms (d, found, gone))"

text \<open>The messages are fetched twice; only the second fetch and the loop are inside the \<open>try\<close>.\<close>

definition getLatestKeys ::
    "message list res \<Rightarrow> message list res \<Rightarrow> (int \<Rightarrow> unit res) \<Rightarrow> disk \<Rightarrow>
     (disk \<times> (string \<times> string) list \<times> int list) \<times> unit res" where
  "getLatestKeys first second destroy d =
     (case first of
        Inl e \<Rightarrow> ((d, [], []), Inl e)
      | Inr _ \<Rightarrow>
          (case second of
             Inl _ \<Rightarrow> ((d, [], []), Inr ())
           | Inr ms \<Rightarrow> (fst (key_loop destroy ms (d, [], [])), Inr ())))"

section \<open>Authentication\<close>

text \<open>The state is the content of the key file, if there is one. \<open>get_access_token\<close> raises
  \<open>TweepError\<close> on failure; the handler catches it, opens the file for writing, which empties it,
  and then uses the token it does not have.\<close>

definition readline :: "string \<Rightarrow> string" where
  "readline s = (case str_split1 CHR 0x0A s of (l, None) \<Rightarrow> l | (l, Some _) \<Rightarrow> l @ [CHR 0x0A])"

definition authenticateTwitter ::
    "string res \<Rightarrow> (string \<times> string) res \<Rightarrow> string option \<Rightarrow> string option \<times> (string \<times> string) res" where
  "authenticateTwitter auth_url access_token key_file =
     (case key_file of
        None \<Rightarrow>
          (case auth_url of
             Inl e \<Rightarrow> (None, Inl e)
           | Inr _ \<Rightarrow>
               (case access_token of
                  Inl (TweepError _) \<Rightarrow> (Some [], Inl (AttributeError ''key''))
                | Inl e \<Rightarrow> (None, Inl e)
                | Inr (key, secret) \<Rightarrow> (Some (key @ '','' @ secret), Inr (key, secret))))
      | Some text \<Rightarrow>
          (case str_split (CHR '','') (readline text) of
             key # secret # _ \<Rightarrow> (key_file, Inr (key, secret))
           | _ \<Rightarrow> (key_file, Inl IndexError)))"

section \<open>Properties\<close>

text \<open>C9: Updating the social net on an existing database never raises once both contact lists
  arrived, forgets nobody, and adds only symmetric friends whose profile could be fetched.\<close>

theorem social_net_sound:
  assumes "set (iter (set followers \<inter> set friends)) = set followers \<inter> set friends"
    and "updateSocialNetTweepy iter now (Inr friends) (Inr followers) get_user (Tables t) = (d, r)"
  shows "r = Inr () \<and> (stored (Tables t) (IntV i) \<longrightarrow> stored d (IntV i)) \<and>
    (stored d (IntV i) \<longrightarrow> stored (Tables t) (IntV i) \<or>
       (i \<in> set followers \<inter> set friends \<and> (\<exists>u. get_user i = Inr u)))"
proof -
  have ok: "has_tables (Tables t)" by (simp add: has_tables_def)
  have d: "d = fst (sync_users check_id (create_contact now) get_user
      (iter (set followers \<inter> set friends)) (Tables t))"
    and r: "r = snd (sync_users check_id (create_contact now) get_user
      (iter (set followers \<inter> set friends)) (Tables t))"
    using assms(2) by (simp_all add: updateSocialNetTweepy_tables)
  show ?thesis
    using address_book.sync_ok [OF ok, of now get_user "iter (set followers \<inter> set friends)"]
      address_book.sync_keeps [OF ok, of i now get_user "iter (set followers \<inter> set friends)"]
      address_book.sync_only [OF ok, of now get_user "iter (set followers \<inter> set friends)" i]
    by (auto simp: d r assms(1))
qed

definition one_friend :: "int \<Rightarrow> contact res" where
  "one_friend i = (if i = 7 then Inr \<lparr>screen_name = ''ann'', cname = ''Ann''\<rparr>
     else Inl (TweepError ''no such user''))"

theorem social_net_sound_witness:
  "\<exists>d. updateSocialNetTweepy sorted_list_of_set ''now'' (Inr [7, 8]) (Inr [7]) one_friend
     (Tables empty_db) = (d, Inr ()) \<and> \<not> stored d (IntV 8)"
proof -
  obtain d r where dr: "updateSocialNetTweepy sorted_list_of_set ''now'' (Inr [7, 8]) (Inr [7])
     one_friend (Tables empty_db) = (d, r)" by force
  have "set (sorted_list_of_set (set [7] \<inter> set [7, 8])) = set [7] \<inter> set [7 :: int, 8]"
    by (rule set_sorted_list_of_set) simp
  from social_net_sound [OF this dr, of 8] dr show ?thesis
    by (auto simp: stored_def empty_db_def)
qed

text \<open>C10: The update is complete when names do not clash: starting from an empty address book, if
  every symmetric friend's profile can be fetched and no two of them share a display name or a
  screen name, all of them are in the address book afterwards.\<close>

theorem social_net_complete:
  assumes "set (iter (set followers \<inter> set friends)) = set followers \<inter> set friends"
    and "distinct (iter (set followers \<inter> set friends))"
    and "\<And>j. j \<in> set followers \<inter> set friends \<Longrightarrow> get_user j = Inr (u j)"
    and "\<And>j k. j \<in> set followers \<inter> set friends \<Longrightarrow> k \<in> set followers \<inter> set friends \<Longrightarrow> j \<noteq> k \<Longrightarrow>
      contacts_differ (u j) (u k)"
    and "i \<in> set followers" and "i \<in> set friends"
  shows "stored (fst (updateSocialNetTweepy iter now (Inr friends) (Inr followers) get_user
    (Tables empty_db))) (IntV i)"
  unfolding updateSocialNetTweepy_tables
proof (rule address_book.sync_complete [where u = u])
  show "has_tables (Tables empty_db)" by (simp add: has_tables_def)
  show "contact_free (Tables empty_db) (u j)" for j by (simp add: contact_free_def empty_db_def)
qed (use assms in auto)

theorem social_net_complete_witness:
  "stored (fst (updateSocialNetTweepy sorted_list_of_set ''now'' (Inr [7, 8]) (Inr [7]) one_friend
     (Tables empty_db))) (IntV 7)"
proof -
  have eq: "set [7] \<inter> set [7, 8] = {7 :: int}" by auto
  show ?thesis
    by (rule social_net_complete [where u = "\<lambda>_. \<lparr>screen_name = ''ann'', cname = ''Ann''\<rparr>"])
      (simp_all add: eq one_friend_def)
qed

lemma sync_clash:
  assumes "list_ex (\<lambda>r. sql_eq (name r) (TextV (cname u))) (users t)" and "g i = Inr u"
    and "\<not> stored (Tables t) (IntV i)"
  shows "\<not> stored (fst (sync_users check_id (create_contact now) g is (Tables t))) (IntV i)"
  using assms(1,3)
proof (induction "is" arbitrary: t)
  case (Cons j "is")
  show ?case
  proof (cases "g j")
    case (Inl e)
    with Cons show ?thesis by (simp add: address_book.check_knows has_tables_def)
  next
    case (Inr v)
    show ?thesis
    proof (rule create_contact_cases [of now v j t])
      assume "fst (create_contact now v j (Tables t)) = Tables t"
      with Cons Inr show ?thesis by (simp add: address_book.check_knows has_tables_def)
    next
      fix t' assume t': "fst (create_contact now v j (Tables t)) = Tables t'"
        "users t' = users t @ [\<lparr>userId = next_rowid (users t), name = TextV (cname v),
           twitterApiId = TextV (show_int j)\<rparr>]"
      have "j \<noteq> i"
      proof
        assume "j = i"
        with Inr assms(2) have "v = u" by simp
        with Cons.prems(1) have "create_contact now v j (Tables t) =
            (Tables t, Inl (IntegrityError ''column name is not unique''))"
          by (simp add: create_contact_def createUser_cases)
        with t' have "users t = users t @ [\<lparr>userId = next_rowid (users t), name = TextV (cname v),
           twitterApiId = TextV (show_int j)\<rparr>]" by simp
        then show False by simp
      qed
      with t'(2) Cons.prems have "list_ex (\<lambda>r. sql_eq (name r) (TextV (cname u))) (users t')"
        "\<not> stored (Tables t') (IntV i)"
        by (auto simp: stored_def sql_eq_def)
      with Cons Inr t'(1) show ?thesis by (simp add: address_book.check_knows has_tables_def)
    qed
  qed
qed simp

text \<open>A friend whose display name is the name of a stored user is never stored: the insertion
  fails, the failure is swallowed, and the next update finds the friend missing again.\<close>

theorem social_net_name_clash:
  assumes "list_ex (\<lambda>r. sql_eq (name r) (TextV (cname u))) (users t)" and "get_user i = Inr u"
    and "\<not> stored (Tables t) (IntV i)"
  shows "\<not> stored (fst (updateSocialNetTweepy iter now (Inr friends) (Inr followers) get_user
    (Tables t))) (IntV i)"
  using sync_clash [where g = get_user and i = i, OF assms] by (simp add: updateSocialNetTweepy_tables)

definition same_names :: "int \<Rightarrow> contact res" where
  "same_names i = Inr \<lparr>screen_name = show_int i, cname = ''Ann''\<rparr>"

definition ann_db :: db where
  "ann_db = empty_db\<lparr>users := [\<lparr>userId = 1, name = TextV ''Ann'', twitterApiId = TextV ''5''\<rparr>]\<rparr>"

theorem social_net_name_clash_witness:
  "\<not> stored (fst (updateSocialNetTweepy sorted_list_of_set ''now'' (Inr [7]) (Inr [7]) same_names
     (Tables ann_db))) (IntV 7)"
proof -
  have "list_ex (\<lambda>r. sql_eq (name r) (TextV (cname \<lparr>screen_name = show_int 7, cname = ''Ann''\<rparr>)))
      (users ann_db)" by (simp add: ann_db_def sql_eq_def)
  moreover have "same_names 7 = Inr \<lparr>screen_name = show_int 7, cname = ''Ann''\<rparr>"
    by (simp add: same_names_def)
  moreover have "\<not> stored (Tables ann_db) (IntV 7)"
  proof -
    have "show_int 7 = ''7''" by code_simp
    then show ?thesis by (simp add: stored_def ann_db_def sql_eq_def)
  qed
  ultimately show ?thesis by (rule social_net_name_clash)
qed

text \<open>The recovery from a deleted database file is never reached: listing the contacts first
  creates an empty file and raises.\<close>

theorem social_net_missing_database:
  "updateSocialNetTweepy iter now friends_ids followers_ids get_user NoFile =
     (NoTables, Inl (OperationalError ''no such table: users''))"
  by (simp add: updateSocialNetTweepy_def printContacts_def on_tables_def connect_def)

text \<open>C39: The text a sender's \<open>sendKeyToUser\<close> puts in a direct message is recognised by the
  receiver's loop, which reads exactly the sent key out of it; messages without the header before it
  are skipped.\<close>

theorem key_message_roundtrip:
  assumes "msg_text m = snd (sendKeyToUser user key)"
    and "list_all (\<lambda>m. \<not> starts_with (msg_text m) TWITTER_KEY_MSG_HEADER) before"
  shows "key_loop destroy (before @ m # after) (d, found, gone) =
    ((d, found @ [(sender m, key)], gone), Inl (AttributeError ''addKeyToUser''))"
  using assms(2)
proof (induction before)
  case Nil
  have "starts_with (msg_text m) TWITTER_KEY_MSG_HEADER" "drop 7 (msg_text m) = key"
    using assms(1) by (simp_all add: sendKeyToUser_def) (simp add: TWITTER_KEY_MSG_HEADER_def)
  then show ?case by (simp add: addKeyToUser_def)
qed simp

theorem key_message_roundtrip_witness:
  "key_loop (\<lambda>_. Inr ()) [\<lparr>msg_id = 1, msg_text = ''hello'', sender = ''bob''\<rparr>,
      \<lparr>msg_id = 2, msg_text = snd (sendKeyToUser ''me'' ''AB=''), sender = ''ann''\<rparr>] (NoFile, [], []) =
     ((NoFile, [(''ann'', ''AB='')], []), Inl (AttributeError ''addKeyToUser''))"
proof -
  let ?m = "\<lparr>msg_id = 2, msg_text = snd (sendKeyToUser ''me'' ''AB=''), sender = ''ann''\<rparr>"
  have "list_all (\<lambda>m. \<not> starts_with (msg_text m) TWITTER_KEY_MSG_HEADER)
      [\<lparr>msg_id = 1, msg_text = ''hello'', sender = ''bob''\<rparr>]"
    by (simp add: TWITTER_KEY_MSG_HEADER_def)
  from key_message_roundtrip [of ?m "''me''" "''AB=''", OF _ this, of "\<lambda>_. Inr ()" "[]"]
  show ?thesis by simp
qed

text \<open>\<open>getLatestKeys\<close> never stores a key and never destroys a message, whatever the messages
  are, and reports no failure once the first fetch succeeded: the loop ends at the first key message.\<close>

theorem getLatestKeys_stores_nothing:
  "\<exists>found. getLatestKeys first second destroy d = ((d, found, []), case first of Inl e \<Rightarrow> Inl e | Inr _ \<Rightarrow> Inr ()) \<and>
     length found \<le> 1"
proof -
  have "\<exists>f r. key_loop destroy ms (d, found, gone) = ((d, found @ f, gone), r) \<and> length f \<le> 1"
    for ms found gone
    by (induction ms) (auto simp: addKeyToUser_def)
  from this [of _ "[]" "[]"] show ?thesis
    by (auto simp: getLatestKeys_def split: sum.split) (metis append_Nil fst_conv)
qed

text \<open>Tokens survive a restart: after a first authentication that obtained a token without commas
  or line breaks, the next one reads the same token back from the key file.\<close>

theorem authenticate_roundtrip:
  assumes "CHR '','' \<notin> set key" and "CHR '','' \<notin> set secret"
    and "CHR 0x0A \<notin> set key" and "CHR 0x0A \<notin> set secret"
    and "authenticateTwitter (Inr url) (Inr (key, secret)) None = (f, r)"
  shows "r = Inr (key, secret) \<and> authenticateTwitter url' tok f = (f, Inr (key, secret))"
proof -
  have f: "f = Some (key @ '','' @ secret)" and r: "r = Inr (key, secret)"
    using assms(5) by (simp_all add: authenticateTwitter_def)
  have "readline (key @ '','' @ secret) = key @ '','' @ secret"
    using assms by (simp add: readline_def)
  then show ?thesis
    using assms by (simp add: f r authenticateTwitter_def str_split_append str_split_no_sep)
qed

theorem authenticate_roundtrip_witness:
  "authenticateTwitter (Inl (TweepError [])) (Inl (TweepError []))
     (fst (authenticateTwitter (Inr []) (Inr (''key'', ''secret'')) None)) =
     (Some ''key,secret'', Inr (''key'', ''secret''))"
proof -
  have "authenticateTwitter (Inr []) (Inr (''key'', ''secret'')) None =
      (Some ''key,secret'', Inr (''key'', ''secret''))" by (simp add: authenticateTwitter_def)
  from authenticate_roundtrip [OF _ _ _ _ this] this show ?thesis by simp
qed

text \<open>A refused authorization locks the user out: the handler goes on without a token, leaves
  an empty key file behind, and every later start takes the empty file for a stored token and
  raises \<open>IndexError\<close>.\<close>

theorem refused_authorization_locks_out:
  "fst (authenticateTwitter (Inr url) (Inl (TweepError msg)) None) = Some [] \<and>
   snd (authenticateTwitter url' tok (Some [])) = Inl IndexError \<and>
   fst (authenticateTwitter url' tok (Some [])) = Some []"
  by (simp add: authenticateTwitter_def readline_def)

end
