(* ===== verification/ServerDiscovery.thy ===== *)
theory ServerDiscovery
  imports Prelude "HOL-Library.Multiset"
begin

text \<open>
  The discovery of local services, \<open>psp_python/server_discovery.py\<close>: a scan of the sockets of
  all processes and the update of the service cache from it. What the operating system reports
  (the process identifiers and, for each, its name and sockets, or the exception the process
  library raises) is an argument. The loop over the cache removes elements from the list it runs
  over, so it is modelled by the index that Python's list iterator keeps.
\<close>

section \<open>Scanning the sockets\<close>

datatype family = AF_INET | AF_INET6 | AF_UNIX
datatype socktype = SOCK_STREAM | SOCK_DGRAM | SOCK_OTHER

record connection =
  conn_family :: family
  conn_type :: socktype
  conn_status :: string
  local_address :: "string \<times> nat"

record process =
  pname :: string
  connections :: "connection list"

record entry =
  ename :: string
  eip :: string
  eport :: nat
  etype :: string

definition conn_entry :: "string \<Rightarrow> connection \<Rightarrow> entry list" where
  "conn_entry nm c =
     (if conn_family c = AF_INET then
        if conn_type c = SOCK_STREAM \<and> conn_status c = ''LISTEN'' then
          [\<lparr>ename = nm, eip = fst (local_address c), eport = snd (local_address c), etype = ''tcp''\<rparr>]
        else if conn_type c = SOCK_DGRAM then
          [\<lparr>ename = nm, eip = fst (local_address c), eport = snd (local_address c), etype = ''udp''\<rparr>]
        else []
      else [])"

text \<open>\<open>psutil.Process(pid)\<close> and \<open>get_connections()\<close> raise when the process is gone or private.\<close>

fun scan :: "(nat \<Rightarrow> process res) \<Rightarrow> nat list \<Rightarrow> entry list res" where
  "scan proc [] = Inr []"
| "scan proc (pid # pids) =
     rbind (proc pid) (\<lambda>p. rbind (scan proc pids)
       (\<lambda>rest. Inr (concat (map (conn_entry (pname p)) (connections p)) @ rest)))"

section \<open>Comparing the two lists\<close>

text \<open>\<open>for entry in self._service_cache\<close>: \<open>i\<close> is the iterator's index, which moves on by one per
  round even when the round has removed an element.\<close>

function compare_lists :: "nat \<Rightarrow> 'e list \<Rightarrow> 'e list \<Rightarrow> 'e list \<times> 'e list" where
  "compare_lists i cache loc =
     (if i < length cache then
        (let e = cache ! i in
         if e \<notin> set loc then compare_lists (Suc i) (remove1 e cache) loc
         else compare_lists (Suc i) cache (remove1 e loc))
      else (cache, loc))"
  by pat_completeness auto
termination
  by (relation "measure (\<lambda>(i, cache, loc). length cache - i)") (auto simp: length_remove1)

declare compare_lists.simps [simp del]

lemma compare_lists_end: "\<not> i < length cache \<Longrightarrow> compare_lists i cache loc = (cache, loc)"
  by (simp add: compare_lists.simps)

lemma compare_lists_gone:
  "i < length cache \<Longrightarrow> cache ! i \<notin> set loc \<Longrightarrow>
     compare_lists i cache loc = compare_lists (Suc i) (remove1 (cache ! i) cache) loc"
  by (subst compare_lists.simps) (simp add: Let_def)

lemma compare_lists_kept:
  "i < length cache \<Longrightarrow> cache ! i \<in> set loc \<Longrightarrow>
     compare_lists i cache loc = compare_lists (Suc i) cache (remove1 (cache ! i) loc)"
  by (subst compare_lists.simps) (simp add: Let_def)

lemmas compare_lists_step = compare_lists_end compare_lists_gone compare_lists_kept

definition update_cache :: "'e list \<Rightarrow> 'e list \<Rightarrow> 'e list" where
  "update_cache live cache = (case compare_lists 0 cache live of (c, l) \<Rightarrow> c @ l)"

definition service_update ::
    "(nat \<Rightarrow> process res) \<Rightarrow> nat list \<Rightarrow> entry list \<Rightarrow> entry list \<times> bool res" where
  "service_update proc pids cache =
     (case scan proc pids of
        Inl e \<Rightarrow> (cache, Inl e)
      | Inr live \<Rightarrow> (update_cache live cache, Inr True))"

section \<open>Lemmas\<close>

lemma scan_ok:
  "(\<And>pid. pid \<in> set pids \<Longrightarrow> proc pid = Inr (p pid)) \<Longrightarrow>
     scan proc pids = Inr (concat (map (\<lambda>pid. concat (map (conn_entry (pname (p pid)))
       (connections (p pid)))) pids))"
  by (induction pids) simp_all

lemma compare_lists_sub:
  "compare_lists i cache loc = (c, l) \<Longrightarrow> mset c \<subseteq># mset cache \<and> mset l \<subseteq># mset loc"
proof (induction i cache loc arbitrary: c l rule: compare_lists.induct)
  case (1 i cache loc)
  consider "\<not> i < length cache" | "i < length cache" "cache ! i \<notin> set loc"
    | "i < length cache" "cache ! i \<in> set loc" by blast
  then show ?case
  proof cases
    case 1
    with "1.prems" show ?thesis by (simp add: compare_lists_step)
  next
    case 2
    with "1.prems" have "compare_lists (Suc i) (remove1 (cache ! i) cache) loc = (c, l)"
      by (simp add: compare_lists_step)
    from "1.IH"(1) [OF 2(1) refl 2(2) this] show ?thesis
      by (metis diff_subset_eq_self mset_remove1 subset_mset.order_trans)
  next
    case 3
    with "1.prems" have "compare_lists (Suc i) cache (remove1 (cache ! i) loc) = (c, l)"
      by (simp add: compare_lists_step)
    from "1.IH"(2) [OF 3(1) refl _ this] 3(2) show ?thesis
      by (metis diff_subset_eq_self mset_remove1 subset_mset.order_trans)
  qed
qed

lemma remove1_take:
  assumes "i < length xs"
  shows "mset (take i xs) \<subseteq># mset (take (Suc i) (remove1 (xs ! i) xs))"
proof -
  have x: "xs ! i \<in> set (take (Suc i) xs)" using assms by (simp add: take_Suc_conv_app_nth)
  have "remove1 (xs ! i) xs = remove1 (xs ! i) (take (Suc i) xs) @ drop (Suc i) xs"
    using x by (metis append_take_drop_id remove1_append)
  moreover have len: "length (remove1 (xs ! i) (take (Suc i) xs)) = i"
    using x assms by (simp add: length_remove1)
  ultimately have "take (Suc i) (remove1 (xs ! i) xs) =
      remove1 (xs ! i) (take (Suc i) xs) @ take 1 (drop (Suc i) xs)" by simp
  moreover have "mset (remove1 (xs ! i) (take (Suc i) xs)) = mset (take i xs)"
    using assms by (simp add: take_Suc_conv_app_nth)
  ultimately show ?thesis by simp
qed

text \<open>What was matched against the scan stays in the part of the cache already passed.\<close>

lemma compare_lists_matched:
  "compare_lists i cache loc = (c, l) \<Longrightarrow> M \<subseteq># mset (take i cache) \<Longrightarrow>
     \<exists>M'. M' \<subseteq># mset c \<and> M' + mset l = M + mset loc"
proof (induction i cache loc arbitrary: c l M rule: compare_lists.induct)
  case (1 i cache loc)
  consider "\<not> i < length cache" | "i < length cache" "cache ! i \<notin> set loc"
    | "i < length cache" "cache ! i \<in> set loc" by blast
  then show ?case
  proof cases
    case 1
    with "1.prems" show ?thesis by (auto simp: compare_lists_step)
  next
    case 2
    with "1.prems"(1) have r: "compare_lists (Suc i) (remove1 (cache ! i) cache) loc = (c, l)"
      by (simp add: compare_lists_step)
    have "M \<subseteq># mset (take (Suc i) (remove1 (cache ! i) cache))"
      using "1.prems"(2) remove1_take [OF 2(1)] by (rule subset_mset.order_trans)
    from "1.IH"(1) [OF 2(1) refl 2(2) r this] show ?thesis .
  next
    case 3
    with "1.prems"(1) have r: "compare_lists (Suc i) cache (remove1 (cache ! i) loc) = (c, l)"
      by (simp add: compare_lists_step)
    have "M + {#cache ! i#} \<subseteq># mset (take (Suc i) cache)"
      using "1.prems"(2) 3(1) by (simp add: take_Suc_conv_app_nth)
    from "1.IH"(2) [OF 3(1) refl _ r this] 3(2) obtain M' where
      "M' \<subseteq># mset c" "M' + mset l = M + {#cache ! i#} + mset (remove1 (cache ! i) loc)" by auto
    then show ?thesis using 3(2) by auto
  qed
qed

lemma compare_lists_all_live:
  "mset (drop i cache) \<subseteq># mset loc \<Longrightarrow>
     \<exists>l. compare_lists i cache loc = (cache, l) \<and> mset l = mset loc - mset (drop i cache)"
proof (induction i cache loc rule: compare_lists.induct)
  case (1 i cache loc)
  show ?case
  proof (cases "i < length cache")
    case True
    then have d: "drop i cache = cache ! i # drop (Suc i) cache" by (simp add: Cons_nth_drop_Suc)
    with "1.prems" have live: "cache ! i \<in> set loc"
      by (metis mset_subset_eqD list.set_intros(1) set_mset_mset)
    have "mset (drop (Suc i) cache) \<subseteq># mset (remove1 (cache ! i) loc)"
      using "1.prems" d live by (simp add: insert_subset_eq_iff)
    from "1.IH"(2) [OF True refl _ this] live show ?thesis
      using True d by (simp add: compare_lists_step)
  qed (simp add: compare_lists_step)
qed

section \<open>Properties\<close>

text \<open>C8: After a successful update every live socket has its cache entry (with at least its
  multiplicity), and the cache holds nothing but live entries and entries it held before; when the
  process library raises, the cache is left as it was.\<close>

theorem discovery_sound:
  "case scan proc pids of
     Inl e \<Rightarrow> service_update proc pids cache = (cache, Inl e)
   | Inr live \<Rightarrow> snd (service_update proc pids cache) = Inr True \<and>
       mset live \<subseteq># mset (fst (service_update proc pids cache)) \<and>
       mset (fst (service_update proc pids cache)) \<subseteq># mset cache + mset live"
proof (cases "scan proc pids")
  case (Inr live)
  obtain c l where cl: "compare_lists 0 cache live = (c, l)" by force
  from compare_lists_matched [OF cl, of "{#}"] obtain M' where "M' \<subseteq># mset c" "M' + mset l = mset live"
    by auto
  then have "mset live \<subseteq># mset c + mset l" by (metis subset_mset.add_right_mono)
  moreover have "mset c + mset l \<subseteq># mset cache + mset live"
    using compare_lists_sub [OF cl] by (simp add: subset_mset.add_mono)
  ultimately show ?thesis using Inr cl by (simp add: service_update_def update_cache_def)
qed (simp add: service_update_def)

text \<open>When no cached service has terminated the update is exact: afterwards the cache holds
  precisely the entries of the live sockets, each as often as the scan saw it.\<close>

theorem discovery_exact:
  assumes "scan proc pids = Inr live" and "mset cache \<subseteq># mset live"
  shows "mset (fst (service_update proc pids cache)) = mset live"
  using compare_lists_all_live [of 0 cache live] assms
  by (auto simp: service_update_def update_cache_def)

definition example_proc :: "nat \<Rightarrow> process res" where
  "example_proc pid = (if pid = 7 then Inr \<lparr>pname = ''sshd'', connections =
     [\<lparr>conn_family = AF_INET, conn_type = SOCK_STREAM, conn_status = ''LISTEN'',
        local_address = (''0.0.0.0'', 22)\<rparr>,
      \<lparr>conn_family = AF_INET, conn_type = SOCK_STREAM, conn_status = ''ESTABLISHED'',
        local_address = (''10.0.0.3'', 22)\<rparr>]\<rparr> else Inl (PsutilError ''no such process''))"

theorem discovery_exact_witness:
  "mset (fst (service_update example_proc [7] [])) =
     {#\<lparr>ename = ''sshd'', eip = ''0.0.0.0'', eport = 22, etype = ''tcp''\<rparr>#}"
proof -
  have "scan example_proc [7] =
      Inr [\<lparr>ename = ''sshd'', eip = ''0.0.0.0'', eport = 22, etype = ''tcp''\<rparr>]"
    by (simp add: example_proc_def conn_entry_def)
  from discovery_exact [OF this, of "[]"] show ?thesis by simp
qed

text \<open>The entry that follows a terminated one is not examined: whatever the scan found, it stays
  in the cache, so a second terminated service survives the update, and a live one is entered once
  more than the scan saw it.\<close>

theorem discovery_skips_after_removal:
  assumes "scan proc pids = Inr live" and "a \<notin> set live" and "a \<noteq> b"
  shows "b \<in> set (fst (service_update proc pids (a # b # rest))) \<and>
    (rest = [] \<longrightarrow> fst (service_update proc pids (a # b # rest)) = b # live)"
proof -
  have "compare_lists 0 (a # b # rest) live = compare_lists 1 (b # rest) live"
    using assms(2) by (subst compare_lists_gone) simp_all
  moreover obtain c l where cl: "compare_lists 1 (b # rest) live = (c, l)" by force
  from compare_lists_matched [OF this, of "{#b#}"] obtain M' where
    M: "M' \<subseteq># mset c" "M' + mset l = {#b#} + mset live" by auto
  then have "{#b#} \<subseteq># mset c + mset l"
    by (metis mset_subset_eq_add_left subset_mset.add_right_mono subset_mset.order_trans)
  then have "b \<in> set (c @ l)" by (auto dest: mset_subset_eq_insertD)
  moreover have "rest = [] \<Longrightarrow> compare_lists 1 (b # rest) live = ([b], live)"
    by (simp add: compare_lists_end)
  ultimately show ?thesis
    using assms(1) cl by (auto simp: service_update_def update_cache_def)
qed

theorem discovery_skips_after_removal_witness:
  "fst (service_update example_proc []
     [\<lparr>ename = ''a'', eip = ''0.0.0.0'', eport = 1, etype = ''tcp''\<rparr>,
      \<lparr>ename = ''b'', eip = ''0.0.0.0'', eport = 2, etype = ''tcp''\<rparr>]) =
     [\<lparr>ename = ''b'', eip = ''0.0.0.0'', eport = 2, etype = ''tcp''\<rparr>]"
  using discovery_skips_after_removal [of example_proc "[]" "[]"
      "\<lparr>ename = ''a'', eip = ''0.0.0.0'', eport = 1, etype = ''tcp''\<rparr>"
      "\<lparr>ename = ''b'', eip = ''0.0.0.0'', eport = 2, etype = ''tcp''\<rparr>" "[]"]
  by simp

end
