(* ===== verification/SignpostData.thy ===== *)
theory SignpostData
  imports Json
begin

text \<open>
  The data store of the Python signpost server, \<open>psp_python/signpost_data.py\<close>: the list of
  registered servers and the nested dictionary device -> address -> port -> process name. Every
  operation takes the store and returns the new store with its result or exception, because an
  exception can leave a part of the update behind. Log messages are not modelled, but the
  exceptions their formatting raises are.
\<close>

section \<open>State\<close>

type_synonym port_table = "(pyval \<times> pyval) list"
type_synonym address_table = "(pyval \<times> port_table) list"

record sp_data =
  servers :: "pyval list"
  service :: "(string \<times> address_table) list"

definition new_sp_data :: sp_data where
  "new_sp_data = \<lparr>servers = [], service = []\<rparr>"

section \<open>Registered servers\<close>

definition server_entry :: "pyval \<Rightarrow> pyval \<Rightarrow> pyval" where
  "server_entry ip port = PDict [(PStr ''ip'', ip), (PStr ''port'', port)]"

fun add_servers :: "pyval \<Rightarrow> pyval list \<Rightarrow> pyval list \<Rightarrow> pyval list" where
  "add_servers port [] srv = srv"
| "add_servers port (ip # ips) srv =
     add_servers port ips
       (if list_ex (py_eq (server_entry ip port)) srv then srv else srv @ [server_entry ip port])"

definition add_json_server_list ::
    "(rat \<Rightarrow> string) \<Rightarrow> pyval \<Rightarrow> sp_data \<Rightarrow> sp_data \<times> string res" where
  "add_json_server_list fr data st =
     (let done = json_dumps fr (PDict [(PStr ''result'', PInt 1)]) in
      case rbind (py_item data ''ip'') py_iter of
        Inl e \<Rightarrow> (st, Inl e)
      | Inr ips \<Rightarrow>
          if ips = [] then (st, done)
          else case py_item data ''port'' of
                 Inl e \<Rightarrow> (st, Inl e)
               | Inr port \<Rightarrow> (st\<lparr>servers := add_servers port ips (servers st)\<rparr>, done))"

definition get_json_server_list :: "(rat \<Rightarrow> string) \<Rightarrow> sp_data \<Rightarrow> string res" where
  "get_json_server_list fr st = json_dumps fr (PList (servers st))"

section \<open>Resources of the devices\<close>

definition valid_record :: "pyval \<Rightarrow> bool" where
  "valid_record rec =
     (case rec of
        PDict d \<Rightarrow> pd_has d (PStr ''ip'') \<and> pd_has d (PStr ''process_name'') \<and> pd_has d (PStr ''port'')
      | _ \<Rightarrow> False)"

definition validate_resource_list :: "pyval \<Rightarrow> bool" where
  "validate_resource_list data =
     (case data of PList recs \<Rightarrow> list_all valid_record recs | _ \<Rightarrow> False)"

text \<open>
  One iteration of the loop. The log line formats the port with \<open>%d\<close> before anything is stored;
  the device's entry is created before the address is tried as a key, so an address that is not
  hashable leaves an empty device behind.
\<close>

text \<open>The fields, in the order of the log line's arguments, and its \<open>%d\<close> conversion.\<close>

definition record_fields :: "pyval \<Rightarrow> (pyval \<times> pyval \<times> pyval) res" where
  "record_fields rec =
     rbind (py_item rec ''process_name'') (\<lambda>pn. rbind (py_item rec ''ip'') (\<lambda>ip.
       rbind (py_item rec ''port'') (\<lambda>port. rbind (fmt_d port) (\<lambda>_. Inr (pn, ip, port)))))"

definition ensure_device ::
    "(string \<times> address_table) list \<Rightarrow> string \<Rightarrow> (string \<times> address_table) list" where
  "ensure_device svc dev = (if dict_has svc dev then svc else AList.update dev [] svc)"

definition device_table :: "(string \<times> address_table) list \<Rightarrow> string \<Rightarrow> address_table" where
  "device_table svc dev = (case map_of svc dev of Some d \<Rightarrow> d | None \<Rightarrow> [])"

definition store_port ::
    "string \<Rightarrow> pyval \<Rightarrow> pyval \<Rightarrow> pyval \<Rightarrow> (string \<times> address_table) list
       \<Rightarrow> (string \<times> address_table) list" where
  "store_port dev ip port pn svc =
     (let dev_obj = device_table svc dev;
          dev1 = (if pd_has dev_obj ip then dev_obj else pd_set dev_obj ip []);
          ip_obj = (case pd_get dev1 ip of Some p \<Rightarrow> p | None \<Rightarrow> [])
      in AList.update dev (pd_set dev1 ip (pd_set ip_obj port pn)) svc)"

definition add_resource ::
    "string \<Rightarrow> pyval \<Rightarrow> (string \<times> address_table) list
       \<Rightarrow> (string \<times> address_table) list \<times> unit res" where
  "add_resource device rec svc =
     (case record_fields rec of
        Inl e \<Rightarrow> (svc, Inl e)
      | Inr (pn, ip, port) \<Rightarrow>
          let svc1 = ensure_device svc device in
          if hashable ip then (store_port device ip port pn svc1, Inr ())
          else (svc1, Inl (TypeError ''unhashable type'')))"

fun add_resources ::
    "string \<Rightarrow> pyval list \<Rightarrow> (string \<times> address_table) list
       \<Rightarrow> (string \<times> address_table) list \<times> unit res" where
  "add_resources device [] svc = (svc, Inr ())"
| "add_resources device (rec # recs) svc =
     (case add_resource device rec svc of
        (svc', Inl e) \<Rightarrow> (svc', Inl e)
      | (svc', Inr _) \<Rightarrow> add_resources device recs svc')"

definition add_json_resource_list ::
    "(rat \<Rightarrow> string) \<Rightarrow> string \<Rightarrow> string \<Rightarrow> pyval \<Rightarrow> sp_data \<Rightarrow> sp_data \<times> string res" where
  "add_json_resource_list fr domain device data st =
     (case py_iter data of
        Inl e \<Rightarrow> (st, Inl e)
      | Inr recs \<Rightarrow>
          (case add_resources device recs (service st) of
             (svc, Inl e) \<Rightarrow> (st\<lparr>service := svc\<rparr>, Inl e)
           | (svc, Inr _) \<Rightarrow>
               (st\<lparr>service := svc\<rparr>, json_dumps fr (PDict [(PStr ''status'', PInt 1)]))))"

definition service_value :: "(string \<times> address_table) list \<Rightarrow> pyval" where
  "service_value svc =
     PDict (map (\<lambda>(dev, d). (PStr dev, PDict (map (\<lambda>(ip, p). (ip, PDict p)) d))) svc)"

definition get_json_resource_list ::
    "(rat \<Rightarrow> string) \<Rightarrow> string \<Rightarrow> string \<Rightarrow> sp_data \<Rightarrow> string res" where
  "get_json_resource_list fr domain device st = json_dumps fr (service_value (service st))"

section \<open>Lemmas on the servers\<close>

lemma py_eq_server_entry [simp]:
  "py_eq (server_entry a p) (server_entry b q) \<longleftrightarrow> py_eq a b \<and> py_eq p q"
  by (simp add: server_entry_def)

text \<open>Membership as Python's \<open>in\<close> sees it.\<close>

definition registered :: "pyval \<Rightarrow> pyval list \<Rightarrow> bool" where
  "registered e srv = list_ex (py_eq e) srv"

lemma registered_append [simp]: "registered e (xs @ ys) \<longleftrightarrow> registered e xs \<or> registered e ys"
  by (simp add: registered_def)

lemma registered_Nil [simp]: "\<not> registered e []"
  by (simp add: registered_def)

lemma registered_single [simp]: "registered e [x] \<longleftrightarrow> py_eq e x"
  by (simp add: registered_def)

lemma registered_trans: "py_eq e f \<Longrightarrow> registered f srv \<Longrightarrow> registered e srv"
  unfolding registered_def list_ex_iff by (blast intro: py_eq_trans)

lemma add_servers_prefix: "\<exists>new. add_servers port ips srv = srv @ new"
proof (induction ips arbitrary: srv)
  case (Cons ip ips)
  show ?case
    using Cons.IH [of srv] Cons.IH [of "srv @ [server_entry ip port]"] by (auto simp: Let_def)
qed simp

lemma add_servers_complete:
  "ip \<in> set ips \<Longrightarrow> registered (server_entry ip port) (add_servers port ips srv)"
proof (induction ips arbitrary: srv)
  case (Cons i ips)
  show ?case
  proof (cases "ip = i")
    case True
    let ?srv = "if list_ex (py_eq (server_entry i port)) srv then srv else srv @ [server_entry i port]"
    have "registered (server_entry i port) ?srv" by (auto simp: registered_def)
    moreover obtain new where "add_servers port ips ?srv = ?srv @ new"
      using add_servers_prefix by blast
    ultimately show ?thesis using True by simp
  next
    case False
    with Cons show ?thesis by simp
  qed
qed simp

lemma add_servers_sound:
  "x \<in> set (add_servers port ips srv) \<Longrightarrow> x \<in> set srv \<or> (\<exists>ip \<in> set ips. x = server_entry ip port)"
proof (induction ips arbitrary: srv)
  case (Cons i ips)
  then show ?case by (fastforce split: if_splits)
qed simp

lemma registered_add_servers:
  "registered e (add_servers port ips srv) \<longleftrightarrow>
     registered e srv \<or> (\<exists>ip \<in> set ips. py_eq e (server_entry ip port))"
proof
  assume "registered e (add_servers port ips srv)"
  then obtain x where "x \<in> set (add_servers port ips srv)" "py_eq e x"
    by (auto simp: registered_def list_ex_iff)
  then show "registered e srv \<or> (\<exists>ip \<in> set ips. py_eq e (server_entry ip port))"
    using add_servers_sound by (fastforce simp: registered_def list_ex_iff)
next
  obtain new where "add_servers port ips srv = srv @ new" using add_servers_prefix by blast
  moreover assume "registered e srv \<or> (\<exists>ip \<in> set ips. py_eq e (server_entry ip port))"
  ultimately show "registered e (add_servers port ips srv)"
    using add_servers_complete registered_trans by fastforce
qed

text \<open>No server is registered twice: a later entry never equals an earlier one.\<close>

definition no_repeats :: "pyval list \<Rightarrow> bool" where
  "no_repeats srv = sorted_wrt (\<lambda>a b. \<not> py_eq b a) srv"

lemma no_repeats_add: "no_repeats srv \<Longrightarrow> no_repeats (add_servers port ips srv)"
proof (induction ips arbitrary: srv)
  case (Cons ip ips)
  then show ?case
    by (auto simp: no_repeats_def sorted_wrt_append list_ex_iff)
qed simp

lemma add_servers_known:
  "(\<And>ip. ip \<in> set ips \<Longrightarrow> registered (server_entry ip port) srv) \<Longrightarrow> add_servers port ips srv = srv"
  by (induction ips) (auto simp: registered_def)

lemma add_servers_idem:
  "add_servers port ips (add_servers port ips srv) = add_servers port ips srv"
  by (rule add_servers_known) (rule add_servers_complete)

section \<open>Lemmas on the resources\<close>

definition service_wf :: "(string \<times> address_table) list \<Rightarrow> bool" where
  "service_wf svc \<longleftrightarrow> distinct (map fst svc) \<and>
     (\<forall>dev d. map_of svc dev = Some d \<longrightarrow> pd_wf d \<and> (\<forall>ip p. pd_get d ip = Some p \<longrightarrow> pd_wf p))"

definition resource_at ::
    "(string \<times> address_table) list \<Rightarrow> string \<Rightarrow> pyval \<Rightarrow> pyval \<Rightarrow> pyval option" where
  "resource_at svc dev ip port =
     Option.bind (map_of svc dev) (\<lambda>d. Option.bind (pd_get d ip) (\<lambda>p. pd_get p port))"

lemma service_wf_Nil [simp]: "service_wf []"
  by (simp add: service_wf_def)

lemma service_wf_update:
  "service_wf svc \<Longrightarrow> pd_wf d \<Longrightarrow> (\<And>ip p. pd_get d ip = Some p \<Longrightarrow> pd_wf p) \<Longrightarrow>
     service_wf (AList.update dev d svc)"
  by (auto simp: service_wf_def)

lemma service_wf_device:
  "service_wf svc \<Longrightarrow> map_of svc dev = Some d \<Longrightarrow>
     pd_wf d \<and> (\<forall>ip p. pd_get d ip = Some p \<longrightarrow> pd_wf p)"
  by (auto simp: service_wf_def)

lemma ensure_device_table: "map_of (ensure_device svc dev) dev = Some (device_table svc dev)"
  by (auto simp: ensure_device_def device_table_def dict_has_def)

lemma ensure_device_other [simp]:
  "dev' \<noteq> dev \<Longrightarrow> map_of (ensure_device svc dev) dev' = map_of svc dev'"
  by (simp add: ensure_device_def)

lemma service_wf_ensure: "service_wf svc \<Longrightarrow> service_wf (ensure_device svc dev)"
  by (auto simp: ensure_device_def intro!: service_wf_update)

lemma device_table_wf:
  "service_wf svc \<Longrightarrow>
     pd_wf (device_table svc dev) \<and> (\<forall>ip p. pd_get (device_table svc dev) ip = Some p \<longrightarrow> pd_wf p)"
  by (auto simp: device_table_def split: option.split dest: service_wf_device)

lemma record_fields_port: "record_fields rec = Inr (pn, ip, port) \<Longrightarrow> hashable port"
  by (auto simp: record_fields_def res_simps intro: num_hashable)

lemma device_table_ensure [simp]: "device_table (ensure_device svc dev) dev = device_table svc dev"
  by (simp add: device_table_def ensure_device_def dict_has_def split: option.split)

lemma resource_at_update:
  "resource_at (AList.update dev d svc) dev' ip port =
     (if dev = dev' then Option.bind (pd_get d ip) (\<lambda>p. pd_get p port)
      else resource_at svc dev' ip port)"
  by (simp add: resource_at_def)

lemma resource_at_table:
  "resource_at svc dev ip port =
     Option.bind (pd_get (device_table svc dev) ip) (\<lambda>p. pd_get p port)"
  by (simp add: resource_at_def device_table_def split: option.split)

lemma resource_at_ensure [simp]:
  "resource_at (ensure_device svc dev) dev' ip port = resource_at svc dev' ip port"
  by (cases "dev' = dev") (simp_all add: resource_at_table, simp add: device_table_def)

lemma store_port_wf:
  assumes wf: "service_wf svc" and h: "hashable ip" "hashable port"
  shows "service_wf (store_port dev ip port pn svc)"
proof -
  note dt = device_table_wf [OF wf, of dev]
  show ?thesis
    unfolding store_port_def Let_def
    by (rule service_wf_update [OF wf])
      (use dt h in \<open>auto simp: pd_has_def split: if_splits option.splits\<close>)
qed

lemma resource_at_store_port:
  assumes wf: "service_wf svc" and h: "hashable ip" "hashable port"
  shows "resource_at (store_port dev ip port pn svc) dev' ip' port' =
     (if dev = dev' \<and> py_eq ip ip' \<and> py_eq port port' then Some pn
      else resource_at svc dev' ip' port')"
proof -
  define d where "d = device_table svc dev"
  have d: "pd_wf d" "\<And>ip p. pd_get d ip = Some p \<Longrightarrow> pd_wf p"
    using device_table_wf [OF wf, of dev] by (auto simp: d_def)
  have old: "dev = dev' \<Longrightarrow>
      resource_at svc dev' ip' port' = Option.bind (pd_get d ip') (\<lambda>p. pd_get p port')"
    by (simp add: resource_at_table d_def)
  have key: "py_eq ip ip' \<Longrightarrow> pd_get d ip' = pd_get d ip"
    using pd_get_eq_key [OF h(1)] by metis
  show ?thesis
    unfolding store_port_def d_def [symmetric] Let_def resource_at_update
    using d h key by (cases "pd_get d ip") (auto simp: old pd_has_def)
qed

lemma add_resource_wf:
  "service_wf svc \<Longrightarrow> service_wf (fst (add_resource dev rec svc))"
  by (auto simp: add_resource_def Let_def service_wf_ensure store_port_wf record_fields_port
      split: sum.split)

lemma add_resources_wf:
  "service_wf svc \<Longrightarrow> service_wf (fst (add_resources dev recs svc))"
proof (induction recs arbitrary: svc)
  case (Cons rec recs)
  then show ?case
    using add_resource_wf [OF Cons.prems, of dev rec]
    by (auto split: prod.split sum.split)
qed simp

text \<open>A record that stores without an exception: all three fields, a number for a port, a hashable address.\<close>

definition good_record :: "pyval \<Rightarrow> bool" where
  "good_record rec = (case record_fields rec of Inr (pn, ip, port) \<Rightarrow> hashable ip | Inl _ \<Rightarrow> False)"

text \<open>What a list of records says about one address and port: its last word.\<close>

definition record_says :: "pyval \<Rightarrow> pyval \<Rightarrow> pyval \<Rightarrow> pyval option" where
  "record_says rec ip port =
     (case record_fields rec of
        Inr (pn, ip', port') \<Rightarrow> if py_eq ip' ip \<and> py_eq port' port then Some pn else None
      | Inl _ \<Rightarrow> None)"

fun last_word :: "pyval list \<Rightarrow> pyval \<Rightarrow> pyval \<Rightarrow> pyval option \<Rightarrow> pyval option" where
  "last_word [] ip port old = old"
| "last_word (rec # recs) ip port old =
     last_word recs ip port
       (case record_says rec ip port of Some pn \<Rightarrow> Some pn | None \<Rightarrow> old)"

lemma add_resource_good:
  assumes "service_wf svc" "good_record rec"
  shows "snd (add_resource dev rec svc) = Inr () \<and>
    resource_at (fst (add_resource dev rec svc)) dev' ip port =
      (if dev = dev' then (case record_says rec ip port of
         Some pn \<Rightarrow> Some pn | None \<Rightarrow> resource_at svc dev' ip port)
       else resource_at svc dev' ip port)"
proof -
  obtain pn ip1 port1 where f: "record_fields rec = Inr (pn, ip1, port1)" and h: "hashable ip1"
    using assms(2) by (auto simp: good_record_def split: sum.splits)
  have p: "hashable port1" by (rule record_fields_port [OF f])
  show ?thesis
    using resource_at_store_port [OF service_wf_ensure [OF assms(1)] h p, of dev pn dev dev' ip port]
    by (auto simp: add_resource_def f h Let_def record_says_def)
qed

lemma add_resources_good:
  "service_wf svc \<Longrightarrow> list_all good_record recs \<Longrightarrow>
     snd (add_resources dev recs svc) = Inr () \<and>
     resource_at (fst (add_resources dev recs svc)) dev' ip port =
       (if dev = dev' then last_word recs ip port (resource_at svc dev' ip port)
        else resource_at svc dev' ip port)"
proof (induction recs arbitrary: svc)
  case (Cons rec recs)
  from Cons.prems have good: "good_record rec" and rest: "list_all good_record recs" by auto
  obtain svc' where s: "add_resource dev rec svc = (svc', Inr ())"
    using add_resource_good [OF Cons.prems(1) good] by (metis prod.collapse)
  have wf: "service_wf svc'" using add_resource_wf [OF Cons.prems(1), of dev rec] s by simp
  have r: "resource_at svc' dev' ip port =
      (if dev = dev' then (case record_says rec ip port of
         Some pn \<Rightarrow> Some pn | None \<Rightarrow> resource_at svc dev' ip port)
       else resource_at svc dev' ip port)"
    using add_resource_good [OF Cons.prems(1) good, of dev dev' ip port] s by simp
  show ?case using Cons.IH [OF wf rest] r s by simp
qed simp

lemma valid_record_fields: "valid_record rec \<Longrightarrow> record_fields rec = Inl e \<Longrightarrow>
   \<exists>m. e = TypeError m"
  by (cases rec) (auto simp: valid_record_def record_fields_def res_simps pd_has_def fmt_d_def
      split: if_splits)

text \<open>The store as a whole.\<close>

definition sp_inv :: "sp_data \<Rightarrow> bool" where
  "sp_inv st \<longleftrightarrow> no_repeats (servers st) \<and> service_wf (service st)"

lemma sp_inv_new [simp]: "sp_inv new_sp_data"
  by (simp add: sp_inv_def new_sp_data_def no_repeats_def)

lemma add_json_server_list_inv:
  "sp_inv st \<Longrightarrow> sp_inv (fst (add_json_server_list fr data st))"
  by (auto simp: sp_inv_def add_json_server_list_def Let_def no_repeats_add split: sum.split)

lemma add_json_resource_list_inv:
  assumes "sp_inv st"
  shows "sp_inv (fst (add_json_resource_list fr dm dev data st))"
proof (cases "py_iter data")
  case (Inr recs)
  obtain svc r where sr: "add_resources dev recs (service st) = (svc, r)" by force
  have "service_wf svc"
    using add_resources_wf [of "service st" dev recs] assms sr by (simp add: sp_inv_def)
  then show ?thesis
    using assms Inr sr by (cases r) (simp_all add: sp_inv_def add_json_resource_list_def)
qed (use assms in \<open>simp add: add_json_resource_list_def\<close>)

end
