(* ===== verification/SignpostServer.thy ===== *)
theory SignpostServer
  imports SignpostData
begin

text \<open>
  The request handler of the Python signpost server, \<open>psp_python/signpost_server.py\<close>, over the
  store of \<open>SignpostData\<close>. A request is the part of its URL path below the resource and the
  values of its \<open>content\<close> argument; a page is what the handler returns to the web framework.
\<close>

record request =
  postpath :: "string list"
  content :: "string list option"

datatype page =
    ErrorPage nat string
  | JsonPage string
  | HelloPage "string list" nat
  | NoPage

definition NOT_FOUND :: nat where
  "NOT_FOUND = 404"

text \<open>The data section: the first \<open>content\<close> argument read as JSON, or an empty dictionary.\<close>

definition request_data :: "request \<Rightarrow> pyval res" where
  "request_data req =
     (case content req of
        Some (c # _) \<Rightarrow> json_loads c
      | _ \<Rightarrow> Inr (PDict []))"

text \<open>\<open>str(data)\<close> for the log: a text with a character beyond ASCII cannot be encoded.\<close>

definition py_str_log :: "pyval \<Rightarrow> unit res" where
  "py_str_log v =
     (case v of
        PStr s \<Rightarrow> if list_all (\<lambda>c. of_char c < (128 :: nat)) s then Inr ()
                  else Inl (ValueError ''ascii codec cannot encode'')
      | _ \<Rightarrow> Inr ())"

definition handle_register ::
    "(rat \<Rightarrow> string) \<Rightarrow> pyval \<Rightarrow> sp_data \<Rightarrow> sp_data \<times> page res" where
  "handle_register fr data st =
     (case py_str_log data of
        Inl e \<Rightarrow> (st, Inl e)
      | Inr _ \<Rightarrow>
          if is_dict data \<and> py_in ''port'' data = Inr True \<and> py_in ''ip'' data = Inr True then
            (case add_json_server_list fr data st of
               (st', r) \<Rightarrow> (st', rbind r (\<lambda>t. Inr (JsonPage t))))
          else (st, Inr (ErrorPage NOT_FOUND ''Cannot parse data section'')))"

text \<open>
  The resource branch. After a successful update the handler formats a log line with two
  conversions and one argument, which raises; the reply line below it is never reached.
\<close>

definition log_add_resource :: "pyval \<Rightarrow> unit res" where
  "log_add_resource data = Inl (TypeError ''not enough arguments for format string'')"

definition handle_resources ::
    "(rat \<Rightarrow> string) \<Rightarrow> string list \<Rightarrow> pyval \<Rightarrow> sp_data \<Rightarrow> sp_data \<times> page res" where
  "handle_resources fr path data st =
     (if 4 \<le> length path then
        (case py_len data of
           Inl e \<Rightarrow> (st, Inl e)
         | Inr n \<Rightarrow>
             if 0 < n \<and> validate_resource_list data then
               (case add_json_resource_list fr (path ! 2) (path ! 3) data st of
                  (st', Inl e) \<Rightarrow> (st', Inl e)
                | (st', Inr _) \<Rightarrow>
                    (st', rbind (log_add_resource data) (\<lambda>_.
                            rbind (get_json_resource_list fr (path ! 2) (path ! 3) st')
                              (\<lambda>t. Inr (JsonPage t)))))
             else (st, Inr NoPage))
      else (st, Inr NoPage))"

definition process_request ::
    "(rat \<Rightarrow> string) \<Rightarrow> request \<Rightarrow> sp_data \<Rightarrow> sp_data \<times> page res" where
  "process_request fr req st =
     (case request_data req of
        Inl e \<Rightarrow> (st, Inl e)
      | Inr data \<Rightarrow>
          let path = postpath req in
          if length path < 2 \<or> str_lower (path ! 0) \<noteq> ''v1''
            then (st, Inr (ErrorPage NOT_FOUND ''Invalid url''))
          else if str_lower (path ! 1) = ''register'' then handle_register fr data st
          else if str_lower (path ! 1) = ''resources'' \<and> 3 \<le> length path
            then handle_resources fr path data st
          else (st, Inr (HelloPage path (length path))))"

definition render_GET :: "(rat \<Rightarrow> string) \<Rightarrow> request \<Rightarrow> sp_data \<Rightarrow> sp_data \<times> page res" where
  "render_GET fr req st = process_request fr req st"

definition render_POST :: "(rat \<Rightarrow> string) \<Rightarrow> request \<Rightarrow> sp_data \<Rightarrow> sp_data \<times> page res" where
  "render_POST fr req st = process_request fr req st"

section \<open>The server as a machine over requests\<close>

definition serve :: "(rat \<Rightarrow> string) \<Rightarrow> request \<Rightarrow> sp_data \<Rightarrow> sp_data" where
  "serve fr req st = fst (process_request fr req st)"

lemma process_request_inv: "sp_inv st \<Longrightarrow> sp_inv (fst (process_request fr req st))"
  using add_json_server_list_inv [of st fr] add_json_resource_list_inv [of st fr]
  by (auto simp: process_request_def handle_register_def handle_resources_def Let_def
      split: sum.split prod.split) (metis fst_conv)+

interpretation sig: machine "serve fr" sp_inv for fr
  by unfold_locales (simp add: serve_def process_request_inv)

text \<open>Which requests can change the store.\<close>

definition is_register :: "request \<Rightarrow> bool" where
  "is_register req \<longleftrightarrow> 2 \<le> length (postpath req) \<and> str_lower (postpath req ! 0) = ''v1'' \<and>
     str_lower (postpath req ! 1) = ''register''"

definition is_resource_update :: "request \<Rightarrow> bool" where
  "is_resource_update req \<longleftrightarrow> 4 \<le> length (postpath req) \<and> str_lower (postpath req ! 0) = ''v1'' \<and>
     str_lower (postpath req ! 1) = ''resources''"

lemma fst_rbind_pair [simp]:
  "fst (case p of (s, r) \<Rightarrow> (s, f r)) = fst p"
  by (simp add: case_prod_unfold)

lemma serve_register:
  assumes "is_register req"
  shows "serve fr req st = st \<or>
    (\<exists>data ips port. request_data req = Inr data \<and> rbind (py_item data ''ip'') py_iter = Inr ips \<and>
       py_item data ''port'' = Inr port \<and> serve fr req st = st\<lparr>servers := add_servers port ips (servers st)\<rparr>)"
  using assms
  by (auto simp: serve_def process_request_def is_register_def handle_register_def
      add_json_server_list_def Let_def split: sum.split)

section \<open>Properties\<close>

text \<open>C1: Whatever requests arrive, in any order, the store of the signpost server keeps no server
  twice and its device, address and port dictionaries stay well formed.\<close>

theorem server_store_invariant: "sp_inv (fold (serve fr) reqs new_sp_data)"
  by (rule sig.run_inv) simp

text \<open>C3: A \<open>/v1/register\<close> request whose data section is a dictionary with a port and an iterable
  of addresses answers with \<open>result: 1\<close> and registers exactly the given address and port pairs
  beside the servers that were there before.\<close>

theorem register_request_adds:
  assumes "is_register req" and "request_data req = Inr (PDict d)"
    and "pd_get d (PStr ''ip'') = Some addrs" and "py_iter addrs = Inr ips"
    and "pd_get d (PStr ''port'') = Some port"
  shows "snd (process_request fr req st) =
      rbind (json_dumps fr (PDict [(PStr ''result'', PInt 1)])) (\<lambda>t. Inr (JsonPage t)) \<and>
    service (fst (process_request fr req st)) = service st \<and>
    (\<forall>e. registered e (servers (fst (process_request fr req st))) \<longleftrightarrow>
       registered e (servers st) \<or> (\<exists>ip \<in> set ips. py_eq e (server_entry ip port)))"
proof (cases "ips = []")
  case True
  with assms show ?thesis
    by (auto simp: process_request_def is_register_def handle_register_def py_str_log_def
        add_json_server_list_def pd_has_def Let_def)
next
  case False
  then have "process_request fr req st =
      (st\<lparr>servers := add_servers port ips (servers st)\<rparr>,
       rbind (json_dumps fr (PDict [(PStr ''result'', PInt 1)])) (\<lambda>t. Inr (JsonPage t)))"
    using assms
    by (simp add: process_request_def is_register_def handle_register_def py_str_log_def
        add_json_server_list_def pd_has_def Let_def)
  then show ?thesis by (simp add: registered_add_servers)
qed

definition example_register :: request where
  "example_register = \<lparr>postpath = [''V1'', ''register''], content = Some
     [[CHR 0x7B, CHR 0x22] @ ''port'' @ [CHR 0x22] @ '': 8080, '' @ [CHR 0x22] @ ''ip'' @ [CHR 0x22]
       @ '': ['' @ [CHR 0x22] @ ''10.0.0.3'' @ [CHR 0x22, CHR '']'', CHR 0x7D]]\<rparr>"

lemma example_register_data:
  "request_data example_register =
     Inr (PDict [(PStr ''port'', PInt 8080), (PStr ''ip'', PList [PStr ''10.0.0.3''])])"
  by code_simp

theorem register_request_adds_witness:
  "registered (server_entry (PStr ''10.0.0.3'') (PInt 8080))
     (servers (fst (process_request (\<lambda>_. []) example_register new_sp_data)))"
proof -
  have "is_register example_register" by code_simp
  note r = register_request_adds [OF this example_register_data, of "PList [PStr ''10.0.0.3'']"
      "[PStr ''10.0.0.3'']" "PInt 8080" "\<lambda>_. []" new_sp_data]
  show ?thesis using r by simp
qed

text \<open>Registering is idempotent: repeating a \<open>/v1/register\<close> request leaves the store as the
  first one left it, whatever the request's data section holds.\<close>

theorem register_request_idempotent:
  assumes "is_register req"
  shows "serve fr req (serve fr req st) = serve fr req st"
proof -
  consider "serve fr req st = st"
    | (add) data ips port where "request_data req = Inr data"
        "rbind (py_item data ''ip'') py_iter = Inr ips" "py_item data ''port'' = Inr port"
        "serve fr req st = st\<lparr>servers := add_servers port ips (servers st)\<rparr>"
    using serve_register [OF assms, of fr st] by blast
  then show ?thesis
  proof cases
    case add
    from serve_register [OF assms, of fr "serve fr req st"] add(1-3)
    consider "serve fr req (serve fr req st) = serve fr req st"
      | "serve fr req (serve fr req st) =
           (serve fr req st)\<lparr>servers := add_servers port ips (servers (serve fr req st))\<rparr>"
      by auto
    then show ?thesis by cases (simp_all add: add(4) add_servers_idem)
  qed simp
qed

theorem register_request_idempotent_witness:
  "serve (\<lambda>_. []) example_register (serve (\<lambda>_. []) example_register new_sp_data) =
     serve (\<lambda>_. []) example_register new_sp_data"
proof -
  have "is_register example_register" by code_simp
  then show ?thesis by (rule register_request_idempotent)
qed

text \<open>A request that is neither a \<open>/v1/register\<close> request nor a \<open>/v1/resources\<close> request with a
  domain and a device changes nothing, and with fewer than two path components or another version
  it is answered by the 404 page, provided its data section can be read.\<close>

theorem other_requests_are_harmless:
  assumes "\<not> is_register req" and "\<not> is_resource_update req"
  shows "fst (process_request fr req st) = st \<and>
    (\<forall>data. request_data req = Inr data \<and>
       (length (postpath req) < 2 \<or> str_lower (postpath req ! 0) \<noteq> ''v1'') \<longrightarrow>
       snd (process_request fr req st) = Inr (ErrorPage 404 ''Invalid url''))"
  using assms
  by (auto simp: process_request_def is_register_def is_resource_update_def handle_resources_def
      NOT_FOUND_def Let_def split: sum.split)

theorem other_requests_are_harmless_witness:
  "process_request (\<lambda>_. []) \<lparr>postpath = [''v2'', ''x''], content = None\<rparr> new_sp_data =
     (new_sp_data, Inr (ErrorPage 404 ''Invalid url''))"
proof -
  let ?r = "\<lparr>postpath = [''v2'', ''x''], content = None\<rparr>"
  have "\<not> is_register ?r" "\<not> is_resource_update ?r"
    by (simp_all add: is_register_def is_resource_update_def str_lower_def lower_char_def)
  from other_requests_are_harmless [OF this, of "\<lambda>_. []" new_sp_data] show ?thesis
    by (intro prod_eqI) (simp_all add: request_data_def str_lower_def lower_char_def)
qed

text \<open>C2: A \<open>/v1/resources/<domain>/<device>\<close> request with a non-empty list of complete records
  stores, for its device, the last process name the list gives for each address and port, and
  leaves the other devices alone; but its log line raises, so the client never gets a reply.\<close>

theorem resource_update_stores_then_raises:
  assumes "sp_inv st" and "is_resource_update req"
    and "request_data req = Inr (PList recs)" and "recs \<noteq> []"
    and "list_all valid_record recs" and "list_all good_record recs"
  shows "snd (process_request fr req st) = Inl (TypeError ''not enough arguments for format string'') \<and>
    servers (fst (process_request fr req st)) = servers st \<and>
    resource_at (service (fst (process_request fr req st))) dev ip port =
      (if dev = postpath req ! 3 then last_word recs ip port (resource_at (service st) dev ip port)
       else resource_at (service st) dev ip port)"
proof -
  let ?dev = "postpath req ! 3"
  have wf: "service_wf (service st)" using assms(1) by (simp add: sp_inv_def)
  obtain svc where svc: "add_resources ?dev recs (service st) = (svc, Inr ())"
    using add_resources_good [OF wf assms(6)] by (metis prod.collapse)
  have look: "resource_at svc dev ip port =
      (if ?dev = dev then last_word recs ip port (resource_at (service st) dev ip port)
       else resource_at (service st) dev ip port)"
    using add_resources_good [OF wf assms(6), of ?dev dev ip port] svc by simp
  have "process_request fr req st =
      (st\<lparr>service := svc\<rparr>, Inl (TypeError ''not enough arguments for format string''))"
    using assms svc
    by (simp add: process_request_def is_resource_update_def handle_resources_def Let_def
        validate_resource_list_def add_json_resource_list_def log_add_resource_def)
  then show ?thesis using look by auto
qed

definition example_record :: pyval where
  "example_record = PDict [(PStr ''ip'', PStr ''10.0.0.3''), (PStr ''port'', PInt 22),
     (PStr ''process_name'', PStr ''sshd'')]"

theorem resource_update_stores_then_raises_witness:
  "\<exists>req. resource_at (service (fst (process_request (\<lambda>_. ''0.5'') req new_sp_data)))
     ''laptop'' (PStr ''10.0.0.3'') (PInt 22) = Some (PStr ''sshd'')"
proof -
  have "json_wf (PList [example_record])" by (simp add: example_record_def)
  from json_roundtrip [OF this, of "\<lambda>_. ''0.5''"]
  obtain t where t: "json_loads t = Inr (PList [example_record])" by blast
  let ?r = "\<lparr>postpath = [''v1'', ''resources'', ''haris'', ''laptop''], content = Some [t]\<rparr>"
  have "is_resource_update ?r"
    by (simp add: is_resource_update_def str_lower_def lower_char_def)
  moreover have "request_data ?r = Inr (PList [example_record])" by (simp add: request_data_def t)
  moreover have "list_all valid_record [example_record]" "list_all good_record [example_record]"
    by (simp_all add: example_record_def valid_record_def good_record_def record_fields_def pd_has_def)
  ultimately show ?thesis
    using resource_update_stores_then_raises [of new_sp_data ?r "[example_record]" "\<lambda>_. ''0.5''"
        "''laptop''" "PStr ''10.0.0.3''" "PInt 22"]
    by (intro exI [of _ ?r])
      (simp add: example_record_def record_says_def record_fields_def)
qed

text \<open>Validation rules out every failure but a type error: once \<open>validate_resource_list\<close> has
  accepted the data, storing the records either succeeds or raises \<open>TypeError\<close> (a port that is not
  a number, an address that cannot be a key), never \<open>KeyError\<close>.\<close>

theorem validated_records_only_type_errors:
  assumes "validate_resource_list data"
    and "snd (add_json_resource_list fr dm dev data st) = Inl e"
  shows "\<exists>m. e = TypeError m"
proof -
  obtain recs where recs: "data = PList recs" "list_all valid_record recs"
    using assms(1) by (auto simp: validate_resource_list_def split: pyval.splits)
  have "\<exists>m. e = TypeError m" if "snd (add_resources dev recs svc) = Inl e" for svc
    using recs(2) that
  proof (induction recs arbitrary: svc)
    case (Cons rec recs)
    then show ?case
      using valid_record_fields [of rec]
      by (auto simp: add_resource_def Let_def split: prod.splits sum.splits if_splits)
  qed simp
  then show ?thesis
    using assms(2) recs(1)
    by (auto simp: add_json_resource_list_def split: prod.splits sum.splits) (metis snd_conv)
qed

definition text_port_update :: pyval where
  "text_port_update = PList [PDict [(PStr ''ip'', PStr ''a''), (PStr ''port'', PStr ''80''),
     (PStr ''process_name'', PStr ''x'')]]"

theorem validated_records_only_type_errors_witness:
  "\<exists>e m. snd (add_json_resource_list (\<lambda>_. []) [] ''d'' text_port_update new_sp_data) = Inl e \<and>
     e = TypeError m"
proof -
  have "validate_resource_list text_port_update"
    by (simp add: text_port_update_def validate_resource_list_def valid_record_def pd_has_def)
  moreover have "snd (add_json_resource_list (\<lambda>_. []) [] ''d'' text_port_update new_sp_data) =
      Inl (TypeError ''%d format: a number is required'')"
    by (simp add: text_port_update_def add_json_resource_list_def add_resource_def record_fields_def
        fmt_d_def)
  ultimately show ?thesis using validated_records_only_type_errors by blast
qed

end
