(* ===== verification/TwitterModel.thy ===== *)
theory TwitterModel
  imports Complex_Main PyValue Json
begin

text \<open>
  The data model of \<open>socialnet/twitter.py\<close>: statuses, users, lists, direct messages, hashtags,
  trends and URLs, built from the JSON of the Twitter API, compared, and written back as
  dictionaries. Attributes hold dynamic values; the attributes that hold other model objects are
  the arguments of the datatypes. The attribute properties are the record selectors and updates.
\<close>

section \<open>Objects\<close>

record status_data =
  s_created_at :: pyval
  s_favorited :: pyval
  s_id :: pyval
  s_text :: pyval
  s_location :: pyval
  s_now :: pyval
  s_in_reply_to_screen_name :: pyval
  s_in_reply_to_user_id :: pyval
  s_in_reply_to_status_id :: pyval
  s_truncated :: pyval
  s_retweeted :: pyval
  s_source :: pyval
  s_geo :: pyval
  s_place :: pyval
  s_coordinates :: pyval
  s_contributors :: pyval
  s_retweet_count :: pyval

record user_data =
  u_id :: pyval
  u_name :: pyval
  u_screen_name :: pyval
  u_location :: pyval
  u_description :: pyval
  u_profile_image_url :: pyval
  u_profile_background_tile :: pyval
  u_profile_background_image_url :: pyval
  u_profile_sidebar_fill_color :: pyval
  u_profile_background_color :: pyval
  u_profile_link_color :: pyval
  u_profile_text_color :: pyval
  u_protected :: pyval
  u_utc_offset :: pyval
  u_time_zone :: pyval
  u_followers_count :: pyval
  u_friends_count :: pyval
  u_statuses_count :: pyval
  u_favourites_count :: pyval
  u_url :: pyval
  u_geo_enabled :: pyval
  u_verified :: pyval
  u_lang :: pyval
  u_notifications :: pyval
  u_contributors_enabled :: pyval
  u_created_at :: pyval
  u_listed_count :: pyval

record url_entity =
  e_url :: pyval
  e_expanded_url :: pyval

record hashtag =
  h_text :: pyval

text \<open>The arguments of \<open>Status\<close> are its data, user, urls, user mentions, hashtags and retweeted
  status; those of \<open>User\<close> are its data and latest status.\<close>

datatype status =
    Status status_data "user option" "url_entity list option" "user list option"
      "hashtag list option" "status option"
  and user = User user_data "status option"

record list_data =
  l_id :: pyval
  l_name :: pyval
  l_slug :: pyval
  l_description :: pyval
  l_full_name :: pyval
  l_mode :: pyval
  l_uri :: pyval
  l_member_count :: pyval
  l_subscriber_count :: pyval
  l_following :: pyval

datatype tlist = TList list_data "user option"

record direct_message =
  d_id :: pyval
  d_created_at :: pyval
  d_sender_id :: pyval
  d_sender_screen_name :: pyval
  d_recipient_id :: pyval
  d_recipient_screen_name :: pyval
  d_text :: pyval

record trend =
  t_name :: pyval
  t_query :: pyval
  t_timestamp :: pyval

section \<open>Construction from JSON\<close>

text \<open>\<open>data.get(k, None)\<close> on the dictionary of an object; other values have no such method.\<close>

definition getter :: "pyval \<Rightarrow> (string \<Rightarrow> pyval) res" where
  "getter data =
     (case data of
        PDict d \<Rightarrow> Inr (\<lambda>k. case pd_get d (PStr k) of None \<Rightarrow> PNone | Some v \<Rightarrow> v)
      | _ \<Rightarrow> Inl (AttributeError ''get''))"

definition url_new :: "pyval \<Rightarrow> url_entity res" where
  "url_new data = rbind (getter data) (\<lambda>g.
     Inr \<lparr>e_url = g ''url'', e_expanded_url = g ''expanded_url''\<rparr>)"

definition hashtag_new :: "pyval \<Rightarrow> hashtag res" where
  "hashtag_new data = rbind (getter data) (\<lambda>g. Inr \<lparr>h_text = g ''text''\<rparr>)"

definition trend_new :: "pyval \<Rightarrow> pyval \<Rightarrow> trend res" where
  "trend_new data timestamp = rbind (getter data) (\<lambda>g.
     Inr \<lparr>t_name = g ''name'', t_query = g ''query'', t_timestamp = timestamp\<rparr>)"

definition status_fields :: "(string \<Rightarrow> pyval) \<Rightarrow> status_data" where
  "status_fields g = \<lparr>s_created_at = g ''created_at'', s_favorited = g ''favorited'', s_id = g ''id'',
     s_text = g ''text'', s_location = g ''location'', s_now = PNone,
     s_in_reply_to_screen_name = g ''in_reply_to_screen_name'',
     s_in_reply_to_user_id = g ''in_reply_to_user_id'',
     s_in_reply_to_status_id = g ''in_reply_to_status_id'', s_truncated = g ''truncated'',
     s_retweeted = g ''retweeted'', s_source = g ''source'', s_geo = g ''geo'',
     s_place = g ''place'', s_coordinates = g ''coordinates'',
     s_contributors = g ''contributors'', s_retweet_count = g ''retweet_count''\<rparr>"

definition user_fields :: "(string \<Rightarrow> pyval) \<Rightarrow> user_data" where
  "user_fields g = \<lparr>u_id = g ''id'', u_name = g ''name'', u_screen_name = g ''screen_name'',
     u_location = g ''location'', u_description = g ''description'',
     u_profile_image_url = g ''profile_image_url'',
     u_profile_background_tile = g ''profile_background_tile'',
     u_profile_background_image_url = g ''profile_background_image_url'',
     u_profile_sidebar_fill_color = g ''profile_sidebar_fill_color'',
     u_profile_background_color = g ''profile_background_color'',
     u_profile_link_color = g ''profile_link_color'',
     u_profile_text_color = g ''profile_text_color'', u_protected = g ''protected'',
     u_utc_offset = g ''utc_offset'', u_time_zone = g ''time_zone'',
     u_followers_count = g ''followers_count'', u_friends_count = g ''friends_count'',
     u_statuses_count = g ''statuses_count'', u_favourites_count = g ''favourites_count'',
     u_url = g ''url'', u_geo_enabled = g ''geo_enabled'', u_verified = g ''verified'',
     u_lang = g ''lang'', u_notifications = g ''notifications'',
     u_contributors_enabled = g ''contributors_enabled'', u_created_at = g ''created_at'',
     u_listed_count = g ''listed_count''\<rparr>"

text \<open>An optional part: present when the key is in the data.\<close>

definition part :: "pyval \<Rightarrow> string \<Rightarrow> (pyval \<Rightarrow> 'a res) \<Rightarrow> 'a option res" where
  "part data k f =
     rbind (py_in k data) (\<lambda>b.
       if b then rbind (py_item data k) (\<lambda>v. rbind (f v) (\<lambda>x. Inr (Some x))) else Inr None)"

lemma part_cong [fundef_cong]:
  "data = data' \<Longrightarrow> k = k' \<Longrightarrow> (\<And>v. py_item data' k' = Inr v \<Longrightarrow> f v = g v) \<Longrightarrow>
     part data k f = part data' k' g"
  unfolding part_def by (intro rbind_cong refl) (auto intro: rbind_cong)

definition part_list :: "pyval \<Rightarrow> string \<Rightarrow> (pyval \<Rightarrow> 'a res) \<Rightarrow> 'a list option res" where
  "part_list data k f = part data k (\<lambda>v. rbind (py_iter v) (rmap f))"

lemma part_list_cong [fundef_cong]:
  "data = data' \<Longrightarrow> k = k' \<Longrightarrow>
     (\<And>v xs x. py_item data' k' = Inr v \<Longrightarrow> py_iter v = Inr xs \<Longrightarrow> x \<in> set xs \<Longrightarrow> f x = g x) \<Longrightarrow>
     part_list data k f = part_list data' k' g"
  unfolding part_list_def by (intro part_cong rbind_cong rmap_cong) auto

text \<open>The entities: urls, mentioned users and hashtags.\<close>

definition entities :: "pyval \<Rightarrow> (pyval \<Rightarrow> 'u res) \<Rightarrow>
    (url_entity list option \<times> 'u list option \<times> hashtag list option) res" where
  "entities data f =
     rbind (part data ''entities'' (\<lambda>e.
       rbind (part_list e ''urls'' url_new) (\<lambda>us.
       rbind (part_list e ''user_mentions'' f) (\<lambda>ms.
       rbind (part_list e ''hashtags'' hashtag_new) (\<lambda>hs. Inr (us, ms, hs))))))
     (\<lambda>r. Inr (case r of None \<Rightarrow> (None, None, None) | Some t \<Rightarrow> t))"

lemma entities_cong [fundef_cong]:
  "data = data' \<Longrightarrow>
     (\<And>e v xs x. py_item data' ''entities'' = Inr e \<Longrightarrow> py_item e ''user_mentions'' = Inr v \<Longrightarrow>
        py_iter v = Inr xs \<Longrightarrow> x \<in> set xs \<Longrightarrow> f x = g x) \<Longrightarrow>
     entities data f = entities data' g"
  unfolding entities_def by (intro rbind_cong part_cong part_list_cong refl) auto

lemma size_mention:
  "py_item data k = Inr e \<Longrightarrow> py_item e k' = Inr v \<Longrightarrow> py_iter v = Inr xs \<Longrightarrow> x \<in> set xs \<Longrightarrow>
     size x < size data"
  using size_py_item [of data k e] size_py_item [of e k' v] size_py_iter [of v xs x] by simp

function status_new :: "pyval \<Rightarrow> status res" and user_new :: "pyval \<Rightarrow> user res" where
  "status_new data =
     rbind (part data ''user'' user_new) (\<lambda>us.
     rbind (part data ''retweeted_status'' status_new) (\<lambda>rt.
     rbind (entities data user_new) (\<lambda>(urls, mentions, tags).
     rbind (getter data) (\<lambda>g. Inr (Status (status_fields g) us urls mentions tags rt)))))"
| "user_new data =
     rbind (part data ''status'' status_new) (\<lambda>st.
     rbind (getter data) (\<lambda>g. Inr (User (user_fields g) st)))"
  by pat_completeness auto
termination
  by (relation "measure (case_sum size size)", simp_all add: size_py_item)
    (blast intro: size_mention)

declare status_new.simps [simp del] user_new.simps [simp del]

definition list_new :: "pyval \<Rightarrow> tlist res" where
  "list_new data =
     rbind (part data ''user'' user_new) (\<lambda>us.
     rbind (getter data) (\<lambda>g. Inr (TList \<lparr>l_id = g ''id'', l_name = g ''name'', l_slug = g ''slug'',
        l_description = g ''description'', l_full_name = g ''full_name'', l_mode = g ''mode'',
        l_uri = g ''uri'', l_member_count = g ''member_count'',
        l_subscriber_count = g ''subscriber_count'', l_following = g ''following''\<rparr> us)))"

definition direct_message_new :: "pyval \<Rightarrow> direct_message res" where
  "direct_message_new data = rbind (getter data) (\<lambda>g.
     Inr \<lparr>d_id = g ''id'', d_created_at = g ''created_at'', d_sender_id = g ''sender_id'',
        d_sender_screen_name = g ''sender_screen_name'', d_recipient_id = g ''recipient_id'',
        d_recipient_screen_name = g ''recipient_screen_name'', d_text = g ''text''\<rparr>)"

section \<open>Equality\<close>

fun opt_eq :: "('a \<Rightarrow> 'a \<Rightarrow> bool) \<Rightarrow> 'a option \<Rightarrow> 'a option \<Rightarrow> bool" where
  "opt_eq f None None = True"
| "opt_eq f (Some a) (Some b) = f a b"
| "opt_eq f _ _ = False"

lemma opt_eq_cong [fundef_cong]:
  "x = x' \<Longrightarrow> y = y' \<Longrightarrow> (\<And>a b. x' = Some a \<Longrightarrow> y' = Some b \<Longrightarrow> f a b = g a b) \<Longrightarrow>
     opt_eq f x y = opt_eq g x' y'"
  by (cases x'; cases y') simp_all

definition status_data_eq :: "status_data \<Rightarrow> status_data \<Rightarrow> bool" where
  "status_data_eq a b \<longleftrightarrow>
     py_eq (s_created_at a) (s_created_at b) \<and> py_eq (s_favorited a) (s_favorited b) \<and>
     py_eq (s_id a) (s_id b) \<and> py_eq (s_text a) (s_text b) \<and>
     py_eq (s_location a) (s_location b) \<and>
     py_eq (s_in_reply_to_screen_name a) (s_in_reply_to_screen_name b) \<and>
     py_eq (s_in_reply_to_user_id a) (s_in_reply_to_user_id b) \<and>
     py_eq (s_in_reply_to_status_id a) (s_in_reply_to_status_id b) \<and>
     py_eq (s_truncated a) (s_truncated b) \<and> py_eq (s_retweeted a) (s_retweeted b) \<and>
     py_eq (s_source a) (s_source b) \<and> py_eq (s_geo a) (s_geo b) \<and>
     py_eq (s_place a) (s_place b) \<and> py_eq (s_coordinates a) (s_coordinates b) \<and>
     py_eq (s_contributors a) (s_contributors b) \<and>
     py_eq (s_retweet_count a) (s_retweet_count b)"

definition user_data_eq :: "user_data \<Rightarrow> user_data \<Rightarrow> bool" where
  "user_data_eq a b \<longleftrightarrow>
     py_eq (u_id a) (u_id b) \<and> py_eq (u_name a) (u_name b) \<and>
     py_eq (u_screen_name a) (u_screen_name b) \<and> py_eq (u_location a) (u_location b) \<and>
     py_eq (u_description a) (u_description b) \<and>
     py_eq (u_profile_image_url a) (u_profile_image_url b) \<and>
     py_eq (u_profile_background_tile a) (u_profile_background_tile b) \<and>
     py_eq (u_profile_background_image_url a) (u_profile_background_image_url b) \<and>
     py_eq (u_profile_sidebar_fill_color a) (u_profile_sidebar_fill_color b) \<and>
     py_eq (u_profile_background_color a) (u_profile_background_color b) \<and>
     py_eq (u_profile_link_color a) (u_profile_link_color b) \<and>
     py_eq (u_profile_text_color a) (u_profile_text_color b) \<and>
     py_eq (u_protected a) (u_protected b) \<and> py_eq (u_utc_offset a) (u_utc_offset b) \<and>
     py_eq (u_time_zone a) (u_time_zone b) \<and>
     py_eq (u_followers_count a) (u_followers_count b) \<and>
     py_eq (u_friends_count a) (u_friends_count b) \<and>
     py_eq (u_statuses_count a) (u_statuses_count b) \<and>
     py_eq (u_favourites_count a) (u_favourites_count b) \<and> py_eq (u_url a) (u_url b) \<and>
     py_eq (u_geo_enabled a) (u_geo_enabled b) \<and> py_eq (u_verified a) (u_verified b) \<and>
     py_eq (u_lang a) (u_lang b) \<and> py_eq (u_notifications a) (u_notifications b) \<and>
     py_eq (u_contributors_enabled a) (u_contributors_enabled b) \<and>
     py_eq (u_created_at a) (u_created_at b) \<and> py_eq (u_listed_count a) (u_listed_count b)"

text \<open>\<open>__eq__\<close> compares the user and the retweeted status, but not the entities nor \<open>now\<close>.\<close>

fun status_eq :: "status \<Rightarrow> status \<Rightarrow> bool" and user_eq :: "user \<Rightarrow> user \<Rightarrow> bool" where
  "status_eq (Status a ua _ _ _ ra) (Status b ub _ _ _ rb) \<longleftrightarrow>
     status_data_eq a b \<and> opt_eq user_eq ua ub \<and> opt_eq status_eq ra rb"
| "user_eq (User a sa) (User b sb) \<longleftrightarrow> user_data_eq a b \<and> opt_eq status_eq sa sb"

definition list_eq :: "tlist \<Rightarrow> tlist \<Rightarrow> bool" where
  "list_eq x y = (case (x, y) of (TList a ua, TList b ub) \<Rightarrow>
     py_eq (l_id a) (l_id b) \<and> py_eq (l_name a) (l_name b) \<and>
     py_eq (l_slug a) (l_slug b) \<and> py_eq (l_description a) (l_description b) \<and>
     py_eq (l_full_name a) (l_full_name b) \<and> py_eq (l_mode a) (l_mode b) \<and>
     py_eq (l_uri a) (l_uri b) \<and> py_eq (l_member_count a) (l_member_count b) \<and>
     py_eq (l_subscriber_count a) (l_subscriber_count b) \<and>
     py_eq (l_following a) (l_following b) \<and>
     opt_eq user_eq ua ub)"

definition direct_message_eq :: "direct_message \<Rightarrow> direct_message \<Rightarrow> bool" where
  "direct_message_eq a b \<longleftrightarrow>
     py_eq (d_id a) (d_id b) \<and> py_eq (d_created_at a) (d_created_at b) \<and>
     py_eq (d_sender_id a) (d_sender_id b) \<and>
     py_eq (d_sender_screen_name a) (d_sender_screen_name b) \<and>
     py_eq (d_recipient_id a) (d_recipient_id b) \<and>
     py_eq (d_recipient_screen_name a) (d_recipient_screen_name b) \<and>
     py_eq (d_text a) (d_text b)"

section \<open>Dictionaries of objects\<close>

type_synonym dict = "(string \<times> pyval) list"

text \<open>\<open>if v: data[k] = v\<close> and \<open>if v is not None: data[k] = v\<close>.\<close>

definition put :: "string \<Rightarrow> pyval \<Rightarrow> dict \<Rightarrow> dict" where
  "put k v d = (if truthy v then AList.update k v d else d)"

definition put_set :: "string \<Rightarrow> pyval \<Rightarrow> dict \<Rightarrow> dict" where
  "put_set k v d = (if v \<noteq> PNone then AList.update k v d else d)"

definition put_obj :: "string \<Rightarrow> pyval option \<Rightarrow> dict \<Rightarrow> dict" where
  "put_obj k v d = (case v of None \<Rightarrow> d | Some x \<Rightarrow> AList.update k x d)"

definition dict_value :: "dict \<Rightarrow> pyval" where
  "dict_value d = PDict (map (\<lambda>(k, v). (PStr k, v)) d)"

definition tag_texts :: "hashtag list option \<Rightarrow> pyval option" where
  "tag_texts tags = (case tags of Some (h # hs) \<Rightarrow> Some (PList (map h_text (h # hs))) | _ \<Rightarrow> None)"

text \<open>The updates are listed in the order of the code. \<open>User.AsDict\<close> writes the background image's URL
  under the name of the sidebar's fill colour.\<close>

definition run_puts :: "(dict \<Rightarrow> dict) list \<Rightarrow> pyval" where
  "run_puts ps = dict_value (fold (\<lambda>f d. f d) ps [])"

fun status_as_dict :: "status \<Rightarrow> pyval" and user_as_dict :: "user \<Rightarrow> pyval" where
  "status_as_dict (Status s us urls mentions tags rt) = run_puts
     [put ''created_at'' (s_created_at s), put ''favorited'' (s_favorited s),
      put ''id'' (s_id s), put ''text'' (s_text s), put ''location'' (s_location s),
      put_obj ''user'' (map_option user_as_dict us),
      put ''in_reply_to_screen_name'' (s_in_reply_to_screen_name s),
      put ''in_reply_to_user_id'' (s_in_reply_to_user_id s),
      put ''in_reply_to_status_id'' (s_in_reply_to_status_id s),
      put_set ''truncated'' (s_truncated s), put_set ''retweeted'' (s_retweeted s),
      put_set ''favorited'' (s_favorited s), put ''source'' (s_source s), put ''geo'' (s_geo s),
      put ''place'' (s_place s), put ''coordinates'' (s_coordinates s),
      put ''contributors'' (s_contributors s), put_obj ''hashtags'' (tag_texts tags),
      put_obj ''retweeted_status'' (map_option status_as_dict rt),
      put ''retweet_count'' (s_retweet_count s)]"
| "user_as_dict (User u st) = run_puts
     [put ''id'' (u_id u), put ''name'' (u_name u), put ''screen_name'' (u_screen_name u),
      put ''location'' (u_location u), put ''description'' (u_description u),
      put ''profile_image_url'' (u_profile_image_url u),
      put_set ''profile_background_tile'' (u_profile_background_tile u),
      put ''profile_sidebar_fill_color'' (u_profile_background_image_url u),
      put ''profile_background_color'' (u_profile_background_color u),
      put ''profile_link_color'' (u_profile_link_color u),
      put ''profile_text_color'' (u_profile_text_color u), put_set ''protected'' (u_protected u),
      put ''utc_offset'' (u_utc_offset u), put ''time_zone'' (u_time_zone u),
      put ''url'' (u_url u), put_obj ''status'' (map_option status_as_dict st),
      put ''friends_count'' (u_friends_count u), put ''followers_count'' (u_followers_count u),
      put ''statuses_count'' (u_statuses_count u),
      put ''favourites_count'' (u_favourites_count u), put ''geo_enabled'' (u_geo_enabled u),
      put ''verified'' (u_verified u), put ''lang'' (u_lang u),
      put ''notifications'' (u_notifications u),
      put ''contributors_enabled'' (u_contributors_enabled u),
      put ''created_at'' (u_created_at u), put ''listed_count'' (u_listed_count u)]"

text \<open>\<open>List.AsDict\<close> stores the user object itself, which the JSON encoder refuses.\<close>

definition list_as_dict :: "tlist \<Rightarrow> pyval \<times> user option" where
  "list_as_dict x = (case x of TList d us \<Rightarrow> (run_puts
     [put ''id'' (l_id d), put ''name'' (l_name d), put ''slug'' (l_slug d),
      put ''description'' (l_description d), put ''full_name'' (l_full_name d),
      put ''mode'' (l_mode d), put ''uri'' (l_uri d),
      put_set ''member_count'' (l_member_count d),
      put_set ''subscriber_count'' (l_subscriber_count d), put_set ''following'' (l_following d)], us))"

definition direct_message_as_dict :: "direct_message \<Rightarrow> pyval" where
  "direct_message_as_dict m = run_puts
     [put ''id'' (d_id m), put ''created_at'' (d_created_at m),
      put ''sender_id'' (d_sender_id m), put ''sender_screen_name'' (d_sender_screen_name m),
      put ''recipient_id'' (d_recipient_id m),
      put ''recipient_screen_name'' (d_recipient_screen_name m), put ''text'' (d_text m)]"

text \<open>\<open>AsJsonString\<close>: the JSON text with sorted keys.\<close>

fun key_text :: "pyval \<Rightarrow> string" where
  "key_text (PStr k) = k"
| "key_text _ = []"

fun sort_dicts :: "pyval \<Rightarrow> pyval" where
  "sort_dicts (PList xs) = PList (map sort_dicts xs)"
| "sort_dicts (PDict d) = PDict (sort_key (\<lambda>p. key_text (fst p)) (map (\<lambda>(k, v). (k, sort_dicts v)) d))"
| "sort_dicts v = v"

definition status_as_json :: "(rat \<Rightarrow> string) \<Rightarrow> status \<Rightarrow> string res" where
  "status_as_json fr s = json_dumps fr (sort_dicts (status_as_dict s))"

definition user_as_json :: "(rat \<Rightarrow> string) \<Rightarrow> user \<Rightarrow> string res" where
  "user_as_json fr u = json_dumps fr (sort_dicts (user_as_dict u))"

definition list_as_json :: "(rat \<Rightarrow> string) \<Rightarrow> tlist \<Rightarrow> string res" where
  "list_as_json fr x =
     (case list_as_dict x of
        (d, None) \<Rightarrow> json_dumps fr (sort_dicts d)
      | (d, Some u) \<Rightarrow> Inl (TypeError ''is not JSON serializable''))"

definition direct_message_as_json :: "(rat \<Rightarrow> string) \<Rightarrow> direct_message \<Rightarrow> string res" where
  "direct_message_as_json fr m = json_dumps fr (sort_dicts (direct_message_as_dict m))"

section \<open>Times\<close>

text \<open>\<open>GetNow\<close> fixes the wall clock at its first use.\<close>

definition get_now :: "pyval \<Rightarrow> status_data \<Rightarrow> status_data \<times> pyval" where
  "get_now clock s = (if s_now s = PNone then (s\<lparr>s_now := clock\<rparr>, clock) else (s, s_now s))"

text \<open>\<open>GetRelativeCreatedAt\<close>: \<open>now\<close> and the creation time in whole seconds. The bounds with the
  fudge factor 1.25 are 1.25, 48, 75, 2880, 4500, 69120 and 108000 seconds.\<close>

datatype age =
    ASecond
  | Seconds int
  | AMinute
  | Minutes int
  | AnHour
  | Hours int
  | ADay
  | Days int

definition relative_age :: "int \<Rightarrow> int \<Rightarrow> age" where
  "relative_age now created =
     (let delta = now - created in
      if delta < 2 then ASecond
      else if delta < 48 then Seconds delta
      else if delta < 75 then AMinute
      else if delta < 2880 then Minutes (delta div 60)
      else if delta < 4500 \<or> delta div 3600 = 1 then AnHour
      else if delta < 69120 then Hours (delta div 3600)
      else if delta < 108000 \<or> delta div 86400 = 1 then ADay
      else Days (delta div 86400))"

fun age_text :: "age \<Rightarrow> string" where
  "age_text ASecond = ''about a second ago''"
| "age_text (Seconds n) = ''about '' @ show_int n @ '' seconds ago''"
| "age_text AMinute = ''about a minute ago''"
| "age_text (Minutes n) = ''about '' @ show_int n @ '' minutes ago''"
| "age_text AnHour = ''about an hour ago''"
| "age_text (Hours n) = ''about '' @ show_int n @ '' hours ago''"
| "age_text ADay = ''about a day ago''"
| "age_text (Days n) = ''about '' @ show_int n @ '' days ago''"

definition GetRelativeCreatedAt :: "int \<Rightarrow> int \<Rightarrow> string" where
  "GetRelativeCreatedAt now created = age_text (relative_age now created)"

section \<open>Reading dictionaries back\<close>

text \<open>What a falsy attribute becomes.\<close>

definition pick :: "pyval \<Rightarrow> pyval \<Rightarrow> pyval" where
  "pick v w = (if truthy v then v else w)"

abbreviation keep :: "pyval \<Rightarrow> pyval" where
  "keep v \<equiv> pick v PNone"

definition pick_set :: "pyval \<Rightarrow> pyval \<Rightarrow> pyval" where
  "pick_set v w = (if v \<noteq> PNone then v else w)"

definition pick_obj :: "pyval option \<Rightarrow> pyval option \<Rightarrow> pyval option" where
  "pick_obj v w = (if v \<noteq> None then v else w)"

lemma pick_simps [simp]: "pick_set v PNone = v" "pick_obj x None = x"
  by (simp_all add: pick_set_def pick_obj_def)

definition norm_status_data :: "status_data \<Rightarrow> status_data" where
  "norm_status_data s = \<lparr>s_created_at = keep (s_created_at s), s_favorited = s_favorited s, s_id = keep (s_id s),
     s_text = keep (s_text s), s_location = keep (s_location s), s_now = PNone,
     s_in_reply_to_screen_name = keep (s_in_reply_to_screen_name s),
     s_in_reply_to_user_id = keep (s_in_reply_to_user_id s),
     s_in_reply_to_status_id = keep (s_in_reply_to_status_id s), s_truncated = s_truncated s,
     s_retweeted = s_retweeted s, s_source = keep (s_source s), s_geo = keep (s_geo s),
     s_place = keep (s_place s), s_coordinates = keep (s_coordinates s),
     s_contributors = keep (s_contributors s), s_retweet_count = keep (s_retweet_count s)\<rparr>"

definition norm_user_data :: "user_data \<Rightarrow> user_data" where
  "norm_user_data u = \<lparr>u_id = keep (u_id u), u_name = keep (u_name u), u_screen_name = keep (u_screen_name u),
     u_location = keep (u_location u), u_description = keep (u_description u),
     u_profile_image_url = keep (u_profile_image_url u),
     u_profile_background_tile = u_profile_background_tile u,
     u_profile_background_image_url = PNone,
     u_profile_sidebar_fill_color = keep (u_profile_background_image_url u),
     u_profile_background_color = keep (u_profile_background_color u),
     u_profile_link_color = keep (u_profile_link_color u),
     u_profile_text_color = keep (u_profile_text_color u), u_protected = u_protected u,
     u_utc_offset = keep (u_utc_offset u), u_time_zone = keep (u_time_zone u),
     u_followers_count = keep (u_followers_count u), u_friends_count = keep (u_friends_count u),
     u_statuses_count = keep (u_statuses_count u),
     u_favourites_count = keep (u_favourites_count u), u_url = keep (u_url u),
     u_geo_enabled = keep (u_geo_enabled u), u_verified = keep (u_verified u),
     u_lang = keep (u_lang u), u_notifications = keep (u_notifications u),
     u_contributors_enabled = keep (u_contributors_enabled u),
     u_created_at = keep (u_created_at u), u_listed_count = keep (u_listed_count u)\<rparr>"

fun norm_status :: "status \<Rightarrow> status" and norm_user :: "user \<Rightarrow> user" where
  "norm_status (Status s us urls mentions tags rt) =
     Status (norm_status_data s) (map_option norm_user us) None None None (map_option norm_status rt)"
| "norm_user (User u st) = User (norm_user_data u) (map_option norm_status st)"

definition look :: "dict \<Rightarrow> string \<Rightarrow> pyval" where
  "look d k = (case map_of d k of None \<Rightarrow> PNone | Some v \<Rightarrow> v)"

lemma look_put:
  "look (put k v d) k = pick v (look d k)" "k \<noteq> k' \<Longrightarrow> look (put k v d) k' = look d k'"
  "look (put_set k v d) k = pick_set v (look d k)" "k \<noteq> k' \<Longrightarrow> look (put_set k v d) k' = look d k'"
  "k \<noteq> k' \<Longrightarrow> look (put_obj k x d) k' = look d k'" "look [] k = PNone"
  by (auto simp: look_def put_def put_set_def put_obj_def pick_def pick_set_def split: option.split)

lemma map_of_put:
  "map_of (put_obj k x d) k = pick_obj x (map_of d k)"
  "k \<noteq> k' \<Longrightarrow> map_of (put k v d) k' = map_of d k'"
  "k \<noteq> k' \<Longrightarrow> map_of (put_set k v d) k' = map_of d k'"
  "k \<noteq> k' \<Longrightarrow> map_of (put_obj k x d) k' = map_of d k'"
  by (auto simp: put_def put_set_def put_obj_def pick_obj_def split: option.split)

lemma getter_dict: "getter (dict_value d) = Inr (look d)"
  by (simp add: dict_value_def getter_def PStr_dict_keys look_def [abs_def])

lemma part_dict:
  "part (dict_value d) k f =
     (case map_of d k of None \<Rightarrow> Inr None | Some v \<Rightarrow> rbind (f v) (\<lambda>x. Inr (Some x)))"
  by (simp add: part_def dict_value_def pd_has_def PStr_dict_keys split: option.split)

lemmas dict_back = run_puts_def getter_dict part_dict look_put map_of_put

lemma direct_message_back:
  "direct_message_new (direct_message_as_dict m) = Inr \<lparr>d_id = keep (d_id m), d_created_at = keep (d_created_at m),
     d_sender_id = keep (d_sender_id m), d_sender_screen_name = keep (d_sender_screen_name m),
     d_recipient_id = keep (d_recipient_id m),
     d_recipient_screen_name = keep (d_recipient_screen_name m), d_text = keep (d_text m)\<rparr>"
  by (simp add: direct_message_new_def direct_message_as_dict_def dict_back)

lemma user_back:
  assumes "\<And>s. st = Some s \<Longrightarrow> status_new (status_as_dict s) = Inr (norm_status s)"
  shows "user_new (user_as_dict (User u st)) = Inr (norm_user (User u st))"
  using assms
  by (cases st) (simp_all add: user_new.simps dict_back user_fields_def norm_user_data_def)

lemma entities_absent: "map_of d ''entities'' = None \<Longrightarrow> entities (dict_value d) f = Inr (None, None, None)"
  by (simp add: entities_def part_dict)

lemma pick_set_twice: "pick_set v (pick v w) = pick_set v w"
  by (auto simp: pick_set_def pick_def)

lemma status_back:
  assumes "\<And>u. us = Some u \<Longrightarrow> user_new (user_as_dict u) = Inr (norm_user u)"
    and "\<And>s. rt = Some s \<Longrightarrow> status_new (status_as_dict s) = Inr (norm_status s)"
  shows "status_new (status_as_dict (Status s us urls mentions tags rt)) =
    Inr (norm_status (Status s us urls mentions tags rt))"
  using assms
  by (cases us; cases rt)
    (simp_all add: status_new.simps dict_back entities_absent status_fields_def norm_status_data_def
      pick_set_twice)

lemma objects_back:
  "status_new (status_as_dict s) = Inr (norm_status s)"
  "user_new (user_as_dict u) = Inr (norm_user u)"
proof (induction s and u rule: status_as_dict_user_as_dict.induct)
  case (1 s us urls mentions tags rt)
  then show ?case by (intro status_back) simp_all
next
  case (2 u st)
  then show ?case by (intro user_back) simp_all
qed

lemma status_data_eq_refl [simp]: "status_data_eq a a"
  by (simp add: status_data_eq_def)

lemma user_data_eq_refl [simp]: "user_data_eq a a"
  by (simp add: user_data_eq_def)

lemma opt_eq_refl: "(\<And>a. x = Some a \<Longrightarrow> f a a) \<Longrightarrow> opt_eq f x x"
  by (cases x) simp_all

lemma objects_refl: "status_eq s s" "user_eq u u"
proof (induction s and u rule: status_as_dict_user_as_dict.induct)
  case (1 s us urls mentions tags rt)
  then show ?case by (auto intro: opt_eq_refl)
next
  case (2 u st)
  then show ?case by (auto intro: opt_eq_refl)
qed

section \<open>Properties\<close>

text \<open>C37: A status read back from its own dictionary, with its user and its retweeted status to any
  depth, is the same status with every falsy attribute replaced by \<open>None\<close> and without its entities;
  of a user, the background image's URL comes back as the sidebar's fill colour and the fill colour
  itself is lost. Neither direction raises.\<close>

theorem status_dict_roundtrip:
  "status_new (status_as_dict s) = Inr (norm_status s) \<and> user_new (user_as_dict u) = Inr (norm_user u)"
  by (simp add: objects_back)

text \<open>A direct message read back from its own dictionary has the same dictionary again, and it is
  the same message when all its attributes are set.\<close>

theorem direct_message_roundtrip:
  "\<exists>m'. direct_message_new (direct_message_as_dict m) = Inr m' \<and>
     direct_message_as_dict m' = direct_message_as_dict m \<and>
     (list_all truthy [d_id m, d_created_at m, d_sender_id m, d_sender_screen_name m, d_recipient_id m,
        d_recipient_screen_name m, d_text m] \<longrightarrow> m' = m)"
proof -
  have p: "put k (keep v) = put k v" for k v by (intro ext) (simp add: put_def pick_def)
  have k: "truthy v \<Longrightarrow> keep v = v" for v by (simp add: pick_def)
  show ?thesis
    unfolding direct_message_back by (simp add: direct_message_as_dict_def p k)
qed

text \<open>A user whose background image URL and fill colour are set and differ is not equal to the
  user read back from its own dictionary, although every object equals itself.\<close>

theorem user_dict_changes_colour:
  assumes "truthy (u_profile_background_image_url u)"
    and "\<not> py_eq (u_profile_sidebar_fill_color u) (u_profile_background_image_url u)"
  shows "\<exists>x. user_new (user_as_dict (User u st)) = Inr x \<and> \<not> user_eq (User u st) x \<and>
    user_eq x x \<and> user_eq (User u st) (User u st)"
proof -
  have "user_data_eq a b \<Longrightarrow> py_eq (u_profile_sidebar_fill_color a) (u_profile_sidebar_fill_color b)" for a b
    by (simp add: user_data_eq_def)
  moreover have "u_profile_sidebar_fill_color (norm_user_data u) = u_profile_background_image_url u"
    using assms(1) by (simp add: norm_user_data_def pick_def)
  ultimately have "\<not> user_data_eq u (norm_user_data u)" using assms(2) by metis
  then have "\<not> user_eq (User u st) (norm_user (User u st))" by simp
  then show ?thesis using objects_back(2) [of "User u st"] objects_refl(2) by blast
qed

definition two_colours :: user_data where
  "two_colours = (user_fields (\<lambda>_. PNone))\<lparr>u_profile_background_image_url := PStr ''http://h/b.png'',
     u_profile_sidebar_fill_color := PStr ''e0ff92''\<rparr>"

theorem user_dict_changes_colour_witness:
  "\<exists>x. user_new (user_as_dict (User two_colours None)) = Inr x \<and> \<not> user_eq (User two_colours None) x"
proof -
  have "truthy (u_profile_background_image_url two_colours)"
    "\<not> py_eq (u_profile_sidebar_fill_color two_colours) (u_profile_background_image_url two_colours)"
    by (simp_all add: two_colours_def)
  from user_dict_changes_colour [OF this, of None] show ?thesis by blast
qed

text \<open>The JSON text of a Twitter list exists only while the list has no owner.\<close>

theorem list_json_needs_no_owner:
  "(\<exists>e. list_as_json fr (TList d (Some u)) = Inl e) \<and>
   (json_wf (sort_dicts (fst (list_as_dict (TList d None)))) \<longrightarrow>
      (\<exists>t. list_as_json fr (TList d None) = Inr t))"
proof -
  have "json_wf v \<Longrightarrow> \<exists>t. json_dumps fr v = Inr t" for v
    using json_roundtrip [of v fr] by blast
  then show ?thesis by (simp add: list_as_json_def list_as_dict_def)
qed

text \<open>The relative age is accurate: the unit is the one the count belongs to, the count is the
  whole number of units that have passed, and plural hours and days are at least two; plural
  minutes can be one, from 75 to 119 seconds.\<close>

theorem relative_age_accurate:
  "case relative_age now created of
     ASecond \<Rightarrow> now - created < 2
   | Seconds n \<Rightarrow> n = now - created \<and> 2 \<le> n \<and> n < 48
   | AMinute \<Rightarrow> 48 \<le> now - created \<and> now - created < 75
   | Minutes n \<Rightarrow> 1 \<le> n \<and> n < 48 \<and> 60 * n \<le> now - created \<and> now - created < 60 * (n + 1)
   | AnHour \<Rightarrow> 2880 \<le> now - created \<and> now - created < 7200
   | Hours n \<Rightarrow> 2 \<le> n \<and> n < 20 \<and> 3600 * n \<le> now - created \<and> now - created < 3600 * (n + 1)
   | ADay \<Rightarrow> 69120 \<le> now - created \<and> now - created < 172800
   | Days n \<Rightarrow> 2 \<le> n \<and> 86400 * n \<le> now - created \<and> now - created < 86400 * (n + 1)"
proof -
  define t where "t = now - created"
  have d: "k * (t div k) \<le> t \<and> t < k * (t div k + 1)" if "0 < k" for k
  proof -
    have "t = k * (t div k) + t mod k" by simp
    with pos_mod_sign [OF that, of t] pos_mod_bound [OF that, of t] show ?thesis
      unfolding distrib_left mult_1_right by linarith
  qed
  show ?thesis
    unfolding relative_age_def t_def [symmetric] Let_def
    using d [of 60] d [of 3600] d [of 86400] by auto
qed

end
