(* ===== verification/TwitterApi.thy ===== *)
theory TwitterApi
  imports Complex_Main TwitterModel FileCache OAuth2
begin

text \<open>
  The client of \<open>socialnet/twitter.py\<close> (class \<open>Api\<close>): its credentials and settings, the building
  and signing of requests, the fetch with its cache, the check of the answers, and one definition
  per method of the Twitter interface. The network, the clock, the nonces, the text codec and
  \<open>textwrap\<close> are functions of an environment, indexed by the number of the fetch; so
  are the time \<open>rfc822.parsedate\<close> reads (in seconds, or the error of reading it) and the text Python makes of a float, list or dictionary. The requests
  that went over the network are recorded in the state, which no code reads.
\<close>

section \<open>Arguments\<close>

text \<open>What callers pass: nothing, numbers, truth values, texts or byte strings.\<close>

datatype arg = ANone | AInt int | ABool bool | AStr string | ABytes string

type_synonym params = "(string \<times> arg) list"

fun arg_true :: "arg \<Rightarrow> bool" where
  "arg_true ANone = False"
| "arg_true (AInt i) = (i \<noteq> 0)"
| "arg_true (ABool b) = b"
| "arg_true (AStr s) = (s \<noteq> [])"
| "arg_true (ABytes s) = (s \<noteq> [])"

fun fmt_s :: "arg \<Rightarrow> string" where
  "fmt_s ANone = ''None''"
| "fmt_s (AInt i) = show_int i"
| "fmt_s (ABool b) = (if b then ''True'' else ''False'')"
| "fmt_s (AStr s) = s"
| "fmt_s (ABytes s) = s"

fun fmt_num :: "arg \<Rightarrow> string res" where
  "fmt_num (AInt i) = Inr (show_int i)"
| "fmt_num (ABool b) = Inr (if b then ''1'' else ''0'')"
| "fmt_num _ = Inl (TypeError ''%d format: a number is required'')"

fun arg_int :: "arg \<Rightarrow> int res" where
  "arg_int (AInt i) = Inr i"
| "arg_int (ABool b) = Inr (if b then 1 else 0)"
| "arg_int (AStr s) = parse_int s"
| "arg_int (ABytes s) = parse_int s"
| "arg_int ANone = Inl (TypeError ''int() argument must be a string or a number'')"

text \<open>\<open>long()\<close> also reads a final \<open>L\<close>.\<close>

definition parse_long :: "string \<Rightarrow> int res" where
  "parse_long s = (let t = str_strip s in
     if 2 \<le> length t \<and> last t \<in> {CHR ''l'', CHR ''L''} \<and> is_digit (last (butlast t))
     then parse_int (butlast t) else parse_int s)"

fun arg_long :: "arg \<Rightarrow> int res" where
  "arg_long (AStr s) = parse_long s"
| "arg_long (ABytes s) = parse_long s"
| "arg_long a = arg_int a"

text \<open>\<open>if v: parameters[k] = w\<close>.\<close>

definition opt_param :: "string \<Rightarrow> arg \<Rightarrow> arg \<Rightarrow> params" where
  "opt_param k v w = (if arg_true v then [(k, w)] else [])"

text \<open>Conversions guarded by \<open>except ValueError\<close> and by a bare \<open>except\<close>.\<close>

definition value_guard :: "string \<Rightarrow> 'a res \<Rightarrow> 'a res" where
  "value_guard msg r = (case r of Inl (ValueError m) \<Rightarrow> Inl (TwitterError msg) | _ \<Rightarrow> r)"

definition any_guard :: "string \<Rightarrow> 'a res \<Rightarrow> 'a res" where
  "any_guard msg r = (case r of Inl e \<Rightarrow> Inl (TwitterError msg) | _ \<Rightarrow> r)"

section \<open>State and environment\<close>

record api =
  consumer_key :: "string option"
  consumer_secret :: "string option"
  access_token_key :: "string option"
  access_token_secret :: "string option"
  oauth_consumer :: "(consumer \<times> token) option"
  base_url :: string
  input_encoding :: "string option"
  request_headers :: "(string \<times> string) list"
  default_params :: params
  use_gzip :: bool
  debug_http :: bool
  acache :: "file_cache option"
  cache_timeout :: int
  fetches :: nat
  sent :: "(string \<times> string option) list"

record env =
  clock :: "nat \<Rightarrow> int"
  nonces :: "nat \<Rightarrow> nat"
  http :: "nat \<Rightarrow> string \<Rightarrow> string option \<Rightarrow> string res"
  codec :: "string \<Rightarrow> string \<Rightarrow> string res"
  textwrap :: "string \<Rightarrow> int \<Rightarrow> string list res"
  parsedate :: "string \<Rightarrow> int res"
  text_of :: "pyval \<Rightarrow> string"

definition CHARACTER_LIMIT :: nat where
  "CHARACTER_LIMIT = 140"

definition set_credentials ::
    "string option \<Rightarrow> string option \<Rightarrow> string option \<Rightarrow> string option \<Rightarrow> api \<Rightarrow> api" where
  "set_credentials ck cs tk ts a =
     a\<lparr>consumer_key := ck, consumer_secret := cs, access_token_key := tk, access_token_secret := ts,
       oauth_consumer := (case (ck, cs, tk, ts) of
         (Some k, Some s, Some t, Some u) \<Rightarrow>
           Some (\<lparr>ckey = k, csecret = s\<rparr>, \<lparr>tkey = t, tsecret = u, callback = None,
             callback_confirmed = None, verifier = None\<rparr>)
       | _ \<Rightarrow> None)\<rparr>"

definition clear_credentials :: "api \<Rightarrow> api" where
  "clear_credentials a =
     a\<lparr>consumer_key := None, consumer_secret := None, access_token_key := None,
       access_token_secret := None, oauth_consumer := None\<rparr>"

definition set_cache :: "file_cache option \<Rightarrow> api \<Rightarrow> api" where
  "set_cache c a = a\<lparr>acache := c\<rparr>"

definition set_cache_timeout :: "int \<Rightarrow> api \<Rightarrow> api" where
  "set_cache_timeout t a = a\<lparr>cache_timeout := t\<rparr>"

definition set_user_agent :: "string \<Rightarrow> api \<Rightarrow> api" where
  "set_user_agent ua a = a\<lparr>request_headers := AList.update ''User-Agent'' ua (request_headers a)\<rparr>"

definition set_x_twitter_headers :: "string \<Rightarrow> string \<Rightarrow> string \<Rightarrow> api \<Rightarrow> api" where
  "set_x_twitter_headers client url version a =
     a\<lparr>request_headers := AList.update ''X-Twitter-Client-Version'' version
         (AList.update ''X-Twitter-Client-URL'' url
           (AList.update ''X-Twitter-Client'' client (request_headers a)))\<rparr>"

definition set_source :: "arg \<Rightarrow> api \<Rightarrow> api" where
  "set_source src a = a\<lparr>default_params := AList.update ''source'' src (default_params a)\<rparr>"

text \<open>The cache argument is the file cache already made, or none; \<open>user_agent\<close> is the text that
  \<open>_InitializeUserAgent\<close> composes from the library versions.\<close>

definition new_api ::
    "string option \<Rightarrow> string option \<Rightarrow> string option \<Rightarrow> string option \<Rightarrow> string option \<Rightarrow>
     (string \<times> string) list \<Rightarrow> file_cache option \<Rightarrow> string option \<Rightarrow> bool \<Rightarrow> bool \<Rightarrow> string \<Rightarrow> api res" where
  "new_api ck cs tk ts enc headers c base gzip debug user_agent =
     (if ck \<noteq> None \<and> (tk = None \<or> ts = None)
      then Inl (TwitterError ''Twitter requires oAuth Access Token for all API access'')
      else Inr (set_credentials ck cs tk ts (set_user_agent user_agent
        \<lparr>consumer_key = None, consumer_secret = None, access_token_key = None,
          access_token_secret = None, oauth_consumer = None,
          base_url = (case base of None \<Rightarrow> ''https://api.twitter.com/1'' | Some b \<Rightarrow> b),
          input_encoding = enc, request_headers = headers, default_params = [], use_gzip = gzip,
          debug_http = debug, acache = c, cache_timeout = 60, fetches = 0, sent = []\<rparr>)))"

definition authenticated :: "api \<Rightarrow> bool" where
  "authenticated a \<longleftrightarrow> oauth_consumer a \<noteq> None"

section \<open>Encoding and URLs\<close>

text \<open>\<open>_Encode\<close>: with an input encoding only byte strings can be decoded.\<close>

definition encode_arg :: "env \<Rightarrow> api \<Rightarrow> arg \<Rightarrow> string res" where
  "encode_arg e a v =
     (if truthy_text (input_encoding a) then
        (case v of
           ABytes b \<Rightarrow> rbind (codec e (the (input_encoding a)) b) (\<lambda>t. Inr (utf8 t))
         | AStr t \<Rightarrow> Inl (TypeError ''decoding Unicode is not supported'')
         | _ \<Rightarrow> Inl (TypeError ''coercing to Unicode: need string or buffer''))
      else
        (case v of
           ABytes b \<Rightarrow> (if is_ascii b then Inr b else Inl (ValueError ''ascii codec cannot decode''))
         | _ \<Rightarrow> Inr (utf8 (fmt_s v))))"

definition encode_pairs :: "env \<Rightarrow> api \<Rightarrow> params \<Rightarrow> string res" where
  "encode_pairs e a ps = rbind (rmap (\<lambda>(k, v). rbind (encode_arg e a v) (\<lambda>t. Inr (k, t))) ps) (\<lambda>qs. Inr (urlencode qs))"

definition encode_parameters :: "env \<Rightarrow> api \<Rightarrow> params \<Rightarrow> string res" where
  "encode_parameters e a ps = encode_pairs e a (filter (\<lambda>(k, v). v \<noteq> ANone) ps)"

definition encode_post_data :: "env \<Rightarrow> api \<Rightarrow> params option \<Rightarrow> string option res" where
  "encode_post_data e a post =
     (case post of None \<Rightarrow> Inr None | Some ps \<Rightarrow> rbind (encode_pairs e a ps) (\<lambda>t. Inr (Some t)))"

definition build_url :: "env \<Rightarrow> api \<Rightarrow> string \<Rightarrow> string option list \<Rightarrow> params \<Rightarrow> string res" where
  "build_url e a url path_elements extra =
     rbind (urlparse url) (\<lambda>u.
       let p = (if path_elements = [] then path u
                else (if ends_with (path u) ''/'' then path u else path u @ ''/'')
                  @ str_join ''/'' (map the (filter truthy_text path_elements)))
       in rbind (if extra = [] then Inr (query u)
                 else rbind (encode_parameters e a extra) (\<lambda>q.
                   Inr (if query u \<noteq> [] then query u @ ''&'' @ q else q)))
            (\<lambda>q. Inr (urlunparse (u\<lparr>path := p, query := q\<rparr>))))"

section \<open>Checking answers\<close>

fun error_text :: "pyval \<Rightarrow> string" where
  "error_text (PStr s) = s"
| "error_text _ = ''error''"

definition check_for_twitter_error :: "pyval \<Rightarrow> unit res" where
  "check_for_twitter_error data =
     rbind (py_in ''error'' data) (\<lambda>b.
       if b then rbind (py_item data ''error'') (\<lambda>v. Inl (TwitterError (error_text v))) else Inr ())"

definition parse_and_check :: "string \<Rightarrow> pyval res" where
  "parse_and_check json =
     (case rbind (json_loads json) (\<lambda>data. rbind (check_for_twitter_error data) (\<lambda>_. Inr data)) of
        Inl (ValueError m) \<Rightarrow>
          if str_contains json ''<title>Twitter / Over capacity</title>'' then Inl (TwitterError ''Capacity Error'')
          else if str_contains json ''<title>Twitter / Error</title>'' then Inl (TwitterError ''Technical Error'')
          else Inl (TwitterError ''json decoding'')
      | r \<Rightarrow> r)"

section \<open>Fetching\<close>

record call =
  c_url :: string
  c_params :: params
  c_post :: "params option"
  c_no_cache :: bool

definition get_call :: "string \<Rightarrow> params \<Rightarrow> call" where
  "get_call url ps = \<lparr>c_url = url, c_params = ps, c_post = None, c_no_cache = False\<rparr>"

definition post_call :: "string \<Rightarrow> params \<Rightarrow> call" where
  "post_call url ps = \<lparr>c_url = url, c_params = [], c_post = Some ps, c_no_cache = False\<rparr>"

text \<open>A parameter as the OAuth library takes it: numbers are written in decimal there.\<close>

fun arg_pval :: "arg \<Rightarrow> pval res" where
  "arg_pval (ABytes b) = rbind (to_unicode b) (\<lambda>t. Inr (One t))"
| "arg_pval v = Inr (One (fmt_s v))"

definition oauth_request ::
    "env \<Rightarrow> api \<Rightarrow> consumer \<times> token \<Rightarrow> string \<Rightarrow> string \<Rightarrow> params \<Rightarrow> OAuth2.request res" where
  "oauth_request e a ct meth url ps =
     rbind (rmap (\<lambda>(k, v). rbind (arg_pval v) (\<lambda>p. Inr (k, p))) ps) (\<lambda>qs.
     rbind (from_consumer_and_token (clock e (fetches a)) (nonces e (fetches a)) (fst ct) (Some (snd ct))
              meth (Some url) qs [] False) (\<lambda>r.
       sign_request HMAC_SHA1 (fst ct) (Some (snd ct)) r))"

text \<open>The URL and the body that are sent. With credentials the default parameters are not used.\<close>

definition is_post :: "call \<Rightarrow> bool" where
  "is_post c \<longleftrightarrow> c_post c \<noteq> None \<and> c_post c \<noteq> Some []"

definition prepare_fetch :: "env \<Rightarrow> api \<Rightarrow> call \<Rightarrow> (string \<times> string option) res" where
  "prepare_fetch e a c =
     (case oauth_consumer a of
        Some ct \<Rightarrow>
          rbind (oauth_request e a ct (if is_post c then ''POST'' else ''GET'') (c_url c)
                   (if is_post c then the (c_post c) else c_params c)) (\<lambda>r.
          rbind (to_header [] r) (\<lambda>_.
            if is_post c then Inr (c_url c, Some (to_postdata r))
            else rbind (to_url r) (\<lambda>u. Inr (u, None))))
      | None \<Rightarrow>
          rbind (build_url e a (c_url c) [] (dict_update (default_params a) (c_params c))) (\<lambda>u.
          rbind (encode_post_data e a (c_post c)) (\<lambda>d. Inr (u, d))))"

definition cache_key :: "api \<Rightarrow> string \<Rightarrow> string" where
  "cache_key a url = (if truthy_text (consumer_key a) then the (consumer_key a) @ '':'' @ url else url)"

definition fetch_url :: "env \<Rightarrow> call \<Rightarrow> api \<Rightarrow> api \<times> string option res" where
  "fetch_url e c a0 =
     (let n = fetches a0; a = a0\<lparr>fetches := Suc n\<rparr> in
      case prepare_fetch e a0 c of
        Inl x \<Rightarrow> (a, Inl x)
      | Inr (url, body) \<Rightarrow>
          (case (if truthy_text body \<or> c_no_cache c \<or> cache_timeout a = 0 then None else acache a) of
             None \<Rightarrow> (a\<lparr>sent := sent a @ [(url, body)]\<rparr>, rbind (http e n url body) (\<lambda>t. Inr (Some t)))
           | Some fc \<Rightarrow>
               (case cached_fetch fc_cached_time fc_get fc_set (clock e n) (cache_timeout a)
                       (cache_key a url) (http e n url body) fc of
                  (fc1, used, r) \<Rightarrow>
                    (a\<lparr>acache := Some fc1, sent := (if used then sent a @ [(url, body)] else sent a)\<rparr>, r))))"

text \<open>The common end of the methods: fetch, parse and check, and build the objects. A cached file
  that disappeared gives \<open>None\<close>, which the JSON reader rejects.\<close>

definition parse_body :: "string option \<Rightarrow> (pyval \<Rightarrow> 'a res) \<Rightarrow> 'a res" where
  "parse_body body f =
     (case body of
        None \<Rightarrow> Inl (TypeError ''expected string or buffer'')
      | Some json \<Rightarrow> rbind (parse_and_check json) f)"

definition run_call :: "env \<Rightarrow> call res \<Rightarrow> (pyval \<Rightarrow> 'a res) \<Rightarrow> api \<Rightarrow> api \<times> 'a res" where
  "run_call e c f a =
     (case c of
        Inl x \<Rightarrow> (a, Inl x)
      | Inr call \<Rightarrow>
          (case fetch_url e call a of
             (a1, r) \<Rightarrow> (a1, rbind r (\<lambda>body. parse_body body f))))"

definition each :: "(pyval \<Rightarrow> 'a res) \<Rightarrow> pyval \<Rightarrow> 'a list res" where
  "each f v = rbind (py_iter v) (rmap f)"

definition each_in :: "string \<Rightarrow> (pyval \<Rightarrow> 'a res) \<Rightarrow> pyval \<Rightarrow> 'a list res" where
  "each_in k f v = rbind (py_item v k) (each f)"

definition need_auth :: "string \<Rightarrow> api \<Rightarrow> 'a res \<Rightarrow> 'a res" where
  "need_auth msg a r = (if authenticated a then r else Inl (TwitterError msg))"

section \<open>What a fetch leaves alone\<close>

lemma run_call_Inl [simp]: "run_call e (Inl x) f a = (a, Inl x)"
  by (simp add: run_call_def)

lemma need_auth_no: "\<not> authenticated a \<Longrightarrow> need_auth m a r = Inl (TwitterError m)"
  and need_auth_yes: "authenticated a \<Longrightarrow> need_auth m a r = r"
  by (simp_all add: need_auth_def)

text \<open>A fetch touches the cache, the counter and the record of what was sent, nothing else.\<close>

definition same_settings :: "api \<Rightarrow> api \<Rightarrow> bool" where
  "same_settings a b \<longleftrightarrow> b = a\<lparr>fetches := fetches b, acache := acache b, sent := sent b\<rparr>"

lemma same_settings_refl [simp]: "same_settings a a"
  by (simp add: same_settings_def)

lemma same_settings_upd [simp]:
  "same_settings a (b\<lparr>fetches := n\<rparr>) = same_settings a b"
  "same_settings a (b\<lparr>acache := c\<rparr>) = same_settings a b"
  "same_settings a (b\<lparr>sent := s\<rparr>) = same_settings a b"
  by (cases a, cases b, auto simp: same_settings_def)+

lemma same_settings_trans: "same_settings a b \<Longrightarrow> same_settings b c \<Longrightarrow> same_settings a c"
  by (cases a, cases b, cases c) (auto simp: same_settings_def)

lemma fetch_url_settings [simp]: "same_settings a (fst (fetch_url e call a))"
  unfolding fetch_url_def Let_def by (simp split: sum.split option.split prod.split)

lemma run_call_settings [simp]: "same_settings a (fst (run_call e c f a))"
proof (cases c)
  case (Inr call)
  then show ?thesis using fetch_url_settings [of a e call]
    by (cases "fetch_url e call a") (simp add: run_call_def)
qed simp

lemma same_settings_authenticated: "same_settings a b \<Longrightarrow> authenticated b = authenticated a"
  by (cases a, cases b) (auto simp: same_settings_def authenticated_def)

lemma run_call_authenticated [simp]: "authenticated (fst (run_call e c f a)) = authenticated a"
  by (rule same_settings_authenticated) simp

text \<open>The answers that pass the check, and how the others are refused.\<close>

lemma parse_and_check_cases:
  "case parse_and_check json of
     Inr v \<Rightarrow> json_loads json = Inr v \<and> py_in ''error'' v = Inr False
   | Inl x \<Rightarrow> (\<exists>t. x = TwitterError t) \<or> (\<exists>t v. x = TypeError t \<and> json_loads json = Inr v \<and> \<not> is_dict v)"
proof (cases "json_loads json")
  case (Inl x)
  with json_loads_errors [of json] obtain m where "x = ValueError m" by (auto simp: only_value_errors_def)
  with Inl show ?thesis by (simp add: parse_and_check_def)
next
  case (Inr v)
  show ?thesis
  proof (cases v)
    case (PDict d)
    then show ?thesis using Inr
      by (simp add: parse_and_check_def check_for_twitter_error_def pd_has_def split: option.split)
  qed (auto simp: parse_and_check_def check_for_twitter_error_def Inr)
qed

text \<open>Without credentials, what is sent depends on the settings alone.\<close>

lemma encode_settings:
  assumes "same_settings a b"
  shows "encode_pairs e b ps = encode_pairs e a ps"
    and "encode_parameters e b ps = encode_parameters e a ps"
    and "encode_post_data e b post = encode_post_data e a post"
    and "build_url e b url els ps = build_url e a url els ps"
proof -
  have "input_encoding b = input_encoding a"
    using assms by (cases a, cases b) (auto simp: same_settings_def)
  then have arg: "encode_arg e b v = encode_arg e a v" for v
    by (cases v) (simp_all add: encode_arg_def)
  show pairs: "encode_pairs e b ps = encode_pairs e a ps" for ps
    by (simp add: encode_pairs_def arg)
  show pars: "encode_parameters e b ps = encode_parameters e a ps" for ps
    by (simp add: encode_parameters_def pairs)
  show "encode_post_data e b post = encode_post_data e a post"
    by (cases post) (simp_all add: encode_post_data_def pairs)
  show "build_url e b url els ps = build_url e a url els ps"
    unfolding build_url_def pars ..
qed

lemma prepare_fetch_anonymous:
  assumes "same_settings a b" "oauth_consumer a = None"
  shows "prepare_fetch e b c = prepare_fetch e a c"
proof -
  have "oauth_consumer b = None" "default_params b = default_params a"
    using assms by (cases a, cases b, auto simp: same_settings_def)+
  then show ?thesis using assms(2)
    by (simp add: prepare_fetch_def encode_settings [OF assms(1)])
qed

lemma cache_key_settings: "same_settings a b \<Longrightarrow> cache_key b u = cache_key a u"
  by (cases a, cases b) (auto simp: same_settings_def cache_key_def)

end
