(* ===== verification/TweepyCache.thy ===== *)
theory TweepyCache
  imports Complex_Main Digest FileCache
begin

text \<open>
  Tweepy's caches (\<open>socialnet/tweepy/tweepy/cache.py\<close>): the cache in memory and the cache in a
  directory, with the promise they share; those in a server are in \<open>TweepyServerCaches\<close>. The clock reading of
  \<open>time.time()\<close> is an argument of each operation; the locks serialise the operations, so each is one
  step here.
\<close>

section \<open>The cache in memory\<close>

record 'v memory_cache =
  mc_entries :: "(string \<times> int \<times> 'v) list"
  mc_timeout :: int

definition new_memory_cache :: "int \<Rightarrow> 'v memory_cache" where
  "new_memory_cache timeout = \<lparr>mc_entries = [], mc_timeout = timeout\<rparr>"

text \<open>\<open>timeout > 0 and (time.time() - entry[0]) >= timeout\<close>.\<close>

definition is_expired :: "int \<Rightarrow> int \<times> 'v \<Rightarrow> int \<Rightarrow> bool" where
  "is_expired now e timeout \<longleftrightarrow> timeout > 0 \<and> now - fst e \<ge> timeout"

definition mc_store :: "int \<Rightarrow> string \<Rightarrow> 'v \<Rightarrow> 'v memory_cache \<Rightarrow> 'v memory_cache \<times> unit res" where
  "mc_store now key v c = (c\<lparr>mc_entries := AList.update key (now, v) (mc_entries c)\<rparr>, Inr ())"

definition mc_get ::
    "int \<Rightarrow> string \<Rightarrow> int option \<Rightarrow> 'v memory_cache \<Rightarrow> 'v memory_cache \<times> 'v option res" where
  "mc_get now key timeout c =
     (case map_of (mc_entries c) key of
        None \<Rightarrow> (c, Inr None)
      | Some e \<Rightarrow>
          if is_expired now e (case timeout of None \<Rightarrow> mc_timeout c | Some t \<Rightarrow> t)
          then (c\<lparr>mc_entries := AList.delete key (mc_entries c)\<rparr>, Inr None)
          else (c, Inr (Some (snd e))))"

definition mc_count :: "'v memory_cache \<Rightarrow> nat" where
  "mc_count c = length (mc_entries c)"

definition mc_cleanup :: "int \<Rightarrow> 'v memory_cache \<Rightarrow> 'v memory_cache" where
  "mc_cleanup now c =
     c\<lparr>mc_entries := filter (\<lambda>(k, e). \<not> is_expired now e (mc_timeout c)) (mc_entries c)\<rparr>"

definition mc_flush :: "'v memory_cache \<Rightarrow> 'v memory_cache" where
  "mc_flush c = c\<lparr>mc_entries := []\<rparr>"

section \<open>The cache in a directory\<close>

text \<open>A file of the directory: a pickled entry, or an empty file such as a lock.\<close>

datatype 'v cached_file = Pickled int 'v | EmptyFile

record 'v file_cache2 =
  fc2_files :: "(string \<times> 'v cached_file) list"
  fc2_timeout :: int

definition fc2_name :: "string \<Rightarrow> string" where
  "fc2_name key = hexdigest (md5 key)"

definition lock_name :: "string \<Rightarrow> string" where
  "lock_name path = path @ ''.lock''"

text \<open>\<open>_lock_file_posix\<close>: an exclusive lock creates the lock file, a shared one must find it.\<close>

definition lock_file :: "string \<Rightarrow> bool \<Rightarrow> 'v file_cache2 \<Rightarrow> 'v file_cache2 \<times> unit res" where
  "lock_file path exclusive c =
     (if exclusive then (c\<lparr>fc2_files := AList.update (lock_name path) EmptyFile (fc2_files c)\<rparr>, Inr ())
      else if dict_has (fc2_files c) (lock_name path) then (c, Inr ())
      else (c, Inl (IOError ''No such file or directory'')))"

definition delete_file :: "string \<Rightarrow> 'v file_cache2 \<Rightarrow> 'v file_cache2 \<times> unit res" where
  "delete_file path c =
     (if dict_has (fc2_files c) path
      then (c\<lparr>fc2_files := AList.delete (lock_name path) (AList.delete path (fc2_files c))\<rparr>, Inr ())
      else (c, Inl (OSError ''No such file or directory'')))"

definition fc2_store :: "int \<Rightarrow> string \<Rightarrow> 'v \<Rightarrow> 'v file_cache2 \<Rightarrow> 'v file_cache2 \<times> unit res" where
  "fc2_store now key v c =
     (case lock_file (fc2_name key) True c of
        (c1, Inl e) \<Rightarrow> (c1, Inl e)
      | (c1, Inr _) \<Rightarrow>
          (c1\<lparr>fc2_files := AList.update (fc2_name key) (Pickled now v) (fc2_files c1)\<rparr>, Inr ()))"

definition fc2_get_path ::
    "int \<Rightarrow> string \<Rightarrow> int option \<Rightarrow> 'v file_cache2 \<Rightarrow> 'v file_cache2 \<times> 'v option res" where
  "fc2_get_path now path timeout c =
     (case map_of (fc2_files c) path of
        None \<Rightarrow> (c, Inr None)
      | Some f \<Rightarrow>
          (case lock_file path False c of
             (c1, Inl e) \<Rightarrow> (c1, Inl e)
           | (c1, Inr _) \<Rightarrow>
               (case f of
                  EmptyFile \<Rightarrow> (c1, Inl (IOError ''EOFError''))
                | Pickled t v \<Rightarrow>
                    if is_expired now (t, v) (case timeout of None \<Rightarrow> fc2_timeout c1 | Some n \<Rightarrow> n)
                    then (case delete_file path c1 of (c2, r) \<Rightarrow> (c2, rbind r (\<lambda>_. Inr None)))
                    else (c1, Inr (Some v)))))"

definition fc2_get ::
    "int \<Rightarrow> string \<Rightarrow> int option \<Rightarrow> 'v file_cache2 \<Rightarrow> 'v file_cache2 \<times> 'v option res" where
  "fc2_get now key timeout c = fc2_get_path now (fc2_name key) timeout c"

definition fc2_entries :: "'v file_cache2 \<Rightarrow> string list" where
  "fc2_entries c = filter (\<lambda>n. \<not> ends_with n ''.lock'') (map fst (fc2_files c))"

definition fc2_count :: "'v file_cache2 \<Rightarrow> nat" where
  "fc2_count c = length (fc2_entries c)"

fun fc2_for :: "(string \<Rightarrow> 's \<Rightarrow> 's \<times> 'x res) \<Rightarrow> string list \<Rightarrow> 's \<Rightarrow> 's \<times> unit res" where
  "fc2_for f [] c = (c, Inr ())"
| "fc2_for f (n # ns) c =
     (case f n c of (c1, Inl e) \<Rightarrow> (c1, Inl e) | (c1, Inr _) \<Rightarrow> fc2_for f ns c1)"

definition fc2_cleanup :: "int \<Rightarrow> 'v file_cache2 \<Rightarrow> 'v file_cache2 \<times> unit res" where
  "fc2_cleanup now c = fc2_for (\<lambda>n. fc2_get_path now n None) (fc2_entries c) c"

definition fc2_flush :: "'v file_cache2 \<Rightarrow> 'v file_cache2 \<times> unit res" where
  "fc2_flush c = fc2_for delete_file (fc2_entries c) c"

section \<open>What a cache promises\<close>

text \<open>Each key has a slot; a cache maps slots to a time and a value. Storing fills the slot, getting
  reads it and empties it when it is out of date, and other slots are left alone.\<close>

definition fresh :: "int \<Rightarrow> int \<Rightarrow> (int \<times> 'v) option \<Rightarrow> 'v option" where
  "fresh now timeout e = (case e of None \<Rightarrow> None | Some p \<Rightarrow> if is_expired now p timeout then None else Some (snd p))"

definition which_timeout :: "int option \<Rightarrow> int \<Rightarrow> int" where
  "which_timeout t own = (case t of None \<Rightarrow> own | Some n \<Rightarrow> n)"

locale expiring_cache =
  fixes store :: "int \<Rightarrow> string \<Rightarrow> 'v \<Rightarrow> 's \<Rightarrow> 's \<times> unit res"
    and get :: "int \<Rightarrow> string \<Rightarrow> int option \<Rightarrow> 's \<Rightarrow> 's \<times> 'v option res"
    and slot :: "string \<Rightarrow> 'k"
    and view :: "'s \<Rightarrow> 'k \<Rightarrow> (int \<times> 'v) option"
    and timeout_of :: "'s \<Rightarrow> int"
    and inv :: "'s \<Rightarrow> bool"
  assumes store_law: "inv s \<Longrightarrow> \<exists>s'. store now key v s = (s', Inr ()) \<and> inv s' \<and> timeout_of s' = timeout_of s \<and>
      view s' = (view s)(slot key \<mapsto> (now, v))"
    and get_law: "inv s \<Longrightarrow> r = fresh now (which_timeout t (timeout_of s)) (view s (slot key)) \<Longrightarrow>
      \<exists>s'. get now key t s = (s', Inr r) \<and> inv s' \<and> timeout_of s' = timeout_of s \<and>
        view s' = (if r = None then (view s)(slot key := None) else view s)"
begin

text \<open>A stored value is served until the timeout and not from then on; a value that was out of date
  once does not come back; other slots are left alone.\<close>

lemma served_until_timeout:
  assumes "inv s" and "store now key v s = (s1, r)"
  shows "\<exists>s2. get now' key t s1 = (s2, Inr (fresh now' (which_timeout t (timeout_of s)) (Some (now, v))))"
proof -
  from store_law [OF assms(1), where now = now and key = key and v = v] assms(2)
  have s1: "inv s1" "timeout_of s1 = timeout_of s" "view s1 (slot key) = Some (now, v)" by auto
  from get_law [OF s1(1) refl, where now = now' and key = key and t = t] s1 show ?thesis by auto
qed

lemma expired_stays_gone:
  assumes "inv s" and "get now key t s = (s1, Inr None)"
  shows "\<exists>s2. get now' key t' s1 = (s2, Inr None)"
proof -
  from get_law [OF assms(1) refl, where now = now and key = key and t = t] assms(2)
  have "inv s1" "view s1 (slot key) = None" by auto
  from get_law [OF this(1) refl, where now = now' and key = key and t = t'] this(2) show ?thesis
    by (auto simp: fresh_def)
qed

lemma other_slots_kept:
  assumes "inv s" and "slot key' \<noteq> slot key"
  shows "view (fst (store now key v s)) (slot key') = view s (slot key')"
    and "view (fst (get now key t s)) (slot key') = view s (slot key')"
  using store_law [OF assms(1), where now = now and key = key and v = v]
    get_law [OF assms(1) refl, where now = now and key = key and t = t] assms(2)
  by auto

end

section \<open>The caches keep the promise\<close>

definition mc_view :: "'v memory_cache \<Rightarrow> string \<Rightarrow> (int \<times> 'v) option" where
  "mc_view c = map_of (mc_entries c)"

definition mc_inv :: "'v memory_cache \<Rightarrow> bool" where
  "mc_inv c \<longleftrightarrow> distinct (map fst (mc_entries c))"

interpretation memory: expiring_cache mc_store mc_get id mc_view mc_timeout mc_inv
proof
  fix s :: "'v memory_cache" and now key and v :: 'v assume i: "mc_inv s"
  then show "\<exists>s'. mc_store now key v s = (s', Inr ()) \<and> mc_inv s' \<and> mc_timeout s' = mc_timeout s \<and>
      mc_view s' = (mc_view s)(id key \<mapsto> (now, v))"
    by (auto simp: mc_store_def mc_inv_def mc_view_def)
next
  fix s :: "'v memory_cache" and now key t and r :: "'v option"
  assume i: "mc_inv s" and r: "r = fresh now (which_timeout t (mc_timeout s)) (mc_view s (id key))"
  then show "\<exists>s'. mc_get now key t s = (s', Inr r) \<and> mc_inv s' \<and> mc_timeout s' = mc_timeout s \<and>
      mc_view s' = (if r = None then (mc_view s)(id key := None) else mc_view s)"
    by (cases "map_of (mc_entries s) key")
      (auto simp: mc_get_def mc_view_def mc_inv_def fresh_def which_timeout_def delete_conv)
qed

text \<open>In the directory the slot of a key is its MD5 digest. Names of lock files end in \<open>.lock\<close>, digests
  do not, and every entry has its lock file.\<close>

definition entry_name :: "string \<Rightarrow> bool" where
  "entry_name n \<longleftrightarrow> \<not> ends_with n ''.lock''"

definition fc2_view :: "'v file_cache2 \<Rightarrow> string \<Rightarrow> (int \<times> 'v) option" where
  "fc2_view c n = (case map_of (fc2_files c) n of Some (Pickled t v) \<Rightarrow> Some (t, v) | _ \<Rightarrow> None)"

definition fc2_inv :: "'v file_cache2 \<Rightarrow> bool" where
  "fc2_inv c \<longleftrightarrow> (\<forall>n f. map_of (fc2_files c) n = Some f \<longrightarrow>
     (case f of Pickled t v \<Rightarrow> entry_name n \<and> dict_has (fc2_files c) (lock_name n)
      | EmptyFile \<Rightarrow> \<not> entry_name n))"

lemma fc2_invD:
  "fc2_inv c \<Longrightarrow> map_of (fc2_files c) n = Some (Pickled t v) \<Longrightarrow> entry_name n \<and> dict_has (fc2_files c) (lock_name n)"
  "fc2_inv c \<Longrightarrow> map_of (fc2_files c) n = Some EmptyFile \<Longrightarrow> \<not> entry_name n"
  unfolding fc2_inv_def by fastforce+

lemma fc2_name_entry [simp]: "entry_name (fc2_name key)"
proof -
  have "CHR ''.'' \<notin> set (fc2_name key)"
    using hexdigest_chars [of "CHR ''.''" "md5 key"] by (auto simp: fc2_name_def)
  then show ?thesis by (auto simp: entry_name_def ends_with_iff)
qed

lemma lock_name_entry [simp]: "\<not> entry_name (lock_name n)"
  by (auto simp: entry_name_def lock_name_def ends_with_iff)

lemma lock_name_simps [simp]: "lock_name n = lock_name n' \<longleftrightarrow> n = n'"
    "entry_name n \<Longrightarrow> lock_name m \<noteq> n" "entry_name n \<Longrightarrow> n \<noteq> lock_name m"
  by (auto simp: lock_name_def entry_name_def ends_with_iff)

lemma lock_no_entry: "fc2_inv c \<Longrightarrow> fc2_view c (lock_name n) = None"
  using fc2_invD(1) [of c "lock_name n"]
  by (auto simp: fc2_view_def split: option.split cached_file.split)

lemma fc2_invI:
  "(\<And>n t v. map_of (fc2_files c) n = Some (Pickled t v) \<Longrightarrow> entry_name n \<and> dict_has (fc2_files c) (lock_name n)) \<Longrightarrow>
   (\<And>n. map_of (fc2_files c) n = Some EmptyFile \<Longrightarrow> \<not> entry_name n) \<Longrightarrow> fc2_inv c"
  by (auto simp: fc2_inv_def split: cached_file.split)

text \<open>Deleting an entry.\<close>

lemma delete_file_law:
  assumes i: "fc2_inv s" and n: "entry_name n" and has: "dict_has (fc2_files s) n"
  shows "\<exists>s'. delete_file n s = (s', Inr ()) \<and> fc2_inv s' \<and> fc2_timeout s' = fc2_timeout s \<and>
    fc2_view s' = (fc2_view s)(n := None) \<and> (\<forall>m. entry_name m \<longrightarrow> dict_has (fc2_files s') m = (m \<noteq> n \<and> dict_has (fc2_files s) m))"
proof -
  let ?s = "s\<lparr>fc2_files := AList.delete (lock_name n) (AList.delete n (fc2_files s))\<rparr>"
  have "fc2_inv ?s"
  proof (rule fc2_invI)
    fix m t v assume "map_of (fc2_files ?s) m = Some (Pickled t v)"
    then have "map_of (fc2_files s) m = Some (Pickled t v)" "m \<noteq> n" by (auto split: if_splits)
    with fc2_invD(1) [OF i this(1)] n show "entry_name m \<and> dict_has (fc2_files ?s) (lock_name m)"
      by (simp add: dict_has_def)
  qed (use fc2_invD(2) [OF i] in \<open>auto split: if_splits\<close>)
  moreover have "fc2_view ?s = (fc2_view s)(n := None)"
  proof
    fix m show "fc2_view ?s m = ((fc2_view s)(n := None)) m"
      using lock_no_entry [OF i, of n] by (auto simp: fc2_view_def)
  qed
  ultimately show ?thesis using has n
    by (intro exI [of _ ?s]) (auto simp: delete_file_def dict_has_def)
qed

lemma fc2_get_path_law:
  assumes i: "fc2_inv s" and n: "entry_name n"
    and r: "r = fresh now (which_timeout t (fc2_timeout s)) (fc2_view s n)"
  shows "\<exists>s'. fc2_get_path now n t s = (s', Inr r) \<and> fc2_inv s' \<and> fc2_timeout s' = fc2_timeout s \<and>
    fc2_view s' = (if r = None then (fc2_view s)(n := None) else fc2_view s) \<and>
    (\<forall>m. entry_name m \<longrightarrow> m \<noteq> n \<longrightarrow> dict_has (fc2_files s') m = dict_has (fc2_files s) m)"
proof -
  have "map_of (fc2_files s) n \<noteq> Some EmptyFile" using fc2_invD(2) [OF i, of n] n by auto
  then consider (none) "map_of (fc2_files s) n = None"
    | (some) c v where "map_of (fc2_files s) n = Some (Pickled c v)"
    by (metis cached_file.exhaust option.exhaust)
  then show ?thesis
  proof cases
    case none
    then show ?thesis using i r
      by (auto simp: fc2_get_path_def fresh_def fc2_view_def fun_eq_iff)
  next
    case some
    then have lock: "dict_has (fc2_files s) (lock_name n)" using fc2_invD(1) [OF i] by blast
    have has: "dict_has (fc2_files s) n" using some by (simp add: dict_has_def)
    from delete_file_law [OF i n has] obtain s' where s': "delete_file n s = (s', Inr ())" "fc2_inv s'"
      "fc2_timeout s' = fc2_timeout s" "fc2_view s' = (fc2_view s)(n := None)"
      "\<forall>m. entry_name m \<longrightarrow> dict_has (fc2_files s') m = (m \<noteq> n \<and> dict_has (fc2_files s) m)" by blast
    have v: "fc2_view s n = Some (c, v)" using some by (simp add: fc2_view_def)
    show ?thesis using some lock i r s' v
      by (auto simp: fc2_get_path_def lock_file_def fresh_def which_timeout_def)
  qed
qed

interpretation directory: expiring_cache fc2_store fc2_get fc2_name fc2_view fc2_timeout fc2_inv
proof
  fix s :: "'v file_cache2" and now key and v :: 'v assume i: "fc2_inv s"
  let ?n = "fc2_name key"
  let ?s = "s\<lparr>fc2_files := AList.update ?n (Pickled now v) (AList.update (lock_name ?n) EmptyFile (fc2_files s))\<rparr>"
  have "fc2_inv ?s"
  proof (rule fc2_invI)
    fix m t w assume "map_of (fc2_files ?s) m = Some (Pickled t w)"
    then have "m = ?n \<or> map_of (fc2_files s) m = Some (Pickled t w)" by (auto split: if_splits)
    with fc2_invD(1) [OF i, of m t w] show "entry_name m \<and> dict_has (fc2_files ?s) (lock_name m)"
      by (auto simp: dict_has_def)
  qed (use fc2_invD(2) [OF i] in \<open>auto split: if_splits\<close>)
  moreover have "fc2_view ?s = (fc2_view s)(?n \<mapsto> (now, v))"
  proof
    fix m show "fc2_view ?s m = ((fc2_view s)(?n \<mapsto> (now, v))) m"
      using lock_no_entry [OF i, of ?n] by (auto simp: fc2_view_def)
  qed
  ultimately show "\<exists>s'. fc2_store now key v s = (s', Inr ()) \<and> fc2_inv s' \<and> fc2_timeout s' = fc2_timeout s \<and>
      fc2_view s' = (fc2_view s)(?n \<mapsto> (now, v))"
    by (intro exI [of _ ?s]) (simp add: fc2_store_def lock_file_def)
next
  fix s :: "'v file_cache2" and now key t and r :: "'v option"
  assume i: "fc2_inv s" and r: "r = fresh now (which_timeout t (fc2_timeout s)) (fc2_view s (fc2_name key))"
  from fc2_get_path_law [OF i fc2_name_entry r]
  show "\<exists>s'. fc2_get now key t s = (s', Inr r) \<and> fc2_inv s' \<and> fc2_timeout s' = fc2_timeout s \<and>
      fc2_view s' = (if r = None then (fc2_view s)(fc2_name key := None) else fc2_view s)"
    by (auto simp: fc2_get_def)
qed

section \<open>Both caches under the same operations\<close>

datatype 'v cache_op = Store int string 'v | Get int string "int option"

fun op_key :: "'v cache_op \<Rightarrow> string" where
  "op_key (Store now k v) = k"
| "op_key (Get now k t) = k"

text \<open>The answers of a sequence of operations; storing answers nothing.\<close>

fun answers ::
    "(int \<Rightarrow> string \<Rightarrow> 'v \<Rightarrow> 's \<Rightarrow> 's \<times> unit res) \<Rightarrow> (int \<Rightarrow> string \<Rightarrow> int option \<Rightarrow> 's \<Rightarrow> 's \<times> 'v option res) \<Rightarrow>
     'v cache_op list \<Rightarrow> 's \<Rightarrow> 'v option res list" where
  "answers st gt [] s = []"
| "answers st gt (Store now k v # ops) s =
     (case st now k v s of (s1, r) \<Rightarrow> rbind r (\<lambda>_. Inr None) # answers st gt ops s1)"
| "answers st gt (Get now k t # ops) s = (case gt now k t s of (s1, r) \<Rightarrow> r # answers st gt ops s1)"

locale cache_pair =
  A: expiring_cache storeA getA slotA viewA timeoutA invA +
  B: expiring_cache storeB getB slotB viewB timeoutB invB
  for storeA :: "int \<Rightarrow> string \<Rightarrow> 'v \<Rightarrow> 's \<Rightarrow> 's \<times> unit res" and getA and slotA :: "string \<Rightarrow> 'k"
    and viewA and timeoutA and invA
    and storeB :: "int \<Rightarrow> string \<Rightarrow> 'v \<Rightarrow> 't \<Rightarrow> 't \<times> unit res" and getB and slotB :: "string \<Rightarrow> 'l"
    and viewB and timeoutB and invB
begin

lemma same_answers:
  assumes "invA a" "invB b" "timeoutA a = timeoutB b"
    and "\<forall>k \<in> K. viewA a (slotA k) = viewB b (slotB k)"
    and "inj_on slotA K" "inj_on slotB K" "op_key ` set ops \<subseteq> K"
  shows "answers storeA getA ops a = answers storeB getB ops b"
  using assms(1-4,7)
proof (induction ops arbitrary: a b)
  case (Cons x ops)
  have iA: "k \<in> K \<Longrightarrow> k' \<in> K \<Longrightarrow> slotA k = slotA k' \<longleftrightarrow> k = k'" for k k' using assms(5) by (auto simp: inj_on_def)
  have iB: "k \<in> K \<Longrightarrow> k' \<in> K \<Longrightarrow> slotB k = slotB k' \<longleftrightarrow> k = k'" for k k' using assms(6) by (auto simp: inj_on_def)
  show ?case
  proof (cases x)
    case (Store now k v)
    then have k: "k \<in> K" using Cons.prems by simp
    from A.store_law [OF Cons.prems(1), where now = now and key = k and v = v] obtain a1 where
      a: "storeA now k v a = (a1, Inr ())" "invA a1" "timeoutA a1 = timeoutA a" "viewA a1 = (viewA a)(slotA k \<mapsto> (now, v))"
      by blast
    from B.store_law [OF Cons.prems(2), where now = now and key = k and v = v] obtain b1 where
      b: "storeB now k v b = (b1, Inr ())" "invB b1" "timeoutB b1 = timeoutB b" "viewB b1 = (viewB b)(slotB k \<mapsto> (now, v))"
      by blast
    have "\<forall>k \<in> K. viewA a1 (slotA k) = viewB b1 (slotB k)" using Cons.prems(4) a(4) b(4) k by (simp add: iA iB)
    from Cons.IH [OF a(2) b(2) _ this] Cons.prems a b Store show ?thesis by simp
  next
    case (Get now k t)
    then have k: "k \<in> K" using Cons.prems by simp
    let ?r = "fresh now (which_timeout t (timeoutA a)) (viewA a (slotA k))"
    have rb: "?r = fresh now (which_timeout t (timeoutB b)) (viewB b (slotB k))" using Cons.prems(3,4) k by simp
    from A.get_law [OF Cons.prems(1), where now = now and key = k and t = t] obtain a1 where
      a: "getA now k t a = (a1, Inr ?r)" "invA a1" "timeoutA a1 = timeoutA a"
        "viewA a1 = (if ?r = None then (viewA a)(slotA k := None) else viewA a)" by blast
    from B.get_law [OF Cons.prems(2) rb] obtain b1 where
      b: "getB now k t b = (b1, Inr ?r)" "invB b1" "timeoutB b1 = timeoutB b"
        "viewB b1 = (if ?r = None then (viewB b)(slotB k := None) else viewB b)" by blast
    have "\<forall>k \<in> K. viewA a1 (slotA k) = viewB b1 (slotB k)" using Cons.prems(4) a(4) b(4) k by (simp add: iA iB)
    from Cons.IH [OF a(2) b(2) _ this] Cons.prems a b Get show ?thesis by simp
  qed
qed simp

end

interpretation memory_and_directory: cache_pair
  mc_store mc_get id mc_view mc_timeout mc_inv fc2_store fc2_get fc2_name fc2_view fc2_timeout fc2_inv ..

section \<open>Cleaning up\<close>

lemma fc2_entries_iff: "n \<in> set (fc2_entries c) \<longleftrightarrow> entry_name n \<and> dict_has (fc2_files c) n"
  by (auto simp: fc2_entries_def entry_name_def dict_has_iff)

lemma cleanup_loop:
  assumes "fc2_inv s" "\<forall>n \<in> set ns. entry_name n"
  shows "\<exists>s'. fc2_for (\<lambda>n. fc2_get_path now n None) ns s = (s', Inr ()) \<and> fc2_inv s' \<and>
    fc2_timeout s' = fc2_timeout s \<and>
    (\<forall>n. fc2_view s' n = (if n \<in> set ns \<and> fresh now (fc2_timeout s) (fc2_view s n) = None then None else fc2_view s n))"
  using assms
proof (induction ns arbitrary: s)
  case (Cons n ns)
  let ?r = "fresh now (which_timeout None (fc2_timeout s)) (fc2_view s n)"
  from fc2_get_path_law [OF Cons.prems(1), of n ?r now None] Cons.prems(2) obtain s1 where
    s1: "fc2_get_path now n None s = (s1, Inr ?r)" "fc2_inv s1" "fc2_timeout s1 = fc2_timeout s"
      "fc2_view s1 = (if ?r = None then (fc2_view s)(n := None) else fc2_view s)" by auto
  from Cons.IH [OF s1(2)] Cons.prems(2) obtain s2 where
    s2: "fc2_for (\<lambda>n. fc2_get_path now n None) ns s1 = (s2, Inr ())" "fc2_inv s2" "fc2_timeout s2 = fc2_timeout s1"
      "\<And>n. fc2_view s2 n = (if n \<in> set ns \<and> fresh now (fc2_timeout s1) (fc2_view s1 n) = None then None else fc2_view s1 n)"
    by auto
  have "fc2_view s2 m = (if m \<in> set (n # ns) \<and> fresh now (fc2_timeout s) (fc2_view s m) = None then None else fc2_view s m)" for m
    unfolding s2(4) s1(3,4) by (auto simp: which_timeout_def fresh_def)
  with s1 s2 show ?case by (intro exI [of _ s2]) simp
qed simp

lemma flush_loop:
  assumes "fc2_inv s" "\<forall>n \<in> set ns. entry_name n \<and> dict_has (fc2_files s) n" "distinct ns"
  shows "\<exists>s'. fc2_for delete_file ns s = (s', Inr ()) \<and> fc2_inv s' \<and>
    (\<forall>m. entry_name m \<longrightarrow> dict_has (fc2_files s') m = (m \<notin> set ns \<and> dict_has (fc2_files s) m))"
  using assms
proof (induction ns arbitrary: s)
  case (Cons n ns)
  from delete_file_law [OF Cons.prems(1), of n] Cons.prems(2) obtain s1 where
    s1: "delete_file n s = (s1, Inr ())" "fc2_inv s1"
      "\<forall>m. entry_name m \<longrightarrow> dict_has (fc2_files s1) m = (m \<noteq> n \<and> dict_has (fc2_files s) m)" by auto
  from Cons.IH [OF s1(2)] Cons.prems(2,3) s1(3) obtain s2 where
    s2: "fc2_for delete_file ns s1 = (s2, Inr ())" "fc2_inv s2"
      "\<forall>m. entry_name m \<longrightarrow> dict_has (fc2_files s2) m = (m \<notin> set ns \<and> dict_has (fc2_files s1) m)" by auto
  with s1 show ?case by (intro exI [of _ s2]) auto
qed simp

lemma map_of_filter_values:
  "distinct (map fst xs) \<Longrightarrow> map_of (filter (\<lambda>(k, e). P e) xs) k =
     (case map_of xs k of None \<Rightarrow> None | Some e \<Rightarrow> if P e then Some e else None)"
proof (induction xs)
  case (Cons x xs)
  then show ?case by (cases x) (auto simp: map_of_eq_None_iff split: option.splits)
qed simp

section \<open>Properties\<close>

text \<open>C17: The cache in a directory behaves like the cache in memory: from empty caches with the same
  timeout, any sequence of operations at any times gets the same answers from both, provided the
  digests of the keys used do not collide.\<close>

theorem caches_agree:
  assumes "inj_on fc2_name (op_key ` set ops)"
  shows "answers fc2_store fc2_get ops \<lparr>fc2_files = [], fc2_timeout = t\<rparr> =
    answers mc_store mc_get ops (new_memory_cache t)"
  by (rule memory_and_directory.same_answers [symmetric, where K = "op_key ` set ops"])
    (use assms in \<open>simp_all add: mc_inv_def fc2_inv_def new_memory_cache_def mc_view_def fc2_view_def\<close>)

theorem caches_agree_witness:
  "answers fc2_store fc2_get [Store 100 ''k'' (7::nat), Get 159 ''k'' None, Get 160 ''k'' None]
     \<lparr>fc2_files = [], fc2_timeout = 60\<rparr> = [Inr None, Inr (Some 7), Inr None]"
  using caches_agree [of "[Store 100 ''k'' (7::nat), Get 159 ''k'' None, Get 160 ''k'' None]" 60]
  by (simp add: new_memory_cache_def mc_store_def mc_get_def is_expired_def)

text \<open>Cleaning up removes exactly what is out of date, in memory and in a directory in good order,
  and never fails; flushing leaves no entry behind.\<close>

theorem cleanup_exact:
  assumes "mc_inv m" and "fc2_inv d" and "distinct (map fst (fc2_files d))"
  shows "mc_view (mc_cleanup now m) k =
      (if fresh now (mc_timeout m) (mc_view m k) = None then None else mc_view m k) \<and>
    (\<exists>d'. fc2_cleanup now d = (d', Inr ()) \<and> fc2_view d' n =
      (if fresh now (fc2_timeout d) (fc2_view d n) = None then None else fc2_view d n)) \<and>
    mc_count (mc_flush m) = 0 \<and> (\<exists>d'. fc2_flush d = (d', Inr ()) \<and> fc2_count d' = 0)"
proof (intro conjI)
  show "mc_view (mc_cleanup now m) k =
      (if fresh now (mc_timeout m) (mc_view m k) = None then None else mc_view m k)"
    using map_of_filter_values [of "mc_entries m" "\<lambda>e. \<not> is_expired now e (mc_timeout m)" k] assms(1)
    by (auto simp: mc_view_def mc_cleanup_def mc_inv_def fresh_def split: option.split)
  from cleanup_loop [OF assms(2), of "fc2_entries d" now] obtain d' where
    d: "fc2_cleanup now d = (d', Inr ())"
      "fc2_view d' n = (if n \<in> set (fc2_entries d) \<and> fresh now (fc2_timeout d) (fc2_view d n) = None then None else fc2_view d n)"
    by (auto simp: fc2_cleanup_def fc2_entries_iff)
  have "fc2_view d n = None" if "n \<notin> set (fc2_entries d)"
    using that fc2_invD(1) [OF assms(2), of n]
    by (auto simp: fc2_view_def fc2_entries_iff dict_has_def split: option.split cached_file.split)
  with d show "\<exists>d'. fc2_cleanup now d = (d', Inr ()) \<and> fc2_view d' n =
      (if fresh now (fc2_timeout d) (fc2_view d n) = None then None else fc2_view d n)" by auto
  show "mc_count (mc_flush m) = 0" by (simp add: mc_count_def mc_flush_def)
  have "distinct (fc2_entries d)" using assms(3) by (simp add: fc2_entries_def)
  with flush_loop [OF assms(2), of "fc2_entries d"] obtain d' where
    f: "fc2_flush d = (d', Inr ())"
      "\<forall>m. entry_name m \<longrightarrow> dict_has (fc2_files d') m = (m \<notin> set (fc2_entries d) \<and> dict_has (fc2_files d) m)"
    by (auto simp: fc2_flush_def fc2_entries_iff)
  then have "n \<notin> set (fc2_entries d')" for n by (simp add: fc2_entries_iff)
  then have "fc2_entries d' = []" by (metis list.set_intros(1) neq_Nil_conv)
  with f(1) show "\<exists>d'. fc2_flush d = (d', Inr ()) \<and> fc2_count d' = 0" by (auto simp: fc2_count_def)
qed

theorem cleanup_exact_witness:
  "mc_view (mc_cleanup 200 \<lparr>mc_entries = [(''a'', 100, 1), (''b'', 190, 2::nat)], mc_timeout = 60\<rparr>) ''a'' = None"
  using cleanup_exact [of "\<lparr>mc_entries = [(''a'', 100, 1), (''b'', 190, 2::nat)], mc_timeout = 60\<rparr>"
      "\<lparr>fc2_files = [], fc2_timeout = 60\<rparr> :: nat file_cache2" 200 "''a''"]
  by (simp add: mc_inv_def fc2_inv_def mc_view_def fresh_def is_expired_def)

end
