(* ===== verification/TweepyCursor.thy ===== *)
theory TweepyCursor
  imports Prelude
begin

text \<open>
  Pagination in Tweepy (\<open>socialnet/tweepy/tweepy/cursor.py\<close>): the iterators over pages by cursor and
  by page number, and the iterator over the items of their pages. A method of the Twitter interface
  is a function of the cursor or page number and of the world (the network and everything else its
  requests change), which the iterator carries along.
\<close>

section \<open>The iterators\<close>

text \<open>A method with cursors answers a page together with the previous and the next cursor.\<close>

type_synonym ('w, 'a) cursor_method = "int \<Rightarrow> 'w \<Rightarrow> 'w \<times> ('a list \<times> int \<times> int) res"

type_synonym ('w, 'a) page_method = "int \<Rightarrow> 'w \<Rightarrow> 'w \<times> 'a list res"

record 'w cursor_iter =
  ci_world :: 'w
  ci_limit :: int
  ci_next :: int
  ci_prev :: int
  ci_count :: int

definition new_cursor_iter :: "'w \<Rightarrow> 'w cursor_iter" where
  "new_cursor_iter w = \<lparr>ci_world = w, ci_limit = 0, ci_next = -1, ci_prev = 0, ci_count = 0\<rparr>"

definition cursor_next ::
    "('w, 'a) cursor_method \<Rightarrow> 'w cursor_iter \<Rightarrow> 'w cursor_iter \<times> 'a list res" where
  "cursor_next m it =
     (if ci_next it = 0 \<or> ci_limit it \<noteq> 0 \<and> ci_count it = ci_limit it then (it, Inl StopIteration)
      else
        (case m (ci_next it) (ci_world it) of
           (w, Inl e) \<Rightarrow> (it\<lparr>ci_world := w\<rparr>, Inl e)
         | (w, Inr (data, prev, nxt)) \<Rightarrow>
             let it1 = it\<lparr>ci_world := w, ci_prev := prev, ci_next := nxt\<rparr> in
             if data = [] then (it1, Inl StopIteration)
             else (it1\<lparr>ci_count := ci_count it + 1\<rparr>, Inr data)))"

text \<open>\<open>prev\<close> unpacks the answer, a pair, into three variables.\<close>

definition cursor_prev ::
    "('w, 'a) cursor_method \<Rightarrow> 'w cursor_iter \<Rightarrow> 'w cursor_iter \<times> 'a list res" where
  "cursor_prev m it =
     (if ci_prev it = 0 then (it, Inl (TweepError ''Can not page back more, at first page''))
      else
        (case m (ci_prev it) (ci_world it) of
           (w, Inl e) \<Rightarrow> (it\<lparr>ci_world := w\<rparr>, Inl e)
         | (w, Inr _) \<Rightarrow> (it\<lparr>ci_world := w\<rparr>, Inl (ValueError ''need more than 2 values to unpack''))))"

record 'w page_iter =
  pi_world :: 'w
  pi_limit :: int
  pi_page :: int

definition new_page_iter :: "'w \<Rightarrow> 'w page_iter" where
  "new_page_iter w = \<lparr>pi_world = w, pi_limit = 0, pi_page = 0\<rparr>"

definition page_next :: "('w, 'a) page_method \<Rightarrow> 'w page_iter \<Rightarrow> 'w page_iter \<times> 'a list res" where
  "page_next m it =
     (let p = pi_page it + 1 in
      case m p (pi_world it) of
        (w, Inl e) \<Rightarrow> (it\<lparr>pi_world := w, pi_page := p\<rparr>, Inl e)
      | (w, Inr items) \<Rightarrow>
          (it\<lparr>pi_world := w, pi_page := p\<rparr>,
           if items = [] \<or> 0 < pi_limit it \<and> pi_limit it < p then Inl StopIteration else Inr items))"

definition page_prev :: "('w, 'a) page_method \<Rightarrow> 'w page_iter \<Rightarrow> 'w page_iter \<times> 'a list res" where
  "page_prev m it =
     (if pi_page it = 1 then (it, Inl (TweepError ''Can not page back more, at first page''))
      else
        (let p = pi_page it - 1 in
         case m p (pi_world it) of (w, r) \<Rightarrow> (it\<lparr>pi_world := w, pi_page := p\<rparr>, r)))"

record ('p, 'a) item_iter =
  ii_pages :: 'p
  ii_limit :: int
  ii_page :: "'a list option"
  ii_index :: int
  ii_count :: int

definition new_item_iter :: "'p \<Rightarrow> ('p, 'a) item_iter" where
  "new_item_iter p = \<lparr>ii_pages = p, ii_limit = 0, ii_page = None, ii_index = -1, ii_count = 0\<rparr>"

definition item_next ::
    "('p \<Rightarrow> 'p \<times> 'a list res) \<Rightarrow> ('p, 'a) item_iter \<Rightarrow> ('p, 'a) item_iter \<times> 'a res" where
  "item_next nxt it =
     (if 0 < ii_limit it \<and> ii_count it = ii_limit it then (it, Inl StopIteration)
      else
        (case (if ii_page it = None \<or> ii_index it = int (length (the (ii_page it))) - 1
               then (case nxt (ii_pages it) of
                       (p, Inl e) \<Rightarrow> (it\<lparr>ii_pages := p\<rparr>, Inl e)
                     | (p, Inr xs) \<Rightarrow> (it\<lparr>ii_pages := p, ii_page := Some xs, ii_index := -1\<rparr>, Inr ()))
               else (it, Inr ())) of
           (it1, Inl e) \<Rightarrow> (it1, Inl e)
         | (it1, Inr _) \<Rightarrow>
             (let i = ii_index it1 + 1 in
              (it1\<lparr>ii_index := i, ii_count := ii_count it1 + 1\<rparr>, list_at (the (ii_page it1)) i))))"

definition item_prev ::
    "('p \<Rightarrow> 'p \<times> 'a list res) \<Rightarrow> ('p, 'a) item_iter \<Rightarrow> ('p, 'a) item_iter \<times> 'a res" where
  "item_prev prv it =
     (if ii_page it = None then (it, Inl (TweepError ''Can not go back more, at first page''))
      else
        (case (if ii_index it = 0
               then (case prv (ii_pages it) of
                       (p, Inl e) \<Rightarrow> (it\<lparr>ii_pages := p\<rparr>, Inl e)
                     | (p, Inr xs) \<Rightarrow>
                         (it\<lparr>ii_pages := p, ii_page := Some xs, ii_index := int (length xs)\<rparr>,
                          if xs = [] then Inl (TweepError ''No more items'') else Inr ()))
               else (it, Inr ())) of
           (it1, Inl e) \<Rightarrow> (it1, Inl e)
         | (it1, Inr _) \<Rightarrow>
             (let i = ii_index it1 - 1 in
              (it1\<lparr>ii_index := i, ii_count := ii_count it1 - 1\<rparr>, list_at (the (ii_page it1)) i))))"

section \<open>Cursor\<close>

text \<open>\<open>Cursor(method)\<close>: a method without a pagination mode is refused; \<open>pages(limit)\<close> and
  \<open>items(limit)\<close>. The page iterator of a \<open>Cursor\<close> is shared by all of them.\<close>

datatype pagination = ByCursor | ByPage

datatype 'w pager = Cursors "'w cursor_iter" | Pages "'w page_iter"

definition new_cursor :: "pagination option \<Rightarrow> 'w \<Rightarrow> 'w pager res" where
  "new_cursor mode w =
     (case mode of
        None \<Rightarrow> Inl (TweepError ''This method does not perform pagination'')
      | Some ByCursor \<Rightarrow> Inr (Cursors (new_cursor_iter w))
      | Some ByPage \<Rightarrow> Inr (Pages (new_page_iter w)))"

fun cursor_pages :: "int \<Rightarrow> 'w pager \<Rightarrow> 'w pager" where
  "cursor_pages limit (Cursors it) = Cursors (if 0 < limit then it\<lparr>ci_limit := limit\<rparr> else it)"
| "cursor_pages limit (Pages it) = Pages (if 0 < limit then it\<lparr>pi_limit := limit\<rparr> else it)"

definition cursor_items :: "int \<Rightarrow> 'p \<Rightarrow> ('p, 'a) item_iter" where
  "cursor_items limit p = (new_item_iter p)\<lparr>ii_limit := limit\<rparr>"

fun pager_next ::
    "('w, 'a) cursor_method \<Rightarrow> ('w, 'a) page_method \<Rightarrow> 'w pager \<Rightarrow> 'w pager \<times> 'a list res" where
  "pager_next cm pm (Cursors it) = (case cursor_next cm it of (it', r) \<Rightarrow> (Cursors it', r))"
| "pager_next cm pm (Pages it) = (case page_next pm it of (it', r) \<Rightarrow> (Pages it', r))"

text \<open>\<open>for x in iterator\<close>, with at most so many steps: the items up to the end of the iteration, or
  the exception that ended it.\<close>

fun collect :: "('s \<Rightarrow> 's \<times> 'a res) \<Rightarrow> nat \<Rightarrow> 's \<Rightarrow> ('s \<times> 'a list res) option" where
  "collect nxt 0 s = None"
| "collect nxt (Suc n) s =
     (case nxt s of
        (s', Inl StopIteration) \<Rightarrow> Some (s', Inr [])
      | (s', Inl e) \<Rightarrow> Some (s', Inl e)
      | (s', Inr x) \<Rightarrow> map_option (\<lambda>(t, r). (t, rbind r (\<lambda>xs. Inr (x # xs)))) (collect nxt n s'))"

section \<open>What an iterator promises\<close>

text \<open>\<open>yields s xs\<close>: from state \<open>s\<close> the iteration hands out exactly \<open>xs\<close> and then stops.\<close>

locale iterator =
  fixes nxt :: "'s \<Rightarrow> 's \<times> 'a res"
    and yields :: "'s \<Rightarrow> 'a list \<Rightarrow> bool"
  assumes stops: "yields s [] \<Longrightarrow> \<exists>s'. nxt s = (s', Inl StopIteration)"
    and steps: "yields s (x # xs) \<Longrightarrow> \<exists>s'. nxt s = (s', Inr x) \<and> yields s' xs"
begin

lemma collects: "yields s xs \<Longrightarrow> length xs < n \<Longrightarrow> \<exists>s'. collect nxt n s = Some (s', Inr xs)"
proof (induction xs arbitrary: s n)
  case Nil
  then obtain k where "n = Suc k" by (cases n) auto
  with stops [OF Nil(1)] show ?case by auto
next
  case (Cons x xs)
  then obtain k where n: "n = Suc k" "length xs < k" by (cases n) auto
  from steps [OF Cons.prems(1)] obtain s1 where s1: "nxt s = (s1, Inr x)" "yields s1 xs" by blast
  from Cons.IH [OF s1(2) n(2)] obtain s2 where "collect nxt k s1 = Some (s2, Inr xs)" by blast
  with s1 n show ?case by simp
qed

end

text \<open>An iterator whose pages are never empty serves items one by one: what is left of the current
  page, then the items of the pages that follow, up to the limit.\<close>

definition item_rest :: "('p, 'a) item_iter \<Rightarrow> 'a list" where
  "item_rest it = (case ii_page it of None \<Rightarrow> [] | Some xs \<Rightarrow> drop (nat (ii_index it + 1)) xs)"

definition item_ok :: "('p, 'a) item_iter \<Rightarrow> bool" where
  "item_ok it \<longleftrightarrow> (ii_page it = None \<or>
     (\<exists>xs. ii_page it = Some xs \<and> -1 \<le> ii_index it \<and> ii_index it < int (length xs))) \<and>
     (0 < ii_limit it \<longrightarrow> ii_count it \<le> ii_limit it)"

definition capped :: "('p, 'a) item_iter \<Rightarrow> 'a list \<Rightarrow> 'a list" where
  "capped it xs = (if 0 < ii_limit it then take (nat (ii_limit it - ii_count it)) xs else xs)"

locale page_source = iterator nxt pages
  for nxt :: "'p \<Rightarrow> 'p \<times> 'a list res" and pages :: "'p \<Rightarrow> 'a list list \<Rightarrow> bool" +
  assumes full_pages: "pages p (xs # xss) \<Longrightarrow> xs \<noteq> []"
begin

definition item_yields :: "('p, 'a) item_iter \<Rightarrow> 'a list \<Rightarrow> bool" where
  "item_yields it xs \<longleftrightarrow> (\<exists>xss. pages (ii_pages it) xss \<and> item_ok it \<and>
     xs = capped it (item_rest it @ concat xss))"

lemma item_rest_step:
  assumes "item_ok it" "item_rest it = x # xs" "\<not> (0 < ii_limit it \<and> ii_count it = ii_limit it)"
  shows "item_next nxt it = (it\<lparr>ii_index := ii_index it + 1, ii_count := ii_count it + 1\<rparr>, Inr x)"
    and "item_rest (it\<lparr>ii_index := ii_index it + 1, ii_count := ii_count it + 1\<rparr>) = xs"
    and "item_ok (it\<lparr>ii_index := ii_index it + 1, ii_count := ii_count it + 1\<rparr>)"
proof -
  from assms(2) obtain p where p: "ii_page it = Some p" "drop (nat (ii_index it + 1)) p = x # xs"
    by (auto simp: item_rest_def split: option.splits)
  let ?k = "nat (ii_index it + 1)"
  have lo: "-1 \<le> ii_index it" using assms(1) p by (auto simp: item_ok_def)
  have k: "?k < length p" using p(2) by (metis drop_all list.distinct(1) not_le)
  have x: "p ! ?k = x" "drop (Suc ?k) p = xs"
    using p(2) k by (metis Cons_nth_drop_Suc list.inject)+
  have i: "int ?k = ii_index it + 1" using lo by simp
  have hi: "ii_index it + 1 < int (length p)" using k lo by linarith
  have ni: "ii_index it \<noteq> int (length p) - 1" using k lo by linarith
  have "list_at p (ii_index it + 1) = Inr x" using list_at_nat [OF k] x i by simp
  then show "item_next nxt it = (it\<lparr>ii_index := ii_index it + 1, ii_count := ii_count it + 1\<rparr>, Inr x)"
    using assms(3) p ni by (simp add: item_next_def Let_def)
  have "nat (ii_index it + 1 + 1) = Suc ?k" using lo by linarith
  then show "item_rest (it\<lparr>ii_index := ii_index it + 1, ii_count := ii_count it + 1\<rparr>) = xs"
    using p x by (simp add: item_rest_def)
  show "item_ok (it\<lparr>ii_index := ii_index it + 1, ii_count := ii_count it + 1\<rparr>)"
    using assms(1,3) p lo hi by (auto simp: item_ok_def)
qed

lemma item_next_page:
  assumes "item_ok it" "item_rest it = []" "\<not> (0 < ii_limit it \<and> ii_count it = ii_limit it)"
  shows "nxt (ii_pages it) = (p, Inl e) \<Longrightarrow> item_next nxt it = (it\<lparr>ii_pages := p\<rparr>, Inl e)"
    and "nxt (ii_pages it) = (p, Inr ys) \<Longrightarrow>
      item_next nxt it = item_next nxt (it\<lparr>ii_pages := p, ii_page := Some ys, ii_index := -1\<rparr>) \<or> ys = []"
proof -
  have e: "ii_page it = None \<or> ii_index it = int (length (the (ii_page it))) - 1"
    using assms(1,2) by (auto simp: item_ok_def item_rest_def)
  show "nxt (ii_pages it) = (p, Inl e) \<Longrightarrow> item_next nxt it = (it\<lparr>ii_pages := p\<rparr>, Inl e)"
    using e assms(3) by (auto simp: item_next_def)
  show "nxt (ii_pages it) = (p, Inr ys) \<Longrightarrow>
      item_next nxt it = item_next nxt (it\<lparr>ii_pages := p, ii_page := Some ys, ii_index := -1\<rparr>) \<or> ys = []"
    using e assms(3) by (auto simp: item_next_def)
qed

lemma item_stops: "item_yields it [] \<Longrightarrow> \<exists>it'. item_next nxt it = (it', Inl StopIteration)"
proof -
  assume "item_yields it []"
  then obtain xss where y: "pages (ii_pages it) xss" "item_ok it" "capped it (item_rest it @ concat xss) = []"
    by (auto simp: item_yields_def)
  show ?thesis
  proof (cases "0 < ii_limit it \<and> ii_count it = ii_limit it")
    case True
    then show ?thesis by (auto simp: item_next_def)
  next
    case False
    with y have "item_rest it @ concat xss = []"
      by (auto simp: capped_def item_ok_def split: if_splits)
    then have r: "item_rest it = []" and "concat xss = []" by simp_all
    with y(1) have "xss = []" using full_pages by (cases xss) auto
    with stops y(1) obtain p where "nxt (ii_pages it) = (p, Inl StopIteration)" by blast
    with item_next_page(1) [OF y(2) r False] show ?thesis by blast
  qed
qed

lemma item_steps: "item_yields it (x # xs) \<Longrightarrow> \<exists>it'. item_next nxt it = (it', Inr x) \<and> item_yields it' xs"
proof -
  assume "item_yields it (x # xs)"
  then obtain xss where y: "pages (ii_pages it) xss" "item_ok it" "capped it (item_rest it @ concat xss) = x # xs"
    by (auto simp: item_yields_def)
  have nl: "\<not> (0 < ii_limit it \<and> ii_count it = ii_limit it)" using y(3) by (auto simp: capped_def)
  have cap: "capped (t\<lparr>ii_index := i, ii_count := ii_count t + 1\<rparr>) ys = xs"
    if "capped t (x # ys) = x # xs" "item_ok t" "\<not> (0 < ii_limit t \<and> ii_count t = ii_limit t)"
    for t :: "('p, 'a) item_iter" and i ys
  proof (cases "0 < ii_limit t")
    case True
    with that(2,3) have "ii_count t < ii_limit t" by (auto simp: item_ok_def)
    then have "nat (ii_limit t - ii_count t) = Suc (nat (ii_limit t - (ii_count t + 1)))" by linarith
    with that(1) True show ?thesis by (simp add: capped_def)
  qed (use that(1) in \<open>simp add: capped_def\<close>)
  have head: "ys = x # tl ys" if "capped it ys = x # xs" for ys
    using that by (cases ys) (auto simp: capped_def take_Cons' split: if_splits)
  show ?thesis
  proof (cases "item_rest it")
    case (Cons z zs)
    with head [OF y(3)] have z: "z = x" by simp
    note st = item_rest_step [OF y(2) Cons nl]
    have "capped it (x # zs @ concat xss) = x # xs" using y(3) Cons z by simp
    from cap [OF this y(2) nl] st z y(1) show ?thesis
      by (auto simp: item_yields_def)
  next
    case Nil
    have ne: "concat xss \<noteq> []" using y(3) Nil head [OF y(3)] by (cases "concat xss") auto
    then obtain ys yss where c: "xss = ys # yss" by (cases xss) auto
    from steps y(1) c obtain p where p: "nxt (ii_pages it) = (p, Inr ys)" "pages p yss" by blast
    have yn: "ys \<noteq> []" using full_pages y(1) c by blast
    let ?t = "it\<lparr>ii_pages := p, ii_page := Some ys, ii_index := -1\<rparr>"
    have t: "item_ok ?t" "item_rest ?t = ys" "\<not> (0 < ii_limit ?t \<and> ii_count ?t = ii_limit ?t)"
      using y(2) yn nl by (auto simp: item_ok_def item_rest_def)
    have same: "capped ?t zs = capped it zs" for zs by (simp add: capped_def)
    from yn obtain z zs where ys: "ys = z # zs" by (cases ys) auto
    with head [OF y(3)] Nil c have z: "z = x" by simp
    have r: "item_rest ?t = x # zs" using t(2) ys z by simp
    note st = item_rest_step [OF t(1) r t(3)]
    have "capped ?t (x # zs @ concat yss) = x # xs" using y(3) Nil c ys z same by simp
    from cap [OF this t(1) t(3)]
    have "item_yields (?t\<lparr>ii_index := ii_index ?t + 1, ii_count := ii_count ?t + 1\<rparr>) xs"
      using st(2,3) p(2) by (auto simp: item_yields_def)
    moreover have "item_next nxt it = item_next nxt ?t"
      using item_next_page(2) [OF y(2) Nil nl p(1)] yn by simp
    ultimately show ?thesis using st(1) z by auto
  qed
qed

end

sublocale page_source \<subseteq> items: iterator "item_next nxt" item_yields
  by unfold_locales (fact item_stops item_steps)+

section \<open>The two page iterators keep the promise\<close>

text \<open>A server with pages: what it answers for a page number does not depend on the world.\<close>

definition serves :: "('w, 'a) page_method \<Rightarrow> 'a list list \<Rightarrow> bool" where
  "serves m ps \<longleftrightarrow> [] \<notin> set ps \<and> (\<forall>n w. \<exists>w'. m (int n + 1) w = (w', Inr (if n < length ps then ps ! n else [])))"

definition first_of :: "int \<Rightarrow> 'x list \<Rightarrow> 'x list" where
  "first_of limit ps = (if 0 < limit then take (nat limit) ps else ps)"

definition page_yields :: "('w, 'a) page_method \<Rightarrow> 'w page_iter \<Rightarrow> 'a list list \<Rightarrow> bool" where
  "page_yields m it xss \<longleftrightarrow> (\<exists>ps. serves m ps \<and> 0 \<le> pi_page it \<and>
     xss = drop (nat (pi_page it)) (first_of (pi_limit it) ps))"

lemma page_next_serves:
  assumes "serves m ps" "0 \<le> pi_page it"
  shows "\<exists>w. page_next m it = (it\<lparr>pi_world := w, pi_page := pi_page it + 1\<rparr>,
    if nat (pi_page it) < length (first_of (pi_limit it) ps) then Inr (ps ! nat (pi_page it))
    else Inl StopIteration)"
proof -
  let ?n = "nat (pi_page it)"
  obtain w where w: "m (pi_page it + 1) (pi_world it) = (w, Inr (if ?n < length ps then ps ! ?n else []))"
    using assms unfolding serves_def by (metis int_nat_eq)
  have ne: "?n < length ps \<Longrightarrow> ps ! ?n \<noteq> []" using assms(1) by (auto simp: serves_def in_set_conv_nth)
  have "?n < length (first_of (pi_limit it) ps) \<longleftrightarrow>
      ?n < length ps \<and> \<not> (0 < pi_limit it \<and> pi_limit it < pi_page it + 1)"
    using assms(2) by (auto simp: first_of_def)
  with w ne show ?thesis by (auto simp: page_next_def Let_def)
qed

interpretation by_page: page_source "page_next m" "page_yields m" for m :: "('w, 'a) page_method"
proof
  fix it :: "'w page_iter"
  assume "page_yields m it []"
  then obtain ps where p: "serves m ps" "0 \<le> pi_page it" "drop (nat (pi_page it)) (first_of (pi_limit it) ps) = []"
    by (auto simp: page_yields_def)
  then show "\<exists>s'. page_next m it = (s', Inl StopIteration)"
    using page_next_serves [OF p(1,2)] by (auto simp: not_less)
next
  fix it :: "'w page_iter" and x xs
  assume "page_yields m it (x # xs)"
  then obtain ps where p: "serves m ps" "0 \<le> pi_page it" and d: "drop (nat (pi_page it)) (first_of (pi_limit it) ps) = x # xs"
    by (auto simp: page_yields_def)
  let ?f = "first_of (pi_limit it) ps" and ?n = "nat (pi_page it)"
  have n: "?n < length ?f" using d by (metis drop_all list.distinct(1) not_le)
  have f: "?f ! ?n = x" "drop (Suc ?n) ?f = xs"
    using d n by (metis Cons_nth_drop_Suc list.inject)+
  have "ps ! ?n = x" using f(1) n by (auto simp: first_of_def split: if_splits)
  with page_next_serves [OF p] n obtain w where
    w: "page_next m it = (it\<lparr>pi_world := w, pi_page := pi_page it + 1\<rparr>, Inr x)" by auto
  moreover have "page_yields m (it\<lparr>pi_world := w, pi_page := pi_page it + 1\<rparr>) xs"
    using p f(2) by (auto simp: page_yields_def nat_add_distrib)
  ultimately show "\<exists>s'. page_next m it = (s', Inr x) \<and> page_yields m s' xs" by blast
next
  fix it :: "'w page_iter" and xs xss
  assume "page_yields m it (xs # xss)"
  then obtain ps where p: "serves m ps" and d: "drop (nat (pi_page it)) (first_of (pi_limit it) ps) = xs # xss"
    by (auto simp: page_yields_def)
  then have "xs \<in> set ps" by (metis first_of_def in_set_dropD in_set_takeD list.set_intros(1))
  with p show "xs \<noteq> []" by (auto simp: serves_def)
qed

text \<open>A server with cursors: the pages from a cursor on, up to the cursor zero.\<close>

inductive cursor_chain :: "('w, 'a) cursor_method \<Rightarrow> int \<Rightarrow> 'a list list \<Rightarrow> bool" for m where
  chain_end: "cursor_chain m 0 []"
| chain_page: "c \<noteq> 0 \<Longrightarrow> (\<And>w. \<exists>w' prev. m c w = (w', Inr (p, prev, c'))) \<Longrightarrow> p \<noteq> [] \<Longrightarrow>
    cursor_chain m c' ps \<Longrightarrow> cursor_chain m c (p # ps)"

inductive_cases chain_NilE: "cursor_chain m c []"
inductive_cases chain_ConsE: "cursor_chain m c (p # ps)"

lemma chain_pages_full: "cursor_chain m c ps \<Longrightarrow> [] \<notin> set ps"
  by (induction rule: cursor_chain.induct) auto

definition cursor_yields :: "('w, 'a) cursor_method \<Rightarrow> 'w cursor_iter \<Rightarrow> 'a list list \<Rightarrow> bool" where
  "cursor_yields m it xss \<longleftrightarrow> (\<exists>ps. cursor_chain m (ci_next it) ps \<and>
     (if 0 < ci_limit it then ci_count it \<le> ci_limit it \<and> xss = take (nat (ci_limit it - ci_count it)) ps
      else ci_limit it = 0 \<and> xss = ps))"

interpretation by_cursor: page_source "cursor_next m" "cursor_yields m" for m :: "('w, 'a) cursor_method"
proof
  fix it :: "'w cursor_iter"
  assume "cursor_yields m it []"
  then obtain ps where "cursor_chain m (ci_next it) ps"
    "ci_count it = ci_limit it \<and> 0 < ci_limit it \<or> ps = []"
    by (auto simp: cursor_yields_def split: if_splits)
  then have "ci_next it = 0 \<or> ci_limit it \<noteq> 0 \<and> ci_count it = ci_limit it"
    by (auto elim: chain_NilE)
  then show "\<exists>s'. cursor_next m it = (s', Inl StopIteration)" by (simp add: cursor_next_def)
next
  fix it :: "'w cursor_iter" and x xs
  assume y: "cursor_yields m it (x # xs)"
  then obtain ps where c: "cursor_chain m (ci_next it) (x # ps)" and
    l: "if 0 < ci_limit it then ci_count it < ci_limit it \<and> xs = take (nat (ci_limit it - (ci_count it + 1))) ps
        else ci_limit it = 0 \<and> xs = ps"
  proof -
    obtain qs where qs: "cursor_chain m (ci_next it) qs"
      "if 0 < ci_limit it then ci_count it \<le> ci_limit it \<and> x # xs = take (nat (ci_limit it - ci_count it)) qs
       else ci_limit it = 0 \<and> x # xs = qs"
      using y by (auto simp: cursor_yields_def)
    then obtain q ps where q: "qs = q # ps" by (cases qs) (auto split: if_splits)
    show ?thesis
    proof (cases "0 < ci_limit it")
      case True
      with qs q have lt: "ci_count it < ci_limit it" by (cases "ci_count it = ci_limit it") auto
      then have "nat (ci_limit it - ci_count it) = Suc (nat (ci_limit it - (ci_count it + 1)))" by linarith
      with qs q True lt that [of ps] show ?thesis by simp
    qed (use qs q that [of ps] in auto)
  qed
  obtain c' where nz: "ci_next it \<noteq> 0" and m: "\<And>w. \<exists>w' prev. m (ci_next it) w = (w', Inr (x, prev, c'))"
    and x: "x \<noteq> []" and rest: "cursor_chain m c' ps"
    by (rule chain_ConsE [OF c]) blast
  from m [of "ci_world it"] obtain w prev where w: "m (ci_next it) (ci_world it) = (w, Inr (x, prev, c'))" by blast
  let ?it = "it\<lparr>ci_world := w, ci_prev := prev, ci_next := c', ci_count := ci_count it + 1\<rparr>"
  have "\<not> (ci_limit it \<noteq> 0 \<and> ci_count it = ci_limit it)" using l by (auto split: if_splits)
  with nz w x have "cursor_next m it = (?it, Inr x)" by (auto simp: cursor_next_def Let_def)
  moreover have "cursor_yields m ?it xs" using rest l by (auto simp: cursor_yields_def split: if_splits)
  ultimately show "\<exists>s'. cursor_next m it = (s', Inr x) \<and> cursor_yields m s' xs" by blast
next
  fix it :: "'w cursor_iter" and xs xss
  assume "cursor_yields m it (xs # xss)"
  then obtain ps where "cursor_chain m (ci_next it) ps" "xs \<in> set ps"
    by (auto simp: cursor_yields_def split: if_splits) (metis in_set_takeD list.set_intros(1))+
  then show "xs \<noteq> []" using chain_pages_full by blast
qed

section \<open>Going back\<close>

text \<open>Position \<open>k\<close>: that many items of the pages were handed out, the last one from the page that is
  current.\<close>

definition item_at :: "'a list list \<Rightarrow> nat \<Rightarrow> ('w page_iter, 'a) item_iter \<Rightarrow> bool" where
  "item_at ps k it \<longleftrightarrow> ii_limit it \<le> 0 \<and> pi_limit (ii_pages it) \<le> 0 \<and>
     (\<exists>j i. j < length ps \<and> i < length (ps ! j) \<and> ii_page it = Some (ps ! j) \<and> ii_index it = int i \<and>
        pi_page (ii_pages it) = int j + 1 \<and> k = length (concat (take j ps)) + i + 1)"

lemma item_atI:
  "ii_limit it \<le> 0 \<Longrightarrow> pi_limit (ii_pages it) \<le> 0 \<Longrightarrow> j < length ps \<Longrightarrow> i < length (ps ! j) \<Longrightarrow>
   ii_page it = Some (ps ! j) \<Longrightarrow> ii_index it = int i \<Longrightarrow> pi_page (ii_pages it) = int j + 1 \<Longrightarrow>
   k = length (concat (take j ps)) + i + 1 \<Longrightarrow> item_at ps k it"
  unfolding item_at_def by blast

lemma concat_nth: "j < length ps \<Longrightarrow> i < length (ps ! j) \<Longrightarrow>
    concat ps ! (length (concat (take j ps)) + i) = ps ! j ! i"
proof -
  assume a: "j < length ps" "i < length (ps ! j)"
  have "concat ps = concat (take j ps) @ ps ! j @ concat (drop (Suc j) ps)"
    using id_take_nth_drop [OF a(1)] by (metis concat.simps(2) concat_append)
  then show ?thesis using a(2) by (simp add: nth_append)
qed

lemma item_at_next:
  assumes "serves m ps" "item_at ps k it" "k < length (concat ps)"
  shows "\<exists>it'. item_next (page_next m) it = (it', Inr (concat ps ! k)) \<and> item_at ps (Suc k) it'"
proof -
  from assms(2) obtain j i where a: "ii_limit it \<le> 0" "pi_limit (ii_pages it) \<le> 0" "j < length ps"
    "i < length (ps ! j)" "ii_page it = Some (ps ! j)" "ii_index it = int i"
    "pi_page (ii_pages it) = int j + 1" "k = length (concat (take j ps)) + i + 1"
    by (auto simp: item_at_def)
  show ?thesis
  proof (cases "Suc i < length (ps ! j)")
    case True
    let ?it = "it\<lparr>ii_index := ii_index it + 1, ii_count := ii_count it + 1\<rparr>"
    have "list_at (ps ! j) (int i + 1) = Inr (ps ! j ! Suc i)" using list_at_nat [OF True] by (simp add: add.commute)
    then have "item_next (page_next m) it = (?it, Inr (concat ps ! k))"
      using a True concat_nth [OF a(3) True] by (simp add: item_next_def Let_def)
    moreover have "item_at ps (Suc k) ?it"
      using a True by (intro item_atI [where j = j and i = "Suc i"]) simp_all
    ultimately show ?thesis by blast
  next
    case False
    then have i: "Suc i = length (ps ! j)" using a(4) by simp
    have k: "k = length (concat (take (Suc j) ps))" using a(3,8) i by (simp add: take_Suc_conv_app_nth)
    then have j: "Suc j < length ps" using assms(3) by (cases "Suc j < length ps") auto
    have ne: "0 < length (ps ! Suc j)" using assms(1) j by (auto simp: serves_def in_set_conv_nth)
    obtain w where w: "page_next m (ii_pages it) =
        ((ii_pages it)\<lparr>pi_world := w, pi_page := 2 + int j\<rparr>, Inr (ps ! Suc j))"
      using page_next_serves [OF assms(1), of "ii_pages it"] a(2,7) j
      by (auto simp: first_of_def nat_add_distrib)
    let ?it = "it\<lparr>ii_pages := (ii_pages it)\<lparr>pi_world := w, pi_page := 2 + int j\<rparr>, ii_page := Some (ps ! Suc j),
        ii_index := 0, ii_count := ii_count it + 1\<rparr>"
    have "item_next (page_next m) it = (?it, Inr (concat ps ! k))"
      using a(1,5,6) i w concat_nth [OF j ne] k list_at_nat [OF ne]
      by (simp add: item_next_def Let_def)
    moreover have "item_at ps (Suc k) ?it"
      using a(1,2) j ne k by (intro item_atI [where j = "Suc j" and i = 0]) simp_all
    ultimately show ?thesis by blast
  qed
qed

lemma item_at_prev:
  assumes "serves m ps" "item_at ps (Suc (Suc k)) it"
  shows "\<exists>it'. item_prev (page_prev m) it = (it', Inr (concat ps ! k)) \<and> item_at ps (Suc k) it'"
proof -
  from assms(2) obtain j i where a: "ii_limit it \<le> 0" "pi_limit (ii_pages it) \<le> 0" "j < length ps"
    "i < length (ps ! j)" "ii_page it = Some (ps ! j)" "ii_index it = int i"
    "pi_page (ii_pages it) = int j + 1" "Suc k = length (concat (take j ps)) + i"
    by (auto simp: item_at_def)
  show ?thesis
  proof (cases i)
    case (Suc l)
    then have l: "l < length (ps ! j)" using a(4) by simp
    let ?it = "it\<lparr>ii_index := int l, ii_count := ii_count it - 1\<rparr>"
    have "item_prev (page_prev m) it = (?it, Inr (concat ps ! k))"
      using a Suc concat_nth [OF a(3) l] list_at_nat [OF l] by (simp add: item_prev_def Let_def)
    moreover have "item_at ps (Suc k) ?it"
      using a Suc l by (intro item_atI [where j = j and i = l]) simp_all
    ultimately show ?thesis by blast
  next
    case 0
    then obtain h where j: "j = Suc h" using a(8) by (cases j) auto
    then have h: "h < length ps" using a(3) by simp
    then have ne: "ps ! h \<noteq> []" using assms(1) by (auto simp: serves_def in_set_conv_nth)
    then obtain l where len: "length (ps ! h) = Suc l" by (cases "ps ! h") auto
    then have l: "l < length (ps ! h)" by simp
    have k: "k = length (concat (take h ps)) + l"
    proof -
      have "Suc k = length (concat (take h ps)) + length (ps ! h)"
        using a(8) 0 j h by (simp add: take_Suc_conv_app_nth)
      then show ?thesis using len by linarith
    qed
    obtain w where w: "m (int h + 1) (pi_world (ii_pages it)) = (w, Inr (ps ! h))"
    proof -
      have "\<exists>w. m (int h + 1) (pi_world (ii_pages it)) = (w, Inr (if h < length ps then ps ! h else []))"
        using assms(1) unfolding serves_def by blast
      with h that show ?thesis by auto
    qed
    then have pp: "page_prev m (ii_pages it) = ((ii_pages it)\<lparr>pi_world := w, pi_page := int h + 1\<rparr>, Inr (ps ! h))"
      using a(7) j by (simp add: page_prev_def Let_def add.commute)
    let ?it = "it\<lparr>ii_pages := (ii_pages it)\<lparr>pi_world := w, pi_page := int h + 1\<rparr>, ii_page := Some (ps ! h),
        ii_index := int l, ii_count := ii_count it - 1\<rparr>"
    have c: "concat ps ! k = ps ! h ! l" using concat_nth [OF h l] k by simp
    have "item_prev (page_prev m) it = (?it, Inr (concat ps ! k))"
      using a(5,6) 0 pp ne c list_at_nat [OF l] len
      by (simp add: item_prev_def Let_def)
    moreover have "item_at ps (Suc k) ?it"
      using a(1,2) h l k by (intro item_atI [where j = h and i = l]) simp_all
    ultimately show ?thesis by blast
  qed
qed

section \<open>Properties\<close>

lemma cursor_yields_items:
  assumes "cursor_chain m (-1) ps"
  shows "by_cursor.item_yields m (cursor_items limit (new_cursor_iter w)) (first_of limit (concat ps))"
  using assms
  by (auto simp: by_cursor.item_yields_def cursor_items_def new_item_iter_def new_cursor_iter_def item_ok_def
      item_rest_def capped_def first_of_def cursor_yields_def intro!: exI [of _ ps])

text \<open>C16: Iterating over a \<open>Cursor\<close> of a method with cursors is complete: if the cursors lead from
  minus one through non-empty pages to zero, the items are those of all pages in order and the pages
  are the pages, each cut off at the limit when one is given.\<close>

theorem cursor_iteration_complete:
  assumes "cursor_chain m (-1) ps" and "length (concat ps) < n" and "length ps < n" and "0 \<le> limit"
  shows "\<exists>s t. collect (item_next (cursor_next m)) n (cursor_items limit (new_cursor_iter w)) =
      Some (s, Inr (first_of limit (concat ps))) \<and>
    collect (cursor_next m) n ((new_cursor_iter w)\<lparr>ci_limit := limit\<rparr>) = Some (t, Inr (first_of limit ps))"
proof -
  note cursor_yields_items [OF assms(1), of limit w]
  moreover have "cursor_yields m ((new_cursor_iter w)\<lparr>ci_limit := limit\<rparr>) (first_of limit ps)"
    using assms(1,4) by (auto simp: cursor_yields_def new_cursor_iter_def first_of_def intro!: exI [of _ ps])
  moreover have "length (first_of limit xs) \<le> length xs" for xs :: "'x list" by (simp add: first_of_def)
  ultimately show ?thesis
    using by_cursor.items.collects [of m _ _ n] by_cursor.collects [of m _ _ n] assms(2,3)
    by (meson le_less_trans)
qed

definition two_pages :: "(unit, nat) cursor_method" where
  "two_pages c w = (w, if c = -1 then Inr ([1, 2], 0, 7) else if c = 7 then Inr ([3], -1, 0) else Inr ([], 0, 0))"

theorem cursor_iteration_complete_witness:
  "\<exists>s. collect (item_next (cursor_next two_pages)) 4 (cursor_items 0 (new_cursor_iter ())) = Some (s, Inr [1, 2, 3])"
proof -
  have "cursor_chain two_pages 7 [[3]]"
    by (rule chain_page [where c' = 0]) (auto simp: two_pages_def intro: chain_end)
  then have "cursor_chain two_pages (-1) [[1, 2], [3]]"
    by (rule chain_page [where c' = 7, rotated 3]) (auto simp: two_pages_def)
  from cursor_iteration_complete [OF this, of 4 0 "()"] show ?thesis by (auto simp: first_of_def)
qed

text \<open>Iterating over a \<open>Cursor\<close> of a method with page numbers is complete: on a server with
  non-empty pages, an empty answer following the last one, the items are those of all pages in order
  and the pages are the pages, each cut off at the limit when one is given.\<close>

theorem page_iteration_complete:
  assumes "serves m ps" and "length (concat ps) < n" and "length ps < n"
  shows "\<exists>s t. collect (item_next (page_next m)) n (cursor_items limit (new_page_iter w)) =
      Some (s, Inr (first_of limit (concat ps))) \<and>
    collect (page_next m) n ((new_page_iter w)\<lparr>pi_limit := limit\<rparr>) = Some (t, Inr (first_of limit ps))"
proof -
  have "by_page.item_yields m (cursor_items limit (new_page_iter w)) (first_of limit (concat ps))"
    using assms(1)
    by (auto simp: by_page.item_yields_def cursor_items_def new_item_iter_def new_page_iter_def item_ok_def
        item_rest_def capped_def first_of_def page_yields_def intro!: exI [of _ ps])
  moreover have "page_yields m ((new_page_iter w)\<lparr>pi_limit := limit\<rparr>) (first_of limit ps)"
    using assms(1) by (auto simp: page_yields_def new_page_iter_def intro!: exI [of _ ps])
  moreover have "length (first_of limit xs) \<le> length xs" for xs :: "'x list" by (simp add: first_of_def)
  ultimately show ?thesis
    using by_page.items.collects [of m _ _ n] by_page.collects [of m _ _ n] assms(2,3)
    by (meson le_less_trans)
qed

definition one_page :: "(unit, nat) page_method" where
  "one_page p w = (w, Inr (if p = 1 then [4, 5] else []))"

lemma one_page_serves: "serves one_page [[4, 5]]"
  by (simp add: serves_def one_page_def)

theorem page_iteration_complete_witness:
  "\<exists>s. collect (item_next (page_next one_page)) 3 (cursor_items 1 (new_page_iter ())) = Some (s, Inr [4])"
  using page_iteration_complete [OF one_page_serves, of 3 1 "()"] by (auto simp: first_of_def)

text \<open>In page mode going back undoes going forward: from a position with a current item, \<open>next\<close>
  hands out the following item, and \<open>prev\<close> then hands out the current one again and restores the
  position, across page boundaries too.\<close>

theorem item_prev_undoes_next:
  assumes "serves m ps" and "item_at ps (Suc k) it" and "Suc k < length (concat ps)"
  shows "\<exists>it1 it2. item_next (page_next m) it = (it1, Inr (concat ps ! Suc k)) \<and>
    item_prev (page_prev m) it1 = (it2, Inr (concat ps ! k)) \<and> item_at ps (Suc k) it2"
  using item_at_next [OF assms] item_at_prev [OF assms(1)] by blast

theorem item_prev_undoes_next_witness:
  "\<exists>it1 it2. item_next (page_next one_page) ((cursor_items 0 ((new_page_iter ())\<lparr>pi_page := 1\<rparr>))
       \<lparr>ii_page := Some [4, 5], ii_index := 0\<rparr>) = (it1, Inr 5) \<and>
     item_prev (page_prev one_page) it1 = (it2, Inr 4)"
proof -
  have "item_at [[4, 5]] (Suc 0) ((cursor_items 0 ((new_page_iter ())\<lparr>pi_page := 1\<rparr>))
      \<lparr>ii_page := Some [4, 5::nat], ii_index := 0\<rparr>)"
    by (rule item_atI [where j = 0 and i = 0]) (simp_all add: cursor_items_def new_item_iter_def new_page_iter_def)
  from item_prev_undoes_next [OF one_page_serves this] show ?thesis by auto
qed

text \<open>In cursor mode \<open>prev\<close> never succeeds: it fetches the page and then fails to unpack the answer.\<close>

lemma cursor_prev_fails: "\<exists>it' e. cursor_prev m it = (it', Inl e)"
  by (auto simp: cursor_prev_def split: prod.split sum.split)

end
