(* ===== verification/TweepyBinder.thy ===== *)
theory TweepyBinder
  imports TwitterApi TweepyCache TweepyCursor
begin

text \<open>
  How Tweepy turns the description of an interface method into a request
  (\<open>socialnet/tweepy/tweepy/binder.py\<close>, with \<open>convert_to_utf8_str\<close> of \<open>utils.py\<close> and the basic
  authentication of \<open>auth.py\<close>): the parameters, the path, the cache, the retries and the handling of
  the answer. The network, the clock and the sleep act on a world; the parser and the cache are the
  ones the API object was made with.
\<close>

section \<open>Descriptions, settings, environment\<close>

record endpoint =
  ep_path :: string
  ep_payload :: "string option"
  ep_list :: bool
  ep_allowed :: "string list"
  ep_method :: string
  ep_auth :: bool
  ep_search :: bool
  ep_cache :: bool

definition default_endpoint :: endpoint where
  "default_endpoint = \<lparr>ep_path = [], ep_payload = None, ep_list = False, ep_allowed = [],
     ep_method = ''GET'', ep_auth = False, ep_search = False, ep_cache = True\<rparr>"

type_synonym headers = "(string \<times> string) list"

record 'w auth_handler =
  ah_apply :: "string \<Rightarrow> string \<Rightarrow> headers \<Rightarrow> (string \<times> string) list \<Rightarrow> 'w \<Rightarrow> 'w \<times> headers res"
  ah_username :: "'w \<Rightarrow> 'w \<times> string res"

definition basic_auth :: "string \<Rightarrow> string \<Rightarrow> 'w auth_handler" where
  "basic_auth username password =
     \<lparr>ah_apply = (\<lambda>url meth hs ps w. (w, Inr (AList.update ''Authorization''
        (''Basic '' @ b64encode (username @ '':'' @ password)) hs))),
      ah_username = (\<lambda>w. (w, Inr username))\<rparr>"

record 'w tweepy_api =
  ta_auth :: "'w auth_handler option"
  ta_host :: string
  ta_search_host :: string
  ta_api_root :: string
  ta_search_root :: string
  ta_retry_count :: int
  ta_retry_delay :: int
  ta_retry_errors :: "int list option"
  ta_secure :: bool

text \<open>A response: its status and what reading its body gives.\<close>

type_synonym response = "int \<times> string res"

text \<open>The state a call changes: the world, the cache of the API object and the status of its
  \<open>last_response\<close>.\<close>

record ('w, 'c) tweepy_state =
  ts_world :: 'w
  ts_cache :: "'c option"
  ts_last :: "int option"

record ('w, 'c, 'r) tweepy_env =
  te_http :: "string \<Rightarrow> string \<Rightarrow> string \<Rightarrow> headers \<Rightarrow> string option \<Rightarrow> 'w \<Rightarrow> 'w \<times> response res"
  te_sleep :: "int \<Rightarrow> 'w \<Rightarrow> 'w \<times> unit res"
  te_now :: "'w \<Rightarrow> int"
  te_get :: "int \<Rightarrow> string \<Rightarrow> int option \<Rightarrow> 'c \<Rightarrow> 'c \<times> 'r option res"
  te_store :: "int \<Rightarrow> string \<Rightarrow> 'r \<Rightarrow> 'c \<Rightarrow> 'c \<times> unit res"
  te_parse :: "endpoint \<Rightarrow> (string \<times> string) list \<Rightarrow> string \<Rightarrow> 'r res"
  te_parse_error :: "string \<Rightarrow> string res"
  te_true :: "'r \<Rightarrow> bool"

text \<open>What a caller can override for one call.\<close>

record call_options =
  co_post_data :: "string option"
  co_retry_count :: "int option"
  co_retry_delay :: "int option"
  co_retry_errors :: "int list option option"
  co_headers :: headers

definition plain_call :: call_options where
  "plain_call = \<lparr>co_post_data = None, co_retry_count = None, co_retry_delay = None,
     co_retry_errors = None, co_headers = []\<rparr>"

section \<open>Parameters\<close>

definition convert_to_utf8_str :: "arg \<Rightarrow> string" where
  "convert_to_utf8_str a = (case a of AStr s \<Rightarrow> utf8 s | _ \<Rightarrow> fmt_s a)"

fun positional :: "string list \<Rightarrow> arg list \<Rightarrow> (string \<times> string) list \<Rightarrow> (string \<times> string) list res" where
  "positional allowed [] ps = Inr ps"
| "positional allowed (a # as) ps =
     (if a = ANone then positional (drop 1 allowed) as ps
      else case allowed of
        [] \<Rightarrow> Inl (TweepError ''Too many parameters supplied!'')
      | k # ks \<Rightarrow> positional ks as (AList.update k (convert_to_utf8_str a) ps))"

fun keyword_args :: "(string \<times> arg) list \<Rightarrow> (string \<times> string) list \<Rightarrow> (string \<times> string) list res" where
  "keyword_args [] ps = Inr ps"
| "keyword_args ((k, a) # kas) ps =
     (if a = ANone then keyword_args kas ps
      else if dict_has ps k
        then Inl (TweepError (''Multiple values for parameter '' @ k @ '' supplied!''))
      else keyword_args kas (AList.update k (convert_to_utf8_str a) ps))"

definition build_parameters ::
    "endpoint \<Rightarrow> arg list \<Rightarrow> (string \<times> arg) list \<Rightarrow> (string \<times> string) list res" where
  "build_parameters ep args kargs = rbind (positional (ep_allowed ep) args []) (keyword_args kargs)"

section \<open>Path\<close>

text \<open>The names in braces, from left to right.\<close>

fun find_vars :: "string \<Rightarrow> string list" where
  "find_vars [] = []"
| "find_vars (c # s) =
     (if c = CHR 0x7B \<and> takeWhile word_char s \<noteq> [] \<and> starts_with (dropWhile word_char s) [CHR 0x7D]
      then takeWhile word_char s # find_vars s
      else find_vars s)"

definition braced :: "string \<Rightarrow> string" where
  "braced v = CHR 0x7B # v @ [CHR 0x7D]"

fun fill_path ::
    "'w auth_handler option \<Rightarrow> string list \<Rightarrow> string \<Rightarrow> (string \<times> string) list \<Rightarrow> 'w \<Rightarrow>
     'w \<times> (string \<times> (string \<times> string) list) res" where
  "fill_path auth [] p ps w = (w, Inr (p, ps))"
| "fill_path auth (v # vs) p ps w =
     (if v = ''user'' \<and> \<not> dict_has ps v \<and> auth \<noteq> None then
        (case ah_username (the auth) w of
           (w1, Inl e) \<Rightarrow> (w1, Inl e)
         | (w1, Inr name) \<Rightarrow> fill_path auth vs (str_replace (braced v) name p) ps w1)
      else
        (case map_of ps v of
           None \<Rightarrow> (w, Inl (TweepError (''No parameter value found for path variable: '' @ v)))
         | Some x \<Rightarrow>
             fill_path auth vs (str_replace (braced v) (quote ''/'' x) p) (AList.delete v ps) w))"

definition build_path ::
    "'w auth_handler option \<Rightarrow> endpoint \<Rightarrow> (string \<times> string) list \<Rightarrow> 'w \<Rightarrow>
     'w \<times> (string \<times> (string \<times> string) list) res" where
  "build_path auth ep ps w = fill_path auth (find_vars (ep_path ep)) (ep_path ep) ps w"

section \<open>The call\<close>

record request_plan =
  rp_path :: string
  rp_params :: "(string \<times> string) list"
  rp_root :: string
  rp_scheme :: string
  rp_host :: string
  rp_headers :: headers
  rp_post :: "string option"
  rp_count :: int
  rp_delay :: int
  rp_errors :: "int list option"

text \<open>\<open>APIMethod.__init__\<close>.\<close>

definition prepare_call ::
    "'w tweepy_api \<Rightarrow> endpoint \<Rightarrow> arg list \<Rightarrow> (string \<times> arg) list \<Rightarrow> call_options \<Rightarrow> 'w \<Rightarrow>
     'w \<times> request_plan res" where
  "prepare_call api ep args kargs co w =
     (if ep_auth ep \<and> ta_auth api = None then (w, Inl (TweepError ''Authentication required!''))
      else case build_parameters ep args kargs of
        Inl e \<Rightarrow> (w, Inl e)
      | Inr ps \<Rightarrow>
          (case build_path (ta_auth api) ep ps w of
             (w1, Inl e) \<Rightarrow> (w1, Inl e)
           | (w1, Inr (p, ps1)) \<Rightarrow>
               let host = (if ep_search ep then ta_search_host api else ta_host api) in
               (w1, Inr \<lparr>rp_path = p, rp_params = ps1,
                  rp_root = (if ep_search ep then ta_search_root api else ta_api_root api),
                  rp_scheme = (if ta_secure api then ''https://'' else ''http://''),
                  rp_host = host,
                  rp_headers = AList.update ''Host'' host (co_headers co),
                  rp_post = co_post_data co,
                  rp_count = (case co_retry_count co of None \<Rightarrow> ta_retry_count api | Some n \<Rightarrow> n),
                  rp_delay = (case co_retry_delay co of None \<Rightarrow> ta_retry_delay api | Some n \<Rightarrow> n),
                  rp_errors = (case co_retry_errors co of None \<Rightarrow> ta_retry_errors api | Some es \<Rightarrow> es)\<rparr>)))"

definition request_uri :: "request_plan \<Rightarrow> string" where
  "request_uri rp =
     (if rp_params rp = [] then rp_root rp @ rp_path rp
      else rp_root rp @ rp_path rp @ ''?'' @ urlencode (rp_params rp))"

text \<open>Which status ends the loop: with a list of errors to retry, any other one; else 200 alone.\<close>

definition final_status :: "int list option \<Rightarrow> int \<Rightarrow> bool" where
  "final_status errors status =
     (case errors of
        None \<Rightarrow> status = 200
      | Some [] \<Rightarrow> status = 200
      | Some es \<Rightarrow> status \<notin> set es)"

definition apply_auth ::
    "'w tweepy_api \<Rightarrow> endpoint \<Rightarrow> request_plan \<Rightarrow> headers \<Rightarrow> 'w \<Rightarrow> 'w \<times> headers res" where
  "apply_auth api ep rp hs w =
     (case ta_auth api of
        None \<Rightarrow> (w, Inr hs)
      | Some h \<Rightarrow> ah_apply h (rp_scheme rp @ rp_host rp @ request_uri rp) (ep_method ep) hs (rp_params rp) w)"

text \<open>The loop; its first argument is the number of rounds it has left, and \<open>None\<close> is the unbound
  \<open>resp\<close> of a loop that made no round.\<close>

fun send_loop ::
    "nat \<Rightarrow> ('w, 'c, 'r) tweepy_env \<Rightarrow> 'w tweepy_api \<Rightarrow> endpoint \<Rightarrow> request_plan \<Rightarrow> response option \<Rightarrow>
     headers \<Rightarrow> 'w \<Rightarrow> 'w \<times> response option res" where
  "send_loop 0 env api ep rp resp hs w = (w, Inr resp)"
| "send_loop (Suc n) env api ep rp resp hs w =
     (case apply_auth api ep rp hs w of
        (w1, Inl e) \<Rightarrow> (w1, Inl e)
      | (w1, Inr hs1) \<Rightarrow>
          (case te_http env (rp_scheme rp @ rp_host rp) (ep_method ep) (request_uri rp) hs1 (rp_post rp) w1 of
             (w2, Inl e) \<Rightarrow> (w2, Inl (TweepError ''Failed to send request''))
           | (w2, Inr r) \<Rightarrow>
               if final_status (rp_errors rp) (fst r) then (w2, Inr (Some r))
               else case te_sleep env (rp_delay rp) w2 of
                 (w3, Inl e) \<Rightarrow> (w3, Inl e)
               | (w3, Inr _) \<Rightarrow> send_loop n env api ep rp (Some r) hs1 w3))"

definition rounds :: "int \<Rightarrow> nat" where
  "rounds retry_count = nat (retry_count + 1)"

text \<open>What the answer of the loop becomes.\<close>

definition read_response ::
    "('w, 'c, 'r) tweepy_env \<Rightarrow> endpoint \<Rightarrow> request_plan \<Rightarrow> response \<Rightarrow> 'r res" where
  "read_response env ep rp r =
     (if fst r \<noteq> 200 then
        Inl (TweepStatus
          (case rbind (snd r) (te_parse_error env) of
             Inr msg \<Rightarrow> msg
           | Inl _ \<Rightarrow> ''Twitter error response: status code = '' @ show_int (fst r)) (fst r))
      else rbind (snd r) (te_parse env ep (rp_params rp)))"

definition cacheable :: "endpoint \<Rightarrow> bool" where
  "cacheable ep \<longleftrightarrow> ep_cache ep \<and> ep_method ep = ''GET''"

definition cache_lookup ::
    "('w, 'c, 'r) tweepy_env \<Rightarrow> endpoint \<Rightarrow> request_plan \<Rightarrow> ('w, 'c) tweepy_state \<Rightarrow>
     ('w, 'c) tweepy_state \<times> 'r option res" where
  "cache_lookup env ep rp st =
     (case ts_cache st of
        None \<Rightarrow> (st, Inr None)
      | Some c \<Rightarrow>
          if cacheable ep then
            (case te_get env (te_now env (ts_world st)) (request_uri rp) None c of
               (c1, Inl e) \<Rightarrow> (st\<lparr>ts_cache := Some c1\<rparr>, Inl e)
             | (c1, Inr v) \<Rightarrow>
                 (st\<lparr>ts_cache := Some c1\<rparr>,
                  Inr (case v of Some r \<Rightarrow> if te_true env r then Some r else None | None \<Rightarrow> None)))
          else (st, Inr None))"

definition cache_result ::
    "('w, 'c, 'r) tweepy_env \<Rightarrow> endpoint \<Rightarrow> request_plan \<Rightarrow> 'r \<Rightarrow> ('w, 'c) tweepy_state \<Rightarrow>
     ('w, 'c) tweepy_state \<times> 'r res" where
  "cache_result env ep rp r st =
     (case ts_cache st of
        None \<Rightarrow> (st, Inr r)
      | Some c \<Rightarrow>
          if cacheable ep \<and> te_true env r then
            (case te_store env (te_now env (ts_world st)) (request_uri rp) r c of
               (c1, Inl e) \<Rightarrow> (st\<lparr>ts_cache := Some c1\<rparr>, Inl e)
             | (c1, Inr _) \<Rightarrow> (st\<lparr>ts_cache := Some c1\<rparr>, Inr r))
          else (st, Inr r))"

definition execute ::
    "('w, 'c, 'r) tweepy_env \<Rightarrow> 'w tweepy_api \<Rightarrow> endpoint \<Rightarrow> request_plan \<Rightarrow> ('w, 'c) tweepy_state \<Rightarrow>
     ('w, 'c) tweepy_state \<times> 'r res" where
  "execute env api ep rp st =
     (case cache_lookup env ep rp st of
        (st1, Inl e) \<Rightarrow> (st1, Inl e)
      | (st1, Inr (Some r)) \<Rightarrow> (st1, Inr r)
      | (st1, Inr None) \<Rightarrow>
          (case send_loop (rounds (rp_count rp)) env api ep rp None (rp_headers rp) (ts_world st1) of
             (w, Inl e) \<Rightarrow> (st1\<lparr>ts_world := w\<rparr>, Inl e)
           | (w, Inr None) \<Rightarrow>
               (st1\<lparr>ts_world := w\<rparr>, Inl (UnboundLocalError ''resp''))
           | (w, Inr (Some resp)) \<Rightarrow>
               let st2 = st1\<lparr>ts_world := w, ts_last := Some (fst resp)\<rparr> in
               (case read_response env ep rp resp of
                  Inl e \<Rightarrow> (st2, Inl e)
                | Inr r \<Rightarrow> cache_result env ep rp r st2)))"

text \<open>\<open>_call\<close>.\<close>

definition call_api ::
    "('w, 'c, 'r) tweepy_env \<Rightarrow> 'w tweepy_api \<Rightarrow> endpoint \<Rightarrow> arg list \<Rightarrow> (string \<times> arg) list \<Rightarrow>
     call_options \<Rightarrow> ('w, 'c) tweepy_state \<Rightarrow> ('w, 'c) tweepy_state \<times> 'r res" where
  "call_api env api ep args kargs co st =
     (case prepare_call api ep args kargs co (ts_world st) of
        (w, Inl e) \<Rightarrow> (st\<lparr>ts_world := w\<rparr>, Inl e)
      | (w, Inr rp) \<Rightarrow> execute env api ep rp (st\<lparr>ts_world := w\<rparr>))"

text \<open>\<open>_call.pagination_mode\<close>, which the cursors ask for.\<close>

definition pagination_mode :: "endpoint \<Rightarrow> pagination option" where
  "pagination_mode ep =
     (if ''cursor'' \<in> set (ep_allowed ep) then Some ByCursor
      else if ''page'' \<in> set (ep_allowed ep) then Some ByPage else None)"

section \<open>Parameters: what a call binds\<close>

definition given :: "(string \<times> arg) list \<Rightarrow> (string \<times> string) list" where
  "given kas = map (\<lambda>(k, a). (k, convert_to_utf8_str a)) (filter (\<lambda>(k, a). a \<noteq> ANone) kas)"

definition surplus :: "string list \<Rightarrow> arg list \<Rightarrow> bool" where
  "surplus allowed args \<longleftrightarrow> list_ex (\<lambda>a. a \<noteq> ANone) (drop (length allowed) args)"

lemma given_simps [simp]: "given [] = []"
    "given ((k, a) # kas) = (if a = ANone then given kas else (k, convert_to_utf8_str a) # given kas)"
  by (simp_all add: given_def)

lemma given_keys: "fst ` set (given kas) \<subseteq> fst ` set kas"
  by (force simp: given_def)

lemma positional_spec:
  "positional allowed args ps =
     (if surplus allowed args then Inl (TweepError ''Too many parameters supplied!'')
      else Inr (dict_update ps (given (zip allowed args))))"
proof (induction allowed args ps rule: positional.induct)
  case (2 allowed a as ps)
  then show ?case by (cases allowed) (auto simp: surplus_def)
qed (simp add: surplus_def)

lemma keyword_args_spec:
  "distinct (map fst kas) \<Longrightarrow> keyword_args kas ps =
     (case find (dict_has ps) (map fst (given kas)) of
        Some k \<Rightarrow> Inl (TweepError (''Multiple values for parameter '' @ k @ '' supplied!''))
      | None \<Rightarrow> Inr (dict_update ps (given kas)))"
proof (induction kas ps rule: keyword_args.induct)
  case (2 k a kas ps)
  have same: "find (dict_has (AList.update k v ps)) (map fst (given kas)) = find (dict_has ps) (map fst (given kas))" for v
    using 2(3) given_keys [of kas] by (intro find_cong) (auto simp: image_iff)
  show ?case
  proof (cases "a = ANone \<or> dict_has ps k")
    case True
    with 2 show ?thesis by (auto split: option.split)
  next
    case False
    with 2 same show ?thesis by (auto simp del: dict_has_update split: option.split)
  qed
qed simp

text \<open>What a call binds. Positional arguments name the allowed parameters in order and \<open>None\<close> skips
  one; a further argument that is not \<open>None\<close> is refused; then the keyword arguments are added, unless one
  of them is already bound, which is refused for the first of them. Nothing else decides the outcome.\<close>

theorem parameters_bound:
  assumes "distinct (map fst kargs)"
  shows "build_parameters ep args kargs =
     (let ps = dict_update [] (given (zip (ep_allowed ep) args)) in
      if surplus (ep_allowed ep) args then Inl (TweepError ''Too many parameters supplied!'')
      else case find (dict_has ps) (map fst (given kargs)) of
        Some k \<Rightarrow> Inl (TweepError (''Multiple values for parameter '' @ k @ '' supplied!''))
      | None \<Rightarrow> Inr (dict_update ps (given kargs)))"
  by (simp add: build_parameters_def positional_spec keyword_args_spec [OF assms] Let_def)

definition example_timeline :: endpoint where
  "example_timeline = default_endpoint\<lparr>ep_path := ''/users/{id}/timeline.json'',
     ep_allowed := [''id'', ''count'', ''page''], ep_auth := True\<rparr>"

theorem parameters_bound_witness:
  "build_parameters example_timeline [AStr ''bob'', ANone, AInt 2] [(''count'', AInt 5)] =
     Inr [(''id'', ''bob''), (''page'', ''2''), (''count'', ''5'')] \<and>
   build_parameters example_timeline [AStr ''bob''] [(''id'', AInt 5)] =
     Inl (TweepError ''Multiple values for parameter id supplied!'')"
  using parameters_bound [of "[(''count'', AInt 5)]" example_timeline "[AStr ''bob'', ANone, AInt 2]"]
    parameters_bound [of "[(''id'', AInt 5)]" example_timeline "[AStr ''bob'']"]
  by (simp, code_simp)

section \<open>Paths\<close>

text \<open>A path template is made of literal text and variables.\<close>

datatype piece = Lit string | Var string

fun piece_text :: "piece \<Rightarrow> string" where
  "piece_text (Lit s) = s"
| "piece_text (Var v) = braced v"

definition template :: "piece list \<Rightarrow> string" where
  "template ps = concat (map piece_text ps)"

fun good_piece :: "piece \<Rightarrow> bool" where
  "good_piece (Lit s) = (CHR 0x7B \<notin> set s)"
| "good_piece (Var v) = (v \<noteq> [] \<and> list_all word_char v)"

fun piece_vars :: "piece list \<Rightarrow> string list" where
  "piece_vars [] = []"
| "piece_vars (Lit s # ps) = piece_vars ps"
| "piece_vars (Var v # ps) = v # piece_vars ps"

text \<open>Filling every variable at once.\<close>

fun fill_piece :: "(string \<Rightarrow> string option) \<Rightarrow> piece \<Rightarrow> piece" where
  "fill_piece \<sigma> (Lit s) = Lit s"
| "fill_piece \<sigma> (Var v) = (case \<sigma> v of None \<Rightarrow> Var v | Some x \<Rightarrow> Lit x)"

lemma template_simps [simp]: "template [] = []" "template (p # ps) = piece_text p @ template ps"
  by (simp_all add: template_def)

lemma find_vars_plain: "CHR 0x7B \<notin> set s \<Longrightarrow> find_vars (s @ t) = find_vars t"
  by (induction s) auto

lemma find_vars_braced: "v \<noteq> [] \<Longrightarrow> list_all word_char v \<Longrightarrow> find_vars (braced v @ t) = v # find_vars t"
proof -
  assume v: "v \<noteq> []" "list_all word_char v"
  then have "takeWhile word_char (v @ CHR 0x7D # t) = v" "dropWhile word_char (v @ CHR 0x7D # t) = CHR 0x7D # t"
    by (auto simp: takeWhile_append2 dropWhile_append2 list_all_iff takeWhile_tail)
  moreover have "CHR 0x7B \<notin> set (v @ [CHR 0x7D])" using v(2) by (auto simp: list_all_iff)
  then have "find_vars ((v @ [CHR 0x7D]) @ t) = find_vars t" by (rule find_vars_plain)
  ultimately show ?thesis using v(1) by (simp add: braced_def)
qed

lemma find_vars_template: "list_all good_piece ps \<Longrightarrow> find_vars (template ps) = piece_vars ps"
proof (induction ps)
  case (Cons p ps)
  then show ?case by (cases p) (simp_all add: find_vars_plain find_vars_braced del: find_vars.simps)
qed simp

lemma replace_plain: "CHR 0x7B \<notin> set s \<Longrightarrow> str_replace (braced v) x (s @ t) = s @ str_replace (braced v) x t"
  by (induction s) (auto simp: braced_def)

lemma replace_hit: "str_replace (braced v) x (braced v @ t) = x @ str_replace (braced v) x t"
  using starts_with_append [of "braced v" t] by (auto simp: braced_def)

lemma braced_prefix: "list_all word_char v \<Longrightarrow> list_all word_char u \<Longrightarrow>
    starts_with (braced u @ t) (braced v) \<Longrightarrow> u = v"
  unfolding starts_with_iff braced_def
  by (auto simp: list_all_iff append_eq_append_conv2 append_eq_Cons_conv Cons_eq_append_conv)

lemma replace_miss:
  assumes "list_all word_char v" "list_all word_char u" "u \<noteq> v"
  shows "str_replace (braced v) x (braced u @ t) = braced u @ str_replace (braced v) x t"
proof -
  have "CHR 0x7B \<notin> set (u @ [CHR 0x7D])" using assms(2) by (auto simp: list_all_iff)
  from replace_plain [OF this, of v x t]
  have "str_replace (braced v) x (u @ CHR 0x7D # t) = u @ CHR 0x7D # str_replace (braced v) x t" by simp
  moreover have "\<not> starts_with (CHR 0x7B # u @ CHR 0x7D # t) (braced v)"
    using braced_prefix [OF assms(1,2), of t] assms(3) by (auto simp: braced_def)
  ultimately show ?thesis by (simp add: braced_def)
qed

lemma replace_template:
  assumes "list_all good_piece ps" and "list_all word_char v"
  shows "str_replace (braced v) x (template ps) = template (map (fill_piece [v \<mapsto> x]) ps)"
  using assms(1)
proof (induction ps)
  case (Cons p ps)
  then show ?case using assms(2)
    by (cases p) (auto simp: replace_plain replace_hit replace_miss simp del: str_replace.simps(2))
qed simp

lemma brace_unsafe: "\<not> always_safe (CHR 0x7B)"
  by code_simp

lemma quote_no_brace: "CHR 0x7B \<notin> set (quote ''/'' s)"
  using quote_chars [of "CHR 0x7B" "''/''" s] brace_unsafe by auto

lemma fill_good: "list_all good_piece ps \<Longrightarrow> list_all good_piece (map (fill_piece [v \<mapsto> quote ''/'' x]) ps)"
proof (induction ps)
  case (Cons p ps)
  then show ?case using quote_no_brace by (cases p) auto
qed simp

definition filling :: "string list \<Rightarrow> (string \<times> string) list \<Rightarrow> string \<Rightarrow> string option" where
  "filling vs ps v = (if v \<in> set vs then map_option (quote ''/'') (map_of ps v) else None)"

lemma fill_twice:
  assumes "map_of ps v = Some x" "v \<notin> set vs"
  shows "fill_piece (filling vs (AList.delete v ps)) (fill_piece [v \<mapsto> quote ''/'' x] p) =
    fill_piece (filling (v # vs) ps) p"
  using assms by (cases p) (auto simp: filling_def delete_conv split: option.split)

lemma fill_path_template:
  assumes "list_all good_piece qs" "distinct vs" "list_all (list_all word_char) vs" "set vs \<subseteq> fst ` set ps"
  shows "fill_path auth vs (template qs) ps w =
    (w, Inr (template (map (fill_piece (filling vs ps)) qs), filter (\<lambda>p. fst p \<notin> set vs) ps))"
  using assms
proof (induction vs arbitrary: qs ps)
  case Nil
  have "fill_piece (filling [] ps) p = p" for p by (cases p) (simp_all add: filling_def)
  then show ?case by (simp add: map_idI)
next
  case (Cons v vs)
  then have "map_of ps v \<noteq> None" by (simp add: map_of_eq_None_iff)
  then obtain x where x: "map_of ps v = Some x" by blast
  let ?qs = "map (fill_piece [v \<mapsto> quote ''/'' x]) qs" and ?ps = "AList.delete v ps"
  have "fill_path auth (v # vs) (template qs) ps w = fill_path auth vs (template ?qs) ?ps w"
    using x Cons.prems by (simp add: dict_has_def replace_template)
  also have "\<dots> = (w, Inr (template (map (fill_piece (filling vs ?ps)) ?qs), filter (\<lambda>p. fst p \<notin> set vs) ?ps))"
  proof (rule Cons.IH)
    have "fst ` set ?ps = fst ` set ps - {v}" by (force simp: AList.delete_eq)
    then show "set vs \<subseteq> fst ` set ?ps" using Cons.prems by auto
  qed (use Cons.prems fill_good in auto)
  also have "map (fill_piece (filling vs ?ps)) ?qs = map (fill_piece (filling (v # vs) ps)) qs"
    using fill_twice [OF x] Cons.prems by simp
  also have "filter (\<lambda>p. fst p \<notin> set vs) ?ps = filter (\<lambda>p. fst p \<notin> set (v # vs)) ps"
    by (auto simp: AList.delete_eq case_prod_beta' intro: filter_cong)
  finally show ?case .
qed

lemma piece_vars_words: "list_all good_piece qs \<Longrightarrow> list_all (list_all word_char) (piece_vars qs)"
proof (induction qs)
  case (Cons q qs)
  then show ?case by (cases q) auto
qed simp

lemma build_path_template:
  assumes "ep_path ep = template qs" "list_all good_piece qs" "distinct (piece_vars qs)"
    and "set (piece_vars qs) \<subseteq> fst ` set ps"
  shows "build_path auth ep ps w =
    (w, Inr (template (map (fill_piece (filling (piece_vars qs) ps)) qs),
             filter (\<lambda>p. fst p \<notin> set (piece_vars qs)) ps))"
  using fill_path_template [OF assms(2,3) piece_vars_words [OF assms(2)] assms(4)]
  by (simp add: build_path_def assms(1) find_vars_template [OF assms(2)])

text \<open>The path of a request is its template with every variable filled, at once, by the quoted value of
  its parameter: the code's repeated textual replacement never touches a value it has put in. The
  parameters that filled the path are taken out of the query, the others stay as they were, and no
  credentials are asked for.\<close>

theorem path_filled:
  assumes "ep_path ep = template qs" "list_all good_piece qs" "distinct (piece_vars qs)"
    and "set (piece_vars qs) \<subseteq> fst ` set ps"
  shows "build_path auth ep ps w =
    (w, Inr (template (map (fill_piece (filling (piece_vars qs) ps)) qs),
             filter (\<lambda>p. fst p \<notin> set (piece_vars qs)) ps))"
  using build_path_template [OF assms] .

theorem path_filled_witness:
  "build_path None (default_endpoint\<lparr>ep_path := ''/{owner}/lists/{slug}.json''\<rparr>)
     [(''owner'', ''{slug}''), (''page'', ''2''), (''slug'', ''a b'')] () =
   ((), Inr (''/%7Bslug%7D/lists/a%20b.json'', [(''page'', ''2'')]))"
  using path_filled [of "default_endpoint\<lparr>ep_path := ''/{owner}/lists/{slug}.json''\<rparr>"
      "[Lit ''/'', Var ''owner'', Lit ''/lists/'', Var ''slug'', Lit ''.json'']"
      "[(''owner'', ''{slug}''), (''page'', ''2''), (''slug'', ''a b'')]" None "()"]
  by (simp, code_simp)

section \<open>Retries\<close>

text \<open>A network that gives its answers in order; the world counts the requests.\<close>

definition answering :: "(nat \<Rightarrow> response) \<Rightarrow> (nat, 'c, 'r) tweepy_env \<Rightarrow> bool" where
  "answering ans env \<longleftrightarrow>
     te_http env = (\<lambda>h m u hs b w. (Suc w, Inr (ans w))) \<and> te_sleep env = (\<lambda>d w. (w, Inr ()))"

lemma send_loop_answers:
  assumes "answering ans env" "ta_auth api = None"
  shows "send_loop n env api ep rp r0 hs w =
    (case find (\<lambda>i. final_status (rp_errors rp) (fst (ans i))) [w..<w + n] of
       Some k \<Rightarrow> (Suc k, Inr (Some (ans k)))
     | None \<Rightarrow> (w + n, Inr (if n = 0 then r0 else Some (ans (w + n - 1)))))"
  using assms
proof (induction n arbitrary: r0 w)
  case (Suc n)
  have "[w..<w + Suc n] = w # [Suc w..<Suc w + n]" by (simp add: upt_conv_Cons)
  moreover have "send_loop (Suc n) env api ep rp r0 hs w =
      (if final_status (rp_errors rp) (fst (ans w)) then (Suc w, Inr (Some (ans w)))
       else send_loop n env api ep rp (Some (ans w)) hs (Suc w))"
    using Suc.prems by (simp add: answering_def apply_auth_def)
  ultimately show ?case using Suc.IH [OF Suc.prems, of "Some (ans w)" "Suc w"]
    by (cases n) (auto split: option.split)
qed simp

text \<open>A request is repeated until an answer is final and at most \<open>retry_count\<close> more times: with a
  network that answers in order, the loop returns the first final answer, having made no request
  beyond it, or else the last of \<open>retry_count + 1\<close> answers. With a negative \<open>retry_count\<close> there is no
  answer at all, the only case in which \<open>resp\<close> stays unbound.\<close>

theorem retries_until_final:
  assumes "answering ans env" "ta_auth api = None"
  shows "send_loop (rounds n) env api ep rp None hs 0 =
    (case find (\<lambda>i. final_status (rp_errors rp) (fst (ans i))) [0..<rounds n] of
       Some k \<Rightarrow> (Suc k, Inr (Some (ans k)))
     | None \<Rightarrow> (rounds n, Inr (if n < 0 then None else Some (ans (nat n)))))"
  using send_loop_answers [OF assms, of "rounds n" ep rp None hs 0]
  by (auto simp: rounds_def nat_add_distrib split: option.split)

text \<open>A network that answers the numbers of its requests with a given status, for one second per request.\<close>

definition status_env :: "(nat \<Rightarrow> int) \<Rightarrow> (nat, string memory_cache, string) tweepy_env" where
  "status_env status = \<lparr>te_http = (\<lambda>h m u hs b w. (Suc w, Inr (status w, Inr (show_int (int w))))),
     te_sleep = (\<lambda>d w. (w, Inr ())), te_now = int, te_get = mc_get, te_store = mc_store,
     te_parse = (\<lambda>ep ps s. Inr s), te_parse_error = Inr, te_true = (\<lambda>s. s \<noteq> [])\<rparr>"

definition open_api :: "int \<Rightarrow> 'w tweepy_api" where
  "open_api n = \<lparr>ta_auth = None, ta_host = ''api.twitter.com'', ta_search_host = ''search.twitter.com'',
     ta_api_root = ''/1'', ta_search_root = [], ta_retry_count = n, ta_retry_delay = 0,
     ta_retry_errors = None, ta_secure = False\<rparr>"

definition status_plan :: "int \<Rightarrow> request_plan" where
  "status_plan n = \<lparr>rp_path = ''/statuses/show.json'', rp_params = [(''id'', ''7'')], rp_root = ''/1'',
     rp_scheme = ''http://'', rp_host = ''api.twitter.com'', rp_headers = [], rp_post = None,
     rp_count = n, rp_delay = 0, rp_errors = Some [503, 500]\<rparr>"

lemma status_env_answering: "answering (\<lambda>w. (status w, Inr (show_int (int w)))) (status_env status)"
  by (simp add: answering_def status_env_def)

lemma open_api_auth: "ta_auth (open_api n) = None"
  by (simp add: open_api_def)

theorem retries_until_final_witness:
  "send_loop (rounds 4) (status_env (\<lambda>w. if w < 2 then 503 else 404)) (open_api 4) default_endpoint
     (status_plan 4) None [] 0 = (3, Inr (Some (404, Inr ''2''))) \<and>
   send_loop (rounds 1) (status_env (\<lambda>w. 503)) (open_api 1) default_endpoint
     (status_plan 1) None [] 0 = (2, Inr (Some (503, Inr ''1'')))"
  unfolding retries_until_final [OF status_env_answering open_api_auth] by code_simp

section \<open>Answers from the cache\<close>

lemma cache_result_value: "cache_result env ep rp r st = (st1, Inr r') \<Longrightarrow> r' = r"
  by (auto simp: cache_result_def split: prod.splits sum.splits option.splits if_splits)

text \<open>Whatever cache the API object has, as long as it keeps the promise of a cache.\<close>

context expiring_cache
begin

lemma lookup_law:
  assumes "te_get env = get" "cacheable ep" "ts_cache st = Some c" "inv c"
    and "e = fresh (te_now env (ts_world st)) (timeout_of c) (view c (slot (request_uri rp)))"
  shows "\<exists>c'. cache_lookup env ep rp st = (st\<lparr>ts_cache := Some c'\<rparr>,
      Inr (case e of Some r \<Rightarrow> if te_true env r then Some r else None | None \<Rightarrow> None)) \<and>
    inv c' \<and> timeout_of c' = timeout_of c"
proof -
  from get_law [OF assms(4) refl, where now = "te_now env (ts_world st)" and key = "request_uri rp" and t = None]
  obtain c' where "get (te_now env (ts_world st)) (request_uri rp) None c = (c', Inr e)" "inv c'"
    "timeout_of c' = timeout_of c" unfolding assms(5) by (auto simp: which_timeout_def)
  then show ?thesis using assms(1-3) by (auto simp: cache_lookup_def)
qed

lemma answer_stored:
  assumes env: "te_get env = get" "te_store env = store" and ep: "cacheable ep"
    and c: "ts_cache st = Some c" "inv c" and miss: "snd (cache_lookup env ep rp st) = Inr None"
    and run: "execute env api ep rp st = (st1, Inr r)" "te_true env r"
  shows "\<exists>c1. ts_cache st1 = Some c1 \<and> inv c1 \<and> timeout_of c1 = timeout_of c \<and>
    view c1 (slot (request_uri rp)) = Some (te_now env (ts_world st1), r)"
proof -
  from lookup_law [OF env(1) ep c refl] miss obtain c0
    where look: "cache_lookup env ep rp st = (st\<lparr>ts_cache := Some c0\<rparr>, Inr None)"
      and c0: "inv c0" "timeout_of c0 = timeout_of c" by (metis snd_conv)
  from run(1) obtain w l where result: "cache_result env ep rp r
      (st\<lparr>ts_cache := Some c0, ts_world := w, ts_last := l\<rparr>) = (st1, Inr r)"
    by (auto simp: execute_def look Let_def dest: cache_result_value split: prod.splits sum.splits option.splits)
  from store_law [OF c0(1), where now = "te_now env w" and key = "request_uri rp" and v = r]
  show ?thesis using result env(2) ep run(2) c0(2) by (auto simp: cache_result_def)
qed

lemma stored_answer_reused:
  assumes env: "te_get env = get" "te_store env = store" and ep: "cacheable ep" "cacheable ep'"
    and c: "ts_cache st = Some c" "inv c" and miss: "snd (cache_lookup env ep rp st) = Inr None"
    and run: "execute env api ep rp st = (st1, Inr r)" "te_true env r"
    and later: "ts_cache st2 = ts_cache st1" "request_uri rp' = request_uri rp"
    and fresh: "\<not> is_expired (te_now env (ts_world st2)) (te_now env (ts_world st1), r) (timeout_of c)"
  shows "\<exists>c2. execute env api' ep' rp' st2 = (st2\<lparr>ts_cache := Some c2\<rparr>, Inr r)"
proof -
  from answer_stored [OF env ep(1) c miss run] obtain c1 where c1: "ts_cache st1 = Some c1" "inv c1"
    "timeout_of c1 = timeout_of c" "view c1 (slot (request_uri rp)) = Some (te_now env (ts_world st1), r)"
    by blast
  have "ts_cache st2 = Some c1" using later(1) c1(1) by simp
  from lookup_law [OF env(1) ep(2) this c1(2) refl, of rp'] obtain c2
    where "cache_lookup env ep' rp' st2 = (st2\<lparr>ts_cache := Some c2\<rparr>, Inr (Some r))"
    using c1(3,4) later(2) fresh run(2) by (auto simp: fresh_def)
  then show ?thesis by (auto simp: execute_def)
qed

lemma stale_answer_dropped:
  assumes env: "te_get env = get" "te_store env = store" and ep: "cacheable ep" "cacheable ep'"
    and c: "ts_cache st = Some c" "inv c" and miss: "snd (cache_lookup env ep rp st) = Inr None"
    and run: "execute env api ep rp st = (st1, Inr r)" "te_true env r"
    and later: "ts_cache st2 = ts_cache st1" "request_uri rp' = request_uri rp"
    and stale: "is_expired (te_now env (ts_world st2)) (te_now env (ts_world st1), r) (timeout_of c)"
  shows "snd (cache_lookup env ep' rp' st2) = Inr None"
proof -
  from answer_stored [OF env ep(1) c miss run] obtain c1 where c1: "ts_cache st1 = Some c1" "inv c1"
    "timeout_of c1 = timeout_of c" "view c1 (slot (request_uri rp)) = Some (te_now env (ts_world st1), r)"
    by blast
  have "ts_cache st2 = Some c1" using later(1) c1(1) by simp
  from lookup_law [OF env(1) ep(2) this c1(2) refl, of rp'] show ?thesis
    using c1(3,4) later(2) stale by (auto simp: fresh_def)
qed

end

text \<open>C15: The answer of a GET request is asked of the network once: after a call that missed the cache and
  gave a result, a call for the same URL gets that result from the cache, without a request and
  without credentials, until the cache's timeout has passed; after that the lookup misses.\<close>

theorem cached_answer_reused:
  assumes "te_get env = mc_get" "te_store env = mc_store" "cacheable ep" "cacheable ep'"
    and "ts_cache st = Some c" "mc_inv c" "snd (cache_lookup env ep rp st) = Inr None"
    and "execute env api ep rp st = (st1, Inr r)" "te_true env r"
    and "ts_cache st2 = ts_cache st1" "request_uri rp' = request_uri rp"
  shows "if is_expired (te_now env (ts_world st2)) (te_now env (ts_world st1), r) (mc_timeout c)
    then snd (cache_lookup env ep' rp' st2) = Inr None
    else \<exists>c2. execute env api' ep' rp' st2 = (st2\<lparr>ts_cache := Some c2\<rparr>, Inr r)"
  using memory.stored_answer_reused [OF assms] memory.stale_answer_dropped [OF assms] by auto

theorem cached_answer_reused_witness:
  "let env = status_env (\<lambda>w. 200); st = \<lparr>ts_world = 5, ts_cache = Some (new_memory_cache 10), ts_last = None\<rparr>;
       st1 = \<lparr>ts_world = 6, ts_cache = Some \<lparr>mc_entries = [(''/1/statuses/show.json?id=7'', 6, ''5'')], mc_timeout = 10\<rparr>,
              ts_last = Some 200\<rparr> in
   execute env (open_api 0) default_endpoint (status_plan 0) st = (st1, Inr ''5'') \<and>
   (\<exists>c. execute env (open_api 0) default_endpoint (status_plan 0) (st1\<lparr>ts_world := 15\<rparr>) =
      (st1\<lparr>ts_world := 15, ts_cache := Some c\<rparr>, Inr ''5'')) \<and>
   snd (cache_lookup env default_endpoint (status_plan 0) (st1\<lparr>ts_world := 16\<rparr>)) = Inr None"
proof -
  let ?env = "status_env (\<lambda>w. 200)"
  let ?st = "\<lparr>ts_world = 5, ts_cache = Some (new_memory_cache 10), ts_last = None\<rparr>"
  let ?st1 = "\<lparr>ts_world = 6, ts_cache = Some \<lparr>mc_entries = [(''/1/statuses/show.json?id=7'', 6, ''5'')], mc_timeout = 10\<rparr>,
              ts_last = Some 200\<rparr>"
  have e: "te_get ?env = mc_get" "te_store ?env = mc_store" "te_now ?env = int" "te_true ?env ''5''"
    by (simp_all add: status_env_def)
  have d: "cacheable default_endpoint" by code_simp
  have s: "ts_cache ?st = Some (new_memory_cache 10)" "mc_inv (new_memory_cache 10)" by simp code_simp
  have m: "snd (cache_lookup ?env default_endpoint (status_plan 0) ?st) = Inr None" by code_simp
  have x: "execute ?env (open_api 0) default_endpoint (status_plan 0) ?st = (?st1, Inr ''5'')" by code_simp
  note use = cached_answer_reused [OF e(1,2) d d s m x e(4), of _ "status_plan 0" "open_api 0"]
  from use [of "?st1\<lparr>ts_world := 15\<rparr>"] use [of "?st1\<lparr>ts_world := 16\<rparr>"] x show ?thesis
    by (simp add: e is_expired_def new_memory_cache_def Let_def)
qed

end
