(* ===== verification/TweepyApi.thy ===== *)
theory TweepyApi
  imports TweepyBinder
begin

text \<open>
  The methods of Tweepy's API object (\<open>socialnet/tweepy/tweepy/api.py\<close>): the constructor, the
  description of every method made by \<open>bind_api\<close>, and the methods written around such a call. The
  file system \<open>_pack_image\<close> reads is a record of functions.
\<close>

section \<open>The API object\<close>

definition new_tweepy_api :: "'w auth_handler option \<Rightarrow> int \<Rightarrow> int \<Rightarrow> int list option \<Rightarrow> bool \<Rightarrow> 'w tweepy_api" where
  "new_tweepy_api auth retry_count retry_delay retry_errors secure =
     \<lparr>ta_auth = auth, ta_host = ''api.twitter.com'', ta_search_host = ''search.twitter.com'',
      ta_api_root = ''/1'', ta_search_root = [], ta_retry_count = retry_count,
      ta_retry_delay = retry_delay, ta_retry_errors = retry_errors, ta_secure = secure\<rparr>"

section \<open>Methods made by \<open>bind_api\<close>\<close>

definition api_public_timeline :: endpoint where
  "api_public_timeline = default_endpoint\<lparr>ep_path := ''/statuses/public_timeline.json'', ep_payload := Some ''status'', ep_list := True\<rparr>"

definition api_home_timeline :: endpoint where
  "api_home_timeline = default_endpoint\<lparr>ep_path := ''/statuses/home_timeline.json'', ep_payload := Some ''status'', ep_list := True,
     ep_allowed := [''since_id'', ''max_id'', ''count'', ''page''], ep_auth := True\<rparr>"

definition api_friends_timeline :: endpoint where
  "api_friends_timeline = default_endpoint\<lparr>ep_path := ''/statuses/friends_timeline.json'', ep_payload := Some ''status'', ep_list := True,
     ep_allowed := [''since_id'', ''max_id'', ''count'', ''page''], ep_auth := True\<rparr>"

definition api_user_timeline :: endpoint where
  "api_user_timeline = default_endpoint\<lparr>ep_path := ''/statuses/user_timeline.json'', ep_payload := Some ''status'', ep_list := True,
     ep_allowed := [''id'', ''user_id'', ''screen_name'', ''since_id'', ''max_id'', ''count'', ''page'', ''include_rts'']\<rparr>"

definition api_mentions :: endpoint where
  "api_mentions = default_endpoint\<lparr>ep_path := ''/statuses/mentions.json'', ep_payload := Some ''status'', ep_list := True,
     ep_allowed := [''since_id'', ''max_id'', ''count'', ''page''], ep_auth := True\<rparr>"

definition api_retweeted_by :: endpoint where
  "api_retweeted_by = default_endpoint\<lparr>ep_path := ''/statuses/{id}/retweeted_by.json'', ep_payload := Some ''status'',
     ep_list := True, ep_allowed := [''id'', ''count'', ''page''], ep_auth := True\<rparr>"

definition api_related_results :: endpoint where
  "api_related_results = default_endpoint\<lparr>ep_path := ''/related_results/show/{id}.json'', ep_payload := Some ''relation'',
     ep_list := True, ep_allowed := [''id'']\<rparr>"

definition api_retweeted_by_ids :: endpoint where
  "api_retweeted_by_ids = default_endpoint\<lparr>ep_path := ''/statuses/{id}/retweeted_by/ids.json'', ep_payload := Some ''ids'',
     ep_allowed := [''id'', ''count'', ''page''], ep_auth := True\<rparr>"

definition api_retweeted_by_me :: endpoint where
  "api_retweeted_by_me = default_endpoint\<lparr>ep_path := ''/statuses/retweeted_by_me.json'', ep_payload := Some ''status'', ep_list := True,
     ep_allowed := [''since_id'', ''max_id'', ''count'', ''page''], ep_auth := True\<rparr>"

definition api_retweeted_to_me :: endpoint where
  "api_retweeted_to_me = default_endpoint\<lparr>ep_path := ''/statuses/retweeted_to_me.json'', ep_payload := Some ''status'', ep_list := True,
     ep_allowed := [''since_id'', ''max_id'', ''count'', ''page''], ep_auth := True\<rparr>"

definition api_retweets_of_me :: endpoint where
  "api_retweets_of_me = default_endpoint\<lparr>ep_path := ''/statuses/retweets_of_me.json'', ep_payload := Some ''status'', ep_list := True,
     ep_allowed := [''since_id'', ''max_id'', ''count'', ''page''], ep_auth := True\<rparr>"

definition api_get_status :: endpoint where
  "api_get_status = default_endpoint\<lparr>ep_path := ''/statuses/show.json'', ep_payload := Some ''status'', ep_allowed := [''id'']\<rparr>"

definition api_update_status :: endpoint where
  "api_update_status = default_endpoint\<lparr>ep_path := ''/statuses/update.json'', ep_payload := Some ''status'',
     ep_allowed := [''status'', ''in_reply_to_status_id'', ''lat'', ''long'', ''source'', ''place_id''],
     ep_method := ''POST'', ep_auth := True\<rparr>"

definition api_destroy_status :: endpoint where
  "api_destroy_status = default_endpoint\<lparr>ep_path := ''/statuses/destroy.json'', ep_payload := Some ''status'', ep_allowed := [''id''],
     ep_method := ''DELETE'', ep_auth := True\<rparr>"

definition api_retweet :: endpoint where
  "api_retweet = default_endpoint\<lparr>ep_path := ''/statuses/retweet/{id}.json'', ep_payload := Some ''status'',
     ep_allowed := [''id''], ep_method := ''POST'', ep_auth := True\<rparr>"

definition api_retweets :: endpoint where
  "api_retweets = default_endpoint\<lparr>ep_path := ''/statuses/retweets/{id}.json'', ep_payload := Some ''status'', ep_list := True,
     ep_allowed := [''id'', ''count''], ep_auth := True\<rparr>"

definition api_get_user :: endpoint where
  "api_get_user = default_endpoint\<lparr>ep_path := ''/users/show.json'', ep_payload := Some ''user'',
     ep_allowed := [''id'', ''user_id'', ''screen_name'']\<rparr>"

definition api_lookup_users :: endpoint where
  "api_lookup_users = default_endpoint\<lparr>ep_path := ''/users/lookup.json'', ep_payload := Some ''user'', ep_list := True,
     ep_allowed := [''user_id'', ''screen_name''], ep_auth := True\<rparr>"

definition api_search_users :: endpoint where
  "api_search_users = default_endpoint\<lparr>ep_path := ''/users/search.json'', ep_payload := Some ''user'', ep_list := True,
     ep_allowed := [''q'', ''per_page'', ''page''], ep_auth := True\<rparr>"

definition api_friends :: endpoint where
  "api_friends = default_endpoint\<lparr>ep_path := ''/statuses/friends.json'', ep_payload := Some ''user'', ep_list := True,
     ep_allowed := [''id'', ''user_id'', ''screen_name'', ''page'', ''cursor'']\<rparr>"

definition api_followers :: endpoint where
  "api_followers = default_endpoint\<lparr>ep_path := ''/statuses/followers.json'', ep_payload := Some ''user'', ep_list := True,
     ep_allowed := [''id'', ''user_id'', ''screen_name'', ''page'', ''cursor'']\<rparr>"

definition api_direct_messages :: endpoint where
  "api_direct_messages = default_endpoint\<lparr>ep_path := ''/direct_messages.json'', ep_payload := Some ''direct_message'', ep_list := True,
     ep_allowed := [''since_id'', ''max_id'', ''count'', ''page''], ep_auth := True\<rparr>"

definition api_get_direct_message :: endpoint where
  "api_get_direct_message = default_endpoint\<lparr>ep_path := ''/direct_messages/show/{id}.json'', ep_payload := Some ''direct_message'',
     ep_allowed := [''id''], ep_auth := True\<rparr>"

definition api_sent_direct_messages :: endpoint where
  "api_sent_direct_messages = default_endpoint\<lparr>ep_path := ''/direct_messages/sent.json'', ep_payload := Some ''direct_message'',
     ep_list := True, ep_allowed := [''since_id'', ''max_id'', ''count'', ''page''],
     ep_auth := True\<rparr>"

definition api_send_direct_message :: endpoint where
  "api_send_direct_message = default_endpoint\<lparr>ep_path := ''/direct_messages/new.json'', ep_payload := Some ''direct_message'',
     ep_allowed := [''user'', ''screen_name'', ''user_id'', ''text''], ep_method := ''POST'',
     ep_auth := True\<rparr>"

definition api_destroy_direct_message :: endpoint where
  "api_destroy_direct_message = default_endpoint\<lparr>ep_path := ''/direct_messages/destroy.json'', ep_payload := Some ''direct_message'',
     ep_allowed := [''id''], ep_method := ''DELETE'', ep_auth := True\<rparr>"

definition api_create_friendship :: endpoint where
  "api_create_friendship = default_endpoint\<lparr>ep_path := ''/friendships/create.json'', ep_payload := Some ''user'',
     ep_allowed := [''id'', ''user_id'', ''screen_name'', ''follow''], ep_method := ''POST'',
     ep_auth := True\<rparr>"

definition api_destroy_friendship :: endpoint where
  "api_destroy_friendship = default_endpoint\<lparr>ep_path := ''/friendships/destroy.json'', ep_payload := Some ''user'',
     ep_allowed := [''id'', ''user_id'', ''screen_name''], ep_method := ''DELETE'', ep_auth := True\<rparr>"

definition api_exists_friendship :: endpoint where
  "api_exists_friendship = default_endpoint\<lparr>ep_path := ''/friendships/exists.json'', ep_payload := Some ''json'',
     ep_allowed := [''user_a'', ''user_b'']\<rparr>"

definition api_show_friendship :: endpoint where
  "api_show_friendship = default_endpoint\<lparr>ep_path := ''/friendships/show.json'', ep_payload := Some ''friendship'',
     ep_allowed := [''source_id'', ''source_screen_name'', ''target_id'', ''target_screen_name'']\<rparr>"

definition api_friends_ids :: endpoint where
  "api_friends_ids = default_endpoint\<lparr>ep_path := ''/friends/ids.json'', ep_payload := Some ''ids'',
     ep_allowed := [''id'', ''user_id'', ''screen_name'', ''cursor'']\<rparr>"

definition api_friendships_incoming :: endpoint where
  "api_friendships_incoming = default_endpoint\<lparr>ep_path := ''/friendships/incoming.json'', ep_payload := Some ''ids'',
     ep_allowed := [''cursor'']\<rparr>"

definition api_friendships_outgoing :: endpoint where
  "api_friendships_outgoing = default_endpoint\<lparr>ep_path := ''/friendships/outgoing.json'', ep_payload := Some ''ids'',
     ep_allowed := [''cursor'']\<rparr>"

definition api_followers_ids :: endpoint where
  "api_followers_ids = default_endpoint\<lparr>ep_path := ''/followers/ids.json'', ep_payload := Some ''ids'',
     ep_allowed := [''id'', ''user_id'', ''screen_name'', ''cursor'']\<rparr>"

definition api_rate_limit_status :: endpoint where
  "api_rate_limit_status = default_endpoint\<lparr>ep_path := ''/account/rate_limit_status.json'', ep_payload := Some ''json'', ep_cache := False\<rparr>"

definition api_set_delivery_device :: endpoint where
  "api_set_delivery_device = default_endpoint\<lparr>ep_path := ''/account/update_delivery_device.json'', ep_payload := Some ''user'',
     ep_allowed := [''device''], ep_method := ''POST'', ep_auth := True\<rparr>"

definition api_update_profile_colors :: endpoint where
  "api_update_profile_colors = default_endpoint\<lparr>ep_path := ''/account/update_profile_colors.json'', ep_payload := Some ''user'',
     ep_allowed := [''profile_background_color'', ''profile_text_color'', ''profile_link_color'', ''profile_sidebar_fill_color'', ''profile_sidebar_border_color''],
     ep_method := ''POST'', ep_auth := True\<rparr>"

definition api_update_profile :: endpoint where
  "api_update_profile = default_endpoint\<lparr>ep_path := ''/account/update_profile.json'', ep_payload := Some ''user'',
     ep_allowed := [''name'', ''url'', ''location'', ''description''], ep_method := ''POST'',
     ep_auth := True\<rparr>"

definition api_favorites :: endpoint where
  "api_favorites = default_endpoint\<lparr>ep_path := ''/favorites.json'', ep_payload := Some ''status'', ep_list := True,
     ep_allowed := [''id'', ''page'']\<rparr>"

definition api_create_favorite :: endpoint where
  "api_create_favorite = default_endpoint\<lparr>ep_path := ''/favorites/create/{id}.json'', ep_payload := Some ''status'',
     ep_allowed := [''id''], ep_method := ''POST'', ep_auth := True\<rparr>"

definition api_destroy_favorite :: endpoint where
  "api_destroy_favorite = default_endpoint\<lparr>ep_path := ''/favorites/destroy/{id}.json'', ep_payload := Some ''status'',
     ep_allowed := [''id''], ep_method := ''DELETE'', ep_auth := True\<rparr>"

definition api_enable_notifications :: endpoint where
  "api_enable_notifications = default_endpoint\<lparr>ep_path := ''/notifications/follow.json'', ep_payload := Some ''user'',
     ep_allowed := [''id'', ''user_id'', ''screen_name''], ep_method := ''POST'', ep_auth := True\<rparr>"

definition api_disable_notifications :: endpoint where
  "api_disable_notifications = default_endpoint\<lparr>ep_path := ''/notifications/leave.json'', ep_payload := Some ''user'',
     ep_allowed := [''id'', ''user_id'', ''screen_name''], ep_method := ''POST'', ep_auth := True\<rparr>"

definition api_create_block :: endpoint where
  "api_create_block = default_endpoint\<lparr>ep_path := ''/blocks/create.json'', ep_payload := Some ''user'',
     ep_allowed := [''id'', ''user_id'', ''screen_name''], ep_method := ''POST'', ep_auth := True\<rparr>"

definition api_destroy_block :: endpoint where
  "api_destroy_block = default_endpoint\<lparr>ep_path := ''/blocks/destroy.json'', ep_payload := Some ''user'',
     ep_allowed := [''id'', ''user_id'', ''screen_name''], ep_method := ''DELETE'', ep_auth := True\<rparr>"

definition api_blocks :: endpoint where
  "api_blocks = default_endpoint\<lparr>ep_path := ''/blocks/blocking.json'', ep_payload := Some ''user'', ep_list := True,
     ep_allowed := [''page''], ep_auth := True\<rparr>"

definition api_blocks_ids :: endpoint where
  "api_blocks_ids = default_endpoint\<lparr>ep_path := ''/blocks/blocking/ids.json'', ep_payload := Some ''json'', ep_auth := True\<rparr>"

definition api_report_spam :: endpoint where
  "api_report_spam = default_endpoint\<lparr>ep_path := ''/report_spam.json'', ep_payload := Some ''user'',
     ep_allowed := [''id'', ''user_id'', ''screen_name''], ep_method := ''POST'', ep_auth := True\<rparr>"

definition api_saved_searches :: endpoint where
  "api_saved_searches = default_endpoint\<lparr>ep_path := ''/saved_searches.json'', ep_payload := Some ''saved_search'', ep_list := True,
     ep_auth := True\<rparr>"

definition api_get_saved_search :: endpoint where
  "api_get_saved_search = default_endpoint\<lparr>ep_path := ''/saved_searches/show/{id}.json'', ep_payload := Some ''saved_search'',
     ep_allowed := [''id''], ep_auth := True\<rparr>"

definition api_create_saved_search :: endpoint where
  "api_create_saved_search = default_endpoint\<lparr>ep_path := ''/saved_searches/create.json'', ep_payload := Some ''saved_search'',
     ep_allowed := [''query''], ep_method := ''POST'', ep_auth := True\<rparr>"

definition api_destroy_saved_search :: endpoint where
  "api_destroy_saved_search = default_endpoint\<lparr>ep_path := ''/saved_searches/destroy/{id}.json'', ep_payload := Some ''saved_search'',
     ep_allowed := [''id''], ep_method := ''DELETE'', ep_auth := True\<rparr>"

definition api_lists :: endpoint where
  "api_lists = default_endpoint\<lparr>ep_path := ''/{user}/lists.json'', ep_payload := Some ''list'', ep_list := True,
     ep_allowed := [''user'', ''cursor''], ep_auth := True\<rparr>"

definition api_lists_memberships :: endpoint where
  "api_lists_memberships = default_endpoint\<lparr>ep_path := ''/{user}/lists/memberships.json'', ep_payload := Some ''list'', ep_list := True,
     ep_allowed := [''user'', ''cursor''], ep_auth := True\<rparr>"

definition api_lists_subscriptions :: endpoint where
  "api_lists_subscriptions = default_endpoint\<lparr>ep_path := ''/{user}/lists/subscriptions.json'', ep_payload := Some ''list'', ep_list := True,
     ep_allowed := [''user'', ''cursor''], ep_auth := True\<rparr>"

definition api_list_timeline :: endpoint where
  "api_list_timeline = default_endpoint\<lparr>ep_path := ''/{owner}/lists/{slug}/statuses.json'', ep_payload := Some ''status'',
     ep_list := True,
     ep_allowed := [''owner'', ''slug'', ''since_id'', ''max_id'', ''per_page'', ''page'']\<rparr>"

definition api_get_list :: endpoint where
  "api_get_list = default_endpoint\<lparr>ep_path := ''/{owner}/lists/{slug}.json'', ep_payload := Some ''list'',
     ep_allowed := [''owner'', ''slug'']\<rparr>"

definition api_list_members :: endpoint where
  "api_list_members = default_endpoint\<lparr>ep_path := ''/{owner}/{slug}/members.json'', ep_payload := Some ''user'', ep_list := True,
     ep_allowed := [''owner'', ''slug'', ''cursor'']\<rparr>"

definition api_subscribe_list :: endpoint where
  "api_subscribe_list = default_endpoint\<lparr>ep_path := ''/{owner}/{slug}/subscribers.json'', ep_payload := Some ''list'',
     ep_allowed := [''owner'', ''slug''], ep_method := ''POST'', ep_auth := True\<rparr>"

definition api_unsubscribe_list :: endpoint where
  "api_unsubscribe_list = default_endpoint\<lparr>ep_path := ''/{owner}/{slug}/subscribers.json'', ep_payload := Some ''list'',
     ep_allowed := [''owner'', ''slug''], ep_method := ''DELETE'', ep_auth := True\<rparr>"

definition api_list_subscribers :: endpoint where
  "api_list_subscribers = default_endpoint\<lparr>ep_path := ''/{owner}/{slug}/subscribers.json'', ep_payload := Some ''user'', ep_list := True,
     ep_allowed := [''owner'', ''slug'', ''cursor'']\<rparr>"

definition api_trends_available :: endpoint where
  "api_trends_available = default_endpoint\<lparr>ep_path := ''/trends/available.json'', ep_payload := Some ''json'',
     ep_allowed := [''lat'', ''long'']\<rparr>"

definition api_trends_location :: endpoint where
  "api_trends_location = default_endpoint\<lparr>ep_path := ''/trends/{woeid}.json'', ep_payload := Some ''json'', ep_allowed := [''woeid'']\<rparr>"

definition api_search :: endpoint where
  "api_search = default_endpoint\<lparr>ep_path := ''/search.json'', ep_payload := Some ''search_result'', ep_list := True,
     ep_allowed := [''q'', ''lang'', ''locale'', ''rpp'', ''page'', ''since_id'', ''geocode'', ''show_user'', ''max_id'', ''since'', ''until'', ''result_type''],
     ep_search := True\<rparr>"

definition api_trends :: endpoint where
  "api_trends = default_endpoint\<lparr>ep_path := ''/trends.json'', ep_payload := Some ''json''\<rparr>"

definition api_trends_current :: endpoint where
  "api_trends_current = default_endpoint\<lparr>ep_path := ''/trends/current.json'', ep_payload := Some ''json'', ep_allowed := [''exclude'']\<rparr>"

definition api_trends_daily :: endpoint where
  "api_trends_daily = default_endpoint\<lparr>ep_path := ''/trends/daily.json'', ep_payload := Some ''json'',
     ep_allowed := [''date'', ''exclude'']\<rparr>"

definition api_trends_weekly :: endpoint where
  "api_trends_weekly = default_endpoint\<lparr>ep_path := ''/trends/weekly.json'', ep_payload := Some ''json'',
     ep_allowed := [''date'', ''exclude'']\<rparr>"

definition api_reverse_geocode :: endpoint where
  "api_reverse_geocode = default_endpoint\<lparr>ep_path := ''/geo/reverse_geocode.json'', ep_payload := Some ''json'',
     ep_allowed := [''lat'', ''long'', ''accuracy'', ''granularity'', ''max_results'']\<rparr>"

definition api_nearby_places :: endpoint where
  "api_nearby_places = default_endpoint\<lparr>ep_path := ''/geo/nearby_places.json'', ep_payload := Some ''json'',
     ep_allowed := [''lat'', ''long'', ''ip'', ''accuracy'', ''granularity'', ''max_results'']\<rparr>"

definition api_geo_id :: endpoint where
  "api_geo_id = default_endpoint\<lparr>ep_path := ''/geo/id/{id}.json'', ep_payload := Some ''json'', ep_allowed := [''id'']\<rparr>"

text \<open>All of them.\<close>

definition api_table :: "endpoint list" where
  "api_table = [
    api_public_timeline, api_home_timeline, api_friends_timeline, api_user_timeline,
    api_mentions, api_retweeted_by, api_related_results, api_retweeted_by_ids,
    api_retweeted_by_me, api_retweeted_to_me, api_retweets_of_me, api_get_status,
    api_update_status, api_destroy_status, api_retweet, api_retweets, api_get_user,
    api_lookup_users, api_search_users, api_friends, api_followers, api_direct_messages,
    api_get_direct_message, api_sent_direct_messages, api_send_direct_message,
    api_destroy_direct_message, api_create_friendship, api_destroy_friendship,
    api_exists_friendship, api_show_friendship, api_friends_ids, api_friendships_incoming,
    api_friendships_outgoing, api_followers_ids, api_rate_limit_status, api_set_delivery_device,
    api_update_profile_colors, api_update_profile, api_favorites, api_create_favorite,
    api_destroy_favorite, api_enable_notifications, api_disable_notifications, api_create_block,
    api_destroy_block, api_blocks, api_blocks_ids, api_report_spam, api_saved_searches,
    api_get_saved_search, api_create_saved_search, api_destroy_saved_search, api_lists,
    api_lists_memberships, api_lists_subscriptions, api_list_timeline, api_get_list,
    api_list_members, api_subscribe_list, api_unsubscribe_list, api_list_subscribers,
    api_trends_available, api_trends_location, api_search, api_trends, api_trends_current,
    api_trends_daily, api_trends_weekly, api_reverse_geocode, api_nearby_places, api_geo_id]"

section \<open>Methods around a call\<close>

definition list_to_csv :: "arg list \<Rightarrow> arg" where
  "list_to_csv xs = (if xs = [] then ANone else AStr (str_join '','' (map fmt_s xs)))"

fun tweep_error :: "exc \<Rightarrow> bool" where
  "tweep_error (TweepError m) = True"
| "tweep_error (TweepStatus m n) = True"
| "tweep_error _ = False"

definition auth_username :: "'w tweepy_api \<Rightarrow> 'w \<Rightarrow> 'w \<times> string res" where
  "auth_username api w = (case ta_auth api of
     None \<Rightarrow> (w, Inl (AttributeError ''get_username''))
   | Some h \<Rightarrow> ah_username h w)"

text \<open>A method that begins by asking for the name of the authenticated user.\<close>

definition with_username ::
    "'w tweepy_api \<Rightarrow> (string \<Rightarrow> ('w, 'c) tweepy_state \<Rightarrow> ('w, 'c) tweepy_state \<times> 'r res) \<Rightarrow>
     ('w, 'c) tweepy_state \<Rightarrow> ('w, 'c) tweepy_state \<times> 'r res" where
  "with_username api f st = (case auth_username api (ts_world st) of
     (w, Inl e) \<Rightarrow> (st\<lparr>ts_world := w\<rparr>, Inl e)
   | (w, Inr name) \<Rightarrow> f name (st\<lparr>ts_world := w\<rparr>))"

definition lookup_users ::
    "('w, 'c, 'r) tweepy_env \<Rightarrow> 'w tweepy_api \<Rightarrow> arg list \<Rightarrow> arg list \<Rightarrow>
     ('w, 'c) tweepy_state \<Rightarrow> ('w, 'c) tweepy_state \<times> 'r res" where
  "lookup_users env api user_ids screen_names =
     call_api env api api_lookup_users [list_to_csv user_ids, list_to_csv screen_names] [] plain_call"

definition me :: "('w, 'c, 'r) tweepy_env \<Rightarrow> 'w tweepy_api \<Rightarrow> ('w, 'c) tweepy_state \<Rightarrow> ('w, 'c) tweepy_state \<times> 'r res" where
  "me env api = with_username api
     (\<lambda>name. call_api env api api_get_user [] [(''screen_name'', ABytes name)] plain_call)"

text \<open>\<open>verify_credentials\<close> answers \<open>False\<close>, here \<open>None\<close>, to a response with status 401.\<close>

definition ep_verify_credentials :: endpoint where
  "ep_verify_credentials = default_endpoint\<lparr>ep_path := ''/account/verify_credentials.json'',
     ep_payload := Some ''user'', ep_auth := True\<rparr>"

definition verify_credentials ::
    "('w, 'c, 'r) tweepy_env \<Rightarrow> 'w tweepy_api \<Rightarrow> ('w, 'c) tweepy_state \<Rightarrow> ('w, 'c) tweepy_state \<times> 'r option res" where
  "verify_credentials env api st =
     (case call_api env api ep_verify_credentials [] [] plain_call st of
        (st1, Inr r) \<Rightarrow> (st1, Inr (Some r))
      | (st1, Inl (TweepStatus m status)) \<Rightarrow>
          (st1, if status = 401 then Inr None else Inl (TweepStatus m status))
      | (st1, Inl e) \<Rightarrow> (st1, Inl e))"

section \<open>Images\<close>

record image_files =
  if_size :: "string \<Rightarrow> nat res"
  if_type :: "string \<Rightarrow> string option"
  if_read :: "string \<Rightarrow> string res"

definition CRLF :: string where
  "CRLF = [CHR 0x0D, CHR 0x0A]"

definition image_body :: "string \<Rightarrow> string \<Rightarrow> string \<Rightarrow> string" where
  "image_body filename file_type content = str_join CRLF
     [''--Tw3ePy'',
      ''Content-Disposition: form-data; name='' @ [CHR 0x22] @ ''image'' @ [CHR 0x22] @ ''; filename='' @
        [CHR 0x22] @ filename @ [CHR 0x22],
      ''Content-Type: '' @ file_type, [], content, ''--Tw3ePy--'', []]"

definition pack_image :: "image_files \<Rightarrow> string \<Rightarrow> nat \<Rightarrow> (headers \<times> string) res" where
  "pack_image fs filename max_size =
     (case if_size fs filename of
        Inl (OSError m) \<Rightarrow> Inl (TweepError ''Unable to access file'')
      | Inl e \<Rightarrow> Inl e
      | Inr n \<Rightarrow>
          if n > max_size * 1024 then Inl (TweepError ''File is too big, must be less than 700kb.'')
          else case if_type fs filename of
            None \<Rightarrow> Inl (TweepError ''Invalid file type for image: None'')
          | Some t \<Rightarrow>
              if t \<notin> {''image/gif'', ''image/jpeg'', ''image/png''}
              then Inl (TweepError (''Invalid file type for image: '' @ t))
              else rbind (if_read fs filename) (\<lambda>content.
                let body = image_body filename t content in
                Inr ([(''Content-Type'', ''multipart/form-data; boundary=Tw3ePy''),
                      (''Content-Length'', show_nat (length body))], body)))"

definition ep_profile_image :: endpoint where
  "ep_profile_image = default_endpoint\<lparr>ep_path := ''/account/update_profile_image.json'',
     ep_method := ''POST'', ep_payload := Some ''user'', ep_auth := True\<rparr>"

definition send_image ::
    "('w, 'c, 'r) tweepy_env \<Rightarrow> 'w tweepy_api \<Rightarrow> image_files \<Rightarrow> nat \<Rightarrow> endpoint \<Rightarrow> string \<Rightarrow>
     ('w, 'c) tweepy_state \<Rightarrow> ('w, 'c) tweepy_state \<times> 'r res" where
  "send_image env api fs max_size ep filename st =
     (case pack_image fs filename max_size of
        Inl e \<Rightarrow> (st, Inl e)
      | Inr (hs, body) \<Rightarrow>
          call_api env api ep [] [] (plain_call\<lparr>co_post_data := Some body, co_headers := hs\<rparr>) st)"

definition update_profile_image ::
    "('w, 'c, 'r) tweepy_env \<Rightarrow> 'w tweepy_api \<Rightarrow> image_files \<Rightarrow> string \<Rightarrow>
     ('w, 'c) tweepy_state \<Rightarrow> ('w, 'c) tweepy_state \<times> 'r res" where
  "update_profile_image env api fs filename = send_image env api fs 700 ep_profile_image filename"

definition ep_background_image :: endpoint where
  "ep_background_image = default_endpoint\<lparr>ep_path := ''/account/update_profile_background_image.json'',
     ep_method := ''POST'', ep_payload := Some ''user'', ep_allowed := [''tile''], ep_auth := True\<rparr>"

text \<open>The further arguments are not passed on, and nothing is returned.\<close>

definition update_profile_background_image ::
    "('w, 'c, 'r) tweepy_env \<Rightarrow> 'w tweepy_api \<Rightarrow> image_files \<Rightarrow> string \<Rightarrow> arg list \<Rightarrow> (string \<times> arg) list \<Rightarrow>
     ('w, 'c) tweepy_state \<Rightarrow> ('w, 'c) tweepy_state \<times> unit res" where
  "update_profile_background_image env api fs filename args kargs st =
     (case send_image env api fs 800 ep_background_image filename st of
        (st1, Inl e) \<Rightarrow> (st1, Inl e)
      | (st1, Inr _) \<Rightarrow> (st1, Inr ()))"

section \<open>Tests of existence\<close>

text \<open>\<open>try: ... except TweepError: return False\<close>.\<close>

definition or_false :: "('w, 'c) tweepy_state \<times> 'r res \<Rightarrow> ('w, 'c) tweepy_state \<times> 'r option res" where
  "or_false p = (case p of
     (st, Inr r) \<Rightarrow> (st, Inr (Some r))
   | (st, Inl e) \<Rightarrow> (st, if tweep_error e then Inr None else Inl e))"

definition or_true_false :: "('w, 'c) tweepy_state \<times> 'r res \<Rightarrow> ('w, 'c) tweepy_state \<times> bool res" where
  "or_true_false p = (case or_false p of
     (st, Inl e) \<Rightarrow> (st, Inl e)
   | (st, Inr v) \<Rightarrow> (st, Inr (v \<noteq> None)))"

definition ep_exists_block :: endpoint where
  "ep_exists_block = default_endpoint\<lparr>ep_path := ''/blocks/exists.json'',
     ep_allowed := [''id'', ''user_id'', ''screen_name''], ep_auth := True\<rparr>"

definition exists_block ::
    "('w, 'c, 'r) tweepy_env \<Rightarrow> 'w tweepy_api \<Rightarrow> arg list \<Rightarrow> (string \<times> arg) list \<Rightarrow>
     ('w, 'c) tweepy_state \<Rightarrow> ('w, 'c) tweepy_state \<times> bool res" where
  "exists_block env api args kargs st =
     or_true_false (call_api env api ep_exists_block args kargs plain_call st)"

definition help_test ::
    "('w, 'c, 'r) tweepy_env \<Rightarrow> 'w tweepy_api \<Rightarrow> ('w, 'c) tweepy_state \<Rightarrow> ('w, 'c) tweepy_state \<times> bool res" where
  "help_test env api st = or_true_false
     (call_api env api (default_endpoint\<lparr>ep_path := ''/help/test.json''\<rparr>) [] [] plain_call st)"

section \<open>Lists\<close>

text \<open>The descriptions made for one call, with the user and the list written into the path.\<close>

definition list_path :: "string \<Rightarrow> arg \<Rightarrow> string" where
  "list_path user slug = ''/'' @ user @ ''/lists/'' @ fmt_s slug @ ''.json''"

definition members_path :: "string \<Rightarrow> arg \<Rightarrow> string" where
  "members_path user slug = ''/'' @ user @ ''/'' @ fmt_s slug @ ''/members.json''"

definition create_list ::
    "('w, 'c, 'r) tweepy_env \<Rightarrow> 'w tweepy_api \<Rightarrow> arg list \<Rightarrow> (string \<times> arg) list \<Rightarrow>
     ('w, 'c) tweepy_state \<Rightarrow> ('w, 'c) tweepy_state \<times> 'r res" where
  "create_list env api args kargs = with_username api (\<lambda>name. call_api env api
     (default_endpoint\<lparr>ep_path := ''/'' @ name @ ''/lists.json'', ep_method := ''POST'', ep_payload := Some ''list'',
        ep_allowed := [''name'', ''mode'', ''description''], ep_auth := True\<rparr>) args kargs plain_call)"

definition destroy_list ::
    "('w, 'c, 'r) tweepy_env \<Rightarrow> 'w tweepy_api \<Rightarrow> arg \<Rightarrow> ('w, 'c) tweepy_state \<Rightarrow> ('w, 'c) tweepy_state \<times> 'r res" where
  "destroy_list env api slug = with_username api (\<lambda>name. call_api env api
     (default_endpoint\<lparr>ep_path := list_path name slug, ep_method := ''DELETE'', ep_payload := Some ''list'',
        ep_auth := True\<rparr>) [] [] plain_call)"

definition update_list ::
    "('w, 'c, 'r) tweepy_env \<Rightarrow> 'w tweepy_api \<Rightarrow> arg \<Rightarrow> arg list \<Rightarrow> (string \<times> arg) list \<Rightarrow>
     ('w, 'c) tweepy_state \<Rightarrow> ('w, 'c) tweepy_state \<times> 'r res" where
  "update_list env api slug args kargs = with_username api (\<lambda>name. call_api env api
     (default_endpoint\<lparr>ep_path := list_path name slug, ep_method := ''POST'', ep_payload := Some ''list'',
        ep_allowed := [''name'', ''mode'', ''description''], ep_auth := True\<rparr>) args kargs plain_call)"

definition add_list_member ::
    "('w, 'c, 'r) tweepy_env \<Rightarrow> 'w tweepy_api \<Rightarrow> arg \<Rightarrow> arg list \<Rightarrow> (string \<times> arg) list \<Rightarrow>
     ('w, 'c) tweepy_state \<Rightarrow> ('w, 'c) tweepy_state \<times> 'r res" where
  "add_list_member env api slug args kargs = with_username api (\<lambda>name. call_api env api
     (default_endpoint\<lparr>ep_path := members_path name slug, ep_method := ''POST'', ep_payload := Some ''list'',
        ep_allowed := [''id''], ep_auth := True\<rparr>) args kargs plain_call)"

definition remove_list_member ::
    "('w, 'c, 'r) tweepy_env \<Rightarrow> 'w tweepy_api \<Rightarrow> arg \<Rightarrow> arg list \<Rightarrow> (string \<times> arg) list \<Rightarrow>
     ('w, 'c) tweepy_state \<Rightarrow> ('w, 'c) tweepy_state \<times> 'r res" where
  "remove_list_member env api slug args kargs = with_username api (\<lambda>name. call_api env api
     (default_endpoint\<lparr>ep_path := members_path name slug, ep_method := ''DELETE'', ep_payload := Some ''list'',
        ep_allowed := [''id''], ep_auth := True\<rparr>) args kargs plain_call)"

definition is_list_member ::
    "('w, 'c, 'r) tweepy_env \<Rightarrow> 'w tweepy_api \<Rightarrow> arg \<Rightarrow> arg \<Rightarrow> arg \<Rightarrow>
     ('w, 'c) tweepy_state \<Rightarrow> ('w, 'c) tweepy_state \<times> 'r option res" where
  "is_list_member env api owner slug user_id st = or_false (call_api env api
     (default_endpoint\<lparr>ep_path := ''/'' @ fmt_s owner @ ''/'' @ fmt_s slug @ ''/members/'' @ fmt_s user_id @ ''.json'',
        ep_payload := Some ''user''\<rparr>) [] [] plain_call st)"

definition is_subscribed_list ::
    "('w, 'c, 'r) tweepy_env \<Rightarrow> 'w tweepy_api \<Rightarrow> arg \<Rightarrow> arg \<Rightarrow> arg \<Rightarrow>
     ('w, 'c) tweepy_state \<Rightarrow> ('w, 'c) tweepy_state \<times> 'r option res" where
  "is_subscribed_list env api owner slug user_id st = or_false (call_api env api
     (default_endpoint\<lparr>ep_path := ''/'' @ fmt_s owner @ ''/'' @ fmt_s slug @ ''/subscribers/'' @ fmt_s user_id @ ''.json'',
        ep_payload := Some ''user''\<rparr>) [] [] plain_call st)"

section \<open>The table is consistent\<close>

text \<open>Reading the pieces of a path template.\<close>

function pieces_of :: "string \<Rightarrow> piece list" where
  "pieces_of [] = []"
| "pieces_of (c # s) =
     (if c = CHR 0x7B
      then Var (takeWhile word_char s) # pieces_of (drop 1 (dropWhile word_char s))
      else Lit (c # takeWhile (\<lambda>x. x \<noteq> CHR 0x7B) s) # pieces_of (dropWhile (\<lambda>x. x \<noteq> CHR 0x7B) s))"
  by pat_completeness auto
termination
  by (relation "measure length") (auto simp: le_imp_less_Suc length_dropWhile_le less_Suc_eq_le
      intro: le_trans [OF diff_le_self])

definition ep_vars :: "endpoint \<Rightarrow> string list" where
  "ep_vars ep = piece_vars (pieces_of (ep_path ep))"

definition good_endpoint :: "endpoint \<Rightarrow> bool" where
  "good_endpoint ep \<longleftrightarrow> (let ps = pieces_of (ep_path ep); n = length (piece_vars ps) in
     template ps = ep_path ep \<and> list_all good_piece ps \<and> distinct (ep_allowed ep) \<and>
     piece_vars ps = take n (ep_allowed ep) \<and> ep_method ep \<in> {''GET'', ''POST'', ''DELETE''})"

lemma api_table_good: "list_all good_endpoint api_table"
  by code_simp

lemma good_endpointD:
  assumes "good_endpoint ep"
  shows "ep_path ep = template (pieces_of (ep_path ep))" "list_all good_piece (pieces_of (ep_path ep))"
    "distinct (ep_allowed ep)" "ep_vars ep = take (length (ep_vars ep)) (ep_allowed ep)"
  using assms by (auto simp: good_endpoint_def ep_vars_def Let_def)

lemma filled_no_vars:
  "list_all good_piece qs \<Longrightarrow> set (piece_vars qs) \<subseteq> set vs \<Longrightarrow> set vs \<subseteq> fst ` set ps \<Longrightarrow>
    find_vars (template (map (fill_piece (filling vs ps)) qs)) = []"
proof (induction qs)
  case (Cons q qs)
  show ?case
  proof (cases q)
    case (Lit s)
    with Cons show ?thesis by (simp add: find_vars_plain del: find_vars.simps)
  next
    case (Var v)
    with Cons.prems have "map_of ps v \<noteq> None" by (auto simp: map_of_eq_None_iff)
    then obtain x where "filling vs ps v = Some (quote ''/'' x)"
      using Var Cons.prems by (auto simp: filling_def)
    then show ?thesis using Var Cons quote_no_brace [of x]
      by (simp add: find_vars_plain del: find_vars.simps)
  qed
qed simp

lemma keys_dict_update: "fst ` set (dict_update d e) = fst ` set d \<union> fst ` set e"
proof (induction e arbitrary: d)
  case (Cons p e)
  have "fst ` set (AList.update k v d) = insert k (fst ` set d)" for k v
    by (rule set_eqI) (metis dict_has_iff dict_has_update insert_iff)
  with Cons show ?case by (cases p) auto
qed simp

lemma given_has:
  assumes "i < length ks" "i < length as" "as ! i \<noteq> ANone"
  shows "ks ! i \<in> fst ` set (given (zip ks as))"
proof -
  have "(ks ! i, as ! i) \<in> set (zip ks as)" using assms by (auto simp: set_zip)
  with assms(3) show ?thesis by (force simp: given_def)
qed

text \<open>Every method of the table can be called with positional arguments: its path variables are its
  first allowed parameters, so a call that gives them, and not more arguments than are allowed, is
  always prepared; the path it asks for has no variable left, and the values that went into the path
  are not sent again as parameters.\<close>

theorem table_calls_prepared:
  assumes ep: "ep \<in> set api_table" and auth: "ep_auth ep \<Longrightarrow> ta_auth api \<noteq> None"
    and args: "length (ep_vars ep) \<le> length args" "length args \<le> length (ep_allowed ep)"
      "ANone \<notin> set (take (length (ep_vars ep)) args)"
  shows "\<exists>rp. prepare_call api ep args [] co w = (w, Inr rp) \<and> find_vars (rp_path rp) = [] \<and>
    set (ep_vars ep) \<inter> fst ` set (rp_params rp) = {}"
proof -
  note good = good_endpointD [OF api_table_good [unfolded list_all_iff, rule_format, OF ep]]
  let ?qs = "pieces_of (ep_path ep)" and ?ps = "dict_update [] (given (zip (ep_allowed ep) args))"
  have "build_parameters ep args [] = Inr ?ps"
    using args(2) by (simp add: build_parameters_def positional_spec surplus_def)
  moreover have "set (ep_vars ep) \<subseteq> fst ` set ?ps"
  proof
    fix v assume "v \<in> set (ep_vars ep)"
    then obtain i where i: "i < length (ep_vars ep)" "v = ep_vars ep ! i" by (auto simp: in_set_conv_nth)
    then have "args ! i \<in> set (take (length (ep_vars ep)) args)" using args(1) by (auto simp: in_set_conv_nth)
    then have "args ! i \<noteq> ANone" using args(3) by metis
    moreover have "v = ep_allowed ep ! i" using i good(4) by (metis nth_take)
    ultimately show "v \<in> fst ` set ?ps"
      using given_has [of i "ep_allowed ep" args] i args(1,2) by (auto simp: keys_dict_update)
  qed
  note vars = this [unfolded ep_vars_def]
  have "distinct (piece_vars ?qs)" using good(3,4) by (metis distinct_take ep_vars_def)
  note path = build_path_template [OF good(1,2) this vars, of "ta_auth api" w]
  ultimately show ?thesis using auth filled_no_vars [OF good(2) subset_refl vars]
    by (auto simp: prepare_call_def path Let_def ep_vars_def)
qed

theorem table_calls_prepared_witness:
  "\<exists>rp. prepare_call (open_api 0) api_list_timeline [AStr ''ann'', AStr ''a/b'', AInt 12] [] plain_call () = ((), Inr rp) \<and>
    find_vars (rp_path rp) = [] \<and> set (ep_vars api_list_timeline) \<inter> fst ` set (rp_params rp) = {}"
proof (rule table_calls_prepared)
  show "api_list_timeline \<in> set api_table" by (simp add: api_table_def)
  show "ta_auth (open_api 0) \<noteq> None" if "ep_auth api_list_timeline"
    using that by (simp add: api_list_timeline_def default_endpoint_def)
qed code_simp+

section \<open>Credentials\<close>

text \<open>Outside \<open>execute\<close> itself nothing raises a \<open>TweepError\<close> that carries a response.\<close>

definition statusless :: "'a res \<Rightarrow> bool" where
  "statusless r \<longleftrightarrow> (\<forall>m n. r \<noteq> Inl (TweepStatus m n))"

lemma statuslessD: "f x = (w, Inl (TweepStatus m n)) \<Longrightarrow> \<not> statusless (snd (f x))"
  by (auto simp: statusless_def)

lemma send_loop_statusless:
  assumes "\<And>hs w. statusless (snd (apply_auth api ep rp hs w))" "\<And>d w. statusless (snd (te_sleep env d w))"
  shows "statusless (snd (send_loop n env api ep rp r hs w))"
proof (induction n arbitrary: r hs w)
  case (Suc n)
  then show ?case using assms(1) [of hs w] assms(2)
    by (auto simp: statusless_def split: prod.splits sum.splits) (metis snd_conv)+
qed (simp add: statusless_def)

lemma send_loop_bodies:
  assumes "\<And>h m u hs b w r. snd (te_http env h m u hs b w) = Inr r \<Longrightarrow> statusless (snd r)"
    and "snd (send_loop n env api ep rp prev hs w) = Inr (Some r)"
  shows "prev = Some r \<or> statusless (snd r)"
  using assms(2)
proof (induction n arbitrary: prev hs w)
  case (Suc n)
  show ?case
  proof (rule ccontr)
    assume no: "\<not> (prev = Some r \<or> statusless (snd r))"
    from Suc no assms(1) show False
      by (auto split: prod.splits sum.splits if_splits) (metis option.inject snd_conv)+
  qed
qed simp

lemma build_parameters_statusless: "statusless (build_parameters ep args kargs)"
proof -
  have "statusless (positional allowed as ps)" for allowed as ps
    by (induction allowed as ps rule: positional.induct) (auto simp: statusless_def split: list.split)
  moreover have "statusless (keyword_args kas ps)" for kas ps
    by (induction kas ps rule: keyword_args.induct) (auto simp: statusless_def)
  ultimately show ?thesis by (auto simp: build_parameters_def rbind_def statusless_def split: sum.splits)
qed

text \<open>\<open>verify_credentials\<close> says \<open>False\<close> to the credentials only when the server did: when the last response
  had status 401. Neither a network that fails, nor an unreadable answer, nor any other status is taken
  for wrong credentials; these are raised.\<close>

theorem verify_credentials_sound:
  assumes "ta_auth api = Some (basic_auth user password)" "ts_cache st = None"
    and "\<And>d w. statusless (snd (te_sleep env d w))" "\<And>ep ps s. statusless (te_parse env ep ps s)"
    and body: "\<And>h m u hs b w r. snd (te_http env h m u hs b w) = Inr r \<Longrightarrow> statusless (snd r)"
    and run: "verify_credentials env api st = (st1, Inr None)"
  shows "ts_last st1 = Some 401"
proof -
  let ?ep = ep_verify_credentials
  from run obtain m where call: "call_api env api ?ep [] [] plain_call st = (st1, Inl (TweepStatus m 401))"
    by (auto simp: verify_credentials_def split: prod.splits sum.splits exc.splits if_splits)
  have vars: "find_vars (ep_path ?ep) = []" by code_simp
  obtain rp where prep: "prepare_call api ?ep [] [] plain_call (ts_world st) = (ts_world st, Inr rp)"
    using assms(1) by (auto simp: prepare_call_def build_parameters_def build_path_def vars Let_def)
  have auth: "statusless (snd (apply_auth api ?ep rp hs w))" for hs w
    by (simp add: apply_auth_def assms(1) basic_auth_def statusless_def)
  note loop = send_loop_statusless [where n = "rounds (rp_count rp)" and r = None and hs = "rp_headers rp" and w = "ts_world st",
      OF auth assms(3)]
  from call have ex: "execute env api ?ep rp st = (st1, Inl (TweepStatus m 401))"
    by (simp add: call_api_def prep)
  have look: "cache_lookup env ?ep rp st = (st, Inr None)" by (simp add: cache_lookup_def assms(2))
  obtain w resp where send: "send_loop (rounds (rp_count rp)) env api ?ep rp None (rp_headers rp) (ts_world st) = (w, Inr (Some resp))"
    and read: "read_response env ?ep rp resp = Inl (TweepStatus m 401)"
    and st1: "st1 = st\<lparr>ts_world := w, ts_last := Some (fst resp)\<rparr>"
    using ex loop by (auto simp: execute_def look Let_def cache_result_def assms(2) statusless_def
        split: prod.splits sum.splits option.splits)
  have "statusless (snd resp)"
    using send_loop_bodies [of env "rounds (rp_count rp)" api ?ep rp None "rp_headers rp" "ts_world st" resp] body send
    by auto
  then have "fst resp = 401"
    using read assms(4) by (auto simp: read_response_def rbind_def statusless_def split: if_splits sum.splits)
  then show ?thesis using st1 by simp
qed

theorem verify_credentials_sound_witness:
  "ts_last (fst (verify_credentials (status_env (\<lambda>w. 401)) ((open_api 0)\<lparr>ta_auth := Some (basic_auth ''ann'' ''x'')\<rparr>)
     \<lparr>ts_world = 0, ts_cache = None, ts_last = None\<rparr>)) = Some 401"
proof -
  let ?api = "(open_api 0)\<lparr>ta_auth := Some (basic_auth ''ann'' ''x'')\<rparr>"
  let ?st = "\<lparr>ts_world = 0, ts_cache = None, ts_last = None\<rparr>"
  let ?env = "status_env (\<lambda>w. 401)"
  have vars: "find_vars (ep_path ep_verify_credentials) = []" by code_simp
  have ep: "cacheable ep_verify_credentials" by code_simp
  have r: "snd (verify_credentials ?env ?api ?st) = Inr None"
    by (simp add: verify_credentials_def call_api_def prepare_call_def build_parameters_def build_path_def vars
        plain_call_def open_api_def basic_auth_def execute_def cache_lookup_def rounds_def apply_auth_def
        status_env_def final_status_def read_response_def Let_def del: b64encode.simps)
  have e: "statusless (snd (te_sleep ?env d w))" "statusless (te_parse ?env ep ps s)" for d w ep ps s
    by (simp_all add: status_env_def statusless_def)
  have b: "snd (te_http ?env h m u hs b w) = Inr r \<Longrightarrow> statusless (snd r)" for h m u hs b w r
    by (auto simp: status_env_def statusless_def)
  show ?thesis
  proof (rule verify_credentials_sound)
    show "verify_credentials ?env ?api ?st = (fst (verify_credentials ?env ?api ?st), Inr None)"
      by (subst r [symmetric]) (rule surjective_pairing)
    show "ta_auth ?api = Some (basic_auth ''ann'' ''x'')" by simp
    show "ts_cache ?st = None" by simp
  qed (rule e b; assumption?)+
qed

end
