(* ===== verification/TweepyModels.thy ===== *)
theory TweepyModels
  imports TweepyApi Calendar
begin

text \<open>
  What Tweepy makes of the answers: the readers of \<open>socialnet/tweepy/tweepy/utils.py\<close>, the model
  classes of \<open>models.py\<close> with their methods, and the parsers of \<open>parsers.py\<close>. A model object is its
  class name with its attributes; the reference to the API object, which every model holds, is left
  out. The table \<open>htmlentitydefs.name2codepoint\<close> and the text \<open>unicode\<close> makes of a JSON value are
  parameters. Texts are limited to the code points below 256; a reference to another one is left as
  it is.
\<close>

section \<open>Readers\<close>

datatype directive = Weekday | MonthName | DayOfMonth | Hour | Minute | Second | Year | Blank | Sign char

record date_time =
  dt_year :: int
  dt_month :: int
  dt_day :: int
  dt_hour :: int
  dt_minute :: int
  dt_second :: int

definition no_date :: date_time where
  "no_date = \<lparr>dt_year = 1900, dt_month = 1, dt_day = 1, dt_hour = 0, dt_minute = 0, dt_second = 0\<rparr>"

definition month_names :: "string list" where
  "month_names = [''jan'', ''feb'', ''mar'', ''apr'', ''may'', ''jun'', ''jul'', ''aug'', ''sep'', ''oct'', ''nov'', ''dec'']"

definition day_names :: "string list" where
  "day_names = [''mon'', ''tue'', ''wed'', ''thu'', ''fri'', ''sat'', ''sun'']"

definition take_name :: "string list \<Rightarrow> string \<Rightarrow> (int \<times> string) list" where
  "take_name names s =
     (let n = str_lower (take 3 s) in
      concat (map (\<lambda>(i, m). if m = n then [(int i + 1, drop 3 s)] else []) (enumerate 0 names)))"

definition p_second :: "string \<Rightarrow> (int \<times> string) list" where
  "p_second s = take_num 2 0 61 s @ take_num 1 0 9 s"

fun match_directive :: "directive \<Rightarrow> date_time \<Rightarrow> string \<Rightarrow> (date_time \<times> string) list" where
  "match_directive Weekday t s = map (\<lambda>(i, r). (t, r)) (take_name day_names s)"
| "match_directive MonthName t s = map (\<lambda>(i, r). (t\<lparr>dt_month := i\<rparr>, r)) (take_name month_names s)"
| "match_directive DayOfMonth t s = map (\<lambda>(i, r). (t\<lparr>dt_day := i\<rparr>, r)) (p_day s)"
| "match_directive Hour t s = map (\<lambda>(i, r). (t\<lparr>dt_hour := i\<rparr>, r)) (p_hour s)"
| "match_directive Minute t s = map (\<lambda>(i, r). (t\<lparr>dt_minute := i\<rparr>, r)) (p_minute s)"
| "match_directive Second t s = map (\<lambda>(i, r). (t\<lparr>dt_second := i\<rparr>, r)) (p_second s)"
| "match_directive Year t s = map (\<lambda>(i, r). (t\<lparr>dt_year := i\<rparr>, r)) (p_year s)"
| "match_directive Blank t s = map (Pair t) (p_blanks s)"
| "match_directive (Sign c) t s = map (Pair t) (p_lit c s)"

fun match_format :: "directive list \<Rightarrow> date_time \<Rightarrow> string \<Rightarrow> (date_time \<times> string) list" where
  "match_format [] t s = [(t, s)]"
| "match_format (d # ds) t s = concat (map (\<lambda>(t', r). match_format ds t' r) (match_directive d t s))"

text \<open>\<open>datetime(*(time.strptime(s, format)[0:6]))\<close>: the first match of the format must use up the
  text, and a second above 59 is no \<open>datetime\<close>.\<close>

definition strptime :: "directive list \<Rightarrow> string \<Rightarrow> date_time res" where
  "strptime fmt s = (case match_format fmt no_date s of
     (t, []) # _ \<Rightarrow>
       if valid_date (dt_year t) (dt_month t) (dt_day t) \<and> dt_second t < 60 then Inr t else bad_date
   | _ \<Rightarrow> bad_date)"

definition time_format :: "directive list" where
  "time_format = [Hour, Sign CHR '':'', Minute, Sign CHR '':'', Second, Blank,
     Sign CHR ''+'', Sign CHR ''0'', Sign CHR ''0'', Sign CHR ''0'', Sign CHR ''0'']"

fun parse_datetime :: "pyval \<Rightarrow> date_time res" where
  "parse_datetime (PStr s) =
     strptime ([Weekday, Blank, MonthName, Blank, DayOfMonth, Blank] @ time_format @ [Blank, Year]) s"
| "parse_datetime _ = Inl (TypeError ''expected string or buffer'')"

fun parse_search_datetime :: "pyval \<Rightarrow> date_time res" where
  "parse_search_datetime (PStr s) =
     strptime ([Weekday, Sign CHR '','', Blank, DayOfMonth, Blank, MonthName, Blank, Year, Blank] @ time_format) s"
| "parse_search_datetime _ = Inl (TypeError ''expected string or buffer'')"

text \<open>\<open>s.find(c)\<close>, \<open>s.rfind(c)\<close> and \<open>s[i:j]\<close> with the negative indices of Python.\<close>

definition find_char :: "char \<Rightarrow> string \<Rightarrow> int" where
  "find_char c s = (let p = takeWhile (\<lambda>x. x \<noteq> c) s in if p = s then -1 else int (length p))"

definition rfind_char :: "char \<Rightarrow> string \<Rightarrow> int" where
  "rfind_char c s = (let p = takeWhile (\<lambda>x. x \<noteq> c) (rev s) in
     if p = rev s then -1 else int (length s) - 1 - int (length p))"

definition slice_at :: "string \<Rightarrow> int \<Rightarrow> nat" where
  "slice_at s i = nat (if i < 0 then i + int (length s) else i)"

definition slice :: "int \<Rightarrow> int \<Rightarrow> string \<Rightarrow> string" where
  "slice i j s = drop (slice_at s i) (take (slice_at s j) s)"

definition html_value :: "string \<Rightarrow> string" where
  "html_value s = slice (find_char CHR ''>'' s + 1) (rfind_char CHR ''<'' s) s"

definition a_href :: "string \<Rightarrow> string" where
  "a_href s =
     (let start = find_char CHR 0x22 s + 1;
          n = find_char CHR 0x22 (drop (nat start) s)
      in slice start (if n = -1 then -1 else start + n) s)"

fun parse_html_value :: "pyval \<Rightarrow> pyval res" where
  "parse_html_value (PStr s) = Inr (PStr (html_value s))"
| "parse_html_value _ = Inl (AttributeError ''find'')"

fun parse_a_href :: "pyval \<Rightarrow> pyval res" where
  "parse_a_href (PStr s) = Inr (PStr (a_href s))"
| "parse_a_href _ = Inl (AttributeError ''find'')"

text \<open>\<open>int(s, 16)\<close> on the letters, digits and underscores of a character reference.\<close>

definition parse_hex :: "string \<Rightarrow> nat option" where
  "parse_hex s =
     (let r = (if starts_with s ''0x'' \<or> starts_with s ''0X'' then drop 2 s else s)
      in if r = [] then None else hex_digits 0 r)"

definition fixup :: "(string \<Rightarrow> nat option) \<Rightarrow> string \<Rightarrow> string" where
  "fixup name2codepoint w =
     (let code = (if starts_with w ''#x'' then parse_hex (drop 2 w)
                  else if starts_with w ''#'' then parse_nat (drop 1 w)
                  else name2codepoint w)
      in case code of Some n \<Rightarrow> if n < 256 then [char_of n] else ''&'' @ w @ '';'' | None \<Rightarrow> ''&'' @ w @ '';'')"

text \<open>The text after an ampersand that \<open>#?\w+;\<close> matches, without the semicolon.\<close>

definition reference :: "string \<Rightarrow> string option" where
  "reference s =
     (let h = (if starts_with s ''#'' then ''#'' else []);
          w = takeWhile word_char (drop (length h) s)
      in if w \<noteq> [] \<and> starts_with (drop (length h + length w) s) '';'' then Some (h @ w) else None)"

function unescape :: "(string \<Rightarrow> nat option) \<Rightarrow> string \<Rightarrow> string" where
  "unescape names [] = []"
| "unescape names (c # s) =
     (if c \<noteq> CHR ''&'' then c # unescape names s
      else case reference s of
        None \<Rightarrow> c # unescape names s
      | Some w \<Rightarrow> fixup names w @ unescape names (drop (Suc (length w)) s))"
  by pat_completeness auto
termination
  by (relation "measure (\<lambda>(n, s). length s)") auto

fun unescape_html :: "(string \<Rightarrow> nat option) \<Rightarrow> pyval \<Rightarrow> pyval res" where
  "unescape_html names (PStr s) = Inr (PStr (unescape names s))"
| "unescape_html names _ = Inl (TypeError ''expected string or buffer'')"

section \<open>Models\<close>

datatype mval =
    MVal pyval
  | MDate date_time
  | MObj string "(string \<times> mval) list"
  | MList "(string \<times> pyval) list" "mval list"
  | MPair mval mval

type_synonym attrs = "(string \<times> mval) list"

text \<open>\<open>setattr\<close> with a key of the answer: the name of an attribute is an ASCII text.\<close>

fun set_attr :: "pyval \<Rightarrow> mval \<Rightarrow> attrs \<Rightarrow> attrs res" where
  "set_attr (PStr k) v a =
     (if is_ascii k then Inr (AList.update k v a) else Inl (ValueError ''ascii codec can't encode character''))"
| "set_attr _ v a = Inl (TypeError ''attribute name must be string'')"

fun dict_items :: "pyval \<Rightarrow> pydict res" where
  "dict_items (PDict d) = Inr d"
| "dict_items _ = Inl (AttributeError ''items'')"

text \<open>\<open>for k, v in json.items(): ...\<close>, each round working on the attributes.\<close>

fun for_items :: "(pyval \<Rightarrow> pyval \<Rightarrow> attrs \<Rightarrow> attrs res) \<Rightarrow> pydict \<Rightarrow> attrs \<Rightarrow> attrs res" where
  "for_items f [] a = Inr a"
| "for_items f ((k, v) # d) a = rbind (f k v a) (for_items f d)"

lemma for_items_cong [fundef_cong]:
  "d = d' \<Longrightarrow> a = a' \<Longrightarrow> (\<And>k v b. (k, v) \<in> set d' \<Longrightarrow> f k v b = g k v b) \<Longrightarrow> for_items f d a = for_items g d' a'"
proof (induction d' arbitrary: d a a')
  case (Cons p d')
  then show ?case by (cases p) (auto intro!: rbind_cong)
qed simp

definition model :: "string \<Rightarrow> (pyval \<Rightarrow> pyval \<Rightarrow> attrs \<Rightarrow> attrs res) \<Rightarrow> pyval \<Rightarrow> mval res" where
  "model cls f json = rbind (dict_items json) (\<lambda>d. rbind (for_items f d []) (\<lambda>a. Inr (MObj cls a)))"

lemma dict_items_Inr [simp]: "dict_items json = Inr d \<longleftrightarrow> json = PDict d"
  by (cases json) auto

lemma model_cong [fundef_cong]:
  "json = json' \<Longrightarrow> cls = cls' \<Longrightarrow>
     (\<And>d k v b. json' = PDict d \<Longrightarrow> (k, v) \<in> set d \<Longrightarrow> f k v b = g k v b) \<Longrightarrow>
     model cls f json = model cls' g json'"
  unfolding model_def by (auto intro!: rbind_cong for_items_cong)

lemma size_dict_value [simp]: "(k, v) \<in> set d \<Longrightarrow> size v < size (PDict d)"
  by (induction d) auto

definition source_attrs :: "pyval \<Rightarrow> attrs \<Rightarrow> attrs res" where
  "source_attrs v a =
     rbind (py_in ''<'' v) (\<lambda>lt.
       if lt then rbind (parse_html_value v) (\<lambda>h. rbind (parse_a_href v) (\<lambda>u.
         Inr (AList.update ''source_url'' (MVal u) (AList.update ''source'' (MVal h) a))))
       else Inr (AList.update ''source_url'' (MVal PNone) (AList.update ''source'' (MVal v) a)))"

function status_parse :: "pyval \<Rightarrow> mval res" and user_parse :: "pyval \<Rightarrow> mval res" where
  "status_parse json = model ''Status'' (\<lambda>k v a.
     if k = PStr ''user'' then
       rbind (user_parse v) (\<lambda>u. Inr (AList.update ''user'' u (AList.update ''author'' u a)))
     else if k = PStr ''created_at'' then
       rbind (parse_datetime v) (\<lambda>t. Inr (AList.update ''created_at'' (MDate t) a))
     else if k = PStr ''source'' then source_attrs v a
     else if k = PStr ''retweeted_status'' then
       rbind (status_parse v) (\<lambda>s. Inr (AList.update ''retweeted_status'' s a))
     else set_attr k (MVal v) a) json"
| "user_parse json = model ''User'' (\<lambda>k v a.
     if k = PStr ''created_at'' then
       rbind (parse_datetime v) (\<lambda>t. Inr (AList.update ''created_at'' (MDate t) a))
     else if k = PStr ''status'' then
       rbind (status_parse v) (\<lambda>s. Inr (AList.update ''status'' s a))
     else if k = PStr ''following'' then
       Inr (AList.update ''following'' (MVal (PBool (v = PBool True))) a)
     else set_attr k (MVal v) a) json"
  by pat_completeness auto
termination
  by (relation "measure (case_sum size size)") (auto simp del: pyval.size)

declare status_parse.simps [simp del] user_parse.simps [simp del]

definition direct_message_parse :: "pyval \<Rightarrow> mval res" where
  "direct_message_parse json = model ''DirectMessage'' (\<lambda>k v a.
     if k = PStr ''sender'' \<or> k = PStr ''recipient'' then rbind (user_parse v) (\<lambda>u. set_attr k u a)
     else if k = PStr ''created_at'' then
       rbind (parse_datetime v) (\<lambda>t. Inr (AList.update ''created_at'' (MDate t) a))
     else set_attr k (MVal v) a) json"

definition friendship_side :: "pyval \<Rightarrow> mval res" where
  "friendship_side json = model ''Friendship'' (\<lambda>k v a. set_attr k (MVal v) a) json"

definition friendship_parse :: "pyval \<Rightarrow> mval res" where
  "friendship_parse json =
     rbind (py_item json ''relationship'') (\<lambda>r.
     rbind (py_item r ''source'') (\<lambda>s. rbind (friendship_side s) (\<lambda>source.
     rbind (py_item r ''target'') (\<lambda>t. rbind (friendship_side t) (\<lambda>target.
       Inr (MPair source target))))))"

definition saved_search_parse :: "pyval \<Rightarrow> mval res" where
  "saved_search_parse json = model ''SavedSearch'' (\<lambda>k v a.
     if k = PStr ''created_at'' then
       rbind (parse_datetime v) (\<lambda>t. Inr (AList.update ''created_at'' (MDate t) a))
     else set_attr k (MVal v) a) json"

definition search_result_parse :: "(string \<Rightarrow> nat option) \<Rightarrow> pyval \<Rightarrow> mval res" where
  "search_result_parse names json = model ''SearchResult'' (\<lambda>k v a.
     if k = PStr ''created_at'' then
       rbind (parse_search_datetime v) (\<lambda>t. Inr (AList.update ''created_at'' (MDate t) a))
     else if k = PStr ''source'' then
       rbind (unescape_html names v) (\<lambda>u. rbind (parse_html_value u) (\<lambda>h.
         Inr (AList.update ''source'' (MVal h) a)))
     else set_attr k (MVal v) a) json"

definition list_parse :: "pyval \<Rightarrow> mval res" where
  "list_parse json = model ''List'' (\<lambda>k v a.
     if k = PStr ''user'' then rbind (user_parse v) (\<lambda>u. Inr (AList.update ''user'' u a))
     else set_attr k (MVal v) a) json"

definition json_parse :: "pyval \<Rightarrow> mval res" where
  "json_parse json = Inr (MVal json)"

definition ids_parse :: "pyval \<Rightarrow> mval res" where
  "ids_parse json = (if is_list json then Inr (MVal json) else rbind (py_item json ''ids'') (\<lambda>v. Inr (MVal v)))"

text \<open>\<open>Model.parse_list\<close> skips what is false.\<close>

definition model_list :: "(pyval \<Rightarrow> mval res) \<Rightarrow> pyval \<Rightarrow> mval res" where
  "model_list f json = rbind (py_iter json) (\<lambda>xs. rbind (rmap f (filter truthy xs)) (\<lambda>ms. Inr (MList [] ms)))"

lemma model_list_cong [fundef_cong]:
  "json = json' \<Longrightarrow> (\<And>xs x. py_iter json' = Inr xs \<Longrightarrow> x \<in> set xs \<Longrightarrow> truthy x \<Longrightarrow> f x = g x) \<Longrightarrow>
     model_list f json = model_list g json'"
  unfolding model_list_def by (intro rbind_cong refl rmap_cong) auto

function relation_parse :: "pyval \<Rightarrow> mval res" where
  "relation_parse json = model ''Relation'' (\<lambda>k v a.
     rbind (if k = PStr ''value'' then rbind (py_item json ''kind'') (\<lambda>kind.
              Inr (kind = PStr ''Tweet'' \<or> kind = PStr ''LookedupStatus'')) else Inr False) (\<lambda>is_status.
     if is_status then rbind (status_parse v) (\<lambda>s. Inr (AList.update ''value'' s a))
     else if k = PStr ''results'' then
       rbind (model_list relation_parse v) (\<lambda>rs. Inr (AList.update ''results'' rs a))
     else set_attr k (MVal v) a)) json"
  by pat_completeness auto
termination
proof (relation "measure size")
  fix json d k v b xs x
  assume "json = PDict d" "(k, v) \<in> set d" "py_iter v = Inr xs" "x \<in> set xs"
  then show "(x, json) \<in> measure size"
    using size_py_iter [of v xs x] size_dict_value [of k v d] by simp
qed simp

declare relation_parse.simps [simp del]

text \<open>The lists with a method of their own.\<close>

definition user_list :: "pyval \<Rightarrow> mval res" where
  "user_list json =
     rbind (if is_list json then Inr json else py_item json ''users'') (\<lambda>l.
     rbind (py_iter l) (\<lambda>xs. rbind (rmap user_parse xs) (\<lambda>ms. Inr (MList [] ms))))"

definition search_keys :: "string list" where
  "search_keys = [''max_id'', ''since_id'', ''refresh_url'', ''next_page'', ''results_per_page'', ''page'',
     ''completed_in'', ''query'']"

definition search_list :: "(string \<Rightarrow> nat option) \<Rightarrow> pyval \<Rightarrow> mval res" where
  "search_list names json =
     rbind (rmap (\<lambda>k. rbind (py_get json k) (\<lambda>v. Inr (k, v))) search_keys) (\<lambda>attrs.
     rbind (py_item json ''results'') (\<lambda>l. rbind (py_iter l) (\<lambda>xs.
     rbind (rmap (search_result_parse names) xs) (\<lambda>ms. Inr (MList attrs ms)))))"

definition list_list :: "pyval \<Rightarrow> mval res" where
  "list_list json =
     rbind (py_item json ''lists'') (\<lambda>l. rbind (py_iter l) (\<lambda>xs.
     rbind (rmap list_parse xs) (\<lambda>ms. Inr (MList [] ms))))"

section \<open>Parsers\<close>

text \<open>\<open>ModelFactory\<close>: the reader of one object and of a list, by the name of the payload.\<close>

definition model_factory ::
    "(string \<Rightarrow> nat option) \<Rightarrow> string \<Rightarrow> ((pyval \<Rightarrow> mval res) \<times> (pyval \<Rightarrow> mval res)) option" where
  "model_factory names t =
     (if t = ''status'' then Some (status_parse, model_list status_parse)
      else if t = ''user'' then Some (user_parse, user_list)
      else if t = ''direct_message'' then Some (direct_message_parse, model_list direct_message_parse)
      else if t = ''friendship'' then Some (friendship_parse, model_list friendship_parse)
      else if t = ''saved_search'' then Some (saved_search_parse, model_list saved_search_parse)
      else if t = ''search_result'' then Some (search_result_parse names, search_list names)
      else if t = ''list'' then Some (list_parse, list_list)
      else if t = ''relation'' then Some (relation_parse, model_list relation_parse)
      else if t = ''json'' then Some (json_parse, model_list json_parse)
      else if t = ''ids'' then Some (ids_parse, model_list ids_parse)
      else None)"

text \<open>\<open>JSONParser.parse\<close>: the value, with the two cursors when they were asked for and are there.\<close>

definition json_payload ::
    "(string \<times> string) list \<Rightarrow> string \<Rightarrow> (pyval \<times> (pyval \<times> pyval) option) res" where
  "json_payload ps payload =
     (case json_loads payload of
        Inl e \<Rightarrow> Inl (TweepError ''Failed to parse JSON payload'')
      | Inr json \<Rightarrow>
          Inr (json,
            if dict_has ps ''cursor'' then
              (case json of
                 PDict d \<Rightarrow> (case (pd_get d (PStr ''previous_cursor''), pd_get d (PStr ''next_cursor'')) of
                   (Some p, Some n) \<Rightarrow> Some (p, n) | _ \<Rightarrow> None)
               | _ \<Rightarrow> None)
            else None))"

definition model_parser ::
    "(string \<Rightarrow> nat option) \<Rightarrow> endpoint \<Rightarrow> (string \<times> string) list \<Rightarrow> string \<Rightarrow> mval res" where
  "model_parser names ep ps payload =
     (case ep_payload ep of
        None \<Rightarrow> Inr (MVal PNone)
      | Some t \<Rightarrow>
          (case model_factory names t of
             None \<Rightarrow> Inl (TweepError (''No model for this payload type: '' @ t))
           | Some (one, many) \<Rightarrow>
               rbind (json_payload ps payload) (\<lambda>(json, cursors).
               rbind (if ep_list ep then many json else one json) (\<lambda>result.
                 Inr (case cursors of
                   None \<Rightarrow> result
                 | Some (p, n) \<Rightarrow> MPair result (MPair (MVal p) (MVal n)))))))"

text \<open>\<open>parse_error\<close>, with the text \<open>TweepError\<close> makes of it.\<close>

definition parse_error :: "(pyval \<Rightarrow> string) \<Rightarrow> string \<Rightarrow> string res" where
  "parse_error unicode_of payload =
     rbind (json_loads payload) (\<lambda>error. case error of
        PDict d \<Rightarrow> rbind (if pd_has d (PStr ''error'') then py_item error ''error'' else py_item error ''errors'')
          (\<lambda>v. Inr (unicode_of v))
      | _ \<Rightarrow> Inl (AttributeError ''has_key''))"

fun mval_true :: "mval \<Rightarrow> bool" where
  "mval_true (MVal v) = truthy v"
| "mval_true (MList as xs) = (xs \<noteq> [])"
| "mval_true _ = True"

section \<open>Methods of the models\<close>

definition get_attr :: "string \<Rightarrow> mval \<Rightarrow> mval res" where
  "get_attr k m = (case m of
     MObj cls a \<Rightarrow> (case map_of a k of None \<Rightarrow> Inl (AttributeError k) | Some v \<Rightarrow> Inr v)
   | _ \<Rightarrow> Inl (AttributeError k))"

fun get_path :: "string list \<Rightarrow> mval \<Rightarrow> mval res" where
  "get_path [] m = Inr m"
| "get_path (k # ks) m = rbind (get_attr k m) (get_path ks)"

text \<open>An attribute as an argument; \<open>text_for\<close> is the text Python makes of the values that are not
  texts, integers or truth values.\<close>

definition arg_of :: "(mval \<Rightarrow> string) \<Rightarrow> mval \<Rightarrow> arg" where
  "arg_of text_for m = (case m of
     MVal PNone \<Rightarrow> ANone | MVal (PInt i) \<Rightarrow> AInt i | MVal (PBool b) \<Rightarrow> ABool b | MVal (PStr s) \<Rightarrow> AStr s
   | _ \<Rightarrow> ABytes (text_for m))"

text \<open>\<open>self._api.method(self.a, ..., *args, k=self.b, ..., **kargs)\<close>: a keyword given twice is refused.\<close>

definition self_call ::
    "(mval \<Rightarrow> string) \<Rightarrow> (arg list \<Rightarrow> (string \<times> arg) list \<Rightarrow> ('w, 'c) tweepy_state \<Rightarrow> ('w, 'c) tweepy_state \<times> 'r res) \<Rightarrow>
     string list list \<Rightarrow> (string \<times> string) list \<Rightarrow> arg list \<Rightarrow> (string \<times> arg) list \<Rightarrow> mval \<Rightarrow>
     ('w, 'c) tweepy_state \<Rightarrow> ('w, 'c) tweepy_state \<times> 'r res" where
  "self_call text_for f paths kws args kargs m st =
     (case rbind (rmap (\<lambda>p. get_path p m) paths) (\<lambda>vs.
           rbind (rmap (\<lambda>(k, a). rbind (get_attr a m) (\<lambda>v. Inr (k, arg_of text_for v))) kws) (\<lambda>ks.
             if list_ex (\<lambda>(k, a). dict_has kargs k) kws then Inl (TypeError ''multiple values for keyword argument'')
             else Inr (map (arg_of text_for) vs @ args, ks @ kargs))) of
        Inl e \<Rightarrow> (st, Inl e)
      | Inr (as, ks) \<Rightarrow> f as ks st)"

text \<open>The method of a description, called without options.\<close>

definition bound ::
    "('w, 'c, 'r) tweepy_env \<Rightarrow> 'w tweepy_api \<Rightarrow> endpoint \<Rightarrow> arg list \<Rightarrow> (string \<times> arg) list \<Rightarrow>
     ('w, 'c) tweepy_state \<Rightarrow> ('w, 'c) tweepy_state \<times> 'r res" where
  "bound env api ep args kargs st = call_api env api ep args kargs plain_call st"

definition status_destroy ::
    "(mval \<Rightarrow> string) \<Rightarrow> ('w, 'c, 'r) tweepy_env \<Rightarrow> 'w tweepy_api \<Rightarrow> mval \<Rightarrow>
     ('w, 'c) tweepy_state \<Rightarrow> ('w, 'c) tweepy_state \<times> 'r res" where
  "status_destroy text_for env api m = self_call text_for (bound env api api_destroy_status) [[''id'']] [] [] [] m"

definition status_retweet ::
    "(mval \<Rightarrow> string) \<Rightarrow> ('w, 'c, 'r) tweepy_env \<Rightarrow> 'w tweepy_api \<Rightarrow> mval \<Rightarrow>
     ('w, 'c) tweepy_state \<Rightarrow> ('w, 'c) tweepy_state \<times> 'r res" where
  "status_retweet text_for env api m = self_call text_for (bound env api api_retweet) [[''id'']] [] [] [] m"

definition status_retweets ::
    "(mval \<Rightarrow> string) \<Rightarrow> ('w, 'c, 'r) tweepy_env \<Rightarrow> 'w tweepy_api \<Rightarrow> mval \<Rightarrow>
     ('w, 'c) tweepy_state \<Rightarrow> ('w, 'c) tweepy_state \<times> 'r res" where
  "status_retweets text_for env api m = self_call text_for (bound env api api_retweets) [[''id'']] [] [] [] m"

definition status_favorite ::
    "(mval \<Rightarrow> string) \<Rightarrow> ('w, 'c, 'r) tweepy_env \<Rightarrow> 'w tweepy_api \<Rightarrow> mval \<Rightarrow>
     ('w, 'c) tweepy_state \<Rightarrow> ('w, 'c) tweepy_state \<times> 'r res" where
  "status_favorite text_for env api m = self_call text_for (bound env api api_create_favorite) [[''id'']] [] [] [] m"

definition user_timeline ::
    "(mval \<Rightarrow> string) \<Rightarrow> ('w, 'c, 'r) tweepy_env \<Rightarrow> 'w tweepy_api \<Rightarrow> (string \<times> arg) list \<Rightarrow> mval \<Rightarrow>
     ('w, 'c) tweepy_state \<Rightarrow> ('w, 'c) tweepy_state \<times> 'r res" where
  "user_timeline text_for env api kargs m = self_call text_for (bound env api api_user_timeline) [] [(''user_id'', ''id'')] [] kargs m"

definition user_friends ::
    "(mval \<Rightarrow> string) \<Rightarrow> ('w, 'c, 'r) tweepy_env \<Rightarrow> 'w tweepy_api \<Rightarrow> (string \<times> arg) list \<Rightarrow> mval \<Rightarrow>
     ('w, 'c) tweepy_state \<Rightarrow> ('w, 'c) tweepy_state \<times> 'r res" where
  "user_friends text_for env api kargs m = self_call text_for (bound env api api_friends) [] [(''user_id'', ''id'')] [] kargs m"

definition user_followers ::
    "(mval \<Rightarrow> string) \<Rightarrow> ('w, 'c, 'r) tweepy_env \<Rightarrow> 'w tweepy_api \<Rightarrow> (string \<times> arg) list \<Rightarrow> mval \<Rightarrow>
     ('w, 'c) tweepy_state \<Rightarrow> ('w, 'c) tweepy_state \<times> 'r res" where
  "user_followers text_for env api kargs m = self_call text_for (bound env api api_followers) [] [(''user_id'', ''id'')] [] kargs m"

text \<open>Following changes the object too.\<close>

definition set_following :: "bool \<Rightarrow> mval \<Rightarrow> mval" where
  "set_following b m = (case m of
     MObj cls a \<Rightarrow> MObj cls (AList.update ''following'' (MVal (PBool b)) a) | _ \<Rightarrow> m)"

definition user_follow ::
    "(mval \<Rightarrow> string) \<Rightarrow> ('w, 'c, 'r) tweepy_env \<Rightarrow> 'w tweepy_api \<Rightarrow> mval \<Rightarrow>
     ('w, 'c) tweepy_state \<Rightarrow> ('w, 'c) tweepy_state \<times> mval res" where
  "user_follow text_for env api m st =
     (case self_call text_for (bound env api api_create_friendship) [] [(''user_id'', ''id'')] [] [] m st of
        (st1, Inl e) \<Rightarrow> (st1, Inl e)
      | (st1, Inr _) \<Rightarrow> (st1, Inr (set_following True m)))"

definition user_unfollow ::
    "(mval \<Rightarrow> string) \<Rightarrow> ('w, 'c, 'r) tweepy_env \<Rightarrow> 'w tweepy_api \<Rightarrow> mval \<Rightarrow>
     ('w, 'c) tweepy_state \<Rightarrow> ('w, 'c) tweepy_state \<times> mval res" where
  "user_unfollow text_for env api m st =
     (case self_call text_for (bound env api api_destroy_friendship) [] [(''user_id'', ''id'')] [] [] m st of
        (st1, Inl e) \<Rightarrow> (st1, Inl e)
      | (st1, Inr _) \<Rightarrow> (st1, Inr (set_following False m)))"

definition user_lists_memberships ::
    "(mval \<Rightarrow> string) \<Rightarrow> ('w, 'c, 'r) tweepy_env \<Rightarrow> 'w tweepy_api \<Rightarrow> arg list \<Rightarrow> (string \<times> arg) list \<Rightarrow> mval \<Rightarrow>
     ('w, 'c) tweepy_state \<Rightarrow> ('w, 'c) tweepy_state \<times> 'r res" where
  "user_lists_memberships text_for env api args kargs m = self_call text_for (bound env api api_lists_memberships) [] [(''user'', ''screen_name'')] args kargs m"

definition user_lists_subscriptions ::
    "(mval \<Rightarrow> string) \<Rightarrow> ('w, 'c, 'r) tweepy_env \<Rightarrow> 'w tweepy_api \<Rightarrow> arg list \<Rightarrow> (string \<times> arg) list \<Rightarrow> mval \<Rightarrow>
     ('w, 'c) tweepy_state \<Rightarrow> ('w, 'c) tweepy_state \<times> 'r res" where
  "user_lists_subscriptions text_for env api args kargs m = self_call text_for (bound env api api_lists_subscriptions) [] [(''user'', ''screen_name'')] args kargs m"

definition user_lists ::
    "(mval \<Rightarrow> string) \<Rightarrow> ('w, 'c, 'r) tweepy_env \<Rightarrow> 'w tweepy_api \<Rightarrow> arg list \<Rightarrow> (string \<times> arg) list \<Rightarrow> mval \<Rightarrow>
     ('w, 'c) tweepy_state \<Rightarrow> ('w, 'c) tweepy_state \<times> 'r res" where
  "user_lists text_for env api args kargs m = self_call text_for (bound env api api_lists) [] [(''user'', ''screen_name'')] args kargs m"

definition user_followers_ids ::
    "(mval \<Rightarrow> string) \<Rightarrow> ('w, 'c, 'r) tweepy_env \<Rightarrow> 'w tweepy_api \<Rightarrow> arg list \<Rightarrow> (string \<times> arg) list \<Rightarrow> mval \<Rightarrow>
     ('w, 'c) tweepy_state \<Rightarrow> ('w, 'c) tweepy_state \<times> 'r res" where
  "user_followers_ids text_for env api args kargs m = self_call text_for (bound env api api_followers_ids) [] [(''user_id'', ''id'')] args kargs m"

definition direct_message_destroy ::
    "(mval \<Rightarrow> string) \<Rightarrow> ('w, 'c, 'r) tweepy_env \<Rightarrow> 'w tweepy_api \<Rightarrow> mval \<Rightarrow>
     ('w, 'c) tweepy_state \<Rightarrow> ('w, 'c) tweepy_state \<times> 'r res" where
  "direct_message_destroy text_for env api m = self_call text_for (bound env api api_destroy_direct_message) [[''id'']] [] [] [] m"

definition saved_search_destroy ::
    "(mval \<Rightarrow> string) \<Rightarrow> ('w, 'c, 'r) tweepy_env \<Rightarrow> 'w tweepy_api \<Rightarrow> mval \<Rightarrow>
     ('w, 'c) tweepy_state \<Rightarrow> ('w, 'c) tweepy_state \<times> 'r res" where
  "saved_search_destroy text_for env api m = self_call text_for (bound env api api_destroy_saved_search) [[''id'']] [] [] [] m"

text \<open>A list is named by its owner and its slug.\<close>

definition own_list :: "string list list" where
  "own_list = [[''user'', ''screen_name''], [''slug'']]"

definition tw_list_update ::
    "(mval \<Rightarrow> string) \<Rightarrow> ('w, 'c, 'r) tweepy_env \<Rightarrow> 'w tweepy_api \<Rightarrow> (string \<times> arg) list \<Rightarrow> mval \<Rightarrow>
     ('w, 'c) tweepy_state \<Rightarrow> ('w, 'c) tweepy_state \<times> 'r res" where
  "tw_list_update text_for env api kargs m = self_call text_for (\<lambda>as. update_list env api (hd as) (tl as)) [[''slug'']] [] [] kargs m"

definition tw_list_destroy ::
    "(mval \<Rightarrow> string) \<Rightarrow> ('w, 'c, 'r) tweepy_env \<Rightarrow> 'w tweepy_api \<Rightarrow> mval \<Rightarrow>
     ('w, 'c) tweepy_state \<Rightarrow> ('w, 'c) tweepy_state \<times> 'r res" where
  "tw_list_destroy text_for env api m = self_call text_for (\<lambda>as ks. destroy_list env api (hd as)) [[''slug'']] [] [] [] m"

definition tw_list_timeline ::
    "(mval \<Rightarrow> string) \<Rightarrow> ('w, 'c, 'r) tweepy_env \<Rightarrow> 'w tweepy_api \<Rightarrow> (string \<times> arg) list \<Rightarrow> mval \<Rightarrow>
     ('w, 'c) tweepy_state \<Rightarrow> ('w, 'c) tweepy_state \<times> 'r res" where
  "tw_list_timeline text_for env api kargs m = self_call text_for (bound env api api_list_timeline) own_list [] [] kargs m"

definition tw_list_add_member ::
    "(mval \<Rightarrow> string) \<Rightarrow> ('w, 'c, 'r) tweepy_env \<Rightarrow> 'w tweepy_api \<Rightarrow> arg \<Rightarrow> mval \<Rightarrow>
     ('w, 'c) tweepy_state \<Rightarrow> ('w, 'c) tweepy_state \<times> 'r res" where
  "tw_list_add_member text_for env api i m = self_call text_for (\<lambda>as. add_list_member env api (hd as) (tl as)) [[''slug'']] [] [i] [] m"

definition tw_list_remove_member ::
    "(mval \<Rightarrow> string) \<Rightarrow> ('w, 'c, 'r) tweepy_env \<Rightarrow> 'w tweepy_api \<Rightarrow> arg \<Rightarrow> mval \<Rightarrow>
     ('w, 'c) tweepy_state \<Rightarrow> ('w, 'c) tweepy_state \<times> 'r res" where
  "tw_list_remove_member text_for env api i m = self_call text_for (\<lambda>as. remove_list_member env api (hd as) (tl as)) [[''slug'']] [] [i] [] m"

definition tw_list_members ::
    "(mval \<Rightarrow> string) \<Rightarrow> ('w, 'c, 'r) tweepy_env \<Rightarrow> 'w tweepy_api \<Rightarrow> (string \<times> arg) list \<Rightarrow> mval \<Rightarrow>
     ('w, 'c) tweepy_state \<Rightarrow> ('w, 'c) tweepy_state \<times> 'r res" where
  "tw_list_members text_for env api kargs m = self_call text_for (bound env api api_list_members) own_list [] [] kargs m"

definition tw_list_is_member ::
    "(mval \<Rightarrow> string) \<Rightarrow> ('w, 'c, 'r) tweepy_env \<Rightarrow> 'w tweepy_api \<Rightarrow> arg \<Rightarrow> mval \<Rightarrow>
     ('w, 'c) tweepy_state \<Rightarrow> ('w, 'c) tweepy_state \<times> 'r option res" where
  "tw_list_is_member text_for env api i m =
     self_call text_for (\<lambda>as ks. is_list_member env api (as ! 0) (as ! 1) (as ! 2)) own_list [] [i] [] m"

definition tw_list_subscribe ::
    "(mval \<Rightarrow> string) \<Rightarrow> ('w, 'c, 'r) tweepy_env \<Rightarrow> 'w tweepy_api \<Rightarrow> mval \<Rightarrow>
     ('w, 'c) tweepy_state \<Rightarrow> ('w, 'c) tweepy_state \<times> 'r res" where
  "tw_list_subscribe text_for env api m = self_call text_for (bound env api api_subscribe_list) own_list [] [] [] m"

definition tw_list_unsubscribe ::
    "(mval \<Rightarrow> string) \<Rightarrow> ('w, 'c, 'r) tweepy_env \<Rightarrow> 'w tweepy_api \<Rightarrow> mval \<Rightarrow>
     ('w, 'c) tweepy_state \<Rightarrow> ('w, 'c) tweepy_state \<times> 'r res" where
  "tw_list_unsubscribe text_for env api m = self_call text_for (bound env api api_unsubscribe_list) own_list [] [] [] m"

definition tw_list_subscribers ::
    "(mval \<Rightarrow> string) \<Rightarrow> ('w, 'c, 'r) tweepy_env \<Rightarrow> 'w tweepy_api \<Rightarrow> (string \<times> arg) list \<Rightarrow> mval \<Rightarrow>
     ('w, 'c) tweepy_state \<Rightarrow> ('w, 'c) tweepy_state \<times> 'r res" where
  "tw_list_subscribers text_for env api kargs m = self_call text_for (bound env api api_list_subscribers) own_list [] [] kargs m"

definition tw_list_is_subscribed ::
    "(mval \<Rightarrow> string) \<Rightarrow> ('w, 'c, 'r) tweepy_env \<Rightarrow> 'w tweepy_api \<Rightarrow> arg \<Rightarrow> mval \<Rightarrow>
     ('w, 'c) tweepy_state \<Rightarrow> ('w, 'c) tweepy_state \<times> 'r option res" where
  "tw_list_is_subscribed text_for env api i m =
     self_call text_for (\<lambda>as ks. is_subscribed_list env api (as ! 0) (as ! 1) (as ! 2)) own_list [] [i] [] m"

section \<open>What the models hold\<close>

text \<open>An attribute that only the round of one key writes holds what that round wrote.\<close>

lemma for_items_attr:
  assumes "for_items f d a = Inr b" "distinct (map fst d)" "map_of a n = None"
    and "\<And>k v x y. (k, v) \<in> set d \<Longrightarrow> f k v x = Inr y \<Longrightarrow> map_of y n = (if k = key then g v else map_of x n)"
  shows "map_of b n = (case map_of d key of None \<Rightarrow> None | Some v \<Rightarrow> g v)"
proof -
  have kept: "map_of b n = map_of a n" if "for_items f d a = Inr b" "key \<notin> fst ` set d"
    "\<And>k v x y. (k, v) \<in> set d \<Longrightarrow> f k v x = Inr y \<Longrightarrow> map_of y n = (if k = key then g v else map_of x n)" for d a
    using that
  proof (induction d arbitrary: a)
    case (Cons p d)
    obtain k v where p: "p = (k, v)" by force
    with Cons.prems(1) obtain y where y: "f k v a = Inr y" "for_items f d y = Inr b" by (auto simp: rbind_eq_Inr)
    have "k \<noteq> key" using Cons.prems(2) p by auto
    then have "map_of y n = map_of a n" using Cons.prems(3) [of k v a y] y(1) p by simp
    moreover have "map_of b n = map_of y n"
      by (rule Cons.IH [OF y(2)]) (use Cons.prems(2,3) in auto)
    ultimately show ?case by simp
  qed simp
  from assms show ?thesis
  proof (induction d arbitrary: a)
    case (Cons p d)
    obtain k v where p: "p = (k, v)" by force
    with Cons.prems(1) obtain y where y: "f k v a = Inr y" "for_items f d y = Inr b" by (auto simp: rbind_eq_Inr)
    have m: "map_of y n = (if k = key then g v else None)"
      using Cons.prems(3) Cons.prems(4) [of k v a y] y(1) p by simp
    show ?case
    proof (cases "k = key")
      case True
      have "key \<notin> fst ` set d" using Cons.prems(2) p True by simp
      from kept [OF y(2) this] Cons.prems(4) have "map_of b n = map_of y n" by auto
      with m True p show ?thesis by simp
    next
      case False
      with Cons.IH [OF y(2)] Cons.prems(2,4) m p show ?thesis by auto
    qed
  qed simp
qed

lemma set_attr_map: "set_attr k v a = Inr y \<Longrightarrow> map_of y n = (if k = PStr n then Some v else map_of a n)"
  by (cases k) (auto split: if_splits)

definition status_keys :: "string set" where
  "status_keys = {''user'', ''author'', ''created_at'', ''source'', ''source_url'', ''retweeted_status''}"

text \<open>What a \<open>Status\<close> holds. Every key of the answer that has no rule of its own becomes the attribute of
  that name with the value as it is, and there are no other such attributes; \<open>user\<close> holds the model of
  the user, and \<open>author\<close> the same one; \<open>created_at\<close> holds the date that was read.\<close>

theorem status_attributes:
  assumes parse: "status_parse (PDict d) = Inr m" and d: "distinct (map fst d)"
    and author: "PStr ''author'' \<notin> fst ` set d"
  shows "\<exists>a. m = MObj ''Status'' a \<and>
    (\<forall>n. n \<notin> status_keys \<longrightarrow> map_of a n = map_option MVal (map_of d (PStr n))) \<and>
    (\<forall>v. map_of d (PStr ''user'') = Some v \<longrightarrow> (\<exists>u. user_parse v = Inr u \<and>
       map_of a ''user'' = Some u \<and> map_of a ''author'' = Some u)) \<and>
    (\<forall>v. map_of d (PStr ''created_at'') = Some v \<longrightarrow> (\<exists>t. parse_datetime v = Inr t \<and>
       map_of a ''created_at'' = Some (MDate t)))"
proof -
  define f where "f = (\<lambda>k v a.
     if k = PStr ''user'' then
       rbind (user_parse v) (\<lambda>u. Inr (AList.update ''user'' u (AList.update ''author'' u a)))
     else if k = PStr ''created_at'' then
       rbind (parse_datetime v) (\<lambda>t. Inr (AList.update ''created_at'' (MDate t) a))
     else if k = PStr ''source'' then source_attrs v a
     else if k = PStr ''retweeted_status'' then
       rbind (status_parse v) (\<lambda>s. Inr (AList.update ''retweeted_status'' s a))
     else set_attr k (MVal v) a)"
  from parse obtain a where a: "for_items f d [] = Inr a" "m = MObj ''Status'' a"
    by (auto simp: status_parse.simps [of "PDict d"] model_def f_def rbind_eq_Inr)
  have src: "source_attrs v x = Inr y \<Longrightarrow> n \<noteq> ''source'' \<Longrightarrow> n \<noteq> ''source_url'' \<Longrightarrow> map_of y n = map_of x n" for v x y n
    by (auto simp: source_attrs_def rbind_eq_Inr split: if_splits)
  have plain: "map_of a n = map_option MVal (map_of d (PStr n))" if n: "n \<notin> status_keys" for n
  proof -
    have "map_of a n = (case map_of d (PStr n) of None \<Rightarrow> None | Some v \<Rightarrow> Some (MVal v))"
    proof (rule for_items_attr [OF a(1) d])
      fix k v x y assume "f k v x = Inr y"
      then show "map_of y n = (if k = PStr n then Some (MVal v) else map_of x n)"
        using n src [of v x y n] set_attr_map [of k "MVal v" x y n]
        by (auto simp: f_def status_keys_def rbind_eq_Inr split: if_splits)
    qed simp
    then show ?thesis by (simp split: option.split)
  qed
  have user: "map_of a n = (case map_of d (PStr ''user'') of None \<Rightarrow> None
      | Some v \<Rightarrow> (case user_parse v of Inr u \<Rightarrow> Some u | Inl e \<Rightarrow> None))" if n: "n = ''user'' \<or> n = ''author''" for n
  proof (rule for_items_attr [OF a(1) d])
    fix k v x y assume "(k, v) \<in> set d" "f k v x = Inr y"
    moreover from this author have "k \<noteq> PStr ''author''" by force
    ultimately show "map_of y n = (if k = PStr ''user'' then (case user_parse v of Inr u \<Rightarrow> Some u | Inl e \<Rightarrow> None) else map_of x n)"
      using n src [of v x y n] set_attr_map [of k "MVal v" x y n]
      by (auto simp: f_def rbind_eq_Inr split: if_splits)
  qed simp
  have date: "map_of a ''created_at'' = (case map_of d (PStr ''created_at'') of None \<Rightarrow> None
      | Some v \<Rightarrow> (case parse_datetime v of Inr t \<Rightarrow> Some (MDate t) | Inl e \<Rightarrow> None))"
  proof (rule for_items_attr [OF a(1) d])
    fix k v x y assume "f k v x = Inr y"
    then show "map_of y ''created_at'' = (if k = PStr ''created_at'' then (case parse_datetime v of Inr t \<Rightarrow> Some (MDate t) | Inl e \<Rightarrow> None) else map_of x ''created_at'')"
      using src [of v x y "''created_at''"] set_attr_map [of k "MVal v" x y "''created_at''"]
      by (auto simp: f_def rbind_eq_Inr split: if_splits)
  qed simp
  have ran: "\<exists>x y. f k v x = Inr y" if "(k, v) \<in> set d" for k v
  proof -
    have "\<exists>x y. f k v x = Inr y" if "for_items f e b = Inr c" "(k, v) \<in> set e" for e b c
      using that by (induction e arbitrary: b) (fastforce simp: rbind_eq_Inr)+
    from this [OF a(1) that] show ?thesis .
  qed
  show ?thesis
  proof (intro exI [of _ a] conjI allI impI)
    fix v assume v: "map_of d (PStr ''user'') = Some v"
    from ran [OF map_of_SomeD [OF v]] obtain u where "user_parse v = Inr u" by (auto simp: f_def rbind_eq_Inr)
    with user v show "\<exists>u. user_parse v = Inr u \<and> map_of a ''user'' = Some u \<and> map_of a ''author'' = Some u" by auto
  next
    fix v assume v: "map_of d (PStr ''created_at'') = Some v"
    from ran [OF map_of_SomeD [OF v]] obtain t where "parse_datetime v = Inr t" by (auto simp: f_def rbind_eq_Inr)
    with date v show "\<exists>t. parse_datetime v = Inr t \<and> map_of a ''created_at'' = Some (MDate t)" by auto
  qed (use a(2) plain in auto)
qed

lemma status_example:
  "status_parse (PDict [(PStr ''id'', PInt 7), (PStr ''user'', PDict [(PStr ''name'', PStr ''ann'')]),
     (PStr ''created_at'', PStr ''Mon Mar 05 22:08:25 +0000 2012'')]) =
   Inr (MObj ''Status'' [(''id'', MVal (PInt 7)), (''author'', MObj ''User'' [(''name'', MVal (PStr ''ann''))]),
     (''user'', MObj ''User'' [(''name'', MVal (PStr ''ann''))]),
     (''created_at'', MDate \<lparr>dt_year = 2012, dt_month = 3, dt_day = 5, dt_hour = 22, dt_minute = 8, dt_second = 25\<rparr>)])"
  by code_simp

theorem status_attributes_witness:
  "\<exists>a. status_parse (PDict [(PStr ''id'', PInt 7), (PStr ''user'', PDict [(PStr ''name'', PStr ''ann'')]),
     (PStr ''created_at'', PStr ''Mon Mar 05 22:08:25 +0000 2012'')]) = Inr (MObj ''Status'' a) \<and>
     map_of a ''id'' = Some (MVal (PInt 7)) \<and> map_of a ''author'' = map_of a ''user''"
  using status_attributes [OF status_example] status_example by (simp add: status_keys_def)

section \<open>The source of a status\<close>

lemma takeWhile_before: "c \<notin> set p \<Longrightarrow> takeWhile (\<lambda>x. x \<noteq> c) (p @ c # s) = p"
  by (induction p) auto

lemma find_char_at: "c \<notin> set p \<Longrightarrow> find_char c (p @ c # s) = int (length p)"
  by (simp add: find_char_def takeWhile_before)

lemma rfind_char_at: "c \<notin> set s \<Longrightarrow> rfind_char c (p @ c # s) = int (length p)"
  using takeWhile_before [of c "rev s" "rev p"] by (simp add: rfind_char_def)

lemma slice_middle: "slice (int (length p)) (int (length p + length m)) (p @ m @ s) = m"
  by (simp add: slice_def slice_at_def)

definition anchor :: "string \<Rightarrow> string \<Rightarrow> string \<Rightarrow> string" where
  "anchor url opts name = ''<a href='' @ [CHR 0x22] @ url @ [CHR 0x22] @ opts @ ''>'' @ name @ ''</a>''"

lemma anchor_html_value:
  assumes "CHR ''>'' \<notin> set url" "CHR ''>'' \<notin> set opts"
  shows "html_value (anchor url opts name) = name"
proof -
  let ?p = "''<a href='' @ [CHR 0x22] @ url @ [CHR 0x22] @ opts"
  have "find_char CHR ''>'' (?p @ CHR ''>'' # name @ ''</a>'') = int (length ?p)"
    using assms by (intro find_char_at) auto
  moreover have "rfind_char CHR ''<'' ((?p @ ''>'' @ name) @ CHR ''<'' # ''/a>'') = int (length (?p @ ''>'' @ name))"
    by (rule rfind_char_at) simp
  ultimately show ?thesis
    using slice_middle [of "?p @ ''>''" name "''</a>''"] by (simp add: html_value_def anchor_def algebra_simps)
qed

lemma anchor_a_href:
  assumes "CHR 0x22 \<notin> set url"
  shows "a_href (anchor url opts name) = url"
proof -
  let ?r = "opts @ ''>'' @ name @ ''</a>''"
  have "find_char CHR 0x22 (''<a href='' @ CHR 0x22 # url @ CHR 0x22 # ?r) = int (length ''<a href='')"
    by (rule find_char_at) simp
  moreover have "find_char CHR 0x22 (url @ CHR 0x22 # ?r) = int (length url)"
    using assms by (rule find_char_at)
  ultimately show ?thesis
    using slice_middle [of "''<a href='' @ [CHR 0x22]" url "CHR 0x22 # ?r"]
    by (simp add: a_href_def anchor_def Let_def eval_nat_numeral)
qed

text \<open>The source of a status is read as it was written: from a link to a program, whatever its name and
  whatever further attributes the link has, \<open>source\<close> becomes the name of the program and \<open>source_url\<close> the
  address.\<close>

theorem source_link_read:
  assumes "CHR ''>'' \<notin> set url" "CHR 0x22 \<notin> set url" "CHR ''>'' \<notin> set opts"
  shows "source_attrs (PStr (anchor url opts name)) a =
    Inr (AList.update ''source_url'' (MVal (PStr url)) (AList.update ''source'' (MVal (PStr name)) a))"
proof -
  have "str_contains (anchor url opts name) ''<''"
    unfolding str_contains_iff anchor_def by (rule exI [of _ "[]"]) simp
  then show ?thesis
    using anchor_html_value [OF assms(1,3)] anchor_a_href [OF assms(2)] by (simp add: source_attrs_def)
qed

theorem source_link_read_witness:
  "source_attrs (PStr (anchor ''http://a.b/'' '' rel=nofollow'' ''x < y'')) [] =
     Inr [(''source'', MVal (PStr ''x < y'')), (''source_url'', MVal (PStr ''http://a.b/''))]"
  using source_link_read [of "''http://a.b/''" "'' rel=nofollow''" "''x < y''" "[]"] by simp

end
