(* ===== verification/TweepyOAuth.thy ===== *)
theory TweepyOAuth
  imports OAuth2 TweepyApi "HOL-Library.Multiset"
begin

text \<open>
  Tweepy's own OAuth library, \<open>socialnet/tweepy/tweepy/oauth.py\<close>, and the \<open>OAuthHandler\<close> of
  \<open>socialnet/tweepy/tweepy/auth.py\<close> that signs the calls of the API with it. Names, values and URLs are byte
  strings; numbers are kept as the text \<open>str\<close> makes of them. The clock, the random digits and the network are
  arguments, and so is the data store of the server, which the library leaves to its users.
\<close>

section \<open>Consumers and tokens\<close>

record oa_consumer =
  oc_key :: string
  oc_secret :: string

record oa_token =
  ot_key :: string
  ot_secret :: string
  ot_callback :: "string option"
  ot_confirmed :: "string option"
  ot_verifier :: "string option"

definition new_oa_token :: "string \<Rightarrow> string \<Rightarrow> oa_token" where
  "new_oa_token k s = \<lparr>ot_key = k, ot_secret = s, ot_callback = None, ot_confirmed = None, ot_verifier = None\<rparr>"

text \<open>\<open>generate_nonce\<close> and \<open>generate_verifier\<close>, with the digits that \<open>randint\<close> gave.\<close>

definition digits_text :: "nat list \<Rightarrow> string" where
  "digits_text ds = concat (map show_nat ds)"

definition token_set_callback :: "string option \<Rightarrow> oa_token \<Rightarrow> oa_token" where
  "token_set_callback cb t = t\<lparr>ot_callback := cb, ot_confirmed := Some ''true''\<rparr>"

definition token_set_verifier :: "nat list \<Rightarrow> string option \<Rightarrow> oa_token \<Rightarrow> oa_token" where
  "token_set_verifier ds v t = t\<lparr>ot_verifier := Some (case v of Some x \<Rightarrow> x | None \<Rightarrow> digits_text ds)\<rparr>"

definition token_callback_url :: "oa_token \<Rightarrow> string option res" where
  "token_callback_url t =
     (if truthy_text (ot_callback t) \<and> truthy_text (ot_verifier t) then
        rbind (urlparse (the (ot_callback t))) (\<lambda>u.
          let v = ''oauth_verifier='' @ the (ot_verifier t);
              q = (if query u \<noteq> [] then query u @ ''&'' @ v else v)
          in Inr (Some (urlunparse (u\<lparr>query := q\<rparr>))))
      else Inr (ot_callback t))"

definition token_text :: "oa_token \<Rightarrow> string" where
  "token_text t =
     urlencode ([(''oauth_token'', ot_key t), (''oauth_token_secret'', ot_secret t)]
       @ (case ot_confirmed t of None \<Rightarrow> [] | Some c \<Rightarrow> [(''oauth_callback_confirmed'', c)]))"

definition token_from_text :: "string \<Rightarrow> oa_token res" where
  "token_from_text s =
     (let ps = parse_qs False s in
      case first_value ps ''oauth_token'' of
        None \<Rightarrow> Inl (KeyError ''oauth_token'')
      | Some k \<Rightarrow>
          (case first_value ps ''oauth_token_secret'' of
             None \<Rightarrow> Inl (KeyError ''oauth_token_secret'')
           | Some sec \<Rightarrow> Inr ((new_oa_token k sec)\<lparr>ot_confirmed := first_value ps ''oauth_callback_confirmed''\<rparr>)))"

section \<open>Requests\<close>

type_synonym sdict = "(string \<times> string) list"

record oa_request =
  oq_method :: string
  oq_url :: "string option"
  oq_params :: sdict

definition pct_escape :: "string \<Rightarrow> string" where
  "pct_escape s = quote ''~'' s"

definition oq_set :: "string \<Rightarrow> string \<Rightarrow> oa_request \<Rightarrow> oa_request" where
  "oq_set k v r = r\<lparr>oq_params := AList.update k v (oq_params r)\<rparr>"

definition oq_get :: "string \<Rightarrow> oa_request \<Rightarrow> string res" where
  "oq_get k r = (case map_of (oq_params r) k of None \<Rightarrow> Inl (OAuthError (''Parameter not found: '' @ k)) | Some v \<Rightarrow> Inr v)"

definition oq_timestamp_nonce :: "oa_request \<Rightarrow> (string \<times> string) res" where
  "oq_timestamp_nonce r = rbind (oq_get ''oauth_timestamp'' r) (\<lambda>t. rbind (oq_get ''oauth_nonce'' r) (\<lambda>n. Inr (t, n)))"

definition oq_nonoauth :: "oa_request \<Rightarrow> sdict" where
  "oq_nonoauth r = filter (\<lambda>(k, v). \<not> str_contains k ''oauth_'') (oq_params r)"

definition header_items :: "sdict \<Rightarrow> sdict" where
  "header_items ps = filter (\<lambda>(k, v). take 6 k = ''oauth_'') ps"

definition oq_header :: "string \<Rightarrow> oa_request \<Rightarrow> string \<times> string" where
  "oq_header realm r =
     (''Authorization'', ''OAuth realm='' @ [CHR 0x22] @ realm @ [CHR 0x22] @
        concat (map (\<lambda>(k, v). '', '' @ k @ ''='' @ [CHR 0x22] @ pct_escape v @ [CHR 0x22]) (header_items (oq_params r))))"

definition pair_text :: "string \<times> string \<Rightarrow> string" where
  "pair_text p = fst p @ ''='' @ snd p"

definition escape_pair :: "string \<times> string \<Rightarrow> string \<times> string" where
  "escape_pair p = (pct_escape (fst p), pct_escape (snd p))"

definition oq_postdata :: "oa_request \<Rightarrow> string" where
  "oq_postdata r = str_join ''&'' (map (\<lambda>p. pair_text (escape_pair p)) (oq_params r))"

definition oq_plain_url :: "oa_request \<Rightarrow> string res" where
  "oq_plain_url r =
     (case oq_url r of
        None \<Rightarrow> Inl (AttributeError ''find'')
      | Some url \<Rightarrow> rbind (urlparse url) (\<lambda>u.
          let nl = netloc u; n = length nl;
              nl1 = (if scheme u = ''http'' \<and> ends_with nl '':80'' then take (n - 3) nl
                     else if scheme u = ''https'' \<and> ends_with nl '':443'' then take (n - 4) nl else nl)
          in Inr (scheme u @ ''://'' @ nl1 @ path u)))"

definition oq_to_url :: "oa_request \<Rightarrow> string res" where
  "oq_to_url r = rbind (oq_plain_url r) (\<lambda>u. Inr (u @ ''?'' @ oq_postdata r))"

text \<open>\<open>get_normalized_parameters\<close> takes the signature out of the request itself.\<close>

definition drop_signature :: "oa_request \<Rightarrow> oa_request" where
  "drop_signature r = r\<lparr>oq_params := AList.delete ''oauth_signature'' (oq_params r)\<rparr>"

definition oq_normal_params :: "oa_request \<Rightarrow> oa_request \<times> string" where
  "oq_normal_params r =
     (let r1 = drop_signature r in
      (r1, str_join ''&'' (map pair_text (sort (map escape_pair (oq_params r1))))))"

section \<open>Signature methods\<close>

datatype oa_method = OA_HMAC_SHA1 | OA_PLAINTEXT

fun oa_name :: "oa_method \<Rightarrow> string" where
  "oa_name OA_HMAC_SHA1 = ''HMAC-SHA1''"
| "oa_name OA_PLAINTEXT = ''PLAINTEXT''"

definition oa_key :: "oa_consumer \<Rightarrow> oa_token option \<Rightarrow> string" where
  "oa_key c t = pct_escape (oc_secret c) @ ''&'' @ (case t of None \<Rightarrow> [] | Some tok \<Rightarrow> pct_escape (ot_secret tok))"

text \<open>The key and text to sign, with the request as it is afterwards.\<close>

fun oa_base :: "oa_method \<Rightarrow> oa_consumer \<Rightarrow> oa_token option \<Rightarrow> oa_request \<Rightarrow> oa_request \<times> (string \<times> string) res" where
  "oa_base OA_HMAC_SHA1 c t r =
     (case oq_plain_url r of
        Inl e \<Rightarrow> (r, Inl e)
      | Inr u \<Rightarrow>
          (case oq_normal_params r of (r1, np) \<Rightarrow>
             (r1, Inr (oa_key c t, str_join ''&'' [pct_escape (str_upper (oq_method r)), pct_escape u, pct_escape np]))))"
| "oa_base OA_PLAINTEXT c t r = (r, Inr (oa_key c t, oa_key c t))"

fun oa_signature :: "oa_method \<Rightarrow> string \<times> string \<Rightarrow> string" where
  "oa_signature OA_HMAC_SHA1 (key, raw) = b64encode (hmac_sha1 key raw)"
| "oa_signature OA_PLAINTEXT (key, raw) = key"

definition oa_build :: "oa_method \<Rightarrow> oa_consumer \<Rightarrow> oa_token option \<Rightarrow> oa_request \<Rightarrow> oa_request \<times> string res" where
  "oa_build m c t r = (case oa_base m c t r of (r1, x) \<Rightarrow> (r1, rbind x (\<lambda>b. Inr (oa_signature m b))))"

definition oa_check ::
    "oa_method \<Rightarrow> oa_consumer \<Rightarrow> oa_token option \<Rightarrow> string \<Rightarrow> oa_request \<Rightarrow> oa_request \<times> bool res" where
  "oa_check m c t sg r = (case oa_build m c t r of (r1, x) \<Rightarrow> (r1, rbind x (\<lambda>built. Inr (built = sg))))"

definition oa_sign :: "oa_method \<Rightarrow> oa_consumer \<Rightarrow> oa_token option \<Rightarrow> oa_request \<Rightarrow> oa_request \<times> unit res" where
  "oa_sign m c t r =
     (case oa_build m c t (oq_set ''oauth_signature_method'' (oa_name m) r) of
        (r1, Inl e) \<Rightarrow> (r1, Inl e)
      | (r1, Inr s) \<Rightarrow> (oq_set ''oauth_signature'' s r1, Inr ()))"

section \<open>Building requests\<close>

definition oa_split_header :: "string \<Rightarrow> sdict option" where
  "oa_split_header h = split_parts (str_split (CHR '','') h) []"

definition oa_split_url :: "string \<Rightarrow> sdict" where
  "oa_split_url s = map (\<lambda>(k, vs). (k, unquote (hd vs))) (parse_qs False s)"

definition oa_from_request :: "string \<Rightarrow> string \<Rightarrow> sdict \<Rightarrow> sdict \<Rightarrow> string \<Rightarrow> oa_request option res" where
  "oa_from_request meth url headers ps query_string =
     rbind (case map_of headers ''Authorization'' of
              Some a \<Rightarrow>
                if take 6 a = ''OAuth '' then
                  (case oa_split_header (drop 6 a) of
                     None \<Rightarrow> Inl (OAuthError ''Unable to parse OAuth parameters from Authorization header.'')
                   | Some hp \<Rightarrow> Inr (dict_update ps hp))
                else Inr ps
            | None \<Rightarrow> Inr ps) (\<lambda>p1.
     let p2 = (if query_string \<noteq> [] then dict_update p1 (oa_split_url query_string) else p1)
     in rbind (urlparse url) (\<lambda>u.
        let p3 = dict_update p2 (oa_split_url (query u))
        in Inr (if p3 = [] then None else Some \<lparr>oq_method = meth, oq_url = Some url, oq_params = p3\<rparr>)))"

definition oa_from_consumer_and_token ::
    "int \<Rightarrow> nat list \<Rightarrow> oa_consumer \<Rightarrow> oa_token option \<Rightarrow> string option \<Rightarrow> string option \<Rightarrow> string \<Rightarrow> string option \<Rightarrow> sdict \<Rightarrow>
     oa_request" where
  "oa_from_consumer_and_token now digits c t cb vf meth url ps =
     (let defaults = [(''oauth_consumer_key'', oc_key c), (''oauth_timestamp'', show_int now),
            (''oauth_nonce'', digits_text digits), (''oauth_version'', ''1.0'')];
          p1 = dict_update defaults ps;
          put = (\<lambda>k v p. if truthy_text v then AList.update k (the v) p else p);
          p2 = (case t of
                  Some tok \<Rightarrow> put ''oauth_verifier'' vf (put ''oauth_callback'' (ot_callback tok) (AList.update ''oauth_token'' (ot_key tok) p1))
                | None \<Rightarrow> put ''oauth_callback'' cb p1)
      in \<lparr>oq_method = meth, oq_url = url, oq_params = p2\<rparr>)"

definition oa_from_token_and_callback :: "oa_token \<Rightarrow> string option \<Rightarrow> string \<Rightarrow> string option \<Rightarrow> sdict \<Rightarrow> oa_request" where
  "oa_from_token_and_callback tok cb meth url ps =
     (let p = AList.update ''oauth_token'' (ot_key tok) ps
      in \<lparr>oq_method = meth, oq_url = url,
          oq_params = (if truthy_text cb then AList.update ''oauth_callback'' (the cb) p else p)\<rparr>)"

section \<open>The server\<close>

text \<open>The data store, with the methods as the server calls them, and a call of the server: it works on the store and
  on the request, which checking a signature changes.\<close>

record 's oa_store =
  ds_consumer :: "string \<Rightarrow> 's \<Rightarrow> 's \<times> oa_consumer option res"
  ds_token :: "string \<Rightarrow> string \<Rightarrow> 's \<Rightarrow> 's \<times> oa_token option res"
  ds_nonce :: "oa_consumer \<Rightarrow> oa_token option \<Rightarrow> string \<Rightarrow> 's \<Rightarrow> 's \<times> string option res"
  ds_request_token :: "oa_consumer \<Rightarrow> string option \<Rightarrow> 's \<Rightarrow> 's \<times> oa_token option res"
  ds_access_token :: "oa_consumer \<Rightarrow> oa_token \<Rightarrow> string option \<Rightarrow> 's \<Rightarrow> 's \<times> oa_token option res"
  ds_authorize :: "oa_token \<Rightarrow> string \<Rightarrow> 's \<Rightarrow> 's \<times> oa_token option res"

record 's oa_server =
  os_store :: "'s oa_store"
  os_methods :: "(string \<times> oa_method) list"

type_synonym ('s, 'a) ocall = "'s \<times> oa_request \<Rightarrow> ('s \<times> oa_request) \<times> 'a res"

definition ogive :: "'a res \<Rightarrow> ('s, 'a) ocall" where
  "ogive x st = (st, x)"

definition othen :: "('s, 'a) ocall \<Rightarrow> ('a \<Rightarrow> ('s, 'b) ocall) \<Rightarrow> ('s, 'b) ocall" where
  "othen f g st = (case f st of (st1, Inl e) \<Rightarrow> (st1, Inl e) | (st1, Inr x) \<Rightarrow> g x st1)"

text \<open>The clause \<open>except OAuthError\<close>.\<close>

definition ocatch :: "('s, 'a) ocall \<Rightarrow> ('s, 'a) ocall \<Rightarrow> ('s, 'a) ocall" where
  "ocatch f g st = (case f st of (st1, Inl (OAuthError m)) \<Rightarrow> g st1 | x \<Rightarrow> x)"

definition oask :: "(oa_request \<Rightarrow> 'a res) \<Rightarrow> ('s, 'a) ocall" where
  "oask f st = (st, f (snd st))"

definition ostore :: "('s \<Rightarrow> 's \<times> 'a res) \<Rightarrow> ('s, 'a) ocall" where
  "ostore f st = (case f (fst st) of (s, x) \<Rightarrow> ((s, snd st), x))"

definition oreq :: "(oa_request \<Rightarrow> oa_request \<times> 'a res) \<Rightarrow> ('s, 'a) ocall" where
  "oreq f st = (case f (snd st) of (r, x) \<Rightarrow> ((fst st, r), x))"

definition oa_add_method :: "oa_method \<Rightarrow> 's oa_server \<Rightarrow> 's oa_server" where
  "oa_add_method m sv = sv\<lparr>os_methods := AList.update (oa_name m) m (os_methods sv)\<rparr>"

definition oa_get_version :: "oa_request \<Rightarrow> string res" where
  "oa_get_version r =
     (let v = (case oq_get ''oauth_version'' r of Inl e \<Rightarrow> ''1.0'' | Inr v \<Rightarrow> v) in
      if v \<noteq> [] \<and> v \<noteq> ''1.0'' then Inl (OAuthError ''OAuth version not supported.'') else Inr v)"

definition oa_get_method :: "'s oa_server \<Rightarrow> oa_request \<Rightarrow> oa_method res" where
  "oa_get_method sv r =
     (let n = (case oq_get ''oauth_signature_method'' r of Inl e \<Rightarrow> ''PLAINTEXT'' | Inr v \<Rightarrow> v) in
      case map_of (os_methods sv) n of None \<Rightarrow> Inl (OAuthError ''Signature method not supported'') | Some m \<Rightarrow> Inr m)"

definition oa_get_consumer :: "'s oa_server \<Rightarrow> ('s, oa_consumer) ocall" where
  "oa_get_consumer sv =
     othen (oask (oq_get ''oauth_consumer_key'')) (\<lambda>k.
     othen (ostore (ds_consumer (os_store sv) k)) (\<lambda>c.
     ogive (case c of None \<Rightarrow> Inl (OAuthError ''Invalid consumer.'') | Some x \<Rightarrow> Inr x)))"

definition oa_get_token :: "'s oa_server \<Rightarrow> string \<Rightarrow> ('s, oa_token) ocall" where
  "oa_get_token sv kind =
     othen (oask (oq_get ''oauth_token'')) (\<lambda>k.
     othen (ostore (ds_token (os_store sv) kind k)) (\<lambda>t.
     ogive (case t of None \<Rightarrow> Inl (OAuthError (''Invalid '' @ kind @ '' token: '' @ k)) | Some x \<Rightarrow> Inr x)))"

definition oa_check_timestamp :: "int \<Rightarrow> string \<Rightarrow> unit res" where
  "oa_check_timestamp now t =
     rbind (parse_int t) (\<lambda>ts. if \<bar>now - ts\<bar> > 300 then Inl (OAuthError ''Expired timestamp'') else Inr ())"

definition oa_check_nonce :: "'s oa_server \<Rightarrow> oa_consumer \<Rightarrow> oa_token option \<Rightarrow> string \<Rightarrow> ('s, unit) ocall" where
  "oa_check_nonce sv c t n =
     othen (ostore (ds_nonce (os_store sv) c t n)) (\<lambda>x.
     ogive (if truthy_text x then Inl (OAuthError (''Nonce already used: '' @ the x)) else Inr ()))"

definition oa_get_signature :: "oa_request \<Rightarrow> string res" where
  "oa_get_signature r = (case oq_get ''oauth_signature'' r of Inl e \<Rightarrow> Inl (OAuthError ''Missing signature.'') | Inr v \<Rightarrow> Inr v)"

definition oa_check_signature :: "int \<Rightarrow> 's oa_server \<Rightarrow> oa_consumer \<Rightarrow> oa_token option \<Rightarrow> ('s, unit) ocall" where
  "oa_check_signature now sv c t =
     othen (oask oq_timestamp_nonce) (\<lambda>(ts, nonce).
     othen (ogive (oa_check_timestamp now ts)) (\<lambda>_.
     othen (oa_check_nonce sv c t nonce) (\<lambda>_.
     othen (oask (oa_get_method sv)) (\<lambda>m.
     othen (oask oa_get_signature) (\<lambda>sg.
     othen (oreq (oa_check m c t sg)) (\<lambda>valid.
       if valid then othen (oreq (oa_build m c t)) (\<lambda>_. ogive (Inr ()))
       else othen (oreq (oa_base m c t)) (\<lambda>_. ogive (Inl (OAuthError ''Invalid signature.'')))))))))"

definition oa_fetch_request_token :: "int \<Rightarrow> 's oa_server \<Rightarrow> ('s, oa_token option) ocall" where
  "oa_fetch_request_token now sv =
     ocatch (othen (oa_get_token sv ''request'') (\<lambda>t. ogive (Inr (Some t))))
       (othen (oask oa_get_version) (\<lambda>_.
        othen (oa_get_consumer sv) (\<lambda>c.
        othen (ocatch (othen (oask (oq_get ''oauth_callback'')) (\<lambda>x. ogive (Inr (Some x)))) (ogive (Inr None))) (\<lambda>cb.
        othen (oa_check_signature now sv c None) (\<lambda>_.
        ostore (ds_request_token (os_store sv) c cb))))))"

definition oa_fetch_access_token :: "int \<Rightarrow> 's oa_server \<Rightarrow> ('s, oa_token option) ocall" where
  "oa_fetch_access_token now sv =
     othen (oask oa_get_version) (\<lambda>_.
     othen (oa_get_consumer sv) (\<lambda>c.
     othen (ocatch (othen (oask (oq_get ''oauth_verifier'')) (\<lambda>x. ogive (Inr (Some x)))) (ogive (Inr None))) (\<lambda>vf.
     othen (oa_get_token sv ''request'') (\<lambda>t.
     othen (oa_check_signature now sv c (Some t)) (\<lambda>_.
     ostore (ds_access_token (os_store sv) c t vf))))))"

definition oa_verify_request :: "int \<Rightarrow> 's oa_server \<Rightarrow> ('s, oa_consumer \<times> oa_token \<times> sdict) ocall" where
  "oa_verify_request now sv =
     othen (oask oa_get_version) (\<lambda>_.
     othen (oa_get_consumer sv) (\<lambda>c.
     othen (oa_get_token sv ''access'') (\<lambda>t.
     othen (oa_check_signature now sv c (Some t)) (\<lambda>_.
     oask (\<lambda>r. Inr (c, t, oq_nonoauth r))))))"

definition oa_authorize_token :: "'s oa_server \<Rightarrow> oa_token \<Rightarrow> string \<Rightarrow> 's \<Rightarrow> 's \<times> oa_token option res" where
  "oa_authorize_token sv t user = ds_authorize (os_store sv) t user"

section \<open>The handler of the API\<close>

text \<open>The clock, the digits of a nonce, \<open>urlopen\<close> with URL, headers and data, and the text of an exception.\<close>

record 'w oa_env =
  oe_now :: "'w \<Rightarrow> int"
  oe_digits :: "'w \<Rightarrow> 'w \<times> nat list"
  oe_open :: "string \<Rightarrow> sdict \<Rightarrow> string option \<Rightarrow> 'w \<Rightarrow> 'w \<times> string res"
  oe_text :: "exc \<Rightarrow> string"

record oauth_handler =
  oh_consumer :: oa_consumer
  oh_request_token :: "oa_token option"
  oh_access_token :: "oa_token option"
  oh_callback :: "string option"
  oh_username :: "string option"
  oh_secure :: bool

definition new_oauth_handler :: "string \<Rightarrow> string \<Rightarrow> string option \<Rightarrow> bool \<Rightarrow> oauth_handler" where
  "new_oauth_handler k s cb secure =
     \<lparr>oh_consumer = \<lparr>oc_key = k, oc_secret = s\<rparr>, oh_request_token = None, oh_access_token = None,
      oh_callback = cb, oh_username = None, oh_secure = secure\<rparr>"

definition get_oauth_url :: "oauth_handler \<Rightarrow> string \<Rightarrow> bool \<Rightarrow> string" where
  "get_oauth_url h endpoint secure =
     (if oh_secure h \<or> secure then ''https://'' else ''http://'') @ ''api.twitter.com'' @ ''/oauth/'' @ endpoint"

text \<open>The request of the handler's consumer, made now and signed with \<open>HMAC-SHA1\<close>.\<close>

definition signed_request ::
    "'w oa_env \<Rightarrow> oauth_handler \<Rightarrow> oa_token option \<Rightarrow> string option \<Rightarrow> string option \<Rightarrow> string \<Rightarrow> string \<Rightarrow> sdict \<Rightarrow>
     'w \<Rightarrow> 'w \<times> oa_request res" where
  "signed_request env h t cb vf meth url ps w =
     (case oe_digits env w of (w1, ds) \<Rightarrow>
        (case oa_sign OA_HMAC_SHA1 (oh_consumer h) t
                (oa_from_consumer_and_token (oe_now env w) ds (oh_consumer h) t cb vf meth (Some url) ps) of
           (r, x) \<Rightarrow> (w1, rbind x (\<lambda>_. Inr r))))"

definition oauth_apply ::
    "'w oa_env \<Rightarrow> oauth_handler \<Rightarrow> string \<Rightarrow> string \<Rightarrow> sdict \<Rightarrow> sdict \<Rightarrow> 'w \<Rightarrow> 'w \<times> sdict res" where
  "oauth_apply env h url meth hs ps w =
     (case signed_request env h (oh_access_token h) None None meth url ps w of
        (w1, x) \<Rightarrow> (w1, rbind x (\<lambda>r. Inr (dict_update hs [oq_header [] r]))))"

text \<open>Sending a request and reading the token in the answer; every exception becomes a \<open>TweepError\<close>.\<close>

definition tweep :: "'w oa_env \<Rightarrow> 'a res \<Rightarrow> 'a res" where
  "tweep env x = (case x of Inl e \<Rightarrow> Inl (TweepError (oe_text env e)) | Inr y \<Rightarrow> Inr y)"

definition fetch_token ::
    "'w oa_env \<Rightarrow> string \<Rightarrow> (oa_request \<Rightarrow> sdict \<times> string option) \<Rightarrow> 'w \<times> oa_request res \<Rightarrow> 'w \<times> oa_token res" where
  "fetch_token env url send wx =
     (case wx of
        (w, Inl e) \<Rightarrow> (w, Inl e)
      | (w, Inr r) \<Rightarrow> (case send r of (hs, data) \<Rightarrow>
          (case oe_open env url hs data w of (w1, y) \<Rightarrow> (w1, rbind y token_from_text))))"

definition fetch_request_token :: "'w oa_env \<Rightarrow> oauth_handler \<Rightarrow> 'w \<Rightarrow> 'w \<times> oa_token res" where
  "fetch_request_token env h w =
     (let url = get_oauth_url h ''request_token'' False in
      case fetch_token env url (\<lambda>r. ([oq_header [] r], None))
             (signed_request env h None (oh_callback h) None ''GET'' url [] w) of
        (w1, x) \<Rightarrow> (w1, tweep env x))"

definition set_request_token :: "string \<Rightarrow> string \<Rightarrow> oauth_handler \<Rightarrow> oauth_handler" where
  "set_request_token k s h = h\<lparr>oh_request_token := Some (new_oa_token k s)\<rparr>"

definition set_access_token :: "string \<Rightarrow> string \<Rightarrow> oauth_handler \<Rightarrow> oauth_handler" where
  "set_access_token k s h = h\<lparr>oh_access_token := Some (new_oa_token k s)\<rparr>"

definition get_authorization_url ::
    "'w oa_env \<Rightarrow> bool \<Rightarrow> 'w \<times> oauth_handler \<Rightarrow> ('w \<times> oauth_handler) \<times> string res" where
  "get_authorization_url env signin st =
     (case st of (w, h) \<Rightarrow>
      case fetch_request_token env h w of
        (w1, Inl e) \<Rightarrow> ((w1, h), tweep env (Inl e))
      | (w1, Inr t) \<Rightarrow>
          (let h1 = h\<lparr>oh_request_token := Some t\<rparr>;
               url = get_oauth_url h1 (if signin then ''authenticate'' else ''authorize'') False
           in ((w1, h1), tweep env (oq_to_url (oa_from_token_and_callback t None ''GET'' (Some url) [])))))"

text \<open>\<open>str(verifier)\<close> is the text None when there is no verifier.\<close>

definition verifier_text :: "string option \<Rightarrow> string" where
  "verifier_text v = (case v of None \<Rightarrow> ''None'' | Some s \<Rightarrow> s)"

definition keep_access_token ::
    "'w oa_env \<Rightarrow> oauth_handler \<Rightarrow> 'w \<times> oa_token res \<Rightarrow> ('w \<times> oauth_handler) \<times> oa_token res" where
  "keep_access_token env h wx =
     (case wx of
        (w, Inl e) \<Rightarrow> ((w, h), tweep env (Inl e))
      | (w, Inr t) \<Rightarrow> ((w, h\<lparr>oh_access_token := Some t\<rparr>), Inr t))"

definition get_access_token ::
    "'w oa_env \<Rightarrow> string option \<Rightarrow> 'w \<times> oauth_handler \<Rightarrow> ('w \<times> oauth_handler) \<times> oa_token res" where
  "get_access_token env vf st =
     (case st of (w, h) \<Rightarrow>
      let url = get_oauth_url h ''access_token'' False in
      keep_access_token env h
        (fetch_token env url (\<lambda>r. ([oq_header [] r], None))
           (signed_request env h (oh_request_token h) None (Some (verifier_text vf)) ''GET'' url [] w)))"

definition xauth_params :: "string \<Rightarrow> string \<Rightarrow> sdict" where
  "xauth_params username password =
     [(''x_auth_mode'', ''client_auth''), (''x_auth_username'', username), (''x_auth_password'', password)]"

definition get_xauth_access_token ::
    "'w oa_env \<Rightarrow> string \<Rightarrow> string \<Rightarrow> 'w \<times> oauth_handler \<Rightarrow> ('w \<times> oauth_handler) \<times> oa_token res" where
  "get_xauth_access_token env username password st =
     (case st of (w, h) \<Rightarrow>
      let url = get_oauth_url h ''access_token'' True in
      keep_access_token env h
        (fetch_token env url (\<lambda>r. ([], Some (oq_postdata r)))
           (signed_request env h None None None ''POST'' url (xauth_params username password) w)))"

text \<open>The name of the user, asked for once: \<open>verify\<close> is \<open>verify_credentials\<close> and the screen name it gives.\<close>

definition oauth_username ::
    "('w \<Rightarrow> 'w \<times> string option res) \<Rightarrow> 'w \<times> oauth_handler \<Rightarrow> ('w \<times> oauth_handler) \<times> string res" where
  "oauth_username verify st =
     (case st of (w, h) \<Rightarrow>
      case oh_username h of
        Some u \<Rightarrow> ((w, h), Inr u)
      | None \<Rightarrow>
          (case verify w of
             (w1, Inl e) \<Rightarrow> ((w1, h), Inl e)
           | (w1, Inr None) \<Rightarrow> ((w1, h), Inl (TweepError ''Unable to get username, invalid oauth token!''))
           | (w1, Inr (Some u)) \<Rightarrow> ((w1, h\<lparr>oh_username := Some u\<rparr>), Inr u)))"

text \<open>The handler as the binder uses it.\<close>

definition oauth_auth :: "'w oa_env \<Rightarrow> ('w \<Rightarrow> 'w \<times> string option res) \<Rightarrow> oauth_handler \<Rightarrow> 'w auth_handler" where
  "oauth_auth env verify h =
     \<lparr>ah_apply = oauth_apply env h,
      ah_username = (\<lambda>w. case oauth_username verify (w, h) of ((w1, h1), x) \<Rightarrow> (w1, x))\<rparr>"

section \<open>Signing and reading back\<close>

lemma pct_escape_clean [simp]:
  "CHR 0x22 \<notin> set (pct_escape s)" "CHR '','' \<notin> set (pct_escape s)" "CHR '' '' \<notin> set (pct_escape s)"
  by (auto simp: pct_escape_def dest: quote_chars)

lemma unquote_pct_escape [simp]: "unquote (pct_escape s) = s"
  by (simp add: pct_escape_def)

lemma update_fresh: "k \<notin> fst ` set d \<Longrightarrow> AList.update k v d = d @ [(k, v)]"
  by (induction d) auto

lemma delete_fresh: "k \<notin> fst ` set d \<Longrightarrow> AList.delete k d = d"
  by (induction d) auto

lemma sort_mset: "mset xs = mset ys \<Longrightarrow> sort xs = sort (ys :: 'a::linorder list)"
  by (metis mset_sort properties_for_sort sorted_sort)

text \<open>Parameters of a call: names that are distinct and have nothing of OAuth in them.\<close>

definition call_params :: "sdict \<Rightarrow> bool" where
  "call_params ps \<longleftrightarrow> distinct (map fst ps) \<and> (\<forall>p\<in>set ps. \<not> str_contains (fst p) ''oauth_'')"

lemma oauth_in_name: "take 6 k = ''oauth_'' \<Longrightarrow> str_contains k ''oauth_''"
  unfolding str_contains_iff by (metis append_Nil append_take_drop_id)

lemma call_params_fresh: "call_params ps \<Longrightarrow> take 6 k = ''oauth_'' \<Longrightarrow> k \<notin> fst ` set ps"
  by (auto simp: call_params_def dest: oauth_in_name)

lemma call_params_no_items: "call_params ps \<Longrightarrow> header_items ps = []"
  using call_params_fresh [of ps] by (force simp: header_items_def filter_empty_conv)

lemma call_params_nonoauth: "call_params ps \<Longrightarrow> filter (\<lambda>(k, v). \<not> str_contains k ''oauth_'') ps = ps"
  unfolding call_params_def by (intro filter_True) (auto split: prod.split)

definition basic_items :: "int \<Rightarrow> nat list \<Rightarrow> oa_consumer \<Rightarrow> sdict" where
  "basic_items now ds c = [(''oauth_consumer_key'', oc_key c), (''oauth_timestamp'', show_int now),
     (''oauth_nonce'', digits_text ds), (''oauth_version'', ''1.0'')]"

definition token_items :: "oa_token \<Rightarrow> sdict" where
  "token_items t = (''oauth_token'', ot_key t) #
     (if truthy_text (ot_callback t) then [(''oauth_callback'', the (ot_callback t))] else [])"

lemma made_params:
  assumes "call_params ps"
  shows "oq_params (oa_from_consumer_and_token now ds c (Some t) None None meth url ps) =
    basic_items now ds c @ ps @ token_items t"
proof -
  have "fst ` set (basic_items now ds c) \<inter> fst ` set ps = {}"
    using call_params_fresh [OF assms] by (auto simp: basic_items_def)
  then have "dict_update (basic_items now ds c) ps = basic_items now ds c @ ps"
    using assms by (intro dict_update_fresh) (auto simp: call_params_def)
  moreover have "''oauth_token'' \<notin> fst ` set ps" "''oauth_callback'' \<notin> fst ` set ps"
    using call_params_fresh [OF assms] by auto
  ultimately show ?thesis
    by (auto simp: oa_from_consumer_and_token_def Let_def update_fresh token_items_def truthy_text_def basic_items_def)
qed

lemma oq_set_simps [simp]:
  "oq_method (oq_set k v r) = oq_method r" "oq_url (oq_set k v r) = oq_url r"
  "oq_params (oq_set k v r) = AList.update k v (oq_params r)"
  by (simp_all add: oq_set_def)

lemma made_request [simp]:
  "oq_method (oa_from_consumer_and_token now ds c t cb vf meth url ps) = meth"
  "oq_url (oa_from_consumer_and_token now ds c t cb vf meth url ps) = url"
  by (simp_all add: oa_from_consumer_and_token_def Let_def)

definition method_item :: "string \<times> string" where
  "method_item = (''oauth_signature_method'', ''HMAC-SHA1'')"

text \<open>The text that is signed for the parameters.\<close>

definition normal_text :: "sdict \<Rightarrow> string" where
  "normal_text ps = str_join ''&'' (map pair_text (sort (map escape_pair ps)))"

definition hmac_value :: "oa_consumer \<Rightarrow> oa_token \<Rightarrow> string \<Rightarrow> string \<Rightarrow> sdict \<Rightarrow> string" where
  "hmac_value c t meth u ps = b64encode (hmac_sha1 (oa_key c (Some t))
     (str_join ''&'' [pct_escape (str_upper meth), pct_escape u, pct_escape (normal_text ps)]))"

lemma normal_text_mset: "mset ps = mset qs \<Longrightarrow> normal_text ps = normal_text qs"
  unfolding normal_text_def by (metis mset_map sort_mset)

lemma build_hmac:
  assumes "oq_plain_url r = Inr u"
  shows "oa_build OA_HMAC_SHA1 c (Some t) r =
    (drop_signature r, Inr (hmac_value c t (oq_method r) u (AList.delete ''oauth_signature'' (oq_params r))))"
  using assms by (simp add: oa_build_def oq_normal_params_def Let_def hmac_value_def normal_text_def drop_signature_def)

lemma plain_url_cong: "oq_url r = oq_url q \<Longrightarrow> oq_plain_url r = oq_plain_url q"
  by (simp add: oq_plain_url_def)

text \<open>What a signed call carries.\<close>

lemma signed_call:
  fixes now ds c t meth
  assumes "call_params ps" "urlparse url = Inr u"
  defines "r0 \<equiv> oa_from_consumer_and_token now ds c (Some t) None None meth (Some url) ps"
    and "qs \<equiv> basic_items now ds c @ ps @ token_items t @ [method_item]"
  obtains n where "oq_plain_url \<lparr>oq_method = meth, oq_url = Some url, oq_params = []\<rparr> = Inr n"
    "oa_sign OA_HMAC_SHA1 c (Some t) r0 =
      (\<lparr>oq_method = meth, oq_url = Some url, oq_params = qs @ [(''oauth_signature'', hmac_value c t meth n qs)]\<rparr>, Inr ())"
proof -
  obtain n where n: "oq_plain_url \<lparr>oq_method = meth, oq_url = Some url, oq_params = []\<rparr> = Inr n"
    using assms(2) by (simp add: oq_plain_url_def Let_def)
  have fresh: "k \<notin> fst ` set (basic_items now ds c @ ps @ token_items t)"
    if "k \<in> {''oauth_signature_method'', ''oauth_signature''}" for k
    using that call_params_fresh [OF assms(1), of k] by (force simp: basic_items_def token_items_def)
  let ?r = "oq_set ''oauth_signature_method'' (oa_name OA_HMAC_SHA1) r0"
  have "''oauth_signature_method'' \<notin> fst ` set (basic_items now ds c @ ps @ token_items t)"
    by (rule fresh) simp
  then have "AList.update ''oauth_signature_method'' (oa_name OA_HMAC_SHA1) (basic_items now ds c @ ps @ token_items t) =
      (basic_items now ds c @ ps @ token_items t) @ [(''oauth_signature_method'', oa_name OA_HMAC_SHA1)]"
    by (rule update_fresh)
  moreover have "oq_params r0 = basic_items now ds c @ ps @ token_items t"
    unfolding r0_def by (rule made_params [OF assms(1)])
  ultimately have ps: "oq_params ?r = qs"
    by (simp only: oq_set_def oa_request.simps) (simp add: qs_def method_item_def)
  have "oq_method ?r = meth" "oq_url ?r = Some url"
    unfolding r0_def by (simp_all only: oq_set_simps made_request)
  with ps have r: "?r = \<lparr>oq_method = meth, oq_url = Some url, oq_params = qs\<rparr>"
    by (cases ?r) (simp only: oa_request.simps)
  have s: "''oauth_signature'' \<notin> fst ` set qs"
    using fresh [of "''oauth_signature''"] by (simp add: qs_def method_item_def)
  let ?R = "\<lparr>oq_method = meth, oq_url = Some url, oq_params = qs\<rparr>"
  have "oq_plain_url ?R = Inr n" using n by (simp add: oq_plain_url_def)
  then have "oa_build OA_HMAC_SHA1 c (Some t) ?R = (?R, Inr (hmac_value c t meth n qs))"
    by (simp add: build_hmac drop_signature_def delete_fresh [OF s])
  then have "oa_sign OA_HMAC_SHA1 c (Some t) r0 =
      (\<lparr>oq_method = meth, oq_url = Some url, oq_params = qs @ [(''oauth_signature'', hmac_value c t meth n qs)]\<rparr>, Inr ())"
    unfolding oa_sign_def r by (simp add: oq_set_def update_fresh [OF s])
  with n show thesis by (rule that)
qed

lemma join_concat: "(if es = [] then [] else '', '' @ str_join '', '' es) = concat (map (\<lambda>e. '', '' @ e) es)"
proof (induction es)
  case (Cons e es)
  then show ?case by (cases es) auto
qed simp

definition escaped_value :: "string \<times> string \<Rightarrow> string \<times> string" where
  "escaped_value p = (fst p, pct_escape (snd p))"

text \<open>The header behind its empty realm.\<close>

definition header_rest :: "oa_request \<Rightarrow> string" where
  "header_rest r = concat (map (\<lambda>e. '', '' @ e) (map quoted_item (map escaped_value (header_items (oq_params r)))))"

lemma header_shape: "oq_header [] r = (''Authorization'', ''OAuth realm='' @ [CHR 0x22, CHR 0x22] @ header_rest r)"
  by (simp add: oq_header_def header_rest_def quoted_item_def escaped_value_def case_prod_unfold o_def)

lemma item_within: "e \<in> set es \<Longrightarrow> str_contains (CHR '' '' # e) w \<Longrightarrow> str_contains (concat (map (\<lambda>e. '', '' @ e) es)) w"
proof -
  assume e: "e \<in> set es" and "str_contains (CHR '' '' # e) w"
  then obtain a b where ab: "CHR '' '' # e = a @ w @ b" by (auto simp: str_contains_iff)
  obtain xs ys where "es = xs @ e # ys" using split_list [OF e] by blast
  then have "concat (map (\<lambda>e. '', '' @ e) es) =
      (concat (map (\<lambda>e. '', '' @ e) xs) @ '','' @ a) @ w @ b @ concat (map (\<lambda>e. '', '' @ e) ys)"
    using ab by simp
  then show ?thesis unfolding str_contains_iff by blast
qed

text \<open>What \<open>to_header\<close> writes, \<open>_split_header\<close> reads, if the word realm is only in front.\<close>

lemma header_read:
  assumes "distinct (map fst (oq_params r))" "list_all (\<lambda>p. clean_key (fst p)) (header_items (oq_params r))"
    "\<not> str_contains (header_rest r) ''realm''"
  shows "oa_split_header (drop 6 (snd (oq_header [] r))) = Some (header_items (oq_params r))"
proof -
  let ?is = "header_items (oq_params r)" and ?es = "map escaped_value (header_items (oq_params r))"
  have "\<not> str_contains (CHR '' '' # quoted_item (escaped_value p)) ''realm''" if "p \<in> set ?is" for p
    using assms(3) item_within [of "quoted_item (escaped_value p)" "map quoted_item ?es"] that
    by (auto simp: header_rest_def)
  then have "list_all header_safe ?es"
    using assms(2) by (auto simp: list_all_iff header_safe_def escaped_value_def)
  moreover have "distinct (map fst ?es)"
    using assms(1) by (simp add: escaped_value_def o_def header_items_def distinct_map_filter)
  ultimately have "oa_split_header (''realm='' @ [CHR 0x22, CHR 0x22] @ header_rest r) =
      Some (map (\<lambda>(k, v). (k, unquote v)) ?es)"
    using split_quoted_header [of ?es "[]"] join_concat [of "map quoted_item ?es"]
    by (simp add: oa_split_header_def header_rest_def)
  moreover have "map (\<lambda>(k, v). (k, unquote v)) ?es = ?is" by (simp add: escaped_value_def o_def)
  ultimately show ?thesis by (simp add: header_shape)
qed

lemma delete_append: "AList.delete k (xs @ ys) = AList.delete k xs @ AList.delete k ys"
  by (induction xs) auto

lemma othen_simps [simp]:
  "othen (ogive (Inr x)) g st = g x st"
  "othen (ogive (Inl e)) g st = (st, Inl e)"
  "othen (oask f) g st = (case f (snd st) of Inl e \<Rightarrow> (st, Inl e) | Inr x \<Rightarrow> g x st)"
  "othen (ostore h) g st = (case h (fst st) of (s, Inl e) \<Rightarrow> ((s, snd st), Inl e) | (s, Inr x) \<Rightarrow> g x (s, snd st))"
  "othen (oreq q) g st = (case q (snd st) of (r, Inl e) \<Rightarrow> ((fst st, r), Inl e) | (r, Inr x) \<Rightarrow> g x (fst st, r))"
  "othen (othen c d) g st = othen c (\<lambda>x. othen (d x) g) st"
  by (auto simp: othen_def ogive_def oask_def ostore_def oreq_def split: sum.split prod.split)

text \<open>A store that knows consumer and token and has not seen the nonce.\<close>

definition store_knows ::
    "'s oa_store \<Rightarrow> oa_consumer \<Rightarrow> oa_token \<Rightarrow> oa_token \<Rightarrow> string \<Rightarrow> 's \<Rightarrow> 's \<Rightarrow> bool" where
  "store_knows D c t t' nonce s s' \<longleftrightarrow>
     (\<exists>s1 s2. ds_consumer D (oc_key c) s = (s1, Inr (Some c)) \<and>
       ds_token D ''access'' (ot_key t) s1 = (s2, Inr (Some t')) \<and> ot_secret t' = ot_secret t \<and>
       ds_nonce D c (Some t') nonce s2 = (s', Inr None))"

lemma verify_known:
  assumes "store_knows (os_store sv) c t t' nonce s s'" "map_of (os_methods sv) ''HMAC-SHA1'' = Some OA_HMAC_SHA1"
    and "\<bar>now' - now\<bar> \<le> 300" "oq_plain_url r = Inr n"
    and "map_of (oq_params r) ''oauth_version'' = Some ''1.0''" "map_of (oq_params r) ''oauth_consumer_key'' = Some (oc_key c)"
      "map_of (oq_params r) ''oauth_token'' = Some (ot_key t)" "map_of (oq_params r) ''oauth_timestamp'' = Some (show_int now)"
      "map_of (oq_params r) ''oauth_nonce'' = Some nonce" "map_of (oq_params r) ''oauth_signature_method'' = Some ''HMAC-SHA1''"
      "map_of (oq_params r) ''oauth_signature'' =
        Some (hmac_value c t' (oq_method r) n (AList.delete ''oauth_signature'' (oq_params r)))"
  shows "oa_verify_request now' sv (s, r) = ((s', drop_signature r), Inr (c, t', oq_nonoauth (drop_signature r)))"
proof -
  obtain s1 s2 where st: "ds_consumer (os_store sv) (oc_key c) s = (s1, Inr (Some c))"
      "ds_token (os_store sv) ''access'' (ot_key t) s1 = (s2, Inr (Some t'))"
      "ds_nonce (os_store sv) c (Some t') nonce s2 = (s', Inr None)"
    using assms(1) by (auto simp: store_knows_def)
  have ver: "oa_get_version r = Inr ''1.0''" by (simp add: oa_get_version_def oq_get_def assms(5))
  have con: "oa_get_consumer sv (s, r) = ((s1, r), Inr c)"
    by (simp add: oa_get_consumer_def oq_get_def assms(6) st) (simp add: ogive_def)
  have tok: "oa_get_token sv ''access'' (s1, r) = ((s2, r), Inr t')"
    by (simp add: oa_get_token_def oq_get_def assms(7) st) (simp add: ogive_def)
  have non: "oa_check_nonce sv c (Some t') nonce (s2, r) = ((s', r), Inr ())"
    by (simp add: oa_check_nonce_def st truthy_text_def) (simp add: ogive_def)
  have time: "oa_check_timestamp now' (show_int now) = Inr ()" using assms(3) by (simp add: oa_check_timestamp_def)
  have meth: "oa_get_method sv r = Inr OA_HMAC_SHA1" by (simp add: oa_get_method_def oq_get_def assms(2,10))
  have "oq_plain_url (drop_signature r) = Inr n" using assms(4) by (simp add: oq_plain_url_def drop_signature_def)
  then have "\<exists>x. oa_build OA_HMAC_SHA1 c (Some t') (drop_signature r) = (drop_signature r, Inr x)"
    by (simp add: build_hmac) (simp add: drop_signature_def AList.delete_idem)
  then have "oa_check_signature now' sv c (Some t') (s2, r) = ((s', drop_signature r), Inr ())"
    unfolding oa_check_signature_def
    by (auto simp: oq_timestamp_nonce_def oa_get_signature_def oq_get_def assms(8,9,11) time non meth oa_check_def build_hmac [OF assms(4)] othen_def [of "oa_check_nonce _ _ _ _"]) (simp add: ogive_def)
  then show ?thesis
    unfolding oa_verify_request_def
    by (simp add: ver othen_def [of "oa_get_consumer sv"] con othen_def [of "oa_get_token sv _"] tok
        othen_def [of "oa_check_signature _ _ _ _"]) (simp add: oask_def)
qed

definition oauth_items :: "int \<Rightarrow> nat list \<Rightarrow> oa_consumer \<Rightarrow> oa_token \<Rightarrow> string \<Rightarrow> sdict" where
  "oauth_items now ds c t sg = basic_items now ds c @ token_items t @ [method_item, (''oauth_signature'', sg)]"

lemma oauth_items_names:
  "header_items (oauth_items now ds c t sg) = oauth_items now ds c t sg"
  "list_all (\<lambda>p. clean_key (fst p)) (oauth_items now ds c t sg)"
  "distinct (map fst (oauth_items now ds c t sg))"
  "filter (\<lambda>(k, v). \<not> str_contains k ''oauth_'') (oauth_items now ds c t sg) = []"
  "p \<in> set (oauth_items now ds c t sg) \<Longrightarrow> take 6 (fst p) = ''oauth_''"
proof -
  let ?K = "[''oauth_consumer_key'', ''oauth_timestamp'', ''oauth_nonce'', ''oauth_version'', ''oauth_token'',
    ''oauth_callback'', ''oauth_signature_method'', ''oauth_signature'']"
  have K: "list_all (\<lambda>k. take 6 k = ''oauth_'' \<and> clean_key k) ?K" by code_simp
  have in_K: "fst p \<in> set ?K" if "p \<in> set (oauth_items now ds c t sg)" for p
    using that by (auto simp: oauth_items_def basic_items_def token_items_def method_item_def split: if_splits)
  with K have ok: "take 6 (fst p) = ''oauth_'' \<and> clean_key (fst p)" if "p \<in> set (oauth_items now ds c t sg)" for p
    using that by (fastforce simp only: list_all_iff)
  then show "p \<in> set (oauth_items now ds c t sg) \<Longrightarrow> take 6 (fst p) = ''oauth_''" by blast
  show "list_all (\<lambda>p. clean_key (fst p)) (oauth_items now ds c t sg)" using ok by (simp add: list_all_iff)
  show "header_items (oauth_items now ds c t sg) = oauth_items now ds c t sg"
    using ok unfolding header_items_def by (intro filter_True) (auto split: prod.split)
  show "filter (\<lambda>(k, v). \<not> str_contains k ''oauth_'') (oauth_items now ds c t sg) = []"
    using ok oauth_in_name by (force simp: filter_empty_conv)
  show "distinct (map fst (oauth_items now ds c t sg))"
    by (simp add: oauth_items_def basic_items_def token_items_def method_item_def)
qed

lemma oauth_items_lookup:
  "map_of (oauth_items now ds c t sg) ''oauth_version'' = Some ''1.0''"
  "map_of (oauth_items now ds c t sg) ''oauth_consumer_key'' = Some (oc_key c)"
  "map_of (oauth_items now ds c t sg) ''oauth_token'' = Some (ot_key t)"
  "map_of (oauth_items now ds c t sg) ''oauth_timestamp'' = Some (show_int now)"
  "map_of (oauth_items now ds c t sg) ''oauth_nonce'' = Some (digits_text ds)"
  "map_of (oauth_items now ds c t sg) ''oauth_signature_method'' = Some ''HMAC-SHA1''"
  "map_of (oauth_items now ds c t sg) ''oauth_signature'' = Some sg"
  by (simp_all add: oauth_items_def basic_items_def token_items_def method_item_def)

lemma call_lookup:
  assumes "call_params ps" "take 6 k = ''oauth_''"
  shows "map_of (ps @ is) k = map_of is k"
proof -
  have "map_of ps k = None" using call_params_fresh [OF assms] by (simp add: map_of_eq_None_iff)
  then show ?thesis by (simp add: map_add_def)
qed

lemma call_params_disjoint:
  assumes "call_params ps"
  shows "fst ` set ps \<inter> fst ` set (oauth_items now ds c t sg) = {}"
proof -
  have "fst p \<notin> fst ` set ps" if "p \<in> set (oauth_items now ds c t sg)" for p
    by (rule call_params_fresh [OF assms oauth_items_names(5) [OF that]])
  then show ?thesis unfolding disjoint_iff by (metis imageE)
qed

text \<open>The word realm occurs in the header once more: the reader then drops the parameter it is in.\<close>

definition realm_again :: "sdict \<Rightarrow> bool" where
  "realm_again hs \<longleftrightarrow> str_contains (drop 14 (the (map_of hs ''Authorization''))) ''realm''"

text \<open>C24: The calls Tweepy signs are accepted: the authorization header that the OAuth handler adds to a call is read
  by the server side of the same library as a request that it verifies, with the consumer, the token of its store
  and the parameters of the call, when it knows the consumer and the token, shares the secrets, has not seen
  the nonce, and its clock is at most 300 seconds off, before or behind. The parameters may stand in
  any order; the URL has no query of its own. The one exception is a header in which the word realm occurs
  again, in a key, a token or a signature.\<close>

theorem tweepy_call_accepted:
  assumes handler: "oh_access_token h = Some t" "call_params ps" "oe_digits env w = (w', ds)"
    and url: "urlparse url = Inr u" "query u = []"
    and server: "store_knows (os_store sv) (oh_consumer h) t t' (digits_text ds) s s'"
      "map_of (os_methods sv) ''HMAC-SHA1'' = Some OA_HMAC_SHA1" "\<bar>now' - oe_now env w\<bar> \<le> 300"
  shows "\<exists>hs'. oauth_apply env h url meth hs ps w = (w', Inr hs') \<and>
    (realm_again hs' \<or> (\<exists>r r'. oa_from_request meth url hs' ps [] = Inr (Some r) \<and>
       oa_verify_request now' sv (s, r) = ((s', r'), Inr (oh_consumer h, t', ps))))"
proof -
  let ?c = "oh_consumer h" and ?now = "oe_now env w"
  let ?qs = "basic_items ?now ds ?c @ ps @ token_items t @ [method_item]"
  obtain n where n: "oq_plain_url \<lparr>oq_method = meth, oq_url = Some url, oq_params = []\<rparr> = Inr n"
    and sign: "oa_sign OA_HMAC_SHA1 ?c (Some t) (oa_from_consumer_and_token ?now ds ?c (Some t) None None meth (Some url) ps) =
      (\<lparr>oq_method = meth, oq_url = Some url, oq_params = ?qs @ [(''oauth_signature'', hmac_value ?c t meth n ?qs)]\<rparr>, Inr ())"
    using signed_call [OF handler(2) url(1), where meth = meth and now = ?now and ds = ds and c = ?c and t = t] by blast
  define sg where "sg = hmac_value ?c t meth n ?qs"
  define r1 where "r1 = \<lparr>oq_method = meth, oq_url = Some url, oq_params = ?qs @ [(''oauth_signature'', sg)]\<rparr>"
  let ?is = "oauth_items ?now ds ?c t sg"
  define hs' where "hs' = AList.update ''Authorization'' (snd (oq_header [] r1)) hs"
  have apply_hs: "oauth_apply env h url meth hs ps w = (w', Inr hs')"
    by (simp add: oauth_apply_def signed_request_def handler(1,3) sign header_shape r1_def sg_def hs'_def)
  have items: "header_items (oq_params r1) = ?is"
    using call_params_no_items [OF handler(2)] oauth_items_names(1) [of ?now ds ?c t sg]
    by (simp add: header_items_def oauth_items_def r1_def)
  note disj = call_params_disjoint [OF handler(2), of ?now ds ?c t sg]
  have "distinct (map fst (ps @ ?is))"
    using handler(2) oauth_items_names(3) [of ?now ds ?c t sg] disj by (simp add: call_params_def)
  then have "distinct (map fst (oq_params r1))" by (auto simp: oauth_items_def r1_def)
  then have read: "oa_split_header (drop 6 (snd (oq_header [] r1))) = Some ?is" if "\<not> realm_again hs'"
    using header_read [of r1] oauth_items_names(2) [of ?now ds ?c t sg] that
    by (simp add: items realm_again_def hs'_def header_shape)
  let ?r = "\<lparr>oq_method = meth, oq_url = Some url, oq_params = ps @ ?is\<rparr>"
  have "dict_update ps ?is = ps @ ?is" using oauth_items_names(3) disj by (rule dict_update_fresh)
  moreover have "oa_split_url [] = []" by code_simp
  ultimately have from_req: "oa_from_request meth url hs' ps [] = Inr (Some ?r)" if "\<not> realm_again hs'"
    using read [OF that] by (simp add: oa_from_request_def hs'_def header_shape url) (simp add: oauth_items_def method_item_def)
  have out: "AList.delete ''oauth_signature'' (ps @ ?is) = ps @ basic_items ?now ds ?c @ token_items t @ [method_item]"
    using delete_fresh [of "''oauth_signature''" ps] call_params_fresh [OF handler(2), of "''oauth_signature''"]
    by (simp add: delete_append oauth_items_def basic_items_def token_items_def method_item_def)
  have "normal_text (AList.delete ''oauth_signature'' (ps @ ?is)) = normal_text ?qs"
    unfolding out by (rule normal_text_mset) simp
  moreover have "ot_secret t' = ot_secret t" using server(1) by (auto simp: store_knows_def)
  ultimately have same: "hmac_value ?c t' meth n (AList.delete ''oauth_signature'' (ps @ ?is)) = sg"
    by (simp add: hmac_value_def oa_key_def sg_def)
  have plain: "oq_plain_url ?r = Inr n" using n by (simp add: oq_plain_url_def)
  have non: "oq_nonoauth (drop_signature ?r) = ps"
    using call_params_nonoauth [OF handler(2)] oauth_items_names(4) [of ?now ds ?c t sg]
    by (simp add: oq_nonoauth_def drop_signature_def out) (simp add: oauth_items_def split: if_splits)
  have "oa_verify_request now' sv (s, ?r) = ((s', drop_signature ?r), Inr (?c, t', ps))"
    using verify_known [OF server plain]
    by (simp add: call_lookup [OF handler(2)] oauth_items_lookup same non del: map_of_append)
  with from_req apply_hs show ?thesis by blast
qed

text \<open>A store that keeps the nonces it was asked for.\<close>

definition example_key :: oa_consumer where
  "example_key = \<lparr>oc_key = ''app'', oc_secret = ''s&1''\<rparr>"

definition example_access :: oa_token where
  "example_access = new_oa_token ''tok'' ''t=2''"

definition nonce_store :: "string list oa_store" where
  "nonce_store =
     \<lparr>ds_consumer = (\<lambda>k s. (s, Inr (if k = ''app'' then Some example_key else None))),
      ds_token = (\<lambda>kind k s. (s, Inr (if kind = ''access'' \<and> k = ''tok'' then Some example_access else None))),
      ds_nonce = (\<lambda>c t n s. (n # s, Inr (if n \<in> set s then Some n else None))),
      ds_request_token = (\<lambda>c cb s. (s, Inr None)), ds_access_token = (\<lambda>c t v s. (s, Inr None)),
      ds_authorize = (\<lambda>t u s. (s, Inr None))\<rparr>"

definition example_server :: "string list oa_server" where
  "example_server = oa_add_method OA_HMAC_SHA1 \<lparr>os_store = nonce_store, os_methods = []\<rparr>"

definition example_env :: "int oa_env" where
  "example_env = \<lparr>oe_now = (\<lambda>w. w), oe_digits = (\<lambda>w. (w + 1, [1, 2, 3])), oe_open = (\<lambda>u hs b w. (w, Inl (IOError u))), oe_text = (\<lambda>e. [])\<rparr>"

definition example_handler :: oauth_handler where
  "example_handler = set_access_token ''tok'' ''t=2'' (new_oauth_handler ''app'' ''s&1'' None True)"

theorem tweepy_call_accepted_witness:
  "\<exists>hs'. oauth_apply example_env example_handler ''http://h/p'' ''POST'' [] [(''status'', ''a b'')] 1000 = (1001, Inr hs') \<and>
    (realm_again hs' \<or> (\<exists>r r'. oa_from_request ''POST'' ''http://h/p'' hs' [(''status'', ''a b'')] [] = Inr (Some r) \<and>
       oa_verify_request 900 example_server ([], r) = (([''123''], r'), Inr (example_key, example_access, [(''status'', ''a b'')]))))"
proof -
  have 1: "oh_access_token example_handler = Some example_access" by code_simp
  have 2: "call_params [(''status'', ''a b'')]" by code_simp
  have 3: "oe_digits example_env 1000 = (1001, [1, 2, 3])" by (simp add: example_env_def)
  have 4: "urlparse ''http://h/p'' =
    Inr \<lparr>scheme = ''http'', netloc = ''h'', path = ''/p'', params = [], query = [], fragment = []\<rparr>" by code_simp
  have 5: "store_knows (os_store example_server) (oh_consumer example_handler) example_access example_access
      (digits_text [1, 2, 3]) [] [''123'']"
  proof -
    have "os_store example_server = nonce_store" by (simp add: example_server_def oa_add_method_def)
    moreover have "digits_text [1, 2, 3] = ''123''" "oh_consumer example_handler = example_key" by code_simp+
    ultimately show ?thesis
      unfolding store_knows_def by (simp add: nonce_store_def example_key_def example_access_def new_oa_token_def)
  qed
  have 6: "map_of (os_methods example_server) ''HMAC-SHA1'' = Some OA_HMAC_SHA1"
    by (simp add: example_server_def oa_add_method_def)
  have 7: "\<bar>900 - oe_now example_env 1000\<bar> \<le> 300" by (simp add: example_env_def)
  have "oh_consumer example_handler = example_key" by code_simp
  with tweepy_call_accepted [OF 1 2 3 4 _ 5 6 7, of "''POST''" "[]"] show ?thesis by simp
qed

section \<open>What acceptance means\<close>

lemma othen_Inr: "othen f g st = (st', Inr y) \<longleftrightarrow> (\<exists>st1 x. f st = (st1, Inr x) \<and> g x st1 = (st', Inr y))"
  by (auto simp: othen_def split: prod.split sum.split)

lemma ostep_Inr:
  "oask f st = (st', Inr x) \<longleftrightarrow> st' = st \<and> f (snd st) = Inr x"
  "ostore d st = (st', Inr y) \<longleftrightarrow> d (fst st) = (fst st', Inr y) \<and> snd st' = snd st"
  "oreq q st = (st', Inr z) \<longleftrightarrow> q (snd st) = (snd st', Inr z) \<and> fst st' = fst st"
  "ogive v st = (st', Inr u) \<longleftrightarrow> st' = st \<and> v = Inr u"
  by (cases st'; auto simp: oask_def ostore_def oreq_def ogive_def split: prod.split)+

lemma oq_get_Inr: "oq_get k r = Inr v \<longleftrightarrow> map_of (oq_params r) k = Some v"
  by (simp add: oq_get_def split: option.split)

lemma oa_get_signature_Inr: "oa_get_signature r = Inr v \<longleftrightarrow> map_of (oq_params r) ''oauth_signature'' = Some v"
  by (simp add: oa_get_signature_def oq_get_def split: option.split)

lemma oa_verified:
  assumes "oa_verify_request now sv (s, r) = ((s', r'), Inr (c, t, ps))"
  shows "\<exists>ck tk ts n nonce m sg s1 s2 x.
    map_of (oq_params r) ''oauth_consumer_key'' = Some ck \<and> ds_consumer (os_store sv) ck s = (s1, Inr (Some c)) \<and>
    map_of (oq_params r) ''oauth_token'' = Some tk \<and> ds_token (os_store sv) ''access'' tk s1 = (s2, Inr (Some t)) \<and>
    map_of (oq_params r) ''oauth_nonce'' = Some nonce \<and> ds_nonce (os_store sv) c (Some t) nonce s2 = (s', Inr x) \<and>
    (x = None \<or> x = Some []) \<and>
    map_of (oq_params r) ''oauth_timestamp'' = Some ts \<and> parse_int ts = Inr n \<and> \<bar>now - n\<bar> \<le> 300 \<and>
    map_of (oq_params r) ''oauth_version'' \<in> {None, Some [], Some ''1.0''} \<and>
    m \<in> snd ` set (os_methods sv) \<and> map_of (oq_params r) ''oauth_signature'' = Some sg \<and>
    snd (oa_build m c (Some t) r) = Inr sg \<and> ps = oq_nonoauth r' \<and> oa_get_method sv r = Inr m \<and>
    r' = fst (oa_build m c (Some t) (fst (oa_build m c (Some t) r)))"
proof -
  from assms obtain s1 r1 s2 r2 v where v: "oa_get_version r = Inr v"
    and c: "oa_get_consumer sv (s, r) = ((s1, r1), Inr c)" and t: "oa_get_token sv ''access'' (s1, r1) = ((s2, r2), Inr t)"
    and ck: "oa_check_signature now sv c (Some t) (s2, r2) = ((s', r'), Inr ())" and ps: "ps = oq_nonoauth r'"
    by (auto simp: oa_verify_request_def othen_Inr ostep_Inr simp del: othen_simps)
  from c obtain k where k: "map_of (oq_params r) ''oauth_consumer_key'' = Some k" "ds_consumer (os_store sv) k s = (s1, Inr (Some c))" "r1 = r"
    by (auto simp: oa_get_consumer_def othen_Inr ostep_Inr oq_get_Inr simp del: othen_simps split: option.splits)
  from t obtain tk where tk: "map_of (oq_params r) ''oauth_token'' = Some tk" "ds_token (os_store sv) ''access'' tk s1 = (s2, Inr (Some t))" "r2 = r"
    by (auto simp: oa_get_token_def othen_Inr ostep_Inr oq_get_Inr k(3) simp del: othen_simps split: option.splits)
  from ck obtain ts nonce s3 r3 m sg valid st1 where
      tn: "oq_timestamp_nonce r = Inr (ts, nonce)" and time: "oa_check_timestamp now ts = Inr ()"
    and non: "oa_check_nonce sv c (Some t) nonce (s2, r) = ((s3, r3), Inr ())"
    and m: "oa_get_method sv r3 = Inr m" and sg: "map_of (oq_params r3) ''oauth_signature'' = Some sg"
    and chk: "oreq (oa_check m c (Some t) sg) (s3, r3) = (st1, Inr valid)"
    and fin: "(if valid then othen (oreq (oa_build m c (Some t))) (\<lambda>_. ogive (Inr ()))
       else othen (oreq (oa_base m c (Some t))) (\<lambda>_. ogive (Inl (OAuthError ''Invalid signature.'')))) st1 = ((s', r'), Inr ())"
    unfolding oa_check_signature_def tk(3)
    by (auto simp: othen_Inr ostep_Inr oa_get_signature_Inr simp del: othen_simps split: prod.splits)
  from non obtain x where x: "ds_nonce (os_store sv) c (Some t) nonce s2 = (s3, Inr x)" "x = None \<or> x = Some []" "r3 = r"
    by (auto simp: oa_check_nonce_def othen_Inr ostep_Inr truthy_text_def simp del: othen_simps split: if_splits)
  from fin have valid: valid and s3: "fst st1 = s'"
    by (auto simp: othen_Inr ostep_Inr simp del: othen_simps split: if_splits)
  with chk have b: "snd (oa_build m c (Some t) r) = Inr sg" "s3 = s'" "snd st1 = fst (oa_build m c (Some t) r)"
    by (auto simp: oa_check_def ostep_Inr res_simps x(3) split: prod.splits)
  from fin valid have r': "r' = fst (oa_build m c (Some t) (fst (oa_build m c (Some t) r)))"
    by (auto simp: othen_Inr ostep_Inr b(3) simp del: othen_simps)
  from time obtain n where n: "parse_int ts = Inr n" "\<bar>now - n\<bar> \<le> 300"
    by (auto simp: oa_check_timestamp_def res_simps split: if_splits)
  from v have ver: "map_of (oq_params r) ''oauth_version'' \<in> {None, Some [], Some ''1.0''}"
    by (auto simp: oa_get_version_def oq_get_def Let_def split: option.splits if_splits)
  from m have gm: "oa_get_method sv r = Inr m" by (simp add: x(3))
  then have "m \<in> snd ` set (os_methods sv)"
    by (force simp: oa_get_method_def Let_def split: option.splits dest: map_of_SomeD)
  moreover from tn have "map_of (oq_params r) ''oauth_timestamp'' = Some ts" "map_of (oq_params r) ''oauth_nonce'' = Some nonce"
    by (auto simp: oq_timestamp_nonce_def res_simps oq_get_Inr)
  ultimately show ?thesis using k tk x sg b n ver ps r' gm by blast
qed

text \<open>What the server verifies is right: consumer and access token come from its store under the keys in the
  request, the version is 1.0 or empty, the time is within 300 seconds of the server's, before or behind, the
  store was asked for the nonce and had not seen it, and the signature in the request is the one the server
  computes with a signature method that it knows.\<close>

theorem oa_verify_sound:
  assumes "oa_verify_request now sv (s, r) = ((s', r'), Inr (c, t, ps))"
  shows "\<exists>ck tk ts n nonce m sg s1 s2 x.
    map_of (oq_params r) ''oauth_consumer_key'' = Some ck \<and> ds_consumer (os_store sv) ck s = (s1, Inr (Some c)) \<and>
    map_of (oq_params r) ''oauth_token'' = Some tk \<and> ds_token (os_store sv) ''access'' tk s1 = (s2, Inr (Some t)) \<and>
    map_of (oq_params r) ''oauth_nonce'' = Some nonce \<and> ds_nonce (os_store sv) c (Some t) nonce s2 = (s', Inr x) \<and>
    (x = None \<or> x = Some []) \<and>
    map_of (oq_params r) ''oauth_timestamp'' = Some ts \<and> parse_int ts = Inr n \<and> \<bar>now - n\<bar> \<le> 300 \<and>
    map_of (oq_params r) ''oauth_version'' \<in> {None, Some [], Some ''1.0''} \<and>
    m \<in> snd ` set (os_methods sv) \<and> map_of (oq_params r) ''oauth_signature'' = Some sg \<and>
    snd (oa_build m c (Some t) r) = Inr sg"
  using oa_verified [OF assms] by blast

definition plain_server :: "string list oa_server" where
  "plain_server = \<lparr>os_store = nonce_store, os_methods = [(''PLAINTEXT'', OA_PLAINTEXT)]\<rparr>"

definition plain_request :: oa_request where
  "plain_request = \<lparr>oq_method = ''GET'', oq_url = Some ''http://h/p'', oq_params = [(''a'', ''1''), (''oauth_consumer_key'', ''app''),
     (''oauth_token'', ''tok''), (''oauth_timestamp'', ''1000''), (''oauth_nonce'', ''7''), (''oauth_signature'', ''s%261&t%3D2'')]\<rparr>"

lemma plain_verified:
  "oa_verify_request 1200 plain_server ([], plain_request) = (([''7''], plain_request), Inr (example_key, example_access, [(''a'', ''1'')]))"
  by code_simp

theorem oa_verify_sound_witness:
  "\<exists>nonce x. map_of (oq_params plain_request) ''oauth_nonce'' = Some nonce \<and>
     ds_nonce nonce_store example_key (Some example_access) nonce [] = ([''7''], Inr x)"
proof -
  have "os_store plain_server = nonce_store" by (simp add: plain_server_def)
  moreover have "ds_consumer nonce_store k [] = (s1, y) \<Longrightarrow> s1 = []" "ds_token nonce_store kind k [] = (s1, z) \<Longrightarrow> s1 = []" for k kind s1 y z
    by (auto simp: nonce_store_def)
  ultimately show ?thesis using oa_verify_sound [OF plain_verified] by metis
qed

text \<open>A request is verified only once: checking a \<open>HMAC-SHA1\<close> signature takes it out of the request, so that
  verifying the request object again, at any time and with any store, raises.\<close>

theorem verified_only_once:
  assumes "oa_verify_request now sv (s, r) = ((s', r'), Inr x)" "oa_get_method sv r = Inr OA_HMAC_SHA1"
  shows "\<exists>st e. oa_verify_request now2 sv2 (s2, r') = (st, Inl e)"
proof -
  obtain c t ps where x: "x = (c, t, ps)" by (cases x) force
  obtain sg where "snd (oa_build OA_HMAC_SHA1 c (Some t) r) = Inr sg"
    and r': "r' = fst (oa_build OA_HMAC_SHA1 c (Some t) (fst (oa_build OA_HMAC_SHA1 c (Some t) r)))"
    using oa_verified [OF assms(1) [unfolded x]] assms(2) by auto
  then obtain n where n: "oq_plain_url r = Inr n"
    by (auto simp: oa_build_def split: sum.splits)
  then have "oq_plain_url (drop_signature r) = Inr n" by (simp add: oq_plain_url_def drop_signature_def)
  then have "r' = drop_signature (drop_signature r)" by (simp add: r' build_hmac [OF n] build_hmac)
  then have none: "map_of (oq_params r') ''oauth_signature'' = None"
    by (simp add: drop_signature_def)
  obtain st y where v: "oa_verify_request now2 sv2 (s2, r') = (st, y)" by (cases "oa_verify_request now2 sv2 (s2, r')") blast
  show ?thesis
  proof (cases y)
    case (Inr z)
    obtain c' t' ps' where "z = (c', t', ps')" by (cases z) force
    moreover obtain s'' r'' where "st = (s'', r'')" by force
    ultimately show ?thesis using oa_verified [of now2 sv2 s2 r' s'' r'' c' t' ps'] v none Inr by auto
  qed (use v in blast)
qed

definition hmac_params :: sdict where
  "hmac_params = basic_items 1000 [7] example_key @ token_items example_access @ [method_item]"

definition hmac_request :: oa_request where
  "hmac_request = \<lparr>oq_method = ''GET'', oq_url = Some ''http://h/p'', oq_params = hmac_params @
     [(''oauth_signature'', hmac_value example_key example_access ''GET'' ''http://h/p'' hmac_params)]\<rparr>"

theorem verified_only_once_witness:
  "\<exists>st e. oa_verify_request 1000 example_server ([], drop_signature hmac_request) = (st, Inl e)"
proof -
  have names: "map fst hmac_params = [''oauth_consumer_key'', ''oauth_timestamp'', ''oauth_nonce'', ''oauth_version'',
      ''oauth_token'', ''oauth_signature_method'']" by code_simp
  have none: "map_of hmac_params ''oauth_signature'' = None" by code_simp
  from names have "''oauth_signature'' \<notin> fst ` set hmac_params" by (simp flip: set_map)
  then have del: "AList.delete ''oauth_signature'' (oq_params hmac_request) = hmac_params"
    and sig: "map_of (oq_params hmac_request) ''oauth_signature'' =
      Some (hmac_value example_key example_access ''GET'' ''http://h/p'' hmac_params)"
    by (simp_all add: hmac_request_def delete_append delete_fresh map_add_def none)
  have look: "map_of (oq_params hmac_request) k = map_of hmac_params k" if "k \<noteq> ''oauth_signature''" for k
    using that by (simp add: hmac_request_def map_add_def split: option.split)
  have 1: "store_knows (os_store example_server) example_key example_access example_access ''7'' [] [''7'']"
    unfolding store_knows_def
    by (simp add: example_server_def oa_add_method_def nonce_store_def example_key_def example_access_def new_oa_token_def)
  have 2: "map_of (os_methods example_server) ''HMAC-SHA1'' = Some OA_HMAC_SHA1"
    by (simp add: example_server_def oa_add_method_def)
  have url: "oq_plain_url \<lparr>oq_method = ''GET'', oq_url = Some ''http://h/p'', oq_params = []\<rparr> = Inr ''http://h/p''" by code_simp
  then have 3: "oq_plain_url hmac_request = Inr ''http://h/p''" by (simp add: oq_plain_url_def hmac_request_def)
  have 4: "map_of hmac_params ''oauth_version'' = Some ''1.0''" "map_of hmac_params ''oauth_consumer_key'' = Some (oc_key example_key)"
    "map_of hmac_params ''oauth_token'' = Some (ot_key example_access)" "map_of hmac_params ''oauth_timestamp'' = Some (show_int 1000)"
    "map_of hmac_params ''oauth_nonce'' = Some ''7''" "map_of hmac_params ''oauth_signature_method'' = Some ''HMAC-SHA1''"
    by code_simp+
  have meth: "oq_method hmac_request = ''GET''" by (simp add: hmac_request_def)
  have "oa_verify_request 1000 example_server ([], hmac_request) = (([''7''], drop_signature hmac_request),
      Inr (example_key, example_access, oq_nonoauth (drop_signature hmac_request)))"
    using verify_known [OF 1 2 _ 3, of 1000 1000] by (simp add: look 4 sig del meth)
  moreover have "oa_get_method example_server hmac_request = Inr OA_HMAC_SHA1"
    by (simp add: oa_get_method_def oq_get_def look 4 2)
  ultimately show ?thesis by (rule verified_only_once)
qed

section \<open>Passwords\<close>

text \<open>The password of a user is only ever sent to an HTTPS address: getting an access token for name and password
  depends on the network only through what it answers at addresses that begin with \<open>https://\<close>, even when
  the handler was made for plain HTTP.\<close>

theorem password_only_https:
  assumes "\<And>url hs b. starts_with url ''https://'' \<Longrightarrow> op1 url hs b = op2 url hs b"
  shows "get_xauth_access_token (env\<lparr>oe_open := op1\<rparr>) username password st =
    get_xauth_access_token (env\<lparr>oe_open := op2\<rparr>) username password st"
proof -
  obtain w h where st: "st = (w, h)" by force
  have https: "starts_with (get_oauth_url h ''access_token'' True) ''https://''" by (simp add: get_oauth_url_def)
  have same: "signed_request (env\<lparr>oe_open := op1\<rparr>) h t cb vf meth url ps w = signed_request (env\<lparr>oe_open := op2\<rparr>) h t cb vf meth url ps w"
    for t cb vf meth url ps by (simp add: signed_request_def)
  have "fetch_token (env\<lparr>oe_open := op1\<rparr>) (get_oauth_url h ''access_token'' True) send wx =
      fetch_token (env\<lparr>oe_open := op2\<rparr>) (get_oauth_url h ''access_token'' True) send wx" for send wx
    by (simp add: fetch_token_def assms [OF https] split: prod.split sum.split)
  then show ?thesis
    by (simp add: get_xauth_access_token_def st same keep_access_token_def tweep_def Let_def split: prod.split sum.split)
qed

theorem password_only_https_witness:
  "get_xauth_access_token (example_env\<lparr>oe_open := (\<lambda>u hs b w. (w, Inl (IOError [])))\<rparr>) ''ann'' ''pw'' (0, example_handler) =
   get_xauth_access_token (example_env\<lparr>oe_open := (\<lambda>u hs b w. (w, if starts_with u ''https://'' then Inl (IOError []) else Inr u))\<rparr>)
     ''ann'' ''pw'' (0, example_handler)"
  by (rule password_only_https) simp

end
