(* ===== verification/TweepyPaging.thy ===== *)
theory TweepyPaging
  imports TweepyModels
begin

text \<open>
  Paging over the network: a cursor whose method is a call of Tweepy's interface, so that the
  cursors, the binder, the parser, the models and the JSON reader work together. The API object has
  no cache.
\<close>

section \<open>A call as the method of a cursor\<close>

text \<open>The cursor passes its position as \<open>cursor=\<close> and unpacks the answer into the page and the two
  cursors.\<close>

definition unpack_page :: "mval \<Rightarrow> (mval list \<times> int \<times> int) res" where
  "unpack_page m = (case m of
     MPair data (MPair (MVal (PInt p)) (MVal (PInt n))) \<Rightarrow>
       (case data of
          MList as xs \<Rightarrow> Inr (xs, p, n)
        | MVal (PList xs) \<Rightarrow> Inr (map MVal xs, p, n)
        | _ \<Rightarrow> Inl (TypeError ''page is not a list''))
   | _ \<Rightarrow> Inl (ValueError ''need more than 1 value to unpack''))"

definition without_cache :: "'w \<Rightarrow> ('w, 'c) tweepy_state" where
  "without_cache w = \<lparr>ts_world = w, ts_cache = None, ts_last = None\<rparr>"

definition cursor_call ::
    "('w, 'c, mval) tweepy_env \<Rightarrow> 'w tweepy_api \<Rightarrow> endpoint \<Rightarrow> (string \<times> arg) list \<Rightarrow> ('w, mval) cursor_method" where
  "cursor_call env api ep kargs c w =
     (case call_api env api ep [] ((''cursor'', AInt c) # kargs) plain_call (without_cache w) of
        (st, r) \<Rightarrow> (ts_world st, rbind r unpack_page))"

section \<open>The identifiers of the friends of a user\<close>

text \<open>The page of identifiers as the server writes it.\<close>

definition ids_page :: "int list \<Rightarrow> int \<Rightarrow> int \<Rightarrow> pyval" where
  "ids_page ids prev nxt = PDict [(PStr ''ids'', PList (map PInt ids)),
     (PStr ''previous_cursor'', PInt prev), (PStr ''next_cursor'', PInt nxt)]"

definition page_text :: "int list \<Rightarrow> int \<Rightarrow> int \<Rightarrow> string" where
  "page_text ids prev nxt = (case json_dumps (\<lambda>r. []) (ids_page ids prev nxt) of Inr t \<Rightarrow> t | Inl e \<Rightarrow> [])"

lemma page_text_read: "json_loads (page_text ids prev nxt) = Inr (ids_page ids prev nxt)"
proof -
  have "json_wf (ids_page ids prev nxt)" by (simp add: ids_page_def list_all_iff)
  from json_roundtrip [OF this, of "\<lambda>r. []"] show ?thesis by (auto simp: page_text_def)
qed

text \<open>A server: the page at each cursor, and the chain of pages from a cursor to the end.\<close>

type_synonym id_pages = "int \<Rightarrow> (int list \<times> int \<times> int) option"

inductive page_chain :: "id_pages \<Rightarrow> int \<Rightarrow> int list list \<Rightarrow> bool" for pg where
  "page_chain pg 0 []"
| "c \<noteq> 0 \<Longrightarrow> pg c = Some (ids, prev, nxt) \<Longrightarrow> ids \<noteq> [] \<Longrightarrow> page_chain pg nxt idss \<Longrightarrow> page_chain pg c (ids # idss)"

definition ids_uri :: "int \<Rightarrow> string" where
  "ids_uri c = ''/1/friends/ids.json?cursor='' @ show_int c"

definition id_server :: "id_pages \<Rightarrow> ('w, 'c, mval) tweepy_env \<Rightarrow> bool" where
  "id_server pg env \<longleftrightarrow> (\<forall>c ids prev nxt host hs w. pg c = Some (ids, prev, nxt) \<longrightarrow>
     (\<exists>w'. te_http env host ''GET'' (ids_uri c) hs None w = (w', Inr (200, Inr (page_text ids prev nxt)))))"

lemma quote_plus_safe: "list_all always_safe s \<Longrightarrow> quote_plus s = s"
  by (induction s) (auto simp: plus1_def)

lemma show_int_safe: "list_all always_safe (show_int i)"
proof -
  have d: "is_digit c \<Longrightarrow> always_safe c" for c by (auto simp: is_digit_def always_safe_def Let_def)
  have m: "always_safe CHR ''-''" by code_simp
  show ?thesis
    using show_nat_digits [of "nat i"] show_nat_digits [of "nat (- i)"] d m
    by (auto simp: show_int_def list_all_iff)
qed

lemma urlencode_cursor: "urlencode [(''cursor'', show_int c)] = ''cursor='' @ show_int c"
proof -
  have "quote_plus ''cursor'' = ''cursor''" by code_simp
  then show ?thesis
    using quote_plus_safe [OF show_int_safe, of c] by (simp add: urlencode_def del: quote_plus_simps)
qed

lemma friends_ids_call:
  assumes server: "id_server pg env" and parser: "te_parse env = model_parser names"
    and page: "pg c = Some (ids, prev, nxt)" and tries: "0 \<le> n"
  shows "\<exists>w'. cursor_call env (new_tweepy_api None n delay None secure) api_friends_ids [] c w =
    (w', Inr (map (\<lambda>i. MVal (PInt i)) ids, prev, nxt))"
proof -
  let ?api = "new_tweepy_api None n delay None secure"
  let ?host = "''api.twitter.com''"
  let ?scheme = "if secure then ''https://'' else ''http://''"
  define rp where "rp = \<lparr>rp_path = ''/friends/ids.json'', rp_params = [(''cursor'', show_int c)], rp_root = ''/1'',
    rp_scheme = ?scheme, rp_host = ?host, rp_headers = [(''Host'', ?host)], rp_post = None,
    rp_count = n, rp_delay = delay, rp_errors = None\<rparr>"
  have prep: "prepare_call ?api api_friends_ids [] [(''cursor'', AInt c)] plain_call w = (w, Inr rp)"
  proof -
    have v: "find_vars ''/friends/ids.json'' = []" by code_simp
    show ?thesis
      by (simp add: prepare_call_def rp_def build_parameters_def build_path_def v api_friends_ids_def
          default_endpoint_def new_tweepy_api_def plain_call_def convert_to_utf8_str_def dict_has_def Let_def
          del: find_vars.simps)
  qed
  have uri: "request_uri rp = ids_uri c"
    by (simp add: request_uri_def rp_def ids_uri_def urlencode_cursor)
  obtain w1 where http: "te_http env (?scheme @ ?host) ''GET'' (ids_uri c) [(''Host'', ?host)] None w =
      (w1, Inr (200, Inr (page_text ids prev nxt)))"
    using server page unfolding id_server_def by blast
  obtain k where k: "rounds n = Suc k" using tries by (cases "rounds n") (auto simp: rounds_def)
  have ep: "ep_method api_friends_ids = ''GET''" "ep_payload api_friends_ids = Some ''ids''" "ep_list api_friends_ids = False"
    by (simp_all add: api_friends_ids_def default_endpoint_def)
  have send: "send_loop (rounds n) env ?api api_friends_ids rp None [(''Host'', ?host)] w =
      (w1, Inr (Some (200, Inr (page_text ids prev nxt))))"
    using http by (simp add: k apply_auth_def new_tweepy_api_def uri ep final_status_def) (simp add: rp_def final_status_def)
  have parse: "model_parser names api_friends_ids [(''cursor'', show_int c)] (page_text ids prev nxt) =
      Inr (MPair (MVal (PList (map PInt ids))) (MPair (MVal (PInt prev)) (MVal (PInt nxt))))"
    by (simp add: model_parser_def ep model_factory_def json_payload_def page_text_read ids_page_def dict_has_def ids_parse_def)
  show ?thesis
    using send parse
    by (simp add: cursor_call_def call_api_def without_cache_def prep execute_def cache_lookup_def rp_def Let_def
        read_response_def parser cache_result_def unpack_page_def)
qed

text \<open>The pages the server chains are the pages of the cursor.\<close>

lemma served_chain:
  assumes "id_server pg env" "te_parse env = model_parser names" "0 \<le> n" "page_chain pg c idss"
  shows "cursor_chain (cursor_call env (new_tweepy_api None n delay None secure) api_friends_ids []) c
    (map (map (\<lambda>i. MVal (PInt i))) idss)"
  using assms(4)
proof (induction rule: page_chain.induct)
  case (2 c ids prev nxt idss)
  show ?case
    unfolding list.map
  proof (rule chain_page)
    show "\<exists>w' prev. cursor_call env (new_tweepy_api None n delay None secure) api_friends_ids [] c w =
        (w', Inr (map (\<lambda>i. MVal (PInt i)) ids, prev, nxt))" for w
      using friends_ids_call [OF assms(1,2) 2(2) assms(3)] by blast
  qed (use 2 in auto)
qed (simp add: chain_end)

text \<open>C14: Reading all friends over the network is complete: when the server answers the request for each
  cursor with the JSON text of its page, and the pages lead from cursor minus one to zero, the items
  of \<open>Cursor(api.friends_ids)\<close> are exactly the identifiers of all pages, in order. This is the whole
  way: cursor, call, parameters, path, URL, request, JSON reader, parser, model, cursor.\<close>

theorem friends_ids_complete:
  assumes "id_server pg env" and "te_parse env = model_parser names" and "0 \<le> retry_count"
    and "page_chain pg (-1) idss" and "length (concat idss) < n"
  shows "\<exists>s. collect (item_next (cursor_next
      (cursor_call env (new_tweepy_api None retry_count delay None secure) api_friends_ids [])))
      n (cursor_items 0 (new_cursor_iter w)) = Some (s, Inr (map (\<lambda>i. MVal (PInt i)) (concat idss)))"
proof -
  note chain = served_chain [OF assms(1-4), of delay secure]
  show ?thesis
    using by_cursor.items.collects [OF cursor_yields_items [OF chain, of 0 w], of n] assms(5)
    by (simp add: first_of_def map_concat [symmetric])
qed

definition small_pages :: id_pages where
  "small_pages c = (if c = -1 then Some ([11, 12], 0, 5) else if c = 5 then Some ([13], -5, 0) else None)"

definition small_server :: "(nat, string memory_cache, mval) tweepy_env" where
  "small_server = \<lparr>te_http = (\<lambda>h m u hs b w. (Suc w, Inr (200, Inr
       (if u = ids_uri (-1) then page_text [11, 12] 0 5 else page_text [13] (-5) 0)))),
     te_sleep = (\<lambda>d w. (w, Inr ())), te_now = int, te_get = (\<lambda>now k t c. (c, Inr None)),
     te_store = (\<lambda>now k v c. (c, Inr ())), te_parse = model_parser (\<lambda>n. None),
     te_parse_error = Inr, te_true = mval_true\<rparr>"

theorem friends_ids_complete_witness:
  "\<exists>s. collect (item_next (cursor_next (cursor_call small_server (new_tweepy_api None 2 0 None True) api_friends_ids [])))
      4 (cursor_items 0 (new_cursor_iter 0)) =
    Some (s, Inr [MVal (PInt 11), MVal (PInt 12), MVal (PInt 13)])"
proof -
  have "ids_uri 5 \<noteq> ids_uri (-1)" by code_simp
  then have "id_server small_pages small_server"
    by (auto simp: id_server_def small_pages_def small_server_def)
  moreover have "page_chain small_pages (-1) [[11, 12], [13]]"
    by (auto simp: small_pages_def intro!: page_chain.intros)
  ultimately show ?thesis
    using friends_ids_complete [of small_pages small_server "\<lambda>n. None" 2 "[[11, 12], [13]]" 4 0 True 0]
    by (simp add: small_server_def)
qed

end
