(* ===== verification/TweepyServerCaches.thy ===== *)
theory TweepyServerCaches
  imports TweepyCache
begin

text \<open>
  The caches of \<open>socialnet/tweepy/tweepy/cache.py\<close> that live in a server: \<open>RedisCache\<close> and \<open>MemCacheCache\<close>. The
  clients of the servers are parameters. What is relied on of Redis is the predicate \<open>redis_like\<close>: a get reads,
  the commands of a pipeline take effect in order, and a key can disappear at any moment once it has to expire.
\<close>

section \<open>Redis\<close>

text \<open>The commands that the cache puts into pipelines. An entry is the pickled pair of time and value.\<close>

datatype 'v redis_cmd = SET string "int \<times> 'v" | EXPIRE string int | SADD string string | SREM string string | DEL string

record ('w, 'v) redis =
  rd_get :: "string \<Rightarrow> 'w \<Rightarrow> 'w \<times> (int \<times> 'v) option res"
  rd_execute :: "'v redis_cmd list \<Rightarrow> 'w \<Rightarrow> 'w \<times> unit res"
  rd_smembers :: "string \<Rightarrow> 'w \<Rightarrow> 'w \<times> string list res"

record redis_cache =
  rc_timeout :: int
  rc_container :: string
  rc_prefix :: string

definition new_redis_cache :: "int \<Rightarrow> redis_cache" where
  "new_redis_cache timeout = \<lparr>rc_timeout = timeout, rc_container = ''tweepy:keys'', rc_prefix = ''tweepy:''\<rparr>"

definition store_cmds :: "redis_cache \<Rightarrow> int \<Rightarrow> string \<Rightarrow> 'v \<Rightarrow> 'v redis_cmd list" where
  "store_cmds c now key v =
     (let k = rc_prefix c @ key in [SET k (now, v), EXPIRE k (rc_timeout c), SADD (rc_container c) k])"

definition rc_store :: "('w, 'v) redis \<Rightarrow> redis_cache \<Rightarrow> int \<Rightarrow> string \<Rightarrow> 'v \<Rightarrow> 'w \<Rightarrow> 'w \<times> unit res" where
  "rc_store rd c now key v w = rd_execute rd (store_cmds c now key v) w"

definition rc_delete_entry :: "('w, 'v) redis \<Rightarrow> redis_cache \<Rightarrow> string \<Rightarrow> 'w \<Rightarrow> 'w \<times> unit res" where
  "rc_delete_entry rd c k w = rd_execute rd [SREM (rc_container c) k, DEL k] w"

definition rc_get :: "('w, 'v) redis \<Rightarrow> redis_cache \<Rightarrow> int \<Rightarrow> string \<Rightarrow> int option \<Rightarrow> 'w \<Rightarrow> 'w \<times> 'v option res" where
  "rc_get rd c now key timeout w =
     (let k = rc_prefix c @ key in
      case rd_get rd k w of
        (w1, Inl e) \<Rightarrow> (w1, Inl e)
      | (w1, Inr None) \<Rightarrow> (w1, Inr None)
      | (w1, Inr (Some entry)) \<Rightarrow>
          if is_expired now entry (case timeout of None \<Rightarrow> rc_timeout c | Some t \<Rightarrow> t)
          then (case rc_delete_entry rd c k w1 of (w2, r) \<Rightarrow> (w2, rbind r (\<lambda>_. Inr None)))
          else (w1, Inr (Some (snd entry))))"

definition rc_count :: "('w, 'v) redis \<Rightarrow> redis_cache \<Rightarrow> 'w \<Rightarrow> 'w \<times> nat res" where
  "rc_count rd c w = (case rd_smembers rd (rc_container c) w of (w1, r) \<Rightarrow> (w1, rbind r (\<lambda>ks. Inr (length ks))))"

definition rc_clean_key :: "('w, 'v) redis \<Rightarrow> redis_cache \<Rightarrow> int \<Rightarrow> string \<Rightarrow> 'w \<Rightarrow> 'w \<times> unit res" where
  "rc_clean_key rd c now k w =
     (case rd_get rd k w of
        (w1, Inl e) \<Rightarrow> (w1, Inl e)
      | (w1, Inr None) \<Rightarrow> (w1, Inr ())
      | (w1, Inr (Some entry)) \<Rightarrow> if is_expired now entry (rc_timeout c) then rc_delete_entry rd c k w1 else (w1, Inr ()))"

definition rc_for_keys :: "('w, 'v) redis \<Rightarrow> redis_cache \<Rightarrow> (string \<Rightarrow> 'w \<Rightarrow> 'w \<times> unit res) \<Rightarrow> 'w \<Rightarrow> 'w \<times> unit res" where
  "rc_for_keys rd c act w =
     (case rd_smembers rd (rc_container c) w of
        (w1, Inl e) \<Rightarrow> (w1, Inl e)
      | (w1, Inr ks) \<Rightarrow> fc2_for act ks w1)"

definition rc_cleanup :: "('w, 'v) redis \<Rightarrow> redis_cache \<Rightarrow> int \<Rightarrow> 'w \<Rightarrow> 'w \<times> unit res" where
  "rc_cleanup rd c now = rc_for_keys rd c (rc_clean_key rd c now)"

definition rc_flush :: "('w, 'v) redis \<Rightarrow> redis_cache \<Rightarrow> 'w \<Rightarrow> 'w \<times> unit res" where
  "rc_flush rd c = rc_for_keys rd c (rc_delete_entry rd c)"

section \<open>Memcache\<close>

text \<open>\<open>set(key, value, time)\<close> and \<open>get(key, default)\<close> of the client.\<close>

record ('w, 'v) memcache =
  mm_set :: "string \<Rightarrow> 'v \<Rightarrow> int \<Rightarrow> 'w \<Rightarrow> 'w \<times> unit res"
  mm_fetch :: "string \<Rightarrow> 'v \<Rightarrow> 'w \<Rightarrow> 'w \<times> 'v res"

text \<open>The values have to contain the texts, as the key is given as the default.\<close>

definition mm_store :: "('w, 'v) memcache \<Rightarrow> int \<Rightarrow> string \<Rightarrow> 'v \<Rightarrow> 'w \<Rightarrow> 'w \<times> unit res" where
  "mm_store mm own_timeout key v = mm_set mm key v own_timeout"

definition mm_get :: "('w, 'v) memcache \<Rightarrow> (string \<Rightarrow> 'v) \<Rightarrow> string \<Rightarrow> int option \<Rightarrow> 'w \<Rightarrow> 'w \<times> 'v res" where
  "mm_get mm text key timeout = mm_fetch mm key (text key)"

definition mm_count :: "nat res" where "mm_count = Inl NotImplementedError"
definition mm_cleanup :: "unit res" where "mm_cleanup = Inl NotImplementedError"
definition mm_flush :: "unit res" where "mm_flush = Inl NotImplementedError"

section \<open>What is relied on of Redis\<close>

fun cmd_content :: "'v redis_cmd \<Rightarrow> (string \<Rightarrow> (int \<times> 'v) option) \<Rightarrow> string \<Rightarrow> (int \<times> 'v) option" where
  "cmd_content (SET k e) f = f(k := Some e)"
| "cmd_content (EXPIRE k n) f = (if n \<le> 0 then f(k := None) else f)"
| "cmd_content (DEL k) f = f(k := None)"
| "cmd_content _ f = f"

fun cmd_members :: "'v redis_cmd \<Rightarrow> (string \<Rightarrow> string set) \<Rightarrow> string \<Rightarrow> string set" where
  "cmd_members (SADD s k) f = f(s := insert k (f s))"
| "cmd_members (SREM s k) f = f(s := f s - {k})"
| "cmd_members _ f = f"

text \<open>Keys may expire while nothing else changes.\<close>

definition keys_expire :: "(string \<Rightarrow> 'e option) \<Rightarrow> (string \<Rightarrow> 'e option) \<Rightarrow> bool" where
  "keys_expire f g \<longleftrightarrow> (\<forall>k. g k = None \<or> g k = f k)"

definition redis_like ::
    "('w, 'v) redis \<Rightarrow> ('w \<Rightarrow> string \<Rightarrow> (int \<times> 'v) option) \<Rightarrow> ('w \<Rightarrow> string \<Rightarrow> string set) \<Rightarrow> bool" where
  "redis_like rd content members \<longleftrightarrow>
     (\<forall>k w. \<exists>w1. rd_get rd k w = (w1, Inr (content w1 k)) \<and> keys_expire (content w) (content w1) \<and> members w1 = members w) \<and>
     (\<forall>s w. \<exists>w1 ks. rd_smembers rd s w = (w1, Inr ks) \<and> set ks = members w s \<and>
        keys_expire (content w) (content w1) \<and> members w1 = members w) \<and>
     (\<forall>cmds w. \<exists>w1. rd_execute rd cmds w = (w1, Inr ()) \<and>
        keys_expire (fold cmd_content cmds (content w)) (content w1) \<and> members w1 = fold cmd_members cmds (members w))"

text \<open>Every entry under the prefix is registered in the set of keys.\<close>

definition registered :: "redis_cache \<Rightarrow> ('w \<Rightarrow> string \<Rightarrow> (int \<times> 'v) option) \<Rightarrow> ('w \<Rightarrow> string \<Rightarrow> string set) \<Rightarrow> 'w \<Rightarrow> bool" where
  "registered c content members w \<longleftrightarrow> (\<forall>key. content w (rc_prefix c @ key) \<noteq> None \<longrightarrow> rc_prefix c @ key \<in> members w (rc_container c))"

lemma keys_expireD: "keys_expire f g \<Longrightarrow> g k \<noteq> None \<Longrightarrow> g k = f k"
  by (metis keys_expire_def)

lemma redis_getE:
  assumes "redis_like rd content members"
  obtains w1 where "rd_get rd k w = (w1, Inr (content w1 k))" "keys_expire (content w) (content w1)" "members w1 = members w"
  using assms unfolding redis_like_def by blast

lemma redis_smembersE:
  assumes "redis_like rd content members"
  obtains w1 ks where "rd_smembers rd s w = (w1, Inr ks)" "set ks = members w s" "keys_expire (content w) (content w1)" "members w1 = members w"
  using assms unfolding redis_like_def by blast

lemma redis_executeE:
  assumes "redis_like rd content members"
  obtains w1 where "rd_execute rd cmds w = (w1, Inr ())" "keys_expire (fold cmd_content cmds (content w)) (content w1)"
    "members w1 = fold cmd_members cmds (members w)"
  using assms unfolding redis_like_def by blast

section \<open>The set of keys\<close>

lemma registered_expire:
  "registered c content members w \<Longrightarrow> keys_expire (content w) (content w1) \<Longrightarrow> members w1 = members w \<Longrightarrow> registered c content members w1"
  unfolding registered_def by (metis keys_expireD)

lemma store_registered:
  assumes "redis_like rd content members" "registered c content members w" "rc_store rd c now key v w = (w1, r)"
  shows "r = Inr () \<and> registered c content members w1"
proof -
  obtain w2 where w2: "rd_execute rd (store_cmds c now key v) w = (w2, Inr ())"
    "keys_expire (fold cmd_content (store_cmds c now key v) (content w)) (content w2)"
    "members w2 = fold cmd_members (store_cmds c now key v) (members w)"
    by (rule redis_executeE [OF assms(1), where cmds = "store_cmds c now key v" and w = w])
  have "registered c content members w2"
    unfolding registered_def
  proof (intro allI impI)
    fix k assume "content w2 (rc_prefix c @ k) \<noteq> None"
    with keys_expireD [OF w2(2) this] assms(2) w2(3) show "rc_prefix c @ k \<in> members w2 (rc_container c)"
      by (auto simp: registered_def store_cmds_def Let_def split: if_splits)
  qed
  with w2(1) assms(3) show ?thesis by (simp add: rc_store_def)
qed

lemma delete_registered:
  fixes rd :: "('w, 'v) redis"
  assumes "redis_like rd content members" "registered c content members w"
  obtains w1 where "rc_delete_entry rd c k w = (w1, Inr ())" "registered c content members w1"
    "members w1 (rc_container c) = members w (rc_container c) - {k}"
proof -
  obtain w1 where w1: "rd_execute rd [SREM (rc_container c) k, DEL k] w = (w1, Inr ())"
    "keys_expire (fold cmd_content [SREM (rc_container c) k, DEL k] (content w)) (content w1)"
    "members w1 = fold cmd_members ([SREM (rc_container c) k, DEL k] :: 'v redis_cmd list) (members w)"
    by (rule redis_executeE [OF assms(1), where cmds = "[SREM (rc_container c) k, DEL k]" and w = w])
  have "registered c content members w1"
    unfolding registered_def
  proof (intro allI impI)
    fix key assume "content w1 (rc_prefix c @ key) \<noteq> None"
    with keys_expireD [OF w1(2) this] assms(2) w1(3) show "rc_prefix c @ key \<in> members w1 (rc_container c)"
      by (auto simp: registered_def split: if_splits)
  qed
  moreover have "members w1 (rc_container c) = members w (rc_container c) - {k}" unfolding w1(3) by simp
  ultimately show thesis using w1(1) by (intro that) (simp_all add: rc_delete_entry_def)
qed

lemma get_registered:
  assumes "redis_like rd content members" "registered c content members w" "rc_get rd c now key t w = (w1, r)"
  shows "registered c content members w1 \<and> (\<exists>v. r = Inr v)"
proof -
  obtain w2 where w2: "rd_get rd (rc_prefix c @ key) w = (w2, Inr (content w2 (rc_prefix c @ key)))" "registered c content members w2"
    using redis_getE [OF assms(1)] registered_expire [OF assms(2)] by metis
  obtain w3 where w3: "rc_delete_entry rd c (rc_prefix c @ key) w2 = (w3, Inr ())" "registered c content members w3"
    using delete_registered [OF assms(1) w2(2)] by metis
  show ?thesis
    using assms(3) w2 w3 by (auto simp: rc_get_def Let_def split: option.splits if_splits)
qed

text \<open>Flushing removes every entry that the cache has stored.\<close>

lemma redis_flush_loop:
  assumes "redis_like rd content members"
  shows "registered c content members w \<Longrightarrow> \<exists>w1. fc2_for (rc_delete_entry rd c) ks w = (w1, Inr ()) \<and>
    registered c content members w1 \<and> members w1 (rc_container c) = members w (rc_container c) - set ks"
proof (induction ks arbitrary: w)
  case (Cons k ks)
  obtain w1 where w1: "rc_delete_entry rd c k w = (w1, Inr ())" "registered c content members w1"
    "members w1 (rc_container c) = members w (rc_container c) - {k}"
    by (rule delete_registered [OF assms Cons.prems])
  have "members w (rc_container c) - {k} - set ks = members w (rc_container c) - set (k # ks)" by auto
  with Cons.IH [OF w1(2)] w1(1,3) show ?case by (simp only: fc2_for.simps prod.case sum.case)
qed simp

lemma flush_empties:
  assumes "redis_like rd content members" "registered c content members w" "rc_flush rd c w = (w1, r)"
  shows "r = Inr () \<and> members w1 (rc_container c) = {} \<and> (\<forall>key. content w1 (rc_prefix c @ key) = None)"
proof -
  obtain w2 ks where w2: "rd_smembers rd (rc_container c) w = (w2, Inr ks)" "set ks = members w (rc_container c)"
    "keys_expire (content w) (content w2)" "members w2 = members w"
    by (rule redis_smembersE [OF assms(1), where s = "rc_container c" and w = w])
  obtain w3 where "fc2_for (rc_delete_entry rd c) ks w2 = (w3, Inr ())" "registered c content members w3"
    "members w3 (rc_container c) = members w2 (rc_container c) - set ks"
    using redis_flush_loop [OF assms(1) registered_expire [OF assms(2) w2(3,4)], of ks] by blast
  moreover from this w2(2,4) have "\<forall>key. content w3 (rc_prefix c @ key) = None"
    unfolding registered_def by (metis Diff_cancel empty_iff)
  ultimately show ?thesis using assms(3) w2 by (simp add: rc_flush_def rc_for_keys_def)
qed

section \<open>Timeouts that are not positive\<close>

text \<open>A timeout of zero means for ever to the other caches; Redis is told to expire the entry at once.\<close>

lemma zero_timeout_never_stored:
  assumes "redis_like rd content members" "rc_timeout c \<le> 0" "rc_store rd c now key v w = (w1, r)" "rc_get rd c now' key t w1 = (w2, r2)"
  shows "r2 = Inr None"
proof -
  obtain w3 where w3: "rd_execute rd (store_cmds c now key v) w = (w3, Inr ())"
    "keys_expire (fold cmd_content (store_cmds c now key v) (content w)) (content w3)"
    by (rule redis_executeE [OF assms(1), where cmds = "store_cmds c now key v" and w = w])
  have "fold cmd_content (store_cmds c now key v) (content w) (rc_prefix c @ key) = None"
    using assms(2) by (simp add: store_cmds_def Let_def)
  then have "content w3 (rc_prefix c @ key) = None" using keys_expireD [OF w3(2)] by metis
  moreover have "w1 = w3" using assms(3) w3(1) by (simp add: rc_store_def)
  ultimately have w1: "w1 = w3" "content w3 (rc_prefix c @ key) = None" by simp_all
  obtain w4 where w4: "rd_get rd (rc_prefix c @ key) w3 = (w4, Inr (content w4 (rc_prefix c @ key)))" "keys_expire (content w3) (content w4)"
    by (rule redis_getE [OF assms(1), where k = "rc_prefix c @ key" and w = w3])
  then have "content w4 (rc_prefix c @ key) = None" using w1(2) keys_expireD [OF w4(2)] by metis
  with w4(1) w1(1) assms(4) show ?thesis by (simp add: rc_get_def Let_def)
qed

lemma zero_timeout_kept_in_memory:
  "mc_timeout c \<le> 0 \<Longrightarrow> snd (mc_get now' key None (fst (mc_store now key v c))) = Inr (Some v)"
  by (simp add: mc_store_def mc_get_def is_expired_def)

text \<open>A client that knows a default gives the key itself for a key that is not stored.\<close>

lemma miss_gives_key:
  "mm_fetch mm key (text key) w = (w, Inr (text key)) \<Longrightarrow> mm_get mm text key t w = (w, Inr (text key))"
  by (simp add: mm_get_def)

section \<open>A server that keeps everything\<close>

text \<open>Such a server, without expiry, is one of those the predicate describes.\<close>

record 'v redis_data =
  kp_content :: "string \<Rightarrow> (int \<times> 'v) option"
  kp_members :: "string \<Rightarrow> string list"

fun keep_members :: "'v redis_cmd \<Rightarrow> (string \<Rightarrow> string list) \<Rightarrow> string \<Rightarrow> string list" where
  "keep_members (SADD s k) f = f(s := List.insert k (f s))"
| "keep_members (SREM s k) f = f(s := removeAll k (f s))"
| "keep_members _ f = f"

definition keeping_redis :: "('v redis_data, 'v) redis" where
  "keeping_redis =
     \<lparr>rd_get = (\<lambda>k w. (w, Inr (kp_content w k))),
      rd_execute = (\<lambda>cmds w. (\<lparr>kp_content = fold cmd_content cmds (kp_content w), kp_members = fold keep_members cmds (kp_members w)\<rparr>, Inr ())),
      rd_smembers = (\<lambda>s w. (w, Inr (kp_members w s)))\<rparr>"

lemma keep_members_set: "(\<lambda>s. set (fold keep_members cmds f s)) = fold cmd_members cmds (\<lambda>s. set (f s))"
proof (induction cmds arbitrary: f)
  case (Cons c cmds)
  have "(\<lambda>s. set (keep_members c f s)) = cmd_members c (\<lambda>s. set (f s))" by (cases c) (auto simp: fun_eq_iff)
  with Cons show ?case by simp
qed simp

lemma keeping_redis_like: "redis_like keeping_redis kp_content (\<lambda>w s. set (kp_members w s))"
  by (simp add: redis_like_def keeping_redis_def keys_expire_def keep_members_set)

lemma keeping_redis_flushed:
  "registered c kp_content (\<lambda>w s. set (kp_members w s)) w \<Longrightarrow>
     kp_content (fst (rc_flush keeping_redis c w)) (rc_prefix c @ key) = None"
  using flush_empties [OF keeping_redis_like] by (metis prod.collapse)

end
