(* ===== verification/TweepyStream.thy ===== *)
theory TweepyStream
  imports TweepyModels
begin

text \<open>
  The streams of \<open>socialnet/tweepy/tweepy/streaming.py\<close>: what the listener does with a line, the loop that reads
  lines (\<open>_read_loop\<close>), the loop that connects again after errors and timeouts (\<open>_run\<close>) and the methods
  that start a stream. The flag \<open>running\<close> can be cleared by \<open>disconnect\<close> of another thread: it stands beside
  the world, and whatever works on the world may change it. The loops may go on for ever; no result then.
\<close>

section \<open>The listener\<close>

text \<open>The world and the flag \<open>running\<close>.\<close>

type_synonym 'w live = "'w \<times> bool"

record 'w stream_listener =
  ls_status :: "mval \<Rightarrow> 'w live \<Rightarrow> 'w live \<times> pyval res"
  ls_delete :: "pyval \<Rightarrow> pyval \<Rightarrow> 'w live \<Rightarrow> 'w live \<times> pyval res"
  ls_limit :: "pyval \<Rightarrow> 'w live \<Rightarrow> 'w live \<times> pyval res"
  ls_error :: "int \<Rightarrow> 'w live \<Rightarrow> 'w live \<times> pyval res"
  ls_timeout :: "'w live \<Rightarrow> 'w live \<times> pyval res"

definition default_listener :: "'w stream_listener" where
  "default_listener =
     \<lparr>ls_status = (\<lambda>s st. (st, Inr PNone)), ls_delete = (\<lambda>i u st. (st, Inr PNone)), ls_limit = (\<lambda>t st. (st, Inr PNone)),
      ls_error = (\<lambda>c st. (st, Inr (PBool False))), ls_timeout = (\<lambda>st. (st, Inr PNone))\<rparr>"

text \<open>\<open>on_data\<close>: whether it returned \<open>False\<close>.\<close>

definition is_false :: "'w live \<times> pyval res \<Rightarrow> 'w live \<times> bool res" where
  "is_false x = (fst x, rbind (snd x) (\<lambda>v. Inr (v = PBool False)))"

definition notified ::
    "pyval res \<Rightarrow> (pyval \<Rightarrow> 'w live \<Rightarrow> 'w live \<times> pyval res) \<Rightarrow> 'w live \<Rightarrow> 'w live \<times> bool res" where
  "notified r f st = (case r of Inl e \<Rightarrow> (st, Inl e) | Inr v \<Rightarrow> is_false (f v st))"

definition on_data :: "'w stream_listener \<Rightarrow> string \<Rightarrow> 'w live \<Rightarrow> 'w live \<times> bool res" where
  "on_data ls data st =
     (if str_contains data ''in_reply_to_status_id'' then
        (case rbind (json_loads data) status_parse of
           Inl e \<Rightarrow> (st, Inl e)
         | Inr s \<Rightarrow> is_false (ls_status ls s st))
      else if str_contains data ''delete'' then
        (case rbind (json_loads data) (\<lambda>j. rbind (py_item j ''delete'') (\<lambda>d. rbind (py_item d ''status'') (\<lambda>s.
             rbind (py_item s ''id'') (\<lambda>i. rbind (py_item s ''user_id'') (\<lambda>u. Inr (i, u)))))) of
           Inl e \<Rightarrow> (st, Inl e)
         | Inr (i, u) \<Rightarrow> is_false (ls_delete ls i u st))
      else if str_contains data ''limit'' then
        notified (rbind (json_loads data) (\<lambda>j. rbind (py_item j ''limit'') (\<lambda>l. py_item l ''track''))) (ls_limit ls) st
      else (st, Inr False))"

section \<open>Streams\<close>

text \<open>Times are numbers of seconds.\<close>

type_synonym sdict = "(string \<times> string) list"

record stream =
  sm_host :: string
  sm_url :: "string option"
  sm_running :: bool
  sm_timeout :: rat
  sm_retry_count :: "int option"
  sm_retry_time :: rat
  sm_snooze_time :: rat
  sm_buffer_size :: int
  sm_scheme :: string
  sm_headers :: sdict
  sm_params :: "sdict option"
  sm_body :: "string option"


definition opt :: "'a \<Rightarrow> 'a option \<Rightarrow> 'a" where
  "opt d x = (case x of None \<Rightarrow> d | Some v \<Rightarrow> v)"


text \<open>A timeout of the socket, or another exception.\<close>

datatype stream_exc = Timeout | Failed exc

text \<open>Signing; connecting, sending and reading the status; reading a character, nothing at the end; closing; sleeping.\<close>

record 'w stream_env =
  se_auth :: "string \<Rightarrow> sdict \<Rightarrow> sdict option \<Rightarrow> 'w \<Rightarrow> 'w \<times> sdict res"
  se_open :: "string \<Rightarrow> string \<Rightarrow> rat \<Rightarrow> string \<Rightarrow> string option \<Rightarrow> sdict \<Rightarrow> 'w live \<Rightarrow> 'w live \<times> (stream_exc + int)"
  se_closed :: "'w \<Rightarrow> bool"
  se_read :: "'w live \<Rightarrow> 'w live \<times> (stream_exc + char option)"
  se_close :: "'w \<Rightarrow> 'w"
  se_sleep :: "rat \<Rightarrow> 'w live \<Rightarrow> 'w live"

section \<open>Reading lines\<close>

definition newline :: char where
  "newline = CHR 0x0A"

partial_function (option) read_line ::
    "'w stream_env \<Rightarrow> string \<Rightarrow> 'w live \<Rightarrow> ('w live \<times> (stream_exc + string)) option" where
  "read_line env acc st =
     (case se_read env st of
        (st1, Inl e) \<Rightarrow> Some (st1, Inl e)
      | (st1, Inr None) \<Rightarrow> read_line env acc st1
      | (st1, Inr (Some c)) \<Rightarrow> if c = newline then Some (st1, Inr acc) else read_line env (acc @ [c]) st1)"

text \<open>\<open>od\<close> is the method \<open>on_data\<close> of the listener, with whether it returned \<open>False\<close>.\<close>

partial_function (option) read_loop ::
    "'w stream_env \<Rightarrow> (string \<Rightarrow> 'w live \<Rightarrow> 'w live \<times> bool res) \<Rightarrow> 'w live \<Rightarrow> ('w live \<times> (stream_exc + unit)) option" where
  "read_loop env od st =
     (if \<not> snd st \<or> se_closed env (fst st) then Some (st, Inr ())
      else
        (case read_line env [] st of
           None \<Rightarrow> None
         | Some (st1, Inl e) \<Rightarrow> Some (st1, Inl e)
         | Some (st1, Inr data) \<Rightarrow>
             (case od (str_strip data) st1 of
                (st2, Inl e) \<Rightarrow> Some (st2, Inl (Failed e))
              | (st2, Inr stop) \<Rightarrow> read_loop env od (if stop then (fst st2, False) else st2))))"

section \<open>Connecting\<close>

text \<open>One round of the loop in \<open>_run\<close>, inside its \<open>try\<close>: the number of errors in a row, and whether to go on.\<close>

definition stream_url :: "stream \<Rightarrow> string res" where
  "stream_url sm = (case sm_url sm of None \<Rightarrow> Inl (AttributeError ''url'') | Some u \<Rightarrow> Inr (sm_scheme sm @ ''://'' @ sm_host sm @ u))"

record 'w round =
  rd_live :: "'w live"
  rd_headers :: sdict
  rd_errors :: nat

definition try_once ::
    "'w stream_env \<Rightarrow> 'w stream_listener \<Rightarrow> (string \<Rightarrow> 'w live \<Rightarrow> 'w live \<times> bool res) \<Rightarrow> stream \<Rightarrow> string \<Rightarrow> 'w round \<Rightarrow>
     ('w round \<times> (stream_exc + bool)) option" where
  "try_once env ls od sm url r =
     (case se_auth env url (rd_headers r) (sm_params sm) (fst (rd_live r)) of
        (w, Inl e) \<Rightarrow> Some (r\<lparr>rd_live := (w, snd (rd_live r))\<rparr>, Inl (Failed e))
      | (w, Inr hs) \<Rightarrow>
          (let r1 = r\<lparr>rd_headers := hs\<rparr> in
           case se_open env (sm_scheme sm) (sm_host sm) (sm_timeout sm) (opt [] (sm_url sm)) (sm_body sm) hs (w, snd (rd_live r)) of
             (st, Inl e) \<Rightarrow> Some (r1\<lparr>rd_live := st\<rparr>, Inl e)
           | (st, Inr status) \<Rightarrow>
               if status \<noteq> 200 then
                 (case ls_error ls status st of
                    (st1, Inl e) \<Rightarrow> Some (r1\<lparr>rd_live := st1\<rparr>, Inl (Failed e))
                  | (st1, Inr v) \<Rightarrow>
                      if v = PBool False then Some (r1\<lparr>rd_live := st1\<rparr>, Inr False)
                      else Some (r1\<lparr>rd_live := se_sleep env (sm_retry_time sm) st1, rd_errors := rd_errors r + 1\<rparr>, Inr True))
               else
                 map_option (\<lambda>(st1, x). (r1\<lparr>rd_live := st1, rd_errors := 0\<rparr>, case x of Inl e \<Rightarrow> Inl e | Inr _ \<Rightarrow> Inr True))
                   (read_loop env od st)))"

text \<open>What the round ends with: another round, the end of the loop, with the exception that caused it, or an
  exception of the handler itself, which leaves \<open>_run\<close> at once.\<close>

datatype round_end = Next | Leave "exc option" | Escape exc

definition end_round :: "'w stream_env \<Rightarrow> 'w stream_listener \<Rightarrow> stream \<Rightarrow> 'w round \<times> (stream_exc + bool) \<Rightarrow> 'w round \<times> round_end" where
  "end_round env ls sm x =
     (case x of
        (r, Inr True) \<Rightarrow> (r, Next)
      | (r, Inr False) \<Rightarrow> (r, Leave None)
      | (r, Inl (Failed e)) \<Rightarrow> (r, Leave (Some e))
      | (r, Inl Timeout) \<Rightarrow>
          (case ls_timeout ls (rd_live r) of
             (st, Inl e) \<Rightarrow> (r\<lparr>rd_live := st\<rparr>, Escape e)
           | (st, Inr v) \<Rightarrow>
               if py_eq v (PBool False) \<or> \<not> snd st then (r\<lparr>rd_live := st\<rparr>, Leave None)
               else (r\<lparr>rd_live := se_sleep env (sm_snooze_time sm) (se_close env (fst st), snd st)\<rparr>, Next)))"

definition gives_up :: "stream \<Rightarrow> nat \<Rightarrow> bool" where
  "gives_up sm errors \<longleftrightarrow> (case sm_retry_count sm of None \<Rightarrow> False | Some n \<Rightarrow> int errors > n)"

partial_function (option) run_loop ::
    "'w stream_env \<Rightarrow> 'w stream_listener \<Rightarrow> (string \<Rightarrow> 'w live \<Rightarrow> 'w live \<times> bool res) \<Rightarrow> stream \<Rightarrow> string \<Rightarrow> bool \<Rightarrow> 'w round \<Rightarrow>
     ('w round \<times> bool \<times> round_end) option" where
  "run_loop env ls od sm url opened r =
     (if \<not> snd (rd_live r) \<or> gives_up sm (rd_errors r) then Some (r, opened, Leave None)
      else
        (case try_once env ls od sm url r of
           None \<Rightarrow> None
         | Some x \<Rightarrow>
             (case end_round env ls sm x of
                (r1, Next) \<Rightarrow> run_loop env ls od sm url True r1
              | (r1, e) \<Rightarrow> Some (r1, True, e))))"

text \<open>\<open>_run\<close>: the stream afterwards, with its flag and headers.\<close>

definition run_stream ::
    "'w stream_env \<Rightarrow> 'w stream_listener \<Rightarrow> (string \<Rightarrow> 'w live \<Rightarrow> 'w live \<times> bool res) \<Rightarrow> 'w \<times> stream \<Rightarrow>
     (('w \<times> stream) \<times> unit res) option" where
  "run_stream env ls od st =
     (case st of (w, sm) \<Rightarrow>
      case stream_url sm of
        Inl e \<Rightarrow> Some (st, Inl e)
      | Inr url \<Rightarrow>
          map_option (\<lambda>(r, opened, e).
              (case rd_live r of (w1, running) \<Rightarrow>
               case e of
                 Escape x \<Rightarrow> ((w1, sm\<lparr>sm_running := running, sm_headers := rd_headers r\<rparr>), Inl x)
               | _ \<Rightarrow> ((if opened then se_close env w1 else w1, sm\<lparr>sm_running := False, sm_headers := rd_headers r\<rparr>),
                       case e of Leave (Some x) \<Rightarrow> Inl x | _ \<Rightarrow> Inr ())))
            (run_loop env ls od sm url False \<lparr>rd_live = (w, sm_running sm), rd_headers = sm_headers sm, rd_errors = 0\<rparr>))"

section \<open>Starting a stream\<close>

text \<open>\<open>_start\<close>: asynchronously, another thread runs the stream and the call returns.\<close>

definition start_stream ::
    "'w stream_env \<Rightarrow> 'w stream_listener \<Rightarrow> (string \<Rightarrow> 'w live \<Rightarrow> 'w live \<times> bool res) \<Rightarrow> bool \<Rightarrow> 'w \<times> stream \<Rightarrow>
     (('w \<times> stream) \<times> unit res) option" where
  "start_stream env ls od async st =
     (let st1 = (fst st, snd st\<lparr>sm_running := True\<rparr>) in
      if async then Some (st1, Inr ()) else run_stream env ls od st1)"

definition count_text :: "int option \<Rightarrow> string" where
  "count_text n = (case n of Some i \<Rightarrow> if i = 0 then [] else ''&count='' @ show_int i | None \<Rightarrow> [])"

definition already_connected :: exc where
  "already_connected = TweepError ''Stream object already connected!''"

text \<open>Preparing a stream: \<open>Inl\<close> when it runs already; what was set before that test stays set.\<close>

definition userstream :: "int option \<Rightarrow> stream \<Rightarrow> stream \<times> unit res" where
  "userstream n sm =
     (if sm_running sm then (sm, Inl already_connected)
      else (sm\<lparr>sm_host := ''userstream.twitter.com'', sm_url := Some (''/2/user.json'' @ count_text n)\<rparr>, Inr ()))"

definition delimited :: "stream \<Rightarrow> stream" where
  "delimited sm = sm\<lparr>sm_params := Some [(''delimited'', ''length'')]\<rparr>"

definition plain_stream :: "string \<Rightarrow> int option \<Rightarrow> stream \<Rightarrow> stream \<times> unit res" where
  "plain_stream name n sm =
     (let sm1 = delimited sm in
      if sm_running sm1 then (sm1, Inl already_connected)
      else (sm1\<lparr>sm_url := Some (''/1/statuses/'' @ name @ ''.json?delimited=length'' @ count_text n)\<rparr>, Inr ()))"


definition retweet_stream :: "stream \<Rightarrow> stream \<times> unit res" where
  "retweet_stream = plain_stream ''retweet'' None"

definition sample :: "int option \<Rightarrow> stream \<Rightarrow> stream \<times> unit res" where
  "sample n = plain_stream ''sample'' n"

text \<open>\<open>filter\<close>: \<open>fmt\<close> is the format \<open>%.2f\<close> of a coordinate.\<close>

definition filter_stream ::
    "('f \<Rightarrow> string) \<Rightarrow> int list \<Rightarrow> string list \<Rightarrow> 'f list \<Rightarrow> int option \<Rightarrow> stream \<Rightarrow> stream \<times> unit res" where
  "filter_stream fmt users tracks locations n sm =
     (let sm1 = sm\<lparr>sm_params := Some [], sm_headers := AList.update ''Content-type'' ''application/x-www-form-urlencoded'' (sm_headers sm)\<rparr>;
          sm2 = sm1\<lparr>sm_url := Some ''/1/statuses/filter.json?delimited=length''\<rparr>;
          p1 = (if users \<noteq> [] then [(''follow'', str_join '','' (map show_int users))] else [])
            @ (if tracks \<noteq> [] then [(''track'', str_join '','' tracks)] else [])
      in if sm_running sm1 then (sm1, Inl already_connected)
         else if length locations mod 4 \<noteq> 0 then (sm2\<lparr>sm_params := Some p1\<rparr>, Inl (AssertionError []))
         else
           (let p2 = p1 @ (if locations \<noteq> [] then [(''locations'', str_join '','' (map fmt locations))] else [])
                  @ (case n of Some i \<Rightarrow> if i = 0 then [] else [(''count'', show_int i)] | None \<Rightarrow> [])
            in (sm2\<lparr>sm_body := Some (urlencode p2), sm_params := Some (p2 @ [(''delimited'', ''length'')])\<rparr>, Inr ())))"

text \<open>A call of one of these methods: prepared, then started.\<close>

definition connect_stream ::
    "'w stream_env \<Rightarrow> 'w stream_listener \<Rightarrow> (string \<Rightarrow> 'w live \<Rightarrow> 'w live \<times> bool res) \<Rightarrow> bool \<Rightarrow>
     (stream \<Rightarrow> stream \<times> unit res) \<Rightarrow> 'w \<times> stream \<Rightarrow> (('w \<times> stream) \<times> unit res) option" where
  "connect_stream env ls od async prepare st =
     (case prepare (snd st) of
        (sm, Inl e) \<Rightarrow> Some ((fst st, sm), Inl e)
      | (sm, Inr _) \<Rightarrow> start_stream env ls od async (fst st, sm))"

definition disconnect :: "stream \<Rightarrow> stream" where
  "disconnect sm = (if \<not> sm_running sm then sm else sm\<lparr>sm_running := False\<rparr>)"

section \<open>What is delivered\<close>

text \<open>A connection that delivers a text and is closed behind it; the listener works on the rest of the world.\<close>

definition feed_env :: "(string \<times> 'a) stream_env" where
  "feed_env =
     \<lparr>se_auth = (\<lambda>url hs ps w. (w, Inr hs)), se_open = (\<lambda>sch host t url b hs st. (st, Inr 200)), se_closed = (\<lambda>w. fst w = []),
      se_read = (\<lambda>((t, a), run). case t of [] \<Rightarrow> ((([], a), run), Inr None) | c # t1 \<Rightarrow> (((t1, a), run), Inr (Some c))),
      se_close = id, se_sleep = (\<lambda>t st. st)\<rparr>"

definition on_feed :: "(string \<Rightarrow> 'a \<Rightarrow> 'a \<times> bool res) \<Rightarrow> string \<Rightarrow> (string \<times> 'a) live \<Rightarrow> (string \<times> 'a) live \<times> bool res" where
  "on_feed f d = (\<lambda>((t, a), run). case f d a of (a1, r) \<Rightarrow> (((t, a1), run), r))"

definition feed_text :: "string list \<Rightarrow> string" where
  "feed_text ls = concat (map (\<lambda>l. l @ [newline]) ls)"

text \<open>What the listener is to get: the lines in their order, up to the one it stops at or raises for.\<close>

fun deliver :: "(string \<Rightarrow> 'a \<Rightarrow> 'a \<times> bool res) \<Rightarrow> string list \<Rightarrow> 'a \<Rightarrow> 'a \<times> string list \<times> bool \<times> (stream_exc + unit)" where
  "deliver f [] a = (a, [], True, Inr ())"
| "deliver f (l # ls) a =
     (case f (str_strip l) a of
        (a1, Inl e) \<Rightarrow> (a1, ls, True, Inl (Failed e))
      | (a1, Inr True) \<Rightarrow> (a1, ls, False, Inr ())
      | (a1, Inr False) \<Rightarrow> deliver f ls a1)"

lemma feed_read [simp]:
  "se_read feed_env (([], a), run) = ((([], a), run), Inr None)"
  "se_read feed_env ((c # t, a), run) = (((t, a), run), Inr (Some c))"
  "se_closed feed_env w \<longleftrightarrow> fst w = []"
  by (simp_all add: feed_env_def)

lemma on_feed_apply: "on_feed f d ((t, a), run) = (case f d a of (a1, r) \<Rightarrow> (((t, a1), run), r))"
  by (simp add: on_feed_def)

lemma read_line_feed:
  "newline \<notin> set l \<Longrightarrow> read_line feed_env acc ((l @ newline # t, a), run) = Some (((t, a), run), Inr (acc @ l))"
proof (induction l arbitrary: acc)
  case Nil
  then show ?case by (subst read_line.simps) simp
next
  case (Cons c l)
  then show ?case by (subst read_line.simps) auto
qed

lemma read_loop_stop: "\<not> snd st \<or> se_closed env (fst st) \<Longrightarrow> read_loop env od st = Some (st, Inr ())"
  by (subst read_loop.simps) simp

text \<open>C25: Every line that arrives is delivered: a connection that sends lines, each ended by a newline, and is closed
  behind the last, makes the listener work on exactly these lines, without the blanks around them, once each and
  in their order, up to the first at which it returns False or raises; then the loop is over, the flag is
  cleared in the first of these cases, and what was not read yet is still there.\<close>

theorem lines_delivered:
  assumes "\<forall>l\<in>set ls. newline \<notin> set l"
  shows "read_loop feed_env (on_feed f) ((feed_text ls, a), True) =
    (case deliver f ls a of (a1, rest, running, r) \<Rightarrow> Some (((feed_text rest, a1), running), r))"
  using assms
proof (induction ls arbitrary: a)
  case Nil
  then show ?case by (simp add: read_loop_stop feed_text_def)
next
  case (Cons l ls)
  have line: "read_line feed_env [] ((feed_text (l # ls), a), True) = Some (((feed_text ls, a), True), Inr l)"
    using read_line_feed [of l "[]" "feed_text ls"] Cons.prems by (simp add: feed_text_def)
  obtain a1 r where f: "f (str_strip l) a = (a1, r)" by force
  have ne: "feed_text (l # ls) \<noteq> []" by (simp add: feed_text_def)
  show ?case
  proof (cases r)
    case (Inl e)
    then show ?thesis by (subst read_loop.simps) (simp add: ne line on_feed_apply f)
  next
    case (Inr stop)
    then show ?thesis
      using Cons.IH [of a1] Cons.prems
      by (subst read_loop.simps, cases stop) (simp_all add: ne line on_feed_apply f read_loop_stop)
  qed
qed

definition keep_lines :: "string \<Rightarrow> string list \<Rightarrow> string list \<times> bool res" where
  "keep_lines d kept = (kept @ [d], Inr (d = ''stop''))"

theorem lines_delivered_witness:
  "read_loop feed_env (on_feed keep_lines) ((feed_text [''1 '', []], []), True) = Some ((([], [''1'', []]), True), Inr ()) \<and>
   read_loop feed_env (on_feed keep_lines) ((feed_text [''stop'', ''x''], []), True) = Some (((feed_text [''x''], [''stop'']), False), Inr ())"
proof -
  have "deliver keep_lines [''1 '', []] [] = ([''1'', []], [], True, Inr ())"
    "deliver keep_lines [''stop'', ''x''] [] = ([''stop''], [''x''], False, Inr ())" "feed_text [] = []" by code_simp+
  moreover have "\<forall>l\<in>set [''1 '', []]. newline \<notin> set l" "\<forall>l\<in>set [''stop'', ''x'']. newline \<notin> set l"
    by (simp_all add: newline_def)
  ultimately show ?thesis
    using lines_delivered [of "[''1 '', []]" keep_lines "[]"] lines_delivered [of "[''stop'', ''x'']" keep_lines "[]"] by simp
qed

text \<open>A connection that ends inside a line is read for ever: the end of the text is no newline.\<close>

lemma read_line_found:
  assumes "read_line feed_env acc st = Some r"
  shows "newline \<in> set (fst (fst st))"
proof -
  have "env = feed_env \<longrightarrow> newline \<in> set (fst (fst st))" if "read_line env acc st = Some r" for env :: "(string \<times> 'a) stream_env" and acc st r
  proof (rule read_line.raw_induct [where P = "\<lambda>env acc st r. env = feed_env \<longrightarrow> newline \<in> set (fst (fst st))", OF _ that])
    fix f :: "(string \<times> 'a) stream_env \<Rightarrow> string \<Rightarrow> (string \<times> 'a) live \<Rightarrow> ((string \<times> 'a) live \<times> (stream_exc + string)) option"
      and env :: "(string \<times> 'a) stream_env" and acc st r
    assume IH: "\<And>env acc st r. f env acc st = Some r \<Longrightarrow> env = feed_env \<longrightarrow> newline \<in> set (fst (fst st))"
      and eq: "(case se_read env st of
        (st1, Inl e) \<Rightarrow> Some (st1, Inl e)
      | (st1, Inr None) \<Rightarrow> f env acc st1
      | (st1, Inr (Some c)) \<Rightarrow> if c = newline then Some (st1, Inr acc) else f env (acc @ [c]) st1) = Some r"
    show "env = feed_env \<longrightarrow> newline \<in> set (fst (fst st))"
    proof
      assume env: "env = feed_env"
      obtain t a run where st: "st = ((t, a), run)" by (metis prod.exhaust)
      show "newline \<in> set (fst (fst st))"
      proof (cases t)
        case Nil
        then have "f env acc st = Some r" using eq env by (simp add: st)
        with IH env show ?thesis by blast
      next
        case (Cons c t1)
        then have "c = newline \<or> f env (acc @ [c]) ((t1, a), run) = Some r" using eq env by (auto simp: st split: if_splits)
        with IH [of env "acc @ [c]" "((t1, a), run)" r] env Cons show ?thesis by (auto simp: st)
      qed
    qed
  qed
  with assms show ?thesis by blast
qed

lemma cut_line_never_ends:
  assumes "l \<noteq> []" "newline \<notin> set l"
  shows "read_loop feed_env od ((l, a), True) = None"
proof -
  have "read_line feed_env [] ((l, a), True) = None" using read_line_found [of "[]" "((l, a), True)"] assms
    by (cases "read_line feed_env [] ((l, a), True)") auto
  then show ?thesis using assms(1) by (subst read_loop.simps) simp
qed

section \<open>The end of a run\<close>

text \<open>A server that answers with errors, and a listener that does not mind; \<open>c\<close> counts the attempts.\<close>

definition refuses :: "('w \<Rightarrow> nat) \<Rightarrow> 'w stream_env \<Rightarrow> 'w stream_listener \<Rightarrow> bool" where
  "refuses c env ls \<longleftrightarrow>
     (\<forall>url hs ps w. \<exists>hs1. se_auth env url hs ps w = (w, Inr hs1)) \<and>
     (\<forall>sch host t url b hs w run. \<exists>w1 n. se_open env sch host t url b hs (w, run) = ((w1, run), Inr n) \<and> n \<noteq> 200 \<and> c w1 = Suc (c w)) \<and>
     (\<forall>n st. \<exists>v. ls_error ls n st = (st, Inr v) \<and> v \<noteq> PBool False) \<and>
     (\<forall>t w run. \<exists>w1. se_sleep env t (w, run) = (w1, run) \<and> c w1 = c w) \<and> (\<forall>w. c (se_close env w) = c w)"

lemma refused_round:
  assumes "refuses c env ls" "rd_live r = (w, True)"
  obtains w1 hs where "try_once env ls od sm url r =
    Some (r\<lparr>rd_live := (w1, True), rd_headers := hs, rd_errors := rd_errors r + 1\<rparr>, Inr True)" "c w1 = Suc (c w)"
proof -
  obtain hs where au: "se_auth env url (rd_headers r) (sm_params sm) w = (w, Inr hs)"
    using assms(1) unfolding refuses_def by blast
  obtain w1 n where op: "se_open env (sm_scheme sm) (sm_host sm) (sm_timeout sm) (opt [] (sm_url sm)) (sm_body sm) hs (w, True) = ((w1, True), Inr n)"
      "n \<noteq> 200" "c w1 = Suc (c w)"
    using assms(1) unfolding refuses_def by metis
  obtain v where er: "ls_error ls n (w1, True) = ((w1, True), Inr v)" "v \<noteq> PBool False"
    using assms(1) unfolding refuses_def by metis
  obtain w2 where sl: "se_sleep env (sm_retry_time sm) (w1, True) = (w2, True)" "c w2 = c w1"
    using assms(1) unfolding refuses_def by metis
  have "try_once env ls od sm url r = Some (r\<lparr>rd_live := (w2, True), rd_headers := hs, rd_errors := rd_errors r + 1\<rparr>, Inr True)"
    by (simp add: try_once_def assms(2) au op er sl Let_def)
  with sl(2) op(3) show thesis by (intro that) simp_all
qed

lemma refused_loop:
  assumes "refuses c env ls" "sm_retry_count sm = Some (int n)" "rd_live r = (w, True)" "rd_errors r \<le> n + 1"
  shows "\<exists>r1 w1 o1. run_loop env ls od sm url opened r = Some (r1, o1, Leave None) \<and> rd_live r1 = (w1, True) \<and>
    c w1 = c w + (n + 1 - rd_errors r)"
  using assms(3,4)
proof (induction "n + 1 - rd_errors r" arbitrary: r w opened)
  case 0
  then have "gives_up sm (rd_errors r)" by (simp add: gives_up_def assms(2))
  with 0 show ?case by (subst run_loop.simps) simp
next
  case (Suc k)
  then have go: "\<not> gives_up sm (rd_errors r)" by (simp add: gives_up_def assms(2))
  obtain w1 hs where t: "try_once env ls od sm url r =
      Some (r\<lparr>rd_live := (w1, True), rd_headers := hs, rd_errors := rd_errors r + 1\<rparr>, Inr True)" "c w1 = Suc (c w)"
    using refused_round [OF assms(1) Suc.prems(1)] by metis
  let ?r = "r\<lparr>rd_live := (w1, True), rd_headers := hs, rd_errors := rd_errors r + 1\<rparr>"
  have "run_loop env ls od sm url opened r = run_loop env ls od sm url True ?r"
    using Suc.prems(1) go t(1) by (subst run_loop.simps) (simp add: end_round_def)
  moreover have "k = n + 1 - rd_errors ?r" "rd_errors ?r \<le> n + 1" using Suc.hyps(2) by simp_all
  ultimately show ?case using Suc.hyps(1) [of ?r w1 True] t(2) Suc.hyps(2) by auto
qed

text \<open>C26: The attempts are limited: when the server keeps answering with errors and the listener does not stop it, a
  stream with a retry count of \<open>n\<close> makes exactly \<open>n + 1\<close> attempts, waiting after each, and then its run is
  over without an exception and the stream is not running any more.\<close>

theorem attempts_limited:
  assumes "refuses c env ls" "sm_retry_count sm = Some (int n)" "sm_url sm = Some u" "sm_running sm"
  shows "\<exists>w1 sm1. run_stream env ls od (w, sm) = Some ((w1, sm1), Inr ()) \<and> c w1 = c w + n + 1 \<and> \<not> sm_running sm1"
proof -
  let ?r = "\<lparr>rd_live = (w, True), rd_headers = sm_headers sm, rd_errors = 0\<rparr>"
  obtain r1 w1 o1 where loop: "run_loop env ls od sm (sm_scheme sm @ ''://'' @ sm_host sm @ u) False ?r = Some (r1, o1, Leave None)"
    "rd_live r1 = (w1, True)" "c w1 = c w + (n + 1)"
    using refused_loop [OF assms(1,2), of ?r w od "sm_scheme sm @ ''://'' @ sm_host sm @ u" False] by auto
  moreover have "c (se_close env w1) = c w1" using assms(1) by (simp add: refuses_def)
  ultimately show ?thesis using assms(3,4) by (simp add: run_stream_def stream_url_def)
qed

definition busy_env :: "nat stream_env" where
  "busy_env =
     \<lparr>se_auth = (\<lambda>url hs ps w. (w, Inr hs)), se_open = (\<lambda>sch host t url b hs (w, run). ((w + 1, run), Inr 503)), se_closed = (\<lambda>w. True),
      se_read = (\<lambda>st. (st, Inr None)), se_close = id, se_sleep = (\<lambda>t st. st)\<rparr>"

theorem attempts_limited_witness:
  "\<exists>w1 sm1. run_stream busy_env (default_listener\<lparr>ls_error := (\<lambda>c st. (st, Inr PNone))\<rparr>) (on_data default_listener)
     (0, \<lparr>sm_host = ''h'', sm_url = Some ''/u'', sm_running = True, sm_timeout = 300, sm_retry_count = Some 3, sm_retry_time = 10,
       sm_snooze_time = 5, sm_buffer_size = 1500, sm_scheme = ''https'', sm_headers = [], sm_params = None, sm_body = None\<rparr>) =
     Some ((w1, sm1), Inr ()) \<and> w1 = 4"
proof -
  let ?ls = "default_listener\<lparr>ls_error := (\<lambda>c st. (st, Inr PNone))\<rparr> :: nat stream_listener"
  let ?sm = "\<lparr>sm_host = ''h'', sm_url = Some ''/u'', sm_running = True, sm_timeout = 300, sm_retry_count = Some 3, sm_retry_time = 10,
       sm_snooze_time = 5, sm_buffer_size = 1500, sm_scheme = ''https'', sm_headers = [], sm_params = None, sm_body = None\<rparr>"
  have "refuses id busy_env ?ls" by (simp add: refuses_def busy_env_def)
  from attempts_limited [OF this, of ?sm 3 "''/u''" "on_data default_listener" 0] show ?thesis by auto
qed






section \<open>What stays behind\<close>

text \<open>The host of a user stream stays for the streams that follow, and so does the body of a filter.\<close>

lemma user_host_stays:
  "\<not> sm_running sm \<Longrightarrow> sm_host (fst (sample n (fst (userstream m sm)))) = ''userstream.twitter.com''"
  by (simp add: userstream_def sample_def plain_stream_def delimited_def Let_def)

lemma filter_body_stays:
  "\<not> sm_running sm \<Longrightarrow> length locations mod 4 = 0 \<Longrightarrow>
     sm_body (fst (sample n (fst (filter_stream fmt users tracks locations m sm)))) \<noteq> None"
  by (simp add: filter_stream_def sample_def plain_stream_def delimited_def Let_def)

text \<open>A refused call has changed the parameters of the stream that runs, with which it signs its next attempt.\<close>

lemma refused_filter_changes:
  "sm_running sm \<Longrightarrow> snd (filter_stream fmt users tracks locations n sm) = Inl already_connected \<and>
     sm_params (fst (filter_stream fmt users tracks locations n sm)) = Some []"
  by (simp add: filter_stream_def Let_def)

end
