(* ===== verification/TwitterAccessors.thy ===== *)
theory TwitterAccessors
  imports TwitterModel MailDate
begin

text \<open>
  The properties of the objects of \<open>socialnet/twitter.py\<close>: every attribute of \<open>Status\<close>, \<open>User\<close>, \<open>List\<close> and
  \<open>DirectMessage\<close> as the pair of its getter and setter, the constructors as the assignments they make, the time of a
  status or message in seconds, and the relative age, whose first reading keeps the clock.
\<close>

section \<open>Attributes\<close>

record ('o, 'v) attribute =
  attr_get :: "'o \<Rightarrow> 'v"
  attr_set :: "'v \<Rightarrow> 'o \<Rightarrow> 'o"

locale attribute_laws =
  fixes a :: "('o, 'v) attribute"
  assumes get_set: "attr_get a (attr_set a v x) = v"
    and set_get: "attr_set a (attr_get a x) x = x"
    and set_set: "attr_set a v (attr_set a w x) = attr_set a v x"
begin

lemma put_back: "attr_set a (attr_get a x) (attr_set a v x) = x"
  by (simp add: set_set set_get)

lemma same_value: "attr_set a v x = attr_set a w x \<longleftrightarrow> v = w"
  by (metis get_set)

lemma set_iff_got: "attr_set a v x = x \<longleftrightarrow> attr_get a x = v"
  by (metis get_set set_get)

end

text \<open>An attribute of the plain data of an object.\<close>

fun status_attr :: "(status_data, pyval) attribute \<Rightarrow> (status, pyval) attribute" where
  "status_attr a = \<lparr>attr_get = (\<lambda>x. case x of Status d u us ms hs rt \<Rightarrow> attr_get a d),
     attr_set = (\<lambda>v x. case x of Status d u us ms hs rt \<Rightarrow> Status (attr_set a v d) u us ms hs rt)\<rparr>"

fun user_attr :: "(user_data, pyval) attribute \<Rightarrow> (user, pyval) attribute" where
  "user_attr a = \<lparr>attr_get = (\<lambda>x. case x of User d st \<Rightarrow> attr_get a d),
     attr_set = (\<lambda>v x. case x of User d st \<Rightarrow> User (attr_set a v d) st)\<rparr>"

fun list_attr :: "(list_data, pyval) attribute \<Rightarrow> (tlist, pyval) attribute" where
  "list_attr a = \<lparr>attr_get = (\<lambda>x. case x of TList d u \<Rightarrow> attr_get a d),
     attr_set = (\<lambda>v x. case x of TList d u \<Rightarrow> TList (attr_set a v d) u)\<rparr>"

section \<open>Status\<close>

definition Status_created_at :: "(status, pyval) attribute" where
  "Status_created_at = status_attr \<lparr>attr_get = s_created_at, attr_set = (\<lambda>v x. x\<lparr>s_created_at := v\<rparr>)\<rparr>"

definition Status_favorited :: "(status, pyval) attribute" where
  "Status_favorited = status_attr \<lparr>attr_get = s_favorited, attr_set = (\<lambda>v x. x\<lparr>s_favorited := v\<rparr>)\<rparr>"

definition Status_id :: "(status, pyval) attribute" where
  "Status_id = status_attr \<lparr>attr_get = s_id, attr_set = (\<lambda>v x. x\<lparr>s_id := v\<rparr>)\<rparr>"

definition Status_in_reply_to_screen_name :: "(status, pyval) attribute" where
  "Status_in_reply_to_screen_name = status_attr \<lparr>attr_get = s_in_reply_to_screen_name, attr_set = (\<lambda>v x. x\<lparr>s_in_reply_to_screen_name := v\<rparr>)\<rparr>"

definition Status_in_reply_to_user_id :: "(status, pyval) attribute" where
  "Status_in_reply_to_user_id = status_attr \<lparr>attr_get = s_in_reply_to_user_id, attr_set = (\<lambda>v x. x\<lparr>s_in_reply_to_user_id := v\<rparr>)\<rparr>"

definition Status_in_reply_to_status_id :: "(status, pyval) attribute" where
  "Status_in_reply_to_status_id = status_attr \<lparr>attr_get = s_in_reply_to_status_id, attr_set = (\<lambda>v x. x\<lparr>s_in_reply_to_status_id := v\<rparr>)\<rparr>"

definition Status_truncated :: "(status, pyval) attribute" where
  "Status_truncated = status_attr \<lparr>attr_get = s_truncated, attr_set = (\<lambda>v x. x\<lparr>s_truncated := v\<rparr>)\<rparr>"

definition Status_retweeted :: "(status, pyval) attribute" where
  "Status_retweeted = status_attr \<lparr>attr_get = s_retweeted, attr_set = (\<lambda>v x. x\<lparr>s_retweeted := v\<rparr>)\<rparr>"

definition Status_source :: "(status, pyval) attribute" where
  "Status_source = status_attr \<lparr>attr_get = s_source, attr_set = (\<lambda>v x. x\<lparr>s_source := v\<rparr>)\<rparr>"

definition Status_text :: "(status, pyval) attribute" where
  "Status_text = status_attr \<lparr>attr_get = s_text, attr_set = (\<lambda>v x. x\<lparr>s_text := v\<rparr>)\<rparr>"

definition Status_location :: "(status, pyval) attribute" where
  "Status_location = status_attr \<lparr>attr_get = s_location, attr_set = (\<lambda>v x. x\<lparr>s_location := v\<rparr>)\<rparr>"

definition Status_geo :: "(status, pyval) attribute" where
  "Status_geo = status_attr \<lparr>attr_get = s_geo, attr_set = (\<lambda>v x. x\<lparr>s_geo := v\<rparr>)\<rparr>"

definition Status_place :: "(status, pyval) attribute" where
  "Status_place = status_attr \<lparr>attr_get = s_place, attr_set = (\<lambda>v x. x\<lparr>s_place := v\<rparr>)\<rparr>"

definition Status_coordinates :: "(status, pyval) attribute" where
  "Status_coordinates = status_attr \<lparr>attr_get = s_coordinates, attr_set = (\<lambda>v x. x\<lparr>s_coordinates := v\<rparr>)\<rparr>"

definition Status_contributors :: "(status, pyval) attribute" where
  "Status_contributors = status_attr \<lparr>attr_get = s_contributors, attr_set = (\<lambda>v x. x\<lparr>s_contributors := v\<rparr>)\<rparr>"

definition Status_retweet_count :: "(status, pyval) attribute" where
  "Status_retweet_count = status_attr \<lparr>attr_get = s_retweet_count, attr_set = (\<lambda>v x. x\<lparr>s_retweet_count := v\<rparr>)\<rparr>"

definition Status_user :: "(status, user option) attribute" where
  "Status_user = \<lparr>attr_get = (\<lambda>x. case x of Status d u us ms hs rt \<Rightarrow> u),
     attr_set = (\<lambda>v x. case x of Status d u us ms hs rt \<Rightarrow> Status d v us ms hs rt)\<rparr>"

definition Status_retweeted_status :: "(status, status option) attribute" where
  "Status_retweeted_status = \<lparr>attr_get = (\<lambda>x. case x of Status d u us ms hs rt \<Rightarrow> rt),
     attr_set = (\<lambda>v x. case x of Status d u us ms hs rt \<Rightarrow> Status d u us ms hs v)\<rparr>"

section \<open>User\<close>

definition User_id :: "(user, pyval) attribute" where
  "User_id = user_attr \<lparr>attr_get = u_id, attr_set = (\<lambda>v x. x\<lparr>u_id := v\<rparr>)\<rparr>"

definition User_name :: "(user, pyval) attribute" where
  "User_name = user_attr \<lparr>attr_get = u_name, attr_set = (\<lambda>v x. x\<lparr>u_name := v\<rparr>)\<rparr>"

definition User_screen_name :: "(user, pyval) attribute" where
  "User_screen_name = user_attr \<lparr>attr_get = u_screen_name, attr_set = (\<lambda>v x. x\<lparr>u_screen_name := v\<rparr>)\<rparr>"

definition User_location :: "(user, pyval) attribute" where
  "User_location = user_attr \<lparr>attr_get = u_location, attr_set = (\<lambda>v x. x\<lparr>u_location := v\<rparr>)\<rparr>"

definition User_description :: "(user, pyval) attribute" where
  "User_description = user_attr \<lparr>attr_get = u_description, attr_set = (\<lambda>v x. x\<lparr>u_description := v\<rparr>)\<rparr>"

definition User_url :: "(user, pyval) attribute" where
  "User_url = user_attr \<lparr>attr_get = u_url, attr_set = (\<lambda>v x. x\<lparr>u_url := v\<rparr>)\<rparr>"

definition User_profile_image_url :: "(user, pyval) attribute" where
  "User_profile_image_url = user_attr \<lparr>attr_get = u_profile_image_url, attr_set = (\<lambda>v x. x\<lparr>u_profile_image_url := v\<rparr>)\<rparr>"

definition User_profile_background_tile :: "(user, pyval) attribute" where
  "User_profile_background_tile = user_attr \<lparr>attr_get = u_profile_background_tile, attr_set = (\<lambda>v x. x\<lparr>u_profile_background_tile := v\<rparr>)\<rparr>"

definition User_profile_background_image_url :: "(user, pyval) attribute" where
  "User_profile_background_image_url = user_attr \<lparr>attr_get = u_profile_background_image_url, attr_set = (\<lambda>v x. x\<lparr>u_profile_background_image_url := v\<rparr>)\<rparr>"

definition User_profile_sidebar_fill_color :: "(user, pyval) attribute" where
  "User_profile_sidebar_fill_color = user_attr \<lparr>attr_get = u_profile_sidebar_fill_color, attr_set = (\<lambda>v x. x\<lparr>u_profile_sidebar_fill_color := v\<rparr>)\<rparr>"

definition User_profile_background_color :: "(user, pyval) attribute" where
  "User_profile_background_color = user_attr \<lparr>attr_get = u_profile_background_color, attr_set = (\<lambda>v x. x\<lparr>u_profile_background_color := v\<rparr>)\<rparr>"

definition User_profile_link_color :: "(user, pyval) attribute" where
  "User_profile_link_color = user_attr \<lparr>attr_get = u_profile_link_color, attr_set = (\<lambda>v x. x\<lparr>u_profile_link_color := v\<rparr>)\<rparr>"

definition User_profile_text_color :: "(user, pyval) attribute" where
  "User_profile_text_color = user_attr \<lparr>attr_get = u_profile_text_color, attr_set = (\<lambda>v x. x\<lparr>u_profile_text_color := v\<rparr>)\<rparr>"

definition User_protected :: "(user, pyval) attribute" where
  "User_protected = user_attr \<lparr>attr_get = u_protected, attr_set = (\<lambda>v x. x\<lparr>u_protected := v\<rparr>)\<rparr>"

definition User_utc_offset :: "(user, pyval) attribute" where
  "User_utc_offset = user_attr \<lparr>attr_get = u_utc_offset, attr_set = (\<lambda>v x. x\<lparr>u_utc_offset := v\<rparr>)\<rparr>"

definition User_time_zone :: "(user, pyval) attribute" where
  "User_time_zone = user_attr \<lparr>attr_get = u_time_zone, attr_set = (\<lambda>v x. x\<lparr>u_time_zone := v\<rparr>)\<rparr>"

definition User_friends_count :: "(user, pyval) attribute" where
  "User_friends_count = user_attr \<lparr>attr_get = u_friends_count, attr_set = (\<lambda>v x. x\<lparr>u_friends_count := v\<rparr>)\<rparr>"

definition User_listed_count :: "(user, pyval) attribute" where
  "User_listed_count = user_attr \<lparr>attr_get = u_listed_count, attr_set = (\<lambda>v x. x\<lparr>u_listed_count := v\<rparr>)\<rparr>"

definition User_followers_count :: "(user, pyval) attribute" where
  "User_followers_count = user_attr \<lparr>attr_get = u_followers_count, attr_set = (\<lambda>v x. x\<lparr>u_followers_count := v\<rparr>)\<rparr>"

definition User_statuses_count :: "(user, pyval) attribute" where
  "User_statuses_count = user_attr \<lparr>attr_get = u_statuses_count, attr_set = (\<lambda>v x. x\<lparr>u_statuses_count := v\<rparr>)\<rparr>"

definition User_favourites_count :: "(user, pyval) attribute" where
  "User_favourites_count = user_attr \<lparr>attr_get = u_favourites_count, attr_set = (\<lambda>v x. x\<lparr>u_favourites_count := v\<rparr>)\<rparr>"

definition User_geo_enabled :: "(user, pyval) attribute" where
  "User_geo_enabled = user_attr \<lparr>attr_get = u_geo_enabled, attr_set = (\<lambda>v x. x\<lparr>u_geo_enabled := v\<rparr>)\<rparr>"

definition User_verified :: "(user, pyval) attribute" where
  "User_verified = user_attr \<lparr>attr_get = u_verified, attr_set = (\<lambda>v x. x\<lparr>u_verified := v\<rparr>)\<rparr>"

definition User_lang :: "(user, pyval) attribute" where
  "User_lang = user_attr \<lparr>attr_get = u_lang, attr_set = (\<lambda>v x. x\<lparr>u_lang := v\<rparr>)\<rparr>"

definition User_notifications :: "(user, pyval) attribute" where
  "User_notifications = user_attr \<lparr>attr_get = u_notifications, attr_set = (\<lambda>v x. x\<lparr>u_notifications := v\<rparr>)\<rparr>"

definition User_contributors_enabled :: "(user, pyval) attribute" where
  "User_contributors_enabled = user_attr \<lparr>attr_get = u_contributors_enabled, attr_set = (\<lambda>v x. x\<lparr>u_contributors_enabled := v\<rparr>)\<rparr>"

definition User_created_at :: "(user, pyval) attribute" where
  "User_created_at = user_attr \<lparr>attr_get = u_created_at, attr_set = (\<lambda>v x. x\<lparr>u_created_at := v\<rparr>)\<rparr>"

definition User_status :: "(user, status option) attribute" where
  "User_status = \<lparr>attr_get = (\<lambda>x. case x of User d st \<Rightarrow> st), attr_set = (\<lambda>v x. case x of User d st \<Rightarrow> User d v)\<rparr>"

section \<open>List\<close>

definition List_id :: "(tlist, pyval) attribute" where
  "List_id = list_attr \<lparr>attr_get = l_id, attr_set = (\<lambda>v x. x\<lparr>l_id := v\<rparr>)\<rparr>"

definition List_name :: "(tlist, pyval) attribute" where
  "List_name = list_attr \<lparr>attr_get = l_name, attr_set = (\<lambda>v x. x\<lparr>l_name := v\<rparr>)\<rparr>"

definition List_slug :: "(tlist, pyval) attribute" where
  "List_slug = list_attr \<lparr>attr_get = l_slug, attr_set = (\<lambda>v x. x\<lparr>l_slug := v\<rparr>)\<rparr>"

definition List_description :: "(tlist, pyval) attribute" where
  "List_description = list_attr \<lparr>attr_get = l_description, attr_set = (\<lambda>v x. x\<lparr>l_description := v\<rparr>)\<rparr>"

definition List_full_name :: "(tlist, pyval) attribute" where
  "List_full_name = list_attr \<lparr>attr_get = l_full_name, attr_set = (\<lambda>v x. x\<lparr>l_full_name := v\<rparr>)\<rparr>"

definition List_mode :: "(tlist, pyval) attribute" where
  "List_mode = list_attr \<lparr>attr_get = l_mode, attr_set = (\<lambda>v x. x\<lparr>l_mode := v\<rparr>)\<rparr>"

definition List_uri :: "(tlist, pyval) attribute" where
  "List_uri = list_attr \<lparr>attr_get = l_uri, attr_set = (\<lambda>v x. x\<lparr>l_uri := v\<rparr>)\<rparr>"

definition List_member_count :: "(tlist, pyval) attribute" where
  "List_member_count = list_attr \<lparr>attr_get = l_member_count, attr_set = (\<lambda>v x. x\<lparr>l_member_count := v\<rparr>)\<rparr>"

definition List_subscriber_count :: "(tlist, pyval) attribute" where
  "List_subscriber_count = list_attr \<lparr>attr_get = l_subscriber_count, attr_set = (\<lambda>v x. x\<lparr>l_subscriber_count := v\<rparr>)\<rparr>"

definition List_following :: "(tlist, pyval) attribute" where
  "List_following = list_attr \<lparr>attr_get = l_following, attr_set = (\<lambda>v x. x\<lparr>l_following := v\<rparr>)\<rparr>"

definition List_user :: "(tlist, user option) attribute" where
  "List_user = \<lparr>attr_get = (\<lambda>x. case x of TList d u \<Rightarrow> u), attr_set = (\<lambda>v x. case x of TList d u \<Rightarrow> TList d v)\<rparr>"

section \<open>DirectMessage\<close>

definition DirectMessage_id :: "(direct_message, pyval) attribute" where
  "DirectMessage_id = \<lparr>attr_get = d_id, attr_set = (\<lambda>v x. x\<lparr>d_id := v\<rparr>)\<rparr>"

definition DirectMessage_created_at :: "(direct_message, pyval) attribute" where
  "DirectMessage_created_at = \<lparr>attr_get = d_created_at, attr_set = (\<lambda>v x. x\<lparr>d_created_at := v\<rparr>)\<rparr>"

definition DirectMessage_sender_id :: "(direct_message, pyval) attribute" where
  "DirectMessage_sender_id = \<lparr>attr_get = d_sender_id, attr_set = (\<lambda>v x. x\<lparr>d_sender_id := v\<rparr>)\<rparr>"

definition DirectMessage_sender_screen_name :: "(direct_message, pyval) attribute" where
  "DirectMessage_sender_screen_name = \<lparr>attr_get = d_sender_screen_name, attr_set = (\<lambda>v x. x\<lparr>d_sender_screen_name := v\<rparr>)\<rparr>"

definition DirectMessage_recipient_id :: "(direct_message, pyval) attribute" where
  "DirectMessage_recipient_id = \<lparr>attr_get = d_recipient_id, attr_set = (\<lambda>v x. x\<lparr>d_recipient_id := v\<rparr>)\<rparr>"

definition DirectMessage_recipient_screen_name :: "(direct_message, pyval) attribute" where
  "DirectMessage_recipient_screen_name = \<lparr>attr_get = d_recipient_screen_name, attr_set = (\<lambda>v x. x\<lparr>d_recipient_screen_name := v\<rparr>)\<rparr>"

definition DirectMessage_text :: "(direct_message, pyval) attribute" where
  "DirectMessage_text = \<lparr>attr_get = d_text, attr_set = (\<lambda>v x. x\<lparr>d_text := v\<rparr>)\<rparr>"

section \<open>Tables of the attributes\<close>

definition status_attributes :: "(string \<times> (status, pyval) attribute) list" where
  "status_attributes = [
    (''created_at'', Status_created_at), (''favorited'', Status_favorited), (''id'', Status_id),
    (''in_reply_to_screen_name'', Status_in_reply_to_screen_name),
    (''in_reply_to_user_id'', Status_in_reply_to_user_id),
    (''in_reply_to_status_id'', Status_in_reply_to_status_id), (''truncated'', Status_truncated),
    (''retweeted'', Status_retweeted), (''source'', Status_source), (''text'', Status_text),
    (''location'', Status_location), (''geo'', Status_geo), (''place'', Status_place),
    (''coordinates'', Status_coordinates), (''contributors'', Status_contributors),
    (''retweet_count'', Status_retweet_count)]"

definition user_attributes :: "(string \<times> (user, pyval) attribute) list" where
  "user_attributes = [
    (''id'', User_id), (''name'', User_name), (''screen_name'', User_screen_name),
    (''location'', User_location), (''description'', User_description), (''url'', User_url),
    (''profile_image_url'', User_profile_image_url),
    (''profile_background_tile'', User_profile_background_tile),
    (''profile_background_image_url'', User_profile_background_image_url),
    (''profile_sidebar_fill_color'', User_profile_sidebar_fill_color),
    (''profile_background_color'', User_profile_background_color),
    (''profile_link_color'', User_profile_link_color), (''profile_text_color'', User_profile_text_color),
    (''protected'', User_protected), (''utc_offset'', User_utc_offset), (''time_zone'', User_time_zone),
    (''friends_count'', User_friends_count), (''listed_count'', User_listed_count),
    (''followers_count'', User_followers_count), (''statuses_count'', User_statuses_count),
    (''favourites_count'', User_favourites_count), (''geo_enabled'', User_geo_enabled),
    (''verified'', User_verified), (''lang'', User_lang), (''notifications'', User_notifications),
    (''contributors_enabled'', User_contributors_enabled), (''created_at'', User_created_at)]"

definition list_attributes :: "(string \<times> (tlist, pyval) attribute) list" where
  "list_attributes = [
    (''id'', List_id), (''name'', List_name), (''slug'', List_slug), (''description'', List_description),
    (''full_name'', List_full_name), (''mode'', List_mode), (''uri'', List_uri),
    (''member_count'', List_member_count), (''subscriber_count'', List_subscriber_count),
    (''following'', List_following)]"

definition message_attributes :: "(string \<times> (direct_message, pyval) attribute) list" where
  "message_attributes = [
    (''id'', DirectMessage_id), (''created_at'', DirectMessage_created_at),
    (''sender_id'', DirectMessage_sender_id), (''sender_screen_name'', DirectMessage_sender_screen_name),
    (''recipient_id'', DirectMessage_recipient_id),
    (''recipient_screen_name'', DirectMessage_recipient_screen_name), (''text'', DirectMessage_text)]"

lemmas status_attribute_defs = Status_created_at_def Status_favorited_def Status_id_def
  Status_in_reply_to_screen_name_def Status_in_reply_to_user_id_def Status_in_reply_to_status_id_def
  Status_truncated_def Status_retweeted_def Status_source_def Status_text_def Status_location_def
  Status_geo_def Status_place_def Status_coordinates_def Status_contributors_def Status_retweet_count_def

lemmas user_attribute_defs = User_id_def User_name_def User_screen_name_def User_location_def
  User_description_def User_url_def User_profile_image_url_def User_profile_background_tile_def
  User_profile_background_image_url_def User_profile_sidebar_fill_color_def User_profile_background_color_def
  User_profile_link_color_def User_profile_text_color_def User_protected_def User_utc_offset_def
  User_time_zone_def User_friends_count_def User_listed_count_def User_followers_count_def
  User_statuses_count_def User_favourites_count_def User_geo_enabled_def User_verified_def User_lang_def
  User_notifications_def User_contributors_enabled_def User_created_at_def

lemmas list_attribute_defs = List_id_def List_name_def List_slug_def List_description_def List_full_name_def
  List_mode_def List_uri_def List_member_count_def List_subscriber_count_def List_following_def

lemmas message_attribute_defs = DirectMessage_id_def DirectMessage_created_at_def DirectMessage_sender_id_def
  DirectMessage_sender_screen_name_def DirectMessage_recipient_id_def DirectMessage_recipient_screen_name_def
  DirectMessage_text_def

section \<open>Reading and assigning\<close>

text \<open>Assigning to an attribute shows in that attribute only, of those in a table.\<close>

definition apart_in :: "(string \<times> ('o, pyval) attribute) list \<Rightarrow> string \<Rightarrow> ('o, pyval) attribute \<Rightarrow> bool" where
  "apart_in tab n a \<longleftrightarrow> list_all (\<lambda>(m, b). \<forall>v x. attr_get b (attr_set a v x) = (if n = m then v else attr_get b x)) tab"

definition separate :: "(string \<times> ('o, pyval) attribute) list \<Rightarrow> bool" where
  "separate tab \<longleftrightarrow> list_all (\<lambda>(n, a). apart_in tab n a) tab"

lemma separateD:
  "separate tab \<Longrightarrow> (n, a) \<in> set tab \<Longrightarrow> (m, b) \<in> set tab \<Longrightarrow> attr_get b (attr_set a v x) = (if n = m then v else attr_get b x)"
  unfolding separate_def apart_in_def list_all_iff by fastforce

lemma separate_if: "(\<And>n a. (n, a) \<in> set tab \<Longrightarrow> apart_in tab n a) \<Longrightarrow> separate tab"
  unfolding separate_def list_all_iff by blast

lemma message_separate: "separate message_attributes"
  by (rule separate_if, unfold message_attributes_def list.set insert_iff empty_iff prod.inject,
      elim disjE conjE FalseE; simp add: apart_in_def message_attribute_defs)

lemma list_separate: "separate list_attributes"
  by (rule separate_if, unfold list_attributes_def list.set insert_iff empty_iff prod.inject,
      elim disjE conjE FalseE; simp add: apart_in_def list_attribute_defs split: tlist.split)

lemma status_separate: "separate status_attributes"
  by (rule separate_if, unfold status_attributes_def list.set insert_iff empty_iff prod.inject,
      elim disjE conjE FalseE; simp add: apart_in_def status_attribute_defs split: status.split)

lemma user_separate: "separate user_attributes"
  by (rule separate_if, unfold user_attributes_def list.set insert_iff empty_iff prod.inject,
      elim disjE conjE FalseE; simp add: apart_in_def user_attribute_defs split: user.split)

interpretation status_user: attribute_laws Status_user
  by unfold_locales (simp_all add: Status_user_def split: status.split)

interpretation status_retweeted: attribute_laws Status_retweeted_status
  by unfold_locales (simp_all add: Status_retweeted_status_def split: status.split)

interpretation user_status: attribute_laws User_status
  by unfold_locales (simp_all add: User_status_def split: user.split)

interpretation list_user: attribute_laws List_user
  by unfold_locales (simp_all add: List_user_def split: tlist.split)

lemma status_laws: "(n, a) \<in> set status_attributes \<Longrightarrow> attribute_laws a"
  by (unfold status_attributes_def list.set insert_iff empty_iff prod.inject, elim disjE conjE FalseE; unfold_locales;
      simp add: status_attribute_defs split: status.split)

text \<open>The attributes that are assigned without a property.\<close>

definition set_urls :: "url_entity list option \<Rightarrow> status \<Rightarrow> status" where
  "set_urls v x = (case x of Status d u us ms hs rt \<Rightarrow> Status d u v ms hs rt)"

definition set_mentions :: "user list option \<Rightarrow> status \<Rightarrow> status" where
  "set_mentions v x = (case x of Status d u us ms hs rt \<Rightarrow> Status d u us v hs rt)"

definition set_hashtags :: "hashtag list option \<Rightarrow> status \<Rightarrow> status" where
  "set_hashtags v x = (case x of Status d u us ms hs rt \<Rightarrow> Status d u us ms v rt)"

definition set_now :: "pyval \<Rightarrow> status \<Rightarrow> status" where
  "set_now v x = (case x of Status d u us ms hs rt \<Rightarrow> Status (d\<lparr>s_now := v\<rparr>) u us ms hs rt)"

text \<open>\<open>__init__\<close> assigns its arguments one after the other to the new object.\<close>

definition status_init :: "status_data \<Rightarrow> user option \<Rightarrow> url_entity list option \<Rightarrow> user list option \<Rightarrow>
    hashtag list option \<Rightarrow> status option \<Rightarrow> status \<Rightarrow> status" where
  "status_init d u us ms hs rt = fold id
     [attr_set Status_created_at (s_created_at d), attr_set Status_favorited (s_favorited d), attr_set Status_id (s_id d),
      attr_set Status_text (s_text d), attr_set Status_location (s_location d), attr_set Status_user u, set_now (s_now d),
      attr_set Status_in_reply_to_screen_name (s_in_reply_to_screen_name d),
      attr_set Status_in_reply_to_user_id (s_in_reply_to_user_id d),
      attr_set Status_in_reply_to_status_id (s_in_reply_to_status_id d), attr_set Status_truncated (s_truncated d),
      attr_set Status_retweeted (s_retweeted d), attr_set Status_source (s_source d), set_urls us, set_mentions ms,
      set_hashtags hs, attr_set Status_geo (s_geo d), attr_set Status_place (s_place d),
      attr_set Status_coordinates (s_coordinates d), attr_set Status_contributors (s_contributors d),
      attr_set Status_retweeted_status rt, attr_set Status_retweet_count (s_retweet_count d)]"

lemma status_init: "status_init d u us ms hs rt x = Status d u us ms hs rt"
  by (cases x) (simp add: status_init_def status_attribute_defs Status_user_def Status_retweeted_status_def set_urls_def
    set_mentions_def set_hashtags_def set_now_def)

text \<open>the constructor's assignments, run on an object in any state, give the status with exactly the arguments. Then,
  assigning to an attribute and reading one: the attribute assigned to has the new value, every other keeps its own, the
  objects in the status stay as they are, and assigning the old value again gives the status back.\<close>

theorem status_attributes_separate:
  assumes "(n, a) \<in> set status_attributes" "(m, b) \<in> set status_attributes"
  shows "status_init d u us ms hs rt old = Status d u us ms hs rt
    \<and> attr_get b (attr_set a v x) = (if n = m then v else attr_get b x)
    \<and> attr_set a (attr_get a x) (attr_set a v x) = x"
  using separateD [OF status_separate assms] attribute_laws.put_back [OF status_laws [OF assms(1)]] by (simp add: status_init)

theorem status_attributes_separate_witness:
  "attr_get Status_id (attr_set Status_text (PStr ''hi'') (Status (status_fields PStr) None None None None None)) = PStr ''id''"
  using status_attributes_separate [of "''text''" Status_text "''id''" Status_id]
  by (simp add: status_attributes_def Status_id_def status_fields_def)

section \<open>The time of a status\<close>

definition created_at_in_seconds :: "status \<Rightarrow> int res" where
  "created_at_in_seconds x = date_seconds (attr_get Status_created_at x)"

definition message_created_at_in_seconds :: "direct_message \<Rightarrow> int res" where
  "message_created_at_in_seconds x = date_seconds (attr_get DirectMessage_created_at x)"

text \<open>\<open>GetNow\<close> on the object, and \<open>long\<close>.\<close>

definition GetNow :: "pyval \<Rightarrow> status \<Rightarrow> status \<times> pyval" where
  "GetNow clock x = (case x of Status d u us ms hs rt \<Rightarrow>
     (case get_now clock d of (d1, v) \<Rightarrow> (Status d1 u us ms hs rt, v)))"

definition py_long :: "pyval \<Rightarrow> int res" where
  "py_long v =
     (case v of
        PInt n \<Rightarrow> Inr n
      | PBool b \<Rightarrow> Inr (if b then 1 else 0)
      | PFloat r \<Rightarrow> Inr (if 0 \<le> r then \<lfloor>r\<rfloor> else \<lceil>r\<rceil>)
      | PStr s \<Rightarrow> parse_int s
      | _ \<Rightarrow> Inl (TypeError ''long() argument must be a string or a number''))"

definition relative_created_at :: "pyval \<Rightarrow> status \<Rightarrow> status \<times> string res" where
  "relative_created_at clock x =
     (case GetNow clock x of (x1, now) \<Rightarrow>
        (x1, rbind (py_long now) (\<lambda>n. rbind (created_at_in_seconds x1) (\<lambda>c. Inr (GetRelativeCreatedAt n c)))))"

lemma GetNow_keeps: "attr_get Status_created_at (fst (GetNow clock x)) = attr_get Status_created_at x"
  by (cases x) (simp add: GetNow_def get_now_def Status_created_at_def)

lemma GetNow_again: "clock \<noteq> PNone \<Longrightarrow> GetNow clock x = (x1, v) \<Longrightarrow> GetNow clock1 x1 = (x1, v)"
  by (cases x) (auto simp: GetNow_def get_now_def split: if_splits)

text \<open>the relative age of a status whose time is in Twitter's format is the age of that time at the clock reading; and
  it is the age at the first reading that every later one repeats, whatever the clock says then.\<close>

theorem relative_age_read:
  assumes "attr_get Status_created_at x = PStr (twitter_date day (y, m, d, h, mi, s))" "snd (GetNow (PFloat t) x) = PFloat t"
    and "str_lower day \<in> set day_names" "1 \<le> y" "y \<le> 9999" "1 \<le> m" "m \<le> 12" "0 \<le> d" "0 \<le> h" "0 \<le> mi" "0 \<le> s" "0 \<le> t"
  shows "\<exists>x1. relative_created_at (PFloat t) x =
      (x1, Inr (GetRelativeCreatedAt \<lfloor>t\<rfloor> (timegm_date y m d + 3600 * h + 60 * mi + s)))
    \<and> relative_created_at clock1 x1 = relative_created_at (PFloat t) x"
proof -
  obtain x1 where x1: "GetNow (PFloat t) x = (x1, PFloat t)" using assms(2) by (metis prod.collapse)
  have "twitter_date day (y, m, d, h, mi, s) \<noteq> []" by (simp add: twitter_date_def)
  then have "date_seconds (PStr (twitter_date day (y, m, d, h, mi, s))) = timegm (Some (y, m, d, h, mi, s))"
    using twitter_date_read assms by (simp add: date_seconds_def)
  then have "created_at_in_seconds x1 = Inr (timegm_date y m d + 3600 * h + 60 * mi + s)"
    using GetNow_keeps [of "PFloat t" x] x1 assms(1,4,5)
    by (simp add: created_at_in_seconds_def timegm_def timegm_date_def to_ordinal_def)
  then show ?thesis
    using assms(12) x1 GetNow_again [OF _ x1, of clock1] by (simp add: relative_created_at_def py_long_def)
qed

definition a_status :: status where
  "a_status = Status (status_fields (\<lambda>k. if k = ''created_at'' then PStr (twitter_date ''Sat'' (2007, 1, 27, 4, 17, 38)) else PNone))
     None None None None None"

theorem relative_age_read_witness:
  "\<exists>x1. relative_created_at (PFloat 1169871500) a_status =
      (x1, Inr (GetRelativeCreatedAt \<lfloor>1169871500 :: rat\<rfloor> (timegm_date 2007 1 27 + 3600 * 4 + 60 * 17 + 38)))
    \<and> relative_created_at (PInt 0) x1 = relative_created_at (PFloat 1169871500) a_status"
proof -
  have "str_lower ''Sat'' \<in> set day_names" by code_simp
  then show ?thesis
    by (intro relative_age_read) (simp_all add: a_status_def Status_created_at_def GetNow_def get_now_def status_fields_def)
qed

end
