(* ===== verification/Twython.thy ===== *)
theory Twython
  imports PyValue Iri OAuth2 Json
begin

text \<open>
  The Twitter client of the checker (\<open>socialnet/twython/twython/twython.py\<close> and \<open>twitter_endpoints.py\<close>):
  values and how they are printed, the table of endpoints with the names in braces, the object with its HTTP
  client and its headers, the calls of the table and the exchange of OAuth tokens. Requests go through
  \<open>oauth2.Client.request\<close> (\<open>client_request\<close> of \<open>OAuth2\<close>) or directly to \<open>httplib2.Http.request\<close>, whose answers
  are those of the environment.
\<close>

section \<open>Values\<close>

text \<open>A keyword argument: a byte string, or another value, whose texts are unicode.\<close>

datatype tw_arg = Raw string | Val pyval

type_synonym kwargs = "(string \<times> tw_arg) list"

type_synonym text_dict = "(string \<times> string) list"

definition tw_truthy :: "tw_arg \<Rightarrow> bool" where
  "tw_truthy a = (case a of Raw s \<Rightarrow> s \<noteq> [] | Val v \<Rightarrow> truthy v)"

text \<open>\<open>repr\<close>: an integer beyond 64 bits is a long one and says so. \<open>fr\<close> writes the floats.\<close>

definition repr_int :: "int \<Rightarrow> string" where
  "repr_int i = (if - (2 ^ 63) \<le> i \<and> i < 2 ^ 63 then show_int i else show_int i @ ''L'')"

fun repr_val :: "(rat \<Rightarrow> string) \<Rightarrow> pyval \<Rightarrow> string" where
  "repr_val fr PNone = ''None''"
| "repr_val fr (PBool b) = (if b then ''True'' else ''False'')"
| "repr_val fr (PInt i) = repr_int i"
| "repr_val fr (PFloat r) = fr r"
| "repr_val fr (PStr s) = py_repr s"
| "repr_val fr (PList xs) = ''['' @ str_join '', '' (map (repr_val fr) xs) @ '']''"
| "repr_val fr (PDict d) = ''{'' @ str_join '', '' (map (\<lambda>(k, v). repr_val fr k @ '': '' @ repr_val fr v) d) @ ''}''"

definition repr_arg :: "(rat \<Rightarrow> string) \<Rightarrow> tw_arg \<Rightarrow> string" where
  "repr_arg fr a = (case a of Raw s \<Rightarrow> tl (py_repr s) | Val v \<Rightarrow> repr_val fr v)"

text \<open>What \<open>%s\<close> writes: a unicode text stays one, everything else becomes a byte string.\<close>

definition show_arg :: "(rat \<Rightarrow> string) \<Rightarrow> tw_arg \<Rightarrow> py_text" where
  "show_arg fr a =
     (case a of Raw s \<Rightarrow> Bytes s | Val (PStr s) \<Rightarrow> Uni s | Val (PInt i) \<Rightarrow> Bytes (show_int i) | Val v \<Rightarrow> Bytes (repr_val fr v))"

text \<open>\<open>unicode2utf8\<close> changes unicode texts only; \<open>encode\<close> writes the other values with \<open>str\<close>.\<close>

definition unicode2utf8 :: "tw_arg \<Rightarrow> tw_arg" where
  "unicode2utf8 a = (case a of Val (PStr s) \<Rightarrow> Raw (utf8 s) | _ \<Rightarrow> a)"

definition encode :: "(rat \<Rightarrow> string) \<Rightarrow> tw_arg \<Rightarrow> string" where
  "encode fr a = text_bytes (show_arg fr a)"

text \<open>\<open>urllib.quote_plus\<close>: a value that is not a text fails in the test for blanks, an empty list or dictionary does not.\<close>

definition quote_plus_arg :: "tw_arg \<Rightarrow> string res" where
  "quote_plus_arg a =
     (case unicode2utf8 a of
        Raw s \<Rightarrow> Inr (quote_plus s)
      | Val (PList xs) \<Rightarrow> if xs = [] then Inr ''[]'' else Inl (AttributeError ''rstrip'')
      | Val (PDict d) \<Rightarrow> if d = [] then Inr ''{}'' else Inl (AttributeError ''rstrip'')
      | Val v \<Rightarrow> Inl (TypeError ''argument is not iterable''))"

definition constructApiURL :: "py_text \<Rightarrow> kwargs \<Rightarrow> py_text res" where
  "constructApiURL base ps =
     rbind (rmap (\<lambda>(k, v). rbind (quote_plus_arg v) (\<lambda>q. Inr (k @ ''='' @ q))) ps) (\<lambda>qs.
       joined [base, Bytes ''?'', Bytes (str_join ''&'' qs)])"

section \<open>Errors\<close>

text \<open>The constructor of \<open>TwythonError\<close> raises \<open>APILimit\<close> itself when the code is 400.\<close>

definition twython_error :: "string \<Rightarrow> int option \<Rightarrow> exc" where
  "twython_error msg code = (if code = Some 400 then APILimit msg else TwythonError msg)"

definition failed_with :: "string \<Rightarrow> int \<Rightarrow> string" where
  "failed_with name code = name @ ''() failed with a '' @ show_int code @ '' error code.''"

text \<open>\<open>except HTTPError, e\<close>.\<close>

definition on_http_error :: "(int \<Rightarrow> exc) \<Rightarrow> 'a res \<Rightarrow> 'a res" where
  "on_http_error f r = (case r of Inl (HTTPError code) \<Rightarrow> Inl (f code) | _ \<Rightarrow> r)"

section \<open>The table of endpoints\<close>

type_synonym api_entries = "(string \<times> string \<times> string) list"

definition base_url :: string where
  "base_url = ''http://api.twitter.com/{{version}}''"

text \<open>The account, timelines, friends and retweets.\<close>

definition account_calls :: api_entries where
  "account_calls =
     [(''getRateLimitStatus'', ''/account/rate_limit_status.json'', ''GET''),
      (''verifyCredentials'', ''/account/verify_credentials.json'', ''GET''),
      (''endSession'', ''/account/end_session.json'', ''POST''),
      (''getPublicTimeline'', ''/statuses/public_timeline.json'', ''GET''),
      (''getHomeTimeline'', ''/statuses/home_timeline.json'', ''GET''),
      (''getUserTimeline'', ''/statuses/user_timeline.json'', ''GET''),
      (''getFriendsTimeline'', ''/statuses/friends_timeline.json'', ''GET''),
      (''getUserMentions'', ''/statuses/mentions.json'', ''GET''),
      (''getFriendsStatus'', ''/statuses/friends.json'', ''GET''),
      (''getFollowersStatus'', ''/statuses/followers.json'', ''GET''),
      (''createFriendship'', ''/friendships/create.json'', ''POST''),
      (''destroyFriendship'', ''/friendships/destroy.json'', ''POST''),
      (''getFriendsIDs'', ''/friends/ids.json'', ''GET''),
      (''getFollowersIDs'', ''/followers/ids.json'', ''GET''),
      (''getIncomingFriendshipIDs'', ''/friendships/incoming.json'', ''GET''),
      (''getOutgoingFriendshipIDs'', ''/friendships/outgoing.json'', ''GET''),
      (''reTweet'', ''/statuses/retweet/{{id}}.json'', ''POST''),
      (''getRetweets'', ''/statuses/retweets/{{id}}.json'', ''GET''),
      (''retweetedOfMe'', ''/statuses/retweets_of_me.json'', ''GET''),
      (''retweetedByMe'', ''/statuses/retweeted_by_me.json'', ''GET''),
      (''retweetedToMe'', ''/statuses/retweeted_to_me.json'', ''GET'')]"

text \<open>Users, statuses, direct messages, friendships, profiles, favorites and blocks.\<close>

definition status_calls :: api_entries where
  "status_calls =
     [(''showUser'', ''/users/show.json'', ''GET''),
      (''searchUsers'', ''/users/search.json'', ''GET''),
      (''lookupUser'', ''/users/lookup.json'', ''GET''),
      (''showStatus'', ''/statuses/show/{{id}}.json'', ''GET''),
      (''updateStatus'', ''/statuses/update.json'', ''POST''),
      (''destroyStatus'', ''/statuses/destroy/{{id}}.json'', ''POST''),
      (''getDirectMessages'', ''/direct_messages.json'', ''GET''),
      (''getSentMessages'', ''/direct_messages/sent.json'', ''GET''),
      (''sendDirectMessage'', ''/direct_messages/new.json'', ''POST''),
      (''destroyDirectMessage'', ''/direct_messages/destroy/{{id}}.json'', ''POST''),
      (''checkIfFriendshipExists'', ''/friendships/exists.json'', ''GET''),
      (''showFriendship'', ''/friendships/show.json'', ''GET''),
      (''updateProfile'', ''/account/update_profile.json'', ''POST''),
      (''updateProfileColors'', ''/account/update_profile_colors.json'', ''POST''),
      (''getFavorites'', ''/favorites.json'', ''GET''),
      (''createFavorite'', ''/favorites/create/{{id}}.json'', ''POST''),
      (''destroyFavorite'', ''/favorites/destroy/{{id}}.json'', ''POST''),
      (''createBlock'', ''/blocks/create/{{id}}.json'', ''POST''),
      (''destroyBlock'', ''/blocks/destroy/{{id}}.json'', ''POST''),
      (''getBlocking'', ''/blocks/blocking.json'', ''GET''),
      (''getBlockedIDs'', ''/blocks/blocking/ids.json'', ''GET''),
      (''checkIfBlockExists'', ''/blocks/exists.json'', ''GET'')]"

text \<open>Trends, saved searches, lists and the rest.\<close>

definition list_calls :: api_entries where
  "list_calls =
     [(''getCurrentTrends'', ''/trends/current.json'', ''GET''),
      (''getDailyTrends'', ''/trends/daily.json'', ''GET''),
      (''getWeeklyTrends'', ''/trends/weekly.json'', ''GET''),
      (''availableTrends'', ''/trends/available.json'', ''GET''),
      (''trendsByLocation'', ''/trends/{{woeid}}.json'', ''GET''),
      (''getSavedSearches'', ''/saved_searches.json'', ''GET''),
      (''showSavedSearch'', ''/saved_searches/show/{{id}}.json'', ''GET''),
      (''createSavedSearch'', ''/saved_searches/create.json'', ''GET''),
      (''destroySavedSearch'', ''/saved_searches/destroy/{{id}}.json'', ''GET''),
      (''createList'', ''/{{username}}/lists.json'', ''POST''),
      (''updateList'', ''/{{username}}/lists/{{list_id}}.json'', ''POST''),
      (''showLists'', ''/{{username}}/lists.json'', ''GET''),
      (''getListMemberships'', ''/{{username}}/lists/memberships.json'', ''GET''),
      (''getListSubscriptions'', ''/{{username}}/lists/subscriptions.json'', ''GET''),
      (''deleteList'', ''/{{username}}/lists/{{list_id}}.json'', ''DELETE''),
      (''getListTimeline'', ''/{{username}}/lists/{{list_id}}/statuses.json'', ''GET''),
      (''getSpecificList'', ''/{{username}}/lists/{{list_id}}/statuses.json'', ''GET''),
      (''addListMember'', ''/{{username}}/{{list_id}}/members.json'', ''POST''),
      (''getListMembers'', ''/{{username}}/{{list_id}}/members.json'', ''GET''),
      (''deleteListMember'', ''/{{username}}/{{list_id}}/members.json'', ''DELETE''),
      (''getListSubscribers'', ''/{{username}}/{{list_id}}/subscribers.json'', ''GET''),
      (''subscribeToList'', ''/{{username}}/{{list_id}}/subscribers.json'', ''POST''),
      (''unsubscribeFromList'', ''/{{username}}/{{list_id}}/subscribers.json'', ''DELETE''),
      (''notificationFollow'', ''/notifications/follow/follow.json'', ''POST''),
      (''notificationLeave'', ''/notifications/leave/leave.json'', ''POST''),
      (''updateDeliveryService'', ''/account/update_delivery_device.json'', ''POST''),
      (''reportSpam'', ''/report_spam.json'', ''POST'')]"

definition api_table :: api_entries where
  "api_table = account_calls @ status_calls @ list_calls"

text \<open>A name in double braces at the start of a text, with what follows.\<close>

definition name_char :: "char \<Rightarrow> bool" where
  "name_char c = (let n = of_char c :: nat in (97 \<le> n \<and> n \<le> 122) \<or> (65 \<le> n \<and> n \<le> 90) \<or> n = 95)"

definition mustache :: "string \<Rightarrow> (string \<times> string) option" where
  "mustache s =
     (if starts_with s ''{{'' then
        (let m = takeWhile name_char (drop 2 s); r = dropWhile name_char (drop 2 s) in
         if m \<noteq> [] \<and> starts_with r ''}}'' then Some (m, drop 2 r) else None)
      else None)"

lemma mustache_shorter: "mustache s = Some (m, r) \<Longrightarrow> length r < length s"
proof -
  assume "mustache s = Some (m, r)"
  then have "s \<noteq> []" "r = drop 2 (dropWhile name_char (drop 2 s))"
    by (auto simp: mustache_def Let_def split: if_splits)
  moreover have "length (dropWhile name_char (drop 2 s)) \<le> length (drop 2 s)" by (rule length_dropWhile_le)
  ultimately show ?thesis by (cases s) auto
qed

text \<open>\<open>re.sub\<close> with a function: the parts of the result, from left to right.\<close>

function fill :: "(string \<Rightarrow> py_text) \<Rightarrow> string \<Rightarrow> py_text list" where
  "fill value [] = []"
| "fill value (c # s) =
     (case mustache (c # s) of
        Some (m, r) \<Rightarrow> value m # fill value r
      | None \<Rightarrow> Bytes [c] # fill value s)"
  by pat_completeness auto
termination
  by (relation "measure (length \<circ> snd)") (auto dest: mustache_shorter)

text \<open>The value of a name; the version, and every other name that is missing, is 1.\<close>

definition mustache_value :: "(rat \<Rightarrow> string) \<Rightarrow> kwargs \<Rightarrow> string \<Rightarrow> py_text" where
  "mustache_value fr kw m = (case map_of kw m of Some v \<Rightarrow> show_arg fr v | None \<Rightarrow> Bytes ''1'')"

definition endpoint_url :: "(rat \<Rightarrow> string) \<Rightarrow> kwargs \<Rightarrow> string \<Rightarrow> py_text res" where
  "endpoint_url fr kw u = joined (fill (mustache_value fr kw) (base_url @ u))"

text \<open>The query of a call that does not post: nothing is quoted.\<close>

fun query_parts :: "(rat \<Rightarrow> string) \<Rightarrow> kwargs \<Rightarrow> py_text list" where
  "query_parts fr [] = []"
| "query_parts fr [(k, v)] = [Bytes k, Bytes ''='', show_arg fr v]"
| "query_parts fr ((k, v) # ps) = Bytes k # Bytes ''='' # show_arg fr v # Bytes ''&'' # query_parts fr ps"

section \<open>The client\<close>

datatype tw_client = Signed consumer "token option" | Plain

record twython =
  tw_callback :: "string option"
  tw_headers :: text_dict
  tw_client :: tw_client

definition REQUEST_TOKEN_URL :: string where "REQUEST_TOKEN_URL = ''http://twitter.com/oauth/request_token''"
definition ACCESS_TOKEN_URL :: string where "ACCESS_TOKEN_URL = ''http://twitter.com/oauth/access_token''"
definition AUTHENTICATE_URL :: string where "AUTHENTICATE_URL = ''http://twitter.com/oauth/authenticate''"

text \<open>\<open>__init__\<close>: a consumer or a token needs both of its halves. The arguments of the HTTP client are left out.\<close>

definition new_twython ::
    "string option \<Rightarrow> string option \<Rightarrow> string option \<Rightarrow> string option \<Rightarrow> text_dict option \<Rightarrow> string option \<Rightarrow> twython res" where
  "new_twython twitter_token twitter_secret oauth_token oauth_secret headers callback_url =
     rbind (if twitter_token \<noteq> None \<and> twitter_secret \<noteq> None
            then rbind (new_consumer twitter_token twitter_secret) (\<lambda>c. Inr (Some c)) else Inr None) (\<lambda>consumer.
     rbind (if oauth_token \<noteq> None \<and> oauth_secret \<noteq> None
            then rbind (new_token oauth_token oauth_secret) (\<lambda>t. Inr (Some t)) else Inr None) (\<lambda>tok.
     Inr \<lparr>tw_callback = callback_url,
          tw_headers = (case headers of None \<Rightarrow> [(''User-agent'', ''Twython Python Twitter Library v1.3'')] | Some hs \<Rightarrow> hs),
          tw_client = (case consumer of None \<Rightarrow> Plain | Some c \<Rightarrow> Signed c tok)\<rparr>))"

text \<open>What \<open>httplib2\<close> is asked, after its conversion of the URI, and what it answers.\<close>

record http_ask =
  ask_uri :: string
  ask_method :: string
  ask_body :: "string option"
  ask_headers :: text_dict

record reply =
  rp_status :: int
  rp_headers :: text_dict
  rp_content :: string

text \<open>The environment: clock and random numbers, \<open>httplib2\<close> with and without following redirects,
  \<open>urllib2.urlopen\<close>, the files, the boundary of \<open>mimetools\<close>, the guess of \<open>mimetypes\<close>, the IDNA codec, floats.\<close>

record 'w twython_env =
  ty_now :: "'w \<Rightarrow> int"
  ty_nonce :: "'w \<Rightarrow> nat"
  ty_http :: "http_ask \<Rightarrow> 'w \<Rightarrow> 'w \<times> reply res"
  ty_http_stay :: "http_ask \<Rightarrow> 'w \<Rightarrow> 'w \<times> reply res"
  ty_urlopen :: "py_text \<Rightarrow> py_text option \<Rightarrow> text_dict \<Rightarrow> 'w \<Rightarrow> 'w \<times> string res"
  ty_read_file :: "py_text \<Rightarrow> 'w \<Rightarrow> 'w \<times> string res"
  ty_boundary :: "'w \<Rightarrow> 'w \<times> string"
  ty_mime :: "string \<Rightarrow> string option"
  ty_idna :: "string \<Rightarrow> string res"
  ty_float :: "rat \<Rightarrow> string"

definition http_send ::
    "'w twython_env \<Rightarrow> (http_ask \<Rightarrow> 'w \<Rightarrow> 'w \<times> reply res) \<Rightarrow> py_text \<Rightarrow> string \<Rightarrow> string option \<Rightarrow> text_dict \<Rightarrow>
     'w \<Rightarrow> 'w \<times> reply res" where
  "http_send env http url meth body hs w =
     (case iri2uri (ty_idna env) url of
        Inl e \<Rightarrow> (w, Inl e)
      | Inr u \<Rightarrow> http \<lparr>ask_uri = raw u, ask_method = meth, ask_body = body, ask_headers = hs\<rparr> w)"

text \<open>The OAuth library writes the type of a posted body into the dictionary of headers it was given.\<close>

definition content_typed :: "string \<Rightarrow> text_dict \<Rightarrow> text_dict" where
  "content_typed meth hs =
     (if meth = ''POST'' \<and> map_of hs ''Content-Type'' = None then AList.update ''Content-Type'' FORM_TYPE hs else hs)"

definition url_text :: "py_text \<Rightarrow> string res" where
  "url_text u = (case u of Uni s \<Rightarrow> Inr s | Bytes b \<Rightarrow> to_unicode b)"

text \<open>\<open>client.request\<close>: the answer and the headers as they are afterwards. What \<open>client_request\<close> adds to the
  headers stays in the dictionary it was given.\<close>

definition client_send ::
    "'w twython_env \<Rightarrow> tw_client \<Rightarrow> py_text \<Rightarrow> string \<Rightarrow> string option \<Rightarrow> text_dict \<Rightarrow> 'w \<Rightarrow> ('w \<times> text_dict) \<times> reply res" where
  "client_send env cl url meth body hs w =
     (case cl of
        Plain \<Rightarrow> (case http_send env (ty_http env) url meth body hs w of (w1, r) \<Rightarrow> ((w1, hs), r))
      | Signed c t \<Rightarrow>
          (case rbind (url_text url) (\<lambda>u. rbind (client_request (ty_now env w) (ty_nonce env w) HMAC_SHA1 c t u meth
                  (case body of None \<Rightarrow> [] | Some b \<Rightarrow> b) hs) (\<lambda>call. Inr (u, call))) of
             Inl e \<Rightarrow> ((w, content_typed meth hs), Inl e)
           | Inr (u, call) \<Rightarrow>
               (case http_send env (ty_http env) (if h_uri call = u then url else Uni (h_uri call)) meth
                       (Some (h_body call)) (h_headers call) w of
                  (w1, r) \<Rightarrow> ((w1, h_headers call), r))))"

text \<open>Most requests pass \<open>self.headers\<close>, the dictionary of the object itself.\<close>

definition tw_request ::
    "'w twython_env \<Rightarrow> py_text \<Rightarrow> string \<Rightarrow> string option \<Rightarrow> 'w \<times> twython \<Rightarrow> ('w \<times> twython) \<times> reply res" where
  "tw_request env url meth body st =
     (case client_send env (tw_client (snd st)) url meth body (tw_headers (snd st)) (fst st) of
        ((w1, hs), r) \<Rightarrow> ((w1, (snd st)\<lparr>tw_headers := hs\<rparr>), r))"

definition json_content :: "reply \<Rightarrow> pyval res" where
  "json_content r =
     (case utf8_decode (rp_content r) of
        None \<Rightarrow> Inl (ValueError ''utf8 codec cannot decode'')
      | Some t \<Rightarrow> json_loads t)"

section \<open>The calls of the table\<close>

definition table_request ::
    "'w twython_env \<Rightarrow> string \<Rightarrow> string \<Rightarrow> kwargs \<Rightarrow> 'w \<times> twython \<Rightarrow> ('w \<times> twython) \<times> reply res" where
  "table_request env u meth kw st =
     (case endpoint_url (ty_float env) kw u of
        Inl e \<Rightarrow> (st, Inl e)
      | Inr base \<Rightarrow>
          if meth = ''POST'' then
            tw_request env base meth (Some (urlencode (map (\<lambda>(k, v). (k, encode (ty_float env) v)) kw))) st
          else
            (case joined (base # Bytes ''?'' # query_parts (ty_float env) kw) of
               Inl e \<Rightarrow> (st, Inl e)
             | Inr url \<Rightarrow> tw_request env url meth None st))"

text \<open>\<open>__getattr__\<close>, and the function it gives.\<close>

definition table_call ::
    "'w twython_env \<Rightarrow> string \<Rightarrow> kwargs \<Rightarrow> 'w \<times> twython \<Rightarrow> ('w \<times> twython) \<times> pyval res" where
  "table_call env api_call kw st =
     (case map_of api_table api_call of
        None \<Rightarrow> (st, Inl (twython_error api_call None))
      | Some (u, meth) \<Rightarrow> (case table_request env u meth kw st of (st1, r) \<Rightarrow> (st1, rbind r json_content)))"

section \<open>OAuth tokens\<close>

text \<open>The OAuth library of the repository is version 1.5: the callback goes into the URL, its client does not take one.\<close>

definition OAUTH_CALLBACK_IN_URL :: bool where "OAUTH_CALLBACK_IN_URL = True"
definition OAUTH_LIB_SUPPORTS_CALLBACK :: bool where "OAUTH_LIB_SUPPORTS_CALLBACK = False"

definition last_values :: "(string \<times> string) list \<Rightarrow> text_dict" where
  "last_values ps = dict_update [] ps"

definition authentication_url :: "string \<Rightarrow> text_dict \<Rightarrow> string res" where
  "authentication_url callback_url tokens =
     (let confirmed = (map_of tokens ''oauth_callback_confirmed'' = Some ''true'');
          confirmed1 = (if \<not> OAUTH_LIB_SUPPORTS_CALLBACK \<and> callback_url \<noteq> ''oob'' \<and> confirmed then False else confirmed)
      in case map_of tokens ''oauth_token'' of
           None \<Rightarrow> Inl (KeyError ''oauth_token'')
         | Some t \<Rightarrow> Inr (AUTHENTICATE_URL @ ''?'' @ urlencode ((''oauth_token'', t) #
             (if OAUTH_CALLBACK_IN_URL \<or> (callback_url \<noteq> ''oob'' \<and> \<not> confirmed1) then [(''oauth_callback'', callback_url)] else []))))"

text \<open>Here no headers are passed: the dictionary that is filled is a fresh one.\<close>

definition get_authentication_tokens :: "'w twython_env \<Rightarrow> 'w \<times> twython \<Rightarrow> ('w \<times> twython) \<times> text_dict res" where
  "get_authentication_tokens env st =
     (case client_send env (tw_client (snd st)) (Bytes REQUEST_TOKEN_URL) ''GET'' None [] (fst st) of
        ((w1, hs), Inl e) \<Rightarrow> ((w1, snd st), Inl e)
      | ((w1, hs), Inr r) \<Rightarrow> ((w1, snd st),
          if rp_status r \<noteq> 200 then
            Inl (AuthError (''Seems something couldn'' @ [CHR 0x27] @ ''t be verified with your OAuth junk. Error: '' @
              show_int (rp_status r) @ '', Message: '' @ rp_content r))
          else
            let tokens = last_values (parse_qsl False (rp_content r));
                callback_url = (case tw_callback (snd st) of None \<Rightarrow> ''oob'' | Some c \<Rightarrow> if c = [] then ''oob'' else c)
            in rbind (authentication_url callback_url tokens) (\<lambda>u. Inr (AList.update ''auth_url'' u tokens))))"

definition get_authorized_tokens :: "'w twython_env \<Rightarrow> 'w \<times> twython \<Rightarrow> ('w \<times> twython) \<times> text_dict res" where
  "get_authorized_tokens env st =
     (case client_send env (tw_client (snd st)) (Bytes ACCESS_TOKEN_URL) ''GET'' None [] (fst st) of
        ((w1, hs), r) \<Rightarrow> ((w1, snd st), rbind r (\<lambda>a. Inr (last_values (parse_qsl False (rp_content a))))))"

end
