(* ===== verification/TwitterChecker.thy ===== *)
theory TwitterChecker
  imports Twython
begin

text \<open>
  The friendship queries of \<open>socialnet/twitterChecker.py\<close>, on the client of \<open>Twython\<close>: each method makes a
  client of its own, without credentials, asks one or two calls of the table, writes log lines and takes its
  answer from the JSON. The terminal that the log lines go to is left out, their formatting is not: it fails
  where a unicode text meets a byte string that is not ASCII.
\<close>

section \<open>Values\<close>

fun py_at0 :: "pyval \<Rightarrow> pyval res" where
  "py_at0 (PList []) = Inl IndexError"
| "py_at0 (PList (x # xs)) = Inr x"
| "py_at0 (PStr []) = Inl IndexError"
| "py_at0 (PStr (c # s)) = Inr (PStr [c])"
| "py_at0 (PDict d) = (case pd_get d (PInt 0) of None \<Rightarrow> Inl (KeyError ''0'') | Some v \<Rightarrow> Inr v)"
| "py_at0 _ = Inl (TypeError ''object is unsubscriptable'')"

definition user_field :: "pyval \<Rightarrow> string \<Rightarrow> pyval res" where
  "user_field userData key = rbind (py_at0 userData) (\<lambda>u. py_item u key)"

text \<open>A set built from an iterable needs hashable elements and keeps one of each equal group.\<close>

fun uniq :: "pyval list \<Rightarrow> pyval list" where
  "uniq [] = []"
| "uniq (x # xs) = x # filter (\<lambda>y. \<not> py_eq x y) (uniq xs)"

definition py_set :: "pyval \<Rightarrow> pyval list res" where
  "py_set v = rbind (py_iter v) (\<lambda>xs.
     if list_all hashable xs then Inr (uniq xs) else Inl (TypeError ''unhashable type''))"

section \<open>Lookups\<close>

text \<open>\<open>twitter = Twython()\<close>, and what is done with it.\<close>

definition with_twython ::
    "('w \<times> twython \<Rightarrow> ('w \<times> twython) \<times> 'a res) \<Rightarrow> 'w \<Rightarrow> 'w \<times> 'a res" where
  "with_twython act w =
     (case new_twython None None None None None None of
        Inl e \<Rightarrow> (w, Inl e)
      | Inr tw \<Rightarrow> (case act (w, tw) of ((w1, tw1), r) \<Rightarrow> (w1, r)))"

text \<open>One call, a log line made from its answer, and the field that is returned.\<close>

definition lookup_user ::
    "'w twython_env \<Rightarrow> string \<times> tw_arg \<Rightarrow> (pyval \<Rightarrow> py_text list res) \<Rightarrow> string \<Rightarrow> 'w \<Rightarrow> 'w \<times> pyval res" where
  "lookup_user env arg line field =
     with_twython (\<lambda>st. case table_call env ''lookupUser'' [arg] st of
       (st1, r) \<Rightarrow> (st1, rbind r (\<lambda>userData. rbind (line userData) (\<lambda>ps. rbind (joined ps) (\<lambda>t. user_field userData field)))))"

definition getScreenNameFromUserId :: "'w twython_env \<Rightarrow> tw_arg \<Rightarrow> 'w \<Rightarrow> 'w \<times> pyval res" where
  "getScreenNameFromUserId env userId =
     (let fr = ty_float env in
      lookup_user env (''user_id'', userId) (\<lambda>d. rbind (user_field d ''screen_name'') (\<lambda>n.
        Inr [Bytes ''Screen Name '', show_arg fr (Val n), Bytes '' for userId '', show_arg fr userId])) ''screen_name'')"

definition getUserIdFromScreenName :: "'w twython_env \<Rightarrow> tw_arg \<Rightarrow> 'w \<Rightarrow> 'w \<times> pyval res" where
  "getUserIdFromScreenName env screenName =
     (let fr = ty_float env in
      lookup_user env (''screen_name'', screenName) (\<lambda>d. rbind (user_field d ''id'') (\<lambda>n.
        Inr [Bytes ''User ID '', show_arg fr (Val n), Bytes '' for user '', show_arg fr screenName])) ''id'')"

definition getUserName :: "'w twython_env \<Rightarrow> tw_arg \<Rightarrow> 'w \<Rightarrow> 'w \<times> pyval res" where
  "getUserName env userId =
     (let fr = ty_float env in
      lookup_user env (''user_id'', userId) (\<lambda>d. rbind (user_field d ''screen_name'') (\<lambda>s. rbind (user_field d ''name'') (\<lambda>n.
        Inr [Bytes ''Real name for '', show_arg fr userId, Bytes '' (aka '', show_arg fr (Val s), Bytes '') is '', show_arg fr (Val n)])))
        ''name'')"

definition location_line :: "(rat \<Rightarrow> string) \<Rightarrow> tw_arg \<Rightarrow> pyval \<Rightarrow> py_text list res" where
  "location_line fr who d = rbind (user_field d ''location'') (\<lambda>n.
     Inr [Bytes ''Location for '', show_arg fr who, Bytes '' -> '', show_arg fr (Val n)])"

definition getUserLocationFromId :: "'w twython_env \<Rightarrow> tw_arg \<Rightarrow> 'w \<Rightarrow> 'w \<times> pyval res" where
  "getUserLocationFromId env userId =
     lookup_user env (''user_id'', userId) (location_line (ty_float env) userId) ''location''"

definition getUserLocationFromScreenName :: "'w twython_env \<Rightarrow> tw_arg \<Rightarrow> 'w \<Rightarrow> 'w \<times> pyval res" where
  "getUserLocationFromScreenName env screenName =
     lookup_user env (''screen_name'', screenName) (location_line (ty_float env) screenName) ''location''"

section \<open>Friendship\<close>

text \<open>Two calls of the table, one after the other, on the same client.\<close>

definition two_calls ::
    "'w twython_env \<Rightarrow> string \<times> kwargs \<Rightarrow> string \<times> kwargs \<Rightarrow> (pyval \<Rightarrow> pyval \<Rightarrow> 'a res) \<Rightarrow> 'w \<Rightarrow> 'w \<times> 'a res" where
  "two_calls env call1 call2 result =
     with_twython (\<lambda>st. case table_call env (fst call1) (snd call1) st of
       (st1, Inl e) \<Rightarrow> (st1, Inl e)
     | (st1, Inr v1) \<Rightarrow> (case table_call env (fst call2) (snd call2) st1 of
         (st2, r) \<Rightarrow> (st2, rbind r (result v1))))"

definition both_true :: "(rat \<Rightarrow> string) \<Rightarrow> tw_arg \<Rightarrow> tw_arg \<Rightarrow> pyval \<Rightarrow> pyval \<Rightarrow> bool res" where
  "both_true fr a b existsAB existsBA =
     (let friendship = (py_eq existsAB (PBool True) \<and> py_eq existsBA (PBool True)) in
      rbind (joined [Bytes ''AB : '', show_arg fr (Val existsAB)]) (\<lambda>l1.
      rbind (joined [Bytes ''BA : '', show_arg fr (Val existsBA)]) (\<lambda>l2.
      rbind (joined [Bytes ''friendship between ('', show_arg fr a, Bytes '', '', show_arg fr b, Bytes '') '',
               show_arg fr (Val (PBool friendship))]) (\<lambda>l3.
        Inr friendship))))"

definition checkFriendshipUserId :: "'w twython_env \<Rightarrow> tw_arg \<Rightarrow> tw_arg \<Rightarrow> 'w \<Rightarrow> 'w \<times> bool res" where
  "checkFriendshipUserId env userIdA userIdB =
     two_calls env (''checkIfFriendshipExists'', [(''user_id_a'', userIdA), (''user_id_b'', userIdB)])
       (''checkIfFriendshipExists'', [(''user_id_a'', userIdB), (''user_id_b'', userIdA)])
       (both_true (ty_float env) userIdA userIdB)"

definition checkFriendshipUsername :: "'w twython_env \<Rightarrow> tw_arg \<Rightarrow> tw_arg \<Rightarrow> 'w \<Rightarrow> 'w \<times> bool res" where
  "checkFriendshipUsername env userNameA userNameB =
     two_calls env (''checkIfFriendshipExists'', [(''screen_name_a'', userNameA), (''screen_name_b'', userNameB)])
       (''checkIfFriendshipExists'', [(''screen_name_a'', userNameB), (''screen_name_b'', userNameA)])
       (both_true (ty_float env) userNameA userNameB)"

text \<open>The intersection of the two sets, after which a line is written for every follower and every friend.\<close>

definition ego_network :: "(rat \<Rightarrow> string) \<Rightarrow> tw_arg \<Rightarrow> pyval \<Rightarrow> pyval \<Rightarrow> pyval list res" where
  "ego_network fr userName followers friends =
     rbind (py_set followers) (\<lambda>fo. rbind (py_set friends) (\<lambda>fs.
     rbind (py_iter followers) (\<lambda>xs. rbind (py_iter friends) (\<lambda>ys.
     rbind (rmap (\<lambda>x. joined [Bytes ''User with ID '', show_arg fr (Val x), Bytes '', is following '', show_arg fr userName]) xs) (\<lambda>l1.
     rbind (rmap (\<lambda>y. joined [show_arg fr userName, Bytes '' is friend with user with ID '', show_arg fr (Val y)]) ys) (\<lambda>l2.
       Inr (filter (\<lambda>x. list_ex (py_eq x) fs) fo)))))))"

definition getUserEgoNetwork :: "'w twython_env \<Rightarrow> tw_arg \<Rightarrow> 'w \<Rightarrow> 'w \<times> pyval list res" where
  "getUserEgoNetwork env userName =
     two_calls env (''getFollowersIDs'', [(''screen_name'', userName)]) (''getFriendsIDs'', [(''screen_name'', userName)])
       (ego_network (ty_float env) userName)"

section \<open>What a client without credentials asks\<close>

definition anonymous :: twython where
  "anonymous = \<lparr>tw_callback = None, tw_headers = [(''User-agent'', ''Twython Python Twitter Library v1.3'')], tw_client = Plain\<rparr>"

lemma with_twython_anonymous:
  "with_twython act w = (case act (w, anonymous) of ((w1, tw1), r) \<Rightarrow> (w1, r))"
  by (simp add: with_twython_def new_twython_def anonymous_def)

text \<open>The question that is sent for an endpoint: arguments that are printed as byte strings go into the URL as they are.\<close>

definition get_ask :: "(rat \<Rightarrow> string) \<Rightarrow> string \<Rightarrow> kwargs \<Rightarrow> http_ask" where
  "get_ask fr u kw = \<lparr>ask_uri = u @ ''?'' @ concat (map raw (query_parts fr kw)), ask_method = ''GET'', ask_body = None,
     ask_headers = tw_headers anonymous\<rparr>"

lemma query_parts_bytes:
  "list_all (\<lambda>(k, v). is_bytes (show_arg fr v)) kw \<Longrightarrow> list_all is_bytes (query_parts fr kw)"
  by (induction fr kw rule: query_parts.induct) simp_all

lemma fill_plain: "CHR ''{'' \<notin> set s \<Longrightarrow> fill val (s @ t) = map (\<lambda>c. Bytes [c]) s @ fill val t"
  by (induction s) (auto simp: mustache_def)

lemma fill_version: "fill val (''{{version}}'' @ t) = val ''version'' # fill val t"
proof -
  have "mustache (''{{version}}'' @ t) = Some (''version'', t)" by (simp add: mustache_def name_char_def Let_def)
  then show ?thesis by simp
qed

lemma fill_around_version:
  assumes "CHR ''{'' \<notin> set p" "CHR ''{'' \<notin> set u" "map_of kw ''version'' = None"
  shows "joined (fill (mustache_value fr kw) (p @ ''{{version}}'' @ u)) = Inr (Bytes (p @ ''1'' @ u))"
proof -
  have "fill val u = map (\<lambda>c. Bytes [c]) u" for val using fill_plain [OF assms(2), of val "[]"] by simp
  then have "fill (mustache_value fr kw) (p @ ''{{version}}'' @ u) = map Bytes (map (\<lambda>c. [c]) p @ ''1'' # map (\<lambda>c. [c]) u)"
    unfolding fill_plain [OF assms(1)] fill_version using assms(3) by (simp add: mustache_value_def)
  then show ?thesis by (simp only: joined_bytes) simp
qed

text \<open>An endpoint with no names of its own is asked for in version 1.\<close>

lemma endpoint_fixed:
  assumes "CHR ''{'' \<notin> set u" "map_of kw ''version'' = None"
  shows "endpoint_url fr kw u = Inr (Bytes (''http://api.twitter.com/1'' @ u))"
  using fill_around_version [of "''http://api.twitter.com/''", OF _ assms, of fr] by (simp add: endpoint_url_def base_url_def)

lemma anonymous_get:
  assumes "map_of api_table name = Some (u, ''GET'')" "CHR ''{'' \<notin> set u" "map_of kw ''version'' = None"
    and "list_all (\<lambda>(k, v). is_bytes (show_arg (ty_float env) v)) kw"
  shows "table_call env name kw (w, anonymous) =
    (case ty_http env (get_ask (ty_float env) (''http://api.twitter.com/1'' @ u) kw) w of
       (w1, r) \<Rightarrow> ((w1, anonymous), rbind r json_content))"
proof -
  let ?v = "''http://api.twitter.com/1'' @ u"
  have "joined (Bytes ?v # Bytes ''?'' # query_parts (ty_float env) kw) =
      Inr (Bytes (?v @ ''?'' @ concat (map raw (query_parts (ty_float env) kw))))"
    using query_parts_bytes [OF assms(4)] by (simp add: joined_def)
  with assms(1) show ?thesis
    by (simp add: table_call_def table_request_def endpoint_fixed [OF assms(2,3)] tw_request_def client_send_def http_send_def
        iri2uri_def anonymous_def get_ask_def split: prod.split)
qed

lemma table_entries:
  "map_of api_table ''checkIfFriendshipExists'' = Some (''/friendships/exists.json'', ''GET'')"
  "map_of api_table ''getFollowersIDs'' = Some (''/followers/ids.json'', ''GET'')"
  "map_of api_table ''getFriendsIDs'' = Some (''/friends/ids.json'', ''GET'')"
  "map_of api_table ''lookupUser'' = Some (''/users/lookup.json'', ''GET'')"
  by code_simp+

section \<open>Friendship is asked both ways\<close>

definition friend_ask :: "(rat \<Rightarrow> string) \<Rightarrow> tw_arg \<Rightarrow> tw_arg \<Rightarrow> http_ask" where
  "friend_ask fr a b = get_ask fr ''http://api.twitter.com/1/friendships/exists.json'' [(''user_id_a'', a), (''user_id_b'', b)]"

lemma line_bytes: "is_ascii s \<Longrightarrow> \<exists>t. joined [Bytes s, x] = Inr t"
  by (cases x) (simp_all add: joined_def)

lemma both_true_answer:
  assumes "is_bytes (show_arg fr a)" "is_bytes (show_arg fr b)"
  shows "both_true fr a b v1 v2 = Inr (py_eq v1 (PBool True) \<and> py_eq v2 (PBool True))"
proof -
  have "is_ascii ''AB : ''" "is_ascii ''BA : ''" by code_simp+
  then obtain t1 t2 where "joined [Bytes ''AB : '', show_arg fr (Val v1)] = Inr t1" "joined [Bytes ''BA : '', show_arg fr (Val v2)] = Inr t2"
    using line_bytes by metis
  moreover have "\<exists>t3. joined [Bytes ''friendship between ('', show_arg fr a, Bytes '', '', show_arg fr b, Bytes '') '',
      show_arg fr (Val (PBool f))] = Inr t3" for f
    using assms by (simp add: joined_def) (simp add: show_arg_def)
  ultimately show ?thesis unfolding both_true_def Let_def by (metis rbind_Inr)
qed

lemma two_answers:
  assumes "\<And>ask w. ty_http env ask w = (w @ [ask], answer ask)"
    and "map_of api_table n1 = Some (u1, ''GET'')" "CHR ''{'' \<notin> set u1" "map_of kw1 ''version'' = None"
      "list_all (\<lambda>(k, v). is_bytes (show_arg (ty_float env) v)) kw1"
    and "map_of api_table n2 = Some (u2, ''GET'')" "CHR ''{'' \<notin> set u2" "map_of kw2 ''version'' = None"
      "list_all (\<lambda>(k, v). is_bytes (show_arg (ty_float env) v)) kw2"
    and "answer (get_ask (ty_float env) (''http://api.twitter.com/1'' @ u1) kw1) = Inr r1" "json_content r1 = Inr v1"
    and "answer (get_ask (ty_float env) (''http://api.twitter.com/1'' @ u2) kw2) = Inr r2" "json_content r2 = Inr v2"
  shows "two_calls env (n1, kw1) (n2, kw2) result w =
    (w @ [get_ask (ty_float env) (''http://api.twitter.com/1'' @ u1) kw1, get_ask (ty_float env) (''http://api.twitter.com/1'' @ u2) kw2],
     result v1 v2)"
  unfolding two_calls_def with_twython_anonymous fst_conv snd_conv
  by (simp only: anonymous_get [OF assms(2-5)] anonymous_get [OF assms(6-9)] assms(1,10-13) prod.case sum.case rbind_Inr)
    simp

lemma friendship_answer:
  assumes "\<And>ask w. ty_http env ask w = (w @ [ask], answer ask)"
    and "is_bytes (show_arg (ty_float env) a)" "is_bytes (show_arg (ty_float env) b)"
    and "answer (friend_ask (ty_float env) a b) = Inr r1" "json_content r1 = Inr ab"
    and "answer (friend_ask (ty_float env) b a) = Inr r2" "json_content r2 = Inr ba"
  shows "checkFriendshipUserId env a b w = (w @ [friend_ask (ty_float env) a b, friend_ask (ty_float env) b a],
    Inr (py_eq ab (PBool True) \<and> py_eq ba (PBool True)))"
proof -
  note both_true_answer [OF assms(2,3)]
  moreover have "checkFriendshipUserId env a b w =
      (w @ [friend_ask (ty_float env) a b, friend_ask (ty_float env) b a], both_true (ty_float env) a b ab ba)"
    unfolding checkFriendshipUserId_def
    by (subst two_answers [OF assms(1) table_entries(1) _ _ _ table_entries(1)]) (use assms in \<open>simp_all add: friend_ask_def\<close>)
  ultimately show ?thesis by simp
qed

text \<open>C11: Friendship is asked both ways: for users given by numbers or byte strings the check sends two requests to the
  endpoint of version 1, whether the first follows the second and then whether the second follows the first, and
  answers yes exactly when both answers are true. Asking with the users exchanged gives the same answer.\<close>

theorem friendship_checked:
  assumes "\<And>ask w. ty_http env ask w = (w @ [ask], answer ask)"
    and "is_bytes (show_arg (ty_float env) a)" "is_bytes (show_arg (ty_float env) b)"
    and "answer (friend_ask (ty_float env) a b) = Inr r1" "json_content r1 = Inr ab"
    and "answer (friend_ask (ty_float env) b a) = Inr r2" "json_content r2 = Inr ba"
  shows "checkFriendshipUserId env a b w = (w @ [friend_ask (ty_float env) a b, friend_ask (ty_float env) b a],
      Inr (py_eq ab (PBool True) \<and> py_eq ba (PBool True))) \<and>
    snd (checkFriendshipUserId env b a w) = snd (checkFriendshipUserId env a b w)"
  using friendship_answer [OF assms] friendship_answer [OF assms(1,3,2,6,7,4,5)] by auto

definition asked_env :: "(http_ask \<Rightarrow> reply) \<Rightarrow> http_ask list twython_env" where
  "asked_env answer =
     \<lparr>ty_now = (\<lambda>w. 0), ty_nonce = (\<lambda>w. 0), ty_http = (\<lambda>ask w. (w @ [ask], Inr (answer ask))),
      ty_http_stay = (\<lambda>ask w. (w @ [ask], Inr (answer ask))), ty_urlopen = (\<lambda>u b hs w. (w, Inr [])),
      ty_read_file = (\<lambda>f w. (w, Inr [])), ty_boundary = (\<lambda>w. (w, ''b'')), ty_mime = (\<lambda>f. None), ty_idna = Inr,
      ty_float = (\<lambda>r. [])\<rparr>"

text \<open>A server on which 1 follows 2 and nobody else follows anybody.\<close>

definition one_follows_two :: "http_ask \<Rightarrow> reply" where
  "one_follows_two ask = \<lparr>rp_status = 200, rp_headers = [],
     rp_content = (if ask_uri ask = ''http://api.twitter.com/1/friendships/exists.json?user_id_a=1&user_id_b=2'' then ''true'' else ''false'')\<rparr>"

theorem friendship_checked_witness:
  "checkFriendshipUserId (asked_env one_follows_two) (Val (PInt 1)) (Val (PInt 2)) [] =
     ([\<lparr>ask_uri = ''http://api.twitter.com/1/friendships/exists.json?user_id_a=1&user_id_b=2'', ask_method = ''GET'', ask_body = None,
         ask_headers = [(''User-agent'', ''Twython Python Twitter Library v1.3'')]\<rparr>,
       \<lparr>ask_uri = ''http://api.twitter.com/1/friendships/exists.json?user_id_a=2&user_id_b=1'', ask_method = ''GET'', ask_body = None,
         ask_headers = [(''User-agent'', ''Twython Python Twitter Library v1.3'')]\<rparr>], Inr False)"
proof -
  let ?env = "asked_env one_follows_two" and ?a = "Val (PInt 1)" and ?b = "Val (PInt 2)"
  have asks: "friend_ask (\<lambda>r. []) ?a ?b = \<lparr>ask_uri = ''http://api.twitter.com/1/friendships/exists.json?user_id_a=1&user_id_b=2'',
        ask_method = ''GET'', ask_body = None, ask_headers = [(''User-agent'', ''Twython Python Twitter Library v1.3'')]\<rparr>"
      "friend_ask (\<lambda>r. []) ?b ?a = \<lparr>ask_uri = ''http://api.twitter.com/1/friendships/exists.json?user_id_a=2&user_id_b=1'',
        ask_method = ''GET'', ask_body = None, ask_headers = [(''User-agent'', ''Twython Python Twitter Library v1.3'')]\<rparr>"
    by code_simp+
  have json: "json_content \<lparr>rp_status = 200, rp_headers = [], rp_content = ''true''\<rparr> = Inr (PBool True)"
      "json_content \<lparr>rp_status = 200, rp_headers = [], rp_content = ''false''\<rparr> = Inr (PBool False)"
    by code_simp+
  show ?thesis
    using friendship_checked [of ?env "\<lambda>ask. Inr (one_follows_two ask)" ?a ?b _ "PBool True" _ "PBool False" "[]"]
    by (simp add: asked_env_def asks json one_follows_two_def show_arg_def)
qed

section \<open>The ego network\<close>

lemma uniq_set: "x \<in> set (uniq xs) \<Longrightarrow> x \<in> set xs"
  by (induction xs) auto

lemma uniq_complete: "x \<in> set xs \<Longrightarrow> \<exists>y \<in> set (uniq xs). py_eq y x"
  by (induction xs) (auto intro: py_eq_trans)

lemma uniq_members: "hashable x \<Longrightarrow> list_ex (py_eq x) (uniq xs) \<longleftrightarrow> list_ex (py_eq x) xs"
proof -
  assume x: "hashable x"
  have "\<exists>y \<in> set (uniq xs). py_eq x y" if "z \<in> set xs" "py_eq x z" for z
  proof -
    from uniq_complete [OF that(1)] obtain y where y: "y \<in> set (uniq xs)" "py_eq y z" by blast
    have "hashable y" using y(2) py_eq_hashable that(2) x by blast
    then have "py_eq x y" using y(2) that(2) py_eq_sym py_eq_trans by blast
    with y(1) show ?thesis by blast
  qed
  then show ?thesis by (auto simp: list_ex_iff dest: uniq_set)
qed

lemma common_members:
  assumes "hashable x"
  shows "list_ex (py_eq x) (filter (\<lambda>y. list_ex (py_eq y) (uniq fr)) (uniq fo)) \<longleftrightarrow> list_ex (py_eq x) fo \<and> list_ex (py_eq x) fr"
proof -
  have "list_ex (py_eq x) (filter (\<lambda>y. list_ex (py_eq y) (uniq fr)) (uniq fo)) \<longleftrightarrow>
      (\<exists>y \<in> set (uniq fo). py_eq x y \<and> list_ex (py_eq y) (uniq fr))"
    by (auto simp: list_ex_iff)
  also have "\<dots> \<longleftrightarrow> (\<exists>y \<in> set (uniq fo). py_eq x y) \<and> list_ex (py_eq x) (uniq fr)"
    using py_eq_cong_left [OF assms] by (auto simp: list_ex_iff)
  also have "\<dots> \<longleftrightarrow> list_ex (py_eq x) fo \<and> list_ex (py_eq x) fr"
    using uniq_members [OF assms] by (simp add: list_ex_iff)
  finally show ?thesis .
qed

lemma rmap_ok: "(\<And>x. \<exists>y. f x = Inr y) \<Longrightarrow> \<exists>ys. rmap f xs = Inr ys"
proof (induction xs)
  case (Cons x xs)
  obtain y where "f x = Inr y" using Cons.prems by blast
  with Cons show ?case by auto
qed simp

text \<open>The ego network is asked for with two requests and holds, up to equality, exactly the users that are both among the
  followers and among the friends; the name of the user is an ASCII byte string, and the answers are collections of
  values that can be members of a set.\<close>

lemma ego_network_members:
  assumes "\<And>ask w. ty_http env ask w = (w @ [ask], answer ask)" "is_ascii u"
    and "answer (get_ask (ty_float env) ''http://api.twitter.com/1/followers/ids.json'' [(''screen_name'', Raw u)]) = Inr r1"
      "json_content r1 = Inr followers" "py_iter followers = Inr fo" "list_all hashable fo"
    and "answer (get_ask (ty_float env) ''http://api.twitter.com/1/friends/ids.json'' [(''screen_name'', Raw u)]) = Inr r2"
      "json_content r2 = Inr friends" "py_iter friends = Inr fr" "list_all hashable fr"
  shows "\<exists>net. getUserEgoNetwork env (Raw u) w =
      (w @ [get_ask (ty_float env) ''http://api.twitter.com/1/followers/ids.json'' [(''screen_name'', Raw u)],
            get_ask (ty_float env) ''http://api.twitter.com/1/friends/ids.json'' [(''screen_name'', Raw u)]], Inr net) \<and>
    (\<forall>x. hashable x \<longrightarrow> (list_ex (py_eq x) net \<longleftrightarrow> list_ex (py_eq x) fo \<and> list_ex (py_eq x) fr))"
proof -
  let ?f = "ty_float env"
  have a: "is_ascii ''User with ID ''" "is_ascii '', is following ''" "is_ascii '' is friend with user with ID ''" by code_simp+
  have "\<exists>t. joined [Bytes ''User with ID '', y, Bytes '', is following '', show_arg ?f (Raw u)] = Inr t" for y
    using assms(2) a(1,2) by (cases y) (simp_all add: joined_def show_arg_def)
  then obtain l1 where "rmap (\<lambda>x. joined [Bytes ''User with ID '', show_arg ?f (Val x), Bytes '', is following '', show_arg ?f (Raw u)]) fo = Inr l1"
    using rmap_ok [of "\<lambda>x. joined [Bytes ''User with ID '', show_arg ?f (Val x), Bytes '', is following '', show_arg ?f (Raw u)]"] by blast
  moreover have "\<exists>t. joined [show_arg ?f (Raw u), Bytes '' is friend with user with ID '', y] = Inr t" for y
    using assms(2) a(3) by (cases y) (simp_all add: joined_def show_arg_def)
  then obtain l2 where "rmap (\<lambda>y. joined [show_arg ?f (Raw u), Bytes '' is friend with user with ID '', show_arg ?f (Val y)]) fr = Inr l2"
    using rmap_ok [of "\<lambda>y. joined [show_arg ?f (Raw u), Bytes '' is friend with user with ID '', show_arg ?f (Val y)]"] by blast
  ultimately have "ego_network ?f (Raw u) followers friends = Inr (filter (\<lambda>x. list_ex (py_eq x) (uniq fr)) (uniq fo))"
    using assms(5,6,9,10) by (auto simp: ego_network_def py_set_def)
  moreover have "getUserEgoNetwork env (Raw u) w =
      (w @ [get_ask ?f ''http://api.twitter.com/1/followers/ids.json'' [(''screen_name'', Raw u)],
            get_ask ?f ''http://api.twitter.com/1/friends/ids.json'' [(''screen_name'', Raw u)]], ego_network ?f (Raw u) followers friends)"
    unfolding getUserEgoNetwork_def
    by (subst two_answers [OF assms(1) table_entries(2) _ _ _ table_entries(3)]) (use assms in \<open>simp_all add: show_arg_def\<close>)
  ultimately show ?thesis by (intro exI [of _ "filter (\<lambda>x. list_ex (py_eq x) (uniq fr)) (uniq fo)"]) (simp add: common_members)
qed

end
