(* ===== verification/TwitterMethods.thy ===== *)
theory TwitterMethods
  imports TwitterApi Calendar
begin

text \<open>
  The methods of class \<open>Api\<close> of \<open>socialnet/twitter.py\<close>, one definition each: the checks of the
  arguments and of the credentials in the order of the code, the URL, the parameters or the posted
  data, and the objects made of the answer. A method takes the environment, its arguments and the
  state, and returns the state with a result.
\<close>

section \<open>Common parts\<close>

definition api_url :: "api \<Rightarrow> string \<Rightarrow> string" where
  "api_url a p = base_url a @ p"

definition given :: "string \<Rightarrow> arg \<Rightarrow> params" where
  "given k v = (if v = ANone then [] else [(k, v)])"

definition int_param :: "(arg \<Rightarrow> int res) \<Rightarrow> string \<Rightarrow> arg \<Rightarrow> string \<Rightarrow> params res" where
  "int_param conv k v msg =
     (if arg_true v then rbind (any_guard msg (conv v)) (\<lambda>i. Inr [(k, AInt i)]) else Inr [])"

definition count_check :: "arg \<Rightarrow> unit res" where
  "count_check count =
     (if count = ANone then Inr ()
      else rbind (value_guard ''count must be an integer'' (arg_int count)) (\<lambda>i.
        if 100 < i then Inl (TwitterError ''count may not be greater than 100'') else Inr ()))"

definition id_check :: "string \<Rightarrow> arg \<Rightarrow> unit res" where
  "id_check msg v = (if arg_true v then rbind (any_guard msg (arg_long v)) (\<lambda>_. Inr ()) else Inr ())"

text \<open>A value of an object as an argument, and \<open>v[k]\<close> for any key.\<close>

fun arg_of :: "env \<Rightarrow> pyval \<Rightarrow> arg" where
  "arg_of e PNone = ANone"
| "arg_of e (PBool b) = ABool b"
| "arg_of e (PInt i) = AInt i"
| "arg_of e (PStr s) = AStr s"
| "arg_of e v = AStr (text_of e v)"

fun py_index :: "pyval \<Rightarrow> pyval \<Rightarrow> pyval res" where
  "py_index (PDict d) k =
     (if hashable k then (case pd_get d k of None \<Rightarrow> Inl (KeyError ''key'') | Some v \<Rightarrow> Inr v)
      else Inl (TypeError ''unhashable type''))"
| "py_index (PList xs) (PInt i) = list_at xs i"
| "py_index (PList xs) (PBool b) = list_at xs (if b then 1 else 0)"
| "py_index (PStr s) (PInt i) = rbind (list_at s i) (\<lambda>c. Inr (PStr [c]))"
| "py_index (PStr s) (PBool b) = rbind (list_at s (if b then 1 else 0)) (\<lambda>c. Inr (PStr [c]))"
| "py_index _ _ = Inl (TypeError ''not subscriptable'')"

section \<open>Timelines\<close>

definition GetPublicTimeline ::
    "env \<Rightarrow> arg \<Rightarrow> arg \<Rightarrow> arg \<Rightarrow> api \<Rightarrow> api \<times> status list res" where
  "GetPublicTimeline e since_id include_rts include_entities a =
     run_call e (Inr (get_call (api_url a ''/statuses/public_timeline.json'')
       (opt_param ''since_id'' since_id since_id @ opt_param ''include_rts'' include_rts (AInt 1) @
        opt_param ''include_entities'' include_entities (AInt 1))))
     (each status_new) a"

fun status_text :: "status \<Rightarrow> pyval" where
  "status_text (Status d us urls ms hs rt) = s_text d"

text \<open>\<open>s.text.lower().find(term.lower()) != -1\<close>; a status without a text has no \<open>lower\<close>.\<close>

definition text_has :: "string \<Rightarrow> status \<Rightarrow> bool res" where
  "text_has term s =
     (case status_text s of
        PStr t \<Rightarrow> Inr (str_contains (str_lower t) (str_lower term))
      | _ \<Rightarrow> Inl (AttributeError ''lower''))"

fun res_filter :: "('a \<Rightarrow> bool res) \<Rightarrow> 'a list \<Rightarrow> 'a list res" where
  "res_filter p [] = Inr []"
| "res_filter p (x # xs) =
     rbind (p x) (\<lambda>b. rbind (res_filter p xs) (\<lambda>ys. Inr (if b then x # ys else ys)))"

definition FilterPublicTimeline :: "env \<Rightarrow> string \<Rightarrow> arg \<Rightarrow> api \<Rightarrow> api \<times> status list res" where
  "FilterPublicTimeline e term since_id a =
     (case GetPublicTimeline e since_id ANone ANone a of
        (a1, r) \<Rightarrow> (a1, rbind r (res_filter (text_has term))))"

definition GetFriendsTimeline ::
    "env \<Rightarrow> arg \<Rightarrow> arg \<Rightarrow> arg \<Rightarrow> arg \<Rightarrow> arg \<Rightarrow> arg \<Rightarrow> api \<Rightarrow> api \<times> status list res" where
  "GetFriendsTimeline e us count page since_id retweets include_entities a =
     run_call e
       (if \<not> arg_true us \<and> \<not> authenticated a
        then Inl (TwitterError ''User must be specified if API is not authenticated.'')
        else
          let url = api_url a ''/statuses/friends_timeline'' @
                (if arg_true us then ''/'' @ fmt_s us @ ''.json'' else ''.json'') in
          rbind (count_check count) (\<lambda>_.
          rbind (if page = ANone then Inr []
                 else rbind (value_guard ''page must be an integer'' (arg_int page))
                        (\<lambda>i. Inr [(''page'', AInt i)])) (\<lambda>pg.
          Inr (get_call url (given ''count'' count @ pg @ opt_param ''since_id'' since_id since_id @
            opt_param ''include_rts'' retweets (ABool True) @
            opt_param ''include_entities'' include_entities (ABool True))))))
       (each status_new) a"

definition GetUserTimeline ::
    "env \<Rightarrow> arg \<Rightarrow> arg \<Rightarrow> arg \<Rightarrow> arg \<Rightarrow> arg \<Rightarrow> arg \<Rightarrow> arg \<Rightarrow> arg \<Rightarrow> arg \<Rightarrow> api \<Rightarrow> api \<times> status list res"
  where
  "GetUserTimeline e ident user_id screen_name since_id max_id count page include_rts include_entities a =
     run_call e
       (rbind (if arg_true ident then Inr (api_url a ''/statuses/user_timeline/'' @ fmt_s ident @ ''.json'')
               else if arg_true user_id then rbind (fmt_num user_id)
                 (\<lambda>n. Inr (api_url a ''/statuses/user_timeline.json?user_id='' @ n))
               else if arg_true screen_name
                 then Inr (api_url a ''/statuses/user_timeline.json?screen_name='' @ fmt_s screen_name)
               else if \<not> authenticated a
                 then Inl (TwitterError ''User must be specified if API is not authenticated.'')
               else Inr (api_url a ''/statuses/user_timeline.json'')) (\<lambda>url.
        rbind (int_param arg_long ''since_id'' since_id ''since_id must be an integer'') (\<lambda>p1.
        rbind (int_param arg_long ''max_id'' max_id ''max_id must be an integer'') (\<lambda>p2.
        rbind (int_param arg_int ''count'' count ''count must be an integer'') (\<lambda>p3.
        rbind (int_param arg_int ''page'' page ''page must be an integer'') (\<lambda>p4.
        Inr (get_call url (p1 @ p2 @ p3 @ p4 @ opt_param ''include_rts'' include_rts (AInt 1) @
          opt_param ''include_entities'' include_entities (AInt 1)))))))))
       (each status_new) a"

definition GetUserRetweets ::
    "env \<Rightarrow> arg \<Rightarrow> arg \<Rightarrow> arg \<Rightarrow> arg \<Rightarrow> api \<Rightarrow> api \<times> status list res" where
  "GetUserRetweets e count since_id max_id include_entities a =
     run_call e
       (need_auth ''The twitter.Api instance must be authenticated.'' a
         (rbind (count_check count) (\<lambda>_.
          rbind (int_param arg_long ''max_id'' max_id ''max_id must be an integer'') (\<lambda>p.
          Inr (get_call (api_url a ''/statuses/retweeted_by_me.json'')
            (opt_param ''count'' count count @ opt_param ''since_id'' since_id since_id @
             opt_param ''include_entities'' include_entities (ABool True) @ p))))))
       (each status_new) a"

definition GetReplies :: "env \<Rightarrow> arg \<Rightarrow> arg \<Rightarrow> arg \<Rightarrow> api \<Rightarrow> api \<times> status list res" where
  "GetReplies e since since_id page a =
     run_call e
       (need_auth ''The twitter.Api instance must be authenticated.'' a
         (Inr (get_call (api_url a ''/statuses/replies.json'')
           (opt_param ''since'' since since @ opt_param ''since_id'' since_id since_id @
            opt_param ''page'' page page))))
       (each status_new) a"

definition GetRetweets :: "env \<Rightarrow> arg \<Rightarrow> api \<Rightarrow> api \<times> status list res" where
  "GetRetweets e statusid a =
     run_call e
       (need_auth ''The twitter.Api instsance must be authenticated.'' a
         (Inr (get_call (api_url a ''/statuses/retweets/'' @ fmt_s statusid @
           ''.json?include_entities=true&include_rts=true'') [])))
       (each status_new) a"

definition GetMentions :: "env \<Rightarrow> arg \<Rightarrow> arg \<Rightarrow> arg \<Rightarrow> api \<Rightarrow> api \<times> status list res" where
  "GetMentions e since_id max_id page a =
     run_call e
       (need_auth ''The twitter.Api instance must be authenticated.'' a
         (Inr (get_call (api_url a ''/statuses/mentions.json'')
           (opt_param ''since_id'' since_id since_id @ opt_param ''max_id'' max_id max_id @
            opt_param ''page'' page page))))
       (each status_new) a"

definition GetFavorites :: "env \<Rightarrow> arg \<Rightarrow> arg \<Rightarrow> api \<Rightarrow> api \<times> status list res" where
  "GetFavorites e us page a =
     run_call e
       (rbind (if arg_true us then Inr (api_url a ''/favorites/'' @ fmt_s us @ ''.json'')
               else if \<not> authenticated a
                 then Inl (TwitterError ''User must be specified if API is not authenticated.'')
               else Inr (api_url a ''/favorites.json'')) (\<lambda>url.
        Inr (get_call url (opt_param ''page'' page page))))
       (each status_new) a"

section \<open>Single statuses\<close>

definition GetStatus :: "env \<Rightarrow> arg \<Rightarrow> api \<Rightarrow> api \<times> status res" where
  "GetStatus e ident a =
     run_call e
       (rbind (id_check ''id must be an long integer'' ident) (\<lambda>_.
        Inr (get_call (api_url a ''/statuses/show/'' @ fmt_s ident @ ''.json'') [])))
       status_new a"

definition DestroyStatus :: "env \<Rightarrow> arg \<Rightarrow> api \<Rightarrow> api \<times> status res" where
  "DestroyStatus e ident a =
     run_call e
       (rbind (id_check ''id must be an integer'' ident) (\<lambda>_.
        Inr (post_call (api_url a ''/statuses/destroy/'' @ fmt_s ident @ ''.json'') [(''id'', ident)])))
       status_new a"

text \<open>\<open>len\<close> of a text, and the text as \<open>PostUpdate\<close> measures it: byte strings are decoded when the
  client has an input encoding.\<close>

fun arg_len :: "arg \<Rightarrow> nat res" where
  "arg_len (AStr s) = Inr (length s)"
| "arg_len (ABytes s) = Inr (length s)"
| "arg_len _ = Inl (TypeError ''object has no len()'')"

definition measured :: "env \<Rightarrow> api \<Rightarrow> arg \<Rightarrow> arg res" where
  "measured e a status =
     (case (status, input_encoding a) of
        (AStr s, _) \<Rightarrow> Inr status
      | (_, None) \<Rightarrow> Inr status
      | (ABytes b, Some enc) \<Rightarrow> rbind (codec e enc b) (\<lambda>t. Inr (AStr t))
      | _ \<Rightarrow> Inl (TypeError ''coercing to Unicode: need string or buffer''))"

definition PostUpdate :: "env \<Rightarrow> arg \<Rightarrow> arg \<Rightarrow> api \<Rightarrow> api \<times> status res" where
  "PostUpdate e status in_reply_to_status_id a =
     run_call e
       (need_auth ''The twitter.Api instance must be authenticated.'' a
         (rbind (measured e a status) (\<lambda>u.
          rbind (arg_len u) (\<lambda>n.
          if CHARACTER_LIMIT < n
          then Inl (TwitterError ''Text must be less than or equal to 140 characters.'')
          else Inr (post_call (api_url a ''/statuses/update.json'')
            ((''status'', status) #
             opt_param ''in_reply_to_status_id'' in_reply_to_status_id in_reply_to_status_id))))))
       status_new a"

text \<open>\<open>PostUpdates\<close>: the lines of \<open>textwrap\<close>, all but the last with the continuation. A refused line
  ends the loop; the lines before it are posted already. Text and byte string join to a text, the
  byte string being ASCII.\<close>

fun arg_add :: "arg \<Rightarrow> arg \<Rightarrow> arg res" where
  "arg_add (AStr s) (AStr t) = Inr (AStr (s @ t))"
| "arg_add (ABytes s) (ABytes t) = Inr (ABytes (s @ t))"
| "arg_add (AStr s) (ABytes t) =
     (if is_ascii t then Inr (AStr (s @ t)) else Inl (ValueError ''ascii codec cannot decode''))"
| "arg_add (ABytes s) (AStr t) =
     (if is_ascii s then Inr (AStr (s @ t)) else Inl (ValueError ''ascii codec cannot decode''))"
| "arg_add _ _ = Inl (TypeError ''cannot concatenate'')"

fun wrap_lines :: "env \<Rightarrow> arg \<Rightarrow> int \<Rightarrow> arg list res" where
  "wrap_lines e (AStr s) n = rbind (textwrap e s n) (\<lambda>ls. Inr (map AStr ls))"
| "wrap_lines e (ABytes s) n = rbind (textwrap e s n) (\<lambda>ls. Inr (map ABytes ls))"
| "wrap_lines e _ n = Inl (AttributeError ''expandtabs'')"

fun post_lines :: "env \<Rightarrow> arg \<Rightarrow> arg \<Rightarrow> arg list \<Rightarrow> api \<Rightarrow> api \<times> status list res" where
  "post_lines e c reply [] a = (a, Inl IndexError)"
| "post_lines e c reply [l] a =
     (case PostUpdate e l reply a of (a1, r) \<Rightarrow> (a1, rbind r (\<lambda>s. Inr [s])))"
| "post_lines e c reply (l # m # ls) a =
     (case arg_add l c of
        Inl x \<Rightarrow> (a, Inl x)
      | Inr t \<Rightarrow>
          (case PostUpdate e t reply a of
             (a1, Inl x) \<Rightarrow> (a1, Inl x)
           | (a1, Inr s) \<Rightarrow>
               (case post_lines e c reply (m # ls) a1 of
                  (a2, r) \<Rightarrow> (a2, rbind r (\<lambda>ss. Inr (s # ss))))))"

definition PostUpdates :: "env \<Rightarrow> arg \<Rightarrow> arg \<Rightarrow> arg \<Rightarrow> api \<Rightarrow> api \<times> status list res" where
  "PostUpdates e status continuation reply a =
     (let c = (if continuation = ANone then ABytes [] else continuation) in
      case rbind (arg_len c) (\<lambda>n. wrap_lines e status (int CHARACTER_LIMIT - int n)) of
        Inl x \<Rightarrow> (a, Inl x)
      | Inr lines \<Rightarrow> post_lines e c reply lines a)"

section \<open>Users\<close>

definition user_or_auth :: "api \<Rightarrow> arg \<Rightarrow> string \<Rightarrow> string res" where
  "user_or_auth a us p =
     (if \<not> arg_true us \<and> \<not> authenticated a
      then Inl (TwitterError ''twitter.Api instance must be authenticated'')
      else Inr (api_url a p @ (if arg_true us then ''/'' @ fmt_s us @ ''.json'' else ''.json'')))"

definition GetFriends :: "env \<Rightarrow> arg \<Rightarrow> arg \<Rightarrow> api \<Rightarrow> api \<times> user list res" where
  "GetFriends e us cursor a =
     run_call e
       (rbind (user_or_auth a us ''/statuses/friends'') (\<lambda>url.
        Inr (get_call url [(''cursor'', cursor)])))
       (each_in ''users'' user_new) a"

definition GetFriendIDs :: "env \<Rightarrow> arg \<Rightarrow> arg \<Rightarrow> api \<Rightarrow> api \<times> pyval res" where
  "GetFriendIDs e us cursor a =
     run_call e
       (rbind (user_or_auth a us ''/friends/ids'') (\<lambda>url.
        Inr (get_call url [(''cursor'', cursor)])))
       Inr a"

definition GetFollowerIDs :: "env \<Rightarrow> arg \<Rightarrow> arg \<Rightarrow> api \<Rightarrow> api \<times> pyval res" where
  "GetFollowerIDs e userid cursor a =
     run_call e
       (Inr (get_call ''http://twitter.com/followers/ids.json''
         ((''cursor'', cursor) # opt_param ''user_id'' userid userid)))
       Inr a"

definition GetFollowers :: "env \<Rightarrow> arg \<Rightarrow> api \<Rightarrow> api \<times> user list res" where
  "GetFollowers e page a =
     run_call e
       (need_auth ''twitter.Api instance must be authenticated'' a
         (Inr (get_call (api_url a ''/statuses/followers.json'') (opt_param ''page'' page page))))
       (each user_new) a"

definition GetFeatured :: "env \<Rightarrow> api \<Rightarrow> api \<times> user list res" where
  "GetFeatured e a =
     run_call e (Inr (get_call (api_url a ''/statuses/featured.json'') [])) (each user_new) a"

fun user_id_of :: "user \<Rightarrow> pyval" where
  "user_id_of (User d st) = u_id d"

definition UsersLookup ::
    "env \<Rightarrow> arg list \<Rightarrow> string list \<Rightarrow> user list \<Rightarrow> api \<Rightarrow> api \<times> user list res" where
  "UsersLookup e user_id screen_name users a =
     run_call e
       (need_auth ''The twitter.Api instance must be authenticated.'' a
         (if user_id = [] \<and> screen_name = [] \<and> users = []
          then Inl (TwitterError ''Specify at least on of user_id, screen_name, or users.'')
          else
            let uids = user_id @ map (arg_of e \<circ> user_id_of) users in
            Inr (get_call (api_url a ''/users/lookup.json'')
              ((if uids = [] then [] else [(''user_id'', AStr (str_join '','' (map fmt_s uids)))]) @
               (if screen_name = [] then []
                else [(''screen_name'', AStr (str_join '','' screen_name))])))))
       (each user_new) a"

definition GetUser :: "env \<Rightarrow> arg \<Rightarrow> api \<Rightarrow> api \<times> user res" where
  "GetUser e us a =
     run_call e (Inr (get_call (api_url a ''/users/show/'' @ fmt_s us @ ''.json'') [])) user_new a"

definition GetUserByEmail :: "env \<Rightarrow> arg \<Rightarrow> api \<Rightarrow> api \<times> user res" where
  "GetUserByEmail e email a =
     run_call e (Inr (get_call (api_url a ''/users/show.json?email='' @ fmt_s email) [])) user_new a"

definition CreateFriendship :: "env \<Rightarrow> arg \<Rightarrow> api \<Rightarrow> api \<times> user res" where
  "CreateFriendship e us a =
     run_call e
       (Inr (post_call (api_url a ''/friendships/create/'' @ fmt_s us @ ''.json'') [(''user'', us)]))
       user_new a"

definition DestroyFriendship :: "env \<Rightarrow> arg \<Rightarrow> api \<Rightarrow> api \<times> user res" where
  "DestroyFriendship e us a =
     run_call e
       (Inr (post_call (api_url a ''/friendships/destroy/'' @ fmt_s us @ ''.json'') [(''user'', us)]))
       user_new a"

text \<open>An invalid account answers with status 401, which is not an error here.\<close>

definition VerifyCredentials :: "env \<Rightarrow> api \<Rightarrow> api \<times> user option res" where
  "VerifyCredentials e a =
     (if \<not> authenticated a
      then (a, Inl (TwitterError ''Api instance must first be given user credentials.''))
      else
        (case fetch_url e ((get_call (api_url a ''/account/verify_credentials.json'') [])
                \<lparr>c_no_cache := True\<rparr>) a of
           (a1, Inl (HTTPError code)) \<Rightarrow> (a1, if code = 401 then Inr None else Inl (HTTPError code))
         | (a1, r) \<Rightarrow> (a1, rbind r (\<lambda>body. parse_body body (\<lambda>v. rbind (user_new v) (\<lambda>us. Inr (Some us)))))))"

section \<open>Favourites\<close>

fun status_id_of :: "status \<Rightarrow> pyval" where
  "status_id_of (Status d us urls ms hs rt) = s_id d"

definition CreateFavorite :: "env \<Rightarrow> status \<Rightarrow> api \<Rightarrow> api \<times> status res" where
  "CreateFavorite e status a =
     (let i = arg_of e (status_id_of status) in
      run_call e
        (Inr (post_call (api_url a ''/favorites/create/'' @ fmt_s i @ ''.json'') [(''id'', i)]))
        status_new a)"

definition DestroyFavorite :: "env \<Rightarrow> status \<Rightarrow> api \<Rightarrow> api \<times> status res" where
  "DestroyFavorite e status a =
     (let i = arg_of e (status_id_of status) in
      run_call e
        (Inr (post_call (api_url a ''/favorites/destroy/'' @ fmt_s i @ ''.json'') [(''id'', i)]))
        status_new a)"

section \<open>Direct messages\<close>

definition GetDirectMessages ::
    "env \<Rightarrow> arg \<Rightarrow> arg \<Rightarrow> arg \<Rightarrow> api \<Rightarrow> api \<times> direct_message list res" where
  "GetDirectMessages e since since_id page a =
     run_call e
       (need_auth ''The twitter.Api instance must be authenticated.'' a
         (Inr (get_call (api_url a ''/direct_messages.json'')
           (opt_param ''since'' since since @ opt_param ''since_id'' since_id since_id @
            opt_param ''page'' page page))))
       (each direct_message_new) a"

definition PostDirectMessage :: "env \<Rightarrow> arg \<Rightarrow> arg \<Rightarrow> api \<Rightarrow> api \<times> direct_message res" where
  "PostDirectMessage e us txt a =
     run_call e
       (need_auth ''The twitter.Api instance must be authenticated.'' a
         (Inr (post_call (api_url a ''/direct_messages/new.json'') [(''text'', txt), (''user'', us)])))
       direct_message_new a"

definition DestroyDirectMessage :: "env \<Rightarrow> arg \<Rightarrow> api \<Rightarrow> api \<times> direct_message res" where
  "DestroyDirectMessage e ident a =
     run_call e
       (Inr (post_call (api_url a ''/direct_messages/destroy/'' @ fmt_s ident @ ''.json'')
         [(''id'', ident)]))
       direct_message_new a"

section \<open>Lists\<close>

definition CreateList :: "env \<Rightarrow> arg \<Rightarrow> arg \<Rightarrow> arg \<Rightarrow> arg \<Rightarrow> api \<Rightarrow> api \<times> tlist res" where
  "CreateList e us name mode description a =
     run_call e
       (Inr (post_call (api_url a ''/'' @ fmt_s us @ ''/lists.json'')
         ((''name'', name) # given ''mode'' mode @ given ''description'' description)))
       list_new a"

definition DestroyList :: "env \<Rightarrow> arg \<Rightarrow> arg \<Rightarrow> api \<Rightarrow> api \<times> tlist res" where
  "DestroyList e us ident a =
     run_call e
       (Inr (post_call (api_url a ''/'' @ fmt_s us @ ''/lists/'' @ fmt_s ident @ ''.json'')
         [(''_method'', ABytes ''DELETE'')]))
       list_new a"

definition subscribers_url :: "api \<Rightarrow> arg \<Rightarrow> arg \<Rightarrow> string" where
  "subscribers_url a owner lst = api_url a ''/'' @ fmt_s owner @ ''/'' @ fmt_s lst @ ''/subscribers.json''"

definition CreateSubscription :: "env \<Rightarrow> arg \<Rightarrow> arg \<Rightarrow> api \<Rightarrow> api \<times> tlist res" where
  "CreateSubscription e owner lst a =
     run_call e (Inr (post_call (subscribers_url a owner lst) [(''list_id'', lst)])) list_new a"

definition DestroySubscription :: "env \<Rightarrow> arg \<Rightarrow> arg \<Rightarrow> api \<Rightarrow> api \<times> tlist res" where
  "DestroySubscription e owner lst a =
     run_call e
       (Inr (post_call (subscribers_url a owner lst) [(''_method'', ABytes ''DELETE''), (''list_id'', lst)]))
       list_new a"

definition GetSubscriptions :: "env \<Rightarrow> arg \<Rightarrow> arg \<Rightarrow> api \<Rightarrow> api \<times> tlist list res" where
  "GetSubscriptions e us cursor a =
     run_call e
       (need_auth ''twitter.Api instance must be authenticated'' a
         (Inr (get_call (api_url a ''/'' @ fmt_s us @ ''/lists/subscriptions.json'')
           [(''cursor'', cursor)])))
       (each_in ''lists'' list_new) a"

definition GetLists :: "env \<Rightarrow> arg \<Rightarrow> arg \<Rightarrow> api \<Rightarrow> api \<times> tlist list res" where
  "GetLists e us cursor a =
     run_call e
       (need_auth ''twitter.Api instance must be authenticated'' a
         (Inr (get_call (api_url a ''/'' @ fmt_s us @ ''/lists.json'') [(''cursor'', cursor)])))
       (each_in ''lists'' list_new) a"

section \<open>Search\<close>

fun set_user :: "user \<Rightarrow> status \<Rightarrow> status" where
  "set_user us (Status d _ urls ms hs rt) = Status d (Some us) urls ms hs rt"

text \<open>\<open>urllib.quote\<close> of a value: a text beyond ASCII is not in its table.\<close>

fun quote_value :: "pyval \<Rightarrow> arg res" where
  "quote_value (PStr s) =
     (if is_ascii s then Inr (AStr (quote ''/'' s)) else Inl (KeyError ''quote''))"
| "quote_value PNone = Inl (TypeError ''None object cannot be quoted'')"
| "quote_value (PBool b) = (if b then Inl (AttributeError ''rstrip'') else Inr (ABool b))"
| "quote_value (PInt i) = (if i = 0 then Inr (AInt i) else Inl (AttributeError ''rstrip''))"
| "quote_value (PFloat r) = (if r = 0 then Inr (AStr ''0.0'') else Inl (AttributeError ''rstrip''))"
| "quote_value (PList xs) = (if xs = [] then Inr (AStr ''[]'') else Inl (AttributeError ''rstrip''))"
| "quote_value (PDict d) = (if d = [] then Inr (AStr ''{}'') else Inl (AttributeError ''rstrip''))"

text \<open>The author of a search result: fetched, or a user with the two fields of the result.\<close>

definition result_user :: "env \<Rightarrow> bool \<Rightarrow> pyval \<Rightarrow> api \<Rightarrow> api \<times> user res" where
  "result_user e query_users x a =
     (if query_users then
        (case rbind (py_item x ''from_user'') quote_value of
           Inl err \<Rightarrow> (a, Inl err)
         | Inr q \<Rightarrow> GetUser e q a)
      else
        (a, rbind (py_item x ''from_user'') (\<lambda>n. rbind (py_item x ''profile_image_url'') (\<lambda>p.
              Inr (User (user_fields (\<lambda>k. if k = ''screen_name'' then n
                else if k = ''profile_image_url'' then p else PNone)) None)))))"

fun search_results :: "env \<Rightarrow> bool \<Rightarrow> pyval list \<Rightarrow> api \<Rightarrow> api \<times> status list res" where
  "search_results e query_users [] a = (a, Inr [])"
| "search_results e query_users (x # xs) a =
     (case status_new x of
        Inl err \<Rightarrow> (a, Inl err)
      | Inr st \<Rightarrow>
          (case result_user e query_users x a of
             (a1, Inl err) \<Rightarrow> (a1, Inl err)
           | (a1, Inr us) \<Rightarrow>
               (case search_results e query_users xs a1 of
                  (a2, r) \<Rightarrow> (a2, rbind r (\<lambda>ss. Inr (set_user us st # ss))))))"

text \<open>The geocode is given as the texts \<open>str\<close> makes of its three values.\<close>

definition search_call :: "arg \<Rightarrow> string list option \<Rightarrow> arg \<Rightarrow> arg \<Rightarrow> arg \<Rightarrow> arg \<Rightarrow> arg \<Rightarrow> call" where
  "search_call term geocode since_id per_page page lang show_user =
     get_call ''http://search.twitter.com/search.json''
       (opt_param ''since_id'' since_id since_id @ given ''q'' term @
        (case geocode of None \<Rightarrow> []
         | Some g \<Rightarrow> [(''geocode'', ABytes (str_join '','' g))]) @
        [(''show_user'', show_user), (''lang'', lang), (''rpp'', per_page), (''page'', page)])"

definition GetSearch ::
    "env \<Rightarrow> arg \<Rightarrow> string list option \<Rightarrow> arg \<Rightarrow> arg \<Rightarrow> arg \<Rightarrow> arg \<Rightarrow> arg \<Rightarrow> bool \<Rightarrow> api \<Rightarrow>
     api \<times> status list res" where
  "GetSearch e term geocode since_id per_page page lang show_user query_users a =
     (if term = ANone \<and> geocode = None then (a, Inr [])
      else
        (case run_call e (Inr (search_call term geocode since_id per_page page lang show_user))
                (\<lambda>data. rbind (py_item data ''results'') py_iter) a of
           (a1, Inl err) \<Rightarrow> (a1, Inl err)
         | (a1, Inr xs) \<Rightarrow> search_results e query_users xs a1))"

section \<open>Trends\<close>

text \<open>The trends under one key of the \<open>trends\<close> dictionary, stamped with the key.\<close>

definition trends_at :: "pyval \<Rightarrow> pyval \<Rightarrow> trend list res" where
  "trends_at tr t =
     rbind (py_index tr t) (\<lambda>v. rbind (py_iter v) (rmap (\<lambda>item. trend_new item t)))"

definition GetTrendsCurrent :: "env \<Rightarrow> arg \<Rightarrow> api \<Rightarrow> api \<times> trend list res" where
  "GetTrendsCurrent e exclude a =
     run_call e
       (Inr (get_call (api_url a ''/trends/current.json'') (opt_param ''exclude'' exclude exclude)))
       (\<lambda>data. rbind (py_item data ''trends'') (\<lambda>tr. rbind (py_iter tr) (\<lambda>ts.
          rbind (rmap (trends_at tr) ts) (\<lambda>groups. Inr (concat groups)))))
       a"

definition dated_call :: "env \<Rightarrow> string \<Rightarrow> arg \<Rightarrow> arg \<Rightarrow> api \<Rightarrow> call" where
  "dated_call e p exclude startdate a =
     get_call (api_url a p)
       (opt_param ''exclude'' exclude exclude @
        [(''date'', if arg_true startdate then startdate else ABytes (strftime_day (clock e (fetches a))))])"

definition text_key :: "pyval \<Rightarrow> string res" where
  "text_key t = (case t of PStr s \<Rightarrow> Inr s | _ \<Rightarrow> Inl (TypeError ''expected string or buffer''))"

text \<open>The 24 slots of a day; a later key of the same hour replaces an earlier one.\<close>

fun fill_hours :: "pyval \<Rightarrow> pyval list \<Rightarrow> trend list option list \<Rightarrow> trend list option list res" where
  "fill_hours tr [] slots = Inr slots"
| "fill_hours tr (t # ts) slots =
     rbind (text_key t) (\<lambda>s. rbind (strptime_hour s) (\<lambda>h. rbind (trends_at tr t) (\<lambda>group.
       if h < length slots then fill_hours tr ts (slots[h := Some group]) else Inl IndexError)))"

definition GetTrendsDaily :: "env \<Rightarrow> arg \<Rightarrow> arg \<Rightarrow> api \<Rightarrow> api \<times> trend list option list res" where
  "GetTrendsDaily e exclude startdate a =
     run_call e (Inr (dated_call e ''/trends/daily.json'' exclude startdate a))
       (\<lambda>data. rbind (py_item data ''trends'') (\<lambda>tr. rbind (py_iter tr) (\<lambda>ts.
          fill_hours tr ts (replicate 24 None))))
       a"

text \<open>The seven slots of a week, filled in the order of the dates; of two keys with the same date the
  later one stays.\<close>

definition dated_keys :: "pyval list \<Rightarrow> (int \<times> pyval) list res" where
  "dated_keys ts =
     rbind (rmap (\<lambda>t. rbind (text_key t) (\<lambda>s. rbind (strptime_day s) (\<lambda>d. Inr (d, t)))) ts)
       (\<lambda>ps. Inr (dict_update [] ps))"

fun fill_days :: "pyval \<Rightarrow> pyval list \<Rightarrow> nat \<Rightarrow> trend list option list \<Rightarrow> trend list option list res" where
  "fill_days tr [] cnt slots = Inr slots"
| "fill_days tr (t # ts) cnt slots =
     rbind (trends_at tr t) (\<lambda>group.
       if cnt < length slots then fill_days tr ts (Suc cnt) (slots[cnt := Some group])
       else Inl IndexError)"

definition GetTrendsWeekly :: "env \<Rightarrow> arg \<Rightarrow> arg \<Rightarrow> api \<Rightarrow> api \<times> trend list option list res" where
  "GetTrendsWeekly e exclude startdate a =
     run_call e (Inr (dated_call e ''/trends/weekly.json'' exclude startdate a))
       (\<lambda>data. rbind (py_item data ''trends'') (\<lambda>tr. rbind (py_iter tr) (\<lambda>ts.
          rbind (dated_keys ts) (\<lambda>times.
            fill_days tr (map (\<lambda>d. the (map_of times d)) (sort (map fst times))) 0 (replicate 7 None)))))
       a"

section \<open>Rate limit\<close>

definition GetRateLimitStatus :: "env \<Rightarrow> api \<Rightarrow> api \<times> pyval res" where
  "GetRateLimitStatus e a =
     run_call e (Inr ((get_call (api_url a ''/account/rate_limit_status.json'') [])\<lparr>c_no_cache := True\<rparr>))
       Inr a"

text \<open>\<open>int(delta.seconds / limit) + 1\<close>: the division floors on integers; \<open>int\<close> cuts the
  fraction off a float. The clock is read in whole seconds.\<close>

definition hit_interval :: "int \<Rightarrow> pyval \<Rightarrow> int res" where
  "hit_interval seconds limit =
     (if \<not> truthy limit then Inr seconds
      else
        (case limit of
           PInt l \<Rightarrow> Inr (seconds div l + 1)
         | PBool b \<Rightarrow> Inr (seconds + 1)
         | PFloat r \<Rightarrow>
             (let q = of_int seconds / r in Inr ((if 0 \<le> q then \<lfloor>q\<rfloor> else \<lceil>q\<rceil>) + 1))
         | _ \<Rightarrow> Inl (TypeError ''unsupported operand type(s) for /'')))"

definition reset_seconds :: "env \<Rightarrow> pyval \<Rightarrow> int \<Rightarrow> int res" where
  "reset_seconds e reset_time now =
     (case reset_time of
        PStr s \<Rightarrow> rbind (parsedate e s) (\<lambda>t. Inr ((t + 3600 - now) mod 86400))
      | _ \<Rightarrow> Inl (AttributeError ''split''))"

definition MaximumHitFrequency :: "env \<Rightarrow> api \<Rightarrow> api \<times> int res" where
  "MaximumHitFrequency e a =
     (case GetRateLimitStatus e a of
        (a1, r) \<Rightarrow>
          (a1, rbind r (\<lambda>status.
                 rbind (py_get status ''reset_time'') (\<lambda>reset_time.
                 rbind (py_get status ''remaining_hits'') (\<lambda>limit.
                 if truthy reset_time
                 then rbind (reset_seconds e reset_time (clock e (fetches a1))) (\<lambda>s. hit_interval s limit)
                 else Inr 60)))))"

end
