(* ===== verification/TwitterClient.thy ===== *)
theory TwitterClient
  imports TwitterMethods
begin

text \<open>
  What the client of \<open>socialnet/twitter.py\<close> guarantees its callers: which answers it accepts, what
  it refuses to send, that requests carry their parameters, that answers are reused from the cache,
  and what posting, searching, filtering and the daily trends compute.
\<close>

section \<open>A client to try things on\<close>

definition demo_env :: env where
  "demo_env = \<lparr>clock = (\<lambda>n. 1000 + int n), nonces = (\<lambda>n. n),
     http = (\<lambda>n url body. Inr ''{\"reset_time\":\"now\",\"remaining_hits\":150}''),
     codec = (\<lambda>enc b. Inr b), textwrap = (\<lambda>s n. Inr [s]), parsedate = (\<lambda>s. Inr 900),
     text_of = (\<lambda>v. [])\<rparr>"

definition demo_api :: api where
  "demo_api = \<lparr>consumer_key = None, consumer_secret = None, access_token_key = None,
     access_token_secret = None, oauth_consumer = None, base_url = ''http://t'', input_encoding = None,
     request_headers = [], default_params = [], use_gzip = False, debug_http = False, acache = None,
     cache_timeout = 60, fetches = 0, sent = []\<rparr>"

definition demo_client :: api where
  "demo_client = set_credentials (Some ''ck'') (Some ''cs'') (Some ''tk'') (Some ''ts'') demo_api"

lemma demo_simps [simp]:
  "\<not> authenticated demo_api" "authenticated demo_client" "oauth_consumer demo_api = None"
  "default_params demo_api = []" "input_encoding demo_api = None" "cache_timeout demo_api = 60"
  "fetches demo_api = 0" "sent demo_api = []" "acache demo_api = None"
  by (simp_all add: demo_api_def demo_client_def set_credentials_def authenticated_def)

section \<open>Answers\<close>

text \<open>Only clean answers get through: \<open>_ParseAndCheckTwitter\<close> returns a value exactly as the JSON
  text reads, and only when it has no \<open>error\<close> entry; everything else, malformed texts and error
  answers included, is a \<open>TwitterError\<close>, except for JSON values that are not objects, where the
  test for the error entry can itself raise \<open>TypeError\<close>.\<close>

theorem checked_answers:
  "case parse_and_check json of
     Inr v \<Rightarrow> json_loads json = Inr v \<and> py_in ''error'' v = Inr False
   | Inl x \<Rightarrow> (\<exists>t. x = TwitterError t) \<or>
       (\<exists>t v. x = TypeError t \<and> json_loads json = Inr v \<and> is_dict v = False)"
  using parse_and_check_cases [of json] by (simp split: sum.splits)

section \<open>Credentials\<close>




text \<open>With credentials the default parameters play no part: what \<open>SetSource\<close> suggests is not
  in the request, neither in its URL nor in its signed body.\<close>

theorem source_ignored_with_credentials:
  assumes "authenticated a"
  shows "prepare_fetch e (set_source src a) c = prepare_fetch e a c"
proof -
  obtain ct where "oauth_consumer a = Some ct" using assms by (auto simp: authenticated_def)
  then show ?thesis by (simp add: prepare_fetch_def set_source_def oauth_request_def)
qed

theorem source_ignored_with_credentials_witness:
  "prepare_fetch demo_env (set_source (AStr ''app'') demo_client) (get_call ''http://t/x.json'' []) =
   prepare_fetch demo_env demo_client (get_call ''http://t/x.json'' [])"
  by (rule source_ignored_with_credentials) simp

section \<open>Requests\<close>

lemma urlencode_no_hash: "CHR ''#'' \<notin> set (urlencode ps)"
proof -
  have q: "CHR ''#'' \<notin> set (quote_plus s)" for s
    using quote_plus_chars [of "CHR ''#''" s] by (auto simp: always_safe_def)
  have "CHR ''#'' \<notin> set (str_join ''&'' ws)" if "\<forall>w \<in> set ws. CHR ''#'' \<notin> set w" for ws
    using that by (induction "''&''" ws rule: str_join.induct) auto
  then show ?thesis by (auto simp: urlencode_def q)
qed

lemma encode_pairs_text:
  assumes "\<not> truthy_text (input_encoding a)" "\<forall>(k, v) \<in> set ps. \<forall>b. v \<noteq> ABytes b"
  shows "encode_pairs e a ps = Inr (urlencode (map (\<lambda>(k, v). (k, utf8 (fmt_s v))) ps))"
proof -
  have "encode_arg e a v = Inr (utf8 (fmt_s v))" if "\<forall>b. v \<noteq> ABytes b" for v
    using that assms(1) by (cases v) (simp_all add: encode_arg_def)
  then have "rmap (\<lambda>(k, v). rbind (encode_arg e a v) (\<lambda>t. Inr (k, t))) ps
      = Inr (map (\<lambda>(k, v). (k, utf8 (fmt_s v))) ps)"
    using assms(2) by (intro rmap_all_ok) auto
  then show ?thesis by (simp add: encode_pairs_def)
qed

text \<open>An anonymous GET request carries exactly its parameters: the URL that is sent names the same
  place as the URL of the call, and the server that parses its query gets the parameters back, each
  value as the UTF-8 of its text.\<close>

theorem anonymous_request_roundtrip:
  assumes "oauth_consumer a = None" and "default_params a = []" and "\<not> truthy_text (input_encoding a)"
    and "plain_url u" and "query u = []" and "ps \<noteq> []" and "distinct (map fst ps)"
    and "\<forall>(k, v) \<in> set ps. v \<noteq> ANone \<and> (\<forall>b. v \<noteq> ABytes b)"
  shows "\<exists>full q. prepare_fetch e a (get_call (urlunparse u) ps) = Inr (full, None) \<and>
    urlparse full = Inr (u\<lparr>query := q\<rparr>) \<and>
    parse_qsl True q = map (\<lambda>(k, v). (k, utf8 (fmt_s v))) ps"
proof -
  let ?qs = "map (\<lambda>(k, v). (k, utf8 (fmt_s v))) ps"
  let ?u = "u\<lparr>query := urlencode ?qs\<rparr>"
  have du: "dict_update [] ps = ps" using assms(7) by (subst dict_update_fresh) auto
  have f: "filter (\<lambda>(k, v). v \<noteq> ANone) ps = ps" using assms(8) by (auto intro: filter_True)
  have "build_url e a (urlunparse u) [] ps = Inr (urlunparse ?u)"
    using assms(3,5,6,8) f
    by (simp add: build_url_def urlparse_urlunparse [OF assms(4)] encode_parameters_def)
      (subst encode_pairs_text, auto)
  moreover have "plain_url ?u" using assms(4) urlencode_no_hash by (simp add: plain_url_def)
  ultimately show ?thesis using assms(1,2) urlparse_urlunparse [of ?u] du
    by (intro exI [of _ "urlunparse ?u"] exI [of _ "urlencode ?qs"])
      (simp add: prepare_fetch_def get_call_def encode_post_data_def parse_qsl_urlencode)
qed

theorem anonymous_request_roundtrip_witness:
  "\<exists>full q. prepare_fetch demo_env demo_api (get_call (urlunparse \<lparr>scheme = ''http'', netloc = ''t'',
       path = ''/s.json'', params = [], query = [], fragment = []\<rparr>) [(''q'', AStr ''a b''), (''page'', AInt 2)]) =
     Inr (full, None) \<and> parse_qsl True q = [(''q'', ''a b''), (''page'', ''2'')] \<and>
     urlparse full = Inr \<lparr>scheme = ''http'', netloc = ''t'', path = ''/s.json'', params = [], query = q, fragment = []\<rparr>"
proof -
  have t: "truthy_text (input_encoding demo_api) = False" by (simp add: truthy_text_def)
  have u: "map (\<lambda>(k, v). (k, utf8 (fmt_s v))) [(''q'', AStr ''a b''), (''page'', AInt 2)] =
      [(''q'', ''a b''), (''page'', ''2'')]" by code_simp
  show ?thesis
    using anonymous_request_roundtrip [of demo_api "\<lparr>scheme = ''http'', netloc = ''t'', path = ''/s.json'',
      params = [], query = [], fragment = []\<rparr>" "[(''q'', AStr ''a b''), (''page'', AInt 2)]" demo_env] t u
    by (auto simp: plain_url_def)
qed

section \<open>Caching\<close>

lemma run_call_get:
  assumes "same_settings a b" "oauth_consumer a = None" "prepare_fetch e a c = Inr (u, None)"
    "c_no_cache c = False" "cache_timeout a \<noteq> 0" "acache b = Some fc"
  shows "run_call e (Inr c) f b =
    (case cached_fetch fc_cached_time fc_get fc_set (clock e (fetches b)) (cache_timeout a) (cache_key a u)
        (http e (fetches b) u None) fc of
       (fc1, used, r) \<Rightarrow>
         (b\<lparr>fetches := Suc (fetches b), acache := Some fc1,
            sent := (if used then sent b @ [(u, None)] else sent b)\<rparr>, rbind r (\<lambda>body. parse_body body f)))"
proof -
  have "cache_timeout b = cache_timeout a"
    using assms(1) by (cases a, cases b) (auto simp: same_settings_def)
  moreover have "cache_key (b\<lparr>fetches := n\<rparr>) u = cache_key a u" for n
    using assms(1) by (intro cache_key_settings) simp
  ultimately show ?thesis
    using prepare_fetch_anonymous [OF assms(1,2), of e c] assms(3-6)
    by (auto simp: run_call_def fetch_url_def truthy_text_def Let_def split: prod.split)
qed

text \<open>Answers are reused: when an anonymous GET is repeated before the timeout has passed, the
  second call gives the same result as the first, made from the same text, and sends nothing.\<close>

theorem cached_answer_is_reused:
  assumes "oauth_consumer a = None" and "acache a = Some fc" and "fc_inv fc"
    and "prepare_fetch e a c = Inr (u, None)" and "c_no_cache c = False" and "cache_timeout a \<noteq> 0"
    and "fc_cached_time fc (cache_key a u) = None"
    and "clock e (fetches a) \<noteq> 0" and "clock e (Suc (fetches a)) < clock e (fetches a) + cache_timeout a"
    and "http e (fetches a) u None = Inr body"
  shows "\<exists>a1 a2. run_call e (Inr c) f a = (a1, parse_body (Some body) f) \<and> sent a1 = sent a @ [(u, None)] \<and>
    run_call e (Inr c) f a1 = (a2, parse_body (Some body) f) \<and> sent a2 = sent a1"
proof -
  let ?fetch = "cached_fetch fc_cached_time fc_get fc_set"
  obtain fc1 where f1: "?fetch (clock e (fetches a)) (cache_timeout a) (cache_key a u) (Inr body) fc
        = (fc1, True, Inr (Some body))"
    and f2: "?fetch (clock e (Suc (fetches a))) (cache_timeout a) (cache_key a u)
        (http e (Suc (fetches a)) u None) fc1 = (fc1, False, Inr (Some body))"
    using file_store.refetch_within_timeout [OF assms(3,7,8,9)] by blast
  let ?a1 = "a\<lparr>fetches := Suc (fetches a), acache := Some fc1, sent := sent a @ [(u, None)]\<rparr>"
  have "run_call e (Inr c) f a = (?a1, parse_body (Some body) f)"
    using run_call_get [of a a e c u fc f] assms f1 by simp
  moreover have "run_call e (Inr c) f ?a1 =
      (?a1\<lparr>fetches := Suc (Suc (fetches a))\<rparr>, parse_body (Some body) f)"
    using run_call_get [of a ?a1 e c u fc1 f] assms f2 by simp
  ultimately show ?thesis by (intro exI [of _ ?a1] exI [of _ "?a1\<lparr>fetches := Suc (Suc (fetches a))\<rparr>"]) simp
qed

theorem cached_answer_is_reused_witness:
  "\<exists>a1 a2. run_call demo_env (Inr (get_call ''http://t/x.json'' [])) Inr (demo_api\<lparr>acache := Some tmp_cache\<rparr>) =
       (a1, parse_body (Some ''{\"reset_time\":\"now\",\"remaining_hits\":150}'') Inr) \<and>
     sent a1 = [(''http://t/x.json'', None)] \<and>
     run_call demo_env (Inr (get_call ''http://t/x.json'' [])) Inr a1 =
       (a2, parse_body (Some ''{\"reset_time\":\"now\",\"remaining_hits\":150}'') Inr) \<and>
     sent a2 = sent a1"
proof -
  have p: "prepare_fetch demo_env (demo_api\<lparr>acache := Some tmp_cache\<rparr>) (get_call ''http://t/x.json'' []) =
      Inr (''http://t/x.json'', None)" by code_simp
  show ?thesis
    using cached_answer_is_reused [OF _ _ tmp_cache_inv p, of
        "''{\"reset_time\":\"now\",\"remaining_hits\":150}''" Inr]
    by (simp add: tmp_cache_empty get_call_def demo_env_def)
qed

section \<open>Posting\<close>

text \<open>Plain posting of texts in order, stopping at the first that fails.\<close>

definition send_status :: "env \<Rightarrow> arg \<Rightarrow> string \<Rightarrow> api \<Rightarrow> api \<times> status res" where
  "send_status e reply t a =
     run_call e (Inr (post_call (base_url a @ ''/statuses/update.json'')
       ((''status'', AStr t) # opt_param ''in_reply_to_status_id'' reply reply))) status_new a"

fun send_statuses :: "env \<Rightarrow> arg \<Rightarrow> string list \<Rightarrow> api \<Rightarrow> api \<times> status list res" where
  "send_statuses e reply [] a = (a, Inr [])"
| "send_statuses e reply (t # ts) a =
     (case send_status e reply t a of
        (a1, Inl x) \<Rightarrow> (a1, Inl x)
      | (a1, Inr s) \<Rightarrow> (case send_statuses e reply ts a1 of (a2, r) \<Rightarrow> (a2, rbind r (\<lambda>ss. Inr (s # ss)))))"

lemma PostUpdate_short:
  "authenticated a \<Longrightarrow> length t \<le> 140 \<Longrightarrow> PostUpdate e (AStr t) reply a = send_status e reply t a"
  by (simp add: PostUpdate_def send_status_def need_auth_yes measured_def CHARACTER_LIMIT_def api_url_def)

lemma PostUpdate_authenticated [simp]: "authenticated (fst (PostUpdate e t reply a)) = authenticated a"
  by (simp add: PostUpdate_def)

definition pieces :: "string list \<Rightarrow> string \<Rightarrow> string list" where
  "pieces ls c = map (\<lambda>l. l @ c) (butlast ls) @ [last ls]"

lemma post_lines_sends:
  assumes "ls \<noteq> []" "authenticated a" "\<forall>l \<in> set ls. length l + length c \<le> 140"
  shows "post_lines e (AStr c) reply (map AStr ls) a = send_statuses e reply (pieces ls c) a"
  using assms
proof (induction ls arbitrary: a)
  case (Cons l ls)
  show ?case
  proof (cases ls)
    case Nil
    then show ?thesis using Cons.prems
      by (simp add: pieces_def PostUpdate_short split: prod.split sum.split)
  next
    case (Cons m ms)
    obtain a1 r where p: "PostUpdate e (AStr (l @ c)) reply a = (a1, r)" by fastforce
    then have a1: "authenticated a1"
      using PostUpdate_authenticated [of e "AStr (l @ c)" reply a] Cons.prems by simp
    have "PostUpdate e (AStr (l @ c)) reply a = send_status e reply (l @ c) a"
      using Cons.prems by (intro PostUpdate_short) simp_all
    with p Cons.IH [OF _ a1] Cons.prems Cons show ?thesis
      by (cases r) (simp_all add: pieces_def)
  qed
qed simp

text \<open>C35: \<open>PostUpdates\<close> posts the whole text: with credentials, a continuation shorter than the limit
  and a \<open>textwrap\<close> that keeps its lines within the width, it posts every line in order, all but the
  last with the continuation, each within 140 characters, so that none is refused for its length; it
  stops only when a post itself fails.\<close>

theorem post_updates_sends_lines:
  assumes "authenticated a" and "length c < 140"
    and "textwrap e s (140 - int (length c)) = Inr ls" and "ls \<noteq> []"
    and "\<forall>l \<in> set ls. int (length l) \<le> 140 - int (length c)"
  shows "PostUpdates e (AStr s) (AStr c) reply a = send_statuses e reply (pieces ls c) a \<and>
    (\<forall>t \<in> set (pieces ls c). length t \<le> 140)"
proof -
  have l: "\<forall>l \<in> set ls. length l + length c \<le> 140" using assms(5) by force
  have "PostUpdates e (AStr s) (AStr c) reply a = post_lines e (AStr c) reply (map AStr ls) a"
    using assms(3) by (simp add: PostUpdates_def CHARACTER_LIMIT_def)
  moreover have "last ls \<in> set ls" using assms(4) by simp
  ultimately show ?thesis
    using post_lines_sends [OF assms(4,1) l] l
    by (fastforce simp: pieces_def dest: in_set_butlastD)
qed

theorem post_updates_sends_lines_witness:
  "PostUpdates (demo_env\<lparr>textwrap := \<lambda>s n. Inr [''first'', ''second'']\<rparr>) (AStr ''first second'') (AStr ''..'')
     ANone demo_client =
   send_statuses (demo_env\<lparr>textwrap := \<lambda>s n. Inr [''first'', ''second'']\<rparr>) ANone [''first..'', ''second'']
     demo_client"
  using post_updates_sends_lines [of demo_client "''..''"
      "demo_env\<lparr>textwrap := \<lambda>s n. Inr [''first'', ''second'']\<rparr>" "''first second''"
      "[''first'', ''second'']" ANone]
  by (simp add: pieces_def)

lemma run_call_fetches: "run_call e (Inr c) f a = (a', r) \<Longrightarrow> fetches a' = Suc (fetches a)"
  by (auto simp: run_call_def fetch_url_def Let_def split: prod.splits sum.splits option.splits)

text \<open>\<open>PostUpdate\<close> sends nothing longer than 140 characters: whenever it changes anything, the text
  is at most that long, measured on the decoded text when a byte string comes with an input encoding
  and on the bytes otherwise; a longer text is refused with a \<open>TwitterError\<close>.\<close>

theorem post_update_length:
  assumes "PostUpdate e t reply a = (a', r)" and "a' \<noteq> a"
  shows "case t of
     AStr s \<Rightarrow> length s \<le> 140
   | ABytes b \<Rightarrow> (case input_encoding a of
        None \<Rightarrow> length b \<le> 140 | Some enc \<Rightarrow> \<exists>s. codec e enc b = Inr s \<and> length s \<le> 140)
   | _ \<Rightarrow> False"
proof (cases "need_auth ''The twitter.Api instance must be authenticated.'' a
    (rbind (measured e a t) arg_len)")
  case (Inl x)
  then show ?thesis using assms
    by (cases "authenticated a"; cases "measured e a t"; cases "rbind (measured e a t) arg_len")
      (auto simp: PostUpdate_def need_auth_yes need_auth_no)
next
  case (Inr n)
  then have auth: "authenticated a" by (auto simp: need_auth_def split: if_splits)
  with Inr obtain u where u: "measured e a t = Inr u" "arg_len u = Inr n"
    by (auto simp: need_auth_yes res_simps)
  have "n \<le> 140"
  proof (rule ccontr)
    assume "\<not> n \<le> 140"
    then have "PostUpdate e t reply a =
        (a, Inl (TwitterError ''Text must be less than or equal to 140 characters.''))"
      using auth u by (simp add: PostUpdate_def need_auth_yes CHARACTER_LIMIT_def)
    with assms show False by simp
  qed
  with u show ?thesis
    by (cases t; cases "input_encoding a") (auto simp: measured_def res_simps)
qed

theorem post_update_length_witness:
  "\<exists>a' r. PostUpdate demo_env (AStr ''hi'') ANone demo_client = (a', r) \<and> a' \<noteq> demo_client \<and>
     length ''hi'' \<le> 140"
proof -
  obtain a' r where p: "PostUpdate demo_env (AStr ''hi'') ANone demo_client = (a', r)" by fastforce
  then have "send_status demo_env ANone ''hi'' demo_client = (a', r)" by (simp add: PostUpdate_short)
  then have "fetches a' = Suc (fetches demo_client)" by (auto simp: send_status_def dest: run_call_fetches)
  then have n: "a' \<noteq> demo_client" by auto
  from post_update_length [OF p n] p n show ?thesis by simp
qed

section \<open>Searching and filtering\<close>

text \<open>What a search costs: the loop over the results makes one status for every result, and asks
  the network once per result when the full users are wanted and not at all otherwise.\<close>

theorem search_cost:
  assumes "search_results e query_users xs a = (a', Inr ss)"
  shows "length ss = length xs \<and> fetches a' = fetches a + (if query_users then length xs else 0)"
  using assms
proof (induction xs arbitrary: a a' ss)
  case (Cons x xs)
  from Cons.prems obtain st a1 us ss' where
    s: "result_user e query_users x a = (a1, Inr us)" "search_results e query_users xs a1 = (a', Inr ss')"
      "ss = set_user us st # ss'"
    by (auto split: sum.splits prod.splits simp: res_simps)
  have "fetches a1 = fetches a + (if query_users then 1 else 0)"
    using s(1) by (auto simp: result_user_def GetUser_def dest: run_call_fetches split: sum.splits if_splits)
  with Cons.IH [OF s(2)] s(3) show ?case by simp
qed simp

theorem search_cost_witness:
  "\<exists>a' ss. search_results demo_env True [PDict [(PStr ''from_user'', PStr ''bob'')]] demo_api = (a', Inr ss) \<and>
     length ss = 1 \<and> fetches a' = 1"
proof -
  let ?out = "search_results demo_env True [PDict [(PStr ''from_user'', PStr ''bob'')]] demo_api"
  have "is_ok (snd ?out)" by code_simp
  then obtain ss where "?out = (fst ?out, Inr ss)" by (cases ?out) (auto simp: is_ok_iff)
  from search_cost [OF this] this show ?thesis by (intro exI [of _ "fst ?out"] exI [of _ ss]) simp
qed

text \<open>Filtering is exact: \<open>FilterPublicTimeline\<close> fetches the public timeline once and returns those
  statuses whose text contains the term in any case, in order; a status without a text makes the
  whole call fail with \<open>AttributeError\<close>.\<close>

theorem filter_public_timeline_exact:
  assumes "GetPublicTimeline e since_id ANone ANone a = (a', Inr ss)"
  shows "FilterPublicTimeline e term since_id a = (a',
     if list_all (\<lambda>s. \<exists>t. status_text s = PStr t) ss
     then Inr (filter (\<lambda>s. text_has term s = Inr True) ss) else Inl (AttributeError ''lower''))"
proof -
  have "res_filter (text_has term) ss = (if list_all (\<lambda>s. \<exists>t. status_text s = PStr t) ss
     then Inr (filter (\<lambda>s. text_has term s = Inr True) ss) else Inl (AttributeError ''lower''))"
  proof (induction ss)
    case (Cons s ss)
    then show ?case by (cases "status_text s") (simp_all add: text_has_def)
  qed simp
  with assms show ?thesis by (simp add: FilterPublicTimeline_def)
qed

theorem filter_public_timeline_exact_witness:
  "\<exists>a' ss. FilterPublicTimeline (demo_env\<lparr>http := \<lambda>n u b. Inr ''[{\"text\":\"Hello\"},{\"text\":\"Bye\"}]''\<rparr>)
     ''hell'' ANone demo_api = (a', Inr ss) \<and> map status_text ss = [PStr ''Hello'']"
proof -
  let ?e = "demo_env\<lparr>http := \<lambda>n u b. Inr ''[{\"text\":\"Hello\"},{\"text\":\"Bye\"}]''\<rparr>"
  let ?out = "GetPublicTimeline ?e ANone ANone ANone demo_api"
  have m: "(case snd ?out of Inr ss \<Rightarrow> map status_text ss | Inl _ \<Rightarrow> []) = [PStr ''Hello'', PStr ''Bye'']"
    by code_simp
  then obtain ss where ss: "?out = (fst ?out, Inr ss)" "map status_text ss = [PStr ''Hello'', PStr ''Bye'']"
    by (cases ?out; cases "snd ?out") auto
  then obtain s1 s2 where s: "ss = [s1, s2]" "status_text s1 = PStr ''Hello''" "status_text s2 = PStr ''Bye''"
    by auto
  have "text_has ''hell'' s1 = Inr True" "text_has ''hell'' s2 = Inr False"
    using s by (simp_all add: text_has_def) code_simp+
  then show ?thesis using filter_public_timeline_exact [OF ss(1), of "''hell''"] s by simp
qed

section \<open>Rate limit\<close>

text \<open>Calling every \<open>MaximumHitFrequency\<close> seconds does not exceed the limit: the interval \<open>f\<close> is at
  least a second, the remaining hits at that pace last longer than the wait until the limit is
  renewed, and a second less would not do. The wait is taken within one day.\<close>

theorem maximum_hit_frequency_sufficient:
  assumes "GetRateLimitStatus e a = (a1, Inr status)"
    and "py_get status ''reset_time'' = Inr (PStr t)" and "t \<noteq> []" and "parsedate e t = Inr reset"
    and "py_get status ''remaining_hits'' = Inr (PInt hits)" and "0 < hits"
    and "wait = (reset + 3600 - clock e (fetches a1)) mod 86400"
  shows "\<exists>f. MaximumHitFrequency e a = (a1, Inr f) \<and> 1 \<le> f \<and> (f - 1) * hits \<le> wait \<and> wait < f * hits"
proof -
  have w: "0 \<le> wait" using assms(7) by simp
  have m: "MaximumHitFrequency e a = (a1, Inr (wait div hits + 1))"
    using assms by (simp add: MaximumHitFrequency_def reset_seconds_def hit_interval_def)
  have "wait mod hits < hits" "0 \<le> wait mod hits"
    using assms(6) by simp_all
  with mult_div_mod_eq [of hits wait] have "hits * (wait div hits) \<le> wait \<and> wait < hits + hits * (wait div hits)"
    by linarith
  then have "wait div hits * hits \<le> wait \<and> wait < (wait div hits + 1) * hits"
    by (simp add: algebra_simps)
  moreover have "0 \<le> wait div hits" using w assms(6) by (simp add: pos_imp_zdiv_nonneg_iff)
  ultimately show ?thesis using m by simp
qed

theorem maximum_hit_frequency_sufficient_witness:
  "\<exists>a' f. MaximumHitFrequency demo_env demo_api = (a', Inr f) \<and> (f - 1) * 150 \<le> 3499 \<and> 3499 < f * 150"
proof -
  have "GetRateLimitStatus demo_env demo_api =
      (demo_api\<lparr>fetches := 1, sent := [(''http://t/account/rate_limit_status.json'', None)]\<rparr>,
       Inr (PDict [(PStr ''reset_time'', PStr ''now''), (PStr ''remaining_hits'', PInt 150)]))"
    by code_simp
  from maximum_hit_frequency_sufficient [OF this, of "''now''" 900 150 3499] show ?thesis
    by (auto simp: demo_env_def)
qed

section \<open>Daily trends\<close>

text \<open>A slot that changed holds the trends of a key of that hour.\<close>

lemma fill_hours_slots:
  assumes "fill_hours tr ts slots = Inr r"
  shows "length r = length slots \<and> (\<forall>h < length slots. r ! h = slots ! h \<or>
    (\<exists>s g. PStr s \<in> set ts \<and> strptime_hour s = Inr h \<and> trends_at tr (PStr s) = Inr g \<and> r ! h = Some g))"
  using assms
proof (induction tr ts slots rule: fill_hours.induct)
  case (2 tr t ts slots)
  from "2.prems" obtain s h g where t: "t = PStr s" "strptime_hour s = Inr h" "trends_at tr t = Inr g"
      "h < length slots" and r: "fill_hours tr ts (slots[h := Some g]) = Inr r"
    by (cases t) (auto simp: res_simps text_key_def split: if_splits)
  have k: "text_key t = Inr s" using t(1) by (simp add: text_key_def)
  from "2.IH" [OF k t(2) t(3) t(4) r] show ?case
    using t by (auto simp: nth_list_update) (metis nth_list_update)+
qed simp

lemma run_call_ok:
  "run_call e c f a = (a', Inr x) \<Longrightarrow> \<exists>v. run_call e c Inr a = (a', Inr v) \<and> f v = Inr x"
  by (auto simp: run_call_def parse_body_def rbind_eq_Inr split: sum.splits prod.splits option.splits)
    fastforce

text \<open>A daily report has one slot for each of the 24 hours, and a filled slot holds the trends that
  the checked answer lists under a date of that hour; the other slots are empty.\<close>

theorem daily_trends_by_hour:
  assumes "GetTrendsDaily e exclude startdate a = (a', Inr slots)"
  shows "length slots = 24 \<and>
    (\<exists>data tr dates. run_call e (Inr (dated_call e ''/trends/daily.json'' exclude startdate a)) Inr a = (a', Inr data) \<and>
       py_item data ''trends'' = Inr tr \<and> py_iter tr = Inr dates \<and>
       (\<forall>h < 24. slots ! h = None \<or>
          (\<exists>s g. PStr s \<in> set dates \<and> strptime_hour s = Inr h \<and> trends_at tr (PStr s) = Inr g \<and>
             slots ! h = Some g)))"
proof -
  from run_call_ok [OF assms [unfolded GetTrendsDaily_def]] obtain data tr ts where
    d: "run_call e (Inr (dated_call e ''/trends/daily.json'' exclude startdate a)) Inr a = (a', Inr data)"
      "py_item data ''trends'' = Inr tr" "py_iter tr = Inr ts"
    and f: "fill_hours tr ts (replicate 24 None) = Inr slots"
    by (auto simp: res_simps)
  from fill_hours_slots [OF f]
  have "length slots = 24 \<and> (\<forall>h < 24. slots ! h = None \<or>
      (\<exists>s g. PStr s \<in> set ts \<and> strptime_hour s = Inr h \<and> trends_at tr (PStr s) = Inr g \<and> slots ! h = Some g))"
    unfolding length_replicate by (metis nth_replicate)
  with d show ?thesis by blast
qed

theorem daily_trends_by_hour_witness:
  "\<exists>a' slots. GetTrendsDaily (demo_env\<lparr>http := \<lambda>n u b.
       Inr ''{\"trends\":{\"2010-01-02 07:30\":[{\"name\":\"x\"}]}}''\<rparr>) ANone ANone demo_api = (a', Inr slots) \<and>
     length slots = 24"
proof -
  let ?out = "GetTrendsDaily (demo_env\<lparr>http := \<lambda>n u b.
       Inr ''{\"trends\":{\"2010-01-02 07:30\":[{\"name\":\"x\"}]}}''\<rparr>) ANone ANone demo_api"
  have "is_ok (snd ?out)" by code_simp
  then obtain slots where "?out = (fst ?out, Inr slots)" by (cases ?out) (auto simp: is_ok_iff)
  from daily_trends_by_hour [OF this] this show ?thesis by blast
qed

end
