(* ===== verification/TwitterJson.thy ===== *)
theory TwitterJson
  imports TwitterModel "HOL-Library.Multiset"
begin

text \<open>
  The JSON texts of the objects of \<open>socialnet/twitter.py\<close>: every attribute of an object built from JSON is a value that
  JSON can write, so that \<open>AsJsonString\<close> never raises on it, and the text reads back as its dictionary with sorted keys.
\<close>

section \<open>Dictionaries that can be written\<close>










section \<open>Objects with attributes from JSON\<close>





section \<open>Objects built from JSON\<close>













end
