(* ===== verification/TwythonMethods.thy ===== *)
theory TwythonMethods
  imports Twython
begin

text \<open>
  The methods of \<open>Twython\<close> that are written out (\<open>socialnet/twython/twython/twython.py\<close>): shortening a URL,
  looking up many users, searching, the generator of search results, membership of lists, and the images of a
  profile with the multipart form they are sent in.
\<close>

section \<open>Requests for JSON\<close>

text \<open>The \<open>try\<close> around a request and the reading of its answer. The name in the message is not always the method's.\<close>

definition json_request ::
    "'w twython_env \<Rightarrow> string \<Rightarrow> py_text \<Rightarrow> string \<Rightarrow> 'w \<times> twython \<Rightarrow> ('w \<times> twython) \<times> pyval res" where
  "json_request env name url meth st =
     (case tw_request env url meth None st of
        (st1, r) \<Rightarrow> (st1, on_http_error (\<lambda>code. twython_error (failed_with name code) (Some code)) (rbind r json_content)))"

definition shortenURL ::
    "'w twython_env \<Rightarrow> tw_arg \<Rightarrow> string \<Rightarrow> string \<Rightarrow> 'w \<Rightarrow> 'w \<times> string res" where
  "shortenURL env url_to_shorten shortener query_name w =
     (case ty_urlopen env (Bytes (shortener @ ''?'' @ urlencode [(query_name, encode (ty_float env) url_to_shorten)])) None [] w of
        (w1, r) \<Rightarrow> (w1, on_http_error (\<lambda>code. twython_error (failed_with ''shortenURL'' code) None) r))"

text \<open>\<open>sep.join(texts)\<close>.\<close>

fun sep_texts :: "string \<Rightarrow> py_text list \<Rightarrow> py_text list" where
  "sep_texts sep [] = []"
| "sep_texts sep [t] = [t]"
| "sep_texts sep (t # ts) = t # Bytes sep # sep_texts sep ts"

definition only_text :: "tw_arg \<Rightarrow> py_text res" where
  "only_text a =
     (case a of Raw s \<Rightarrow> Inr (Bytes s) | Val (PStr s) \<Rightarrow> Inr (Uni s) | Val v \<Rightarrow> Inl (TypeError ''sequence item: expected string''))"

definition str_arg :: "(rat \<Rightarrow> string) \<Rightarrow> tw_arg \<Rightarrow> string res" where
  "str_arg fr a = (case show_arg fr a of Bytes s \<Rightarrow> Inr s | Uni s \<Rightarrow> py_str s)"

definition arg_of_text :: "py_text \<Rightarrow> tw_arg" where
  "arg_of_text t = (case t of Bytes s \<Rightarrow> Raw s | Uni s \<Rightarrow> Val (PStr s))"

definition lookup_args :: "(rat \<Rightarrow> string) \<Rightarrow> tw_arg list \<Rightarrow> tw_arg list \<Rightarrow> kwargs \<Rightarrow> kwargs res" where
  "lookup_args fr ids screen_names kw =
     rbind (if ids = [] then Inr kw
            else rbind (rmap (str_arg fr) ids) (\<lambda>ss. Inr (AList.update ''user_id'' (Raw (str_join '','' ss)) kw))) (\<lambda>kw1.
     if screen_names = [] then Inr kw1
     else rbind (rmap only_text screen_names) (\<lambda>ts. rbind (joined (sep_texts '','' ts)) (\<lambda>t.
       Inr (AList.update ''screen_name'' (arg_of_text t) kw1))))"

definition bulkUserLookup ::
    "'w twython_env \<Rightarrow> tw_arg list \<Rightarrow> tw_arg list \<Rightarrow> int \<Rightarrow> kwargs \<Rightarrow> 'w \<times> twython \<Rightarrow> ('w \<times> twython) \<times> pyval res" where
  "bulkUserLookup env ids screen_names version kw st =
     (case rbind (lookup_args (ty_float env) ids screen_names kw)
             (constructApiURL (Bytes (''http://api.twitter.com/'' @ show_int version @ ''/users/lookup.json''))) of
        Inl e \<Rightarrow> (st, Inl e)
      | Inr url \<Rightarrow> json_request env ''bulkUserLookup'' url ''POST'' st)"

section \<open>Searching\<close>

definition search ::
    "'w twython_env \<Rightarrow> kwargs \<Rightarrow> 'w \<times> twython \<Rightarrow> ('w \<times> twython) \<times> pyval res" where
  "search env kw st =
     (case constructApiURL (Bytes ''http://search.twitter.com/search.json'') kw of
        Inl e \<Rightarrow> (st, Inl e)
      | Inr url \<Rightarrow> json_request env ''getSearchTimeline'' url ''GET'' st)"

definition searchTwitter ::
    "'w twython_env \<Rightarrow> kwargs \<Rightarrow> 'w \<times> twython \<Rightarrow> ('w \<times> twython) \<times> pyval res" where
  "searchTwitter = search"

text \<open>\<open>searchGen\<close> as a machine: it fetches a page with some arguments, holds what is left of one, or is over. The
  generator that it delegates to, with the next page, is the same machine, so the nesting disappears.\<close>

datatype search_gen = Fetch kwargs | Holding "pyval list" kwargs | Over

definition search_url :: "(rat \<Rightarrow> string) \<Rightarrow> tw_arg \<Rightarrow> kwargs \<Rightarrow> py_text res" where
  "search_url fr search_query kw =
     constructApiURL (Bytes (''http://search.twitter.com/search.json?q='' @ encode fr search_query)) kw"

definition fetch_page ::
    "'w twython_env \<Rightarrow> tw_arg \<Rightarrow> kwargs \<Rightarrow> 'w \<times> twython \<Rightarrow> ('w \<times> twython) \<times> pyval list res" where
  "fetch_page env search_query kw st =
     (case search_url (ty_float env) search_query kw of
        Inl e \<Rightarrow> (st, Inl e)
      | Inr url \<Rightarrow>
          (case json_request env ''searchGen'' url ''GET'' st of
             (st1, r) \<Rightarrow> (st1, rbind r (\<lambda>data. rbind (py_item data ''results'') (\<lambda>rs. if truthy rs then py_iter rs else Inr [])))))"

definition int_arg :: "tw_arg \<Rightarrow> int res" where
  "int_arg a =
     (case a of
        Raw s \<Rightarrow> parse_int s
      | Val (PStr s) \<Rightarrow> parse_int s
      | Val (PInt i) \<Rightarrow> Inr i
      | Val (PBool b) \<Rightarrow> Inr (if b then 1 else 0)
      | Val (PFloat r) \<Rightarrow> Inr (if 0 \<le> r then \<lfloor>r\<rfloor> else \<lceil>r\<rceil>)
      | Val v \<Rightarrow> Inl (TypeError ''int() argument must be a string or a number''))"

text \<open>The clause \<open>except e\<close> names a variable that has no value.\<close>

definition next_page :: "kwargs \<Rightarrow> kwargs res" where
  "next_page kw =
     (case map_of kw ''page'' of
        None \<Rightarrow> Inr (AList.update ''page'' (Raw ''2'') kw)
      | Some v \<Rightarrow>
          (case int_arg v of
             Inr n \<Rightarrow> Inr (AList.update ''page'' (Raw (show_int (n + 1))) kw)
           | Inl (TypeError m) \<Rightarrow> Inl (twython_error ''searchGen() exited because page takes str'' None)
           | Inl x \<Rightarrow> Inl (UnboundLocalError ''e'')))"

definition start_page ::
    "'w twython_env \<Rightarrow> tw_arg \<Rightarrow> kwargs \<Rightarrow> 'w \<times> twython \<Rightarrow> (('w \<times> twython) \<times> search_gen) \<times> pyval res" where
  "start_page env search_query kw st =
     (case fetch_page env search_query kw st of
        (st1, Inl e) \<Rightarrow> ((st1, Over), Inl e)
      | (st1, Inr []) \<Rightarrow> ((st1, Over), Inl StopIteration)
      | (st1, Inr (x # xs)) \<Rightarrow> ((st1, Holding xs kw), Inr x))"

text \<open>\<open>next()\<close>: the next tweet, or \<open>StopIteration\<close>.\<close>

fun gen_next ::
    "'w twython_env \<Rightarrow> tw_arg \<Rightarrow> ('w \<times> twython) \<times> search_gen \<Rightarrow> (('w \<times> twython) \<times> search_gen) \<times> pyval res" where
  "gen_next env q (st, Over) = ((st, Over), Inl StopIteration)"
| "gen_next env q (st, Fetch kw) = start_page env q kw st"
| "gen_next env q (st, Holding (x # xs) kw) = ((st, Holding xs kw), Inr x)"
| "gen_next env q (st, Holding [] kw) =
     (case next_page kw of Inl e \<Rightarrow> ((st, Over), Inl e) | Inr kw1 \<Rightarrow> start_page env q kw1 st)"

definition searchGen :: "kwargs \<Rightarrow> search_gen" where
  "searchGen kw = Fetch kw"

definition searchTwitterGen :: "kwargs \<Rightarrow> search_gen" where
  "searchTwitterGen = searchGen"

section \<open>Lists\<close>

definition list_url :: "(rat \<Rightarrow> string) \<Rightarrow> string \<Rightarrow> int \<Rightarrow> tw_arg \<Rightarrow> tw_arg \<Rightarrow> tw_arg \<Rightarrow> py_text res" where
  "list_url fr what version username list_id i =
     joined [Bytes (''http://api.twitter.com/'' @ show_int version @ ''/''), show_arg fr username, Bytes ''/'', show_arg fr list_id,
       Bytes (''/'' @ what @ ''/'' @ repr_arg fr i @ ''.json'')]"

definition isListMember ::
    "'w twython_env \<Rightarrow> tw_arg \<Rightarrow> tw_arg \<Rightarrow> tw_arg \<Rightarrow> int \<Rightarrow> 'w \<times> twython \<Rightarrow> ('w \<times> twython) \<times> pyval res" where
  "isListMember env list_id i username version st =
     (case list_url (ty_float env) ''members'' version username list_id i of
        Inl e \<Rightarrow> (st, Inl e)
      | Inr url \<Rightarrow> json_request env ''isListMember'' url ''GET'' st)"

definition isListSubscriber ::
    "'w twython_env \<Rightarrow> tw_arg \<Rightarrow> tw_arg \<Rightarrow> tw_arg \<Rightarrow> int \<Rightarrow> 'w \<times> twython \<Rightarrow> ('w \<times> twython) \<times> pyval res" where
  "isListSubscriber env username list_id i version st =
     (case list_url (ty_float env) ''following'' version username list_id i of
        Inl e \<Rightarrow> (st, Inl e)
      | Inr url \<Rightarrow> json_request env ''isListMember'' url ''GET'' st)"

section \<open>Images\<close>

definition in_dquotes :: "py_text \<Rightarrow> py_text list" where
  "in_dquotes t = [Bytes [CHR 0x22], t, Bytes [CHR 0x22]]"

definition field_lines :: "string \<Rightarrow> string \<times> py_text \<Rightarrow> py_text list res" where
  "field_lines boundary p =
     rbind (joined (Bytes ''Content-Disposition: form-data; name='' # in_dquotes (Bytes (fst p)))) (\<lambda>d.
       Inr [Bytes (''--'' @ boundary), d, Bytes [], snd p])"

text \<open>\<open>'Content-Type: %s' % guess or 'application/octet-stream'\<close> never takes the second text.\<close>

definition file_lines :: "string \<Rightarrow> (string \<Rightarrow> string option) \<Rightarrow> string \<times> py_text \<times> string \<Rightarrow> py_text list res" where
  "file_lines boundary mime p =
     (case p of (key, filename, value) \<Rightarrow>
        rbind (joined (Bytes ''Content-Disposition: form-data; name='' # in_dquotes (Bytes key) @ Bytes ''; filename='' # in_dquotes filename)) (\<lambda>d.
          Inr [Bytes (''--'' @ boundary), d,
            Bytes (''Content-Type: '' @ (case mime (raw filename) of None \<Rightarrow> ''None'' | Some m \<Rightarrow> m)), Bytes [], Bytes value]))"

definition CRLF :: string where "CRLF = [CHR 0x0D, CHR 0x0A]"

definition encode_multipart_formdata ::
    "string \<Rightarrow> (string \<Rightarrow> string option) \<Rightarrow> (string \<times> py_text) list \<Rightarrow> (string \<times> py_text \<times> string) list \<Rightarrow> (string \<times> py_text) res" where
  "encode_multipart_formdata boundary mime form_fields files =
     rbind (rmap (field_lines boundary) form_fields) (\<lambda>fs. rbind (rmap (file_lines boundary mime) files) (\<lambda>gs.
     rbind (joined (sep_texts CRLF (concat fs @ concat gs @ [Bytes (''--'' @ boundary @ ''--''), Bytes []]))) (\<lambda>body.
       Inr (''multipart/form-data; boundary='' @ boundary, body))))"

definition upload_image ::
    "'w twython_env \<Rightarrow> string \<Rightarrow> py_text list \<Rightarrow> py_text \<Rightarrow> 'w \<Rightarrow> 'w \<times> string res" where
  "upload_image env name url_parts filename w =
     (case ty_read_file env filename w of
        (w1, Inl e) \<Rightarrow> (w1, Inl e)
      | (w1, Inr data) \<Rightarrow>
          (case ty_boundary env w1 of (w2, b) \<Rightarrow>
           (case rbind (encode_multipart_formdata b (ty_mime env) [] [(''image'', filename, data)]) (\<lambda>(ct, body).
                   rbind (joined url_parts) (\<lambda>url. Inr (ct, body, url))) of
              Inl e \<Rightarrow> (w2, Inl e)
            | Inr (ct, body, url) \<Rightarrow>
                (case ty_urlopen env url (Some body)
                        [(''Content-Type'', ct), (''Content-Length'', show_nat (length (raw body)))] w2 of
                   (w3, r) \<Rightarrow> (w3, on_http_error (\<lambda>code. twython_error (failed_with name code) (Some code)) r)))))"

definition updateProfileBackgroundImage ::
    "'w twython_env \<Rightarrow> py_text \<Rightarrow> tw_arg \<Rightarrow> int \<Rightarrow> 'w \<Rightarrow> 'w \<times> string res" where
  "updateProfileBackgroundImage env filename tile version =
     upload_image env ''updateProfileBackgroundImage''
       [Bytes (''http://api.twitter.com/'' @ show_int version @ ''/account/update_profile_background_image.json?tile=''),
        show_arg (ty_float env) tile] filename"

definition updateProfileImage :: "'w twython_env \<Rightarrow> py_text \<Rightarrow> int \<Rightarrow> 'w \<Rightarrow> 'w \<times> string res" where
  "updateProfileImage env filename version =
     upload_image env ''updateProfileImage''
       [Bytes (''http://api.twitter.com/'' @ show_int version @ ''/account/update_profile_image.json'')] filename"

text \<open>A client of its own, which does not follow redirects: the location is the answer.\<close>

definition image_answer :: "reply \<Rightarrow> tw_arg res" where
  "image_answer r =
     (if rp_status r \<in> {301, 302, 303, 307} then
        (case map_of (rp_headers r) ''location'' of None \<Rightarrow> Inl (KeyError ''location'') | Some l \<Rightarrow> Inr (Raw l))
      else if rp_status r = 200 then rbind (json_content r) (\<lambda>v. Inr (Val v))
      else Inl (twython_error (failed_with ''getProfileImageUrl'' (rp_status r)) (Some (rp_status r))))"

definition getProfileImageUrl ::
    "'w twython_env \<Rightarrow> tw_arg \<Rightarrow> tw_arg \<Rightarrow> tw_arg \<Rightarrow> 'w \<Rightarrow> 'w \<times> tw_arg res" where
  "getProfileImageUrl env username size_arg version w =
     (case rbind (joined [Bytes ''http://api.twitter.com/'', show_arg (ty_float env) version, Bytes ''/users/profile_image/'',
               show_arg (ty_float env) username, Bytes ''.json'']) (\<lambda>url.
             if tw_truthy size_arg then constructApiURL url [(''size'', size_arg)] else Inr url) of
        Inl e \<Rightarrow> (w, Inl e)
      | Inr url \<Rightarrow> (case http_send env (ty_http_stay env) url ''GET'' None [] w of (w1, r) \<Rightarrow> (w1, rbind r image_answer)))"

end
