(* ===== verification/TwythonProofs.thy ===== *)
theory TwythonProofs
  imports TwythonMethods TweepyCursor
begin

text \<open>
  What the Twitter client of the checker guarantees and what it does not: the generator of search results
  delivers every page; a signed client that has posted once does not sign its later requests in the URL; a name
  that is missing becomes 1; the page number of the generator ends up in the search text; statuses are not looked at.
\<close>

section \<open>The generator\<close>




lemma update_same [simp]: "AList.update k v (AList.update k v' d) = AList.update k v d"
  by (induction d) auto













section \<open>Signed clients\<close>













section \<open>What the calls accept\<close>

text \<open>A name that is missing becomes 1: this call destroys the first status.\<close>

lemma missing_name_is_one:
  "endpoint_url fr [] ''/statuses/destroy/{{id}}.json'' = Inr (Bytes ''http://api.twitter.com/1/statuses/destroy/1.json'')"
  by code_simp

text \<open>The arguments of a call that does not post are not quoted: a name can bring others with it.\<close>

lemma unquoted_argument:
  "parse_qsl False (concat (map raw (query_parts fr [(''screen_name'', Raw ''a&cursor=5'')]))) = [(''screen_name'', ''a''), (''cursor'', ''5'')]"
  by (simp add: show_arg_def) code_simp

text \<open>The number of the page goes into the text that is searched: the URL has a question mark already.\<close>

lemma page_is_searched:
  "search_url fr (Raw ''isabelle'') [(''page'', Raw ''2'')] = Inr (Bytes ''http://search.twitter.com/search.json?q=isabelle?page=2'')"
  "parse_qsl False ''q=isabelle?page=2'' = [(''q'', ''isabelle?page=2'')]"
proof -
  show "search_url fr (Raw ''isabelle'') [(''page'', Raw ''2'')] = Inr (Bytes ''http://search.twitter.com/search.json?q=isabelle?page=2'')"
    by (simp add: search_url_def constructApiURL_def encode_def show_arg_def quote_plus_arg_def unicode2utf8_def joined_def) code_simp
  show "parse_qsl False ''q=isabelle?page=2'' = [(''q'', ''isabelle?page=2'')]" by code_simp
qed

text \<open>A page that is given but is no number ends the generator with a variable that has no value.\<close>

lemma bad_page: "next_page [(''page'', Raw ''two'')] = Inl (UnboundLocalError ''e'')"
  by code_simp

text \<open>The status of an answer is not looked at: the JSON of an error is given like that of an answer.\<close>

lemma status_ignored:
  assumes "tw_request env url meth None st = (st1, Inr r)" "json_content r = Inr v"
  shows "json_request env name url meth st = (st1, Inr v)"
  using assms by (simp add: json_request_def on_http_error_def)

text \<open>A file whose type is not known is sent as one of type \<open>None\<close>.\<close>

lemma unknown_type_is_none:
  "mime f = None \<Longrightarrow> file_lines b mime (''image'', Bytes f, data) = Inr
     [Bytes (''--'' @ b), Bytes (''Content-Disposition: form-data; name='' @ CHR 0x22 # ''image'' @ CHR 0x22 # ''; filename='' @ CHR 0x22 # f @ [CHR 0x22]),
      Bytes ''Content-Type: None'', Bytes [], Bytes data]"
  by (simp add: file_lines_def in_dquotes_def joined_def)

text \<open>Under a unicode name a file can only be sent when its bytes are ASCII, which those of an image are not.\<close>

lemma unicode_name_refused:
  assumes "\<not> is_ascii data" "is_ascii b"
  shows "\<exists>m. encode_multipart_formdata b mime [] [(key, Uni f, data)] = Inl (ValueError m)"
  using assms by (auto simp: encode_multipart_formdata_def file_lines_def in_dquotes_def joined_def)

text \<open>A call that is neither posted nor fetched leaves its authorization in the headers of the client.\<close>

lemma authorization_stays:
  assumes "client_request now nonce m c t u ''DELETE'' body hs = Inr call" "map_of hs ''Content-Type'' = None"
  shows "\<exists>a. h_headers call = AList.update ''Authorization'' a hs"
  using assms by (auto simp: client_request_def Let_def res_simps)

end
