(* ===== verification/Spec2Isabelle.thy ===== *)
theory Spec2Isabelle
  imports Calendar Digest Facebook FileCache HttpAuth HttpCaching HttpChallenge HttpClient
    HttpConnect HttpLib2 HttpReturn Iri Json MailDate Mdns OAuth2 PersonalSignpost PyValue
    ServerDiscovery SignpostData SignpostServer SignpostTools Socks SqliteController
    TweepyApi TweepyBinder TweepyCache TweepyCursor TweepyModels TweepyOAuth TweepyPaging
    TweepyServerCaches TweepyStream TwitterAccessors TwitterApi TwitterChecker TwitterClient
    TwitterJson TwitterMethods TwitterModel Twython TwythonMethods TwythonProofs Url
begin

text \<open>
  A verification library for the Python parts of the signpost repository.

  \<^bold>\<open>The program.\<close> A \<^emph>\<open>signpost\<close> tells the devices of one person how to reach each other. On each
  device runs a small server (\<open>src/psp_python\<close>) that keeps, for every device and interface, the ports it
  offers and the processes behind them; it finds its own services by scanning the sockets of the machine, and
  the signposts of others by multicast DNS. A DNS server with a module of its own (\<open>src/server\<close>) tells a client the
  address it is seen under. The personal signpost (\<open>src/socialnet\<close>) finds friends through Twitter, keeps
  them with their keys in an SQLite address book, and sends them the own key. It reaches Twitter through
  client libraries that the repository carries along: Tweepy, Twython, python-twitter, python-oauth2 and httplib2,
  and Facebook through its SDK.

  \<^bold>\<open>Theories.\<close> Each models the files it names; the definitions carry the names of the code, or those names with a
  prefix for the class where two classes share one.

  \<^item> \<open>Prelude\<close>: results (an exception or a value), the exceptions, the string functions of Python, numerals,
    dictionaries as association lists. \<open>PyValue\<close>: the values of dynamic type that \<open>json.loads\<close> returns, with
    \<open>==\<close>, hashing, subscripts and formatting. \<open>Json\<close>, \<open>Url\<close>, \<open>Calendar\<close>, \<open>Digest\<close>: what the code uses of the
    modules \<open>json\<close>, \<open>urllib\<close> and \<open>urlparse\<close>, \<open>time\<close>, \<open>hashlib\<close>, \<open>hmac\<close> and \<open>base64\<close>, written out in
    full (with SHA-1 and MD5 on words of 32 bits) and with their round trips.
  \<^item> \<open>SignpostData\<close> (\<open>signpost_data.py\<close>): the list of servers and the nested table device, address, port,
    process. \<open>SignpostServer\<close> (\<open>signpost_server.py\<close>): the dispatch of requests over this store, with
    replies, log lines and exceptions. \<open>ServerDiscovery\<close> (\<open>server_discovery.py\<close>): the scan of the sockets and
    its comparison with the cache, which removes from the list it iterates over. \<open>Mdns\<close> (\<open>mdns.py\<close>): the
    events of Avahi as steps on the table of known signposts.
  \<^item> \<open>SqliteController\<close> (\<open>sqliteController.py\<close>): the database as tables with their constraints, and each
    method with its commits. \<open>PersonalSignpost\<close> (\<open>personalSignpost.py\<close>): synchronising
    the friends, exchanging the keys, authentication with the key file. \<open>TwitterChecker\<close> (\<open>twitterChecker.py\<close>): lookups,
    friendship and the ego network, on the calls of \<open>Twython\<close>.
  \<^item> \<open>Twython\<close>, \<open>TwythonMethods\<close> (\<open>twython.py\<close>, \<open>twitter_endpoints.py\<close>): the table of endpoints and its calls, the
    client with the headers it shares with the OAuth library (\<open>client_request\<close> of \<open>OAuth2\<close>), the tokens; bulk lookups,
    searches and their generator, lists, images. \<open>TwythonProofs\<close>: what the client guarantees and what it does not.
    \<open>Iri\<close> (\<open>iri2uri.py\<close>): the conversion of unicode URIs, and the two kinds of text of Python 2.
  \<^item> \<open>OAuth2\<close> (\<open>python-oauth2\<close>): tokens, requests, the normalised parameters, both signature methods,
    headers, and the server that verifies.
  \<^item> \<open>TwitterModel\<close>, \<open>TwitterAccessors\<close>, \<open>TwitterJson\<close>, \<open>TwitterApi\<close>, \<open>TwitterMethods\<close>, \<open>FileCache\<close>, \<open>TwitterClient\<close>
    (\<open>twitter.py\<close>): the data and their dictionaries; their attributes as pairs of getter and setter, with the times
    that \<open>MailDate\<close> reads by \<open>rfc822\<close> and \<open>calendar\<close>; their JSON texts; settings, encoding, signing and fetching; one
    definition per method of the interface; the cache of files; and what the client guarantees its callers.
  \<^item> \<open>TweepyCursor\<close>, \<open>TweepyCache\<close>, \<open>TweepyServerCaches\<close>, \<open>TweepyBinder\<close>, \<open>TweepyApi\<close>, \<open>TweepyModels\<close>, \<open>TweepyPaging\<close>
    (\<open>tweepy/tweepy\<close>): pagination; the caches in memory, in a directory and in the servers Redis and Memcache; the preparation and execution of a call; the table of
    endpoints and the methods of the class; the models and parsers; and the composition of all of them.
    \<open>TweepyOAuth\<close> (\<open>oauth.py\<close>, \<open>auth.py\<close>): the older OAuth library with its server, and the handler that signs calls.
    \<open>TweepyStream\<close> (\<open>streaming.py\<close>): the listener, the loop that reads lines and the loop that connects again.
  \<^item> \<open>HttpLib2\<close>, \<open>HttpChallenge\<close>, \<open>HttpAuth\<close>, \<open>HttpClient\<close>, \<open>HttpConnect\<close> (\<open>httplib2/__init__.py\<close>): URIs, cache keys, headers,
    freshness, cache entries, credentials, host names; the reader of authentication challenges; the
    authentication schemes; the client with its two attempts on a connection, authorizations, redirects and
    cache; and the opening of connections. \<open>HttpReturn\<close> and \<open>HttpCaching\<close> prove that requests return and that stored
    answers serve. \<open>Socks\<close> (\<open>httplib2/socks.py\<close>): the negotiations with proxies.
  \<^item> \<open>SignpostTools\<close>: the DNS module, the conversion of DNS keys, the routing lookups, the callbacks that check
    certificates. \<open>Facebook\<close>: the Graph client and the login cookie.

  \<^bold>\<open>How state and operations correspond.\<close> An object is a record of its attributes, a method a function from the
  record to the result and the record after it; the world outside (the network, files, the clock, D-Bus,
  the process table) is either an argument that says what it answers, or a state that is passed on. An
  exception is a value of type \<open>exc\<close> on the left of a sum; what was changed before it was raised stays changed,
  so every operation that can fail half-way returns its state beside the sum. Text is a list of characters,
  in the sense of byte strings; where the code tells \<open>unicode\<close> and \<open>str\<close> apart, so does the model.
  Dictionaries of Python 2 have no order the code can rely on; where a definition enumerates one, it
  enumerates it in the order of insertion, and the theorems do not depend on more than the keys being distinct
  unless they say so.

  \<^bold>\<open>Lemmas.\<close> The invariants (\<open>SignpostServer\<close>, \<open>SqliteController\<close>, \<open>Mdns\<close>) hold in every state that a sequence
  of operations reaches. Where the code has an abstract contract it is stated and refined: the table of
  \<open>Mdns\<close> is a map, the normalised parameters of \<open>OAuth2\<close> are those of RFC 3986, the iterators of
  \<open>TweepyCursor\<close> enumerate a sequence, the caches of \<open>TweepyCache\<close> are a map with times, a filled path of
  \<open>TweepyBinder\<close> is a filled template. Interfaces between components are locales, interpreted where the
  component that provides them stands: \<open>iterator\<close> and \<open>page_source\<close> for what can be paged, \<open>expiring_cache\<close>
  and \<open>cache_pair\<close> for what can cache, \<open>attribute_laws\<close> for what can be read and assigned. What is sent over the network is
  checked against a reader of the protocol (\<open>Socks\<close>, \<open>HttpAuth\<close>, \<open>TweepyOAuth\<close>), and what is opened against the sockets that are
  open (\<open>HttpConnect\<close>). Behaviour that looks unintended is stated as it is.

  \<^bold>\<open>Termination and fuel.\<close> The JSON reader and the other parsers recurse with the length of the text as fuel,
  which every step shortens. The loop that repeats a request in \<open>TweepyBinder\<close> recurses on the number of rounds
  left. Iteration over a paged method is the function \<open>collect\<close> with a bound on the calls of \<open>next\<close>; the
  theorems give a bound that suffices. A request of \<open>HttpClient\<close> calls itself for redirects and counts these levels;
  one more than the redirections allowed are enough (\<open>request_returns\<close>). Loops that need not end are partial functions
  without a result then: \<open>challenges\<close> of \<open>HttpChallenge\<close>, \<open>read_line\<close>, \<open>read_loop\<close> and \<open>run_loop\<close> of \<open>TweepyStream\<close>,
  \<open>read_answer\<close> of \<open>Socks\<close>; for each there are theorems that say when it returns. All other functions recurse structurally or on a
  measure.

  \<^bold>\<open>Not modelled.\<close> Start-up and glue around Twisted, D-Bus, OpenSSL and pcap (\<open>psp.py\<close> but for its callback, the
  measurement scripts); of httplib2 the requests of HMAC digest, whose set-up always
  raises; the bindings of SQLite in C; tests, examples, build copies and the ports to Python 3 of these libraries;
  \<open>oauthtwitter\<close>, a subclass over an OAuth library that is not in the repository, which no part of the program imports; the
  depth to which CPython nests the generators of \<open>searchGen\<close>, about a thousand pages; the
  parts of the repository in OCaml, Ruby, C and JavaScript. Debug output is left out everywhere.
\<close>

end
